(* ===== verification/RR_Prelude.thy ===== *)
theory RR_Prelude
  imports Complex_Main "HOL-Library.Multiset"
begin

text \<open>
  Shared vocabulary of the ReleaseRadar development: strings and numbers as the JavaScript
  sources use them, and the array idioms (toggling a member, swapping neighbours, filtering out an
  index, updating the entry with a given id) that recur in every component.

  A JavaScript string is modelled by its UTF-8 bytes. Concatenation, equality, substring search,
  splitting at an ASCII character and joining commute with the encoding, so they are exact;
  \<open>trim\<close>, \<open>toLowerCase\<close> and \<open>toUpperCase\<close> are the ASCII cases of the built-ins.
  Numbers are \<open>int\<close> where the code keeps whole numbers and \<open>rat\<close> where it divides, so double
  rounding is outside the model.
\<close>

named_theorems js_list \<open>the array idioms of the sources as facts on lists\<close>
named_theorems view_defs \<open>the view functions of the components\<close>

section \<open>Characters outside ASCII that the sources use in literals\<close>

abbreviation u_middot :: string where "u_middot \<equiv> [CHR 0xC2, CHR 0xB7]"
abbreviation u_mdash :: string where "u_mdash \<equiv> [CHR 0xE2, CHR 0x80, CHR 0x94]"
abbreviation u_ndash :: string where "u_ndash \<equiv> [CHR 0xE2, CHR 0x80, CHR 0x93]"
abbreviation u_ellipsis :: string where "u_ellipsis \<equiv> [CHR 0xE2, CHR 0x80, CHR 0xA6]"
abbreviation u_bullet :: string where "u_bullet \<equiv> [CHR 0xE2, CHR 0x80, CHR 0xA2]"
abbreviation u_ge :: string where "u_ge \<equiv> [CHR 0xE2, CHR 0x89, CHR 0xA5]"
abbreviation u_arrow :: string where "u_arrow \<equiv> [CHR 0xE2, CHR 0x86, CHR 0x92]"
abbreviation u_times :: string where "u_times \<equiv> [CHR 0xC3, CHR 0x97]"
abbreviation u_degree :: string where "u_degree \<equiv> [CHR 0xC2, CHR 0xB0]"
abbreviation u_ldquo :: string where "u_ldquo \<equiv> [CHR 0xE2, CHR 0x80, CHR 0x9C]"
abbreviation u_rdquo :: string where "u_rdquo \<equiv> [CHR 0xE2, CHR 0x80, CHR 0x9D]"
abbreviation u_cmd :: string where "u_cmd \<equiv> [CHR 0xE2, CHR 0x8C, CHR 0x98]"
abbreviation u_warning :: string where
  "u_warning \<equiv> [CHR 0xE2, CHR 0x9A, CHR 0xA0, CHR 0xEF, CHR 0xB8, CHR 0x8F]"
abbreviation u_ae :: string where "u_ae \<equiv> [CHR 0xC3, CHR 0xA4]"
abbreviation u_oe :: string where "u_oe \<equiv> [CHR 0xC3, CHR 0xB6]"
abbreviation u_ue :: string where "u_ue \<equiv> [CHR 0xC3, CHR 0xBC]"
abbreviation u_aacute :: string where "u_aacute \<equiv> [CHR 0xC3, CHR 0xA1]"
abbreviation u_scaron :: string where "u_scaron \<equiv> [CHR 0xC5, CHR 0xA1]"

section \<open>Strings\<close>

definition char_code :: "char \<Rightarrow> nat" where
  "char_code c = of_char c"

definition to_lower :: "char \<Rightarrow> char" where
  "to_lower c = (if 65 \<le> char_code c \<and> char_code c \<le> 90 then char_of (char_code c + 32) else c)"

definition to_upper :: "char \<Rightarrow> char" where
  "to_upper c = (if 97 \<le> char_code c \<and> char_code c \<le> 122 then char_of (char_code c - 32) else c)"

definition toLowerCase :: "string \<Rightarrow> string" where
  "toLowerCase = map to_lower"

definition toUpperCase :: "string \<Rightarrow> string" where
  "toUpperCase = map to_upper"

definition is_space :: "char \<Rightarrow> bool" where
  "is_space c \<longleftrightarrow> char_code c = 32 \<or> (9 \<le> char_code c \<and> char_code c \<le> 13)"

definition trim :: "string \<Rightarrow> string" where
  "trim s = rev (dropWhile is_space (rev (dropWhile is_space s)))"

fun starts_with :: "string \<Rightarrow> string \<Rightarrow> bool" where
  "starts_with s [] = True"
| "starts_with [] (c # cs) = False"
| "starts_with (d # ds) (c # cs) = (c = d \<and> starts_with ds cs)"

fun str_includes :: "string \<Rightarrow> string \<Rightarrow> bool" where
  "str_includes [] q = (q = [])"
| "str_includes (c # cs) q = (starts_with (c # cs) q \<or> str_includes cs q)"

definition ends_with :: "string \<Rightarrow> string \<Rightarrow> bool" where
  "ends_with s q = starts_with (rev s) (rev q)"

fun join_with :: "string \<Rightarrow> string list \<Rightarrow> string" where
  "join_with sep [] = []"
| "join_with sep [x] = x"
| "join_with sep (x # y # ys) = x @ sep @ join_with sep (y # ys)"

fun split_on :: "char \<Rightarrow> string \<Rightarrow> string list" where
  "split_on c [] = [[]]"
| "split_on c (x # xs) =
     (if x = c then [] # split_on c xs
      else (case split_on c xs of [] \<Rightarrow> [[x]] | w # ws \<Rightarrow> (x # w) # ws))"

text \<open>\<open>s.split(",").map(x => x.trim()).filter(Boolean)\<close>, the parsing of a comma-separated field.\<close>

definition comma_list :: "string \<Rightarrow> string list" where
  "comma_list s = filter (\<lambda>x. x \<noteq> []) (map trim (split_on (CHR '','') s))"

lemma starts_with_iff: "starts_with s q \<longleftrightarrow> (\<exists>t. s = q @ t)"
  by (induction s q rule: starts_with.induct) auto

lemma str_includes_iff: "str_includes s q \<longleftrightarrow> (\<exists>a b. s = a @ q @ b)"
proof (induction s)
  case Nil
  then show ?case by auto
next
  case (Cons c s)
  have "(\<exists>a b. c # s = a @ q @ b) \<longleftrightarrow> (\<exists>t. c # s = q @ t) \<or> (\<exists>a b. s = a @ q @ b)" (is "?l \<longleftrightarrow> ?r")
  proof
    assume ?l
    then obtain a b where eq: "c # s = a @ q @ b" by blast
    show ?r
    proof (cases a)
      case Nil
      with eq show ?thesis by simp
    next
      case (Cons x a')
      with eq have "s = a' @ q @ b" by simp
      then show ?thesis by blast
    qed
  next
    assume ?r
    then show ?l
    proof
      assume "\<exists>t. c # s = q @ t"
      then obtain t where "c # s = [] @ q @ t" by auto
      then show ?l by blast
    next
      assume "\<exists>a b. s = a @ q @ b"
      then obtain a b where "c # s = (c # a) @ q @ b" by auto
      then show ?l by blast
    qed
  qed
  with Cons.IH show ?case by (simp add: starts_with_iff)
qed

lemma ends_with_iff: "ends_with s q \<longleftrightarrow> (\<exists>t. s = t @ q)"
proof
  assume "ends_with s q"
  then obtain t where "rev s = rev q @ t" by (auto simp: ends_with_def starts_with_iff)
  then have "s = rev t @ q" by (metis rev_append rev_rev_ident)
  then show "\<exists>t. s = t @ q" by blast
next
  assume "\<exists>t. s = t @ q"
  then show "ends_with s q" by (auto simp: ends_with_def starts_with_iff)
qed

lemma split_on_nonempty [simp]: "split_on c s \<noteq> []"
  by (cases s) (auto split: list.splits)

lemma split_on_no_sep: "w \<in> set (split_on c s) \<Longrightarrow> c \<notin> set w"
  by (induction s arbitrary: w) (auto split: if_splits list.splits)

lemma join_split: "join_with [c] (split_on c s) = s"
proof (induction s)
  case Nil
  then show ?case by simp
next
  case (Cons x s)
  show ?case
  proof (cases "x = c")
    case True
    obtain w ws where "split_on c s = w # ws" by (meson split_on_nonempty neq_Nil_conv)
    with Cons.IH True show ?thesis by simp
  next
    case False
    obtain w ws where s: "split_on c s = w # ws" by (meson split_on_nonempty neq_Nil_conv)
    with Cons.IH False show ?thesis by (cases ws) auto
  qed
qed

lemma dropWhile_idem_hd: "dropWhile P xs \<noteq> [] \<Longrightarrow> \<not> P (hd (dropWhile P xs))"
  by (rule hd_dropWhile)

lemma trim_hd: "trim s \<noteq> [] \<Longrightarrow> \<not> is_space (hd (trim s))"
proof -
  assume ne: "trim s \<noteq> []"
  let ?d = "dropWhile is_space s"
  have suf: "\<exists>zs. ?d = trim s @ zs"
    unfolding trim_def by (metis rev_append rev_rev_ident takeWhile_dropWhile_id)
  then have "hd ?d = hd (trim s)" using ne by (metis hd_append2)
  moreover have "?d \<noteq> []" using suf ne by (metis append_is_Nil_conv)
  ultimately show ?thesis using hd_dropWhile [of is_space s] by metis
qed

lemma trim_last: "trim s \<noteq> [] \<Longrightarrow> \<not> is_space (last (trim s))"
  unfolding trim_def by (metis hd_dropWhile last_rev rev_is_Nil_conv)

lemma trim_id: "s = [] \<or> (\<not> is_space (hd s) \<and> \<not> is_space (last s)) \<Longrightarrow> trim s = s"
  unfolding trim_def
  by (metis dropWhile.simps(1) dropWhile_eq_self_iff hd_rev rev_is_Nil_conv rev_rev_ident)

lemma trim_trim [simp]: "trim (trim s) = trim s"
  by (rule trim_id) (use trim_hd trim_last in blast)

lemma trim_Nil [simp]: "trim [] = []"
  by (simp add: trim_def)

lemma set_trim: "set (trim s) \<subseteq> set s"
  unfolding trim_def by (metis set_dropWhileD set_rev subsetI)

lemma comma_list_entries:
  "w \<in> set (comma_list s) \<Longrightarrow> w \<noteq> [] \<and> trim w = w \<and> CHR '','' \<notin> set w"
  unfolding comma_list_def using set_trim split_on_no_sep by fastforce

section \<open>Printing numbers\<close>

definition digit_char :: "nat \<Rightarrow> char" where
  "digit_char d = char_of (48 + d)"

fun show_nat :: "nat \<Rightarrow> string" where
  "show_nat n = (if n < 10 then [digit_char n] else show_nat (n div 10) @ [digit_char (n mod 10)])"

declare show_nat.simps [simp del]

definition show_int :: "int \<Rightarrow> string" where
  "show_int i = (if i < 0 then CHR ''-'' # show_nat (nat (- i)) else show_nat (nat i))"

definition padStart0 :: "nat \<Rightarrow> string \<Rightarrow> string" where
  "padStart0 w s = replicate (w - length s) (CHR ''0'') @ s"

definition read_digits :: "string \<Rightarrow> nat" where
  "read_digits s = foldl (\<lambda>a c. 10 * a + (char_code c - 48)) 0 s"

lemma char_code_digit: "d < 10 \<Longrightarrow> char_code (digit_char d) = 48 + d"
  by (simp add: char_code_def digit_char_def)

lemma read_show_nat: "read_digits (show_nat n) = n"
proof (induction n rule: show_nat.induct)
  case (1 n)
  show ?case
  proof (cases "n < 10")
    case True
    then show ?thesis by (simp add: show_nat.simps [of n] read_digits_def char_code_digit)
  next
    case False
    then have "read_digits (show_nat n) = 10 * read_digits (show_nat (n div 10)) + n mod 10"
      by (simp add: show_nat.simps [of n] read_digits_def char_code_digit)
    with 1 [OF False] show ?thesis by simp
  qed
qed

lemma show_nat_inj [simp]: "show_nat m = show_nat n \<longleftrightarrow> m = n"
  by (metis read_show_nat)

lemma show_nat_digits: "c \<in> set (show_nat n) \<Longrightarrow> 48 \<le> char_code c \<and> char_code c \<le> 57"
proof (induction n rule: show_nat.induct)
  case (1 n)
  show ?case
  proof (cases "n < 10")
    case True
    with "1.prems" show ?thesis by (simp add: show_nat.simps [of n] char_code_digit)
  next
    case False
    have "n mod 10 < 10" by simp
    with 1 False show ?thesis
      by (auto simp: show_nat.simps [of n] char_code_digit dest: 1(1))
  qed
qed

lemma show_nat_ne_Nil [simp]: "show_nat n \<noteq> []"
  by (subst show_nat.simps) simp

lemma show_int_inj [simp]: "show_int i = show_int j \<longleftrightarrow> i = j"
proof
  assume eq: "show_int i = show_int j"
  have minus: "CHR ''-'' \<notin> set (show_nat n)" for n
    using show_nat_digits [of "CHR ''-''" n] by (auto simp: char_code_def)
  have "i < 0 \<longleftrightarrow> j < 0"
    using eq minus by (auto simp: show_int_def split: if_splits) (metis list.set_intros(1))+
  with eq show "i = j" by (auto simp: show_int_def split: if_splits)
qed simp

lemma read_padStart0: "read_digits (padStart0 w s) = read_digits s"
proof -
  have "read_digits (replicate k (CHR ''0'') @ s) = read_digits s" for k
    by (induction k) (simp_all add: read_digits_def char_code_def)
  then show ?thesis by (simp add: padStart0_def)
qed

lemma length_padStart0: "length s \<le> w \<Longrightarrow> length (padStart0 w s) = w"
  by (simp add: padStart0_def)

lemma length_show_nat: "n < 10 ^ Suc k \<Longrightarrow> length (show_nat n) \<le> Suc k"
proof (induction k arbitrary: n)
  case 0
  then show ?case by (subst show_nat.simps) simp
next
  case (Suc k)
  then have "n div 10 < 10 ^ Suc k" by (simp add: less_mult_imp_div_less mult.commute)
  then have "length (show_nat (n div 10)) \<le> Suc k" by (rule Suc.IH)
  then show ?case by (subst show_nat.simps) auto
qed

text \<open>\<open>Math.round\<close>: halves go up, also for negative numbers.\<close>

definition js_round :: "rat \<Rightarrow> int" where
  "js_round x = \<lfloor>x + 1 / 2\<rfloor>"

text \<open>The remainder operator takes the sign of the dividend.\<close>

definition js_mod :: "int \<Rightarrow> int \<Rightarrow> int" where
  "js_mod a b = sgn a * (\<bar>a\<bar> mod \<bar>b\<bar>)"

lemma js_mod_nonneg [simp]: "0 \<le> a \<Longrightarrow> 0 < b \<Longrightarrow> js_mod a b = a mod b"
  by (cases "a = 0") (simp_all add: js_mod_def)

lemma js_round_of_int [simp]: "js_round (of_int i) = i"
  unfolding js_round_def by (rule floor_unique) auto

lemma js_round_mono: "x \<le> y \<Longrightarrow> js_round x \<le> js_round y"
  unfolding js_round_def by (rule floor_mono) simp

section \<open>Array idioms\<close>

text \<open>\<open>arr.includes(x) ? arr.filter(y => y !== x) : [...arr, x]\<close>\<close>

definition toggle :: "'a \<Rightarrow> 'a list \<Rightarrow> 'a list" where
  "toggle x xs = (if x \<in> set xs then filter (\<lambda>y. y \<noteq> x) xs else xs @ [x])"

text \<open>\<open>arr.filter((_, idx) => idx !== i)\<close>\<close>

definition remove_at :: "nat \<Rightarrow> 'a list \<Rightarrow> 'a list" where
  "remove_at i xs = map snd (filter (\<lambda>p. fst p \<noteq> i) (enumerate 0 xs))"

text \<open>\<open>arr.map((p, idx) => idx === i ? f(p) : p)\<close>\<close>

definition map_at :: "nat \<Rightarrow> ('a \<Rightarrow> 'a) \<Rightarrow> 'a list \<Rightarrow> 'a list" where
  "map_at i f xs = map (\<lambda>p. if fst p = i then f (snd p) else snd p) (enumerate 0 xs)"

text \<open>
  \<open>const j = i + dir; if (j < 0 || j >= xs.length) return; swap xs[i] and xs[j]\<close>, for an index
  \<open>i\<close> of the array.
\<close>

definition move :: "nat \<Rightarrow> int \<Rightarrow> 'a list \<Rightarrow> 'a list" where
  "move i dir xs =
     (let j = int i + dir in
      if j < 0 \<or> j \<ge> int (length xs) then xs
      else xs[i := xs ! nat j, nat j := xs ! i])"

text \<open>A conditional child or array element: \<open>cond && x\<close>.\<close>

definition guarded :: "bool \<Rightarrow> 'a list \<Rightarrow> 'a list" where
  "guarded b xs = (if b then xs else [])"

lemma guarded_simps [simp]: "guarded True xs = xs" "guarded False xs = []"
  by (simp_all add: guarded_def)

lemma set_guarded: "set (guarded b xs) = (if b then set xs else {})"
  by (simp add: guarded_def)

lemma set_toggle [js_list]:
  "set (toggle x xs) = (if x \<in> set xs then set xs - {x} else insert x (set xs))"
  by (auto simp: toggle_def)

lemma distinct_toggle [js_list]: "distinct xs \<Longrightarrow> distinct (toggle x xs)"
  by (simp add: toggle_def)

lemma in_toggle: "y \<in> set (toggle x xs) \<longleftrightarrow> (if y = x then x \<notin> set xs else y \<in> set xs)"
  by (auto simp: set_toggle)

lemma toggle_toggle_set: "set (toggle x (toggle x xs)) = set xs"
  by (auto simp: set_toggle)

lemma toggle_toggle_new: "x \<notin> set xs \<Longrightarrow> toggle x (toggle x xs) = xs"
proof -
  assume "x \<notin> set xs"
  then have "filter (\<lambda>y. y \<noteq> x) xs = xs" by (induction xs) auto
  with \<open>x \<notin> set xs\<close> show ?thesis by (simp add: toggle_def)
qed

lemma enumerate_Suc: "enumerate (Suc n) xs = map (\<lambda>p. (Suc (fst p), snd p)) (enumerate n xs)"
  by (induction xs arbitrary: n) auto

lemma remove_at_eq [js_list]: "remove_at i xs = take i xs @ drop (Suc i) xs"
proof (induction xs arbitrary: i)
  case Nil
  then show ?case by (simp add: remove_at_def)
next
  case (Cons x xs)
  have shift: "map snd (filter (\<lambda>p. fst p \<noteq> k) (enumerate (Suc 0) xs)) =
      (if k = 0 then xs else remove_at (k - 1) xs)" for k
  proof (cases k)
    case 0
    have "filter (\<lambda>p. fst p \<noteq> 0) (enumerate (Suc 0) xs) = enumerate (Suc 0) xs"
      by (rule filter_True) (auto simp: enumerate_Suc)
    with 0 show ?thesis by simp
  next
    case (Suc m)
    have "filter ((\<lambda>p. fst p \<noteq> Suc m) \<circ> (\<lambda>p. (Suc (fst p), snd p))) (enumerate 0 xs)
        = filter (\<lambda>p. fst p \<noteq> m) (enumerate 0 xs)"
      by (rule filter_cong) auto
    with Suc show ?thesis
      by (simp add: enumerate_Suc filter_map remove_at_def comp_def)
  qed
  show ?case
  proof (cases i)
    case 0
    with shift [of 0] show ?thesis by (simp add: remove_at_def)
  next
    case (Suc m)
    then have "remove_at i (x # xs) = x # remove_at m xs"
      using shift [of i] by (simp add: remove_at_def)
    with Cons.IH [of m] Suc show ?thesis by simp
  qed
qed

lemma map_at_eq [js_list]: "map_at i f xs = (if i < length xs then xs[i := f (xs ! i)] else xs)"
  by (rule nth_equalityI)
    (auto simp: map_at_def nth_enumerate_eq nth_list_update)

lemma length_map_at [simp]: "length (map_at i f xs) = length xs"
  by (simp add: map_at_eq)

lemma length_move [simp]: "length (move i dir xs) = length xs"
  by (simp add: move_def Let_def)

lemma mset_move [js_list]: "i < length xs \<Longrightarrow> mset (move i dir xs) = mset xs"
proof -
  assume i: "i < length xs"
  have "mset (xs[i := xs ! nat (int i + dir), nat (int i + dir) := xs ! i]) = mset xs"
    if "\<not> int i + dir < 0" "\<not> int (length xs) \<le> int i + dir"
    using that i by (intro mset_swap) linarith+
  then show ?thesis by (simp add: move_def Let_def)
qed

lemma set_move: "i < length xs \<Longrightarrow> set (move i dir xs) = set xs"
  by (metis mset_eq_setD mset_move)

lemma distinct_map_move: "i < length xs \<Longrightarrow> distinct (map f (move i dir xs)) = distinct (map f xs)"
proof -
  assume "i < length xs"
  then have "mset (map f (move i dir xs)) = mset (map f xs)"
    by (simp add: mset_move)
  then show ?thesis by (rule mset_eq_imp_distinct_iff)
qed

lemma move_back:
  assumes "i < length xs" "0 \<le> int i + dir" "int i + dir < int (length xs)"
  shows "move (nat (int i + dir)) (- dir) (move i dir xs) = xs"
proof -
  let ?j = "nat (int i + dir)"
  have j: "?j < length xs" and inv: "nat (int ?j + - dir) = i" using assms by linarith+
  have m: "move i dir xs = xs[i := xs ! ?j, ?j := xs ! i]" (is "_ = ?ys")
    using assms by (simp add: move_def Let_def)
  have "move ?j (- dir) ?ys = ?ys[?j := ?ys ! i, i := ?ys ! ?j]"
    using assms inv by (simp add: move_def Let_def)
  also have "\<dots> = xs"
    by (rule nth_equalityI) (use assms(1) j in \<open>auto simp: nth_list_update\<close>)
  finally show ?thesis using m by simp
qed

lemma distinct_map_remove_at: "distinct (map f xs) \<Longrightarrow> distinct (map f (remove_at i xs))"
proof -
  assume d: "distinct (map f xs)"
  have "map f xs = map f (take i xs) @ map f (drop i xs)" by (metis append_take_drop_id map_append)
  moreover have "set (drop (Suc i) xs) \<subseteq> set (drop i xs)" by (rule set_drop_subset_set_drop) simp
  moreover have "distinct (map f (drop (Suc i) xs))"
    using d by (simp add: drop_map [symmetric] distinct_drop)
  ultimately show ?thesis using d by (auto simp: remove_at_eq)
qed

lemma set_remove_at: "set (remove_at i xs) \<subseteq> set xs"
  by (auto simp: remove_at_def set_zip enumerate_eq_zip dest: set_zip_rightD)

lemma find_Some_iff_mem:
  "List.find P xs = Some x \<Longrightarrow> x \<in> set xs \<and> P x"
  by (metis find_Some_iff nth_mem)

lemma find_None_mem: "List.find P xs = None \<longleftrightarrow> (\<forall>x \<in> set xs. \<not> P x)"
  by (auto simp: find_None_iff)

text \<open>Collecting the results of partial functions.\<close>

lemma those_Some_iff: "(\<exists>ys. those (map f xs) = Some ys) \<longleftrightarrow> (\<forall>x \<in> set xs. f x \<noteq> None)"
  by (induction xs) (auto split: option.splits)

lemma those_Some_map: "those (map f xs) = Some ys \<Longrightarrow> map f xs = map Some ys"
  by (induction xs arbitrary: ys) (auto split: option.splits)

lemma those_render: "\<forall>x \<in> set xs. f x \<noteq> None \<Longrightarrow> \<exists>ys. those (map f xs) = Some ys"
  using those_Some_iff by blast

lemma those_in: "those (map f xs) = Some ys \<Longrightarrow> y \<in> set ys \<Longrightarrow> \<exists>x \<in> set xs. f x = Some y"
  by (induction xs arbitrary: ys) (auto split: option.splits)

end
