(* ===== verification/RR_Date.thy ===== *)
theory RR_Date
  imports RR_Prelude
begin

text \<open>
  The part of the JavaScript \<open>Date\<close> object the sources use. A date is its time value, whole
  milliseconds since the epoch (\<open>int\<close>). The calendar follows the language definition (days from
  a year, the month table, \<open>MakeDay\<close>); the host's time zone and its locale data are a record
  \<open>host\<close>, an argument of every operation that reads local time. What the theorems need of the
  zone, that the local midnight of a day exists, is the hypothesis \<open>regular_day\<close>.
\<close>

section \<open>The calendar\<close>

definition ms_per_day :: int where "ms_per_day = 86400000"

definition leap :: "int \<Rightarrow> bool" where
  "leap y \<longleftrightarrow> (y mod 4 = 0 \<and> y mod 100 \<noteq> 0) \<or> y mod 400 = 0"

definition day_from_year :: "int \<Rightarrow> int" where
  "day_from_year y =
     365 * (y - 1970) + (y - 1969) div 4 - (y - 1901) div 100 + (y - 1601) div 400"

definition year_from_day :: "int \<Rightarrow> int" where
  "year_from_day d =
     (let y = 1970 + (400 * d) div 146097 in
      if d < day_from_year y then y - 1
      else if day_from_year (y + 1) \<le> d then y + 1 else y)"

definition leap_day :: "int \<Rightarrow> int" where
  "leap_day y = (if leap y then 1 else 0)"

text \<open>Days of the year before the first of month \<open>m\<close> (0 is January), with \<open>l\<close> the leap day.\<close>

definition month_start :: "int \<Rightarrow> int \<Rightarrow> int" where
  "month_start l m =
     (if m \<le> 0 then 0 else if m = 1 then 31 else if m = 2 then 59 + l else if m = 3 then 90 + l
      else if m = 4 then 120 + l else if m = 5 then 151 + l else if m = 6 then 181 + l
      else if m = 7 then 212 + l else if m = 8 then 243 + l else if m = 9 then 273 + l
      else if m = 10 then 304 + l else if m = 11 then 334 + l else 365 + l)"

definition month_of_yday :: "int \<Rightarrow> int \<Rightarrow> int" where
  "month_of_yday l d =
     (if d < 31 then 0 else if d < 59 + l then 1 else if d < 90 + l then 2 else if d < 120 + l then 3
      else if d < 151 + l then 4 else if d < 181 + l then 5 else if d < 212 + l then 6
      else if d < 243 + l then 7 else if d < 273 + l then 8 else if d < 304 + l then 9
      else if d < 334 + l then 10 else 11)"

definition make_day :: "int \<Rightarrow> int \<Rightarrow> int \<Rightarrow> int" where
  "make_day y m dt =
     (let ym = y + m div 12; mn = m mod 12 in
      day_from_year ym + month_start (leap_day ym) mn + dt - 1)"

definition month_from_day :: "int \<Rightarrow> int" where
  "month_from_day d =
     (let y = year_from_day d in month_of_yday (leap_day y) (d - day_from_year y))"

definition date_from_day :: "int \<Rightarrow> int" where
  "date_from_day d =
     (let y = year_from_day d; yd = d - day_from_year y in
      yd - month_start (leap_day y) (month_of_yday (leap_day y) yd) + 1)"

text \<open>Sunday is 0, as for \<open>getDay\<close>; day 0 was a Thursday.\<close>

definition weekday :: "int \<Rightarrow> int" where
  "weekday d = (d + 4) mod 7"

definition days_in_month :: "int \<Rightarrow> int \<Rightarrow> int" where
  "days_in_month y m = month_start (leap_day y) (m + 1) - month_start (leap_day y) m"

lemma div_no_carry: "(x + 1) div n = x div n" if "x mod n + 1 < n" "0 < n" for x n :: int
proof -
  have nn: "0 \<le> x mod n + 1" using that(2) pos_mod_sign [of n x] by linarith
  have z: "(x mod n + 1) div n = 0" using nn that(1) by (rule div_pos_pos_trivial)
  have "(x mod n + 1 + n * (x div n)) div n = x div n + (x mod n + 1) div n"
    using that(2) by (intro div_mult_self2) simp
  moreover have "x mod n + 1 + n * (x div n) = x + 1" using mult_div_mod_eq [of n x] by linarith
  ultimately show ?thesis using z by simp
qed

lemma div_succ: "0 < n \<Longrightarrow> (x + 1) div n = x div n + (if (x + 1) mod n = 0 then 1 else 0)" for n x :: int
proof (cases "x mod n = n - 1")
  case True
  assume n: "0 < n"
  then have eq: "x + 1 = n * (x div n + 1)"
    using True mult_div_mod_eq [of n x] by (simp only: distrib_left mult_1_right)
  then have "(x + 1) div n = x div n + 1" using n by (metis nonzero_mult_div_cancel_left order_less_irrefl)
  moreover have "(x + 1) mod n = 0" by (subst eq) simp
  ultimately show ?thesis by simp
next
  case False
  assume n: "0 < n"
  then have lt: "x mod n + 1 < n" using False pos_mod_bound [of n x] by linarith
  then have d: "(x + 1) div n = x div n" using n by (rule div_no_carry)
  have "(x + 1) mod n = x mod n + 1"
    using mult_div_mod_eq [of n x] mult_div_mod_eq [of n "x + 1", unfolded d] by linarith
  moreover have "x mod n + 1 \<noteq> 0" using pos_mod_sign [OF n, of x] by linarith
  ultimately show ?thesis using d by simp
qed

lemma mod_shift: "0 < n \<Longrightarrow> (y - 1 + 1 - k) mod n = 0 \<longleftrightarrow> y mod n = k mod n" for n y k :: int
  by (simp add: mod_eq_dvd_iff flip: dvd_eq_mod_eq_0)

lemma day_from_year_Suc: "day_from_year (y + 1) = day_from_year y + 365 + leap_day y"
proof -
  have a: "(y + 1 - 1969) div 4 = (y - 1969) div 4 + (if y mod 4 = 0 then 1 else 0)"
    using div_succ [of 4 "y - 1969"] mod_shift [of 4 y 1968] by (simp add: algebra_simps)
  have b: "(y + 1 - 1901) div 100 = (y - 1901) div 100 + (if y mod 100 = 0 then 1 else 0)"
    using div_succ [of 100 "y - 1901"] mod_shift [of 100 y 1900] by (simp add: algebra_simps)
  have c: "(y + 1 - 1601) div 400 = (y - 1601) div 400 + (if y mod 400 = 0 then 1 else 0)"
    using div_succ [of 400 "y - 1601"] mod_shift [of 400 y 1600] by (simp add: algebra_simps)
  have i1: "y mod 100 = 0 \<Longrightarrow> y mod 4 = 0" and i2: "y mod 400 = 0 \<Longrightarrow> y mod 100 = 0"
    using dvd_trans [of 4 100 y] dvd_trans [of 100 400 y] by (simp_all add: mod_eq_0_iff_dvd)
  show ?thesis
    unfolding day_from_year_def a b c leap_day_def leap_def using i1 i2 by auto
qed

lemma leap_day_bounds: "0 \<le> leap_day y" "leap_day y \<le> 1"
  by (simp_all add: leap_day_def)

lemma day_from_year_less: "a < b \<Longrightarrow> day_from_year a + 365 \<le> day_from_year b"
proof (induction "nat (b - a)" arbitrary: b)
  case 0
  then show ?case by simp
next
  case (Suc n)
  show ?case
  proof (cases "b = a + 1")
    case True
    then show ?thesis using day_from_year_Suc [of a] leap_day_bounds [of a] by simp
  next
    case False
    with Suc have "day_from_year a + 365 \<le> day_from_year (b - 1)" by (intro Suc.hyps) auto
    then show ?thesis using day_from_year_Suc [of "b - 1"] leap_day_bounds [of "b - 1"] by simp
  qed
qed

lemma day_from_year_approx:
  "146097 * (y - 1970) - 506 \<le> 400 * day_from_year y"
  "400 * day_from_year y \<le> 146097 * (y - 1970) + 589"
proof -
  have aux: "400 * (365 * Y + q4 - q100 + q400) = 146097 * Y + 193 - 100 * r4 + 4 * r100 - r400"
    if "Y + 1 = 4 * q4 + r4" "Y + 69 = 100 * q100 + r100" "Y + 369 = 400 * q400 + r400"
    for Y q4 r4 q100 r100 q400 r400 :: int
  proof -
    have "400 * q4 = 100 * (Y + 1) - 100 * r4" "400 * q100 = 4 * (Y + 69) - 4 * r100"
      "400 * q400 = Y + 369 - r400"
      using that by simp_all
    then show ?thesis by (simp only: right_diff_distrib distrib_left)
  qed
  have "(y - 1970) + 1 = 4 * ((y - 1969) div 4) + (y - 1969) mod 4"
    "(y - 1970) + 69 = 100 * ((y - 1901) div 100) + (y - 1901) mod 100"
    "(y - 1970) + 369 = 400 * ((y - 1601) div 400) + (y - 1601) mod 400"
    by simp_all
  then have eq: "400 * day_from_year y = 146097 * (y - 1970) + 193 - 100 * ((y - 1969) mod 4)
      + 4 * ((y - 1901) mod 100) - (y - 1601) mod 400"
    unfolding day_from_year_def by (rule aux)
  have r: "0 \<le> (y - 1969) mod 4" "(y - 1969) mod 4 \<le> 3" "0 \<le> (y - 1901) mod 100"
    "(y - 1901) mod 100 \<le> 99" "0 \<le> (y - 1601) mod 400" "(y - 1601) mod 400 \<le> 399"
    by simp_all
  show "146097 * (y - 1970) - 506 \<le> 400 * day_from_year y"
    unfolding eq using r(2,3,6) by simp
  show "400 * day_from_year y \<le> 146097 * (y - 1970) + 589"
    unfolding eq using r(1,4,5) by simp
qed

lemma year_from_day_bounds:
  "day_from_year (year_from_day d) \<le> d" "d < day_from_year (year_from_day d + 1)"
proof -
  define y where "y = 1970 + (400 * d) div 146097"
  obtain r where r: "400 * d = 146097 * (y - 1970) + r" and b: "0 \<le> r" "r < 146097"
    by (rule that [of "(400 * d) mod 146097"]) (simp_all add: y_def)
  have "400 * day_from_year (y - 1) \<le> 400 * d" using r b day_from_year_approx(2) [of "y - 1"] by simp
  then have lo: "day_from_year (y - 1) \<le> d" by simp
  have "400 * d < 400 * day_from_year (y + 1 + 1)"
    using r b day_from_year_approx(1) [of "y + 1 + 1"] by simp
  then have hi: "d < day_from_year (y + 1 + 1)" by simp
  have yd: "year_from_day d = (if d < day_from_year y then y - 1
      else if day_from_year (y + 1) \<le> d then y + 1 else y)"
    by (simp add: year_from_day_def y_def Let_def)
  show "day_from_year (year_from_day d) \<le> d" "d < day_from_year (year_from_day d + 1)"
    using lo hi by (simp_all add: yd)
qed

lemma year_from_day_unique:
  assumes "day_from_year y \<le> d" "d < day_from_year (y + 1)"
  shows "year_from_day d = y"
proof (rule ccontr)
  assume "year_from_day d \<noteq> y"
  then consider "year_from_day d + 1 \<le> y" | "y + 1 \<le> year_from_day d" by linarith
  then show False
  proof cases
    case 1
    then have "day_from_year (year_from_day d + 1) \<le> day_from_year y"
      using day_from_year_less [of "year_from_day d + 1" y] by (cases "year_from_day d + 1 = y") auto
    with year_from_day_bounds(2) [of d] assms(1) show False by linarith
  next
    case 2
    then have "day_from_year (y + 1) \<le> day_from_year (year_from_day d)"
      using day_from_year_less [of "y + 1" "year_from_day d"] by (cases "y + 1 = year_from_day d") auto
    with year_from_day_bounds(1) [of d] assms(2) show False by linarith
  qed
qed

lemma month_of_yday_bounds: "0 \<le> month_of_yday l d" "month_of_yday l d \<le> 11"
  by (simp_all add: month_of_yday_def)

lemma month_start_of_yday:
  assumes "0 \<le> l" "l \<le> 1" "0 \<le> d" "d < 365 + l"
  shows "month_start l (month_of_yday l d) \<le> d" "d < month_start l (month_of_yday l d + 1)"
  using assms by (simp_all add: month_of_yday_def month_start_def)

lemma month_of_yday_unique:
  assumes "0 \<le> l" "l \<le> 1" "0 \<le> m" "m \<le> 11" "month_start l m \<le> d" "d < month_start l (m + 1)"
  shows "month_of_yday l d = m"
proof -
  have "m = 0 \<or> m = 1 \<or> m = 2 \<or> m = 3 \<or> m = 4 \<or> m = 5 \<or> m = 6 \<or> m = 7 \<or> m = 8 \<or> m = 9 \<or> m = 10 \<or> m = 11"
    using assms(3,4) by presburger
  then show ?thesis
    using assms(1,2,5,6) by (elim disjE) (simp_all add: month_start_def month_of_yday_def)
qed

lemma month_start_bounds: "0 \<le> l \<Longrightarrow> 0 \<le> month_start l m \<and> month_start l m \<le> 365 + l"
  by (simp add: month_start_def)

lemma make_day_in_year: "0 \<le> m \<Longrightarrow> m \<le> 11 \<Longrightarrow>
    make_day y m dt = day_from_year y + month_start (leap_day y) m + dt - 1"
  by (simp add: make_day_def Let_def)

lemma make_day_add: "make_day y m (dt + n) = make_day y m dt + n"
  by (simp add: make_day_def Let_def)

lemma make_day_of_day: "make_day (year_from_day d) (month_from_day d) (date_from_day d) = d"
  using month_of_yday_bounds
  by (simp add: make_day_in_year month_from_day_def date_from_day_def Let_def)

lemma civil_of_make_day:
  assumes m: "0 \<le> m" "m \<le> 11" and dt: "1 \<le> dt" "dt \<le> days_in_month y m"
  shows "year_from_day (make_day y m dt) = y"
    "month_from_day (make_day y m dt) = m"
    "date_from_day (make_day y m dt) = dt"
proof -
  let ?l = "leap_day y" and ?d = "make_day y m dt"
  have d: "?d = day_from_year y + month_start ?l m + dt - 1" using m by (simp add: make_day_in_year)
  have lb: "0 \<le> ?l" "?l \<le> 1" by (rule leap_day_bounds)+
  have ms: "month_start ?l m \<le> ?d - day_from_year y" "?d - day_from_year y < month_start ?l (m + 1)"
    using dt d by (simp_all add: days_in_month_def)
  have bnd: "0 \<le> month_start ?l m" "month_start ?l (m + 1) \<le> 365 + ?l"
    using month_start_bounds [OF lb(1)] by simp_all
  show y: "year_from_day ?d = y"
    by (rule year_from_day_unique) (use ms bnd day_from_year_Suc [of y] in linarith)+
  have mo: "month_of_yday ?l (?d - day_from_year y) = m"
    using lb m ms by (rule month_of_yday_unique)
  show "month_from_day ?d = m" by (simp add: month_from_day_def y mo)
  show "date_from_day ?d = dt" unfolding date_from_day_def y mo Let_def using d by simp
qed

lemma weekday_range: "0 \<le> weekday d" "weekday d \<le> 6"
  by (simp_all add: weekday_def)

section \<open>Date values and the host\<close>

text \<open>
  \<open>off_utc\<close> is the zone's offset at an instant, \<open>off_loc\<close> the offset the host picks for a local
  time, both in milliseconds; \<open>locale_date\<close> is \<open>toLocaleDateString("en-GB", options)\<close>, whose
  text is implementation-defined.
\<close>

record host =
  off_utc :: "int \<Rightarrow> int"
  off_loc :: "int \<Rightarrow> int"
  locale_date :: "(string \<times> string) list \<Rightarrow> int \<Rightarrow> string"

definition local_time :: "host \<Rightarrow> int \<Rightarrow> int" where
  "local_time h t = t + off_utc h t"

definition utc_of_local :: "host \<Rightarrow> int \<Rightarrow> int" where
  "utc_of_local h l = l - off_loc h l"

definition local_day :: "host \<Rightarrow> int \<Rightarrow> int" where
  "local_day h t = local_time h t div ms_per_day"

definition getDay :: "host \<Rightarrow> int \<Rightarrow> int" where
  "getDay h t = weekday (local_day h t)"

definition getFullYear :: "host \<Rightarrow> int \<Rightarrow> int" where
  "getFullYear h t = year_from_day (local_day h t)"

definition getMonth :: "host \<Rightarrow> int \<Rightarrow> int" where
  "getMonth h t = month_from_day (local_day h t)"

definition getDate :: "host \<Rightarrow> int \<Rightarrow> int" where
  "getDate h t = date_from_day (local_day h t)"

text \<open>
  \<open>new Date(y, m, dt)\<close>: local midnight; the constructor reads a two-digit year as one of the
  twentieth century.
\<close>

definition full_year :: "int \<Rightarrow> int" where
  "full_year y = (if 0 \<le> y \<and> y \<le> 99 then 1900 + y else y)"

definition new_date :: "host \<Rightarrow> int \<Rightarrow> int \<Rightarrow> int \<Rightarrow> int" where
  "new_date h y m dt = utc_of_local h (make_day (full_year y) m dt * ms_per_day)"

definition set_date :: "host \<Rightarrow> int \<Rightarrow> int \<Rightarrow> int" where
  "set_date h t dt =
     utc_of_local h (make_day (getFullYear h t) (getMonth h t) dt * ms_per_day
       + local_time h t mod ms_per_day)"

text \<open>
  \<open>t.toISOString().slice(0, 10)\<close>: the date of the instant in UTC; years outside 0 to 9999 are
  printed with a sign and six digits, so the slice cuts them short.
\<close>

definition two_digits :: "int \<Rightarrow> string" where
  "two_digits n = padStart0 2 (show_int n)"

definition iso_year :: "int \<Rightarrow> string" where
  "iso_year y =
     (if 0 \<le> y \<and> y \<le> 9999 then padStart0 4 (show_int y)
      else (if y < 0 then CHR ''-'' else CHR ''+'') # padStart0 6 (show_int \<bar>y\<bar>))"

definition iso_day :: "int \<Rightarrow> string" where
  "iso_day d =
     take 10 (iso_year (year_from_day d) @ ''-'' @ two_digits (month_from_day d + 1) @ ''-'' @
       two_digits (date_from_day d))"

text \<open>
  What the theorems ask of the zone. \<open>keeps_day\<close>: turning a local time into an instant and back
  stays on the same civil day (a clock change moves the time by an hour inside the day).
  \<open>regular_day\<close>: the local midnight of that day exists.
\<close>

definition midnight :: "host \<Rightarrow> int \<Rightarrow> int" where
  "midnight h n = utc_of_local h (n * ms_per_day)"

definition keeps_day :: "host \<Rightarrow> bool" where
  "keeps_day h \<longleftrightarrow> (\<forall>l. local_day h (utc_of_local h l) = l div ms_per_day)"

definition regular_day :: "host \<Rightarrow> int \<Rightarrow> bool" where
  "regular_day h n \<longleftrightarrow> off_utc h (midnight h n) = off_loc h (n * ms_per_day)"

definition utc_host :: host where
  "utc_host = \<lparr>off_utc = (\<lambda>_. 0), off_loc = (\<lambda>_. 0), locale_date = (\<lambda>_ _. [])\<rparr>"

lemma local_midnight [simp]: "regular_day h n \<Longrightarrow> local_time h (midnight h n) = n * ms_per_day"
  by (simp add: regular_day_def local_time_def midnight_def utc_of_local_def)

lemma ms_pos [simp]: "0 < ms_per_day"
  by (simp add: ms_per_day_def)

lemma ms_div [simp]: "n * ms_per_day div ms_per_day = n" and ms_mod [simp]: "n * ms_per_day mod ms_per_day = 0"
  using ms_pos by (metis nonzero_mult_div_cancel_right less_irrefl, simp)

lemma local_day_midnight [simp]: "regular_day h n \<Longrightarrow> local_day h (midnight h n) = n"
  by (simp add: local_day_def)

lemma new_date_midnight: "\<not> (0 \<le> y \<and> y \<le> 99) \<Longrightarrow> new_date h y m dt = midnight h (make_day y m dt)"
  by (auto simp: new_date_def midnight_def full_year_def)

lemma set_date_shift: "set_date h t (getDate h t + n) =
    utc_of_local h (local_time h t + n * ms_per_day)"
proof -
  let ?l = "local_time h t" and ?d = "local_day h t"
  have "make_day (getFullYear h t) (getMonth h t) (getDate h t + n) = ?d + n"
    by (simp add: getFullYear_def getMonth_def getDate_def make_day_add make_day_of_day)
  then show ?thesis
    by (simp add: set_date_def local_day_def algebra_simps)
qed

lemma set_date_midnight: "regular_day h d \<Longrightarrow>
    set_date h (midnight h d) (getDate h (midnight h d) + n) = midnight h (d + n)"
  unfolding set_date_shift by (simp add: midnight_def [of h "d + n"] algebra_simps)

lemma day_shift: "(l + n * ms_per_day) div ms_per_day = l div ms_per_day + n"
  by (simp add: ms_per_day_def)

lemma local_day_set_date [simp]: "keeps_day h \<Longrightarrow>
    local_day h (set_date h t (getDate h t + n)) = local_day h t + n"
  unfolding set_date_shift by (simp add: keeps_day_def day_shift local_day_def [of h t])

lemma local_day_new_date [simp]: "keeps_day h \<Longrightarrow>
    local_day h (new_date h y m dt) = make_day (full_year y) m dt"
  by (simp add: keeps_day_def new_date_def)

lemma utc_keeps_day [simp]: "keeps_day utc_host"
  by (simp add: keeps_day_def utc_host_def local_day_def local_time_def utc_of_local_def)

lemma utc_regular_day [simp]: "regular_day utc_host n"
  by (simp add: regular_day_def utc_host_def)

lemma iso_year_length: "0 \<le> y \<Longrightarrow> y \<le> 9999 \<Longrightarrow> length (iso_year y) = 4"
  using length_show_nat [of "nat y" 3] by (simp add: iso_year_def length_padStart0 show_int_def)

lemma two_digits_length: "0 \<le> n \<Longrightarrow> n \<le> 99 \<Longrightarrow> length (two_digits n) = 2"
  using length_show_nat [of "nat n" 1] by (simp add: two_digits_def length_padStart0 show_int_def nat_less_iff)

lemma two_digits_inj:
  "0 \<le> m \<Longrightarrow> 0 \<le> n \<Longrightarrow> two_digits m = two_digits n \<longleftrightarrow> m = n"
proof -
  assume "0 \<le> m" "0 \<le> n"
  then have "read_digits (two_digits m) = nat m" "read_digits (two_digits n) = nat n"
    by (simp_all add: two_digits_def read_padStart0 show_int_def read_show_nat)
  with \<open>0 \<le> m\<close> \<open>0 \<le> n\<close> show ?thesis by (metis eq_nat_nat_iff)
qed

lemma month_date_bounds:
  "0 \<le> month_from_day d" "month_from_day d \<le> 11" "1 \<le> date_from_day d" "date_from_day d \<le> 31"
proof -
  let ?y = "year_from_day d"
  let ?l = "leap_day ?y" and ?yd = "d - day_from_year ?y"
  have yd: "0 \<le> ?yd" "?yd < 365 + ?l"
    using year_from_day_bounds [of d] day_from_year_Suc [of ?y] by simp_all
  note ms = month_start_of_yday [OF leap_day_bounds yd]
  have "month_start l (m + 1) - month_start l m \<le> 31" if "0 \<le> l" "l \<le> 1" "0 \<le> m" for l m :: int
    using that by (simp add: month_start_def)
  note dm = this [OF leap_day_bounds [of ?y] month_of_yday_bounds(1) [of ?l ?yd]]
  show "0 \<le> month_from_day d" "month_from_day d \<le> 11"
    using month_of_yday_bounds by (simp_all add: month_from_day_def Let_def)
  show "1 \<le> date_from_day d" "date_from_day d \<le> 31"
    using ms dm by (simp_all add: date_from_day_def Let_def)
qed

lemma civil_inj:
  "year_from_day a = year_from_day b \<Longrightarrow> month_from_day a = month_from_day b \<Longrightarrow>
   date_from_day a = date_from_day b \<Longrightarrow> a = b"
  by (metis make_day_of_day)

text \<open>The ten-character key identifies the UTC day, for the years that print with four digits.\<close>

lemma iso_day_inj:
  assumes "0 \<le> year_from_day a" "year_from_day a \<le> 9999" "0 \<le> year_from_day b" "year_from_day b \<le> 9999"
  shows "iso_day a = iso_day b \<longleftrightarrow> a = b"
proof
  assume eq: "iso_day a = iso_day b"
  have len: "length (iso_year (year_from_day a)) = 4" "length (iso_year (year_from_day b)) = 4"
    "length (two_digits (month_from_day a + 1)) = 2" "length (two_digits (month_from_day b + 1)) = 2"
    "length (two_digits (date_from_day a)) = 2" "length (two_digits (date_from_day b)) = 2"
    using assms month_date_bounds [of a] month_date_bounds [of b]
    by (simp_all add: iso_year_length two_digits_length)
  from eq len have y: "iso_year (year_from_day a) = iso_year (year_from_day b)"
    and m: "two_digits (month_from_day a + 1) = two_digits (month_from_day b + 1)"
    and d: "two_digits (date_from_day a) = two_digits (date_from_day b)"
    by (simp_all add: iso_day_def append_eq_append_conv)
  have "read_digits (iso_year (year_from_day x)) = nat (year_from_day x)"
    if "0 \<le> year_from_day x" "year_from_day x \<le> 9999" for x
    using that by (simp add: iso_year_def read_padStart0 show_int_def read_show_nat)
  with y assms have "year_from_day a = year_from_day b" by (metis eq_nat_nat_iff)
  moreover from m d have "month_from_day a = month_from_day b" "date_from_day a = date_from_day b"
    using month_date_bounds [of a] month_date_bounds [of b] by (simp_all add: two_digits_inj)
  ultimately show "a = b" by (rule civil_inj)
qed simp

end
