(* ===== verification/RR_ScheduleRules.thy ===== *)
theory RR_ScheduleRules
  imports RR_Date
begin

text \<open>
  The scheduling guardrails of \<open>src/frontend/src/app/core/schedule-rules.ts\<close>: Easter Sunday, the
  public holidays of the canton of Bern and the warnings shown before a rollout is planned on a
  Friday, a holiday or the eve of one. The rules are compared with a reference on civil days: the
  ecclesiastical full moon for Easter and a table of days for the holidays.
\<close>

section \<open>The code\<close>

definition pad :: "int \<Rightarrow> string" where
  "pad n = padStart0 2 (show_int n)"

definition key :: "host \<Rightarrow> int \<Rightarrow> string" where
  "key h d = show_int (getFullYear h d) @ ''-'' @ pad (getMonth h d + 1) @ ''-'' @ pad (getDate h d)"

definition easterSunday :: "host \<Rightarrow> int \<Rightarrow> int" where
  "easterSunday h year =
     (let a = js_mod year 19;
          b = year div 100;
          c = js_mod year 100;
          d = b div 4;
          e = js_mod b 4;
          f = (b + 8) div 25;
          g = (b - f + 1) div 3;
          hh = js_mod (19 * a + b - d - g + 15) 30;
          i = c div 4;
          k = js_mod c 4;
          l = js_mod (32 + 2 * e + 2 * i - hh - k) 7;
          m = (a + 11 * hh + 22 * l) div 451;
          month = (hh + l - 7 * m + 114) div 31;
          day = js_mod (hh + l - 7 * m + 114) 31 + 1
      in new_date h year (month - 1) day)"

definition addDaysLocal :: "host \<Rightarrow> int \<Rightarrow> int \<Rightarrow> int" where
  "addDaysLocal h d n = set_date h d (getDate h d + n)"

definition bernHolidays :: "host \<Rightarrow> int \<Rightarrow> string \<rightharpoonup> string" where
  "bernHolidays h year =
     (let easter = easterSunday h year in
      Map.empty
        (key h (new_date h year 0 1) \<mapsto> ''Neujahr'',
         key h (new_date h year 0 2) \<mapsto> ''Berchtoldstag'',
         key h (addDaysLocal h easter (- 2)) \<mapsto> ''Karfreitag'',
         key h (addDaysLocal h easter 1) \<mapsto> ''Ostermontag'',
         key h (addDaysLocal h easter 39) \<mapsto> ''Auffahrt'',
         key h (addDaysLocal h easter 50) \<mapsto> ''Pfingstmontag'',
         key h (new_date h year 7 1) \<mapsto> ''Bundesfeier'',
         key h (new_date h year 11 25) \<mapsto> ''Weihnachten'',
         key h (new_date h year 11 26) \<mapsto> ''Stephanstag''))"

definition truthy_name :: "string option \<Rightarrow> string option" where
  "truthy_name v = (case v of Some n \<Rightarrow> if n = [] then None else Some n | None \<Rightarrow> None)"

definition scheduleWarnings :: "host \<Rightarrow> int \<Rightarrow> string list" where
  "scheduleWarnings h d =
     (let holidays = bernHolidays h (getFullYear h d) in
      guarded (getDay h d = 5) [''Freitag '' @ u_mdash @ '' keine Rollouts an Freitagen''] @
      (case truthy_name (holidays (key h d)) of
         Some today \<Rightarrow> [''Berner Feiertag: '' @ today] | None \<Rightarrow> []) @
      (case truthy_name (holidays (key h (addDaysLocal h d 1))) of
         Some next \<Rightarrow> [''Tag vor Berner Feiertag ('' @ next @ '')''] | None \<Rightarrow> []))"

section \<open>Keys name civil days\<close>

definition day_key :: "int \<Rightarrow> string" where
  "day_key n = show_int (year_from_day n) @ ''-'' @ pad (month_from_day n + 1) @ ''-'' @ pad (date_from_day n)"

lemma key_day: "key h d = day_key (local_day h d)"
  by (simp add: key_def day_key_def getFullYear_def getMonth_def getDate_def)

lemma pad_two_digits: "pad n = two_digits n"
  by (simp add: pad_def two_digits_def)

lemma day_key_inj [simp]: "day_key a = day_key b \<longleftrightarrow> a = b"
proof
  assume eq: "day_key a = day_key b"
  have len: "length (pad (month_from_day x + 1)) = 2" "length (pad (date_from_day x)) = 2" for x
    using month_date_bounds [of x] by (simp_all add: pad_two_digits two_digits_length)
  from eq len have "show_int (year_from_day a) = show_int (year_from_day b)"
    "pad (month_from_day a + 1) = pad (month_from_day b + 1)" "pad (date_from_day a) = pad (date_from_day b)"
    by (simp_all add: day_key_def append_eq_append_conv)
  then have "year_from_day a = year_from_day b" "month_from_day a = month_from_day b"
    "date_from_day a = date_from_day b"
    using month_date_bounds [of a] month_date_bounds [of b]
    by (simp_all add: pad_two_digits two_digits_inj)
  then show "a = b" by (rule civil_inj)
qed simp

lemma local_day_addDaysLocal [simp]:
  "keeps_day h \<Longrightarrow> local_day h (addDaysLocal h d n) = local_day h d + n"
  by (simp add: addDaysLocal_def)

section \<open>Easter\<close>

text \<open>
  The reference: the ecclesiastical full moon falls \<open>moon_age\<close> days after 21 March, a day earlier
  in the two exceptional cases, and Easter is the first Sunday strictly after it.
\<close>

definition moon_age :: "int \<Rightarrow> int" where
  "moon_age y = (19 * (y mod 19) + y div 100 - y div 400 - (8 * (y div 100) + 13) div 25 + 15) mod 30"

definition paschal_moon :: "int \<Rightarrow> int" where
  "paschal_moon y =
     make_day y 2 21 + moon_age y -
       (if moon_age y = 29 \<or> (moon_age y = 28 \<and> y mod 19 > 10) then 1 else 0)"

definition easter_reference :: "int \<Rightarrow> int" where
  "easter_reference y = paschal_moon y + (7 - weekday (paschal_moon y))"

text \<open>The correction term of the algorithm is the one of the reference.\<close>

lemma lunar_correction: "(b - (b + 8) div 25 + 1) div 3 = (8 * b + 13) div 25" for b :: int
proof -
  obtain q r where b: "b + 8 = 25 * q + r" "0 \<le> r" "r < 25"
    using mult_div_mod_eq [of 25 "b + 8"] pos_mod_bound [of 25 "b + 8"] pos_mod_sign [of 25 "b + 8"]
    by (metis zero_less_numeral)
  have q: "(b + 8) div 25 = q" unfolding b(1) using b(2,3) by simp
  have s: "b - q + 1 = 3 * (8 * q) + (r - 7)" "8 * b + 13 = 25 * (8 * q) + (8 * r - 51)" using b by simp_all
  have "\<forall>r \<in> set [0..24]. (r - 7) div 3 = (8 * r - 51) div (25::int)" by code_simp
  then have "(r - 7) div 3 = (8 * r - 51) div 25" using b by simp
  moreover have "(3 * (8 * q) + (r - 7)) div 3 = 8 * q + (r - 7) div 3" "(25 * (8 * q) + (8 * r - 51)) div 25 = 8 * q + (8 * r - 51) div 25"
    by (rule div_mult_self4, simp)+
  ultimately show ?thesis unfolding q s by simp
qed

text \<open>The Sunday computation: the algorithm's \<open>l\<close> is the distance to the next Sunday.\<close>

lemma sunday_offset:
  assumes b: "b = 4 * d + e" and y: "y = 100 * b + c" "0 \<le> c" "c < 100" and c: "c = 4 * i + k"
    and k: "0 \<le> k" "k < 4" and e: "0 \<le> e" "e < 4"
    and l: "l = (32 + 2 * e + 2 * i - hh - k) mod 7"
  shows "weekday (make_day y 2 22 + hh + l) = 0"
proof -
  obtain q where q: "32 + 2 * e + 2 * i - hh - k = 7 * q + l"
    using l mult_div_mod_eq [of 7 "32 + 2 * e + 2 * i - hh - k"] by metis
  have y4: "y div 4 = 25 * b + i" unfolding y(1) c using k by simp
  have y100: "y div 100 = b" unfolding y(1) using y by simp
  have "y div 400 = (y div 100) div 4" by (simp add: zdiv_zmult2_eq [symmetric])
  then have y400: "y div 400 = d" unfolding y100 b using e by simp
  have next_year: "day_from_year (y + 1) = 365 * (y - 1969) + (y div 4 - 492) - (y div 100 - 19) + (y div 400 - 4)"
  proof -
    have "(y + 1 - 1969) = y + 4 * (- 492)" "(y + 1 - 1901) = y + 100 * (- 19)" "(y + 1 - 1601) = y + 400 * (- 4)"
      by simp_all
    then show ?thesis unfolding day_from_year_def by (simp only: div_mult_self2) simp
  qed
  have "make_day y 2 22 = day_from_year y + 59 + leap_day y + 21"
    by (simp add: make_day_in_year month_start_def)
  then have "make_day y 2 22 = day_from_year (y + 1) - 365 + 80" using day_from_year_Suc [of y] by simp
  then have "make_day y 2 22 + hh + l + 4 = 7 * (20871 * d + 5218 * e + 209 * i + 52 * k - 102773 - q)"
    using q unfolding next_year y4 y100 y400 by (simp add: y(1) c b algebra_simps)
  then show ?thesis unfolding weekday_def by (simp only: mod_mult_self1_is_0)
qed

lemma weekday_add: "weekday (n + k) = (weekday n + k) mod 7"
  by (simp add: weekday_def mod_simps algebra_simps)

text \<open>The first Sunday strictly after a day, when the Sunday on or after its successor is known.\<close>

lemma next_sunday:
  assumes "weekday (n + 1 + l) = 0" "0 \<le> l" "l < 7"
  shows "n + (7 - weekday n) = n + 1 + l"
proof -
  have "(weekday n + (1 + l)) mod 7 = 0" using assms(1) by (metis weekday_add add.assoc)
  then obtain t where t: "weekday n + (1 + l) = 7 * t" by (metis dvd_def mod_eq_0_iff_dvd)
  then have "t = 1" using assms(2,3) weekday_range [of n] by simp
  with t show ?thesis by simp
qed

text \<open>The day \<open>s + 114\<close> of the algorithm split into month and day: March has 31 days.\<close>

lemma march_april:
  assumes "0 \<le> s" "s \<le> 34"
  shows "make_day y ((s + 114) div 31 - 1) ((s + 114) mod 31 + 1) = make_day y 2 22 + s"
proof (cases "s < 10")
  case True
  have "(s + 114) div 31 = 3" by (rule int_div_pos_eq [of _ _ _ "s + 21"]) (use True assms in simp_all)
  moreover have "(s + 114) mod 31 = s + 21" by (rule int_mod_pos_eq [of _ _ 3]) (use True assms in simp_all)
  ultimately show ?thesis by (simp add: make_day_in_year)
next
  case False
  have "(s + 114) div 31 = 4" by (rule int_div_pos_eq [of _ _ _ "s - 10"]) (use False assms in simp_all)
  moreover have "(s + 114) mod 31 = s - 10" by (rule int_mod_pos_eq [of _ _ 4]) (use False assms in simp_all)
  ultimately show ?thesis by (simp add: make_day_in_year month_start_def)
qed

text \<open>The exceptional moons are exactly those for which the algorithm's \<open>m\<close> takes a week off.\<close>

lemma exceptional_moon:
  fixes a hh l :: int
  assumes "0 \<le> a" "a \<le> 18" "0 \<le> hh" "hh \<le> 29" "0 \<le> l" "l \<le> 6"
  shows "(a + 11 * hh + 22 * l) div 451 =
    (if l = 6 \<and> (hh = 29 \<or> (hh = 28 \<and> a > 10)) then 1 else 0)"
proof (cases "451 \<le> a + 11 * hh + 22 * l")
  case True
  have "(a + 11 * hh + 22 * l) div 451 = 1"
    by (rule int_div_pos_eq [of _ _ _ "a + 11 * hh + 22 * l - 451"]) (use assms True in simp_all)
  moreover have "l = 6" "hh = 29 \<or> (hh = 28 \<and> a > 10)" using assms True by linarith+
  ultimately show ?thesis by simp
next
  case False
  then have "(a + 11 * hh + 22 * l) div 451 = 0" using assms by simp
  moreover have "\<not> (l = 6 \<and> (hh = 29 \<or> (hh = 28 \<and> a > 10)))" using assms False by linarith
  ultimately show ?thesis by simp
qed

lemma easter_steps:
  assumes l: "0 \<le> l" "l < 7" and hh: "moon_age y = hh" "0 \<le> hh" "hh \<le> 29"
    and sun: "weekday (make_day y 2 22 + hh + l) = 0"
    and m: "m = (y mod 19 + 11 * hh + 22 * l) div 451"
  shows "make_day y ((hh + l - 7 * m + 114) div 31 - 1) ((hh + l - 7 * m + 114) mod 31 + 1)
      = easter_reference y"
    and "0 \<le> hh + l - 7 * m" and "hh + l - 7 * m \<le> 34"
proof -
  define x where "x \<longleftrightarrow> hh = 29 \<or> (hh = 28 \<and> y mod 19 > 10)"
  have m_eq: "m = (if l = 6 \<and> x then 1 else 0)"
    unfolding m x_def by (rule exceptional_moon) (use l hh in simp_all)
  show b: "0 \<le> hh + l - 7 * m" "hh + l - 7 * m \<le> 34" using m_eq l hh by (auto simp: x_def)
  have d: "make_day y 2 22 = make_day y 2 21 + 1" using make_day_add [of y 2 21 1] by simp
  let ?p = "paschal_moon y"
  have p: "?p = make_day y 2 21 + hh - (if x then 1 else 0)" unfolding paschal_moon_def hh(1) x_def ..
  have "?p + (7 - weekday ?p) = make_day y 2 22 + hh + l - 7 * m"
  proof -
    consider "\<not> x" | "x" "l < 6" | "x" "l = 6" using l by linarith
    then show ?thesis
    proof cases
      case 1
      with sun l have "?p + (7 - weekday ?p) = ?p + 1 + l"
        by (intro next_sunday) (simp_all add: p d algebra_simps)
      with 1 show ?thesis by (simp add: p d m_eq)
    next
      case 2
      with sun l have "?p + (7 - weekday ?p) = ?p + 1 + (l + 1)"
        by (intro next_sunday) (simp_all add: p d algebra_simps)
      with 2 show ?thesis by (simp add: p d m_eq)
    next
      case 3
      have "weekday (make_day y 2 22 + hh + l - 7) = 0"
        using sun weekday_add [of "make_day y 2 22 + hh + l" "-7"] by simp
      with 3 have "?p + (7 - weekday ?p) = ?p + 1 + 0"
        by (intro next_sunday) (simp_all add: p d algebra_simps)
      with 3 show ?thesis by (simp add: p d m_eq)
    qed
  qed
  then show "make_day y ((hh + l - 7 * m + 114) div 31 - 1) ((hh + l - 7 * m + 114) mod 31 + 1)
      = easter_reference y"
    unfolding easter_reference_def march_april [OF b] by simp
qed

lemma easter_day:
  assumes y: "100 \<le> y" and h: "keeps_day h"
  shows "local_day h (easterSunday h y) = easter_reference y"
    and "make_day y 2 22 \<le> easter_reference y" and "easter_reference y \<le> make_day y 3 25"
    and "weekday (easter_reference y) = 0"
proof -
  define b c d e i k where defs: "b = y div 100" "c = y mod 100" "d = b div 4" "e = b mod 4"
    "i = c div 4" "k = c mod 4"
  define g where "g = (b - (b + 8) div 25 + 1) div 3"
  define hh where "hh = (19 * (y mod 19) + b - d - g + 15) mod 30"
  define l where "l = (32 + 2 * e + 2 * i - hh - k) mod 7"
  define m where "m = (y mod 19 + 11 * hh + 22 * l) div 451"
  have b1: "1 \<le> b" using y by (simp add: defs)
  have rng: "0 \<le> c" "c < 100" "0 \<le> e" "e < 4" "0 \<le> i" "0 \<le> k" "k < 4" "0 \<le> hh" "hh < 30" "0 \<le> l" "l < 7"
    by (simp_all add: defs hh_def l_def)
  have g: "g = (8 * b + 13) div 25" unfolding g_def by (rule lunar_correction)
  have "y div 400 = d" unfolding defs by (simp add: zdiv_zmult2_eq [symmetric])
  with g have age: "moon_age y = hh" by (simp add: moon_age_def hh_def defs)
  have "b - d - g \<ge> - 15"
  proof -
    have "4 * d \<le> b" "25 * g \<le> 8 * b + 13" unfolding g by (simp_all add: defs)
    then show ?thesis using b1 by linarith
  qed
  then have nn: "0 \<le> 19 * (y mod 19) + b - d - g + 15" using pos_mod_sign [of 19 y] by linarith
  have nl: "0 \<le> 32 + 2 * e + 2 * i - hh - k" using rng by linarith
  have sun: "weekday (make_day y 2 22 + hh + l) = 0"
  proof (rule sunday_offset [OF _ _ rng(1,2) _ rng(6,7,3,4) l_def])
    show "b = 4 * d + e" "y = 100 * b + c" "c = 4 * i + k" by (simp_all add: defs)
  qed
  note st = easter_steps [OF rng(10,11) age rng(8) _ sun m_def]
  have s: "0 \<le> hh + l - 7 * m + 114" using st(2) rng by simp
  have "easterSunday h y = new_date h y ((hh + l - 7 * m + 114) div 31 - 1) ((hh + l - 7 * m + 114) mod 31 + 1)"
    unfolding easterSunday_def Let_def using y b1 nn nl s rng
    by (simp add: defs [symmetric] g_def [symmetric] hh_def [symmetric] l_def [symmetric] m_def [symmetric])
  then show "local_day h (easterSunday h y) = easter_reference y"
    using st(1) rng h y by (simp add: full_year_def)
  have "easter_reference y = make_day y 2 22 + (hh + l - 7 * m)"
    using st march_april [of "hh + l - 7 * m" y] rng by simp
  moreover have "make_day y 3 25 = make_day y 2 22 + 34"
    by (simp add: make_day_in_year month_start_def)
  ultimately show "make_day y 2 22 \<le> easter_reference y" "easter_reference y \<le> make_day y 3 25"
    using st(2,3) rng by simp_all
  show "weekday (easter_reference y) = 0"
    unfolding easter_reference_def weekday_add by simp
qed

section \<open>The holidays and the warnings\<close>

text \<open>The holidays of a year as civil days, from the reference for Easter.\<close>

definition holiday_table :: "int \<Rightarrow> (int \<times> string) list" where
  "holiday_table y =
     [(make_day y 0 1, ''Neujahr''), (make_day y 0 2, ''Berchtoldstag''),
      (easter_reference y - 2, ''Karfreitag''), (easter_reference y + 1, ''Ostermontag''),
      (easter_reference y + 39, ''Auffahrt''), (easter_reference y + 50, ''Pfingstmontag''),
      (make_day y 7 1, ''Bundesfeier''), (make_day y 11 25, ''Weihnachten''),
      (make_day y 11 26, ''Stephanstag'')]"

definition holiday_name :: "int \<Rightarrow> string option" where
  "holiday_name n = map_of (holiday_table (year_from_day n)) n"

lemma holiday_bounds:
  assumes "100 \<le> y"
  shows "make_day y 0 2 < easter_reference y - 2" "easter_reference y + 50 < make_day y 7 1"
  using easter_day(2,3) [OF assms utc_keeps_day] leap_day_bounds [of y]
  by (simp_all add: make_day_in_year month_start_def)

lemma fixed_day_order:
  "make_day y 0 2 = make_day y 0 1 + 1" "make_day y 7 1 < make_day y 11 25"
  "make_day y 11 26 = make_day y 11 25 + 1"
  by (simp_all add: make_day_in_year month_start_def)

lemma holiday_table_sorted:
  assumes "100 \<le> y"
  shows "sorted_wrt (<) (map fst (holiday_table y))"
  using holiday_bounds [OF assms] fixed_day_order [of y]
  by (simp add: holiday_table_def)

lemma holiday_table_year:
  assumes "100 \<le> y" "n \<in> set (map fst (holiday_table y))"
  shows "year_from_day n = y"
proof (rule year_from_day_unique)
  note b = holiday_bounds [OF assms(1)] fixed_day_order [of y]
  have lo: "make_day y 0 1 = day_from_year y" and hi: "make_day y 11 26 < day_from_year (y + 1)"
    using day_from_year_Suc [of y] by (simp_all add: make_day_in_year month_start_def)
  show "day_from_year y \<le> n" using assms(2) b lo by (auto simp: holiday_table_def)
  show "n < day_from_year (y + 1)" using assms(2) b hi by (auto simp: holiday_table_def)
qed

lemma map_of_rev_distinct: "distinct (map fst ps) \<Longrightarrow> map_of (rev ps) = map_of ps"
  by (rule map_of_inject_set [THEN iffD2]) (simp_all add: rev_map [symmetric])

lemma bernHolidays_day:
  assumes "100 \<le> y" "keeps_day h"
  shows "bernHolidays h y (day_key n) = map_of (holiday_table y) n"
proof -
  have "distinct (map fst (holiday_table y))"
    using holiday_table_sorted [OF assms(1)] by (metis strict_sorted_iff)
  then have "map_of (holiday_table y) = map_of (rev (holiday_table y))"
    by (rule map_of_rev_distinct [symmetric])
  then show ?thesis
    using assms easter_day(1) [OF assms]
    by (simp add: bernHolidays_def key_day full_year_def Let_def holiday_table_def)
qed

lemma truthy_holiday: "truthy_name (map_of (holiday_table y) n) = map_of (holiday_table y) n"
  by (simp add: truthy_name_def holiday_table_def)

lemma holiday_table_weekdays:
  assumes y: "100 \<le> y"
  shows "(n, ''Karfreitag'') \<in> set (holiday_table y) \<Longrightarrow> weekday n = 5"
    and "(n, ''Ostermontag'') \<in> set (holiday_table y) \<Longrightarrow> weekday n = 1"
    and "(n, ''Auffahrt'') \<in> set (holiday_table y) \<Longrightarrow> weekday n = 4"
    and "(n, ''Pfingstmontag'') \<in> set (holiday_table y) \<Longrightarrow> weekday n = 1"
  using easter_day(4) [OF y utc_keeps_day]
    weekday_add [of "easter_reference y" "- 2"] weekday_add [of "easter_reference y" 1]
    weekday_add [of "easter_reference y" 39] weekday_add [of "easter_reference y" 50]
  by (auto simp: holiday_table_def)

lemma scheduleWarnings_days:
  assumes h: "keeps_day h" and y: "100 \<le> getFullYear h d" and n: "n = local_day h d"
  shows "scheduleWarnings h d =
    guarded (weekday n = 5) [''Freitag '' @ u_mdash @ '' keine Rollouts an Freitagen''] @
    (case holiday_name n of Some t \<Rightarrow> [''Berner Feiertag: '' @ t] | None \<Rightarrow> []) @
    (if year_from_day (n + 1) = year_from_day n then
       (case holiday_name (n + 1) of
          Some t \<Rightarrow> [''Tag vor Berner Feiertag ('' @ t @ '')''] | None \<Rightarrow> [])
     else [])"
proof -
  have yn: "getFullYear h d = year_from_day n" by (simp add: getFullYear_def n)
  with y have y100: "100 \<le> year_from_day n" by simp
  have late: "map_of (holiday_table (year_from_day n)) (n + 1) = None"
    if "year_from_day (n + 1) \<noteq> year_from_day n"
  proof -
    have "n + 1 \<notin> fst ` set (holiday_table (year_from_day n))"
      using holiday_table_year [OF y100, of "n + 1"] that by auto
    then show ?thesis by (simp add: map_of_eq_None_iff)
  qed
  have hd: "bernHolidays h (year_from_day n) (day_key m) = map_of (holiday_table (year_from_day n)) m" for m
    by (rule bernHolidays_day [OF y100 h])
  have sw: "scheduleWarnings h d =
    guarded (weekday n = 5) [''Freitag '' @ u_mdash @ '' keine Rollouts an Freitagen''] @
    (case map_of (holiday_table (year_from_day n)) n of Some t \<Rightarrow> [''Berner Feiertag: '' @ t] | None \<Rightarrow> []) @
    (case map_of (holiday_table (year_from_day n)) (n + 1) of
          Some t \<Rightarrow> [''Tag vor Berner Feiertag ('' @ t @ '')''] | None \<Rightarrow> [])"
    unfolding scheduleWarnings_def yn Let_def key_day local_day_addDaysLocal [OF h] n [symmetric] hd
      truthy_holiday getDay_def ..
  show ?thesis unfolding sw holiday_name_def
    by (cases "year_from_day (n + 1) = year_from_day n") (simp_all add: late)
qed

lemma day_in_easter_2026: "easter_reference 2026 = make_day 2026 3 5"
  by code_simp

section \<open>Properties\<close>

text \<open>
  C1. Easter: for every year from 100 on and every zone whose clock changes stay within the civil
  day, \<open>easterSunday\<close> returns a date on the day the ecclesiastical rule prescribes, the first Sunday
  strictly after the paschal full moon; that day is a Sunday from 22 March to 25 April.
\<close>

theorem easterSunday_correct:
  assumes "100 \<le> year" "keeps_day h"
  shows "local_day h (easterSunday h year) = easter_reference year \<and>
    getDay h (easterSunday h year) = 0 \<and>
    make_day year 2 22 \<le> local_day h (easterSunday h year) \<and>
    local_day h (easterSunday h year) \<le> make_day year 3 25"
  using easter_day [OF assms] by (simp_all add: getDay_def)

theorem easterSunday_correct_witness:
  "local_day utc_host (easterSunday utc_host 2026) = make_day 2026 3 5"
  using easterSunday_correct [of 2026 utc_host] by (simp add: day_in_easter_2026)

text \<open>
  C14. The holiday map: looking up the key of any date in \<open>bernHolidays year\<close> gives the name the
  table of civil days has for the local day of that date, and nothing when the table has no entry;
  so the nine keys are distinct and none overwrites another.
\<close>

theorem bernHolidays_refines:
  assumes "100 \<le> year" "keeps_day h"
  shows "bernHolidays h year (key h d) = map_of (holiday_table year) (local_day h d) \<and>
    card (dom (bernHolidays h year)) = 9"
proof
  show "bernHolidays h year (key h d) = map_of (holiday_table year) (local_day h d)"
    unfolding key_day by (rule bernHolidays_day [OF assms])
  have d: "distinct (map fst (holiday_table year))"
    using holiday_table_sorted [OF assms(1)] by (metis strict_sorted_iff)
  have "dom (bernHolidays h year) = day_key ` fst ` set (holiday_table year)"
    using assms easter_day(1) [OF assms]
    by (auto simp: bernHolidays_def key_day full_year_def Let_def holiday_table_def)
  moreover have "inj day_key" by (rule injI) simp
  ultimately have "card (dom (bernHolidays h year)) = card (set (map fst (holiday_table year)))"
    by (simp add: card_image inj_on_subset)
  also have "\<dots> = length (map fst (holiday_table year))" using d by (rule distinct_card)
  finally show "card (dom (bernHolidays h year)) = 9" by (simp add: holiday_table_def)
qed

theorem bernHolidays_refines_witness:
  "card (dom (bernHolidays utc_host 2026)) = 9"
  using bernHolidays_refines [of 2026 utc_host] by simp

text \<open>
  The movable holidays fall on their weekdays: a date the map calls Karfreitag is a Friday,
  Ostermontag and Pfingstmontag are Mondays, Auffahrt is a Thursday.
\<close>

theorem movable_holiday_weekdays:
  assumes "100 \<le> year" "keeps_day h" "bernHolidays h year (key h d) = Some name"
  shows "(name = ''Karfreitag'' \<longrightarrow> getDay h d = 5) \<and>
    (name \<in> {''Ostermontag'', ''Pfingstmontag''} \<longrightarrow> getDay h d = 1) \<and>
    (name = ''Auffahrt'' \<longrightarrow> getDay h d = 4)"
proof -
  have "(local_day h d, name) \<in> set (holiday_table year)"
    using assms(3) by (simp add: key_day bernHolidays_day [OF assms(1,2)] map_of_SomeD)
  with holiday_table_weekdays [OF assms(1), of "local_day h d"] show ?thesis
    by (auto simp: getDay_def)
qed

lemma holiday_2026:
  "bernHolidays utc_host 2026 (key utc_host (new_date utc_host 2026 3 3)) = Some ''Karfreitag''"
proof -
  have "map_of (holiday_table 2026) (make_day 2026 3 3) = Some ''Karfreitag''" by code_simp
  then show ?thesis by (simp add: key_day bernHolidays_day full_year_def)
qed

theorem movable_holiday_weekdays_witness:
  "getDay utc_host (new_date utc_host 2026 3 3) = 5"
  using movable_holiday_weekdays [OF _ _ holiday_2026] by simp

text \<open>
  C15. The guardrail: when the next day is still in the same year, \<open>scheduleWarnings\<close> is silent
  exactly on the days that are neither a Friday, nor a holiday, nor the eve of one; and it never
  returns more than three warnings.
\<close>

theorem scheduleWarnings_silent:
  assumes "keeps_day h" "100 \<le> getFullYear h d"
    and "getFullYear h (addDaysLocal h d 1) = getFullYear h d"
  shows "(scheduleWarnings h d = [] \<longleftrightarrow>
      getDay h d \<noteq> 5 \<and> holiday_name (local_day h d) = None \<and> holiday_name (local_day h d + 1) = None) \<and>
    length (scheduleWarnings h d) \<le> 3"
  using assms(3) unfolding scheduleWarnings_days [OF assms(1,2) refl]
  by (auto simp: getFullYear_def getDay_def assms(1) guarded_def split: option.splits)

theorem scheduleWarnings_silent_witness:
  "scheduleWarnings utc_host (new_date utc_host 2026 3 1) = []"
proof -
  let ?d = "new_date utc_host 2026 3 1"
  have "100 \<le> getFullYear utc_host ?d"
    "getFullYear utc_host (addDaysLocal utc_host ?d 1) = getFullYear utc_host ?d"
    "getDay utc_host ?d \<noteq> 5" "holiday_name (local_day utc_host ?d) = None"
    "holiday_name (local_day utc_host ?d + 1) = None"
    by code_simp+
  then show ?thesis by (simp add: scheduleWarnings_silent)
qed

text \<open>
  The last day of a year: on 31 December the only possible warning is the one for a Friday,
  although the following day is Neujahr. The next day is looked up in the map of the old year, so
  the eve of New Year is never announced.
\<close>

theorem scheduleWarnings_new_years_eve:
  assumes "keeps_day h" "100 \<le> year" "local_day h d = make_day year 11 31"
  shows "holiday_name (local_day h d + 1) = Some ''Neujahr'' \<and>
    scheduleWarnings h d =
      guarded (getDay h d = 5) [''Freitag '' @ u_mdash @ '' keine Rollouts an Freitagen'']"
proof
  let ?n = "make_day year 11 31"
  have y: "year_from_day ?n = year"
    by (rule civil_of_make_day) (simp_all add: days_in_month_def month_start_def)
  have nx: "?n + 1 = make_day (year + 1) 0 1"
    using day_from_year_Suc [of year] by (simp add: make_day_in_year month_start_def)
  have y1: "year_from_day (?n + 1) = year + 1"
    unfolding nx by (rule civil_of_make_day) (simp_all add: days_in_month_def month_start_def)
  show "holiday_name (local_day h d + 1) = Some ''Neujahr''"
    unfolding assms(3) holiday_name_def y1 by (simp add: nx holiday_table_def)
  have "?n \<notin> fst ` set (holiday_table year)"
    using holiday_bounds [OF assms(2)] fixed_day_order [of year] make_day_add [of year 11 26 5]
    by (auto simp: holiday_table_def)
  then have "holiday_name ?n = None" by (simp add: holiday_name_def y map_of_eq_None_iff)
  moreover have "100 \<le> getFullYear h d" using assms(2,3) y by (simp add: getFullYear_def)
  ultimately show "scheduleWarnings h d =
      guarded (getDay h d = 5) [''Freitag '' @ u_mdash @ '' keine Rollouts an Freitagen'']"
    by (simp add: scheduleWarnings_days [OF assms(1) _ assms(3) [symmetric]] y y1 getDay_def assms(3))
qed

theorem scheduleWarnings_new_years_eve_witness:
  "scheduleWarnings utc_host (new_date utc_host 2026 11 31) = []"
proof -
  have "local_day utc_host (new_date utc_host 2026 11 31) = make_day 2026 11 31"
    "getDay utc_host (new_date utc_host 2026 11 31) \<noteq> 5" by code_simp+
  then show ?thesis using scheduleWarnings_new_years_eve [of utc_host 2026] by simp
qed

end
