(* ===== verification/RR_Live.thy ===== *)
theory RR_Live
  imports RR_Prelude
begin

text \<open>
  The live channel of \<open>src/frontend/src/app/core/live.service.ts\<close>, the refresh bus it drives, the
  session store and the HTTP interceptor that shuts both down on an expired session. The service's
  fields and the part of the browser it acts on (pending timers, sockets whose handlers are
  attached, the clock) are one record; every public call, socket callback and timer callback is one
  definition, and \<open>live_step\<close> is the event loop running one of them.

  The socket factory may throw and \<open>Math.random\<close> is a number from 0 to 1: both are part of the
  event. A message is the outcome of \<open>JSON.parse\<close> on its text.
\<close>

section \<open>Refresh bus\<close>

record refresh_bus =
  bus_n :: int
  bus_emitted :: "int list"

definition new_bus :: refresh_bus where
  "new_bus = \<lparr>bus_n = 0, bus_emitted = [0]\<rparr>"

definition bump :: "refresh_bus \<Rightarrow> refresh_bus" where
  "bump b = b\<lparr>bus_n := bus_n b + 1, bus_emitted := bus_emitted b @ [bus_n b + 1]\<rparr>"

section \<open>The service and its surroundings\<close>

datatype live_status = Connecting | Live | Reconnecting | Offline

datatype timer_cb = ReconnectCb | BumpCb | StableCb

datatype json = JNull | JBool bool | JNum rat | JStr string | JArr "json list" | JObj "(string \<times> json) list"

text \<open>\<open>timers\<close> holds the pending timers with the time they are due and their callback.\<close>

record live =
  status :: live_status
  socket :: "nat option"
  connecting :: bool
  stopped :: bool
  backoff :: rat
  lastRev :: rat
  reconnectTimer :: "nat option"
  bumpTimer :: "nat option"
  stableTimer :: "nat option"
  bus :: refresh_bus
  timers :: "(nat \<times> rat \<times> timer_cb) list"
  next_timer :: nat
  attached :: "nat list"
  next_socket :: nat
  clock :: rat

definition BACKOFF_START :: rat where "BACKOFF_START = 500"
definition BACKOFF_CAP :: rat where "BACKOFF_CAP = 8000"
definition DEBOUNCE_MS :: rat where "DEBOUNCE_MS = 150"
definition STABLE_AFTER_MS :: rat where "STABLE_AFTER_MS = 3000"

definition new_live :: live where
  "new_live = \<lparr>status = Offline, socket = None, connecting = False, stopped = False,
     backoff = BACKOFF_START, lastRev = 0, reconnectTimer = None, bumpTimer = None, stableTimer = None,
     bus = new_bus, timers = [], next_timer = 1, attached = [], next_socket = 1, clock = 0\<rparr>"

definition clearTimeout :: "nat option \<Rightarrow> live \<Rightarrow> live" where
  "clearTimeout t s =
     (case t of None \<Rightarrow> s | Some i \<Rightarrow> s\<lparr>timers := filter (\<lambda>p. fst p \<noteq> i) (timers s)\<rparr>)"

definition setTimeout :: "timer_cb \<Rightarrow> rat \<Rightarrow> live \<Rightarrow> nat \<times> live" where
  "setTimeout cb ms s =
     (next_timer s, s\<lparr>timers := timers s @ [(next_timer s, clock s + ms, cb)], next_timer := next_timer s + 1\<rparr>)"

definition detach :: "nat \<Rightarrow> live \<Rightarrow> live" where
  "detach k s = s\<lparr>attached := filter (\<lambda>j. j \<noteq> k) (attached s)\<rparr>"

definition url :: "string \<Rightarrow> string \<Rightarrow> string" where
  "url protocol host =
     (let scheme = if protocol = ''https:'' then ''wss'' else ''ws'' in
      scheme @ ''://'' @ host @ ''/api/ws'')"

section \<open>The operations\<close>

definition scheduleBump :: "live \<Rightarrow> live" where
  "scheduleBump s =
     (let s1 = clearTimeout (bumpTimer s) s;
          (i, s2) = setTimeout BumpCb DEBOUNCE_MS s1
      in s2\<lparr>bumpTimer := Some i\<rparr>)"

definition scheduleReconnect :: "rat \<Rightarrow> live \<Rightarrow> live" where
  "scheduleReconnect random s =
     (if stopped s then s
      else if reconnectTimer s \<noteq> None then s
      else
        (let jitter = random * backoff s * (3 / 10);
             delay = min (backoff s) BACKOFF_CAP + jitter;
             s1 = s\<lparr>backoff := min (backoff s * 2) BACKOFF_CAP\<rparr>;
             (i, s2) = setTimeout ReconnectCb delay s1
         in s2\<lparr>reconnectTimer := Some i\<rparr>))"

definition openSocket :: "bool \<Rightarrow> rat \<Rightarrow> live \<Rightarrow> live" where
  "openSocket throws random s =
     (let s1 = s\<lparr>connecting := True, status := (if status s = Offline then Connecting else status s),
               lastRev := 0\<rparr>
      in if throws then scheduleReconnect random (s1\<lparr>connecting := False\<rparr>)
         else s1\<lparr>socket := Some (next_socket s1), attached := attached s1 @ [next_socket s1],
               next_socket := next_socket s1 + 1\<rparr>)"

definition connect :: "bool \<Rightarrow> rat \<Rightarrow> live \<Rightarrow> live" where
  "connect throws random s =
     (if socket s \<noteq> None \<or> connecting s then s
      else openSocket throws random (s\<lparr>stopped := False\<rparr>))"

definition onopen :: "live \<Rightarrow> live" where
  "onopen s =
     (let s1 = s\<lparr>connecting := False, status := Live\<rparr>;
          s2 = clearTimeout (stableTimer s1) s1;
          (i, s3) = setTimeout StableCb STABLE_AFTER_MS s2
      in scheduleBump (s3\<lparr>stableTimer := Some i\<rparr>))"

text \<open>\<open>typeof msg?.rev === "number"\<close>: only an object can carry the field.\<close>

definition rev_of :: "json \<Rightarrow> rat option" where
  "rev_of msg = (case msg of
     JObj fs \<Rightarrow> (case map_of fs ''rev'' of Some (JNum r) \<Rightarrow> Some r | _ \<Rightarrow> None)
   | _ \<Rightarrow> None)"

definition onmessage :: "json option \<Rightarrow> live \<Rightarrow> live" where
  "onmessage parsed s =
     (case parsed of None \<Rightarrow> s
      | Some msg \<Rightarrow>
          (case rev_of msg of None \<Rightarrow> s
           | Some r \<Rightarrow> if r \<le> lastRev s then s else scheduleBump (s\<lparr>lastRev := r\<rparr>)))"

definition handleDrop :: "rat \<Rightarrow> live \<Rightarrow> live" where
  "handleDrop random s =
     (let s1 = s\<lparr>connecting := False\<rparr>;
          s2 = (case socket s1 of None \<Rightarrow> s1 | Some dead \<Rightarrow> detach dead s1);
          s3 = s2\<lparr>socket := None\<rparr>;
          s4 = (if stableTimer s3 \<noteq> None then (clearTimeout (stableTimer s3) s3)\<lparr>stableTimer := None\<rparr> else s3)
      in if stopped s4 then s4
         else scheduleReconnect random (s4\<lparr>status := Reconnecting\<rparr>))"

definition disconnect :: "live \<Rightarrow> live" where
  "disconnect s =
     (let s1 = s\<lparr>stopped := True, connecting := False\<rparr>;
          s2 = (clearTimeout (reconnectTimer s1) s1)\<lparr>reconnectTimer := None\<rparr>;
          s3 = (clearTimeout (bumpTimer s2) s2)\<lparr>bumpTimer := None\<rparr>;
          s4 = (clearTimeout (stableTimer s3) s3)\<lparr>stableTimer := None\<rparr>;
          s5 = (case socket s4 of None \<Rightarrow> s4 | Some k \<Rightarrow> (detach k s4)\<lparr>socket := None\<rparr>)
      in s5\<lparr>status := Offline\<rparr>)"

definition run_timer :: "timer_cb \<Rightarrow> bool \<Rightarrow> rat \<Rightarrow> live \<Rightarrow> live" where
  "run_timer cb throws random s =
     (case cb of
        StableCb \<Rightarrow> s\<lparr>stableTimer := None, backoff := BACKOFF_START\<rparr>
      | BumpCb \<Rightarrow> s\<lparr>bumpTimer := None, bus := bump (bus s)\<rparr>
      | ReconnectCb \<Rightarrow> openSocket throws random (s\<lparr>reconnectTimer := None\<rparr>))"

section \<open>The event loop\<close>

datatype live_event =
    Connect bool rat
  | Disconnect
  | SockOpen nat
  | SockMessage nat "json option"
  | SockClose nat rat
  | SockError nat rat
  | Fire nat bool rat
  | Wait rat

text \<open>
  A socket callback runs only while it is attached; a timer runs once its time has come and is
  removed first. An event that cannot happen leaves the state alone.
\<close>

definition live_step :: "live_event \<Rightarrow> live \<Rightarrow> live" where
  "live_step e s = (case e of
     Connect throws r \<Rightarrow> connect throws r s
   | Disconnect \<Rightarrow> disconnect s
   | SockOpen k \<Rightarrow> if k \<in> set (attached s) then onopen s else s
   | SockMessage k p \<Rightarrow> if k \<in> set (attached s) then onmessage p s else s
   | SockClose k r \<Rightarrow> if k \<in> set (attached s) then handleDrop r s else s
   | SockError k r \<Rightarrow> if k \<in> set (attached s) then handleDrop r s else s
   | Fire i throws r \<Rightarrow>
       (case map_of (timers s) i of
          Some (due, cb) \<Rightarrow>
            if due \<le> clock s then run_timer cb throws r (clearTimeout (Some i) s) else s
        | None \<Rightarrow> s)
   | Wait d \<Rightarrow> if 0 \<le> d then s\<lparr>clock := clock s + d\<rparr> else s)"

definition live_run :: "live_event list \<Rightarrow> live \<Rightarrow> live" where
  "live_run es s = fold live_step es s"

text \<open>
  States reachable from a new service. \<open>once = True\<close> asks that \<open>connect\<close> is not called while a
  retry is pending, which holds in the application: it is called once, at start-up.
\<close>

inductive live_reach :: "bool \<Rightarrow> live \<Rightarrow> bool" for once :: bool where
  start: "live_reach once new_live"
| step: "live_reach once s \<Longrightarrow>
    (once \<and> (\<exists>t r. e = Connect t r) \<longrightarrow> reconnectTimer s = None) \<Longrightarrow>
    live_reach once (live_step e s)"

section \<open>Timer slots\<close>

text \<open>
  Each kind of timer has one field of the service that remembers its id. All timer code of the
  service is arming and disarming such a slot, which is stated here once.
\<close>

definition ptr :: "timer_cb \<Rightarrow> live \<Rightarrow> nat option" where
  "ptr cb s = (case cb of ReconnectCb \<Rightarrow> reconnectTimer s | BumpCb \<Rightarrow> bumpTimer s | StableCb \<Rightarrow> stableTimer s)"

definition set_ptr :: "timer_cb \<Rightarrow> nat option \<Rightarrow> live \<Rightarrow> live" where
  "set_ptr cb v s = (case cb of ReconnectCb \<Rightarrow> s\<lparr>reconnectTimer := v\<rparr>
     | BumpCb \<Rightarrow> s\<lparr>bumpTimer := v\<rparr> | StableCb \<Rightarrow> s\<lparr>stableTimer := v\<rparr>)"

definition disarm :: "timer_cb \<Rightarrow> live \<Rightarrow> live" where
  "disarm cb s = set_ptr cb None (clearTimeout (ptr cb s) s)"

definition arm :: "timer_cb \<Rightarrow> rat \<Rightarrow> live \<Rightarrow> live" where
  "arm cb ms s = set_ptr cb (Some (next_timer s)) (snd (setTimeout cb ms s))"

definition timers_ok :: "live \<Rightarrow> bool" where
  "timers_ok s \<longleftrightarrow>
     distinct (map fst (timers s)) \<and>
     (\<forall>i d cb. (i, d, cb) \<in> set (timers s) \<longrightarrow> i < next_timer s \<and> ptr cb s = Some i) \<and>
     (\<forall>cb i. ptr cb s = Some i \<longrightarrow> (\<exists>d. (i, d, cb) \<in> set (timers s)))"

lemmas slot_defs = ptr_def set_ptr_def disarm_def arm_def clearTimeout_def setTimeout_def

lemma scheduleBump_arm: "scheduleBump s = arm BumpCb DEBOUNCE_MS (disarm BumpCb s)"
  by (simp add: scheduleBump_def slot_defs Let_def split: option.splits)

lemma onopen_arm: "onopen s = scheduleBump (arm StableCb STABLE_AFTER_MS
    (disarm StableCb (s\<lparr>connecting := False, status := Live\<rparr>)))"
  by (simp add: onopen_def slot_defs Let_def split: option.splits)

lemma scheduleReconnect_arm: "scheduleReconnect r s =
    (if stopped s \<or> reconnectTimer s \<noteq> None then s
     else arm ReconnectCb (min (backoff s) BACKOFF_CAP + r * backoff s * (3 / 10))
            (s\<lparr>backoff := min (backoff s * 2) BACKOFF_CAP\<rparr>))"
  by (simp add: scheduleReconnect_def slot_defs Let_def)

lemma handleDrop_arm: "handleDrop r s =
    (let s1 = disarm StableCb (s\<lparr>connecting := False, socket := None,
              attached := (case socket s of None \<Rightarrow> attached s | Some k \<Rightarrow> filter (\<lambda>j. j \<noteq> k) (attached s))\<rparr>)
     in if stopped s1 then s1 else scheduleReconnect r (s1\<lparr>status := Reconnecting\<rparr>))"
  by (cases s; cases "stableTimer s"; cases "socket s")
    (simp_all add: handleDrop_def slot_defs detach_def Let_def)

lemma disconnect_arm: "disconnect s =
    (disarm StableCb (disarm BumpCb (disarm ReconnectCb (s\<lparr>stopped := True, connecting := False\<rparr>))))
      \<lparr>socket := None, status := Offline,
       attached := (case socket s of None \<Rightarrow> attached s | Some k \<Rightarrow> filter (\<lambda>j. j \<noteq> k) (attached s))\<rparr>"
  by (cases s; cases "reconnectTimer s"; cases "bumpTimer s"; cases "stableTimer s"; cases "socket s")
    (simp_all add: disconnect_def slot_defs detach_def Let_def)

lemma ptr_arm [simp]: "ptr cb (arm cb' ms s) = (if cb = cb' then Some (next_timer s) else ptr cb s)"
  by (cases cb; cases cb') (simp_all add: slot_defs)

lemma ptr_disarm [simp]: "ptr cb (disarm cb' s) = (if cb = cb' then None else ptr cb s)"
  by (cases cb; cases cb') (simp_all add: slot_defs split: option.splits)

lemma timers_arm [simp]:
  "timers (arm cb ms s) = timers s @ [(next_timer s, clock s + ms, cb)]"
  "next_timer (arm cb ms s) = Suc (next_timer s)"
  by (cases cb; simp add: slot_defs)+

lemma timers_disarm [simp]:
  "timers (disarm cb s) =
     (case ptr cb s of None \<Rightarrow> timers s | Some i \<Rightarrow> filter (\<lambda>p. fst p \<noteq> i) (timers s))"
  "next_timer (disarm cb s) = next_timer s"
  by (cases cb; simp add: slot_defs split: option.splits)+

lemma slot_frame [simp]:
  "status (arm cb ms s) = status s" "socket (arm cb ms s) = socket s"
  "connecting (arm cb ms s) = connecting s" "stopped (arm cb ms s) = stopped s"
  "backoff (arm cb ms s) = backoff s" "lastRev (arm cb ms s) = lastRev s"
  "bus (arm cb ms s) = bus s" "attached (arm cb ms s) = attached s"
  "next_socket (arm cb ms s) = next_socket s" "clock (arm cb ms s) = clock s"
  "status (disarm cb s) = status s" "socket (disarm cb s) = socket s"
  "connecting (disarm cb s) = connecting s" "stopped (disarm cb s) = stopped s"
  "backoff (disarm cb s) = backoff s" "lastRev (disarm cb s) = lastRev s"
  "bus (disarm cb s) = bus s" "attached (disarm cb s) = attached s"
  "next_socket (disarm cb s) = next_socket s" "clock (disarm cb s) = clock s"
  by (cases cb; simp add: slot_defs split: option.splits)+

lemma timers_ok_arm: "timers_ok s \<Longrightarrow> ptr cb s = None \<Longrightarrow> timers_ok (arm cb ms s)"
proof -
  assume ok: "timers_ok s" and none: "ptr cb s = None"
  have lt: "i < next_timer s" "ptr c s = Some i" if "(i, d, c) \<in> set (timers s)" for i d c
    using ok that by (auto simp: timers_ok_def)
  have "distinct (map fst (timers (arm cb ms s)))"
    using ok lt(1) by (force simp: timers_ok_def)
  moreover have "i < next_timer (arm cb ms s) \<and> ptr c (arm cb ms s) = Some i"
    if "(i, d, c) \<in> set (timers (arm cb ms s))" for i d c
    using that lt [of i d c] none by (cases "c = cb") auto
  moreover have "\<exists>d. (i, d, c) \<in> set (timers (arm cb ms s))" if "ptr c (arm cb ms s) = Some i" for c i
    using that ok by (cases "c = cb") (auto simp: timers_ok_def)
  ultimately show ?thesis unfolding timers_ok_def by blast
qed

lemma timers_ok_disarm: "timers_ok s \<Longrightarrow> timers_ok (disarm cb s)"
proof (cases "ptr cb s")
  case None
  assume "timers_ok s"
  with None show ?thesis by (auto simp: timers_ok_def)
next
  case (Some i)
  assume ok: "timers_ok s"
  then have "distinct (map fst (timers s))" by (simp add: timers_ok_def)
  then have "distinct (map fst (filter (\<lambda>p. fst p \<noteq> i) (timers s)))" by (rule distinct_map_filter)
  moreover have own: "c = cb" if "(i, d, c) \<in> set (timers s)" for d c
  proof -
    obtain d' where "(i, d', cb) \<in> set (timers s)" using ok Some unfolding timers_ok_def by blast
    with that \<open>distinct (map fst (timers s))\<close> show ?thesis
      by (metis Pair_inject eq_key_imp_eq_value)
  qed
  moreover have live: "j < next_timer s \<and> c \<noteq> cb \<and> ptr c s = Some j"
    if "(j, d, c) \<in> set (timers s)" "j \<noteq> i" for j d c
    using ok that Some unfolding timers_ok_def by (metis option.inject)
  moreover have ex: "\<exists>d. (j, d, c) \<in> set (timers s) \<and> j \<noteq> i" if "ptr c s = Some j" "c \<noteq> cb" for c j
    using ok that own unfolding timers_ok_def by metis
  ultimately show ?thesis
    unfolding timers_ok_def [of "disarm cb s"]
  proof (intro conjI allI impI)
    fix j d c
    assume "(j, d, c) \<in> set (timers (disarm cb s))"
    then have "(j, d, c) \<in> set (timers s)" "j \<noteq> i" using Some by auto
    from live [OF this] show "j < next_timer (disarm cb s)" "ptr c (disarm cb s) = Some j" by simp_all
  next
    fix c j
    assume "ptr c (disarm cb s) = Some j"
    then have "ptr c s = Some j" "c \<noteq> cb" by (simp_all split: if_splits)
    from ex [OF this] show "\<exists>d. (j, d, c) \<in> set (timers (disarm cb s))" using Some by simp
  qed (simp add: Some)
qed

lemma timers_ok_cong:
  "timers s = timers s' \<Longrightarrow> next_timer s = next_timer s' \<Longrightarrow> reconnectTimer s = reconnectTimer s' \<Longrightarrow>
   bumpTimer s = bumpTimer s' \<Longrightarrow> stableTimer s = stableTimer s' \<Longrightarrow> timers_ok s = timers_ok s'"
proof -
  assume *: "timers s = timers s'" "next_timer s = next_timer s'" "reconnectTimer s = reconnectTimer s'"
    "bumpTimer s = bumpTimer s'" "stableTimer s = stableTimer s'"
  then have "ptr cb s = ptr cb s'" for cb by (cases cb) (simp_all add: ptr_def)
  with * show ?thesis by (simp add: timers_ok_def)
qed

lemma slot_ptrs [simp]:
  "reconnectTimer (arm cb ms s) = (if cb = ReconnectCb then Some (next_timer s) else reconnectTimer s)"
  "bumpTimer (arm cb ms s) = (if cb = BumpCb then Some (next_timer s) else bumpTimer s)"
  "stableTimer (arm cb ms s) = (if cb = StableCb then Some (next_timer s) else stableTimer s)"
  "reconnectTimer (disarm cb s) = (if cb = ReconnectCb then None else reconnectTimer s)"
  "bumpTimer (disarm cb s) = (if cb = BumpCb then None else bumpTimer s)"
  "stableTimer (disarm cb s) = (if cb = StableCb then None else stableTimer s)"
  by (cases cb; simp add: slot_defs split: option.splits)+

lemma timers_ok_update [simp]:
  "timers_ok (s\<lparr>status := v1\<rparr>) = timers_ok s" "timers_ok (s\<lparr>socket := v2\<rparr>) = timers_ok s"
  "timers_ok (s\<lparr>connecting := v3\<rparr>) = timers_ok s" "timers_ok (s\<lparr>stopped := v4\<rparr>) = timers_ok s"
  "timers_ok (s\<lparr>backoff := v5\<rparr>) = timers_ok s" "timers_ok (s\<lparr>lastRev := v6\<rparr>) = timers_ok s"
  "timers_ok (s\<lparr>bus := v7\<rparr>) = timers_ok s" "timers_ok (s\<lparr>attached := v8\<rparr>) = timers_ok s"
  "timers_ok (s\<lparr>next_socket := v9\<rparr>) = timers_ok s" "timers_ok (s\<lparr>clock := v10\<rparr>) = timers_ok s"
  by (rule timers_ok_cong; simp)+

lemma no_timers: "timers_ok s \<Longrightarrow> reconnectTimer s = None \<Longrightarrow> bumpTimer s = None \<Longrightarrow>
    stableTimer s = None \<Longrightarrow> timers s = []"
proof (rule ccontr)
  assume ok: "timers_ok s" and none: "reconnectTimer s = None" "bumpTimer s = None" "stableTimer s = None"
    and "timers s \<noteq> []"
  then obtain i d cb where "(i, d, cb) \<in> set (timers s)" by (cases "timers s") auto
  with ok have "ptr cb s = Some i" by (simp add: timers_ok_def)
  with none show False by (cases cb) (simp_all add: ptr_def)
qed

lemma timers_ok_Nil: "timers_ok s \<Longrightarrow> timers s = [] \<Longrightarrow> ptr cb s = None"
  by (cases "ptr cb s") (auto simp: timers_ok_def)

section \<open>Invariants\<close>

definition live_inv :: "live \<Rightarrow> bool" where
  "live_inv s \<longleftrightarrow> timers_ok s \<and> BACKOFF_START \<le> backoff s \<and> backoff s \<le> BACKOFF_CAP \<and>
     distinct (attached s) \<and> (\<forall>k \<in> set (attached s). k < next_socket s)"

text \<open>With a single caller of \<open>connect\<close>: one socket, and a retry exactly when there is none.\<close>

definition single :: "live \<Rightarrow> bool" where
  "single s \<longleftrightarrow>
     attached s = (case socket s of None \<Rightarrow> [] | Some k \<Rightarrow> [k]) \<and>
     (socket s \<noteq> None \<longrightarrow> reconnectTimer s = None) \<and>
     (connecting s \<longrightarrow> socket s \<noteq> None) \<and>
     (status s = Live \<longrightarrow> socket s \<noteq> None) \<and>
     (stopped s \<longrightarrow> status s = Offline) \<and>
     (status s = Offline \<longrightarrow> socket s = None \<and> reconnectTimer s = None \<and> bumpTimer s = None \<and> stableTimer s = None) \<and>
     (status s \<noteq> Offline \<longrightarrow> socket s \<noteq> None \<or> reconnectTimer s \<noteq> None)"

lemmas live_ops = connect_def openSocket_def onopen_arm onmessage_def handleDrop_arm disconnect_arm
  scheduleBump_arm scheduleReconnect_arm Let_def

lemma timers_ok_ops [simp]:
  "timers_ok s \<Longrightarrow> timers_ok (scheduleBump s)"
  "timers_ok s \<Longrightarrow> timers_ok (scheduleReconnect r s)"
  by (auto simp: scheduleBump_arm scheduleReconnect_arm ptr_def intro!: timers_ok_arm timers_ok_disarm)

lemma fire_slot:
  assumes "timers_ok s" "map_of (timers s) i = Some (due, cb)"
  shows "run_timer cb t r (clearTimeout (Some i) s) =
    (case cb of StableCb \<Rightarrow> (disarm StableCb s)\<lparr>backoff := BACKOFF_START\<rparr>
     | BumpCb \<Rightarrow> (disarm BumpCb s)\<lparr>bus := bump (bus s)\<rparr>
     | ReconnectCb \<Rightarrow> openSocket t r (disarm ReconnectCb s))"
proof -
  have "ptr cb s = Some i" using assms by (auto simp: timers_ok_def dest!: map_of_SomeD)
  then show ?thesis by (cases cb) (simp_all add: run_timer_def slot_defs)
qed

lemma live_inv_bump: "live_inv s \<Longrightarrow> live_inv (scheduleBump s)"
  by (simp add: live_inv_def) (simp add: scheduleBump_arm)

lemma live_inv_reconnect: "live_inv s \<Longrightarrow> live_inv (scheduleReconnect r s)"
  by (simp add: live_inv_def) (auto simp: scheduleReconnect_arm BACKOFF_START_def BACKOFF_CAP_def)

lemma live_inv_update [simp]:
  "live_inv (s\<lparr>status := v1\<rparr>) = live_inv s" "live_inv (s\<lparr>socket := v2\<rparr>) = live_inv s"
  "live_inv (s\<lparr>connecting := v3\<rparr>) = live_inv s" "live_inv (s\<lparr>stopped := v4\<rparr>) = live_inv s"
  "live_inv (s\<lparr>lastRev := v6\<rparr>) = live_inv s" "live_inv (s\<lparr>bus := v7\<rparr>) = live_inv s"
  "live_inv (s\<lparr>clock := v10\<rparr>) = live_inv s"
  by (simp_all add: live_inv_def)

lemma live_inv_openSocket: "live_inv s \<Longrightarrow> live_inv (openSocket t r s)"
  by (cases t) (auto simp: openSocket_def Let_def live_inv_reconnect, auto simp: live_inv_def less_Suc_eq)

lemma live_inv_handleDrop: "live_inv s \<Longrightarrow> live_inv (handleDrop r s)"
proof -
  assume i: "live_inv s"
  define s1 where "s1 = disarm StableCb (s\<lparr>connecting := False, socket := None,
    attached := (case socket s of None \<Rightarrow> attached s | Some k \<Rightarrow> filter (\<lambda>j. j \<noteq> k) (attached s))\<rparr>)"
  have s1: "live_inv s1" "live_inv (s1\<lparr>status := Reconnecting\<rparr>)" using i
    by (simp_all add: live_inv_def s1_def timers_ok_disarm split: option.splits)
  have "handleDrop r s = (if stopped s1 then s1 else scheduleReconnect r (s1\<lparr>status := Reconnecting\<rparr>))"
    by (simp add: handleDrop_arm s1_def Let_def)
  with s1 show ?thesis by (simp add: live_inv_reconnect)
qed

lemma live_inv_onopen: "live_inv s \<Longrightarrow> live_inv (onopen s)"
  unfolding onopen_arm
  by (rule live_inv_bump) (simp add: live_inv_def timers_ok_arm timers_ok_disarm)

lemma live_inv_onmessage: "live_inv s \<Longrightarrow> live_inv (onmessage p s)"
  by (simp add: onmessage_def live_inv_bump split: option.splits)

lemma live_inv_disconnect: "live_inv s \<Longrightarrow> live_inv (disconnect s)"
  unfolding disconnect_arm
  by (simp add: live_inv_def timers_ok_disarm split: option.splits)

lemma live_inv_disarm: "live_inv s \<Longrightarrow> live_inv (disarm cb s)"
  by (simp add: live_inv_def timers_ok_disarm split: option.splits)

lemma live_inv_fire: "live_inv s \<Longrightarrow> map_of (timers s) i = Some (d, cb) \<Longrightarrow>
    live_inv (run_timer cb t r (clearTimeout (Some i) s))"
proof -
  assume v: "live_inv s" and m: "map_of (timers s) i = Some (d, cb)"
  then have ok: "timers_ok s" by (simp add: live_inv_def)
  show ?thesis
    unfolding fire_slot [OF ok m] using live_inv_disarm [OF v, of cb] live_inv_openSocket [of "disarm cb s"]
    by (cases cb) (simp_all add: live_inv_def BACKOFF_START_def BACKOFF_CAP_def)
qed

lemma live_inv_step: "live_inv s \<Longrightarrow> live_inv (live_step e s)"
  by (cases e) (simp_all add: live_step_def connect_def live_inv_openSocket live_inv_handleDrop live_inv_onopen
    live_inv_onmessage live_inv_disconnect live_inv_fire split: option.splits)

lemma live_inv_new: "live_inv new_live"
  by (simp add: live_inv_def new_live_def timers_ok_def ptr_def BACKOFF_START_def BACKOFF_CAP_def split: timer_cb.splits)

lemma live_inv_reach: "live_reach once s \<Longrightarrow> live_inv s"
  by (induction rule: live_reach.induct) (simp_all add: live_inv_new live_inv_step)

lemma single_scheduleBump: "single s \<Longrightarrow> status s \<noteq> Offline \<Longrightarrow> single (scheduleBump s)"
  by (simp add: single_def scheduleBump_arm)

lemma single_openSocket:
  "attached s = [] \<Longrightarrow> \<not> stopped s \<Longrightarrow> reconnectTimer s = None \<Longrightarrow> status s \<noteq> Live \<Longrightarrow>
   socket s = None \<Longrightarrow> single (openSocket t r s)"
  by (simp add: single_def openSocket_def Let_def scheduleReconnect_arm)

lemma single_attached: "single s \<Longrightarrow> k \<in> set (attached s) \<Longrightarrow>
    socket s = Some k \<and> status s \<noteq> Offline \<and> \<not> stopped s"
  by (auto simp: single_def split: option.splits)

lemma single_onopen: "single s \<Longrightarrow> k \<in> set (attached s) \<Longrightarrow> single (onopen s)"
proof -
  assume s: "single s" and k: "k \<in> set (attached s)"
  let ?t = "arm StableCb STABLE_AFTER_MS (disarm StableCb (s\<lparr>connecting := False, status := Live\<rparr>))"
  have "single ?t" using s single_attached [OF s k] by (simp add: single_def)
  then show ?thesis unfolding onopen_arm by (rule single_scheduleBump) simp
qed

lemma single_onmessage: "single s \<Longrightarrow> k \<in> set (attached s) \<Longrightarrow> single (onmessage p s)"
proof -
  assume s: "single s" and k: "k \<in> set (attached s)"
  have "single (s\<lparr>lastRev := r\<rparr>)" for r using s by (simp add: single_def)
  with s single_attached [OF s k] show ?thesis
    by (simp add: onmessage_def single_scheduleBump split: option.splits)
qed

lemma single_handleDrop: "single s \<Longrightarrow> k \<in> set (attached s) \<Longrightarrow> single (handleDrop r s)"
  using single_attached [of s k] unfolding single_def
  by (auto simp: handleDrop_arm Let_def scheduleReconnect_arm)

lemma single_disconnect: "single s \<Longrightarrow> single (disconnect s)"
  unfolding single_def by (auto simp: disconnect_arm split: option.splits)

lemma single_connect: "single s \<Longrightarrow> reconnectTimer s = None \<Longrightarrow> single (connect t r s)"
  using single_openSocket [of "s\<lparr>stopped := False\<rparr>" t r]
  by (auto simp: connect_def single_def [of s])

lemma single_fire: "single s \<Longrightarrow> timers_ok s \<Longrightarrow> map_of (timers s) i = Some (d, cb) \<Longrightarrow>
    single (run_timer cb t r (clearTimeout (Some i) s))"
proof -
  assume s: "single s" and ok: "timers_ok s" and m: "map_of (timers s) i = Some (d, cb)"
  have p: "ptr cb s = Some i" using ok m by (auto simp: timers_ok_def dest!: map_of_SomeD)
  show ?thesis
  proof (cases cb)
    case ReconnectCb
    with p s have "socket s = None" "reconnectTimer s \<noteq> None" by (auto simp: ptr_def single_def)
    with s have "single (openSocket t r (disarm ReconnectCb s))"
      by (intro single_openSocket) (auto simp: single_def)
    then show ?thesis unfolding fire_slot [OF ok m] by (simp add: ReconnectCb)
  next
    case BumpCb
    with s show ?thesis unfolding fire_slot [OF ok m] by (simp add: single_def)
  next
    case StableCb
    with s show ?thesis unfolding fire_slot [OF ok m] by (simp add: single_def)
  qed
qed

lemma single_reach: "live_reach True s \<Longrightarrow> single s"
proof (induction rule: live_reach.induct)
  case start
  then show ?case by (simp add: single_def new_live_def)
next
  case (step s e)
  have ok: "timers_ok s" using live_inv_reach [OF step.hyps(1)] by (simp add: live_inv_def)
  have w: "single (s\<lparr>clock := d\<rparr>)" for d using step.IH by (simp add: single_def)
  show ?case
    using step.IH step.hyps(2) ok w
    by (cases e) (auto simp: live_step_def single_connect single_disconnect single_onopen
      single_onmessage single_handleDrop single_fire split: option.splits)
qed

section \<open>Consequences for runs\<close>

lemma distinct_set_single: "distinct xs \<Longrightarrow> set xs = {x} \<Longrightarrow> xs = [x]"
  by (cases xs; cases "tl xs") auto

lemma one_timer_per_slot:
  assumes ok: "timers_ok s"
  shows "map fst (filter (\<lambda>p. snd (snd p) = cb) (timers s)) = (case ptr cb s of None \<Rightarrow> [] | Some i \<Rightarrow> [i])"
proof -
  let ?l = "map fst (filter (\<lambda>p. snd (snd p) = cb) (timers s))"
  have d: "distinct ?l" using ok by (auto simp: timers_ok_def intro: distinct_map_filter)
  have m: "i \<in> set ?l \<longleftrightarrow> ptr cb s = Some i" for i
    using ok unfolding timers_ok_def by force
  show ?thesis
  proof (cases "ptr cb s")
    case None
    with m have "?l = []" by (metis list.set_sel(1) option.distinct(1))
    with None show ?thesis by simp
  next
    case (Some i)
    have "set ?l = {i}"
    proof (rule set_eqI)
      fix x show "x \<in> set ?l \<longleftrightarrow> x \<in> {i}" unfolding m Some by auto
    qed
    then have "?l = [i]" by (rule distinct_set_single [OF d])
    with Some show ?thesis by simp
  qed
qed

text \<open>After \<open>disconnect\<close> no timer is pending and no handler attached: nothing can happen any more.\<close>

definition quiet :: "live \<Rightarrow> bool" where
  "quiet s \<longleftrightarrow> timers s = [] \<and> attached s = [] \<and> socket s = None \<and> status s = Offline"

definition is_connect :: "live_event \<Rightarrow> bool" where
  "is_connect e = (case e of Connect _ _ \<Rightarrow> True | _ \<Rightarrow> False)"

lemma quiet_disconnect: "single s \<Longrightarrow> timers_ok s \<Longrightarrow> quiet (disconnect s)"
proof -
  assume s: "single s" and ok: "timers_ok s"
  have "timers_ok (disconnect s)" using ok by (simp add: disconnect_arm timers_ok_disarm)
  then have "timers (disconnect s) = []" by (rule no_timers) (simp_all add: disconnect_arm)
  moreover have "attached (disconnect s) = []" using s by (simp add: disconnect_arm single_def split: option.splits)
  ultimately show ?thesis by (simp add: quiet_def disconnect_arm)
qed

lemma quiet_step: "quiet s \<Longrightarrow> timers_ok s \<Longrightarrow> single s \<Longrightarrow> \<not> is_connect e \<Longrightarrow>
    quiet (live_step e s) \<and> bus (live_step e s) = bus s"
  using quiet_disconnect [of s]
  by (cases e) (auto simp: live_step_def quiet_def is_connect_def disconnect_arm)

lemma single_step: "single s \<Longrightarrow> timers_ok s \<Longrightarrow> \<not> is_connect e \<Longrightarrow> single (live_step e s)"
proof -
  assume s: "single s" "timers_ok s" "\<not> is_connect e"
  have w: "single (s\<lparr>clock := d\<rparr>)" for d using s(1) by (simp add: single_def)
  show ?thesis using s w
    by (cases e) (auto simp: live_step_def is_connect_def single_disconnect single_onopen
      single_onmessage single_handleDrop single_fire split: option.splits)
qed

lemma quiet_run: "live_inv s \<Longrightarrow> single s \<Longrightarrow> quiet s \<Longrightarrow> \<forall>e \<in> set es. \<not> is_connect e \<Longrightarrow>
    quiet (live_run es s) \<and> bus (live_run es s) = bus s"
proof (induction es arbitrary: s)
  case Nil
  then show ?case by (simp add: live_run_def)
next
  case (Cons e es)
  have ok: "timers_ok s" using Cons.prems by (simp add: live_inv_def)
  have "quiet (live_step e s) \<and> bus (live_step e s) = bus s" "single (live_step e s)"
    using quiet_step single_step ok Cons.prems by simp_all
  with Cons.IH [of "live_step e s"] Cons.prems live_inv_step show ?case by (simp add: live_run_def)
qed

text \<open>A frame with a revision, and the state after a burst of them.\<close>

definition frame :: "rat \<Rightarrow> json" where
  "frame r = JObj [(''rev'', JNum r)]"

definition frames :: "nat \<Rightarrow> rat list \<Rightarrow> live_event list" where
  "frames k rs = map (\<lambda>r. SockMessage k (Some (frame r))) rs"

lemma fresh_frame_step: "k \<in> set (attached s) \<Longrightarrow> lastRev s < r \<Longrightarrow>
    live_step (SockMessage k (Some (frame r))) s = scheduleBump (s\<lparr>lastRev := r\<rparr>)"
  by (simp add: live_step_def onmessage_def frame_def rev_of_def)

lemma scheduleBump_pending: "timers_ok s \<Longrightarrow> bumpTimer (scheduleBump s) = Some (next_timer s) \<and>
    map_of (timers (scheduleBump s)) (next_timer s) = Some (clock s + DEBOUNCE_MS, BumpCb)"
proof -
  assume "timers_ok s"
  then have "distinct (map fst (timers (scheduleBump s)))" using timers_ok_ops(1) by (simp add: timers_ok_def)
  moreover have "(next_timer s, clock s + DEBOUNCE_MS, BumpCb) \<in> set (timers (scheduleBump s))"
    by (simp add: scheduleBump_arm)
  ultimately have "map_of (timers (scheduleBump s)) (next_timer s) = Some (clock s + DEBOUNCE_MS, BumpCb)"
    by (rule map_of_is_SomeI)
  then show ?thesis by (simp add: scheduleBump_arm)
qed

lemma burst_state:
  assumes "timers_ok s" "k \<in> set (attached s)" "sorted_wrt (<) (lastRev s # rs)" "rs \<noteq> []"
    and "s' = live_run (frames k rs) s"
  shows "(\<exists>i. bumpTimer s' = Some i \<and> map_of (timers s') i = Some (clock s + DEBOUNCE_MS, BumpCb)) \<and>
    timers_ok s' \<and> bus s' = bus s \<and> clock s' = clock s \<and> lastRev s' = last rs"
  using assms
proof (induction rs arbitrary: s)
  case Nil
  then show ?case by simp
next
  case (Cons r rs)
  let ?s = "scheduleBump (s\<lparr>lastRev := r\<rparr>)"
  have run: "s' = live_run (frames k rs) ?s"
    using Cons.prems fresh_frame_step [of k s r] by (simp add: live_run_def frames_def)
  have fr: "attached ?s = attached s" "lastRev ?s = r" "bus ?s = bus s" "clock ?s = clock s"
    by (simp_all add: scheduleBump_arm)
  have ok: "timers_ok (s\<lparr>lastRev := r\<rparr>)" using Cons.prems(1) by simp
  show ?case
  proof (cases "rs = []")
    case True
    with run have "s' = ?s" by (simp add: live_run_def frames_def)
    with scheduleBump_pending [OF ok] timers_ok_ops(1) [OF ok] fr True show ?thesis by simp
  next
    case False
    with Cons.IH [of ?s] Cons.prems run timers_ok_ops(1) [OF ok] fr show ?thesis by simp
  qed
qed

lemma reach_run: "live_reach False s \<Longrightarrow> live_reach False (live_run es s)"
  by (induction es arbitrary: s) (simp_all add: live_run_def live_reach.step)

lemmas live_eval = live_run_def live_step_def connect_def openSocket_def new_live_def handleDrop_arm
  scheduleReconnect_arm onopen_arm scheduleBump_arm slot_defs run_timer_def
  BACKOFF_START_def BACKOFF_CAP_def STABLE_AFTER_MS_def DEBOUNCE_MS_def Let_def

section \<open>Properties\<close>

text \<open>
  Timer discipline: in every reachable state, however often \<open>connect\<close> is called, each kind of
  timer is pending at most once and its field holds exactly the id of that timer, and the backoff
  stays between 500 and 8000 milliseconds.
\<close>

theorem live_timer_discipline:
  assumes "live_reach once s"
  shows "map fst (filter (\<lambda>p. snd (snd p) = cb) (timers s)) = (case ptr cb s of None \<Rightarrow> [] | Some i \<Rightarrow> [i]) \<and>
    500 \<le> backoff s \<and> backoff s \<le> 8000"
  using live_inv_reach [OF assms] one_timer_per_slot [of s cb]
  by (simp add: live_inv_def BACKOFF_START_def BACKOFF_CAP_def)

theorem live_timer_discipline_witness:
  "500 \<le> backoff (connect True 0 new_live) \<and> backoff (connect True 0 new_live) = 1000"
proof -
  have "live_reach False (live_step (Connect True 0) new_live)"
    by (rule live_reach.step [OF live_reach.start]) simp
  then have "live_reach False (connect True 0 new_live)" by (simp add: live_step_def)
  from live_timer_discipline [OF this, of StableCb] show ?thesis by (simp add: live_eval)
qed

text \<open>
  C2. The channel is single and never stuck: when \<open>connect\<close> is not called during a pending retry,
  the only socket with handlers is the current one, "live" is shown only while there is one, and in
  every state but "offline" there is a socket or a pending retry timer.
\<close>

theorem live_single_and_not_stuck:
  assumes "live_reach True s"
  shows "attached s = (case socket s of None \<Rightarrow> [] | Some k \<Rightarrow> [k]) \<and>
    (status s = Live \<longrightarrow> socket s \<noteq> None) \<and>
    (status s \<noteq> Offline \<longrightarrow> socket s \<noteq> None \<or> (\<exists>i due. (i, due, ReconnectCb) \<in> set (timers s)))"
proof -
  have ok: "timers_ok s" using live_inv_reach [OF assms] by (simp add: live_inv_def)
  have "\<exists>i due. (i, due, ReconnectCb) \<in> set (timers s)" if "reconnectTimer s = Some i" for i
    using ok that unfolding timers_ok_def ptr_def by (metis timer_cb.simps(7))
  then show ?thesis using single_reach [OF assms] by (auto simp: single_def)
qed

theorem live_single_and_not_stuck_witness:
  "attached (connect False 0 new_live) = [1]"
proof -
  have "live_reach True (live_step (Connect False 0) new_live)"
    by (rule live_reach.step [OF live_reach.start]) (simp add: new_live_def)
  then have "live_reach True (connect False 0 new_live)" by (simp add: live_step_def)
  from live_single_and_not_stuck [OF this] show ?thesis by (simp add: live_eval)
qed

text \<open>
  C12. \<open>disconnect\<close> is final: from any state of a singly connected service it removes every timer
  and handler, and no later event except a new \<open>connect\<close> makes anything happen: the status stays
  "offline" and the refresh bus does not tick.
\<close>

theorem disconnect_final:
  assumes "live_reach True s" "\<forall>e \<in> set es. \<not> is_connect e"
  shows "status (live_run es (disconnect s)) = Offline \<and> timers (live_run es (disconnect s)) = [] \<and>
    attached (live_run es (disconnect s)) = [] \<and> bus (live_run es (disconnect s)) = bus s"
proof -
  have v: "live_inv s" and s: "single s" using assms(1) live_inv_reach single_reach by blast+
  have "timers_ok s" using v by (simp add: live_inv_def)
  with s have "quiet (disconnect s)" by (intro quiet_disconnect)
  with quiet_run [OF live_inv_disconnect [OF v] single_disconnect [OF s] _ assms(2)]
  show ?thesis by (simp add: quiet_def disconnect_arm)
qed

theorem disconnect_final_witness:
  "status (live_run [Wait 1000, SockOpen 1, Fire 1 False 0] (disconnect (connect False 0 new_live))) = Offline"
proof -
  have "live_reach True (live_step (Connect False 0) new_live)"
    by (rule live_reach.step [OF live_reach.start]) (simp add: new_live_def)
  then have "live_reach True (connect False 0 new_live)" by (simp add: live_step_def)
  then show ?thesis
    using disconnect_final [of "connect False 0 new_live" "[Wait 1000, SockOpen 1, Fire 1 False 0]"]
    by (simp add: is_connect_def)
qed

text \<open>
  Message filtering: a frame that does not parse, carries no numeric \<open>rev\<close> or a revision not
  above the last one changes nothing; a newer revision is remembered and a refetch is due 150 ms
  later.
\<close>

theorem onmessage_filter:
  assumes "timers_ok s"
  shows "onmessage None s = s \<and>
    (rev_of msg = None \<longrightarrow> onmessage (Some msg) s = s) \<and>
    (\<forall>r. rev_of msg = Some r \<and> r \<le> lastRev s \<longrightarrow> onmessage (Some msg) s = s) \<and>
    (\<forall>r. rev_of msg = Some r \<and> lastRev s < r \<longrightarrow>
       lastRev (onmessage (Some msg) s) = r \<and>
       (\<exists>i. bumpTimer (onmessage (Some msg) s) = Some i \<and>
          map_of (timers (onmessage (Some msg) s)) i = Some (clock s + 150, BumpCb)))"
  using scheduleBump_pending [of "s\<lparr>lastRev := r\<rparr>" for r] assms
  by (auto simp: onmessage_def DEBOUNCE_MS_def scheduleBump_arm)

theorem onmessage_filter_witness:
  "onmessage (Some (frame 0)) new_live = new_live"
  using onmessage_filter [of new_live "frame 0"] live_inv_new
  by (simp add: live_inv_def frame_def rev_of_def new_live_def)

text \<open>
  Debouncing: a burst of frames with increasing revisions causes exactly one refetch. No tick
  happens during the burst; one timer is pending after it; when 150 ms have passed and it fires, the
  bus has ticked once and no refetch is pending.
\<close>

theorem burst_one_refetch:
  assumes "timers_ok s" "k \<in> set (attached s)" "sorted_wrt (<) (lastRev s # rs)" "rs \<noteq> []"
  shows "\<exists>i. bumpTimer (live_run (frames k rs) s) = Some i \<and> bus (live_run (frames k rs) s) = bus s \<and>
    bus (live_run (frames k rs @ [Wait 150, Fire i t q]) s) = bump (bus s) \<and>
    bumpTimer (live_run (frames k rs @ [Wait 150, Fire i t q]) s) = None"
proof -
  define s' where "s' = live_run (frames k rs) s"
  obtain i where i: "bumpTimer s' = Some i" "map_of (timers s') i = Some (clock s + 150, BumpCb)"
    and ok: "timers_ok s'" "bus s' = bus s" "clock s' = clock s"
    using burst_state [OF assms s'_def] by (auto simp: DEBOUNCE_MS_def)
  let ?w = "s'\<lparr>clock := clock s' + 150\<rparr>"
  have w: "timers_ok ?w" "map_of (timers ?w) i = Some (clock s + 150, BumpCb)" using ok i by simp_all
  have "live_run (frames k rs @ [Wait 150, Fire i t q]) s = live_step (Fire i t q) (live_step (Wait 150) s')"
    by (simp add: live_run_def s'_def)
  also have "\<dots> = run_timer BumpCb t q (clearTimeout (Some i) ?w)"
    using w ok by (simp add: live_step_def)
  also have "\<dots> = (disarm BumpCb ?w)\<lparr>bus := bump (bus ?w)\<rparr>" using fire_slot [OF w] by simp
  finally show ?thesis using i ok by (simp add: s'_def)
qed

theorem burst_one_refetch_witness:
  "\<exists>i. bus (live_run (frames 1 [3, 5, 8] @ [Wait 150, Fire i True 0]) (connect False 0 new_live)) = bump new_bus"
proof -
  have "timers_ok (connect False 0 new_live)" "1 \<in> set (attached (connect False 0 new_live))"
    "sorted_wrt (<) (lastRev (connect False 0 new_live) # [3, 5, 8])"
    using live_inv_step [OF live_inv_new, of "Connect False 0"]
    by (simp_all add: live_step_def live_inv_def) (simp_all add: live_eval)
  from burst_one_refetch [OF this] show ?thesis by (auto simp: live_eval)
qed

text \<open>
  C38. Retry delays: scheduling a retry when none is pending sets a timer between the current
  backoff and 1.3 times it, and doubles the backoff up to 8000 ms.
\<close>

theorem reconnect_delay:
  assumes "live_inv s" "\<not> stopped s" "reconnectTimer s = None" "0 \<le> random" "random \<le> 1"
  shows "\<exists>due. (next_timer s, due, ReconnectCb) \<in> set (timers (scheduleReconnect random s)) \<and>
    clock s + backoff s \<le> due \<and> due \<le> clock s + backoff s * (13 / 10) \<and>
    backoff (scheduleReconnect random s) = min (2 * backoff s) 8000 \<and>
    reconnectTimer (scheduleReconnect random s) = Some (next_timer s)"
proof -
  have b: "500 \<le> backoff s" "backoff s \<le> 8000"
    using assms(1) by (simp_all add: live_inv_def BACKOFF_START_def BACKOFF_CAP_def)
  then have j: "0 \<le> random * backoff s" "random * backoff s \<le> 1 * backoff s"
    using assms(4,5) by (simp, intro mult_right_mono) simp_all
  then show ?thesis using assms(2,3) b
    by (auto simp: scheduleReconnect_arm BACKOFF_CAP_def mult.commute)
qed

theorem reconnect_delay_witness:
  "\<exists>due. (1, due, ReconnectCb) \<in> set (timers (scheduleReconnect (1 / 2) new_live)) \<and>
     500 \<le> due \<and> due \<le> 650"
proof -
  have n: "\<not> stopped new_live" "reconnectTimer new_live = None" "next_timer new_live = 1"
    "backoff new_live = 500" "clock new_live = 0"
    by (simp_all add: new_live_def BACKOFF_START_def)
  from reconnect_delay [OF live_inv_new n(1,2), of "1 / 2"] show ?thesis unfolding n by auto
qed

text \<open>
  The guard of \<open>connect\<close> does not look at a pending retry: calling it while one is pending
  opens a second socket when the retry fires, and the first keeps its handlers.
\<close>

theorem connect_during_retry_leaks:
  "live_reach False (live_run [Connect False 0, SockClose 1 0, Connect False 0, Wait 1000, Fire 1 False 0] new_live) \<and>
   attached (live_run [Connect False 0, SockClose 1 0, Connect False 0, Wait 1000, Fire 1 False 0] new_live) = [2, 3] \<and>
   socket (live_run [Connect False 0, SockClose 1 0, Connect False 0, Wait 1000, Fire 1 False 0] new_live) = Some 3"
  by (rule conjI [OF reach_run [OF live_reach.start]]) (simp add: live_eval)

end
