(* ===== verification/RR_Session.thy ===== *)
theory RR_Session
  imports RR_Live
begin

text \<open>
  The session store (\<open>core/auth/session.store.ts\<close>), the HTTP interceptor
  (\<open>core/auth/auth.interceptor.ts\<close>), the start-up step of \<open>app.config.ts\<close> that opens the live channel and
  the dialog store (\<open>core/dialog.store.ts\<close>). The API response and the HTTP backend are arguments.
\<close>

section \<open>Session store\<close>

datatype role = Admin | Readonly

record session_user =
  su_email :: string
  su_name :: string
  su_initials :: string
  su_role :: role
  su_groups :: "string list"

record session =
  user :: "session_user option"
  loaded :: bool

definition new_session :: session where
  "new_session = \<lparr>user = None, loaded = False\<rparr>"

definition session_role :: "session \<Rightarrow> role" where
  "session_role s = (case user s of Some u \<Rightarrow> su_role u | None \<Rightarrow> Readonly)"

definition isAdmin :: "session \<Rightarrow> bool" where
  "isAdmin s \<longleftrightarrow> session_role s = Admin"

definition canEdit :: "session \<Rightarrow> bool" where
  "canEdit s = isAdmin s"

text \<open>The answer of \<open>api.me()\<close>: a user or any error.\<close>

definition session_load :: "'e + session_user \<Rightarrow> session \<Rightarrow> session" where
  "session_load answer s = (case answer of
     Inr u \<Rightarrow> s\<lparr>user := Some u, loaded := True\<rparr>
   | Inl _ \<Rightarrow> s\<lparr>user := None, loaded := True\<rparr>)"

definition session_clear :: "session \<Rightarrow> session" where
  "session_clear s = s\<lparr>user := None\<rparr>"

section \<open>Interceptor\<close>

datatype http_error = HttpErrorResponse int | OtherError

definition url_path :: "string \<Rightarrow> string" where
  "url_path u = takeWhile (\<lambda>c. c \<noteq> CHR ''?'' \<and> c \<noteq> CHR ''#'') u"

definition session_expired :: "string \<Rightarrow> http_error \<Rightarrow> session \<Rightarrow> bool" where
  "session_expired u err s \<longleftrightarrow>
     (let path = url_path u in
      err = HttpErrorResponse 401 \<and> user s \<noteq> None \<and>
      \<not> ends_with path ''/api/me'' \<and> \<not> str_includes path ''/auth/'')"

definition authInterceptor ::
    "string \<Rightarrow> http_error + 'r \<Rightarrow> session \<times> live \<Rightarrow> (http_error + 'r) \<times> session \<times> live" where
  "authInterceptor u response st = (case st of (s, l) \<Rightarrow>
     (case response of
        Inr r \<Rightarrow> (Inr r, s, l)
      | Inl err \<Rightarrow>
          if session_expired u err s then (Inl err, session_clear s, disconnect l)
          else (Inl err, s, l)))"

definition app_init :: "'e + session_user \<Rightarrow> bool \<Rightarrow> rat \<Rightarrow> session \<times> live \<Rightarrow> session \<times> live" where
  "app_init answer throws random st = (case st of (s, l) \<Rightarrow>
     (let s1 = session_load answer s in
      (s1, if user s1 \<noteq> None then connect throws random l else l)))"

section \<open>Dialog store\<close>

datatype dialog_kind = DRollout | DLock

record 'l dialogs =
  dialog_open :: "dialog_kind option"
  lockEdit :: "'l option"

definition new_dialogs :: "'l dialogs" where
  "new_dialogs = \<lparr>dialog_open = None, lockEdit = None\<rparr>"

definition openRollout :: "'l dialogs \<Rightarrow> 'l dialogs" where
  "openRollout d = d\<lparr>dialog_open := Some DRollout\<rparr>"

definition openLock :: "'l option \<Rightarrow> 'l dialogs \<Rightarrow> 'l dialogs" where
  "openLock l d = d\<lparr>lockEdit := l, dialog_open := Some DLock\<rparr>"

definition dialog_close :: "'l dialogs \<Rightarrow> 'l dialogs" where
  "dialog_close d = d\<lparr>dialog_open := None, lockEdit := None\<rparr>"

section \<open>Lemmas\<close>

lemma app_init_reach: "live_reach True (snd (app_init answer t r (new_session, new_live)))"
proof -
  have "live_reach True (live_step (Connect t r) new_live)"
    by (rule live_reach.step [OF live_reach.start]) (simp add: new_live_def)
  then show ?thesis by (simp add: app_init_def live_step_def live_reach.start Let_def)
qed

section \<open>Properties\<close>

text \<open>
  C13. Expired sessions: the interceptor always passes the response on unchanged; it signs the user
  out and stops the live channel exactly when the answer is a 401 to a request other than the
  \<open>/api/me\<close> probe and \<open>/auth/\<close> while a user is signed in, and otherwise touches nothing.
\<close>

theorem authInterceptor_correct:
  assumes "live_reach True l"
  shows "fst (authInterceptor u response (s, l)) = response \<and>
    (if response = Inl (HttpErrorResponse 401) \<and> user s \<noteq> None \<and>
       \<not> ends_with (takeWhile (\<lambda>c. c \<noteq> CHR ''?'' \<and> c \<noteq> CHR ''#'') u) ''/api/me'' \<and>
       \<not> str_includes (takeWhile (\<lambda>c. c \<noteq> CHR ''?'' \<and> c \<noteq> CHR ''#'') u) ''/auth/''
     then user (fst (snd (authInterceptor u response (s, l)))) = None \<and>
       \<not> canEdit (fst (snd (authInterceptor u response (s, l)))) \<and>
       timers (snd (snd (authInterceptor u response (s, l)))) = [] \<and>
       attached (snd (snd (authInterceptor u response (s, l)))) = [] \<and>
       status (snd (snd (authInterceptor u response (s, l)))) = Offline
     else snd (authInterceptor u response (s, l)) = (s, l))"
proof -
  have "quiet (disconnect l)"
    using live_inv_reach [OF assms] single_reach [OF assms] by (intro quiet_disconnect) (simp_all add: live_inv_def)
  then show ?thesis
    by (cases response)
      (auto simp: authInterceptor_def session_expired_def url_path_def Let_def session_clear_def quiet_def canEdit_def isAdmin_def session_role_def)
qed

theorem authInterceptor_correct_witness:
  "fst (authInterceptor ''/api/rollouts?x=1'' (Inl (HttpErrorResponse 401) :: http_error + nat) (new_session, new_live))
     = Inl (HttpErrorResponse 401)"
  using authInterceptor_correct [OF live_reach.start] by blast

end
