(* ===== verification/RR_Vdom.thy ===== *)
theory RR_Vdom
  imports RR_Prelude
begin

text \<open>
  Rendered markup. A component of the prototype under \<open>src/design/project\<close> is a function from its
  props and state to a tree of elements; handlers carry the action they dispatch, so what a user can
  do in a state is a function of the rendered tree: \<open>offered\<close> is the set of actions some click or
  input on an enabled element runs. Clicks bubble from the target to the root until a handler stops
  them; the handler of a disabled element does not run.

  The keys of list children and refs are not part of the tree. A controlled field reports the text
  or the checkbox value of its change event; a \<open>select\<close> can only report the value of one of its
  enabled options (the text of an option without a value). A handler that converts the text of a number
  field with \<open>Number\<close> is \<open>OnNum\<close>; only whole numbers are modelled. \<open>StyPct\<close> is the text of a number followed by a percent sign.
\<close>

datatype 'a attr =
    Attr string string
  | AttrN string rat
  | AttrB string bool
  | Sty string string
  | StyN string rat
  | StyPct string rat
  | On string 'a
  | OnStop string 'a
  | OnVal string "string \<Rightarrow> 'a"
  | OnChk string "bool \<Rightarrow> 'a"
  | OnNum string "int \<Rightarrow> 'a"
  | Stop string

datatype 'a node = Elem string "'a attr list" "'a node list" | Text string

abbreviation cls :: "string \<Rightarrow> 'a attr" where "cls s \<equiv> Attr ''className'' s"

section \<open>Embedding a child component\<close>

text \<open>A child's actions become the parent's by renaming.\<close>

definition lift_node :: "('a \<Rightarrow> 'b) \<Rightarrow> 'a node \<Rightarrow> 'b node" where
  "lift_node = map_node"

section \<open>What the user can do\<close>

definition disabled :: "'a attr list \<Rightarrow> bool" where
  "disabled as \<longleftrightarrow> list_ex (\<lambda>a. case a of AttrB n b \<Rightarrow> n = ''disabled'' \<and> b | _ \<Rightarrow> False) as"

definition stops :: "'a attr list \<Rightarrow> bool" where
  "stops as \<longleftrightarrow> list_ex (\<lambda>a. case a of Stop n \<Rightarrow> n = ''onClick'' | OnStop n _ \<Rightarrow> n = ''onClick'' | _ \<Rightarrow> False) as"

definition click_actions :: "'a attr list \<Rightarrow> 'a list" where
  "click_actions as =
     (if disabled as then []
      else concat (map (\<lambda>a. case a of On n x \<Rightarrow> if n = ''onClick'' then [x] else []
                              | OnStop n x \<Rightarrow> if n = ''onClick'' then [x] else [] | _ \<Rightarrow> []) as))"

text \<open>One click: whether it still bubbles, and the actions run so far.\<close>

definition bubble :: "'a attr list \<Rightarrow> bool \<times> 'a list \<Rightarrow> bool \<times> 'a list" where
  "bubble as c = (if fst c then (\<not> stops as, snd c @ click_actions as) else c)"

fun clicks :: "'a node \<Rightarrow> (bool \<times> 'a list) list" where
  "clicks (Text s) = []"
| "clicks (Elem t as ks) = map (bubble as) ((True, []) # concat (map clicks ks))"

definition clicked :: "'a node \<Rightarrow> 'a list list" where
  "clicked n = map snd (clicks n)"

text \<open>The actions of the handlers that are not clicks on enabled elements.\<close>

definition attr_offers :: "'a attr \<Rightarrow> 'a set" where
  "attr_offers a = (case a of
     On n x \<Rightarrow> {x} | OnStop n x \<Rightarrow> {x} | OnVal n f \<Rightarrow> range f | OnChk n f \<Rightarrow> range f | OnNum n f \<Rightarrow> range f | _ \<Rightarrow> {})"

text \<open>The text a user reads.\<close>

fun text_of :: "'a node \<Rightarrow> string" where
  "text_of (Text s) = s"
| "text_of (Elem t as ks) = concat (map text_of ks)"

definition value_attrs :: "'a attr list \<Rightarrow> string list" where
  "value_attrs as = concat (map (\<lambda>a. case a of Attr m v \<Rightarrow> if m = ''value'' then [v] else [] | _ \<Rightarrow> []) as)"

definition option_value :: "'a node \<Rightarrow> string list" where
  "option_value n = (case n of
     Elem t as ks \<Rightarrow>
       if t = ''option'' \<and> \<not> disabled as
       then (case value_attrs as of [] \<Rightarrow> [concat (map text_of ks)] | v # _ \<Rightarrow> [v]) else []
   | Text s \<Rightarrow> [])"

definition elem_offers :: "string \<Rightarrow> 'a node list \<Rightarrow> 'a attr \<Rightarrow> 'a set" where
  "elem_offers t ks a = (case a of
     OnVal n f \<Rightarrow> if t = ''select'' then f ` set (concat (map option_value ks)) else range f
   | _ \<Rightarrow> attr_offers a)"

fun offered :: "'a node \<Rightarrow> 'a set" where
  "offered (Text s) = {}"
| "offered (Elem t as ks) =
     (if disabled as then {} else (\<Union>a \<in> set as. elem_offers t ks a)) \<union> (\<Union>k \<in> set ks. offered k)"

definition offered_list :: "'a node list \<Rightarrow> 'a set" where
  "offered_list ks = (\<Union>k \<in> set ks. offered k)"

section \<open>Lemmas\<close>

lemma offered_list_simps [simp]:
  "offered_list [] = {}"
  "offered_list (k # ks) = offered k \<union> offered_list ks"
  "offered_list (xs @ ys) = offered_list xs \<union> offered_list ys"
  "offered_list (guarded b xs) = (if b then offered_list xs else {})"
  by (auto simp: offered_list_def guarded_def)

lemma offered_list_map: "offered_list (map f xs) = (\<Union>x \<in> set xs. offered (f x))"
  by (simp add: offered_list_def)

lemma offered_list_concat: "offered_list (concat (map f xs)) = (\<Union>x \<in> set xs. offered_list (f x))"
  by (simp add: offered_list_def)

lemma offered_Elem: "offered (Elem t as ks) =
    (if disabled as then {} else (\<Union>a \<in> set as. elem_offers t ks a)) \<union> offered_list ks"
  by (simp add: offered_list_def)

lemma attr_offers_simps [simp]:
  "attr_offers (Attr n s) = {}" "attr_offers (AttrN n r) = {}" "attr_offers (AttrB n b) = {}"
  "attr_offers (Sty n s) = {}" "attr_offers (StyN n r) = {}" "attr_offers (StyPct n r) = {}" "attr_offers (Stop n) = {}"
  "attr_offers (On n x) = {x}" "attr_offers (OnStop n x) = {x}"
  "attr_offers (OnVal n f) = range f" "attr_offers (OnChk n g) = range g" "attr_offers (OnNum n k) = range k"
  by (simp_all add: attr_offers_def)

lemma elem_offers_simps [simp]:
  "elem_offers t ks (Attr n s) = {}" "elem_offers t ks (AttrN n r) = {}" "elem_offers t ks (AttrB n b) = {}"
  "elem_offers t ks (Sty n s) = {}" "elem_offers t ks (StyN n r) = {}" "elem_offers t ks (StyPct n r) = {}"
  "elem_offers t ks (Stop n) = {}" "elem_offers t ks (On n x) = {x}" "elem_offers t ks (OnStop n x) = {x}"
  "elem_offers t ks (OnVal n f) = (if t = ''select'' then f ` (\<Union>k \<in> set ks. set (option_value k)) else range f)"
  "elem_offers t ks (OnChk n g) = range g" "elem_offers t ks (OnNum n k) = range k"
  by (simp_all add: elem_offers_def)

lemma value_attrs_simps [simp]:
  "value_attrs [] = []"
  "value_attrs (Attr n s # as) = (if n = ''value'' then s # value_attrs as else value_attrs as)"
  "value_attrs (AttrN n r # as) = value_attrs as" "value_attrs (AttrB n b # as) = value_attrs as"
  "value_attrs (Sty n s # as) = value_attrs as" "value_attrs (StyN n r # as) = value_attrs as"
  "value_attrs (StyPct n r # as) = value_attrs as" "value_attrs (Stop n # as) = value_attrs as"
  "value_attrs (On n x # as) = value_attrs as" "value_attrs (OnStop n x # as) = value_attrs as"
  "value_attrs (OnVal n f # as) = value_attrs as" "value_attrs (OnChk n g # as) = value_attrs as"
  "value_attrs (OnNum n k # as) = value_attrs as"
  by (simp_all add: value_attrs_def)

lemma option_value_simps [simp]:
  "option_value (Text s) = []"
  "option_value (Elem t as ks) =
     (if t = ''option'' \<and> \<not> disabled as
      then (case value_attrs as of [] \<Rightarrow> [concat (map text_of ks)] | v # _ \<Rightarrow> [v]) else [])"
  by (simp_all add: option_value_def)

lemma disabled_simps [simp]:
  "disabled [] = False"
  "disabled (Attr n s # as) = disabled as" "disabled (AttrN n r # as) = disabled as"
  "disabled (AttrB n b # as) = ((n = ''disabled'' \<and> b) \<or> disabled as)"
  "disabled (Sty n s # as) = disabled as" "disabled (StyN n r # as) = disabled as"
  "disabled (StyPct n r # as) = disabled as"
  "disabled (Stop n # as) = disabled as" "disabled (On n x # as) = disabled as"
  "disabled (OnStop n x # as) = disabled as" "disabled (OnVal n f # as) = disabled as"
  "disabled (OnChk n g # as) = disabled as" "disabled (OnNum n k # as) = disabled as"
  by (simp_all add: disabled_def)

lemma disabled_map: "disabled (map (map_attr f) as) = disabled as"
  by (induction as) (simp_all add: disabled_def, auto split: attr.splits)

lemma value_attrs_map: "value_attrs (map (map_attr f) as) = value_attrs as"
proof (induction as)
  case (Cons a as)
  then show ?case by (cases a) simp_all
qed simp

lemma text_of_map: "text_of (map_node f n) = text_of n"
proof (induction n)
  case (Elem t as ks)
  then have "map text_of (map (map_node f) ks) = map text_of ks" by simp
  then show ?case by (simp only: node.map text_of.simps)
qed simp

lemma option_value_map: "option_value (map_node f n) = option_value n"
proof (cases n)
  case (Elem t as ks)
  have "map text_of (map (map_node f) ks) = map text_of ks" by (simp add: text_of_map)
  then show ?thesis unfolding Elem node.map option_value_simps by (simp only: disabled_map value_attrs_map)
qed simp

lemma elem_offers_map: "elem_offers t (map (map_node f) ks) (map_attr f a) = f ` elem_offers t ks a"
  by (cases a) (simp_all add: option_value_map image_image)

lemma offered_lift [simp]: "offered (lift_node f n) = f ` offered n"
proof (induction n)
  case (Elem t as ks)
  have "(\<Union>a \<in> set as. elem_offers t (map (map_node f) ks) (map_attr f a)) = f ` (\<Union>a \<in> set as. elem_offers t ks a)"
    by (auto simp: elem_offers_map)
  with Elem show ?case by (auto simp: lift_node_def disabled_map)
qed (simp add: lift_node_def)

lemma offered_list_lift: "offered_list (map (lift_node f) ns) = f ` offered_list ns"
  by (auto simp: offered_list_def)

lemma clicks_offered: "c \<in> set (clicks n) \<Longrightarrow> set (snd c) \<subseteq> offered n"
proof (induction n arbitrary: c)
  case (Elem t as ks)
  have own: "set (click_actions as) \<subseteq> (if disabled as then {} else (\<Union>a \<in> set as. elem_offers t ks a))"
    by (auto simp: click_actions_def split: attr.splits if_splits)
  from Elem.prems obtain d where c: "c = bubble as d" and d: "d = (True, []) \<or> (\<exists>k \<in> set ks. d \<in> set (clicks k))"
    by auto
  have "set (snd d) \<subseteq> (\<Union>k \<in> set ks. offered k)" using d Elem.IH by fastforce
  then show ?case using own unfolding c bubble_def by auto
qed simp

text \<open>Every action a click runs is an offered one.\<close>

lemma clicked_offered: "xs \<in> set (clicked n) \<Longrightarrow> set xs \<subseteq> offered n"
  using clicks_offered by (auto simp: clicked_def)

lemma offered_list_if [simp]: "offered_list (if b then xs else ys) = (if b then offered_list xs else offered_list ys)"
  by simp

lemma offered_list_case [simp]:
  "offered_list (case v of None \<Rightarrow> xs | Some y \<Rightarrow> f y) = (case v of None \<Rightarrow> offered_list xs | Some y \<Rightarrow> offered_list (f y))"
  by (simp split: option.splits)

lemma offered_case_prod [simp]:
  "offered (case x of (a, b) \<Rightarrow> f a b) = offered (f (fst x) (snd x))"
  "offered_list (case x of (a, b) \<Rightarrow> g a b) = offered_list (g (fst x) (snd x))"
  by (simp_all split: prod.splits)

declare offered.simps(2) [simp del] offered_Elem [simp] offered_list_map [simp] offered_list_concat [simp]

section \<open>Components with state\<close>

text \<open>
  A component runs the actions its view offers and those of its surroundings (\<open>env\<close>: observers,
  timers, a press outside of it). A view that throws offers nothing.
\<close>

definition offered_opt :: "'a node option \<Rightarrow> 'a set" where
  "offered_opt v = (case v of Some n \<Rightarrow> offered n | None \<Rightarrow> {})"

inductive ui_reach :: "('s \<Rightarrow> 'a node option) \<Rightarrow> 'a set \<Rightarrow> ('a \<Rightarrow> 's \<Rightarrow> 's) \<Rightarrow> 's \<Rightarrow> 's \<Rightarrow> bool"
  for view :: "'s \<Rightarrow> 'a node option" and env :: "'a set" and act :: "'a \<Rightarrow> 's \<Rightarrow> 's" and start :: 's where
  init: "ui_reach view env act start start"
| act: "ui_reach view env act start s \<Longrightarrow> a \<in> offered_opt (view s) \<union> env \<Longrightarrow>
    ui_reach view env act start (act a s)"

text \<open>
  The contract of a stateful component: an invariant that holds at the start and that every action
  preserves. It then holds in every state the user can reach.
\<close>

locale ui_component =
  fixes view :: "'s \<Rightarrow> 'a node option" and env :: "'a set" and act :: "'a \<Rightarrow> 's \<Rightarrow> 's"
    and start :: 's and inv :: "'s \<Rightarrow> bool"
  assumes inv_start: "inv start"
    and inv_act: "inv s \<Longrightarrow> a \<in> offered_opt (view s) \<union> env \<Longrightarrow> inv (act a s)"
begin

lemma inv_reach: "ui_reach view env act start s \<Longrightarrow> inv s"
  by (induction rule: ui_reach.induct) (use inv_start inv_act in blast)+

end

lemma offered_opt_simps [simp]: "offered_opt None = {}" "offered_opt (Some n) = offered n"
  by (simp_all add: offered_opt_def)

end
