(* ===== verification/RR_Data.thy ===== *)
theory RR_Data
  imports RR_Date RR_Vdom
begin

text \<open>
  The records and the seed data of \<open>src/design/project/data.js\<close>: products, rollout types with their
  cascade plans, actors, rollouts and locks, the date helpers and the lookups by id. \<open>TODAY\<close> is local
  midnight of 27 May 2026. An object the lookups do not find is \<open>None\<close>.
\<close>

section \<open>Records\<close>

record product =
  prod_id :: string
  prod_name :: string
  prod_owner :: string
  prod_brokers :: "string list"

record plan_step =
  ps_stage :: string
  ps_delayHours :: int

record rollout_type =
  rt_id :: string
  rt_name :: string
  rt_short :: string
  rt_tone :: string
  rt_cascadePlan :: "plan_step list"
  rt_announce :: string
  rt_rules :: "string list"
  rt_tasks :: "string list"

record actor =
  ac_id :: string
  ac_name :: string
  ac_initials :: string
  ac_hue :: int
  ac_role :: string

record stage_run =
  sr_env :: string
  sr_offset :: int
  sr_time :: string
  sr_duration :: int
  sr_status :: string

record rollout =
  ro_id :: string
  ro_product :: string
  ro_typeId :: string
  ro_title :: string
  ro_stages :: "stage_run list"
  ro_pair :: "string list"
  ro_risks :: string
  ro_descExt :: string
  ro_descInt :: string
  ro_checked :: "nat list"

record lock =
  lk_id :: string
  lk_title :: string
  lk_description :: string
  lk_contact :: string
  lk_startOffset :: int
  lk_endOffset :: int
  lk_products :: "string list"
  lk_kind :: string

section \<open>Seed data\<close>

definition PRODUCTS :: "product list" where
  "PRODUCTS =
    [\<lparr>prod_id = ''operator'',
       prod_name = ''operator'',
       prod_owner = ''Team Athena'',
       prod_brokers = [''frankfurt-01'', ''frankfurt-02'', ''zeus-01'', ''zeus-02'']\<rparr>,
     \<lparr>prod_id = ''concentrator'',
       prod_name = ''concentrator'',
       prod_owner = ''Team Athena'',
       prod_brokers = [''frankfurt-01'', ''frankfurt-02'', ''zeus-01'', ''zeus-02'']\<rparr>,
     \<lparr>prod_id = ''monalesy'',
       prod_name = ''monalesy'',
       prod_owner = ''Team Hermes'',
       prod_brokers = [''mon-eu-1'', ''mon-eu-2'']\<rparr>,
     \<lparr>prod_id = ''microservices'',
       prod_name = ''micro services'',
       prod_owner = ''Platform Core'',
       prod_brokers = [''frontend'', ''appluser'', ''monitoring'', ''eks-info'', ''solace-exporter'', ''ca'', ''msg-dup'']\<rparr>]"

definition ROLLOUT_TYPES :: "rollout_type list" where
  "ROLLOUT_TYPES =
    [\<lparr>rt_id = ''tms-ssp-nc'',
       rt_name = ''tms-ssp non-critical'',
       rt_short = ''non-critical'',
       rt_tone = ''neutral'',
       rt_cascadePlan = [\<lparr>ps_stage = ''non-prod'', ps_delayHours = 0\<rparr>],
       rt_announce = (''Ank'' @ u_ue @ ''ndigen in TMS_PROD min. 1h vorab''),
       rt_rules = [(''Micro-Service Rollout '' @ u_mdash @ '' kein Einfluss auf Produktion m'' @ u_oe @ ''glich''), ''Manuelle Nachkontrolle der Applikation + Logs''],
       rt_tasks = [(''Announce in TMS_PROD ('' @ u_ge @ '' 1h)''), ''Deploy to environment'', ''Manual log check'', ''Confirm green metrics in Grafana'']\<rparr>,
     \<lparr>rt_id = ''tms-ssp-c'',
       rt_name = ''tms-ssp critical'',
       rt_short = ''critical'',
       rt_tone = ''warn'',
       rt_cascadePlan = [\<lparr>ps_stage = ''non-prod'', ps_delayHours = 0\<rparr>],
       rt_announce = (''Ank'' @ u_ue @ ''ndigen in TMS_PROD min. 1d vorab''),
       rt_rules = [''Deployment + broker creation disabled during window'', ''Maintenance mode aktiv'', ''Rollout im Pair'', ''Run broker diff before lifting maintenance mode''],
       rt_tasks = [(''Announce in TMS_PROD ('' @ u_ge @ '' 1d)''), ''Enable Maintenance Mode'', ''Disable deployment + broker creation'', ''Deploy'', ''Run broker diff on all brokers'', ''Lift Maintenance Mode'', ''Manual log check'']\<rparr>,
     \<lparr>rt_id = ''tms-ssp-hf'',
       rt_name = ''tms-ssp critical hotfix'',
       rt_short = ''critical hotfix'',
       rt_tone = ''danger'',
       rt_cascadePlan = [\<lparr>ps_stage = ''non-prod'', ps_delayHours = 0\<rparr>],
       rt_announce = (''Ank'' @ u_ue @ ''ndigen in TMS_PROD min. 1h vorab''),
       rt_rules = [(''Pair review vorab um Risiko abzusch'' @ u_ae @ ''tzen''), ''via HotFix branch'', ''Maintenance mode aktiv'', ''Run broker diff vor Aufheben der Maintenance''],
       rt_tasks = [''Pair-review risk assessment'', ''Cut hotfix branch'', (''Announce in TMS_PROD ('' @ u_ge @ '' 1h)''), ''Enable Maintenance Mode'', ''Deploy hotfix'', ''Run broker diff on all brokers'', ''Lift Maintenance Mode'', ''Manual log check'']\<rparr>,
     \<lparr>rt_id = ''concentrator-mod'',
       rt_name = ''concentrator modification'',
       rt_short = ''concentrator mod'',
       rt_tone = ''warn'',
       rt_cascadePlan = [\<lparr>ps_stage = ''non-prod'', ps_delayHours = 0\<rparr>, \<lparr>ps_stage = ''prod1'', ps_delayHours = 168\<rparr>, \<lparr>ps_stage = ''prod2'', ps_delayHours = 336\<rparr>],
       rt_announce = (''TMS_NP 1d '' @ u_bullet @ '' TMS_PROD 1w (prod1) '' @ u_bullet @ '' TMS_PROD 2w (prod2)''),
       rt_rules = [''Individuelles Rollout-Drehbuch erforderlich'', ''Maintenance mode aktiv'', ''Rollout im Pair'', ''Run broker diff vor Aufheben der Maintenance''],
       rt_tasks = [(''Announce in TMS_NP ('' @ u_ge @ '' 1d) for non-prod''), (''Announce in TMS_PROD ('' @ u_ge @ '' 1w) for prod1''), (''Announce in TMS_PROD ('' @ u_ge @ '' 2w) for prod2''), ''Enable Maintenance Mode'', ''Apply concentrator modification'', ''Run broker diff on all brokers'', ''Lift Maintenance Mode'', ''Manual log check'']\<rparr>,
     \<lparr>rt_id = ''operator-feature'',
       rt_name = ''operator feature (oracle & solace)'',
       rt_short = ''operator feature'',
       rt_tone = ''info'',
       rt_cascadePlan = [\<lparr>ps_stage = ''non-prod'', ps_delayHours = 0\<rparr>, \<lparr>ps_stage = ''prod1'', ps_delayHours = 168\<rparr>, \<lparr>ps_stage = ''prod2'', ps_delayHours = 336\<rparr>],
       rt_announce = (''TMS_NP 1h '' @ u_bullet @ '' TMS_PROD 1w (prod1) '' @ u_bullet @ '' TMS_PROD 2w (prod2)''),
       rt_rules = [''Maintenance mode aktiv'', ''Rollout im Pair'', ''Run broker diff vor Aufheben der Maintenance''],
       rt_tasks = [(''Announce in TMS_NP ('' @ u_ge @ '' 1h)''), (''Announce in TMS_PROD ('' @ u_ge @ '' 1w prod1, '' @ u_ge @ '' 2w prod2)''), ''Enable Maintenance Mode'', ''Deploy operator (oracle + solace)'', ''Run broker diff on all brokers'', ''Lift Maintenance Mode'', ''Manual log check'']\<rparr>,
     \<lparr>rt_id = ''operator-hf'',
       rt_name = ''operator critical hotfix'',
       rt_short = ''operator hotfix'',
       rt_tone = ''danger'',
       rt_cascadePlan = [\<lparr>ps_stage = ''non-prod'', ps_delayHours = 0\<rparr>, \<lparr>ps_stage = ''prod1'', ps_delayHours = 24\<rparr>, \<lparr>ps_stage = ''prod2'', ps_delayHours = 48\<rparr>],
       rt_announce = (''TMS_NP 1h '' @ u_bullet @ '' TMS_PROD 1d (prod1) '' @ u_bullet @ '' TMS_PROD 2d (prod2)''),
       rt_rules = [''via HotFix branch'', ''Maintenance mode aktiv'', ''Rollout im Pair''],
       rt_tasks = [''Cut hotfix branch'', (''Announce in TMS_NP ('' @ u_ge @ '' 1h)''), (''Announce in TMS_PROD ('' @ u_ge @ '' 1d prod1, '' @ u_ge @ '' 2d prod2)''), ''Enable Maintenance Mode'', ''Deploy hotfix'', ''Run broker diff on all brokers'', ''Lift Maintenance Mode'', ''Manual log check'']\<rparr>,
     \<lparr>rt_id = ''monalesy-feature'',
       rt_name = ''monalesy feature'',
       rt_short = ''monalesy feature'',
       rt_tone = ''info'',
       rt_cascadePlan = [\<lparr>ps_stage = ''non-prod'', ps_delayHours = 0\<rparr>],
       rt_announce = ''TMS_PROD 1d vorab'',
       rt_rules = [''SNOW change / Anmeldung beim Kunden (prod)'', ''Rollout im Pair (prod)''],
       rt_tasks = [''Open SNOW change'', (''Announce in TMS_PROD ('' @ u_ge @ '' 1d)''), ''Customer notification'', ''Deploy monalesy'', ''Manual log check'']\<rparr>,
     \<lparr>rt_id = ''monalesy-patch'',
       rt_name = ''monalesy patch'',
       rt_short = ''monalesy patch'',
       rt_tone = ''neutral'',
       rt_cascadePlan = [\<lparr>ps_stage = ''non-prod'', ps_delayHours = 0\<rparr>],
       rt_announce = ''TMS_PROD 1h vorab'',
       rt_rules = [''SNOW change bei prod-Komponenten'', ''Rollout im Pair bei prod-Komponenten''],
       rt_tasks = [''Open SNOW change (if prod)'', (''Announce in TMS_PROD ('' @ u_ge @ '' 1h)''), ''Deploy patch'', ''Manual log check'']\<rparr>]"

definition ACTORS :: "actor list" where
  "ACTORS =
    [\<lparr>ac_id = ''luc'',
       ac_name = ''Luc B.'',
       ac_initials = ''LB'',
       ac_hue = 210,
       ac_role = ''admin''\<rparr>,
     \<lparr>ac_id = ''hen'',
       ac_name = ''Henning H.'',
       ac_initials = ''HH'',
       ac_hue = 30,
       ac_role = ''admin''\<rparr>,
     \<lparr>ac_id = ''mira'',
       ac_name = ''Mira K.'',
       ac_initials = ''MK'',
       ac_hue = 280,
       ac_role = ''admin''\<rparr>,
     \<lparr>ac_id = ''tomas'',
       ac_name = (''Tom'' @ u_aacute @ u_scaron @ '' P.''),
       ac_initials = ''TP'',
       ac_hue = 150,
       ac_role = ''admin''\<rparr>,
     \<lparr>ac_id = ''sina'',
       ac_name = ''Sina W.'',
       ac_initials = ''SW'',
       ac_hue = 340,
       ac_role = ''readonly''\<rparr>,
     \<lparr>ac_id = ''ravi'',
       ac_name = ''Ravi N.'',
       ac_initials = ''RN'',
       ac_hue = 195,
       ac_role = ''admin''\<rparr>]"

definition TODAY :: "host \<Rightarrow> int" where
  "TODAY h = new_date h 2026 4 27"

definition dateKey :: "int \<Rightarrow> string" where
  "dateKey d = iso_day (d div ms_per_day)"

definition addDays :: "host \<Rightarrow> int \<Rightarrow> int \<Rightarrow> int" where
  "addDays h d n = set_date h d (getDate h d + n)"

definition ROLLOUTS :: "rollout list" where
  "ROLLOUTS =
    [\<lparr>ro_id = ''r-101'',
       ro_product = ''operator'',
       ro_typeId = ''operator-feature'',
       ro_title = (''operator 24.7 '' @ u_mdash @ '' broker auth refactor''),
       ro_stages = [\<lparr>sr_env = ''non-prod'', sr_offset = - 2, sr_time = ''09:00'', sr_duration = 2, sr_status = ''done''\<rparr>, \<lparr>sr_env = ''prod1'', sr_offset = 5, sr_time = ''10:00'', sr_duration = 2, sr_status = ''scheduled''\<rparr>, \<lparr>sr_env = ''prod2'', sr_offset = 12, sr_time = ''10:00'', sr_duration = 2, sr_status = ''scheduled''\<rparr>],
       ro_pair = [''luc'', ''hen''],
       ro_risks = ''Deployment + broker creation disabled for ~2h. Touches oracle schema migration (rev 14).'',
       ro_descExt = ''operator 24.7 rollout. Customers may observe transient broker creation latency during the maintenance window.'',
       ro_descInt = ''Includes oracle migration rev 14 + solace exporter v2.3. Pair-reviewed by Luc/Henning. Rollback path: revert deploy + downgrade migration.'',
       ro_checked = [0, 1, 2, 3]\<rparr>,
     \<lparr>ro_id = ''r-102'',
       ro_product = ''concentrator'',
       ro_typeId = ''concentrator-mod'',
       ro_title = (''concentrator '' @ u_mdash @ '' TLS 1.3 enforcement''),
       ro_stages = [\<lparr>sr_env = ''non-prod'', sr_offset = 1, sr_time = ''14:00'', sr_duration = 3, sr_status = ''scheduled''\<rparr>, \<lparr>sr_env = ''prod1'', sr_offset = 8, sr_time = ''10:00'', sr_duration = 3, sr_status = ''scheduled''\<rparr>, \<lparr>sr_env = ''prod2'', sr_offset = 15, sr_time = ''10:00'', sr_duration = 3, sr_status = ''scheduled''\<rparr>],
       ro_pair = [''mira'', ''tomas''],
       ro_risks = ''Old clients on TLS 1.2 will be rejected. Customer list reviewed; 3 customers notified individually.'',
       ro_descExt = ''concentrator enforces TLS 1.3 minimum. Legacy TLS 1.2 connections will be rejected after this rollout.'',
       ro_descInt = ''Drehbuch: docs/runbooks/conc-tls13.md. Pre-check: openssl scan against all brokers.'',
       ro_checked = []\<rparr>,
     \<lparr>ro_id = ''r-103'',
       ro_product = ''microservices'',
       ro_typeId = ''tms-ssp-nc'',
       ro_title = (''tms-ssp '' @ u_mdash @ '' frontend nav redesign''),
       ro_stages = [\<lparr>sr_env = ''non-prod'', sr_offset = 0, sr_time = ''11:00'', sr_duration = 1, sr_status = ''active''\<rparr>],
       ro_pair = [''sina''],
       ro_risks = ''Pure frontend change, feature-flagged.'',
       ro_descExt = ''Updated navigation in the TMS self-service portal.'',
       ro_descInt = (''Behind flag `nav-v2`. Roll-forward only '' @ u_mdash @ '' no DB changes.''),
       ro_checked = [0, 1]\<rparr>,
     \<lparr>ro_id = ''r-104'',
       ro_product = ''microservices'',
       ro_typeId = ''tms-ssp-hf'',
       ro_title = (''tms-ssp '' @ u_mdash @ '' auth token leak hotfix''),
       ro_stages = [\<lparr>sr_env = ''non-prod'', sr_offset = 2, sr_time = ''08:00'', sr_duration = 1, sr_status = ''blocked''\<rparr>],
       ro_pair = [''luc'', ''ravi''],
       ro_risks = (u_warning @ '' Lock Active: Bug on master (#4029). Force-push not acceptable. Rollout paused until hotfix branch is green.''),
       ro_descExt = ''Security hotfix addressing token leak in appluser service.'',
       ro_descInt = ''Hotfix branch: hotfix/4029-token-leak. Awaiting CI green before scheduling.'',
       ro_checked = [0]\<rparr>,
     \<lparr>ro_id = ''r-105'',
       ro_product = ''monalesy'',
       ro_typeId = ''monalesy-patch'',
       ro_title = (''monalesy '' @ u_mdash @ '' 12.4.2 patch''),
       ro_stages = [\<lparr>sr_env = ''non-prod'', sr_offset = 3, sr_time = ''13:00'', sr_duration = 1, sr_status = ''scheduled''\<rparr>],
       ro_pair = [''tomas''],
       ro_risks = ''Minor patch. No customer notification required (no prod components).'',
       ro_descExt = ''Routine monalesy patch.'',
       ro_descInt = (''Bumps libmon 2.4 '' @ u_arrow @ '' 2.4.1.''),
       ro_checked = []\<rparr>,
     \<lparr>ro_id = ''r-106'',
       ro_product = ''operator'',
       ro_typeId = ''operator-hf'',
       ro_title = (''operator '' @ u_mdash @ '' solace pool leak hotfix''),
       ro_stages = [\<lparr>sr_env = ''non-prod'', sr_offset = 4, sr_time = ''16:00'', sr_duration = 1, sr_status = ''scheduled''\<rparr>, \<lparr>sr_env = ''prod1'', sr_offset = 6, sr_time = ''10:00'', sr_duration = 1, sr_status = ''scheduled''\<rparr>, \<lparr>sr_env = ''prod2'', sr_offset = 8, sr_time = ''10:00'', sr_duration = 1, sr_status = ''scheduled''\<rparr>],
       ro_pair = [''hen'', ''mira''],
       ro_risks = ''Connection pool exhaustion under high fan-out. Hotfix branch already reviewed.'',
       ro_descExt = ''operator hotfix addressing solace connection pool exhaustion.'',
       ro_descInt = ''hotfix/solace-pool-leak. Cherry-picked from main.'',
       ro_checked = []\<rparr>,
     \<lparr>ro_id = ''r-107'',
       ro_product = ''monalesy'',
       ro_typeId = ''monalesy-feature'',
       ro_title = (''monalesy '' @ u_mdash @ '' multi-tenant export''),
       ro_stages = [\<lparr>sr_env = ''non-prod'', sr_offset = 9, sr_time = ''09:30'', sr_duration = 2, sr_status = ''scheduled''\<rparr>],
       ro_pair = [''ravi'', ''sina''],
       ro_risks = ''Customer-facing feature. SNOW change opened (CHG0094821).'',
       ro_descExt = ''Adds multi-tenant export support to monalesy.'',
       ro_descInt = ''Feature behind tenant flag. SNOW CHG0094821 raised.'',
       ro_checked = []\<rparr>]"

definition LOCKS_RAW :: "lock list" where
  "LOCKS_RAW =
    [\<lparr>lk_id = ''l-1'',
       lk_title = (''Berner Feiertag '' @ u_mdash @ '' Auffahrt''),
       lk_description = ''Cantonal holiday (Bern). No rollouts permitted.'',
       lk_contact = u_mdash,
       lk_startOffset = 7,
       lk_endOffset = 7,
       lk_products = [''all''],
       lk_kind = ''holiday''\<rparr>,
     \<lparr>lk_id = ''l-2'',
       lk_title = ''Master Branch Bug #4029'',
       lk_description = ''Auth token leak present on master. Do not deploy until hotfix branch is merged. Force-push on master is NOT permitted.'',
       lk_contact = (''Luc B. '' @ u_mdash @ '' #tms-platform''),
       lk_startOffset = - 1,
       lk_endOffset = 3,
       lk_products = [''microservices'', ''operator''],
       lk_kind = ''manual''\<rparr>,
     \<lparr>lk_id = ''l-3'',
       lk_title = ''Easter Friday'',
       lk_description = ''Public holiday. No rollouts.'',
       lk_contact = u_mdash,
       lk_startOffset = 14,
       lk_endOffset = 14,
       lk_products = [''all''],
       lk_kind = ''holiday''\<rparr>]"

definition isFriday :: "host \<Rightarrow> int \<Rightarrow> bool" where
  "isFriday h d \<longleftrightarrow> getDay h d = 5"

definition getProduct :: "string \<Rightarrow> product option" where
  "getProduct i = List.find (\<lambda>p. prod_id p = i) PRODUCTS"

definition getType :: "string \<Rightarrow> rollout_type option" where
  "getType i = List.find (\<lambda>t. rt_id t = i) ROLLOUT_TYPES"

definition getActor :: "string \<Rightarrow> actor option" where
  "getActor i = List.find (\<lambda>a. ac_id a = i) ACTORS"

section \<open>Properties\<close>

text \<open>
  The lookups find what the tables hold: searching a product, rollout type or actor by its id returns
  exactly that entry, and what a search returns is an entry with the id asked for.
\<close>

theorem lookup_by_id:
  "list_all (\<lambda>p. getProduct (prod_id p) = Some p) PRODUCTS \<and> list_all (\<lambda>t. getType (rt_id t) = Some t) ROLLOUT_TYPES \<and>
   list_all (\<lambda>a. getActor (ac_id a) = Some a) ACTORS \<and>
   (getProduct i = Some p \<longrightarrow> p \<in> set PRODUCTS \<and> prod_id p = i) \<and>
   (getType i = Some t \<longrightarrow> t \<in> set ROLLOUT_TYPES \<and> rt_id t = i) \<and>
   (getActor i = Some a \<longrightarrow> a \<in> set ACTORS \<and> ac_id a = i)"
proof -
  have "list_all (\<lambda>p. getProduct (prod_id p) = Some p) PRODUCTS" "list_all (\<lambda>t. getType (rt_id t) = Some t) ROLLOUT_TYPES"
    "list_all (\<lambda>a. getActor (ac_id a) = Some a) ACTORS" by code_simp+
  then show ?thesis by (auto simp: getProduct_def getType_def getActor_def find_Some_iff)
qed

theorem lookup_by_id_witness: "getProduct ''monalesy'' = Some (PRODUCTS ! 2) \<and> prod_id (PRODUCTS ! 2) = ''monalesy''"
proof -
  have "getProduct ''monalesy'' = Some (PRODUCTS ! 2)" by code_simp
  with lookup_by_id [of "''monalesy''" "PRODUCTS ! 2"] show ?thesis by simp
qed

end
