(* ===== verification/RR_Shell.thy ===== *)
theory RR_Shell
  imports RR_Data
begin

text \<open>
  The shared atoms and the application shell of \<open>src/design/project/shell.jsx\<close>: icons, tones, the
  stage table with its fallback, the delay text, the announcement policy derived from a cascade
  plan, badges, avatars, the sidebar and the header; and their counterparts in
  \<open>src/frontend/src/app/core/stage.ts\<close>. A lookup in an object literal is a lookup in its own
  properties.
\<close>

section \<open>Icons and tones\<close>

definition ICONS :: "string \<Rightarrow> string option" where
  "ICONS = map_of
     [(''timeline'', ''M3 6h18M3 12h12M3 18h7''),
      (''rollout'', ''M4 12h10M4 12l4-4M4 12l4 4M14 4h6v16h-6''),
      (''lock'', ''M6 11h12v9H6zM8 11V8a4 4 0 1 1 8 0v3''),
      (''data'', ''M4 6c0-1.1 3.6-2 8-2s8 .9 8 2-3.6 2-8 2-8-.9-8-2zm0 0v12c0 1.1 3.6 2 8 2s8-.9 8-2V6M4 12c0 1.1 3.6 2 8 2s8-.9 8-2''),
      (''people'', ''M16 11a3 3 0 1 0-3-3M3 20a6 6 0 0 1 12 0M17 13a5 5 0 0 1 4 7M8 8a3 3 0 1 0 6 0 3 3 0 0 0-6 0z''),
      (''cal'', ''M3 5h18v16H3zM3 9h18M8 3v4M16 3v4''),
      (''download'', ''M12 4v12m0 0l-4-4m4 4l4-4M4 20h16''),
      (''search'', ''M11 4a7 7 0 1 0 0 14 7 7 0 0 0 0-14zm5 12 5 5''),
      (''plus'', ''M12 5v14M5 12h14''),
      (''warn'', ''M12 3l10 18H2L12 3zM12 10v5M12 18v.5''),
      (''check'', ''M4 12l5 5L20 6''),
      (''x'', ''M6 6l12 12M18 6L6 18''),
      (''chev'', ''M9 6l6 6-6 6''),
      (''dot'', ''M12 12.01''),
      (''bolt'', ''M13 3 4 14h7l-1 7 9-11h-7l1-7z''),
      (''filter'', ''M3 5h18M6 12h12M10 19h4''),
      (''link'', ''M10 14a5 5 0 0 0 7 0l3-3a5 5 0 0 0-7-7l-1 1M14 10a5 5 0 0 0-7 0l-3 3a5 5 0 0 0 7 7l1-1''),
      (''copy'', ''M9 9h11v11H9zM5 15V5h10''),
      (''code'', ''M9 4l-5 8 5 8M15 4l5 8-5 8M14 4L10 20''),
      (''user'', ''M12 12a4 4 0 1 0 0-8 4 4 0 0 0 0 8zM4 21a8 8 0 0 1 16 0'')]"

definition Icon_full :: "string option \<Rightarrow> rat \<Rightarrow> rat \<Rightarrow> string \<Rightarrow> string \<Rightarrow> 'a node" where
  "Icon_full d sz stroke className fill =
     Elem ''svg'' [AttrN ''width'' sz, AttrN ''height'' sz, Attr ''viewBox'' ''0 0 24 24'', Attr ''fill'' fill,
         Attr ''stroke'' ''currentColor'', AttrN ''strokeWidth'' stroke, Attr ''strokeLinecap'' ''round'',
         Attr ''strokeLinejoin'' ''round'', cls className]
       (case d of Some p \<Rightarrow> [Elem ''path'' [Attr ''d'' p] []] | None \<Rightarrow> [])"

abbreviation Icon :: "string option \<Rightarrow> rat \<Rightarrow> 'a node" where
  "Icon d sz \<equiv> Icon_full d sz (16 / 10) [] ''none''"

record tone =
  tn_bg :: string
  tn_fg :: string
  tn_bd :: string

definition TONE :: "(string \<times> tone) list" where
  "TONE =
     [(''neutral'', \<lparr>tn_bg = ''rgba(113,113,122,.16)'', tn_fg = ''#e4e4e7'', tn_bd = ''rgba(113,113,122,.4)''\<rparr>),
      (''info'', \<lparr>tn_bg = ''rgba(56,139,253,.12)'', tn_fg = ''#7cc4ff'', tn_bd = ''rgba(56,139,253,.4)''\<rparr>),
      (''warn'', \<lparr>tn_bg = ''rgba(245,158,11,.12)'', tn_fg = ''#fbbf24'', tn_bd = ''rgba(245,158,11,.4)''\<rparr>),
      (''danger'', \<lparr>tn_bg = ''rgba(239,68,68,.12)'', tn_fg = ''#fca5a5'', tn_bd = ''rgba(239,68,68,.45)''\<rparr>),
      (''ok'', \<lparr>tn_bg = ''rgba(34,197,94,.12)'', tn_fg = ''#86efac'', tn_bd = ''rgba(34,197,94,.4)''\<rparr>)]"

definition tone_or_neutral :: "string \<Rightarrow> tone" where
  "tone_or_neutral k = (case map_of TONE k of Some t \<Rightarrow> t | None \<Rightarrow> snd (hd TONE))"

section \<open>Stages\<close>

record stage_meta =
  st_label :: string
  st_short :: string
  st_color :: string
  st_soft :: string
  st_border :: string
  st_announceChannel :: string
  st_minAdvanceHours :: int

definition STAGE :: "(string \<times> stage_meta) list" where
  "STAGE =
     [(''non-prod'', \<lparr>st_label = ''non-prod'', st_short = ''NP'', st_color = ''#a78bfa'', st_soft = ''rgba(167,139,250,.15)'', st_border = ''rgba(167,139,250,.55)'', st_announceChannel = ''TMS_NP'', st_minAdvanceHours = 1\<rparr>),
      (''prod1'', \<lparr>st_label = (''prod1 '' @ u_middot @ '' Frankfurt''), st_short = ''P1'', st_color = ''#5eead4'', st_soft = ''rgba(94,234,212,.12)'', st_border = ''rgba(94,234,212,.5)'', st_announceChannel = ''TMS_PROD'', st_minAdvanceHours = 168\<rparr>),
      (''prod2'', \<lparr>st_label = (''prod2 '' @ u_middot @ '' Zeus''), st_short = ''P2'', st_color = ''#fbbf24'', st_soft = ''rgba(251,191,36,.12)'', st_border = ''rgba(251,191,36,.5)'', st_announceChannel = ''TMS_PROD'', st_minAdvanceHours = 336\<rparr>)]"

definition fallbackStage :: "string \<Rightarrow> stage_meta" where
  "fallbackStage k =
     \<lparr>st_label = k, st_short = toUpperCase (take 2 (if k = [] then ''??'' else k)),
      st_color = ''#94a3b8'', st_soft = ''rgba(148,163,184,.12)'', st_border = ''rgba(148,163,184,.5)'',
      st_announceChannel = ''TMS_PROD'', st_minAdvanceHours = 24\<rparr>"

definition getStage :: "string \<Rightarrow> stage_meta" where
  "getStage k = (case map_of STAGE k of Some s \<Rightarrow> s | None \<Rightarrow> fallbackStage k)"

definition formatDelay :: "int \<Rightarrow> string" where
  "formatDelay h =
     (if h = 0 then ''0h''
      else if h < 24 then show_int h @ ''h''
      else let d = h div 24; r = h mod 24 in
        if r = 0 then show_int d @ ''d'' else show_int d @ ''d '' @ show_int r @ ''h'')"

text \<open>\<open>seen\<close>, an object with its keys in the order of insertion: setting a key keeps its place.\<close>

fun obj_set :: "string \<Rightarrow> 'v \<Rightarrow> (string \<times> 'v) list \<Rightarrow> (string \<times> 'v) list" where
  "obj_set k v [] = [(k, v)]"
| "obj_set k v ((j, w) # m) = (if j = k then (k, v) # m else (j, w) # obj_set k v m)"

definition announce_step :: "(string \<times> int) list \<Rightarrow> plan_step \<Rightarrow> (string \<times> int) list" where
  "announce_step seen p =
     (let s = getStage (ps_stage p); k = st_announceChannel s in
      case map_of seen k of
        None \<Rightarrow> obj_set k (st_minAdvanceHours s) seen
      | Some x \<Rightarrow> if x = 0 \<or> st_minAdvanceHours s > x then obj_set k (st_minAdvanceHours s) seen else seen)"

definition announce_entries :: "plan_step list \<Rightarrow> (string \<times> int) list" where
  "announce_entries plan = foldl announce_step [] plan"

definition deriveAnnouncePolicy :: "rollout_type option \<Rightarrow> string" where
  "deriveAnnouncePolicy t = (case t of
     None \<Rightarrow> []
   | Some ty \<Rightarrow>
       if rt_cascadePlan ty = [] then []
       else join_with ('' '' @ u_bullet @ '' '')
         (map (\<lambda>(ch, h). ch @ '' '' @ u_ge @ '' '' @ formatDelay h) (announce_entries (rt_cascadePlan ty))))"

section \<open>Atoms\<close>

definition Badge :: "string \<Rightarrow> bool \<Rightarrow> bool \<Rightarrow> 'a node list \<Rightarrow> 'a node" where
  "Badge tone dot monosp children =
     (let t = tone_or_neutral tone in
      Elem ''span'' [cls ''rr-badge'', Sty ''background'' (tn_bg t), Sty ''color'' (tn_fg t), Sty ''borderColor'' (tn_bd t),
          Sty ''fontFamily'' (if monosp then ''var(--mono)'' else ''inherit'')]
        (guarded dot [Elem ''span'' [cls ''rr-badge-dot'', Sty ''background'' (tn_fg t)] []] @ children))"

definition Avatar :: "string \<Rightarrow> rat \<Rightarrow> bool \<Rightarrow> 'a node list" where
  "Avatar i sz ring = (case getActor i of
     None \<Rightarrow> []
   | Some a \<Rightarrow>
       [Elem ''div'' [cls ''rr-avatar'',
          Attr ''title'' (ac_name a @ (if ac_role a = ''admin'' then '' (admin)'' else '' (readonly)'')),
          StyN ''width'' sz, StyN ''height'' sz,
          Sty ''background'' (''linear-gradient(135deg, hsl('' @ show_int (ac_hue a) @ '' 60% 38%), hsl('' @
            show_int (ac_hue a) @ '' 60% 24%))''),
          Sty ''boxShadow'' (if ring then ''0 0 0 2px #0a0a0c, 0 0 0 3px hsl('' @ show_int (ac_hue a) @ '' 60% 45%)''
            else ''inset 0 0 0 1px rgba(255,255,255,.08)''),
          StyN ''fontSize'' (sz * (42 / 100))]
         [Text (ac_initials a)]])"

definition AvatarStack :: "string list \<Rightarrow> int \<Rightarrow> 'a node" where
  "AvatarStack ids sz =
     Elem ''div'' [cls ''rr-avstack'', Sty ''--sz'' (show_int sz @ ''px'')]
       (concat (map (\<lambda>i. Avatar i (of_int sz) False) ids))"

section \<open>Sidebar and header\<close>

record nav_item =
  nav_id :: string
  nav_label :: string
  nav_icon :: "string option"
  nav_badge :: "int option"

definition NAV :: "nav_item list" where
  "NAV =
     [\<lparr>nav_id = ''timeline'', nav_label = ''Timeline'', nav_icon = ICONS ''timeline'', nav_badge = None\<rparr>,
      \<lparr>nav_id = ''list'', nav_label = ''Rollouts'', nav_icon = ICONS ''rollout'', nav_badge = None\<rparr>,
      \<lparr>nav_id = ''locks'', nav_label = ''Locks'', nav_icon = ICONS ''lock'', nav_badge = Some 3\<rparr>,
      \<lparr>nav_id = ''data'', nav_label = ''Master Data'', nav_icon = ICONS ''data'', nav_badge = None\<rparr>,
      \<lparr>nav_id = ''docs'', nav_label = ''API & MCP'', nav_icon = ICONS ''code'', nav_badge = None\<rparr>]"

definition productColor :: "string \<Rightarrow> string" where
  "productColor i = (case map_of
       [(''operator'', ''#a78bfa''), (''concentrator'', ''#5eead4''), (''monalesy'', ''#fbbf24''),
        (''microservices'', ''#fb7185'')] i of
     Some c \<Rightarrow> c | None \<Rightarrow> ''#888'')"

datatype shell_action = CreateRollout | CreateLock | Nav string

definition Sidebar :: "string option \<Rightarrow> shell_action node" where
  "Sidebar active =
    Elem ''aside'' [cls ''rr-sidebar'']
      [Elem ''div'' [cls ''rr-brand'']
        [Elem ''div'' [cls ''rr-brand-mark'']
          [Elem ''svg'' [Attr ''viewBox'' ''0 0 24 24'', Attr ''width'' ''20'', Attr ''height'' ''20'', Attr ''fill'' ''none'', Attr ''stroke'' ''currentColor'', Attr ''strokeWidth'' ''1.8'']
            [Elem ''circle'' [Attr ''cx'' ''12'', Attr ''cy'' ''12'', Attr ''r'' ''2''] [],
             Elem ''circle'' [Attr ''cx'' ''12'', Attr ''cy'' ''12'', Attr ''r'' ''6.5'', Attr ''opacity'' ''.55''] [],
             Elem ''circle'' [Attr ''cx'' ''12'', Attr ''cy'' ''12'', Attr ''r'' ''11'', Attr ''opacity'' ''.25''] [],
             Elem ''path'' [Attr ''d'' ''M12 1v3M12 20v3M1 12h3M20 12h3''] []]],
         Elem ''div'' []
          [Elem ''div'' [cls ''rr-brand-name'']
            [Text ''ReleaseRadar''],
           Elem ''div'' [cls ''rr-brand-sub'']
            [Text (''tms-platform '' @ u_middot @ '' prod'')]]],
       Elem ''div'' [cls ''rr-cta-row'']
        [Elem ''button'' [cls ''rr-btn rr-btn-primary'', On ''onClick'' CreateRollout]
          [Icon (ICONS ''plus'') 14,
           Text '' New rollout''],
         Elem ''button'' [cls ''rr-btn rr-btn-ghost'', On ''onClick'' CreateLock, Attr ''title'' ''Create lock'']
          [Icon (ICONS ''lock'') 14]],
       Elem ''nav'' [cls ''rr-nav'']
        (map (\<lambda>n.
            Elem ''button'' [cls (''rr-nav-item '' @ (if (active = Some (nav_id n)) then ''is-active'' else [])), On ''onClick'' (Nav (nav_id n))]
              ([Icon (nav_icon n) 15,
               Elem ''span'' []
                [Text (nav_label n)]] @
               (case nav_badge n of Some b \<Rightarrow> guarded (b \<noteq> 0) [Elem ''span'' [cls ''rr-nav-badge''] [Text (show_int b)]] | None \<Rightarrow> [])))
          NAV),
       Elem ''div'' [cls ''rr-side-section'']
        [Elem ''div'' [cls ''rr-side-section-title'']
          [Text ''Filters''],
         Elem ''div'' [cls ''rr-chip-list'']
          (map (\<lambda>p.
              Elem ''button'' [cls ''rr-chip'']
                [Elem ''span'' [cls ''rr-chip-dot'', Sty ''background'' (productColor (prod_id p))] [],
                 Text (prod_name p)])
            PRODUCTS)],
       Elem ''div'' [cls ''rr-side-section'']
        [Elem ''div'' [cls ''rr-side-section-title'']
          [Text ''Legend''],
         Elem ''div'' [cls ''rr-legend'']
          (map (\<lambda>(k, s).
              Elem ''div'' [cls ''rr-legend-row'']
                [Elem ''span'' [cls ''rr-legend-sq'', Sty ''background'' (st_soft s), Sty ''borderColor'' (st_border s), Sty ''color'' (st_color s)]
                  [Text (st_short s)],
                 Elem ''span'' []
                  [Text (st_label s)]])
            STAGE @
           [Elem ''div'' [cls ''rr-legend-row'']
            [Elem ''span'' [cls ''rr-legend-lock''] [],
             Elem ''span'' []
              [Text ''Rollout-Sperre'']]])],
       Elem ''div'' [cls ''rr-side-foot'']
        [Elem ''div'' [cls ''rr-foot-row'']
          [Elem ''span'' [cls ''rr-status-dot''] [],
           Text ('' API healthy '' @ u_middot @ '' 11ms'')],
         Elem ''div'' [cls ''rr-foot-row rr-foot-muted'']
          [Text (''v2.4.1 '' @ u_middot @ '' 7d uptime'')]]]"

definition Header :: "'a node" where
  "Header =
    Elem ''header'' [cls ''rr-header'']
      [Elem ''div'' [cls ''rr-header-left'']
        [Elem ''div'' [cls ''rr-instance'']
          [Elem ''div'' [cls ''rr-instance-dot''] [],
           Elem ''div'' [cls ''rr-instance-meta'']
            [Elem ''div'' [cls ''rr-instance-name'']
              [Text ''tms-platform''],
             Elem ''div'' [cls ''rr-instance-env'']
              [Elem ''span'' [cls ''rr-mono'']
                [Text ''prod''],
               Text ('' '' @ u_middot @ '' 6 admins '' @ u_middot @ '' 34 watchers'')]]]],
       Elem ''div'' [cls ''rr-header-search'']
        [Icon (ICONS ''search'') 14,
         Elem ''input'' [Attr ''placeholder'' (''Search rollouts, brokers, tasks'' @ u_ellipsis)] [],
         Elem ''kbd'' []
          [Text (u_cmd @ ''K'')]],
       Elem ''div'' [cls ''rr-header-right'']
        [Elem ''button'' [cls ''rr-btn rr-btn-ghost rr-btn-sm'']
          [Icon (ICONS ''cal'') 13,
           Text '' Today''],
         Elem ''button'' [cls ''rr-btn rr-btn-ghost rr-btn-sm'']
          [Icon (ICONS ''download'') 13,
           Text '' Export Cal-DAV''],
         Elem ''div'' [cls ''rr-divider''] [],
         Elem ''div'' [cls ''rr-user'']
          (Avatar ''luc'' 28 True @
           [Elem ''div'' [cls ''rr-user-meta'']
            [Elem ''div'' [cls ''rr-user-name'']
              [Text ''Luc Baumann''],
             Elem ''div'' [cls ''rr-user-role'']
              [Elem ''span'' [cls ''rr-role-pill'']
                [Text ''admin''],
               Text '' IT-DA-EXT'']]])]]"

section \<open>Reading a delay back\<close>

definition is_digit :: "char \<Rightarrow> bool" where
  "is_digit c \<longleftrightarrow> 48 \<le> char_code c \<and> char_code c \<le> 57"

definition read_delay :: "string \<Rightarrow> int" where
  "read_delay s =
     (let n = int (read_digits (takeWhile is_digit s)); rest = dropWhile is_digit s in
      if rest = ''h'' then n
      else if rest = ''d'' then 24 * n
      else 24 * n + int (read_digits (takeWhile is_digit (drop 2 rest))))"

lemma digits_show_nat: "list_all is_digit (show_nat n)"
  using show_nat_digits by (auto simp: list_all_iff is_digit_def)

lemma span_digits: "list_all is_digit xs \<Longrightarrow> \<not> is_digit c \<Longrightarrow>
    takeWhile is_digit (xs @ c # ys) = xs \<and> dropWhile is_digit (xs @ c # ys) = c # ys"
  by (induction xs) auto

lemma unit_chars [simp]: "\<not> is_digit (CHR ''h'')" "\<not> is_digit (CHR ''d'')"
  by (simp_all add: is_digit_def char_code_def)

lemma show_zero_digit: "digit_char 0 = CHR ''0''"
  by code_simp

lemma read_format_delay: "0 \<le> h \<Longrightarrow> read_delay (formatDelay h) = h"
proof -
  assume h: "0 \<le> h"
  have num: "takeWhile is_digit (show_int k @ c # r) = show_nat (nat k)"
    "dropWhile is_digit (show_int k @ c # r) = c # r" if "0 \<le> k" "\<not> is_digit c" for k c r
    using span_digits [OF digits_show_nat that(2)] that(1) by (simp_all add: show_int_def)
  consider "h < 24" | "24 \<le> h" "h mod 24 = 0" | "24 \<le> h" "h mod 24 \<noteq> 0" by linarith
  then show ?thesis
  proof cases
    case 1
    then have "formatDelay h = show_int h @ ''h''"
      by (simp add: formatDelay_def show_int_def) (simp add: show_nat.simps show_zero_digit)
    with h num show ?thesis by (simp add: read_delay_def read_show_nat)
  next
    case 2
    then have "formatDelay h = show_int (h div 24) @ ''d''" by (simp add: formatDelay_def Let_def)
    moreover have "24 * (h div 24) = h" using mult_div_mod_eq [of 24 h] 2(2) by linarith
    ultimately show ?thesis using h num by (simp add: read_delay_def read_show_nat)
  next
    case 3
    then have "formatDelay h = show_int (h div 24) @ CHR ''d'' # CHR '' '' # (show_int (h mod 24) @ ''h'')"
      by (simp add: formatDelay_def Let_def)
    moreover have "0 \<le> h div 24" using h by simp
    ultimately show ?thesis using num by (simp add: read_delay_def read_show_nat Let_def)
  qed
qed

section \<open>The announcement policy\<close>

lemma map_of_obj_set: "map_of (obj_set k v m) = (map_of m)(k \<mapsto> v)"
  by (induction k v m rule: obj_set.induct) auto

lemma keys_obj_set: "map fst (obj_set k v m) = (if k \<in> fst ` set m then map fst m else map fst m @ [k])"
  by (induction k v m rule: obj_set.induct) auto

definition advance_hours :: "plan_step list \<Rightarrow> string \<Rightarrow> int list" where
  "advance_hours plan ch =
     map (\<lambda>p. st_minAdvanceHours (getStage (ps_stage p)))
       (filter (\<lambda>p. st_announceChannel (getStage (ps_stage p)) = ch) plan)"

lemma minAdvanceHours_pos: "0 < st_minAdvanceHours (getStage k)"
proof -
  have "\<forall>s \<in> snd ` set STAGE. 0 < st_minAdvanceHours s" by (simp add: STAGE_def)
  moreover have "map_of STAGE k = Some s \<Longrightarrow> s \<in> snd ` set STAGE" for s by (force dest: map_of_SomeD)
  ultimately show ?thesis by (auto simp: getStage_def fallbackStage_def split: option.splits)
qed

lemma announce_entries_snoc: "announce_entries (plan @ [p]) = announce_step (announce_entries plan) p"
  by (simp add: announce_entries_def)

lemma announce_entries_max:
  "map_of (announce_entries plan) ch =
     (if advance_hours plan ch = [] then None else Some (Max (set (advance_hours plan ch))))"
proof (induction plan arbitrary: ch rule: rev_induct)
  case Nil
  then show ?case by (simp add: announce_entries_def advance_hours_def)
next
  case (snoc p plan)
  let ?c = "st_announceChannel (getStage (ps_stage p))" and ?h = "st_minAdvanceHours (getStage (ps_stage p))"
  have a: "advance_hours (plan @ [p]) ch = advance_hours plan ch @ (if ?c = ch then [?h] else [])"
    by (simp add: advance_hours_def)
  have pos: "x \<noteq> 0" if "map_of (announce_entries plan) ?c = Some x" for x
  proof -
    have "x \<in> set (advance_hours plan ?c)"
      using that snoc.IH [of ?c] Max_in [of "set (advance_hours plan ?c)"] by (auto split: if_splits)
    then obtain k where "x = st_minAdvanceHours (getStage k)" by (auto simp: advance_hours_def)
    then show ?thesis using minAdvanceHours_pos [of k] by simp
  qed
  show ?case
  proof (cases "?c = ch")
    case False
    then show ?thesis unfolding announce_entries_snoc announce_step_def Let_def a
      by (auto simp: map_of_obj_set snoc.IH split: option.splits)
  next
    case True
    let ?l = "advance_hours plan ch"
    show ?thesis
    proof (cases "?l = []")
      case t: True
      with True show ?thesis unfolding announce_entries_snoc announce_step_def Let_def a
        by (simp add: map_of_obj_set snoc.IH)
    next
      case f: False
      define m where "m = Max (set ?l)"
      have mx: "Max (set (?l @ [?h])) = max ?h m" using f by (simp add: m_def)
      have some: "map_of (announce_entries plan) ch = Some m" using f by (simp add: snoc.IH m_def)
      have "m \<noteq> 0" by (rule pos) (simp add: True some)
      then show ?thesis unfolding announce_entries_snoc announce_step_def Let_def a
        using True some mx by (simp add: map_of_obj_set max_def)
    qed
  qed
qed

lemma announce_entries_distinct: "distinct (map fst (announce_entries plan))"
proof (induction plan rule: rev_induct)
  case Nil
  then show ?case by (simp add: announce_entries_def)
next
  case (snoc p plan)
  then show ?case
    by (auto simp: announce_entries_snoc announce_step_def Let_def keys_obj_set split: option.splits)
qed

section \<open>Offered navigation\<close>

lemma offered_Icon [simp]: "offered (Icon_full d sz st c f) = {}"
  by (auto simp: Icon_full_def split: option.splits)

lemma offered_Avatar [simp]: "offered_list (Avatar i sz r) = {}"
  by (auto simp: Avatar_def split: option.splits)

lemma offered_AvatarStack [simp]: "offered (AvatarStack ids sz) = {}"
  by (simp add: AvatarStack_def)

lemma offered_Badge [simp]: "offered (Badge t d m ks) = offered_list ks"
  by (simp add: Badge_def Let_def)

lemma offered_Header [simp]: "offered Header = {}"
  by (simp add: Header_def)

lemma offered_Sidebar: "offered (Sidebar active) = {CreateRollout, CreateLock} \<union> Nav ` nav_id ` set NAV"
  by (auto simp: Sidebar_def split: option.splits prod.splits if_splits)

section \<open>Properties\<close>

text \<open>
  Printing a delay loses nothing: from the text of a whole, non-negative number of hours the hours can
  be read back, so two different delays never have the same text.
\<close>

theorem formatDelay_roundtrip:
  assumes "0 \<le> h"
  shows "read_delay (formatDelay h) = h"
  by (rule read_format_delay [OF assms])

theorem formatDelay_roundtrip_witness: "formatDelay 50 = ''2d 2h'' \<and> read_delay (formatDelay 50) = 50"
proof -
  have "formatDelay 50 = ''2d 2h''" by code_simp
  with formatDelay_roundtrip [of 50] show ?thesis by simp
qed

text \<open>
  The announcement policy derived from a cascade plan names every channel of the plan's stages exactly
  once, and for each the longest advance notice that one of its stages on that channel requires.
\<close>

theorem announce_policy_correct:
  "distinct (map fst (announce_entries plan)) \<and>
   fst ` set (announce_entries plan) = (\<lambda>p. st_announceChannel (getStage (ps_stage p))) ` set plan \<and>
   list_all (\<lambda>(ch, h). h = Max {st_minAdvanceHours (getStage (ps_stage p)) | p.
       p \<in> set plan \<and> st_announceChannel (getStage (ps_stage p)) = ch}) (announce_entries plan)"
proof -
  let ?ch = "\<lambda>p. st_announceChannel (getStage (ps_stage p))"
  have hours: "set (advance_hours plan ch) = {st_minAdvanceHours (getStage (ps_stage p)) | p. p \<in> set plan \<and> ?ch p = ch}" for ch
    by (auto simp: advance_hours_def)
  have empty: "advance_hours plan ch \<noteq> [] \<longleftrightarrow> ch \<in> ?ch ` set plan" for ch
    by (auto simp: advance_hours_def filter_empty_conv)
  have "fst ` set (announce_entries plan) = dom (map_of (announce_entries plan))" by (simp add: dom_map_of_conv_image_fst)
  also have "\<dots> = ?ch ` set plan" by (rule set_eqI) (simp add: announce_entries_max dom_def flip: empty)
  finally have dom: "fst ` set (announce_entries plan) = ?ch ` set plan" .
  have "h = Max (set (advance_hours plan ch))" if "(ch, h) \<in> set (announce_entries plan)" for ch h
    using that announce_entries_max [of plan ch] announce_entries_distinct [of plan] by (auto split: if_splits)
  then show ?thesis using dom announce_entries_distinct by (auto simp: list_all_iff hours)
qed

end
