(* ===== verification/RR_ListView.thy ===== *)
theory RR_ListView
  imports RR_Shell
begin

text \<open>
  The list view of \<open>src/design/project/list-view.jsx\<close>: one row per stage of every rollout, sorted by
  offset (the sort is stable), filtered by status, product and window and grouped by date. Reading a
  property of an object that a lookup did not find throws, so rendering is a partial function:
  \<open>None\<close> is the exception.
\<close>

section \<open>Rows\<close>

record list_row =
  lr_key :: string
  lr_rollout :: rollout
  lr_stage :: stage_run
  lr_date :: int
  lr_offset :: int

definition stage_rows :: "host \<Rightarrow> rollout \<Rightarrow> list_row list" where
  "stage_rows h r = map (\<lambda>(idx, st).
       \<lparr>lr_key = ro_id r @ ''-'' @ show_nat idx, lr_rollout = r, lr_stage = st,
        lr_date = addDays h (TODAY h) (sr_offset st), lr_offset = sr_offset st\<rparr>)
     (enumerate 0 (ro_stages r))"

definition list_rows :: "host \<Rightarrow> rollout list \<Rightarrow> list_row list" where
  "list_rows h rollouts = sort_key lr_offset (concat (map (stage_rows h) rollouts))"

record list_state =
  lv_status :: string
  lv_product :: string
  lv_window :: string

definition list_init :: list_state where
  "list_init = \<lparr>lv_status = ''all'', lv_product = ''all'', lv_window = ''upcoming''\<rparr>"

definition row_shown :: "list_state \<Rightarrow> list_row \<Rightarrow> bool" where
  "row_shown st r =
     (if lv_status st \<noteq> ''all'' \<and> sr_status (lr_stage r) \<noteq> lv_status st then False
      else if lv_product st \<noteq> ''all'' \<and> ro_product (lr_rollout r) \<noteq> lv_product st then False
      else if lv_window st = ''upcoming'' \<and> lr_offset r < 0 then False
      else if lv_window st = ''past'' \<and> lr_offset r \<ge> 0 then False
      else True)"

record list_group =
  lg_key :: string
  lg_date :: int
  lg_rows :: "list_row list"

text \<open>The loop keeps the groups so far and the last key, \<open>null\<close> at first.\<close>

definition group_step :: "list_group list \<times> string option \<Rightarrow> list_row \<Rightarrow> list_group list \<times> string option" where
  "group_step acc r =
     (let k = dateKey (lr_date r);
          (g, lastKey) = (if Some k \<noteq> snd acc then (fst acc @ [\<lparr>lg_key = k, lg_date = lr_date r, lg_rows = []\<rparr>], Some k)
                          else acc)
      in (g[length g - 1 := (last g)\<lparr>lg_rows := lg_rows (last g) @ [r]\<rparr>], lastKey))"

definition list_groups :: "list_row list \<Rightarrow> list_group list" where
  "list_groups filtered = fst (foldl group_step ([], None) filtered)"

definition status_count :: "string \<Rightarrow> list_row list \<Rightarrow> nat" where
  "status_count s rows = length (filter (\<lambda>r. sr_status (lr_stage r) = s) rows)"

definition list_segments :: "list_row list \<Rightarrow> (string \<times> string \<times> nat) list" where
  "list_segments rows =
     [(''all'', ''All'', length rows), (''scheduled'', ''Scheduled'', status_count ''scheduled'' rows),
      (''active'', ''In flight'', status_count ''active'' rows), (''blocked'', ''Blocked'', status_count ''blocked'' rows),
      (''done'', ''Done'', status_count ''done'' rows)]"

section \<open>Rendering\<close>

definition relativeDay :: "host \<Rightarrow> int \<Rightarrow> string" where
  "relativeDay h d =
     (let diff = js_round (of_int (d - TODAY h) / 86400000) in
      if diff = 0 then ''Today''
      else if diff = 1 then ''Tomorrow''
      else if diff > 0 \<and> diff < 7 then ''in '' @ show_int diff @ '' days''
      else if diff < 0 \<and> diff > - 7 then show_int \<bar>diff\<bar> @ '' days ago''
      else if diff \<ge> 7 then ''in '' @ show_int \<lceil>(of_int diff / 7 :: rat)\<rceil> @ '' week'' @ (if diff \<ge> 14 then ''s'' else [])
      else show_int \<lceil>(of_int \<bar>diff\<bar> / 7 :: rat)\<rceil> @ '' week'' @ (if diff \<le> - 14 then ''s'' else []) @ '' ago'')"

definition ListStatus :: "string \<Rightarrow> 'a node" where
  "ListStatus status =
     (let m = (case map_of
           [(''scheduled'', (''info'', ''scheduled'')), (''active'', (''ok'', ''in flight'')),
            (''blocked'', (''danger'', ''blocked'')), (''done'', (''neutral'', ''done'')),
            (''failed'', (''danger'', ''failed''))] status of
         Some m \<Rightarrow> m | None \<Rightarrow> (''info'', ''scheduled''))
      in Badge (fst m) True False [Text (snd m)])"

datatype list_action = LSetStatus string | LSetProduct string | LSetWindow string | LOpen string | LCreate

text \<open>\<open>s.split(sep)[0]\<close>: everything before the first occurrence of the separator.\<close>

fun split_first :: "string \<Rightarrow> string \<Rightarrow> string" where
  "split_first sep [] = []"
| "split_first sep (c # cs) = (if starts_with (c # cs) sep then [] else c # split_first sep cs)"

definition ListRow :: "host \<Rightarrow> list_row \<Rightarrow> string option \<Rightarrow> list_action node option" where
  "ListRow h row focusedId =
     (let rollout = lr_rollout row; stage = lr_stage row; date = lr_date row in
      case (getType (ro_typeId rollout), getProduct (ro_product rollout), map_of STAGE (sr_env stage),
            those (map getActor (ro_pair rollout))) of
        (Some ty, Some product, Some stageMeta, Some actors) \<Rightarrow> Some
          (Elem ''tr'' [cls (''rr-list-row '' @ (if focusedId = Some (ro_id rollout) then ''is-focus'' else [])), On ''onClick'' (LOpen (ro_id rollout))]
             [Elem ''td'' []
               [Elem ''div'' [cls ''rr-list-time'']
                 [Text (sr_time stage)],
                Elem ''div'' [cls ''rr-list-date-sub'']
                 [Text (locale_date h [(''day'', ''2-digit''), (''month'', ''short'')] date),
                  Elem ''span'' [cls ''rr-list-window'']
                   [Text ''+'',
                    Text (show_int (sr_duration stage)),
                    Text ''h'']]],
              Elem ''td'' []
               [Elem ''span'' [cls ''rr-list-stage'', Sty ''background'' (st_soft stageMeta), Sty ''color'' (st_color stageMeta), Sty ''borderColor'' (st_border stageMeta)]
                 [Elem ''span'' [cls ''rr-list-stage-tag'', Sty ''background'' (st_color stageMeta)]
                   [Text (st_short stageMeta)],
                  Text (split_first ('' '' @ u_middot @ '' '') (st_label stageMeta))]],
              Elem ''td'' []
               [Elem ''div'' [cls ''rr-list-title'']
                 [Text (ro_title rollout)],
                Elem ''div'' [cls ''rr-list-id rr-mono rr-muted'']
                 [Text (ro_id rollout)]],
              Elem ''td'' []
               [Elem ''div'' [cls ''rr-list-product'']
                 [Elem ''span'' [cls ''rr-prod-dot'', Sty ''background'' (productColor (ro_product rollout))] [],
                  Elem ''span'' [cls ''rr-mono'']
                   [Text (prod_name product)]]],
              Elem ''td'' []
               [Badge (rt_tone ty) False False [Text (rt_short ty)]],
              Elem ''td'' []
               [ListStatus (sr_status stage)],
              Elem ''td'' []
               [Elem ''div'' [cls ''rr-list-pair'']
                 [AvatarStack (ro_pair rollout) 20,
                  Elem ''span'' [cls ''rr-list-pair-text rr-mono'']
                   [Text (join_with ('' '' @ u_middot @ '' '') (map ac_initials actors))]]],
              Elem ''td'' []
               [Elem ''button'' [cls ''rr-icon-btn'', OnStop ''onClick'' (LOpen (ro_id rollout)), Attr ''title'' ''Open'']
                 [Icon (ICONS ''chev'') 14]]])
      | _ \<Rightarrow> None)"

definition list_group_view :: "host \<Rightarrow> string option \<Rightarrow> list_group \<Rightarrow> list_action node list option" where
  "list_group_view h focusedId g =
     (let isToday = dateKey (lg_date g) = dateKey (TODAY h);
          isPast = lg_date g < TODAY h \<and> \<not> isToday;
          dayLabel = (if isToday then ''Today'' else if isPast then ''Past'' else relativeDay h (lg_date g))
      in map_option (\<lambda>rows.
            [Elem ''tr'' [cls ((''rr-list-daterow '' @ (if isToday then ''is-today '' else [])) @ (if isPast then ''is-past'' else []))]
               [Elem ''td'' [AttrN ''colSpan'' 8]
                 [Elem ''span'' [cls ''rr-list-dateday'']
                   [Text (locale_date h [(''weekday'', ''long''), (''day'', ''2-digit''), (''month'', ''long'')] (lg_date g))],
                  Elem ''span'' [cls ''rr-list-daterel'']
                   [Text dayLabel],
                  Elem ''span'' [cls ''rr-list-datecount'']
                   [Text (show_nat (length (lg_rows g))),
                    Text '' stage'',
                    Text (if ((length (lg_rows g)) > 1) then ''s'' else [])]]]] @ rows)
           (those (map (\<lambda>r. ListRow h r focusedId) (lg_rows g))))"

definition ListView :: "host \<Rightarrow> rollout list \<Rightarrow> string option \<Rightarrow> list_state \<Rightarrow> list_action node option" where
  "ListView h rollouts focusedId st =
     (let rows = list_rows h rollouts; filtered = filter (row_shown st) rows in
      map_option (\<lambda>groups. let body = concat groups in
         Elem ''div'' [cls ''rr-list'']
           [Elem ''div'' [cls ''rr-list-toolbar'']
             [Elem ''div'' [cls ''rr-list-toolbar-l'']
               [Elem ''div'' [cls ''rr-month-title'']
                 [Elem ''span'' []
                   [Text ''Rollouts''],
                  Elem ''span'' [cls ''rr-month-range'']
                   [Text (show_nat (length filtered)),
                    Text '' of '',
                    Text (show_nat (length rows)),
                    Text ('' stages '' @ u_middot @ '' sorted by date'')]]],
              Elem ''div'' [cls ''rr-list-toolbar-r'']
               [Elem ''button'' [cls ''rr-btn rr-btn-ghost rr-btn-sm'']
                 [Icon (ICONS ''download'') 13,
                  Text '' Export CSV''],
                Elem ''button'' [cls ''rr-btn rr-btn-primary rr-btn-sm'', On ''onClick'' LCreate]
                 [Icon (ICONS ''plus'') 13,
                  Text '' New rollout'']]],
            Elem ''div'' [cls ''rr-list-filters'']
             [Elem ''div'' [cls ''rr-list-filter'']
               [Elem ''span'' [cls ''rr-list-filter-label'']
                 [Text ''Window''],
                Elem ''div'' [cls ''rr-seg'']
                 (map (\<lambda>s.
                     Elem ''button'' [cls (''rr-seg-item '' @ (if ((lv_window st) = (fst s)) then ''is-active'' else [])), On ''onClick'' (LSetWindow (fst s))]
                       [Text (snd s)])
                   [(''upcoming'', ''Upcoming''), (''all'', ''All''), (''past'', ''Past'')])],
              Elem ''div'' [cls ''rr-list-filter'']
               [Elem ''span'' [cls ''rr-list-filter-label'']
                 [Text ''Status''],
                Elem ''div'' [cls ''rr-seg'']
                 (map (\<lambda>s.
                     Elem ''button'' [cls (''rr-seg-item '' @ (if ((lv_status st) = (fst s)) then ''is-active'' else [])), On ''onClick'' (LSetStatus (fst s))]
                       [Text (fst (snd s)),
                        Text '' '',
                        Elem ''span'' [cls ''rr-list-pill'']
                         [Text (show_int (int (snd (snd s))))]])
                   (list_segments rows))],
              Elem ''div'' [cls ''rr-list-filter'']
               [Elem ''span'' [cls ''rr-list-filter-label'']
                 [Text ''Product''],
                Elem ''select'' [cls ''rr-list-select'', Attr ''value'' (lv_product st), OnVal ''onChange'' (\<lambda>v. (LSetProduct v))]
                 ([Elem ''option'' [Attr ''value'' ''all'']
                   [Text ''All products'']] @
                  map (\<lambda>p.
                     Elem ''option'' [Attr ''value'' (prod_id p)]
                       [Text (prod_name p)])
                   PRODUCTS)]],
            Elem ''div'' [cls ''rr-list-scroll'']
             [Elem ''table'' [cls ''rr-list-table'']
               [Elem ''thead'' []
                 [Elem ''tr'' []
                   [Elem ''th'' [StyN ''width'' 130]
                     [Text (''Date '' @ u_middot @ '' Time'')],
                    Elem ''th'' [StyN ''width'' 110]
                     [Text ''Stage''],
                    Elem ''th'' []
                     [Text ''Rollout''],
                    Elem ''th'' [StyN ''width'' 120]
                     [Text ''Product''],
                    Elem ''th'' [StyN ''width'' 130]
                     [Text ''Type''],
                    Elem ''th'' [StyN ''width'' 110]
                     [Text ''Status''],
                    Elem ''th'' [StyN ''width'' 140]
                     [Text ''Pair''],
                    Elem ''th'' [StyN ''width'' 50, Attr ''aria-label'' ''open''] []]],
                Elem ''tbody'' []
                 (body @
                  guarded (list_groups filtered = [])
                   [Elem ''tr'' []
                     [Elem ''td'' [AttrN ''colSpan'' 8, cls ''rr-list-empty'']
                       [Text ''No rollouts match the current filters.'']]])]]])
       (those (map (list_group_view h focusedId) (list_groups filtered))))"

fun list_act :: "list_action \<Rightarrow> list_state \<Rightarrow> list_state" where
  "list_act (LSetStatus v) st = st\<lparr>lv_status := v\<rparr>"
| "list_act (LSetProduct v) st = st\<lparr>lv_product := v\<rparr>"
| "list_act (LSetWindow v) st = st\<lparr>lv_window := v\<rparr>"
| "list_act (LOpen i) st = st"
| "list_act LCreate st = st"

section \<open>Rows and groups\<close>

lemma list_rows_sorted: "sorted (map lr_offset (list_rows h rs))"
  by (simp add: list_rows_def)

lemma mset_list_rows: "mset (list_rows h rs) = mset (concat (map (stage_rows h) rs))"
  by (simp add: list_rows_def)

lemma length_stage_rows: "length (stage_rows h r) = length (ro_stages r)"
  by (simp add: stage_rows_def)

lemma stage_rows_cell: "row \<in> set (stage_rows h r) \<Longrightarrow>
    lr_rollout row = r \<and> lr_stage row \<in> set (ro_stages r) \<and> lr_offset row = sr_offset (lr_stage row) \<and>
    lr_date row = addDays h (TODAY h) (lr_offset row)"
  by (auto simp: stage_rows_def in_set_enumerate_eq)

lemma list_rows_cell: "row \<in> set (list_rows h rs) \<Longrightarrow>
    lr_rollout row \<in> set rs \<and> lr_stage row \<in> set (ro_stages (lr_rollout row)) \<and>
    lr_offset row = sr_offset (lr_stage row) \<and> lr_date row = addDays h (TODAY h) (lr_offset row)"
  using stage_rows_cell by (fastforce simp: list_rows_def)

text \<open>What the grouping loop has established after the rows \<open>xs\<close>.\<close>

definition groups_upto :: "list_row list \<Rightarrow> list_group list \<times> string option \<Rightarrow> bool" where
  "groups_upto xs acc \<longleftrightarrow>
     concat (map lg_rows (fst acc)) = xs \<and>
     (\<forall>g \<in> set (fst acc). lg_rows g \<noteq> [] \<and> (\<forall>r \<in> set (lg_rows g). dateKey (lr_date r) = lg_key g)) \<and>
     successively (\<noteq>) (map lg_key (fst acc)) \<and>
     snd acc = (if fst acc = [] then None else Some (lg_key (last (fst acc))))"

lemma groups_upto_step: "groups_upto xs acc \<Longrightarrow> groups_upto (xs @ [r]) (group_step acc r)"
proof -
  assume g: "groups_upto xs acc"
  let ?k = "dateKey (lr_date r)"
  show ?thesis
  proof (cases "Some ?k = snd acc")
    case False
    have eq: "group_step acc r = (fst acc @ [\<lparr>lg_key = ?k, lg_date = lr_date r, lg_rows = [r]\<rparr>], Some ?k)"
      using False by (simp add: group_step_def Let_def)
    from False g have "fst acc \<noteq> [] \<Longrightarrow> lg_key (last (fst acc)) \<noteq> ?k" by (auto simp: groups_upto_def)
    with g show ?thesis unfolding eq
      by (auto simp: groups_upto_def successively_append_iff last_map)
  next
    case True
    with g have ne: "fst acc \<noteq> []" and k: "lg_key (last (fst acc)) = ?k" and l: "snd acc = Some ?k"
      by (auto simp: groups_upto_def split: if_splits)
    obtain gs l0 where acc: "fst acc = gs @ [l0]" using ne by (metis rev_exhaust)
    have accp: "acc = (gs @ [l0], Some ?k)" using acc l by (cases acc) simp
    have eq: "group_step acc r = (gs @ [l0\<lparr>lg_rows := lg_rows l0 @ [r]\<rparr>], Some ?k)"
      unfolding accp by (simp add: group_step_def Let_def)
    from g k show ?thesis unfolding eq groups_upto_def acc by auto
  qed
qed

lemma groups_upto_foldl: "groups_upto xs acc \<Longrightarrow> groups_upto (xs @ ys) (foldl group_step acc ys)"
proof (induction ys arbitrary: xs acc)
  case (Cons y ys)
  have "groups_upto ((xs @ [y]) @ ys) (foldl group_step (group_step acc y) ys)"
    by (rule Cons.IH [OF groups_upto_step [OF Cons.prems]])
  then show ?case by simp
qed simp

lemma list_groups_ok:
  "concat (map lg_rows (list_groups rows)) = rows"
  "g \<in> set (list_groups rows) \<Longrightarrow> lg_rows g \<noteq> [] \<and> (\<forall>r \<in> set (lg_rows g). dateKey (lr_date r) = lg_key g)"
  "successively (\<noteq>) (map lg_key (list_groups rows))"
proof -
  have "groups_upto ([] @ rows) (foldl group_step ([], None) rows)"
    by (rule groups_upto_foldl) (simp add: groups_upto_def)
  then show "concat (map lg_rows (list_groups rows)) = rows"
    "g \<in> set (list_groups rows) \<Longrightarrow> lg_rows g \<noteq> [] \<and> (\<forall>r \<in> set (lg_rows g). dateKey (lr_date r) = lg_key g)"
    "successively (\<noteq>) (map lg_key (list_groups rows))"
    by (simp_all add: groups_upto_def list_groups_def)
qed

section \<open>Rendering\<close>

text \<open>A rollout all of whose references resolve.\<close>

definition resolves :: "rollout \<Rightarrow> bool" where
  "resolves r \<longleftrightarrow> getType (ro_typeId r) \<noteq> None \<and> getProduct (ro_product r) \<noteq> None \<and>
     (\<forall>st \<in> set (ro_stages r). map_of STAGE (sr_env st) \<noteq> None) \<and> (\<forall>i \<in> set (ro_pair r). getActor i \<noteq> None)"

lemma ListRow_renders:
  assumes "resolves (lr_rollout row)" "lr_stage row \<in> set (ro_stages (lr_rollout row))"
  shows "ListRow h row f \<noteq> None"
proof -
  obtain as where "those (map getActor (ro_pair (lr_rollout row))) = Some as"
    using assms(1) those_Some_iff [of getActor "ro_pair (lr_rollout row)"] by (auto simp: resolves_def)
  with assms show ?thesis by (auto simp: ListRow_def Let_def resolves_def)
qed

lemma ListRow_offers: "ListRow h row f = Some n \<Longrightarrow> offered n = {LOpen (ro_id (lr_rollout row))}"
  by (auto simp: ListRow_def Let_def ListStatus_def split: option.splits prod.splits)

lemma list_group_view_renders:
  assumes "\<forall>r \<in> set (lg_rows g). ListRow h r f \<noteq> None"
  shows "list_group_view h f g \<noteq> None"
  using assms those_Some_iff [of "\<lambda>r. ListRow h r f" "lg_rows g"] by (auto simp: list_group_view_def Let_def)

lemma list_group_view_offers:
  "list_group_view h f g = Some ns \<Longrightarrow> offered_list ns = (\<lambda>r. LOpen (ro_id (lr_rollout r))) ` set (lg_rows g)"
proof -
  assume "list_group_view h f g = Some ns"
  then obtain rows hd where rows: "those (map (\<lambda>r. ListRow h r f) (lg_rows g)) = Some rows"
    and ns: "offered_list ns = offered_list rows"
    by (auto simp: list_group_view_def Let_def)
  have m: "map (\<lambda>r. ListRow h r f) (lg_rows g) = map Some rows" by (rule those_Some_map [OF rows])
  have "offered_list rows = (\<Union>x \<in> set (map Some rows). offered (the x))" by (simp add: offered_list_def)
  also have "\<dots> = (\<Union>r \<in> set (lg_rows g). offered (the (ListRow h r f)))" unfolding m [symmetric] by simp
  also have "\<dots> = (\<lambda>r. LOpen (ro_id (lr_rollout r))) ` set (lg_rows g)"
  proof -
    have "ListRow h r f \<noteq> None" if "r \<in> set (lg_rows g)" for r
      using that m by (metis (mono_tags, lifting) ex_map_conv image_eqI list.set_map option.distinct(1))
    then have "offered (the (ListRow h r f)) = {LOpen (ro_id (lr_rollout r))}" if "r \<in> set (lg_rows g)" for r
      using that ListRow_offers by fastforce
    then show ?thesis by auto
  qed
  finally show ?thesis using ns by simp
qed

lemma ListView_renders:
  assumes "\<forall>r \<in> set rs. resolves r"
  shows "ListView h rs f st \<noteq> None"
proof -
  let ?rows = "filter (row_shown st) (list_rows h rs)"
  have "list_group_view h f g \<noteq> None" if g: "g \<in> set (list_groups ?rows)" for g
  proof (rule list_group_view_renders, rule ballI)
    fix r assume "r \<in> set (lg_rows g)"
    then have "r \<in> set (concat (map lg_rows (list_groups ?rows)))" using g by auto
    then have "r \<in> set ?rows" unfolding list_groups_ok(1) .
    then show "ListRow h r f \<noteq> None"
      using assms list_rows_cell [of r h rs] by (intro ListRow_renders) auto
  qed
  then show ?thesis
    using those_Some_iff [of "list_group_view h f" "list_groups ?rows"] by (auto simp: ListView_def Let_def)
qed

lemma ListView_offers_open:
  assumes "ListView h rs f st = Some n"
  shows "LOpen i \<in> offered n \<longleftrightarrow> (\<exists>r \<in> set (list_rows h rs). row_shown st r \<and> i = ro_id (lr_rollout r))"
proof -
  let ?rows = "filter (row_shown st) (list_rows h rs)"
  obtain gs where gs: "those (map (list_group_view h f) (list_groups ?rows)) = Some gs"
    using assms by (auto simp: ListView_def Let_def)
  have m: "map (list_group_view h f) (list_groups ?rows) = map Some gs" by (rule those_Some_map [OF gs])
  have "offered_list (concat gs) = (\<Union>x \<in> set (map Some gs). offered_list (the x))"
    by (auto simp: offered_list_def)
  also have "\<dots> = (\<Union>g \<in> set (list_groups ?rows). offered_list (the (list_group_view h f g)))"
    unfolding m [symmetric] by simp
  also have "\<dots> = (\<Union>g \<in> set (list_groups ?rows). (\<lambda>r. LOpen (ro_id (lr_rollout r))) ` set (lg_rows g))"
  proof (rule SUP_cong [OF refl])
    fix g assume "g \<in> set (list_groups ?rows)"
    then have "list_group_view h f g \<in> set (map Some gs)" unfolding m [symmetric] by simp
    then show "offered_list (the (list_group_view h f g)) = (\<lambda>r. LOpen (ro_id (lr_rollout r))) ` set (lg_rows g)"
      using list_group_view_offers by force
  qed
  also have "\<dots> = (\<lambda>r. LOpen (ro_id (lr_rollout r))) ` set (concat (map lg_rows (list_groups ?rows)))"
    by (simp add: image_UN)
  also have "\<dots> = (\<lambda>r. LOpen (ro_id (lr_rollout r))) ` set ?rows" unfolding list_groups_ok(1) ..
  finally have body: "offered_list (concat gs) = (\<lambda>r. LOpen (ro_id (lr_rollout r))) ` set ?rows" .
  have "n = the (ListView h rs f st)" using assms by simp
  then have "LOpen i \<in> offered n \<longleftrightarrow> LOpen i \<in> offered_list (concat gs)"
    by (auto simp: ListView_def Let_def gs simp del: offered_list_concat)
  then show ?thesis unfolding body by auto
qed

section \<open>Properties\<close>

text \<open>
  The rows of the list: sorted by offset, a rearrangement of exactly one row per stage of every
  rollout, and each row dated by its own offset from today.
\<close>

theorem list_rows_correct:
  "sorted (map lr_offset (list_rows h rs)) \<and>
   mset (list_rows h rs) = mset (concat (map (stage_rows h) rs)) \<and>
   length (list_rows h rs) = sum_list (map (\<lambda>r. length (ro_stages r)) rs) \<and>
   list_all (\<lambda>row. lr_date row = addDays h (TODAY h) (sr_offset (lr_stage row))) (list_rows h rs)"
proof -
  have "length (list_rows h rs) = length (concat (map (stage_rows h) rs))" by (simp add: list_rows_def)
  also have "\<dots> = sum_list (map (\<lambda>r. length (ro_stages r)) rs)"
    by (simp add: length_concat comp_def length_stage_rows)
  finally show ?thesis using list_rows_cell by (auto simp: list_all_iff mset_list_rows list_rows_sorted)
qed

text \<open>
  Grouping by date loses and reorders nothing: the groups concatenated are the filtered rows, no
  group is empty, all rows of a group have the group's date key, and neighbouring groups differ.
\<close>

theorem list_groups_correct:
  "concat (map lg_rows (list_groups rows)) = rows \<and>
   list_all (\<lambda>g. lg_rows g \<noteq> [] \<and> list_all (\<lambda>r. dateKey (lr_date r) = lg_key g) (lg_rows g)) (list_groups rows) \<and>
   successively (\<noteq>) (map lg_key (list_groups rows))"
  using list_groups_ok by (auto simp: list_all_iff)

text \<open>
  The list view renders whenever every reference of every rollout resolves, in any filter state,
  and a user can open exactly the rollouts that have a row passing the filters.
\<close>

theorem ListView_complete:
  assumes "\<forall>r \<in> set rs. resolves r"
  shows "\<exists>n. ListView h rs f st = Some n \<and>
    (\<forall>i. LOpen i \<in> offered n \<longleftrightarrow>
      (\<exists>row \<in> set (list_rows h rs). row_shown st row \<and> i = ro_id (lr_rollout row)))"
proof -
  obtain n where "ListView h rs f st = Some n" using ListView_renders [OF assms] by blast
  with ListView_offers_open show ?thesis by blast
qed

lemma resolves_seed: "list_all resolves ROLLOUTS"
  by code_simp

theorem ListView_complete_witness:
  "\<exists>n. ListView utc_host ROLLOUTS None list_init = Some n"
  using ListView_complete [of ROLLOUTS utc_host None list_init] resolves_seed by (auto simp: list_all_iff)

text \<open>
  The relative day of a date eight to thirteen days ahead reads "in 2 week": the number of weeks
  is rounded up but the plural starts at fourteen days.
\<close>

theorem relativeDay_two_week:
  assumes "8 \<le> n" "n \<le> 13"
  shows "relativeDay h (TODAY h + n * ms_per_day) = ''in 2 week''"
proof -
  have q: "js_round (of_int (TODAY h + n * ms_per_day - TODAY h) / 86400000) = n"
  proof -
    have "(of_int (TODAY h + n * ms_per_day - TODAY h) / 86400000 :: rat) = of_int n"
      by (simp add: ms_per_day_def)
    then show ?thesis by (simp only: js_round_of_int)
  qed
  have "\<lceil>(of_int n / 7 :: rat)\<rceil> = 2" by (rule ceiling_unique) (use assms in simp_all)
  moreover have "show_int 2 = ''2''" by code_simp
  ultimately show ?thesis using assms unfolding relativeDay_def q Let_def by simp
qed

theorem relativeDay_two_week_witness:
  "relativeDay utc_host (TODAY utc_host + 10 * ms_per_day) = ''in 2 week''"
  using relativeDay_two_week [of 10 utc_host] by simp

end
