(* ===== verification/RR_Timeline.thy ===== *)
theory RR_Timeline
  imports RR_ListView
begin

text \<open>
  The timeline of \<open>src/design/project/timeline.jsx\<close>: placing stages and locks in day columns, the
  filter with its popover, and the page with its toolbar. Pixel positions are whole numbers of the
  column width. As in the list view, reading a property of something a lookup did not find throws
  and the component renders as \<open>None\<close>.
\<close>

section \<open>Dates and columns\<close>

definition DAY_W :: int where "DAY_W = 56"
definition ROW_H :: int where "ROW_H = 64"
definition LABEL_W :: int where "LABEL_W = 280"

definition fmtDay :: "host \<Rightarrow> int \<Rightarrow> string" where
  "fmtDay h d = locale_date h [(''day'', ''2-digit'')] d"

definition fmtMon :: "host \<Rightarrow> int \<Rightarrow> string" where
  "fmtMon h d = locale_date h [(''month'', ''short'')] d"

definition fmtWD :: "host \<Rightarrow> int \<Rightarrow> string" where
  "fmtWD h d = locale_date h [(''weekday'', ''short'')] d"

definition sameDay :: "int \<Rightarrow> int \<Rightarrow> bool" where
  "sameDay a b \<longleftrightarrow> dateKey a = dateKey b"

text \<open>\<open>Math.floor((a - b) / 86400000)\<close>, the column of a date in a viewport.\<close>

definition column :: "int \<Rightarrow> int \<Rightarrow> int" where
  "column date start = (date - start) div 86400000"

definition lockSpan :: "host \<Rightarrow> lock \<Rightarrow> int \<Rightarrow> int \<times> int" where
  "lockSpan h lock start =
     (let lockStart = addDays h (TODAY h) (lk_startOffset lock);
          lockEnd = addDays h (TODAY h) (lk_endOffset lock);
          startDelta = column lockStart start;
          endDelta = column lockEnd start
      in (startDelta * DAY_W, (endDelta - startDelta + 1) * DAY_W))"

section \<open>Filters\<close>

record rfilter =
  fl_products :: "string list"
  fl_types :: "string list"
  fl_statuses :: "string list"
  fl_actors :: "string list"

record saved_filter =
  sf_id :: string
  sf_name :: string
  sf_icon :: string
  sf_color :: string
  sf_criteria :: rfilter

record status_opt =
  so_id :: string
  so_label :: string
  so_tone :: string

definition SAVED_FILTERS :: "saved_filter list" where
  "SAVED_FILTERS =
     [\<lparr>sf_id = ''f-1'', sf_name = ''My active rollouts'', sf_icon = ''rollout'', sf_color = ''#7c8cff'', sf_criteria = \<lparr>fl_products = [], fl_types = [], fl_statuses = [''scheduled'', ''active''], fl_actors = [''luc'']\<rparr>\<rparr>,
      \<lparr>sf_id = ''f-2'', sf_name = ''Hotfixes only'', sf_icon = ''warn'', sf_color = ''#ef4444'', sf_criteria = \<lparr>fl_products = [], fl_types = [''tms-ssp-hf'', ''operator-hf''], fl_statuses = [], fl_actors = []\<rparr>\<rparr>,
      \<lparr>sf_id = ''f-3'', sf_name = ''Frankfurt brokers'', sf_icon = ''bolt'', sf_color = ''#5eead4'', sf_criteria = \<lparr>fl_products = [''operator'', ''concentrator''], fl_types = [], fl_statuses = [], fl_actors = []\<rparr>\<rparr>,
      \<lparr>sf_id = ''f-4'', sf_name = ''Blocked / awaiting'', sf_icon = ''lock'', sf_color = ''#fbbf24'', sf_criteria = \<lparr>fl_products = [], fl_types = [], fl_statuses = [''blocked''], fl_actors = []\<rparr>\<rparr>]"

definition STATUS_OPTS :: "status_opt list" where
  "STATUS_OPTS =
     [\<lparr>so_id = ''scheduled'', so_label = ''scheduled'', so_tone = ''info''\<rparr>,
      \<lparr>so_id = ''active'', so_label = ''in flight'', so_tone = ''ok''\<rparr>,
      \<lparr>so_id = ''done'', so_label = ''done'', so_tone = ''neutral''\<rparr>,
      \<lparr>so_id = ''blocked'', so_label = ''blocked'', so_tone = ''danger''\<rparr>]"

definition emptyFilter :: rfilter where
  "emptyFilter = \<lparr>fl_products = [], fl_types = [], fl_statuses = [], fl_actors = []\<rparr>"

definition filterMatch :: "rollout \<Rightarrow> rfilter \<Rightarrow> bool" where
  "filterMatch r f =
     (if fl_products f \<noteq> [] \<and> ro_product r \<notin> set (fl_products f) then False
      else if fl_types f \<noteq> [] \<and> ro_typeId r \<notin> set (fl_types f) then False
      else if fl_actors f \<noteq> [] \<and> \<not> list_ex (\<lambda>p. p \<in> set (fl_actors f)) (ro_pair r) then False
      else if fl_statuses f \<noteq> [] \<and> \<not> list_ex (\<lambda>s. sr_status s \<in> set (fl_statuses f)) (ro_stages r) then False
      else True)"

definition activeCount :: "rfilter \<Rightarrow> int" where
  "activeCount f = int (length (fl_products f) + length (fl_types f) + length (fl_statuses f) + length (fl_actors f))"

text \<open>\<open>toggle(key, val)\<close> of the popover, one definition per key.\<close>

definition toggle_products :: "string \<Rightarrow> rfilter \<Rightarrow> rfilter" where
  "toggle_products v f = f\<lparr>fl_products := toggle v (fl_products f)\<rparr>"

definition toggle_types :: "string \<Rightarrow> rfilter \<Rightarrow> rfilter" where
  "toggle_types v f = f\<lparr>fl_types := toggle v (fl_types f)\<rparr>"

definition toggle_statuses :: "string \<Rightarrow> rfilter \<Rightarrow> rfilter" where
  "toggle_statuses v f = f\<lparr>fl_statuses := toggle v (fl_statuses f)\<rparr>"

definition toggle_actors :: "string \<Rightarrow> rfilter \<Rightarrow> rfilter" where
  "toggle_actors v f = f\<lparr>fl_actors := toggle v (fl_actors f)\<rparr>"

datatype pop_action = PopChange rfilter | PopClose

definition FilterPopover :: "rfilter \<Rightarrow> pop_action node" where
  "FilterPopover flt =
    Elem ''div'' [cls ''rr-filter-pop'', Stop ''onClick'']
      [Elem ''header'' [cls ''rr-filter-pop-head'']
        [Elem ''strong'' []
          [Text ''Filter timeline''],
         Elem ''span'' [cls ''rr-filter-pop-count'']
          [Text (show_int (activeCount flt)),
           Text '' active''],
         Elem ''button'' [cls ''rr-icon-btn'', On ''onClick'' PopClose]
          [Icon (ICONS ''x'') 12]],
       Elem ''div'' [cls ''rr-filter-pop-body'']
        [Elem ''div'' [cls ''rr-filter-pop-group'']
          [Elem ''div'' [cls ''rr-filter-pop-label'']
            [Text ''Saved filters''],
           Elem ''div'' [cls ''rr-filter-pop-presets'']
            (map (\<lambda>p.
                Elem ''button'' [cls ''rr-filter-pop-preset'', On ''onClick'' (PopChange (sf_criteria p))]
                  [Elem ''span'' [cls ''rr-md-filter-ic'', Sty ''background'' ((sf_color p) @ ''22''), Sty ''color'' (sf_color p), Sty ''borderColor'' ((sf_color p) @ ''55'')]
                    [Icon (ICONS (sf_icon p)) 11],
                   Text (sf_name p)])
              SAVED_FILTERS)],
         Elem ''div'' [cls ''rr-filter-pop-group'']
          [Elem ''div'' [cls ''rr-filter-pop-label'']
            [Text ''Product''],
           Elem ''div'' [cls ''rr-filter-pop-chips'']
            (concat (map (\<lambda>q.
                (let on = ((prod_id q) \<in> set (fl_products flt)) in
                [Elem ''button'' [cls (''rr-filter-pop-chip '' @ (if on then ''is-on'' else [])), On ''onClick'' (PopChange (toggle_products (prod_id q) flt))]
                  [Elem ''span'' [cls ''rr-prod-dot'', Sty ''background'' (productColor (prod_id q))] [],
                   Text (prod_name q)]]))
              PRODUCTS))],
         Elem ''div'' [cls ''rr-filter-pop-group'']
          [Elem ''div'' [cls ''rr-filter-pop-label'']
            [Text ''Rollout type''],
           Elem ''div'' [cls ''rr-filter-pop-chips'']
            (concat (map (\<lambda>t.
                (let on = ((rt_id t) \<in> set (fl_types flt)) in
                [Elem ''button'' [cls (''rr-filter-pop-chip '' @ (if on then ''is-on'' else [])), On ''onClick'' (PopChange (toggle_types (rt_id t) flt))]
                  [Badge (rt_tone t) False False [Text (rt_short t)],
                   Elem ''span'' [cls ''rr-filter-pop-chip-name'']
                    [Text (rt_name t)]]]))
              ROLLOUT_TYPES))],
         Elem ''div'' [cls ''rr-filter-pop-group'']
          [Elem ''div'' [cls ''rr-filter-pop-label'']
            [Text ''Status''],
           Elem ''div'' [cls ''rr-filter-pop-chips'']
            (concat (map (\<lambda>s.
                (let on = ((so_id s) \<in> set (fl_statuses flt)) in
                [Elem ''button'' [cls (''rr-filter-pop-chip '' @ (if on then ''is-on'' else [])), On ''onClick'' (PopChange (toggle_statuses (so_id s) flt))]
                  [Badge (so_tone s) True False [Text (so_label s)]]]))
              STATUS_OPTS))],
         Elem ''div'' [cls ''rr-filter-pop-group'']
          [Elem ''div'' [cls ''rr-filter-pop-label'']
            [Text ''Actor in pair''],
           Elem ''div'' [cls ''rr-filter-pop-chips'']
            (concat (map (\<lambda>a.
                (let on = ((ac_id a) \<in> set (fl_actors flt)) in
                [Elem ''button'' [cls (''rr-filter-pop-chip '' @ (if on then ''is-on'' else [])), On ''onClick'' (PopChange (toggle_actors (ac_id a) flt))]
                  (Avatar (ac_id a) 18 False @
                   [Text (ac_name a)])]))
              (filter (\<lambda>a. ((ac_role a) = ''admin'')) ACTORS)))]],
       Elem ''footer'' [cls ''rr-filter-pop-foot'']
        [Elem ''button'' [cls ''rr-link'', On ''onClick'' (PopChange emptyFilter)]
          [Text ''Clear all''],
         Elem ''button'' [cls ''rr-btn rr-btn-primary rr-btn-sm'', On ''onClick'' PopClose]
          [Text ''Done'']]]"

section \<open>Tracks\<close>

datatype timeline_action =
    TShift int | TReset | TToggleFilter | TCloseFilter | TSetFilter rfilter | TResize int
  | TOpen string | TOpenLock string | TCreateLock | TCreateRollout

fun pop_to_timeline :: "pop_action \<Rightarrow> timeline_action" where
  "pop_to_timeline (PopChange f) = TSetFilter f"
| "pop_to_timeline PopClose = TCloseFilter"

definition StagePill :: "stage_run \<Rightarrow> int \<Rightarrow> timeline_action \<Rightarrow> bool \<Rightarrow> timeline_action node option" where
  "StagePill stage dayIndex click active = (case map_of STAGE (sr_env stage) of
     None \<Rightarrow> None
   | Some s \<Rightarrow>
      (let left = dayIndex * DAY_W + 4;
           width = max 28 ((if sr_duration stage = 0 then 1 else sr_duration stage) * DAY_W - 8);
           isBlocked = sr_status stage = ''blocked'';
           isActive = sr_status stage = ''active'';
           isDone = sr_status stage = ''done''
       in Some (Elem ''button'' [On ''onClick'' click, cls ((''rr-pill '' @ (if active then ''is-focus '' else [])) @ (if isBlocked then ''is-blocked'' else [])), StyN ''left'' (of_int left), StyN ''width'' (of_int width), StyN ''top'' 10, StyN ''height'' (of_int (ROW_H - 20)), Sty ''background'' (''linear-gradient(180deg, '' @ (st_soft s) @ '', rgba(0,0,0,0))''), Sty ''borderColor'' (st_border s), Sty ''color'' (st_color s), Attr ''title'' ((st_label s) @ ('' '' @ u_middot @ '' '') @ (sr_time stage))]
           ([Elem ''span'' [cls ''rr-pill-tag'', Sty ''background'' (st_color s)]
             [Text (st_short s)],
            Elem ''span'' [cls ''rr-pill-body'']
             [Elem ''span'' [cls ''rr-pill-time'', Sty ''color'' (st_color s)]
               [Text (sr_time stage)],
              Elem ''span'' [cls ''rr-pill-meta'']
               (guarded isDone
                 [Elem ''span'' [cls ''rr-pill-dot is-done''] [],
                  Text '' done''] @
                guarded isActive
                 [Elem ''span'' [cls ''rr-pill-dot is-active''] [],
                  Text '' in flight''] @
                guarded isBlocked
                 [Elem ''span'' [cls ''rr-pill-dot is-blocked''] [],
                  Text '' locked''] @
                guarded ((sr_status stage) = ''scheduled'')
                 [Text ''+'',
                  Text (show_int (sr_duration stage)),
                  Text ''h window''])]] @
            guarded isActive
             [Elem ''span'' [cls ''rr-pill-pulse'', Sty ''background'' (st_color s)] []]))))"

definition Cascade :: "int \<Rightarrow> int \<Rightarrow> string \<Rightarrow> 'a node list" where
  "Cascade fromIdx toIdx color =
     (let left = fromIdx * DAY_W + DAY_W div 2 + 16;
          right = toIdx * DAY_W + DAY_W div 2 - 16;
          w = right - left
      in if w \<le> 0 then []
         else [Elem ''div'' [cls ''rr-cascade'', StyN ''left'' (of_int left), StyN ''width'' (of_int w), StyN ''top'' (of_int (ROW_H div 2 - 1))]
              [Elem ''span'' [cls ''rr-cascade-line'', Sty ''background'' (''linear-gradient(90deg, '' @ color @ '' 0%, '' @ color @ '' 100%)'')] [],
               Elem ''span'' [cls ''rr-cascade-arrow'', Sty ''borderLeftColor'' color] [],
               Elem ''span'' [cls ''rr-cascade-label'']
                [Text ''+'',
                 Text (show_int (js_round (of_int w / of_int DAY_W) + 0)),
                 Text ''d'']]])"

definition placed_stages :: "host \<Rightarrow> int \<Rightarrow> rollout \<Rightarrow> (stage_run \<times> int) list" where
  "placed_stages h start r = map (\<lambda>st. (st, column (addDays h (TODAY h) (sr_offset st)) start)) (ro_stages r)"

text \<open>The connectors of neighbouring stages; the colour is read from the later one.\<close>

fun connectors :: "(stage_run \<times> int) list \<Rightarrow> 'a node list option" where
  "connectors (p # q # ps) = (case map_of STAGE (sr_env (fst q)) of
     None \<Rightarrow> None
   | Some s \<Rightarrow> map_option (\<lambda>ns. Cascade (snd p) (snd q) (st_color s) @ ns) (connectors (q # ps)))"
| "connectors ps = Some []"

definition RolloutTrack :: "host \<Rightarrow> rollout \<Rightarrow> int \<Rightarrow> string option \<Rightarrow> timeline_action node option" where
  "RolloutTrack h rollout start focusedId =
     (let placed = placed_stages h start rollout in
      case (connectors placed,
            those (map (\<lambda>p. StagePill (fst p) (snd p) (TOpen (ro_id rollout)) (focusedId = Some (ro_id rollout))) placed)) of
        (Some cs, Some ps) \<Rightarrow> Some (Elem ''div'' [cls ''rr-row-track''] (cs @ ps))
      | _ \<Rightarrow> None)"

definition RolloutRowLabel :: "rollout \<Rightarrow> string option \<Rightarrow> timeline_action node option" where
  "RolloutRowLabel rollout focusedId =
     (case (getType (ro_typeId rollout), getProduct (ro_product rollout), those (map getActor (ro_pair rollout))) of
        (Some ty, Some product, Some actors) \<Rightarrow> Some
         (Elem ''button'' [cls (''rr-row-label '' @ (if focusedId = Some (ro_id rollout) then ''is-focus'' else [])), On ''onClick'' (TOpen (ro_id rollout))]
           [Elem ''div'' [cls ''rr-row-label-top'']
             [Elem ''span'' [cls ''rr-prod-dot'', Sty ''background'' (productColor (ro_product rollout))] [],
              Elem ''span'' [cls ''rr-row-product'']
               [Text (prod_name product)],
              Badge (rt_tone ty) False False [Text (rt_short ty)]],
            Elem ''div'' [cls ''rr-row-title'']
             [Text (ro_title rollout)],
            Elem ''div'' [cls ''rr-row-meta'']
             [AvatarStack (ro_pair rollout) 18,
              Elem ''span'' [cls ''rr-row-actors-text'']
               [Text (join_with ('' '' @ u_middot @ '' '') (map (\<lambda>a. split_first '' '' (ac_name a)) actors))]]])
      | _ \<Rightarrow> None)"

definition Stat :: "string \<Rightarrow> string \<Rightarrow> string \<Rightarrow> string \<Rightarrow> 'a node option" where
  "Stat label value sub tone = (case map_of TONE tone of
     None \<Rightarrow> None
   | Some t \<Rightarrow> Some
        (Elem ''div'' [cls ''rr-stat'']
           ([Elem ''div'' [cls ''rr-stat-label'']
             [Text label],
            Elem ''div'' [cls ''rr-stat-value'', Sty ''color'' (tn_fg t)]
             [Text value]] @
            guarded (sub \<noteq> []) [Elem ''div'' [cls ''rr-stat-sub''] [Text sub]])))"

section \<open>Header, locks and page\<close>

definition day_cell :: "host \<Rightarrow> int \<Rightarrow> int \<Rightarrow> 'a node" where
  "day_cell h start i =
     (let d = addDays h start i;
          isToday = sameDay d (TODAY h);
          isWE = getDay h d = 0 \<or> getDay h d = 6;
          isFri = isFriday h d;
          showMonth = i = 0 \<or> getDate h d = 1 \<or> getDay h d = 1
      in Elem ''div'' [cls (((''rr-day '' @ (if isToday then ''is-today '' else [])) @ (if isWE then ''is-we '' else [])) @ (if isFri then ''is-fri'' else [])), StyN ''width'' (of_int DAY_W)]
            ([Elem ''div'' [cls ''rr-day-wd'']
              [Text (fmtWD h d)],
             Elem ''div'' [cls ''rr-day-num'']
              [Text (fmtDay h d)]] @
             guarded showMonth
              [Elem ''div'' [cls ''rr-day-mon'']
                [Text (fmtMon h d)]] @
             guarded isFri
              [Elem ''div'' [cls ''rr-day-flag'']
                [Text ''Fr-Lock'']] @
             guarded isToday
              [Elem ''div'' [cls ''rr-day-today'']
                [Text ''Today'']]))"

definition DaysHeader :: "host \<Rightarrow> int \<Rightarrow> int \<Rightarrow> 'a node" where
  "DaysHeader h start days = Elem ''div'' [cls ''rr-days''] (map (day_cell h start) [0..days - 1])"

definition LockOverlay :: "host \<Rightarrow> lock list \<Rightarrow> int \<Rightarrow> int \<Rightarrow> int \<Rightarrow> timeline_action node" where
  "LockOverlay h locks start days totalHeight =
    Elem ''div'' [cls ''rr-locks-layer'', StyN ''width'' (of_int (days * DAY_W)), StyN ''height'' (of_int totalHeight)]
      (concat (map (\<lambda>i.
          (let d = (addDays h start i) in
          (if (\<not> (isFriday h d)) then [] else
           [Elem ''div'' [cls ''rr-lock-col rr-lock-fri'', StyN ''left'' (of_int (i * DAY_W)), StyN ''width'' (of_int DAY_W), StyN ''height'' (of_int totalHeight), Attr ''title'' (''Friday rule '' @ u_mdash @ '' no rollouts'')] []])))
        [0..days - 1]) @
       concat (map (\<lambda>lock.
          (let (left, width) = lockSpan h lock start in
          (if (((left + width) < 0) \<or> (left > (days * DAY_W))) then [] else
           [Elem ''button'' [On ''onClick'' (TOpenLock (lk_id lock)), cls (''rr-lock-col rr-lock-'' @ (lk_kind lock)), StyN ''left'' (of_int left), StyN ''width'' (of_int width), StyN ''height'' (of_int totalHeight)]
             [Elem ''span'' [cls ''rr-lock-label'']
               [Icon (ICONS ''lock'') 11,
                Text (lk_title lock)]]])))
        locks))"

definition ActiveLocksCard :: "host \<Rightarrow> lock list \<Rightarrow> 'a node" where
  "ActiveLocksCard h locks =
    Elem ''section'' [cls ''rr-card'']
      [Elem ''header'' [cls ''rr-card-head'']
        [Elem ''h3'' []
          [Text ''Active locks (Rollout-Sperren)''],
         Elem ''button'' [cls ''rr-link'']
          [Icon (ICONS ''plus'') 12,
           Text '' New lock'']],
       Elem ''ul'' [cls ''rr-lock-list'']
        (concat (map (\<lambda>l.
            (let tone = (if ((lk_kind l) = ''manual'') then ''danger'' else ''warn'') in
            (let startD = addDays h (TODAY h) (lk_startOffset l) in
            (let endD = addDays h (TODAY h) (lk_endOffset l) in
            [Elem ''li'' [cls ''rr-lock-item'']
              [Elem ''div'' [cls ''rr-lock-item-stripes''] [],
               Elem ''div'' [cls ''rr-lock-item-body'']
                [Elem ''div'' [cls ''rr-lock-item-head'']
                  [Badge tone False False [Text (if ((lk_kind l) = ''manual'') then ''MANUAL'' else ''HOLIDAY'')],
                   Elem ''strong'' []
                    [Text (lk_title l)]],
                 Elem ''p'' []
                  [Text (lk_description l)],
                 Elem ''div'' [cls ''rr-lock-item-foot'']
                  [Elem ''span'' []
                    [Icon (ICONS ''cal'') 11,
                     Text '' '',
                     Text (locale_date h [(''day'', ''2-digit''), (''month'', ''short'')] startD),
                     Text (if (\<not> (sameDay startD endD)) then (('' '' @ u_arrow @ '' '') @ (locale_date h [(''day'', ''2-digit''), (''month'', ''short'')] endD)) else [])],
                   Elem ''span'' []
                    [Icon (ICONS ''user'') 11,
                     Text '' '',
                     Text (lk_contact l)],
                   Elem ''span'' []
                    [Icon (ICONS ''bolt'') 11,
                     Text '' '',
                     Text (if (''all'' \<in> set (lk_products l)) then ''all products'' else (join_with '', '' (lk_products l)))]]]]]))))
          locks))]"

record timeline_state =
  tl_offset :: int
  tl_filter :: rfilter
  tl_filterOpen :: bool
  tl_days :: int

definition timeline_init :: timeline_state where
  "timeline_init = \<lparr>tl_offset = - 3, tl_filter = emptyFilter, tl_filterOpen = False, tl_days = 28\<rparr>"

text \<open>\<open>TResize\<close> is the observer reporting a container width, \<open>TCloseFilter\<close> also a press outside.\<close>

fun timeline_act :: "timeline_action \<Rightarrow> timeline_state \<Rightarrow> timeline_state" where
  "timeline_act (TShift n) st = st\<lparr>tl_offset := tl_offset st + n\<rparr>"
| "timeline_act TReset st = st\<lparr>tl_offset := - 3\<rparr>"
| "timeline_act TToggleFilter st = st\<lparr>tl_filterOpen := \<not> tl_filterOpen st\<rparr>"
| "timeline_act TCloseFilter st = st\<lparr>tl_filterOpen := False\<rparr>"
| "timeline_act (TSetFilter f) st = st\<lparr>tl_filter := f\<rparr>"
| "timeline_act (TResize clientWidth) st = st\<lparr>tl_days := max 7 ((clientWidth - LABEL_W - 2) div DAY_W)\<rparr>"
| "timeline_act (TOpen i) st = st"
| "timeline_act (TOpenLock i) st = st"
| "timeline_act TCreateLock st = st"
| "timeline_act TCreateRollout st = st"

definition timeline_rollouts :: "rollout list \<Rightarrow> timeline_state \<Rightarrow> rollout list" where
  "timeline_rollouts rollouts st = filter (\<lambda>r. filterMatch r (tl_filter st)) rollouts"

definition row_labels :: "rollout list \<Rightarrow> string option \<Rightarrow> timeline_action node list option" where
  "row_labels rs focusedId = those (map (\<lambda>r. map_option (\<lambda>n.
       Elem ''div'' [cls ''rr-row-label-slot'', StyN ''height'' (of_int ROW_H)] [n]) (RolloutRowLabel r focusedId)) rs)"

definition row_tracks :: "host \<Rightarrow> rollout list \<Rightarrow> int \<Rightarrow> string option \<Rightarrow> timeline_action node list option" where
  "row_tracks h rs start focusedId = those (map (\<lambda>(i, r). map_option (\<lambda>n.
       Elem ''div'' [cls ''rr-row-track-wrap'', StyN ''top'' (of_int (int i * ROW_H)), StyN ''height'' (of_int ROW_H)] [n])
     (RolloutTrack h r start focusedId)) (enumerate 0 rs))"

definition TimelineView ::
    "host \<Rightarrow> rollout list \<Rightarrow> lock list \<Rightarrow> string option \<Rightarrow> timeline_state \<Rightarrow> timeline_action node option" where
  "TimelineView h rollouts locks focusedId st =
     (let start = addDays h (TODAY h) (tl_offset st);
          days = tl_days st;
          flt = tl_filter st;
          trackW = days * DAY_W;
          todayIdx = column (TODAY h) start;
          filteredRollouts = timeline_rollouts rollouts st;
          totalHeight = int (length filteredRollouts) * ROW_H
      in case (row_labels filteredRollouts focusedId, row_tracks h filteredRollouts start focusedId) of
        (Some labels, Some tracks) \<Rightarrow> Some
         (Elem ''div'' [cls ''rr-timeline'']
           [Elem ''div'' [cls ''rr-tl-toolbar'']
             [Elem ''div'' [cls ''rr-tl-toolbar-left'']
               [Elem ''div'' [cls ''rr-month-title'']
                 [Elem ''span'' []
                   [Text (locale_date h [(''month'', ''long''), (''year'', ''numeric'')] start)],
                  Elem ''span'' [cls ''rr-month-range'']
                   [Text (locale_date h [(''day'', ''2-digit''), (''month'', ''short'')] start),
                    Text ('' '' @ u_arrow),
                    Text '' '',
                    Text (locale_date h [(''day'', ''2-digit''), (''month'', ''short'')] (addDays h start (days - 1)))]],
                Elem ''div'' [cls ''rr-nav-arrows'']
                 [Elem ''button'' [cls ''rr-icon-btn'', On ''onClick'' (TShift (- 7)), Attr ''title'' ''Previous week'']
                   [Icon_full (ICONS ''chev'') 14 (16 / 10) ''rr-rot-180'' ''none''],
                  Elem ''button'' [cls ''rr-icon-btn'', On ''onClick'' TReset, Attr ''title'' ''Reset to today'']
                   [Text u_middot],
                  Elem ''button'' [cls ''rr-icon-btn'', On ''onClick'' (TShift 7), Attr ''title'' ''Next week'']
                   [Icon (ICONS ''chev'') 14]]],
              Elem ''div'' [cls ''rr-tl-toolbar-right'']
               [Elem ''div'' [cls ''rr-filter-wrap'']
                 ([Elem ''button'' [cls (''rr-btn rr-btn-ghost rr-btn-sm '' @ (if ((activeCount flt) > 0) then ''rr-btn-active'' else [])), On ''onClick'' TToggleFilter]
                   ([Icon (ICONS ''filter'') 13,
                    Text '' Filter''] @
                    guarded ((activeCount flt) > 0)
                     [Elem ''span'' [cls ''rr-filter-badge'']
                       [Text (show_int (activeCount flt))]] @
                    [Icon_full (ICONS ''chev'') 11 (16 / 10) (''rr-rot-90 '' @ (if (tl_filterOpen st) then ''rr-rot-270'' else [])) ''none''])] @
                  guarded (tl_filterOpen st)
                   [lift_node pop_to_timeline (FilterPopover flt)]),
                Elem ''button'' [cls ''rr-btn rr-btn-ghost rr-btn-sm'', On ''onClick'' TCreateLock]
                 [Icon (ICONS ''lock'') 13,
                  Text '' New lock''],
                Elem ''button'' [cls ''rr-btn rr-btn-primary rr-btn-sm'', On ''onClick'' TCreateRollout]
                 [Icon (ICONS ''plus'') 13,
                  Text '' New rollout'']]],
            Elem ''div'' [cls ''rr-tl-scroll'']
             [Elem ''div'' [cls ''rr-tl-grid'', StyN ''width'' (of_int (LABEL_W + trackW))]
               [Elem ''div'' [cls ''rr-tl-corner'', StyN ''width'' (of_int LABEL_W)]
                 [Elem ''div'' [cls ''rr-tl-corner-title'']
                   [Text ''Rollout''],
                  Elem ''div'' [cls ''rr-tl-corner-sub'']
                   [Text (''Product '' @ u_middot @ '' Type '' @ u_middot @ '' Pair'')]],
                DaysHeader h start days,
                Elem ''div'' [cls ''rr-tl-body'', StyN ''width'' (of_int (LABEL_W + trackW))]
                 [Elem ''div'' [cls ''rr-tl-bodylabels'', StyN ''width'' (of_int LABEL_W)]
                   (labels),
                  Elem ''div'' [cls ''rr-tl-tracks'', StyN ''width'' (of_int trackW), StyN ''height'' (of_int totalHeight)]
                   ([Elem ''div'' [cls ''rr-tl-gridlines'', StyN ''width'' (of_int trackW), Sty ''backgroundImage'' ((''repeating-linear-gradient(90deg,'' @ [CHR 0x0A] @ ''                  rgba(255,255,255,.04) 0px,'' @ [CHR 0x0A] @ ''                  rgba(255,255,255,.04) 1px,'' @ [CHR 0x0A] @ ''                  transparent 1px,'' @ [CHR 0x0A] @ ''                  transparent '') @ (show_int DAY_W) @ ''px)'')] []] @
                    concat (map (\<lambda>i.
                       (let d = addDays h start i in
                       (let we = ((getDay h d = 0) \<or> (getDay h d = 6)) in
                       (if (\<not> we) then [] else
                        [Elem ''div'' [cls ''rr-tl-weekend'', StyN ''left'' (of_int (i * DAY_W)), StyN ''width'' (of_int DAY_W)] []]))))
                     [0..days - 1]) @
                    [LockOverlay h locks start days totalHeight] @
                    guarded ((todayIdx \<ge> 0) \<and> (todayIdx < days))
                     [Elem ''div'' [cls ''rr-today-line'', StyN ''left'' (of_int (todayIdx * DAY_W + DAY_W div 2))] []] @
                    tracks)]]]])
      | _ \<Rightarrow> None)"

section \<open>Columns\<close>

definition today_day :: int where
  "today_day = make_day 2026 4 27"

lemma TODAY_midnight: "TODAY h = midnight h today_day"
  by (simp add: TODAY_def new_date_midnight today_day_def)

lemma addDays_midnight: "regular_day h n \<Longrightarrow> addDays h (midnight h n) k = midnight h (n + k)"
  by (simp add: addDays_def set_date_midnight)

lemma addDays_today: "regular_day h today_day \<Longrightarrow> addDays h (TODAY h) k = midnight h (today_day + k)"
  by (simp add: TODAY_midnight addDays_midnight)

text \<open>The column is the day difference, corrected by the change of the zone's offset in between.\<close>

lemma column_midnights:
  "column (midnight h a) (midnight h b) =
     a - b + (off_loc h (b * ms_per_day) - off_loc h (a * ms_per_day)) div ms_per_day"
proof -
  have "midnight h a - midnight h b =
      (off_loc h (b * ms_per_day) - off_loc h (a * ms_per_day)) + ms_per_day * (a - b)"
    by (simp add: midnight_def utc_of_local_def algebra_simps)
  then show ?thesis unfolding column_def by (simp add: ms_per_day_def)
qed

lemma column_same_offset: "off_loc h (a * ms_per_day) = off_loc h (b * ms_per_day) \<Longrightarrow>
    column (midnight h a) (midnight h b) = a - b"
  by (simp add: column_midnights)

lemma column_later_offset:
  assumes "off_loc h (b * ms_per_day) < off_loc h (a * ms_per_day)"
    and "off_loc h (a * ms_per_day) \<le> off_loc h (b * ms_per_day) + ms_per_day"
  shows "column (midnight h a) (midnight h b) = a - b - 1"
proof -
  let ?x = "off_loc h (b * ms_per_day) - off_loc h (a * ms_per_day)"
  have "?x div ms_per_day = - 1"
    by (rule int_div_pos_eq [of _ _ _ "?x + ms_per_day"]) (use assms in \<open>simp_all add: ms_per_day_def\<close>)
  then show ?thesis by (simp add: column_midnights)
qed

lemma lockSpan_same_offset:
  assumes "regular_day h today_day"
    and "off_loc h ((today_day + lk_startOffset l) * ms_per_day) = off_loc h ((today_day + v) * ms_per_day)"
    and "off_loc h ((today_day + lk_endOffset l) * ms_per_day) = off_loc h ((today_day + v) * ms_per_day)"
  shows "lockSpan h l (addDays h (TODAY h) v) =
    ((lk_startOffset l - v) * DAY_W, (lk_endOffset l - lk_startOffset l + 1) * DAY_W)"
  using assms by (simp add: lockSpan_def addDays_today column_same_offset Let_def)

lemma cascade_label_days: "1 \<le> k \<Longrightarrow> js_round (of_int (k * 56 - 32) / of_int DAY_W) = k - 1"
  unfolding js_round_def DAY_W_def by (rule floor_unique) (simp_all add: field_simps)

section \<open>The page\<close>

lemma offered_cascade [simp]: "offered_list (Cascade i j c) = {}"
  by (simp add: Cascade_def Let_def)

lemma offered_connectors: "connectors ps = Some ns \<Longrightarrow> offered_list ns = {}"
  by (induction ps arbitrary: ns rule: connectors.induct) (auto split: option.splits)

lemma offered_StagePill: "offered_opt (StagePill st i a f) = (if map_of STAGE (sr_env st) = None then {} else {a})"
  by (simp add: StagePill_def Let_def split: option.splits)

lemma StagePill_offers: "StagePill st i a f = Some n \<Longrightarrow> offered n = {a}"
  using offered_StagePill [of st i a f] by (cases "map_of STAGE (sr_env st)") (simp_all add: StagePill_def)

lemma offered_list_those:
  assumes "those (map f xs) = Some ns"
  shows "offered_list ns = (\<Union>x \<in> set xs. offered_opt (f x))"
  using assms by (induction xs arbitrary: ns) (auto split: option.splits)

lemma RolloutTrack_offers:
  assumes "RolloutTrack h r start f = Some n"
  shows "offered n \<subseteq> {TOpen (ro_id r)}"
proof -
  obtain cs ps where cs: "connectors (placed_stages h start r) = Some cs"
    and ps: "those (map (\<lambda>p. StagePill (fst p) (snd p) (TOpen (ro_id r)) (f = Some (ro_id r))) (placed_stages h start r)) = Some ps"
    and n: "n = Elem ''div'' [cls ''rr-row-track''] (cs @ ps)"
    using assms by (auto simp: RolloutTrack_def Let_def split: option.splits)
  have "offered_list ps \<subseteq> {TOpen (ro_id r)}"
    unfolding offered_list_those [OF ps] offered_StagePill by auto
  with n offered_connectors [OF cs] show ?thesis by auto
qed

lemma RolloutRowLabel_offers: "RolloutRowLabel r f = Some n \<Longrightarrow> offered n = {TOpen (ro_id r)}"
  by (auto simp: RolloutRowLabel_def split: option.splits prod.splits)

lemma row_labels_offers:
  assumes "row_labels rs f = Some ns"
  shows "offered_list ns = (\<Union>r \<in> set rs. {TOpen (ro_id r)})"
proof -
  have "\<forall>r \<in> set rs. RolloutRowLabel r f \<noteq> None"
    using assms those_Some_iff [of "\<lambda>r. map_option (\<lambda>n. Elem ''div'' [cls ''rr-row-label-slot'', StyN ''height'' (of_int ROW_H)] [n]) (RolloutRowLabel r f)" rs]
    by (auto simp: row_labels_def)
  then have "offered_opt (map_option (\<lambda>n. Elem ''div'' [cls ''rr-row-label-slot'', StyN ''height'' (of_int ROW_H)] [n])
      (RolloutRowLabel r f)) = {TOpen (ro_id r)}" if "r \<in> set rs" for r
    using that RolloutRowLabel_offers by fastforce
  then show ?thesis using offered_list_those [OF assms [unfolded row_labels_def]] by simp
qed

lemma row_tracks_offers:
  assumes "row_tracks h rs start f = Some ns"
  shows "offered_list ns \<subseteq> (\<Union>r \<in> set rs. {TOpen (ro_id r)})"
proof -
  have *: "offered_opt (map_option (\<lambda>n. Elem ''div'' [cls c, StyN t u, StyN v w] [n]) (RolloutTrack h r start f)) \<subseteq> {TOpen (ro_id r)}"
    for c t u v w r using RolloutTrack_offers [of h r start f] by (cases "RolloutTrack h r start f") auto
  show ?thesis
    unfolding offered_list_those [OF assms [unfolded row_tracks_def]]
    using * by (fastforce simp: in_set_enumerate_eq)
qed

lemma offered_day_cell [simp]: "offered (day_cell h start i) = {}"
  by (simp add: day_cell_def Let_def)

lemma offered_DaysHeader [simp]: "offered (DaysHeader h start days) = {}"
  by (simp add: DaysHeader_def)

lemma offered_LockOverlay: "offered (LockOverlay h locks start days th) \<subseteq> range TOpenLock"
  by (auto simp: LockOverlay_def Let_def split: prod.splits if_splits)

lemma offered_FilterPopover: "offered (FilterPopover f) \<subseteq>
    {PopClose, PopChange emptyFilter} \<union> PopChange ` sf_criteria ` set SAVED_FILTERS \<union>
    (\<Union>v. {PopChange (toggle_products v f), PopChange (toggle_types v f), PopChange (toggle_statuses v f),
      PopChange (toggle_actors v f)})"
  by (auto simp: FilterPopover_def Let_def)

lemma connectors_render: "\<forall>p \<in> set ps. map_of STAGE (sr_env (fst p)) \<noteq> None \<Longrightarrow> connectors ps \<noteq> None"
  by (induction ps rule: connectors.induct) (auto split: option.splits)

lemma RolloutTrack_renders: "resolves r \<Longrightarrow> RolloutTrack h r start f \<noteq> None"
proof -
  assume r: "resolves r"
  let ?p = "placed_stages h start r"
  have st: "\<forall>p \<in> set ?p. map_of STAGE (sr_env (fst p)) \<noteq> None"
    using r by (auto simp: placed_stages_def resolves_def)
  then have "\<forall>p \<in> set ?p. StagePill (fst p) (snd p) (TOpen (ro_id r)) (f = Some (ro_id r)) \<noteq> None"
    by (auto simp: StagePill_def Let_def)
  then obtain ps where "those (map (\<lambda>p. StagePill (fst p) (snd p) (TOpen (ro_id r)) (f = Some (ro_id r))) ?p) = Some ps"
    using those_Some_iff by blast
  with connectors_render [OF st] show ?thesis
    by (auto simp: RolloutTrack_def Let_def split: option.splits)
qed

lemma RolloutRowLabel_renders: "resolves r \<Longrightarrow> RolloutRowLabel r f \<noteq> None"
proof -
  assume r: "resolves r"
  then obtain as where "those (map getActor (ro_pair r)) = Some as"
    using those_Some_iff [of getActor "ro_pair r"] by (auto simp: resolves_def)
  with r show ?thesis by (auto simp: RolloutRowLabel_def resolves_def)
qed

lemma row_labels_render: "\<forall>r \<in> set rs. resolves r \<Longrightarrow> \<exists>ns. row_labels rs f = Some ns"
  unfolding row_labels_def by (rule those_render) (use RolloutRowLabel_renders in auto)

lemma row_tracks_render: "\<forall>r \<in> set rs. resolves r \<Longrightarrow> \<exists>ns. row_tracks h rs start f = Some ns"
  unfolding row_tracks_def
  by (rule those_render) (use RolloutTrack_renders in \<open>fastforce simp: in_set_enumerate_eq\<close>)

lemma TimelineView_offers:
  assumes "TimelineView h rs ls f st = Some n"
  shows "offered n \<subseteq> {TShift (- 7), TShift 7, TReset, TToggleFilter, TCreateLock, TCreateRollout} \<union> range TOpenLock \<union>
      pop_to_timeline ` offered (FilterPopover (tl_filter st)) \<union>
      {TOpen (ro_id r) | r. r \<in> set (timeline_rollouts rs st)}"
    and "{TOpen (ro_id r) | r. r \<in> set (timeline_rollouts rs st)} \<subseteq> offered n"
proof -
  let ?rs = "timeline_rollouts rs st" and ?start = "addDays h (TODAY h) (tl_offset st)"
  obtain labels tracks where l: "row_labels ?rs f = Some labels" and t: "row_tracks h ?rs ?start f = Some tracks"
    using assms by (auto simp: TimelineView_def Let_def split: option.splits)
  note lo = row_labels_offers [OF l] and tr = row_tracks_offers [OF t]
  have "offered n = offered_opt (TimelineView h rs ls f st)" using assms by simp
  also have "\<dots> = {TShift (- 7), TReset, TShift 7, TToggleFilter} \<union>
      (if tl_filterOpen st then pop_to_timeline ` offered (FilterPopover (tl_filter st)) else {}) \<union>
      {TCreateLock, TCreateRollout} \<union> offered_list labels \<union>
      offered (LockOverlay h ls ?start (tl_days st) (int (length ?rs) * ROW_H)) \<union> offered_list tracks"
    unfolding TimelineView_def Let_def l t prod.case option.case offered_opt_simps by simp blast
  finally have n: "offered n = \<dots>" .
  show "offered n \<subseteq> {TShift (- 7), TShift 7, TReset, TToggleFilter, TCreateLock, TCreateRollout} \<union> range TOpenLock \<union>
      pop_to_timeline ` offered (FilterPopover (tl_filter st)) \<union> {TOpen (ro_id r) | r. r \<in> set ?rs}"
    unfolding n using lo tr offered_LockOverlay [of h ls ?start "tl_days st" "int (length ?rs) * ROW_H"]
    by (simp add: subset_iff image_iff) blast
  show "{TOpen (ro_id r) | r. r \<in> set ?rs} \<subseteq> offered n"
    unfolding n lo by blast
qed

definition timeline_inv :: "timeline_state \<Rightarrow> bool" where
  "timeline_inv st \<longleftrightarrow> (tl_offset st + 3) mod 7 = 0 \<and> 7 \<le> tl_days st \<and>
     distinct (fl_products (tl_filter st)) \<and> distinct (fl_types (tl_filter st)) \<and>
     distinct (fl_statuses (tl_filter st)) \<and> distinct (fl_actors (tl_filter st))"

lemma saved_filters_distinct: "f \<in> set SAVED_FILTERS \<Longrightarrow>
    distinct (fl_products (sf_criteria f)) \<and> distinct (fl_types (sf_criteria f)) \<and>
    distinct (fl_statuses (sf_criteria f)) \<and> distinct (fl_actors (sf_criteria f))"
  by (auto simp: SAVED_FILTERS_def)

lemma pop_keeps_distinct:
  assumes "timeline_inv st" "PopChange f \<in> offered (FilterPopover (tl_filter st))"
  shows "timeline_inv (st\<lparr>tl_filter := f\<rparr>)"
  using assms(1) offered_FilterPopover assms(2) saved_filters_distinct
  by (fastforce simp: timeline_inv_def emptyFilter_def toggle_products_def toggle_types_def toggle_statuses_def
      toggle_actors_def distinct_toggle)

lemma timeline_inv_act:
  assumes "timeline_inv st" "a \<in> offered_opt (TimelineView h rs ls f st) \<union> ({TCloseFilter} \<union> range TResize)"
  shows "timeline_inv (timeline_act a st)"
proof -
  consider "a \<in> {TShift (- 7), TShift 7, TReset, TToggleFilter, TCreateLock, TCreateRollout, TCloseFilter}"
    | "a \<in> range TOpenLock \<union> range TOpen \<union> range TResize" | g where "a = TSetFilter g" "PopChange g \<in> offered (FilterPopover (tl_filter st))"
  proof (cases "a \<in> {TCloseFilter} \<union> range TResize")
    case True
    then show ?thesis using that(1,2) by auto
  next
    case False
    with assms(2) obtain n where n: "TimelineView h rs ls f st = Some n" "a \<in> offered n"
      by (cases "TimelineView h rs ls f st") auto
    with TimelineView_offers(1) [OF n(1)] have
      "a \<in> {TShift (- 7), TShift 7, TReset, TToggleFilter, TCreateLock, TCreateRollout} \<union> range TOpenLock \<union>
       pop_to_timeline ` offered (FilterPopover (tl_filter st)) \<union> {TOpen (ro_id r) | r. r \<in> set (timeline_rollouts rs st)}"
      by blast
    moreover have "a = TCloseFilter \<or> (\<exists>g. a = TSetFilter g \<and> PopChange g \<in> offered (FilterPopover (tl_filter st)))"
      if "a \<in> pop_to_timeline ` offered (FilterPopover (tl_filter st))"
    proof -
      from that obtain p where "p \<in> offered (FilterPopover (tl_filter st))" "a = pop_to_timeline p" by blast
      then show ?thesis by (cases p) auto
    qed
    ultimately show ?thesis using that by blast
  qed
  then show ?thesis
  proof cases
    case 1
    have "(tl_offset st + 3 - 7) mod 7 = (tl_offset st + 3) mod 7" "(tl_offset st + 3 + 7) mod 7 = (tl_offset st + 3) mod 7"
      by (rule minus_mod_self2, rule mod_add_self2)
    with 1 assms(1) show ?thesis by (auto simp: timeline_inv_def algebra_simps)
  next
    case 2
    with assms(1) show ?thesis by (auto simp: timeline_inv_def)
  next
    case 3
    with pop_keeps_distinct [OF assms(1)] show ?thesis by simp
  qed
qed

interpretation timeline: ui_component "TimelineView h rs ls f" "{TCloseFilter} \<union> range TResize" timeline_act timeline_init timeline_inv
  for h rs ls f
proof
  show "timeline_inv timeline_init" by (simp add: timeline_inv_def timeline_init_def emptyFilter_def)
qed (rule timeline_inv_act)

section \<open>Properties\<close>

text \<open>
  Stage columns: when the zone has the same offset at the start of the viewport and on the day of
  a stage, the stage is drawn exactly as many columns to the right as it lies days after the
  viewport's first day.
\<close>

theorem placed_stages_exact:
  assumes "regular_day h today_day"
    and "\<forall>st \<in> set (ro_stages r).
      off_loc h ((today_day + sr_offset st) * ms_per_day) = off_loc h ((today_day + v) * ms_per_day)"
  shows "placed_stages h (addDays h (TODAY h) v) r = map (\<lambda>st. (st, sr_offset st - v)) (ro_stages r)"
  using assms by (simp add: placed_stages_def addDays_today column_same_offset)

theorem placed_stages_exact_witness:
  "map snd (placed_stages utc_host (addDays utc_host (TODAY utc_host) (- 3)) (hd ROLLOUTS)) = [1, 8, 15]"
proof -
  have "off_loc utc_host x = 0" for x by (simp add: utc_host_def)
  then have "placed_stages utc_host (addDays utc_host (TODAY utc_host) (- 3)) (hd ROLLOUTS) =
      map (\<lambda>st. (st, sr_offset st - - 3)) (ro_stages (hd ROLLOUTS))"
    using placed_stages_exact [of utc_host "hd ROLLOUTS" "- 3"] by simp
  then show ?thesis by (simp add: ROLLOUTS_def)
qed

text \<open>
  A clock change moves the columns: when the zone's offset on the later day is larger (summer
  time began in between, by at most a day's worth), the floored difference of the two midnights is
  one column too small.
\<close>

theorem column_off_by_one_in_spring:
  assumes "regular_day h today_day"
    and "off_loc h ((today_day + v) * ms_per_day) < off_loc h ((today_day + k) * ms_per_day)"
    and "off_loc h ((today_day + k) * ms_per_day) \<le> off_loc h ((today_day + v) * ms_per_day) + ms_per_day"
  shows "column (addDays h (TODAY h) k) (addDays h (TODAY h) v) = k - v - 1"
  using assms by (simp add: addDays_today column_later_offset)

text \<open>A zone with summer time from the day after today on, at the granularity of local times.\<close>

definition spring_host :: host where
  "spring_host = \<lparr>off_utc = (\<lambda>t. if (today_day + 1) * ms_per_day - 3600000 \<le> t then 7200000 else 3600000),
     off_loc = (\<lambda>l. if (today_day + 1) * ms_per_day + 3600000 \<le> l then 7200000 else 3600000),
     locale_date = (\<lambda>_ _. [])\<rparr>"

theorem column_off_by_one_in_spring_witness:
  "column (addDays spring_host (TODAY spring_host) 2) (addDays spring_host (TODAY spring_host) 0) = 1"
proof -
  have t: "today_day = 20600" by code_simp
  have "regular_day spring_host today_day"
    by (simp add: regular_day_def spring_host_def midnight_def utc_of_local_def t ms_per_day_def)
  then show ?thesis
    using column_off_by_one_in_spring [of spring_host 0 2] by (simp add: spring_host_def t ms_per_day_def)
qed

text \<open>
  Lock bars: with equal offsets a lock starts at the column of its first day and is as wide as
  its number of days, both ends included.
\<close>

theorem lockSpan_exact:
  assumes "regular_day h today_day"
    and "off_loc h ((today_day + lk_startOffset l) * ms_per_day) = off_loc h ((today_day + v) * ms_per_day)"
    and "off_loc h ((today_day + lk_endOffset l) * ms_per_day) = off_loc h ((today_day + v) * ms_per_day)"
  shows "lockSpan h l (addDays h (TODAY h) v) =
    ((lk_startOffset l - v) * 56, (lk_endOffset l - lk_startOffset l + 1) * 56)"
  using lockSpan_same_offset [OF assms] by (simp add: DAY_W_def)

theorem lockSpan_exact_witness:
  "lockSpan utc_host (LOCKS_RAW ! 1) (addDays utc_host (TODAY utc_host) (- 3)) = (112, 280)"
proof -
  have "off_loc utc_host x = 0" for x by (simp add: utc_host_def)
  moreover have "lk_startOffset (LOCKS_RAW ! 1) = - 1" "lk_endOffset (LOCKS_RAW ! 1) = 3" by (simp_all add: LOCKS_RAW_def)
  ultimately show ?thesis using lockSpan_exact [of utc_host "LOCKS_RAW ! 1" "- 3"] by simp
qed

text \<open>
  The filter of the timeline: a rollout passes when every non-empty criterion has one of its
  values, and adding a value to a criterion that already has one never hides a rollout.
\<close>

theorem filterMatch_semantics:
  "(filterMatch r f \<longleftrightarrow>
     (fl_products f = [] \<or> ro_product r \<in> set (fl_products f)) \<and>
     (fl_types f = [] \<or> ro_typeId r \<in> set (fl_types f)) \<and>
     (fl_actors f = [] \<or> set (ro_pair r) \<inter> set (fl_actors f) \<noteq> {}) \<and>
     (fl_statuses f = [] \<or> sr_status ` set (ro_stages r) \<inter> set (fl_statuses f) \<noteq> {})) \<and>
   (fl_products f \<noteq> [] \<and> v \<notin> set (fl_products f) \<and> filterMatch r f \<longrightarrow> filterMatch r (toggle_products v f)) \<and>
   (fl_types f \<noteq> [] \<and> v \<notin> set (fl_types f) \<and> filterMatch r f \<longrightarrow> filterMatch r (toggle_types v f))"
  by (auto simp: filterMatch_def list_ex_iff toggle_products_def toggle_types_def toggle_def)

theorem filterMatch_semantics_witness:
  "filterMatch (hd ROLLOUTS) (toggle_products ''monalesy'' (emptyFilter\<lparr>fl_products := [''operator'']\<rparr>))"
  using filterMatch_semantics [of "hd ROLLOUTS" "emptyFilter\<lparr>fl_products := [''operator'']\<rparr>" "''monalesy''"]
  by (simp add: ROLLOUTS_def emptyFilter_def filterMatch_def)

text \<open>
  The timeline page renders for rollouts whose references resolve, in every state, and a user
  can open exactly the rollouts that pass the filter.
\<close>

theorem TimelineView_complete:
  assumes "\<forall>r \<in> set rs. resolves r"
  shows "\<exists>n. TimelineView h rs ls f st = Some n \<and>
    (\<forall>i. TOpen i \<in> offered n \<longleftrightarrow> (\<exists>r \<in> set rs. filterMatch r (tl_filter st) \<and> i = ro_id r))"
proof -
  have "\<forall>r \<in> set (timeline_rollouts rs st). resolves r" using assms by (simp add: timeline_rollouts_def)
  then obtain ls' ts where "row_labels (timeline_rollouts rs st) f = Some ls'"
    "row_tracks h (timeline_rollouts rs st) (addDays h (TODAY h) (tl_offset st)) f = Some ts"
    using row_labels_render row_tracks_render by blast
  then obtain n where n: "TimelineView h rs ls f st = Some n" by (simp add: TimelineView_def Let_def)
  have "TOpen i \<notin> pop_to_timeline ` P" for i P
  proof
    assume "TOpen i \<in> pop_to_timeline ` P"
    then obtain p where "TOpen i = pop_to_timeline p" by blast
    then show False by (cases p) simp_all
  qed
  then have "TOpen i \<in> offered n \<longleftrightarrow> (\<exists>r \<in> set (timeline_rollouts rs st). i = ro_id r)" for i
    using TimelineView_offers [OF n] by blast
  then show ?thesis using n by (auto simp: timeline_rollouts_def)
qed

theorem TimelineView_complete_witness:
  "\<exists>n. TimelineView utc_host ROLLOUTS LOCKS_RAW None timeline_init = Some n"
  using TimelineView_complete [of ROLLOUTS utc_host LOCKS_RAW None timeline_init] resolves_seed
  by (auto simp: list_all_iff)

text \<open>
  In every state a user can reach, the viewport starts on the weekday it started on (the offset
  differs from -3 by whole weeks), shows at least a week, and no filter criterion has duplicates.
\<close>

theorem timeline_reachable_inv:
  assumes "ui_reach (TimelineView h rs ls f) ({TCloseFilter} \<union> range TResize) timeline_act timeline_init st"
  shows "(tl_offset st + 3) mod 7 = 0 \<and> 7 \<le> tl_days st \<and>
     distinct (fl_products (tl_filter st)) \<and> distinct (fl_types (tl_filter st)) \<and>
     distinct (fl_statuses (tl_filter st)) \<and> distinct (fl_actors (tl_filter st))"
  using timeline.inv_reach [OF assms] by (simp add: timeline_inv_def)

theorem timeline_reachable_inv_witness:
  "7 \<le> tl_days (timeline_act (TResize 100) timeline_init)"
proof -
  have "ui_reach (TimelineView utc_host [] [] None) ({TCloseFilter} \<union> range TResize) timeline_act timeline_init
      (timeline_act (TResize 100) timeline_init)"
    by (rule ui_reach.act [OF ui_reach.init]) simp
  from timeline_reachable_inv [OF this] show ?thesis by simp
qed

text \<open>
  The label of a cascade connector: for stages \<open>k\<close> days apart it reads "+(k-1)d", one day less
  than the distance, because the arrow's pixel length is shortened by 32 before it is rounded.
\<close>

theorem cascade_label_short:
  assumes "1 \<le> k"
  shows "concat (map text_of (Cascade i (i + k) color)) = ''+'' @ show_int (k - 1) @ ''d''"
proof -
  have w: "(i + k) * DAY_W + DAY_W div 2 - 16 - (i * DAY_W + DAY_W div 2 + 16) = k * 56 - 32"
    by (simp add: DAY_W_def algebra_simps)
  show ?thesis using assms cascade_label_days [OF assms]
    unfolding Cascade_def Let_def w by simp
qed

theorem cascade_label_short_witness:
  "concat (map text_of (Cascade 1 (1 + 7) ''#fff'')) = ''+6d''"
proof -
  have "show_int 6 = ''6''" by code_simp
  then show ?thesis using cascade_label_short [of 7 1 "''#fff''"] by simp
qed

end
