(* ===== verification/RR_Panels.thy ===== *)
theory RR_Panels
  imports RR_Timeline
begin

text \<open>
  The panels of \<open>src/design/project/panels.jsx\<close>: executing a rollout (drawer or page) with its task
  states, failure reasons and the reschedule dialog, and the modals that create rollouts and locks.
  The task states are the object keyed by task index, kept as a list ascending by index, which is the
  order in which JavaScript enumerates integer keys. The dialogs that close themselves keep their
  state while closed.
\<close>

section \<open>Executing a rollout\<close>

datatype task_state = TaskDone | TaskFailed string

fun task_put :: "nat \<Rightarrow> task_state \<Rightarrow> (nat \<times> task_state) list \<Rightarrow> (nat \<times> task_state) list" where
  "task_put i v [] = [(i, v)]"
| "task_put i v ((j, w) # m) =
     (if i < j then (i, v) # (j, w) # m else if i = j then (i, v) # m else (j, w) # task_put i v m)"

definition task_delete :: "nat \<Rightarrow> (nat \<times> task_state) list \<Rightarrow> (nat \<times> task_state) list" where
  "task_delete i m = filter (\<lambda>p. fst p \<noteq> i) m"

record resched_state =
  rs_date :: string
  rs_time :: string
  rs_note :: string

record exec_state =
  ep_tasks :: "(nat \<times> task_state) list"
  ep_failing :: "nat option"
  ep_reason :: string
  ep_resched :: "resched_state option"
  ep_announce :: string
  ep_risks :: string
  ep_descExt :: string
  ep_descInt :: string
  ep_copied :: bool

definition exec_init :: "rollout \<Rightarrow> exec_state" where
  "exec_init r = \<lparr>ep_tasks = foldl (\<lambda>m i. task_put i TaskDone m) [] (ro_checked r),
     ep_failing = None, ep_reason = [], ep_resched = None, ep_announce = ro_descExt r,
     ep_risks = ro_risks r, ep_descExt = ro_descExt r, ep_descInt = ro_descInt r, ep_copied = False\<rparr>"

definition blockingLocks :: "host \<Rightarrow> lock list \<Rightarrow> rollout \<Rightarrow> lock list" where
  "blockingLocks h locks rollout = filter (\<lambda>l.
     (''all'' \<in> set (lk_products l) \<or> ro_product rollout \<in> set (lk_products l)) \<and>
     list_ex (\<lambda>st. let d = addDays h (TODAY h) (sr_offset st);
                       ls = addDays h (TODAY h) (lk_startOffset l);
                       le = addDays h (TODAY h) (lk_endOffset l)
                   in d \<ge> ls \<and> d \<le> le) (ro_stages rollout)) locks"

definition setDone :: "nat \<Rightarrow> exec_state \<Rightarrow> exec_state" where
  "setDone i st =
     (let s1 = st\<lparr>ep_tasks := (if map_of (ep_tasks st) i = Some TaskDone then task_delete i (ep_tasks st)
                                else task_put i TaskDone (ep_tasks st))\<rparr>
      in if ep_failing st = Some i then s1\<lparr>ep_failing := None, ep_reason := []\<rparr> else s1)"

definition setFailed :: "nat \<Rightarrow> exec_state \<Rightarrow> exec_state" where
  "setFailed i st = (case map_of (ep_tasks st) i of
     Some (TaskFailed r) \<Rightarrow>
       (let s1 = st\<lparr>ep_tasks := task_delete i (ep_tasks st)\<rparr>
        in if ep_failing st = Some i then s1\<lparr>ep_failing := None\<rparr> else s1)
   | _ \<Rightarrow> st\<lparr>ep_failing := Some i, ep_reason := []\<rparr>)"

definition saveReason :: "nat \<Rightarrow> exec_state \<Rightarrow> exec_state" where
  "saveReason i st =
     (let reason = trim (ep_reason st) in
      if reason = [] then st
      else st\<lparr>ep_tasks := task_put i (TaskFailed reason) (ep_tasks st), ep_failing := None, ep_reason := []\<rparr>)"

definition is_failed :: "task_state \<Rightarrow> bool" where
  "is_failed v = (case v of TaskFailed _ \<Rightarrow> True | TaskDone \<Rightarrow> False)"

definition doneCount :: "exec_state \<Rightarrow> nat" where
  "doneCount st = length (filter (\<lambda>p. \<not> is_failed (snd p)) (ep_tasks st))"

definition failedCount :: "exec_state \<Rightarrow> nat" where
  "failedCount st = length (filter (\<lambda>p. is_failed (snd p)) (ep_tasks st))"

definition failedTasks :: "exec_state \<Rightarrow> (nat \<times> string) list" where
  "failedTasks st = concat (map (\<lambda>(k, v). case v of TaskFailed r \<Rightarrow> [(k, r)] | TaskDone \<Rightarrow> []) (ep_tasks st))"

text \<open>The percentage of done tasks; for a type without tasks the quotient is not a number.\<close>

text \<open>
  \<open>length\<close> of a text: its UTF-16 units. In UTF-8 a character starts with a byte that is no continuation, and it takes two units when it has four bytes.
\<close>

definition utf16_length :: "string \<Rightarrow> nat" where
  "utf16_length s = sum_list (map (\<lambda>c. if 128 \<le> char_code c \<and> char_code c < 192 then 0 else if 240 \<le> char_code c then 2 else 1) s)"

definition completion :: "exec_state \<Rightarrow> rollout_type \<Rightarrow> int option" where
  "completion st ty = (if rt_tasks ty = [] then None
     else Some (js_round (of_nat (doneCount st) / of_nat (length (rt_tasks ty)) * 100)))"

definition shareLink :: "string \<Rightarrow> string \<Rightarrow> rollout \<Rightarrow> string" where
  "shareLink origin pathname rollout = origin @ pathname @ ''#rollout/'' @ ro_id rollout"

section \<open>The reschedule dialog\<close>

datatype resched_action = RDate string | RTime string | RNote string | RCancel | RConfirm

definition resched_init :: "host \<Rightarrow> resched_state" where
  "resched_init h = \<lparr>rs_date = dateKey (TODAY h + 3 * 86400000), rs_time = ''10:00'', rs_note = []\<rparr>"

fun resched_act :: "resched_action \<Rightarrow> resched_state \<Rightarrow> resched_state" where
  "resched_act (RDate v) st = st\<lparr>rs_date := v\<rparr>"
| "resched_act (RTime v) st = st\<lparr>rs_time := v\<rparr>"
| "resched_act (RNote v) st = st\<lparr>rs_note := v\<rparr>"
| "resched_act RCancel st = st"
| "resched_act RConfirm st = st"

definition RescheduleConfirm :: "rollout \<Rightarrow> (nat \<times> string) list \<Rightarrow> string list \<Rightarrow> resched_state \<Rightarrow> resched_action node" where
  "RescheduleConfirm rollout failed taskNames st =
    Elem ''div'' [cls ''rr-modal-scrim'', On ''onClick'' RCancel]
      [Elem ''div'' [cls ''rr-modal rr-modal-sm'', Stop ''onClick'']
        [Elem ''header'' [cls ''rr-modal-head'']
          [Elem ''div'' []
            [Elem ''h2'' []
              [Text ''Reschedule rollout''],
             Elem ''p'' [cls ''rr-modal-sub'']
              [Text ''This rollout will be marked '',
               Elem ''strong'' [Sty ''color'' ''#fca5a5'']
                [Text ''failed''],
               Text '' with the recorded reasons. A copy will be created with all current data, ready to schedule for a new slot.'']],
           Elem ''button'' [cls ''rr-icon-btn'', On ''onClick'' RCancel]
            [Icon (ICONS ''x'') 14]],
         Elem ''div'' [cls ''rr-modal-body'']
          [Elem ''div'' [cls ''rr-resched-summary'']
            [Elem ''div'' [cls ''rr-resched-eyebrow'']
              [Text ''Will be marked failed''],
             Elem ''div'' [cls ''rr-resched-title'']
              [Text (ro_title rollout)],
             Elem ''ul'' [cls ''rr-resched-reasons'']
              (map (\<lambda>f.
                  Elem ''li'' []
                    [Icon (ICONS ''x'') 11,
                     Elem ''span'' []
                      [Elem ''strong'' []
                        [Text (if fst f < length taskNames then taskNames ! fst f else [])],
                       Text ('' '' @ u_mdash @ '' ''),
                       Text (snd f)]])
                failed)],
           Elem ''div'' [cls ''rr-resched-arrow'']
            [Icon (Some ''M12 5v14m0 0l-5-5m5 5l5-5'') 16,
             Elem ''span'' []
              [Text ''becomes a new rollout'']],
           Elem ''div'' [cls ''rr-form-grid'']
            [Elem ''label'' [cls ''rr-field'']
              [Elem ''span'' []
                [Text ''New non-prod date''],
               Elem ''input'' [Attr ''type'' ''date'', Attr ''value'' (rs_date st), OnVal ''onChange'' (\<lambda>v. (RDate v))] []],
             Elem ''label'' [cls ''rr-field'']
              [Elem ''span'' []
                [Text ''Time''],
               Elem ''input'' [Attr ''type'' ''time'', Attr ''value'' (rs_time st), OnVal ''onChange'' (\<lambda>v. (RTime v))] []],
             Elem ''label'' [cls ''rr-field rr-field-wide'']
              [Elem ''span'' []
                [Text ''Add context to the new rollout '',
                 Elem ''em'' []
                  [Text ''(optional)'']],
               Elem ''textarea'' [AttrN ''rows'' 2, Attr ''placeholder'' ''e.g. retry after broker diff cleanup on zeus-02'', Attr ''value'' (rs_note st), OnVal ''onChange'' (\<lambda>v. (RNote v))] []]],
           Elem ''div'' [cls ''rr-resched-inherit'']
            [Icon (ICONS ''check'') 12,
             Elem ''span'' []
              [Text ''Pair, descriptions, risks, brokers, announcements & tasks are copied. Cascade re-anchors from the new non-prod date.'']]],
         Elem ''footer'' [cls ''rr-modal-foot'']
          [Elem ''span'' [cls ''rr-muted'']
            [Text ''A new rollout-id will be issued; both entries stay linked.''],
           Elem ''div'' [cls ''rr-modal-foot-actions'']
            [Elem ''button'' [cls ''rr-btn rr-btn-ghost'', On ''onClick'' RCancel]
              [Text ''Cancel''],
             Elem ''button'' [cls ''rr-btn rr-btn-primary'', On ''onClick'' RConfirm]
              [Icon (ICONS ''copy'') 12,
               Text '' Mark failed & create copy'']]]]]"

section \<open>Rendering the panel\<close>

datatype exec_action =
    EDone nat | EFailed nat | EEdit nat string | EReason string | ECancelReason | ESaveReason nat
  | EReschedule | EResched resched_action | EDescExt string | EDescInt string | EAnnounce string | ERisks string
  | ECopy | ECopyTimeout | EClose | EOpenFull

definition exec_head_actions :: "bool \<Rightarrow> exec_state \<Rightarrow> exec_action node" where
  "exec_head_actions isPage st =
    Elem ''div'' [cls ''rr-drawer-head-r'']
      (guarded (\<not> isPage)
        [Elem ''button'' [cls ''rr-btn rr-btn-ghost rr-btn-sm'', On ''onClick'' EOpenFull, Attr ''title'' ''Open full page'']
          [Icon (ICONS ''link'') 13,
           Text '' Open'']] @
       guarded isPage
        [Elem ''button'' [cls (''rr-btn rr-btn-ghost rr-btn-sm '' @ (if (ep_copied st) then ''is-on-ghost'' else [])), On ''onClick'' ECopy]
          [Icon (if ep_copied st then ICONS ''check'' else ICONS ''link'') 13,
           Text (if (ep_copied st) then ''Link copied'' else ''Copy link'')]] @
       [Elem ''button'' [cls ''rr-btn rr-btn-ghost rr-btn-sm'']
        [Icon (ICONS ''copy'') 13,
         Text '' Duplicate''],
       Elem ''button'' [cls ''rr-btn rr-btn-ghost rr-btn-sm'']
        [Icon (ICONS ''download'') 13,
         Text '' .ics''],
       Elem ''button'' [cls ''rr-btn rr-btn-primary rr-btn-sm'']
        [Text ''Execute next step'']] @
       guarded (\<not> isPage)
        [Elem ''button'' [cls ''rr-icon-btn'', On ''onClick'' EClose]
          [Icon (ICONS ''x'') 14]])"

definition exec_head :: "string \<Rightarrow> string \<Rightarrow> bool \<Rightarrow> rollout \<Rightarrow> rollout_type \<Rightarrow> product \<Rightarrow> exec_state \<Rightarrow> exec_action node" where
  "exec_head origin pathname isPage rollout ty product st =
    Elem ''header'' [cls (if isPage then ''rr-detail-head'' else ''rr-drawer-head'')]
      [Elem ''div'' [cls ''rr-drawer-head-l'']
        (guarded isPage
          [Elem ''button'' [cls ''rr-detail-back'', On ''onClick'' EClose]
            [Icon_full (ICONS ''chev'') 12 (16 / 10) ''rr-rot-180'' ''none'',
             Text '' Back to timeline'']] @
         [Elem ''div'' [cls ''rr-drawer-eyebrow'']
          [Elem ''span'' [cls ''rr-prod-dot'', Sty ''background'' (productColor (ro_product rollout))] [],
           Elem ''span'' []
            [Text (prod_name product)],
           Elem ''span'' [cls ''rr-sep'']
            [Text ''/''],
           Badge (rt_tone ty) False False [Text (rt_short ty)],
           Elem ''span'' [cls ''rr-sep'']
            [Text ''/''],
           Elem ''span'' [cls ''rr-mono rr-muted'']
            [Text (ro_id rollout)]],
         Elem ''h2'' [cls ''rr-drawer-title'']
          [Text (ro_title rollout)]] @
         guarded isPage
          [Elem ''div'' [cls ''rr-detail-sharebar'']
            [Icon (ICONS ''link'') 11,
             Elem ''code'' []
              [Text (shareLink origin pathname rollout)],
             Elem ''span'' [cls ''rr-detail-sharebar-hint'']
              [Text (''share this URL '' @ u_mdash @ '' it deep-links straight to this rollout'')]]]),
       exec_head_actions isPage st]"

definition exec_lock_banner :: "lock list \<Rightarrow> exec_action node list" where
  "exec_lock_banner blocking = guarded (blocking \<noteq> [])
    [Elem ''div'' [cls ''rr-banner rr-banner-danger'']
      [Icon (ICONS ''warn'') 18,
       Elem ''div'' []
        [Elem ''strong'' []
          [Text (''Lock Active '' @ u_mdash @ '' Do not deploy.'')],
         Elem ''p'' []
          [Text (join_with ('' '' @ u_bullet @ '' '') (map lk_title blocking)),
           Text ''.'',
           Text '' '',
           Text (lk_description (hd blocking))]],
       Elem ''button'' [cls ''rr-banner-action'']
        [Text ''Acknowledge'']]]"

definition exec_stage_card :: "host \<Rightarrow> rollout \<Rightarrow> nat \<Rightarrow> stage_run \<Rightarrow> exec_action node list option" where
  "exec_stage_card h rollout i st = (case map_of STAGE (sr_env st) of
     None \<Rightarrow> None
   | Some s \<Rightarrow> (let d = addDays h (TODAY h) (sr_offset st) in Some
       (guarded (i > 0)
        [Elem ''div'' [cls ''rr-stage-arrow'']
          [Elem ''span'' []
            [Text ''+'',
             Text (show_int (sr_offset (ro_stages rollout ! i) - sr_offset (ro_stages rollout ! (i - 1)))),
             Text ''d''],
           Icon (Some ''M5 12h14m0 0l-4-4m4 4l-4 4'') 14]] @
       [Elem ''div'' [cls ''rr-stage-card'', Sty ''borderColor'' (st_border s), Sty ''background'' (st_soft s)]
          [Elem ''div'' [cls ''rr-stage-card-top'']
            [Elem ''span'' [cls ''rr-stage-card-tag'', Sty ''background'' (st_color s), Sty ''color'' ''#0a0a0c'']
              [Text (st_short s)],
             Elem ''span'' [Sty ''color'' (st_color s), StyN ''fontWeight'' 600]
              [Text (st_label s)]],
           Elem ''div'' [cls ''rr-stage-card-date'']
            [Text (locale_date h [(''weekday'', ''short''), (''day'', ''2-digit''), (''month'', ''short'')] d),
             Elem ''span'' []
              [Text ('' '' @ u_middot @ '' ''),
               Text (sr_time st)]],
           Elem ''div'' [cls ''rr-stage-card-status'']
            [Elem ''span'' [cls (''rr-pill-dot is-'' @ (sr_status st))] [],
             Text (sr_status st)]]])))"

definition taskLog :: "nat \<Rightarrow> (string \<times> string) option" where
  "taskLog i = map_of [(0, (''luc'', ''09:54'')), (1, (''hen'', ''10:02'')), (2, (''luc'', ''10:11'')), (3, (''hen'', ''10:14''))] i"

text \<open>\<open>rollout.pair[i % rollout.pair.length]\<close> and the actor it names; nothing for an empty pair.\<close>

definition task_actor :: "rollout \<Rightarrow> nat \<Rightarrow> (string \<times> actor) option" where
  "task_actor rollout i =
     (if ro_pair rollout = [] then None
      else let a = ro_pair rollout ! (i mod length (ro_pair rollout)) in map_option (\<lambda>x. (a, x)) (getActor a))"

definition exec_task_log :: "rollout \<Rightarrow> nat \<Rightarrow> (string \<times> string \<times> actor) option" where
  "exec_task_log rollout i = (case taskLog i of
     Some (who, tm) \<Rightarrow> map_option (\<lambda>x. (who, tm, x)) (getActor who)
   | None \<Rightarrow> map_option (\<lambda>(who, x). (who, ''10:'' @ padStart0 2 (show_nat (20 + i * 4)), x)) (task_actor rollout i))"

definition exec_task_view ::
    "exec_state \<Rightarrow> nat \<Rightarrow> string \<Rightarrow> bool \<Rightarrow> bool \<Rightarrow> bool \<Rightarrow> string \<Rightarrow> (string \<times> string \<times> actor) option \<Rightarrow>
     (string \<times> actor) option \<Rightarrow> exec_action node" where
  "exec_task_view st i label isDone isFailed isFailing reason done_log faillog =
       (Elem ''li'' [cls (((''rr-task '' @ (if isDone then ''is-done '' else [])) @ (if isFailed then ''is-failed '' else [])) @ (if isFailing then ''is-failing'' else []))]
          ([Elem ''div'' [cls ''rr-task-main'']
            ([Elem ''div'' [cls ''rr-task-checks'']
              [Elem ''button'' [cls (''rr-check rr-check-ok '' @ (if isDone then ''is-on'' else [])), On ''onClick'' (EDone i), AttrB ''aria-pressed'' isDone, Attr ''title'' ''Mark done'']
                (guarded isDone
                  [Icon (ICONS ''check'') 11]),
               Elem ''button'' [cls (''rr-check rr-check-fail '' @ (if isFailed then ''is-on'' else [])), On ''onClick'' (EFailed i), AttrB ''aria-pressed'' isFailed, Attr ''title'' ''Mark failed'']
                (guarded isFailed
                  [Icon (ICONS ''x'') 11])],
             Elem ''span'' [cls ''rr-task-label'']
              [Text label]] @
             (case done_log of None \<Rightarrow> [] | Some lg \<Rightarrow>
              [Elem ''span'' [cls ''rr-task-log'']
                (Avatar (fst lg) 16 False @
                 [Elem ''span'' []
                  [Text ''checked by '',
                   Text (ac_name (snd (snd lg))),
                   Text ('' '' @ u_middot @ '' ''),
                   Text (fst (snd lg))]])]) @
             (case faillog of None \<Rightarrow> [] | Some fl \<Rightarrow>
              [Elem ''span'' [cls ''rr-task-log'']
                (Avatar (fst fl) 16 False @
                 [Elem ''span'' []
                  [Text (''failed '' @ u_middot @ '' ''),
                   Text (ac_name (snd fl)),
                   Text ('' '' @ u_middot @ '' 10:''),
                   Text (padStart0 2 (show_nat (30 + i * 3)))]])]) @
             guarded (done_log = None \<and> \<not> isFailed \<and> \<not> isFailing)
              [Elem ''span'' [cls ''rr-task-pending'']
                [Text ''pending'']])] @
           guarded (isFailed \<and> (\<not> isFailing))
            [Elem ''div'' [cls ''rr-task-reason'']
              [Icon (ICONS ''warn'') 11,
               Elem ''span'' [cls ''rr-task-reason-text'']
                [Text reason],
               Elem ''button'' [cls ''rr-task-reason-edit'', On ''onClick'' (EEdit i reason)]
                [Text ''edit'']]] @
           guarded isFailing
            [Elem ''div'' [cls ''rr-task-reason-form'']
              [Elem ''label'' [cls ''rr-field'']
                [Elem ''span'' []
                  [Text ''Why did this step fail? '',
                   Elem ''em'' []
                    [Text (''(required '' @ u_mdash @ '' will be logged on this rollout and the reschedule copy)'')]],
                 Elem ''textarea'' [AttrN ''rows'' 2, AttrB ''autoFocus'' True, Attr ''placeholder'' (''e.g. broker diff returned 14 unexpected drift entries on zeus-02 '' @ u_mdash @ '' investigate before retry.''), Attr ''value'' (ep_reason st), OnVal ''onChange'' (\<lambda>v. (EReason v))] []],
               Elem ''div'' [cls ''rr-task-reason-actions'']
                [Elem ''button'' [cls ''rr-btn rr-btn-ghost rr-btn-sm'', On ''onClick'' ECancelReason]
                  [Text ''Cancel''],
                 Elem ''button'' [cls ''rr-btn rr-btn-danger rr-btn-sm'', On ''onClick'' (ESaveReason i), AttrB ''disabled'' (trim (ep_reason st) = [])]
                  [Text ''Save failure'']]]]))"

definition exec_task_row :: "rollout \<Rightarrow> exec_state \<Rightarrow> nat \<Rightarrow> string \<Rightarrow> exec_action node option" where
  "exec_task_row rollout st i label =
     (let state = map_of (ep_tasks st) i;
          isDone = state = Some TaskDone;
          isFailed = (case state of Some v \<Rightarrow> is_failed v | None \<Rightarrow> False);
          reason = (case state of Some (TaskFailed r) \<Rightarrow> r | _ \<Rightarrow> []);
          isFailing = ep_failing st = Some i;
          done_log = (if isDone then exec_task_log rollout i else None);
          faillog = (if isFailed \<and> \<not> isFailing then task_actor rollout i else None)
      in if isDone \<and> done_log = None \<or> (isFailed \<and> \<not> isFailing \<and> faillog = None) then None
         else Some (exec_task_view st i label isDone isFailed isFailing reason done_log faillog))"

definition exec_tasks :: "rollout_type \<Rightarrow> exec_state \<Rightarrow> exec_action node list \<Rightarrow> exec_action node" where
  "exec_tasks ty st rows =
    Elem ''section'' [cls ''rr-block'']
      ([Elem ''div'' [cls ''rr-block-head'']
        [Elem ''h3'' []
          [Text ''Tasks '',
           Elem ''span'' [cls ''rr-muted'']
            [Text ''(inherited from '',
             Text (rt_short ty),
             Text '')'']],
         Elem ''div'' [cls ''rr-progress-wrap'']
          ([Elem ''div'' [cls ''rr-progress'']
            ([Elem ''div'' [cls ''rr-progress-fill'', Sty ''width'' ((case completion st ty of Some c \<Rightarrow> show_int c | None \<Rightarrow> ''NaN'') @ ''%'')] []] @
             guarded (failedCount st > 0)
              [Elem ''div'' [cls ''rr-progress-fail'', StyPct ''width'' (of_nat (failedCount st) / of_nat (length (rt_tasks ty)) * 100)] []]),
           Elem ''span'' [cls ''rr-mono'']
            [Text (case completion st ty of Some c \<Rightarrow> show_int c | None \<Rightarrow> ''NaN''),
             Text ''%'']] @
           guarded (failedCount st > 0)
            [Elem ''span'' [cls ''rr-mono rr-fail-count'']
              [Text (u_middot @ '' ''),
               Text (show_nat (failedCount st)),
               Text '' failed'']])]] @
       guarded (failedCount st > 0)
        [Elem ''div'' [cls ''rr-fail-banner'']
          [Elem ''div'' [cls ''rr-fail-banner-l'']
            [Icon (ICONS ''warn'') 16,
             Elem ''div'' []
              [Elem ''strong'' []
                [Text (show_nat (failedCount st)),
                 Text '' task'',
                 Text (if (failedCount st > 1) then ''s'' else []),
                 Text '' failed.''],
               Elem ''p'' []
                [Text (''You can continue the rollout (the failure is logged) or reschedule '' @ u_mdash @ '' this rollout will be marked ''),
                 Elem ''em'' []
                  [Text ''failed''],
                 Text '' and a copy created for a new slot.'']]],
           Elem ''div'' [cls ''rr-fail-banner-r'']
            [Elem ''button'' [cls ''rr-btn rr-btn-ghost rr-btn-sm'']
              [Text ''Continue anyway''],
             Elem ''button'' [cls ''rr-btn rr-btn-primary rr-btn-sm'', On ''onClick'' EReschedule]
              [Icon (ICONS ''copy'') 12,
               Text '' Reschedule'']]]] @
       [Elem ''ul'' [cls ''rr-tasks'']
        (rows),
       Elem ''button'' [cls ''rr-task-add'']
        [Icon (ICONS ''plus'') 12,
         Text '' Add custom task'']])"

definition exec_descriptions :: "exec_state \<Rightarrow> exec_action node" where
  "exec_descriptions st =
    Elem ''section'' [cls ''rr-block'']
      [Elem ''div'' [cls ''rr-block-head'']
        [Elem ''h3'' []
          [Text ''Descriptions & Risks'']],
       Elem ''div'' [cls ''rr-fields'']
        [Elem ''label'' [cls ''rr-field'']
          [Elem ''span'' []
            [Text ''External description '',
             Elem ''em'' []
              [Text ''(customer-visible)'']],
           Elem ''textarea'' [AttrN ''rows'' 2, Attr ''value'' (ep_descExt st), OnVal ''onChange'' (\<lambda>v. (EDescExt v))] []],
         Elem ''label'' [cls ''rr-field'']
          [Elem ''span'' []
            [Text ''Internal description''],
           Elem ''textarea'' [AttrN ''rows'' 2, Attr ''value'' (ep_descInt st), OnVal ''onChange'' (\<lambda>v. (EDescInt v))] []],
         Elem ''label'' [cls ''rr-field rr-field-announce'']
          [Elem ''span'' []
            [Elem ''span'' [cls ''rr-field-label-row'']
              [Text ''Description in the announcement'',
               Elem ''span'' [cls ''rr-field-pill'']
                [Icon (ICONS ''bolt'') 10,
                 Text '' sent to '',
                 Elem ''code'' []
                  [Text ''TMS_PROD'']]],
             Elem ''em'' []
              [Text ''injected into the channel template as '',
               Elem ''code'' []
                [Text ''{{rollout.announcementText}}''],
               Text ('' '' @ u_mdash @ '' seeded from the external description'')]],
           Elem ''textarea'' [AttrN ''rows'' 3, Attr ''value'' (ep_announce st), OnVal ''onChange'' (\<lambda>v. (EAnnounce v))] [],
           Elem ''div'' [cls ''rr-field-helpers'']
            [Elem ''button'' [cls ''rr-link'', On ''onClick'' (EAnnounce (ep_descExt st))]
              [Icon (ICONS ''copy'') 11,
               Text '' Reset from external description''],
             Elem ''span'' [cls ''rr-field-count rr-mono'']
              [Text (show_nat (utf16_length (ep_announce st))),
               Text '' chars'']]],
         Elem ''label'' [cls ''rr-field'']
          [Elem ''span'' []
            [Text ''Risks''],
           Elem ''textarea'' [AttrN ''rows'' 2, Attr ''value'' (ep_risks st), OnVal ''onChange'' (\<lambda>v. (ERisks v))] []]]]"

definition exec_pair_card :: "actor \<Rightarrow> exec_action node" where
  "exec_pair_card a =
    Elem ''div'' [cls ''rr-pair-card'']
      (Avatar (ac_id a) 36 True @
       [Elem ''div'' []
        [Elem ''div'' [cls ''rr-pair-name'']
          [Text (ac_name a)],
         Elem ''div'' [cls ''rr-pair-role'']
          [Elem ''span'' [cls ''rr-role-pill'']
            [Text (ac_role a)],
           Text ('' '' @ u_middot @ '' oAuth verified'')]]])"

definition exec_pair :: "rollout \<Rightarrow> exec_action node list \<Rightarrow> exec_action node" where
  "exec_pair rollout cards =
    Elem ''section'' [cls ''rr-block'']
      [Elem ''div'' [cls ''rr-block-head'']
        [Elem ''h3'' []
          [Text ''Executed by (pair)'']],
       Elem ''div'' [cls ''rr-pair'']
        (cards @
         guarded (length (ro_pair rollout) = 1)
          [Elem ''button'' [cls ''rr-pair-add'']
            [Icon (ICONS ''plus'') 14,
             Text '' Add second actor'',
             Elem ''span'' [cls ''rr-pair-add-hint'']
              [Text ''Pair required for this rollout type'']]])]"

definition exec_rules :: "rollout_type \<Rightarrow> exec_action node" where
  "exec_rules ty =
    Elem ''section'' [cls ''rr-block'']
      [Elem ''div'' [cls ''rr-block-head'']
        [Elem ''h3'' []
          [Text ''RolloutType rules'']],
       Elem ''ul'' [cls ''rr-rules'']
        (map (\<lambda>(i, r).
            Elem ''li'' []
              [Icon (ICONS ''check'') 12,
               Text '' '',
               Text r])
          (enumerate 0 (rt_rules ty)))]"

definition exec_announcements :: "exec_action node" where
  "exec_announcements =
    Elem ''section'' [cls ''rr-block'']
      [Elem ''div'' [cls ''rr-block-head'']
        [Elem ''h3'' []
          [Text ''Announcements'']],
       Elem ''ul'' [cls ''rr-announce'']
        [Elem ''li'' []
          [Badge ''ok'' True False [Text ''sent''],
           Text '' '',
           Elem ''span'' []
            [Text (''TMS_NP '' @ u_middot @ '' 1d ahead'')],
           Elem ''span'' [cls ''rr-mono rr-muted'']
            [Text ''Mon 09:00'']],
         Elem ''li'' []
          [Badge ''ok'' True False [Text ''sent''],
           Text '' '',
           Elem ''span'' []
            [Text (''TMS_PROD '' @ u_middot @ '' 1w ahead (prod1)'')],
           Elem ''span'' [cls ''rr-mono rr-muted'']
            [Text ''Mon 09:01'']],
         Elem ''li'' []
          [Badge ''warn'' True False [Text ''queued''],
           Text '' '',
           Elem ''span'' []
            [Text (''TMS_PROD '' @ u_middot @ '' 2w ahead (prod2)'')],
           Elem ''span'' [cls ''rr-mono rr-muted'']
            [Text ''in 3d'']]]]"

definition ExecutePanel ::
    "host \<Rightarrow> string \<Rightarrow> string \<Rightarrow> bool \<Rightarrow> lock list \<Rightarrow> rollout \<Rightarrow> exec_state \<Rightarrow> exec_action node option" where
  "ExecutePanel h origin pathname isPage locks rollout st =
     (case (getType (ro_typeId rollout), getProduct (ro_product rollout),
            those (map (\<lambda>(i, s). exec_stage_card h rollout i s) (enumerate 0 (ro_stages rollout))),
            those (map getActor (ro_pair rollout))) of
        (Some ty, Some product, Some cards, Some actors) \<Rightarrow>
          (case those (map (\<lambda>(i, t). exec_task_row rollout st i t) (enumerate 0 (rt_tasks ty))) of
             None \<Rightarrow> None
           | Some rows \<Rightarrow>
              (let inner =
                 [exec_head origin pathname isPage rollout ty product st] @
                 exec_lock_banner (blockingLocks h locks rollout) @
                 [Elem ''div'' [cls ''rr-drawer-grid'']
                   [Elem ''div'' [cls ''rr-drawer-col'']
                     [Elem ''section'' [cls ''rr-block'']
                       [Elem ''div'' [cls ''rr-block-head'']
                         [Elem ''h3'' [] [Text ''Cascade''], Elem ''span'' [cls ''rr-block-sub''] [Text (rt_announce ty)]],
                        Elem ''div'' [cls ''rr-stage-cards''] (concat cards)],
                      exec_tasks ty st rows, exec_descriptions st],
                    Elem ''div'' [cls ''rr-drawer-col rr-drawer-col-right'']
                     [exec_pair rollout (map exec_pair_card actors), exec_rules ty, exec_announcements]]] @
                 (case ep_resched st of None \<Rightarrow> []
                  | Some rs \<Rightarrow> [lift_node EResched (RescheduleConfirm rollout (failedTasks st) (rt_tasks ty) rs)])
               in Some (if isPage then Elem ''div'' [cls ''rr-detail-page''] inner
                        else Elem ''div'' [cls ''rr-drawer-scrim'', On ''onClick'' EClose]
                          [Elem ''aside'' [cls ''rr-drawer'', Stop ''onClick''] inner])))
      | _ \<Rightarrow> None)"

text \<open>
  \<open>setRescheduleOpen(true)\<close> mounts the dialog; closing it drops its state. \<open>EClose\<close> and
  \<open>EOpenFull\<close> are the parent's. \<open>ECopyTimeout\<close> is the timer that resets the copied mark.
\<close>

fun exec_act :: "host \<Rightarrow> exec_action \<Rightarrow> exec_state \<Rightarrow> exec_state" where
  "exec_act h (EDone i) st = setDone i st"
| "exec_act h (EFailed i) st = setFailed i st"
| "exec_act h (EEdit i r) st = st\<lparr>ep_failing := Some i, ep_reason := r\<rparr>"
| "exec_act h (EReason v) st = st\<lparr>ep_reason := v\<rparr>"
| "exec_act h ECancelReason st = st\<lparr>ep_failing := None, ep_reason := []\<rparr>"
| "exec_act h (ESaveReason i) st = saveReason i st"
| "exec_act h EReschedule st = (case ep_resched st of None \<Rightarrow> st\<lparr>ep_resched := Some (resched_init h)\<rparr> | Some _ \<Rightarrow> st)"
| "exec_act h (EResched RCancel) st = st\<lparr>ep_resched := None\<rparr>"
| "exec_act h (EResched RConfirm) st = st\<lparr>ep_resched := None\<rparr>"
| "exec_act h (EResched a) st = st\<lparr>ep_resched := map_option (resched_act a) (ep_resched st)\<rparr>"
| "exec_act h (EDescExt v) st = st\<lparr>ep_descExt := v\<rparr>"
| "exec_act h (EDescInt v) st = st\<lparr>ep_descInt := v\<rparr>"
| "exec_act h (EAnnounce v) st = st\<lparr>ep_announce := v\<rparr>"
| "exec_act h (ERisks v) st = st\<lparr>ep_risks := v\<rparr>"
| "exec_act h ECopy st = st\<lparr>ep_copied := True\<rparr>"
| "exec_act h ECopyTimeout st = st\<lparr>ep_copied := False\<rparr>"
| "exec_act h EClose st = st"
| "exec_act h EOpenFull st = st"

section \<open>Creating a rollout\<close>

record create_state =
  cr_productId :: string
  cr_typeId :: string
  cr_start :: string
  cr_time :: string
  cr_pair :: "string list"
  cr_descExt :: string
  cr_descInt :: string
  cr_announcementText :: string
  cr_risks :: string

definition create_init :: create_state where
  "create_init = \<lparr>cr_productId = ''operator'', cr_typeId = ''operator-feature'', cr_start = ''2026-06-03'',
     cr_time = ''10:00'', cr_pair = [''luc'', ''hen''], cr_descExt = [], cr_descInt = [],
     cr_announcementText = [], cr_risks = []\<rparr>"

datatype create_action =
    CRProduct string | CRType string | CRStart string | CRTime string | CRPair string | CRDescExt string
  | CRDescInt string | CRAnnounce string | CRRisks string | CRClose

definition pick_pair :: "string \<Rightarrow> string list \<Rightarrow> string list" where
  "pick_pair a p = (if a \<in> set p then filter (\<lambda>x. x \<noteq> a) p else if length p < 2 then p @ [a] else [p ! 1, a])"

fun create_act :: "create_action \<Rightarrow> create_state \<Rightarrow> create_state" where
  "create_act (CRProduct v) st = st\<lparr>cr_productId := v\<rparr>"
| "create_act (CRType v) st = st\<lparr>cr_typeId := v\<rparr>"
| "create_act (CRStart v) st = st\<lparr>cr_start := v\<rparr>"
| "create_act (CRTime v) st = st\<lparr>cr_time := v\<rparr>"
| "create_act (CRPair a) st = st\<lparr>cr_pair := pick_pair a (cr_pair st)\<rparr>"
| "create_act (CRDescExt v) st = st\<lparr>cr_descExt := v\<rparr>"
| "create_act (CRDescInt v) st = st\<lparr>cr_descInt := v\<rparr>"
| "create_act (CRAnnounce v) st = st\<lparr>cr_announcementText := v\<rparr>"
| "create_act (CRRisks v) st = st\<lparr>cr_risks := v\<rparr>"
| "create_act CRClose st = st"

text \<open>
  \<open>new Date(start + "T" + time)\<close> for the texts date and time fields produce (\<open>YYYY-MM-DD\<close> and
  \<open>HH:MM\<close>, local time); anything else, an empty field for instance, is an invalid date.
\<close>

definition parse_local :: "host \<Rightarrow> string \<Rightarrow> int option" where
  "parse_local h s =
     (let digits = (\<lambda>i n. take n (drop i s)); num = (\<lambda>i n. int (read_digits (digits i n))) in
      if length s = 16 \<and> list_all is_digit (digits 0 4 @ digits 5 2 @ digits 8 2 @ digits 11 2 @ digits 14 2) \<and>
         s ! 4 = CHR ''-'' \<and> s ! 7 = CHR ''-'' \<and> s ! 10 = CHR ''T'' \<and> s ! 13 = CHR '':'' \<and>
         1 \<le> num 5 2 \<and> num 5 2 \<le> 12 \<and> 1 \<le> num 8 2 \<and> num 8 2 \<le> 31 \<and> num 11 2 \<le> 23 \<and> num 14 2 \<le> 59
      then Some (utc_of_local h (make_day (num 0 4) (num 5 2 - 1) (num 8 2) * ms_per_day + num 11 2 * 3600000 + num 14 2 * 60000))
      else None)"

text \<open>\<open>d.toTimeString().slice(0, 5)\<close>\<close>

definition time_text :: "host \<Rightarrow> int \<Rightarrow> string" where
  "time_text h t = (let m = local_time h t mod ms_per_day div 60000 in two_digits (m div 60) @ '':'' @ two_digits (m mod 60))"

definition CascadePreview :: "host \<Rightarrow> string \<Rightarrow> string \<Rightarrow> rollout_type \<Rightarrow> 'a node" where
  "CascadePreview h start tim ty =
     (let plan = rt_cascadePlan ty; startD = parse_local h (start @ ''T'' @ tim) in
      Elem ''div'' [cls ''rr-cp'']
       (concat (map (\<lambda>(i, p).
          let st = getStage (ps_stage p);
              dt = (case startD of Some d \<Rightarrow> locale_date h [(''weekday'', ''short''), (''day'', ''2-digit''), (''month'', ''short'')] (d + ps_delayHours p * 3600000)
                    | None \<Rightarrow> ''Invalid Date'');
              tm = (case startD of Some d \<Rightarrow> time_text h (d + ps_delayHours p * 3600000) | None \<Rightarrow> ''Inval'')
          in [Elem ''div'' [cls ''rr-cp-card'', Sty ''borderColor'' (st_border st), Sty ''background'' (st_soft st)]
          [Elem ''span'' [cls ''rr-cp-tag'', Sty ''background'' (st_color st), Sty ''color'' ''#0a0a0c'']
            [Text (st_short st)],
           Elem ''div'' []
            [Elem ''div'' [cls ''rr-cp-env'', Sty ''color'' (st_color st)]
              [Text (st_label st)],
             Elem ''div'' [cls ''rr-cp-date'']
              [Text dt,
               Elem ''span'' []
                [Text ('' '' @ u_middot @ '' ''),
                 Text tm]]]]] @
             guarded (i + 1 < length plan)
              [Elem ''div'' [cls ''rr-cp-arrow'']
          [Elem ''span'' []
            [Text ''+'',
             Text (formatDelay (ps_delayHours (plan ! (i + 1)) - ps_delayHours (plan ! i)))],
           Icon (Some ''M5 12h14m0 0l-4-4m4 4l-4 4'') 14]]) (enumerate 0 plan))))"

definition CreateRolloutModal :: "host \<Rightarrow> bool \<Rightarrow> create_state \<Rightarrow> create_action node list option" where
  "CreateRolloutModal h isOpen st =
     (if \<not> isOpen then Some []
      else case getType (cr_typeId st) of
        None \<Rightarrow> None
      | Some ty \<Rightarrow> Some
      [Elem ''div'' [cls ''rr-modal-scrim'', On ''onClick'' CRClose]
        [Elem ''div'' [cls ''rr-modal'', Stop ''onClick'']
          [Elem ''header'' [cls ''rr-modal-head'']
            [Elem ''div'' []
              [Elem ''h2'' []
                [Text ''Create rollout''],
               Elem ''p'' [cls ''rr-modal-sub'']
                [Text ''Inherits TODOs, announcement rules, and cascade delays from the chosen RolloutType.'']],
             Elem ''button'' [cls ''rr-icon-btn'', On ''onClick'' CRClose]
              [Icon (ICONS ''x'') 14]],
           Elem ''div'' [cls ''rr-modal-body'']
            [Elem ''div'' [cls ''rr-form-grid'']
              [Elem ''label'' [cls ''rr-field'']
                [Elem ''span'' []
                  [Text ''Product''],
                 Elem ''select'' [Attr ''value'' (cr_productId st), OnVal ''onChange'' (\<lambda>v. (CRProduct v))]
                  (map (\<lambda>p.
                      Elem ''option'' [Attr ''value'' (prod_id p)]
                        [Text (prod_name p)])
                    PRODUCTS)],
               Elem ''label'' [cls ''rr-field'']
                [Elem ''span'' []
                  [Text ''Rollout type''],
                 Elem ''select'' [Attr ''value'' (cr_typeId st), OnVal ''onChange'' (\<lambda>v. (CRType v))]
                  (map (\<lambda>t.
                      Elem ''option'' [Attr ''value'' (rt_id t)]
                        [Text (rt_name t)])
                    ROLLOUT_TYPES)],
               Elem ''label'' [cls ''rr-field'']
                [Elem ''span'' []
                  [Text ''Start (non-prod)''],
                 Elem ''input'' [Attr ''type'' ''date'', Attr ''value'' (cr_start st), OnVal ''onChange'' (\<lambda>v. (CRStart v))] []],
               Elem ''label'' [cls ''rr-field'']
                [Elem ''span'' []
                  [Text ''Time''],
                 Elem ''input'' [Attr ''type'' ''time'', Attr ''value'' (cr_time st), OnVal ''onChange'' (\<lambda>v. (CRTime v))] []]],
             Elem ''div'' [cls ''rr-hint'']
              [Elem ''div'' [cls ''rr-hint-icon'']
                [Icon (ICONS ''bolt'') 14],
               Elem ''div'' [cls ''rr-hint-body'']
                ([Elem ''div'' [cls ''rr-hint-title'']
                  [Text (rt_name ty)],
                 Elem ''div'' [cls ''rr-hint-sub'']
                  [Text (rt_announce ty)]] @
                 guarded (length (rt_cascadePlan ty) > 1)
                  [Elem ''div'' [cls ''rr-cascade-preview'']
                    [CascadePreview h (cr_start st) (cr_time st) ty]] @
                 [Elem ''ul'' [cls ''rr-hint-rules'']
                  (map (\<lambda>(i, r).
                      Elem ''li'' []
                        [Icon (ICONS ''check'') 11,
                         Text '' '',
                         Text r])
                    (enumerate 0 (rt_rules ty)))])],
             Elem ''div'' [cls ''rr-block-head'']
              [Elem ''h3'' []
                [Text ''Inherited tasks '',
                 Elem ''span'' [cls ''rr-muted'']
                  [Text ''('',
                   Text (show_nat (length (rt_tasks ty))),
                   Text '')'']]],
             Elem ''ul'' [cls ''rr-tasks-preview'']
              (map (\<lambda>(i, tk).
                  Elem ''li'' []
                    [Elem ''span'' [cls ''rr-mono rr-muted'']
                      [Text (padStart0 2 (show_nat (i + 1)))],
                     Text '' '',
                     Text tk])
                (enumerate 0 (rt_tasks ty))),
             Elem ''div'' [cls ''rr-form-grid'']
              [Elem ''label'' [cls ''rr-field rr-field-wide'']
                [Elem ''span'' []
                  [Text ''External description''],
                 Elem ''textarea'' [AttrN ''rows'' 2, Attr ''placeholder'' (''Customer-visible summary'' @ u_ellipsis), Attr ''value'' (cr_descExt st), OnVal ''onChange'' (\<lambda>v. (CRDescExt v))] []],
               Elem ''label'' [cls ''rr-field rr-field-wide'']
                [Elem ''span'' []
                  [Text ''Internal description''],
                 Elem ''textarea'' [AttrN ''rows'' 2, Attr ''placeholder'' (''Internal context, runbook links, migration notes'' @ u_ellipsis), Attr ''value'' (cr_descInt st), OnVal ''onChange'' (\<lambda>v. (CRDescInt v))] []],
               Elem ''label'' [cls ''rr-field rr-field-wide rr-field-announce'']
                [Elem ''span'' []
                  [Elem ''span'' [cls ''rr-field-label-row'']
                    [Text ''Description in the announcement'',
                     Elem ''span'' [cls ''rr-field-pill'']
                      [Icon (ICONS ''bolt'') 10,
                       Text '' sent to '',
                       Elem ''code'' []
                        [Text ''TMS_PROD'']]],
                   Elem ''em'' []
                    [Text ''shown to customers in the channel announcement. Defaults to the external description if left empty.'']],
                 Elem ''textarea'' [AttrN ''rows'' 3, Attr ''placeholder'' ''If empty, the external description is used. Edit here to override the announcement text without affecting the rollout description.'', Attr ''value'' (cr_announcementText st), OnVal ''onChange'' (\<lambda>v. (CRAnnounce v))] [],
                 Elem ''div'' [cls ''rr-field-helpers'']
                  [Elem ''button'' [Attr ''type'' ''button'', cls ''rr-link'', On ''onClick'' (CRAnnounce (cr_descExt st))]
                    [Icon (ICONS ''copy'') 11,
                     Text '' Copy from external description''],
                   Elem ''span'' [cls ''rr-field-count rr-mono'']
                    [Text (show_nat (utf16_length (cr_announcementText st))),
                     Text '' chars'']]],
               Elem ''label'' [cls ''rr-field rr-field-wide'']
                [Elem ''span'' []
                  [Text ''Risks''],
                 Elem ''textarea'' [AttrN ''rows'' 2, Attr ''placeholder'' (if (length (rt_cascadePlan ty) > 1) then ''What can go wrong during cascade?'' else (''Known risks'' @ u_ellipsis)), Attr ''value'' (cr_risks st), OnVal ''onChange'' (\<lambda>v. (CRRisks v))] []]],
             Elem ''div'' [cls ''rr-form-grid'']
              [Elem ''div'' [cls ''rr-field rr-field-wide'']
                [Elem ''span'' []
                  [Text ''Executed by (pair)''],
                 Elem ''div'' [cls ''rr-pair-pickers'']
                  (concat (map (\<lambda>a.
                      (let on = ((ac_id a) \<in> set (cr_pair st)) in
                      [Elem ''button'' [cls (''rr-pair-pick '' @ (if on then ''is-on'' else [])), On ''onClick'' (CRPair (ac_id a))]
                        (Avatar (ac_id a) 20 False @
                         [Text (ac_name a)])]))
                    (filter (\<lambda>a. ((ac_role a) = ''admin'')) ACTORS)))]]],
           Elem ''footer'' [cls ''rr-modal-foot'']
            [Elem ''span'' [cls ''rr-muted'']
              [Text ''An '',
               Elem ''code'' []
                [Text ''.ics''],
               Text ('' entry will be added to the team'' @ [CHR 0x27] @ ''s Cal-DAV feed.'')],
             Elem ''div'' [cls ''rr-modal-foot-actions'']
              [Elem ''button'' [cls ''rr-btn rr-btn-ghost'', On ''onClick'' CRClose]
                [Text ''Cancel''],
               Elem ''button'' [cls ''rr-btn rr-btn-primary'', On ''onClick'' CRClose]
                [Text ''Create rollout'']]]]]])"

section \<open>Creating a lock\<close>

record lockmodal_state =
  cl_kind :: string
  cl_products :: "string list"

definition lockmodal_init :: lockmodal_state where
  "lockmodal_init = \<lparr>cl_kind = ''manual'', cl_products = [''all'']\<rparr>"

datatype lockmodal_action = CLKind string | CLAll | CLProduct string | CLClose

fun lockmodal_act :: "lockmodal_action \<Rightarrow> lockmodal_state \<Rightarrow> lockmodal_state" where
  "lockmodal_act (CLKind v) st = st\<lparr>cl_kind := v\<rparr>"
| "lockmodal_act CLAll st = st\<lparr>cl_products := [''all'']\<rparr>"
| "lockmodal_act (CLProduct p) st = st\<lparr>cl_products :=
     (if ''all'' \<in> set (cl_products st) then [p] else toggle p (cl_products st))\<rparr>"
| "lockmodal_act CLClose st = st"

definition CreateLockModal :: "bool \<Rightarrow> lockmodal_state \<Rightarrow> lockmodal_action node list" where
  "CreateLockModal isOpen st = guarded isOpen
    [Elem ''div'' [cls ''rr-modal-scrim'', On ''onClick'' CLClose]
      [Elem ''div'' [cls ''rr-modal rr-modal-sm'', Stop ''onClick'']
        [Elem ''header'' [cls ''rr-modal-head'']
          [Elem ''div'' []
            [Elem ''h2'' []
              [Text ''Create rollout lock (Sperre)''],
             Elem ''p'' [cls ''rr-modal-sub'']
              [Text (''Blocked time range '' @ u_mdash @ '' no rollouts can be scheduled or executed.'')]],
           Elem ''button'' [cls ''rr-icon-btn'', On ''onClick'' CLClose]
            [Icon (ICONS ''x'') 14]],
         Elem ''div'' [cls ''rr-modal-body'']
          [Elem ''div'' [cls ''rr-seg rr-seg-lg'']
            (map (\<lambda>k.
                Elem ''button'' [cls (''rr-seg-item '' @ (if ((cl_kind st) = (fst k)) then ''is-active'' else [])), On ''onClick'' (CLKind (fst k))]
                  [Text (snd k)])
              [(''manual'', ''Manual (master bug)''), (''holiday'', ''Holiday''), (''window'', ''Custom window'')]),
           Elem ''div'' [cls ''rr-form-grid'']
            [Elem ''label'' [cls ''rr-field'']
              [Elem ''span'' []
                [Text ''Start''],
               Elem ''input'' [Attr ''type'' ''datetime-local'', Attr ''defaultValue'' ''2026-05-27T17:00''] []],
             Elem ''label'' [cls ''rr-field'']
              [Elem ''span'' []
                [Text ''End''],
               Elem ''input'' [Attr ''type'' ''datetime-local'', Attr ''defaultValue'' ''2026-05-29T09:00''] []],
             Elem ''label'' [cls ''rr-field rr-field-wide'']
              [Elem ''span'' []
                [Text ''Title''],
               Elem ''input'' [Attr ''placeholder'' ''e.g. Master Branch Bug #4029''] []],
             Elem ''label'' [cls ''rr-field rr-field-wide'']
              [Elem ''span'' []
                [Text ''Description''],
               Elem ''textarea'' [AttrN ''rows'' 2, Attr ''placeholder'' (''Why is this a lock? What needs to clear before it'' @ [CHR 0x27] @ ''s lifted?'')] []],
             Elem ''label'' [cls ''rr-field'']
              [Elem ''span'' []
                [Text ''Customer / contact''],
               Elem ''input'' [Attr ''placeholder'' (''Luc B. '' @ u_mdash @ '' #tms-platform'')] []],
             Elem ''label'' [cls ''rr-field'']
              [Elem ''span'' []
                [Text ''Affected products''],
               Elem ''div'' [cls ''rr-prod-pickers'']
                ([Elem ''button'' [cls (''rr-prod-pick '' @ (if (''all'' \<in> set (cl_products st)) then ''is-on'' else [])), On ''onClick'' CLAll]
                  [Text ''all'']] @
                 concat (map (\<lambda>p.
                    (let on = ((prod_id p) \<in> set (cl_products st)) in
                    [Elem ''button'' [cls (''rr-prod-pick '' @ (if on then ''is-on'' else [])), On ''onClick'' (CLProduct (prod_id p))]
                      [Elem ''span'' [cls ''rr-prod-dot'', Sty ''background'' (productColor (prod_id p))] [],
                       Text (prod_name p)]]))
                  PRODUCTS))]]],
         Elem ''footer'' [cls ''rr-modal-foot'']
          [Elem ''span'' [cls ''rr-muted'']
            [Text ''Locks are visible in the timeline as red striped columns.''],
           Elem ''div'' [cls ''rr-modal-foot-actions'']
            [Elem ''button'' [cls ''rr-btn rr-btn-ghost'', On ''onClick'' CLClose]
              [Text ''Cancel''],
             Elem ''button'' [cls ''rr-btn rr-btn-danger'', On ''onClick'' CLClose]
              [Text ''Create lock'']]]]]]"

section \<open>Task states\<close>

lemma set_task_put: "set (map fst (task_put i v m)) = insert i (set (map fst m))"
  by (induction i v m rule: task_put.induct) auto

lemma in_task_put: "p \<in> set (task_put i v m) \<Longrightarrow> p = (i, v) \<or> p \<in> set m"
  by (induction i v m rule: task_put.induct) (auto split: if_splits)

lemma sorted_task_put: "sorted_wrt (<) (map fst m) \<Longrightarrow> sorted_wrt (<) (map fst (task_put i v m))"
proof (induction i v m rule: task_put.induct)
  case (2 i v j w m)
  have "j < fst p" if "p \<in> set (task_put i v m)" "\<not> i < j" "i \<noteq> j" for p
    using in_task_put [OF that(1)] that(2,3) "2.prems" by auto
  with 2 show ?case by (auto dest: order.strict_trans)
qed simp

lemma map_of_task_put: "sorted_wrt (<) (map fst m) \<Longrightarrow> map_of (task_put i v m) = (map_of m)(i \<mapsto> v)"
  by (induction i v m rule: task_put.induct) (auto simp: fun_eq_iff)

lemma map_of_task_delete: "map_of (task_delete i m) = (map_of m)(i := None)"
  unfolding task_delete_def by (induction m) (auto simp: fun_eq_iff)

lemma sorted_task_delete: "sorted_wrt (<) (map fst m) \<Longrightarrow> sorted_wrt (<) (map fst (task_delete i m))"
  unfolding task_delete_def by (induction m) auto

definition good_state :: "task_state \<Rightarrow> bool" where
  "good_state v = (case v of TaskFailed r \<Rightarrow> r \<noteq> [] \<and> trim r = r | TaskDone \<Rightarrow> True)"

definition tasks_ok :: "nat \<Rightarrow> (nat \<times> task_state) list \<Rightarrow> bool" where
  "tasks_ok n m \<longleftrightarrow> sorted_wrt (<) (map fst m) \<and> list_all (\<lambda>p. fst p < n \<and> good_state (snd p)) m"

lemma tasks_ok_put: "tasks_ok n m \<Longrightarrow> i < n \<Longrightarrow> good_state v \<Longrightarrow> tasks_ok n (task_put i v m)"
  by (auto simp: tasks_ok_def list_all_iff sorted_task_put dest!: in_task_put)

lemma tasks_ok_delete: "tasks_ok n m \<Longrightarrow> tasks_ok n (task_delete i m)"
  by (auto simp: tasks_ok_def sorted_task_delete) (auto simp: task_delete_def list_all_iff)

lemma tasks_ok_init: "list_all (\<lambda>i. i < n) is \<Longrightarrow> tasks_ok n m \<Longrightarrow> tasks_ok n (foldl (\<lambda>m i. task_put i TaskDone m) m is)"
  by (induction "is" arbitrary: m) (simp_all add: tasks_ok_put good_state_def)

definition exec_inv :: "nat \<Rightarrow> exec_state \<Rightarrow> bool" where
  "exec_inv n st \<longleftrightarrow> tasks_ok n (ep_tasks st) \<and> (\<forall>i. ep_failing st = Some i \<longrightarrow> i < n)"

lemma exec_inv_setDone: "exec_inv n st \<Longrightarrow> i < n \<Longrightarrow> exec_inv n (setDone i st)"
  by (auto simp: exec_inv_def setDone_def Let_def tasks_ok_put tasks_ok_delete good_state_def)

lemma exec_inv_setFailed: "exec_inv n st \<Longrightarrow> i < n \<Longrightarrow> exec_inv n (setFailed i st)"
  by (auto simp: exec_inv_def setFailed_def Let_def tasks_ok_delete split: option.splits task_state.splits)

lemma exec_inv_saveReason: "exec_inv n st \<Longrightarrow> i < n \<Longrightarrow> exec_inv n (saveReason i st)"
  by (auto simp: exec_inv_def saveReason_def Let_def good_state_def intro!: tasks_ok_put)

definition task_index :: "exec_action \<Rightarrow> nat option" where
  "task_index a = (case a of EDone i \<Rightarrow> Some i | EFailed i \<Rightarrow> Some i | EEdit i _ \<Rightarrow> Some i | ESaveReason i \<Rightarrow> Some i | _ \<Rightarrow> None)"

lemma exec_inv_act:
  assumes "exec_inv n st" "\<forall>i. task_index a = Some i \<longrightarrow> i < n"
  shows "exec_inv n (exec_act h a st)"
proof (cases a)
  case (EResched r)
  with assms(1) show ?thesis by (cases r) (simp_all add: exec_inv_def)
next
  case EReschedule
  with assms(1) show ?thesis by (cases "ep_resched st") (simp_all add: exec_inv_def)
qed (use assms in \<open>auto simp: task_index_def exec_inv_setDone exec_inv_setFailed exec_inv_saveReason\<close>,
     simp_all add: exec_inv_def)

lemma tasks_setDone: "ep_tasks (setDone i st) =
    (if map_of (ep_tasks st) i = Some TaskDone then task_delete i (ep_tasks st) else task_put i TaskDone (ep_tasks st))"
  by (simp add: setDone_def Let_def)

lemma map_of_sorted_eq:
  assumes "sorted_wrt (<) (map fst (m :: (nat \<times> task_state) list))" "sorted_wrt (<) (map fst m')" "map_of m = map_of m'"
  shows "m = m'"
proof -
  have d: "distinct (map fst m)" "distinct (map fst m')" using assms(1,2) by (simp_all add: strict_sorted_iff)
  then have "set m = set m'" using map_of_inject_set [OF d] assms(3) by simp
  then have "inj_on fst (set m \<union> set m')" using d by (simp add: distinct_map)
  then show ?thesis using \<open>set m = set m'\<close> d assms(1,2)
    by (intro map_sorted_distinct_set_unique [where f = fst]) (simp_all add: distinct_map strict_sorted_iff)
qed

lemma doneCount_card:
  assumes "distinct (map fst (ep_tasks st))"
  shows "doneCount st = card {i. map_of (ep_tasks st) i = Some TaskDone}"
proof -
  let ?f = "filter (\<lambda>p. \<not> is_failed (snd p)) (ep_tasks st)"
  have "distinct (map fst ?f)" using assms by (simp add: distinct_map_filter)
  then have "doneCount st = card (set (map fst ?f))" unfolding doneCount_def by (metis distinct_card length_map)
  also have "set (map fst ?f) = {i. map_of (ep_tasks st) i = Some TaskDone}"
  proof (intro set_eqI iffI)
    fix i assume "i \<in> set (map fst ?f)"
    then obtain v where v: "(i, v) \<in> set (ep_tasks st)" "\<not> is_failed v" by auto
    then have "v = TaskDone" by (cases v) (simp_all add: is_failed_def)
    with v assms show "i \<in> {i. map_of (ep_tasks st) i = Some TaskDone}" by simp
  next
    fix i assume "i \<in> {i. map_of (ep_tasks st) i = Some TaskDone}"
    then have "(i, TaskDone) \<in> set ?f" by (simp add: map_of_SomeD is_failed_def)
    then show "i \<in> set (map fst ?f)" by (force simp del: set_filter)
  qed
  finally show ?thesis .
qed

lemma doneCount_setDone:
  assumes so: "sorted_wrt (<) (map fst (ep_tasks st))"
  shows "int (doneCount (setDone i st)) = int (doneCount st) + (if map_of (ep_tasks st) i = Some TaskDone then - 1 else 1)"
proof -
  let ?D = "{j. map_of (ep_tasks st) j = Some TaskDone}" and ?D' = "{j. map_of (ep_tasks (setDone i st)) j = Some TaskDone}"
  have fin: "finite ?D" by (rule finite_subset [OF _ finite_dom_map_of [of "ep_tasks st"]]) auto
  have so': "sorted_wrt (<) (map fst (ep_tasks (setDone i st)))"
    using so by (simp add: tasks_setDone sorted_task_put sorted_task_delete)
  have c: "doneCount st = card ?D" "doneCount (setDone i st) = card ?D'"
    using so so' by (simp_all add: doneCount_card strict_sorted_iff)
  show ?thesis
  proof (cases "i \<in> ?D")
    case True
    then have "?D' = ?D - {i}" by (auto simp: tasks_setDone map_of_task_delete)
    moreover have "0 < card ?D" using fin True card_gt_0_iff by blast
    ultimately show ?thesis using True fin by (simp add: c card_Diff_singleton)
  next
    case False
    then have "?D' = insert i ?D" using map_of_task_put [OF so, of i TaskDone] by (auto simp: tasks_setDone)
    then show ?thesis using False fin by (simp add: c)
  qed
qed

lemma count_split: "doneCount st + failedCount st = length (ep_tasks st)"
  unfolding doneCount_def failedCount_def using sum_length_filter_compl [of "\<lambda>p. is_failed (snd p)" "ep_tasks st"]
  by simp

lemma tasks_ok_length: "tasks_ok n m \<Longrightarrow> length m \<le> n"
proof -
  assume ok: "tasks_ok n m"
  then have "distinct (map fst m)" by (simp add: tasks_ok_def strict_sorted_iff)
  then have "card (set (map fst m)) = length m" by (metis distinct_card length_map)
  moreover have "set (map fst m) \<subseteq> {..<n}" using ok by (auto simp: tasks_ok_def list_all_iff)
  ultimately show ?thesis using card_mono [of "{..<n}" "set (map fst m)"] by simp
qed

lemma completion_bounds:
  assumes "exec_inv (length (rt_tasks ty)) st" "completion st ty = Some c"
  shows "0 \<le> c" "c \<le> 100"
proof -
  let ?n = "length (rt_tasks ty)"
  have "doneCount st \<le> ?n" using count_split [of st] tasks_ok_length [of ?n "ep_tasks st"] assms(1) by (simp add: exec_inv_def)
  moreover have "0 < ?n" using assms(2) by (auto simp: completion_def split: if_splits)
  ultimately have q: "0 \<le> (of_nat (doneCount st) / of_nat ?n * 100 :: rat)" "(of_nat (doneCount st) / of_nat ?n * 100 :: rat) \<le> 100"
    by (simp_all add: field_simps)
  have c: "c = js_round (of_nat (doneCount st) / of_nat ?n * 100)" using assms(2) by (auto simp: completion_def split: if_splits)
  show "0 \<le> c" unfolding c using js_round_mono [OF q(1)] js_round_of_int [of 0] by simp
  show "c \<le> 100" unfolding c using js_round_mono [OF q(2)] js_round_of_int [of 100] by simp
qed

section \<open>What the panel offers\<close>

lemma offered_exec_task_view:
  "offered (exec_task_view st i label isDone isFailed isFailing reason lg faillog) =
     {EDone i, EFailed i} \<union> (if isFailed \<and> \<not> isFailing then {EEdit i reason} else {}) \<union>
     (if isFailing then range EReason \<union> {ECancelReason} \<union> (if trim (ep_reason st) = [] then {} else {ESaveReason i}) else {})"
  by (simp add: exec_task_view_def split: option.splits) blast

lemma offered_exec_task_row: "exec_task_row r st i label = Some n \<Longrightarrow>
    offered n = {EDone i, EFailed i} \<union>
      (case map_of (ep_tasks st) i of Some (TaskFailed x) \<Rightarrow> if ep_failing st = Some i then {} else {EEdit i x} | _ \<Rightarrow> {}) \<union>
      (if ep_failing st = Some i then range EReason \<union> {ECancelReason} \<union> (if trim (ep_reason st) = [] then {} else {ESaveReason i}) else {})"
  by (auto simp: exec_task_row_def Let_def offered_exec_task_view is_failed_def split: if_splits option.splits task_state.splits)

lemma offered_exec_head_actions: "offered (exec_head_actions isPage st) \<subseteq> {EOpenFull, ECopy, EClose}"
  by (auto simp: exec_head_actions_def split: if_splits)

lemma offered_exec_head: "offered (exec_head org path isPage r ty p st) \<subseteq> {EOpenFull, ECopy, EClose}"
  using offered_exec_head_actions [of isPage st] by (simp add: exec_head_def)

lemma offered_exec_lock_banner [simp]: "offered_list (exec_lock_banner ls) = {}"
  by (simp add: exec_lock_banner_def)

lemma offered_exec_stage_card: "exec_stage_card h r i s = Some ns \<Longrightarrow> offered_list ns = {}"
proof -
  assume a: "exec_stage_card h r i s = Some ns"
  then obtain m where "map_of STAGE (sr_env s) = Some m" by (auto simp: exec_stage_card_def split: option.splits)
  with a show ?thesis by (simp add: exec_stage_card_def Let_def) (clarify, simp)
qed

lemma offered_exec_tasks: "offered (exec_tasks ty st rows) = (if failedCount st > 0 then {EReschedule} else {}) \<union> offered_list rows"
  by (simp add: exec_tasks_def)

lemma offered_exec_descriptions: "offered (exec_descriptions st) = range EDescExt \<union> range EDescInt \<union> range EAnnounce \<union> range ERisks"
  by (simp add: exec_descriptions_def) blast

lemma offered_exec_static [simp]:
  "offered (exec_pair_card a) = {}" "offered (exec_rules ty) = {}" "offered exec_announcements = {}"
  "offered (exec_pair r cards) = offered_list cards"
  by (simp_all add: exec_pair_card_def exec_rules_def exec_announcements_def exec_pair_def split: prod.splits)

lemma exec_task_row_index:
  assumes "exec_task_row r st j t = Some n" "a \<in> offered n" "task_index a = Some i"
  shows "i = j"
proof -
  have "a \<in> {EDone j, EFailed j} \<union> {EEdit j x | x. True} \<union> range EReason \<union> {ECancelReason, ESaveReason j}"
    using assms(2) unfolding offered_exec_task_row [OF assms(1)]
    by (cases "map_of (ep_tasks st) j"; cases "the (map_of (ep_tasks st) j)") (auto split: if_splits)
  with assms(3) show ?thesis by (auto simp: task_index_def)
qed

lemma ExecutePanel_task_index:
  assumes "ExecutePanel h org path isPage ls r st = Some n" "a \<in> offered n" "task_index a = Some i"
  shows "\<exists>ty t row. getType (ro_typeId r) = Some ty \<and> i < length (rt_tasks ty) \<and> exec_task_row r st i t = Some row \<and> a \<in> offered row"
proof -
  obtain ty p cards actors rows where e: "getType (ro_typeId r) = Some ty" "getProduct (ro_product r) = Some p"
    "those (map (\<lambda>(i, s). exec_stage_card h r i s) (enumerate 0 (ro_stages r))) = Some cards"
    "those (map getActor (ro_pair r)) = Some actors"
    "those (map (\<lambda>(i, t). exec_task_row r st i t) (enumerate 0 (rt_tasks ty))) = Some rows"
    using assms(1) unfolding ExecutePanel_def by (auto split: option.splits)
  let ?rs = "case ep_resched st of None \<Rightarrow> [] | Some rs \<Rightarrow> [lift_node EResched (RescheduleConfirm r (failedTasks st) (rt_tasks ty) rs)]"
  have cards: "offered_list (concat cards) = {}"
  proof -
    have "offered_list ns = {}" if "ns \<in> set cards" for ns
      using those_in [OF e(3) that] offered_exec_stage_card by auto
    then show ?thesis by (auto simp: offered_list_def)
  qed
  have "offered n \<subseteq> {EOpenFull, ECopy, EClose, EReschedule} \<union> offered_list rows \<union>
      (range EDescExt \<union> range EDescInt \<union> range EAnnounce \<union> range ERisks) \<union> range EResched"
    using assms(1) offered_exec_head [of org path isPage r ty p st] cards
    unfolding ExecutePanel_def e prod.case option.case Let_def
    by (cases isPage; cases "ep_resched st") (auto simp: offered_exec_tasks offered_exec_descriptions split: if_splits)
  with assms(2,3) have "a \<in> offered_list rows" by (auto simp: task_index_def)
  then obtain j t where j: "(j, t) \<in> set (enumerate 0 (rt_tasks ty))" "a \<in> offered_opt (exec_task_row r st j t)"
    unfolding offered_list_those [OF e(5)] by auto
  then obtain row where row: "exec_task_row r st j t = Some row" "a \<in> offered row"
    by (cases "exec_task_row r st j t") auto
  then have "i = j" using assms(3) by (rule exec_task_row_index)
  moreover have "j < length (rt_tasks ty)" using j(1) by (simp add: in_set_enumerate_eq)
  ultimately show ?thesis using e(1) row by blast
qed

lemma ExecutePanel_save_guard:
  assumes "ESaveReason i \<in> offered_opt (ExecutePanel h org path isPage ls r st)"
  shows "ep_failing st = Some i \<and> trim (ep_reason st) \<noteq> []"
proof -
  obtain n where n: "ExecutePanel h org path isPage ls r st = Some n" "ESaveReason i \<in> offered n"
    using assms by (cases "ExecutePanel h org path isPage ls r st") auto
  obtain t row where row: "exec_task_row r st i t = Some row" "ESaveReason i \<in> offered row"
    using ExecutePanel_task_index [OF n, of i] by (auto simp: task_index_def)
  show ?thesis using row(2) unfolding offered_exec_task_row [OF row(1)]
    by (cases "map_of (ep_tasks st) i"; cases "the (map_of (ep_tasks st) i)") (auto split: if_splits)
qed

section \<open>Reachable states of the panel\<close>

text \<open>A rollout the panel is opened on: its references resolve, it has a pair, its checked tasks exist.\<close>

definition exec_ready :: "rollout \<Rightarrow> rollout_type \<Rightarrow> bool" where
  "exec_ready r ty \<longleftrightarrow> resolves r \<and> getType (ro_typeId r) = Some ty \<and> ro_pair r \<noteq> [] \<and>
     list_all (\<lambda>i. i < length (rt_tasks ty)) (ro_checked r)"

definition exec_good :: "rollout \<Rightarrow> exec_state \<Rightarrow> bool" where
  "exec_good r st \<longleftrightarrow> (\<forall>ty. exec_ready r ty \<longrightarrow> exec_inv (length (rt_tasks ty)) st)"

interpretation exec: ui_component "ExecutePanel h org path isPage ls r" "{ECopyTimeout}" "exec_act h" "exec_init r" "exec_good r"
  for h org path isPage ls r
proof
  show "exec_good r (exec_init r)"
    using tasks_ok_init [of _ "ro_checked r" "[]"]
    by (auto simp: exec_good_def exec_ready_def exec_inv_def exec_init_def) (simp add: tasks_ok_def)
next
  fix st a
  assume g: "exec_good r st" and a: "a \<in> offered_opt (ExecutePanel h org path isPage ls r st) \<union> {ECopyTimeout}"
  show "exec_good r (exec_act h a st)"
    unfolding exec_good_def
  proof (intro allI impI)
    fix ty assume ty: "exec_ready r ty"
    have "i < length (rt_tasks ty)" if i: "task_index a = Some i" for i
    proof -
      have "a \<noteq> ECopyTimeout" using i by (auto simp: task_index_def)
      with a obtain n where "ExecutePanel h org path isPage ls r st = Some n" "a \<in> offered n"
        by (cases "ExecutePanel h org path isPage ls r st") auto
      from ExecutePanel_task_index [OF this i] ty show ?thesis by (auto simp: exec_ready_def)
    qed
    then show "exec_inv (length (rt_tasks ty)) (exec_act h a st)"
      using g ty by (intro exec_inv_act) (auto simp: exec_good_def)
  qed
qed

lemma task_actor_ready: "exec_ready r ty \<Longrightarrow> task_actor r i \<noteq> None"
proof -
  assume r: "exec_ready r ty"
  then have "ro_pair r ! (i mod length (ro_pair r)) \<in> set (ro_pair r)" by (simp add: exec_ready_def)
  with r show ?thesis by (auto simp: task_actor_def exec_ready_def resolves_def Let_def)
qed

lemma exec_task_log_ready: "exec_ready r ty \<Longrightarrow> exec_task_log r i \<noteq> None"
proof -
  assume r: "exec_ready r ty"
  have "getActor ''luc'' \<noteq> None" "getActor ''hen'' \<noteq> None" by code_simp+
  then have "getActor who \<noteq> None" if "taskLog i = Some (who, tm)" for who tm
    using that by (auto simp: taskLog_def split: if_splits)
  then show ?thesis using task_actor_ready [OF r, of i]
    by (auto simp: exec_task_log_def split: option.splits)
qed

lemma exec_task_row_renders: "exec_ready r ty \<Longrightarrow> exec_task_row r st i t \<noteq> None"
  using task_actor_ready [of r ty i] exec_task_log_ready [of r ty i] by (auto simp: exec_task_row_def Let_def)

lemma ExecutePanel_renders: "exec_ready r ty \<Longrightarrow> ExecutePanel h org path isPage ls r st \<noteq> None"
proof -
  assume r: "exec_ready r ty"
  have "\<forall>x \<in> set (enumerate 0 (rt_tasks ty)). (case x of (i, t) \<Rightarrow> exec_task_row r st i t) \<noteq> None"
    using exec_task_row_renders [OF r] by (simp add: case_prod_beta)
  then obtain rows where rows: "those (map (\<lambda>(i, t). exec_task_row r st i t) (enumerate 0 (rt_tasks ty))) = Some rows"
    using those_render by blast
  have "exec_stage_card h r i s \<noteq> None" if "s \<in> set (ro_stages r)" for i s
    using r that by (auto simp: exec_stage_card_def exec_ready_def resolves_def Let_def)
  then have "\<forall>x \<in> set (enumerate 0 (ro_stages r)). (case x of (i, s) \<Rightarrow> exec_stage_card h r i s) \<noteq> None"
    by (auto simp: case_prod_beta in_set_enumerate_eq)
  then obtain cards where cards: "those (map (\<lambda>(i, s). exec_stage_card h r i s) (enumerate 0 (ro_stages r))) = Some cards"
    using those_render by blast
  obtain p where p: "getProduct (ro_product r) = Some p" using r by (auto simp: exec_ready_def resolves_def)
  obtain as where as: "those (map getActor (ro_pair r)) = Some as"
    using r those_render [of "ro_pair r" getActor] by (auto simp: exec_ready_def resolves_def)
  have ty: "getType (ro_typeId r) = Some ty" using r by (simp add: exec_ready_def)
  show ?thesis unfolding ExecutePanel_def cards p as ty by (simp add: rows Let_def)
qed

text \<open>What the rows of the tasks offer, the panel offers.\<close>

lemma ExecutePanel_row:
  assumes "exec_ready r ty" "i < length (rt_tasks ty)"
  shows "\<exists>n. exec_task_row r st i (rt_tasks ty ! i) = Some n \<and> offered n \<subseteq> offered_opt (ExecutePanel h org path isPage ls r st)"
proof -
  obtain n where n: "ExecutePanel h org path isPage ls r st = Some n" using ExecutePanel_renders [OF assms(1)] by blast
  have ty: "getType (ro_typeId r) = Some ty" using assms(1) by (simp add: exec_ready_def)
  obtain p cards actors rows where e: "getProduct (ro_product r) = Some p"
    "those (map (\<lambda>(i, s). exec_stage_card h r i s) (enumerate 0 (ro_stages r))) = Some cards"
    "those (map getActor (ro_pair r)) = Some actors"
    "those (map (\<lambda>(i, t). exec_task_row r st i t) (enumerate 0 (rt_tasks ty))) = Some rows"
    using n ty unfolding ExecutePanel_def by (auto split: option.splits)
  have sub: "offered_list rows \<subseteq> offered n"
    using n unfolding ExecutePanel_def ty e prod.case option.case Let_def
    by (cases isPage; cases "ep_resched st") (auto simp: offered_exec_tasks)
  have "(i, rt_tasks ty ! i) \<in> set (enumerate 0 (rt_tasks ty))" using assms(2) by (simp add: in_set_enumerate_eq)
  then have "offered_opt (exec_task_row r st i (rt_tasks ty ! i)) \<subseteq> offered_list rows"
    unfolding offered_list_those [OF e(4)] by auto
  moreover obtain m where "exec_task_row r st i (rt_tasks ty ! i) = Some m"
    using exec_task_row_renders [OF assms(1)] by blast
  ultimately show ?thesis using sub n by auto
qed

lemma ExecutePanel_offers_row:
  assumes "exec_ready r ty" "i < length (rt_tasks ty)"
  shows "{EDone i, EFailed i} \<union>
      (if ep_failing st = Some i then range EReason \<union> (if trim (ep_reason st) = [] then {} else {ESaveReason i}) else {})
    \<subseteq> offered_opt (ExecutePanel h org path isPage ls r st)"
proof -
  obtain n where n: "exec_task_row r st i (rt_tasks ty ! i) = Some n" "offered n \<subseteq> offered_opt (ExecutePanel h org path isPage ls r st)"
    using ExecutePanel_row [OF assms] by blast
  show ?thesis by (rule order_trans [OF _ n(2)]) (auto simp: offered_exec_task_row [OF n(1)])
qed

lemma ExecutePanel_offers_reschedule:
  assumes "exec_ready r ty" "0 < failedCount st"
  shows "EReschedule \<in> offered_opt (ExecutePanel h org path isPage ls r st)"
proof -
  obtain n where n: "ExecutePanel h org path isPage ls r st = Some n" using ExecutePanel_renders [OF assms(1)] by blast
  have ty: "getType (ro_typeId r) = Some ty" using assms(1) by (simp add: exec_ready_def)
  obtain p cards actors rows where e: "getProduct (ro_product r) = Some p"
    "those (map (\<lambda>(i, s). exec_stage_card h r i s) (enumerate 0 (ro_stages r))) = Some cards"
    "those (map getActor (ro_pair r)) = Some actors"
    "those (map (\<lambda>(i, t). exec_task_row r st i t) (enumerate 0 (rt_tasks ty))) = Some rows"
    using n ty unfolding ExecutePanel_def by (auto split: option.splits)
  show ?thesis using n assms(2) unfolding ExecutePanel_def ty e prod.case option.case Let_def
    by (cases isPage; cases "ep_resched st") (auto simp: offered_exec_tasks)
qed

lemma failedCount_pos: "map_of (ep_tasks st) i = Some (TaskFailed x) \<Longrightarrow> 0 < failedCount st"
proof -
  assume "map_of (ep_tasks st) i = Some (TaskFailed x)"
  then have "(i, TaskFailed x) \<in> set (filter (\<lambda>p. is_failed (snd p)) (ep_tasks st))"
    by (simp add: map_of_SomeD is_failed_def)
  then show ?thesis unfolding failedCount_def by (rule length_pos_if_in_set)
qed

text \<open>The midnights of later days are later; a clock change is shorter than a day.\<close>

definition ordered_days :: "host \<Rightarrow> bool" where
  "ordered_days h \<longleftrightarrow> (\<forall>a b. a < b \<longrightarrow> midnight h a < midnight h b)"

lemma ordered_days_le: "ordered_days h \<Longrightarrow> midnight h a \<le> midnight h b \<longleftrightarrow> a \<le> b"
  unfolding ordered_days_def by (metis leD leI order_le_less)

lemma utc_ordered_days [simp]: "ordered_days utc_host"
  by (simp add: ordered_days_def midnight_def utc_of_local_def utc_host_def ms_per_day_def)

lemma blockingLocks_days:
  assumes "regular_day h today_day" "ordered_days h"
  shows "blockingLocks h ls r = filter (\<lambda>l. (''all'' \<in> set (lk_products l) \<or> ro_product r \<in> set (lk_products l)) \<and>
    list_ex (\<lambda>st. lk_startOffset l \<le> sr_offset st \<and> sr_offset st \<le> lk_endOffset l) (ro_stages r)) ls"
  using assms by (simp add: blockingLocks_def Let_def addDays_today ordered_days_le)

section \<open>The create dialogs\<close>

definition admins :: "string set" where
  "admins = set (map ac_id (filter (\<lambda>a. ac_role a = ''admin'') ACTORS))"

definition create_inv :: "create_state \<Rightarrow> bool" where
  "create_inv st \<longleftrightarrow> length (cr_pair st) \<le> 2 \<and> distinct (cr_pair st) \<and> set (cr_pair st) \<subseteq> admins \<and>
     getType (cr_typeId st) \<noteq> None \<and> getProduct (cr_productId st) \<noteq> None"

lemma pick_pair_ok: "length p \<le> 2 \<Longrightarrow> distinct p \<Longrightarrow> length (pick_pair a p) \<le> 2 \<and> distinct (pick_pair a p)"
proof -
  assume l: "length p \<le> 2" and d: "distinct p"
  have "length (filter (\<lambda>x. x \<noteq> a) p) \<le> 2" using l length_filter_le [of "\<lambda>x. x \<noteq> a" p] by linarith
  moreover have "p ! 1 \<noteq> a" if "a \<notin> set p" "\<not> length p < 2" using that by (metis One_nat_def Suc_1 not_less_eq nth_mem)
  ultimately show ?thesis using l d by (auto simp: pick_pair_def)
qed

lemma pick_pair_admins: "set p \<subseteq> A \<Longrightarrow> a \<in> A \<Longrightarrow> x \<in> set (pick_pair a p) \<Longrightarrow> x \<in> A"
proof -
  assume p: "set p \<subseteq> A" "a \<in> A" "x \<in> set (pick_pair a p)"
  have "p ! 1 \<in> A" if "\<not> length p < 2" using that p(1) nth_mem [of 1 p] by auto
  then show ?thesis using p by (auto simp: pick_pair_def split: if_splits)
qed

lemma getType_mem: "t \<in> set ROLLOUT_TYPES \<Longrightarrow> getType (rt_id t) \<noteq> None"
  by (auto simp: getType_def find_None_mem)

lemma getProduct_mem: "p \<in> set PRODUCTS \<Longrightarrow> getProduct (prod_id p) \<noteq> None"
  by (auto simp: getProduct_def find_None_mem)

lemma offered_CascadePreview [simp]: "offered (CascadePreview h s t ty) = {}"
  by (auto simp: CascadePreview_def Let_def split: prod.splits option.splits)

lemma offered_CreateRolloutModal:
  assumes "getType (cr_typeId st) = Some ty"
  shows "offered_list (the (CreateRolloutModal h True st)) \<subseteq>
    {CRClose} \<union> CRProduct ` prod_id ` set PRODUCTS \<union> CRType ` rt_id ` set ROLLOUT_TYPES \<union> range CRStart \<union> range CRTime \<union>
    range CRDescExt \<union> range CRDescInt \<union> range CRAnnounce \<union> range CRRisks \<union>
    CRPair ` admins"
  unfolding CreateRolloutModal_def admins_def using assms by (simp add: Let_def) auto

lemma create_inv_act:
  assumes "create_inv st"
    and "a \<in> {CRClose} \<union> CRProduct ` prod_id ` set PRODUCTS \<union> CRType ` rt_id ` set ROLLOUT_TYPES \<union> range CRStart \<union> range CRTime \<union>
      range CRDescExt \<union> range CRDescInt \<union> range CRAnnounce \<union> range CRRisks \<union> CRPair ` admins"
  shows "create_inv (create_act a st)"
  using assms pick_pair_ok [of "cr_pair st"] pick_pair_admins [of "cr_pair st" admins] getType_mem getProduct_mem
  unfolding create_inv_def by (elim UnE) auto

text \<open>The modal as one tree: its nodes under a fragment.\<close>

definition create_view :: "host \<Rightarrow> create_state \<Rightarrow> create_action node option" where
  "create_view h st = map_option (\<lambda>ns. Elem [] [] ns) (CreateRolloutModal h True st)"

interpretation create: ui_component "create_view h" "{}" create_act create_init create_inv for h
proof
  have "getType ''operator-feature'' \<noteq> None" "getProduct ''operator'' \<noteq> None" by code_simp+
  moreover have "{''luc'', ''hen''} \<subseteq> admins" by code_simp
  ultimately show "create_inv create_init" by (simp add: create_inv_def create_init_def)
next
  fix st a
  assume i: "create_inv st" and a: "a \<in> offered_opt (create_view h st) \<union> {}"
  obtain ty where ty: "getType (cr_typeId st) = Some ty" using i by (auto simp: create_inv_def)
  obtain ns where ns: "CreateRolloutModal h True st = Some ns"
    using ty by (simp add: CreateRolloutModal_def)
  have "a \<in> offered_list ns" using a by (simp add: create_view_def ns)
  then show "create_inv (create_act a st)"
    using offered_CreateRolloutModal [OF ty, of h] by (intro create_inv_act [OF i]) (simp only: ns option.sel subset_eq)
qed

definition lockmodal_inv :: "lockmodal_state \<Rightarrow> bool" where
  "lockmodal_inv st \<longleftrightarrow> distinct (cl_products st) \<and> (''all'' \<in> set (cl_products st) \<longrightarrow> cl_products st = [''all'']) \<and>
     set (cl_products st) \<subseteq> insert ''all'' (prod_id ` set PRODUCTS)"

lemma products_not_all: "p \<in> set PRODUCTS \<Longrightarrow> prod_id p \<noteq> ''all''"
  by (auto simp: PRODUCTS_def)

lemma offered_CreateLockModal: "offered_list (CreateLockModal True st) \<subseteq> {CLClose, CLAll} \<union> range CLKind \<union> CLProduct ` prod_id ` set PRODUCTS"
  by (simp add: CreateLockModal_def Let_def) auto

interpretation lockmodal: ui_component "\<lambda>st. Some (Elem [] [] (CreateLockModal True st))" "{}" lockmodal_act lockmodal_init lockmodal_inv
proof
  show "lockmodal_inv lockmodal_init" by (simp add: lockmodal_inv_def lockmodal_init_def)
next
  fix st a
  assume i: "lockmodal_inv st" and a: "a \<in> offered_opt (Some (Elem [] [] (CreateLockModal True st))) \<union> {}"
  then have "a \<in> {CLClose, CLAll} \<union> range CLKind \<union> CLProduct ` prod_id ` set PRODUCTS"
    using offered_CreateLockModal by auto
  then consider "a = CLClose" | "a = CLAll" | k where "a = CLKind k" | p where "p \<in> set PRODUCTS" "a = CLProduct (prod_id p)"
    by auto
  then show "lockmodal_inv (lockmodal_act a st)"
  proof cases
    case (4 p)
    then show ?thesis using i products_not_all [of p]
      by (simp add: lockmodal_inv_def set_toggle distinct_toggle) blast
  qed (use i in \<open>simp_all add: lockmodal_inv_def\<close>)
qed

section \<open>Properties\<close>

text \<open>
  A panel in the application. The elements of the application have no key, so the panel keeps its state when another rollout is opened while it is
  shown, in the page by the hash and in the drawer from the list behind it. The list has the rollouts that were shown, the present one first.
\<close>

inductive exec_run :: "host \<Rightarrow> string \<Rightarrow> string \<Rightarrow> bool \<Rightarrow> lock list \<Rightarrow> rollout list \<Rightarrow> exec_state \<Rightarrow> bool"
  for h :: host and org :: string and path :: string and isPage :: bool and ls :: "lock list" where
  mount: "exec_ready r ty \<Longrightarrow> exec_run h org path isPage ls [r] (exec_init r)"
| act: "exec_run h org path isPage ls (r # rs) st \<Longrightarrow> a \<in> offered_opt (ExecutePanel h org path isPage ls r st) \<union> {ECopyTimeout} \<Longrightarrow>
    exec_run h org path isPage ls (r # rs) (exec_act h a st)"
| other: "exec_run h org path isPage ls rs st \<Longrightarrow> exec_ready r ty \<Longrightarrow> exec_run h org path isPage ls (r # rs) st"

definition tasks_of :: "rollout \<Rightarrow> nat" where
  "tasks_of r = (case getType (ro_typeId r) of Some ty \<Rightarrow> length (rt_tasks ty) | None \<Rightarrow> 0)"

lemma tasks_of_ready: "exec_ready r ty \<Longrightarrow> tasks_of r = length (rt_tasks ty)"
  by (simp add: tasks_of_def exec_ready_def)

definition most_tasks :: "rollout list \<Rightarrow> nat" where
  "most_tasks rs = foldr (\<lambda>r n. max (tasks_of r) n) rs 0"

lemma most_tasks_simps [simp]: "most_tasks [] = 0" "most_tasks (r # rs) = max (tasks_of r) (most_tasks rs)"
  by (simp_all add: most_tasks_def)

lemma exec_inv_mono: "exec_inv n st \<Longrightarrow> n \<le> m \<Longrightarrow> exec_inv m st"
  by (fastforce simp: exec_inv_def tasks_ok_def list_all_iff)

lemma exec_run_inv: "exec_run h org path isPage ls rs st \<Longrightarrow> exec_inv (most_tasks rs) st"
proof (induction rule: exec_run.induct)
  case (mount r ty)
  then have "exec_inv (tasks_of r) (exec_init r)"
    using exec.inv_start [of r] by (simp add: exec_good_def tasks_of_def exec_ready_def)
  then show ?case by simp
next
  case (act r rs st a)
  have "i < most_tasks (r # rs)" if i: "task_index a = Some i" for i
  proof -
    from i have "a \<noteq> ECopyTimeout" by (auto simp: task_index_def)
    then obtain n where n: "ExecutePanel h org path isPage ls r st = Some n" "a \<in> offered n"
      using act.hyps(2) by (cases "ExecutePanel h org path isPage ls r st") auto
    show ?thesis using ExecutePanel_task_index [OF n i] by (auto simp: tasks_of_def)
  qed
  with act.IH show ?case by (intro exec_inv_act) auto
next
  case (other rs st r ty)
  then show ?case by (auto elim: exec_inv_mono)
qed

text \<open>
  C26. Executing a rollout: in every state of a panel, also when other rollouts are opened while it is shown, each task has at most one state, the task
  states are for tasks that one of the rollouts shown so far has, every failed task carries a non-blank, trimmed reason, and done and failed tasks
  together are at most as many as the rollout with the most tasks has. While no rollout with more tasks was shown before, the percentage lies
  between 0 and 100.
\<close>

theorem exec_reachable:
  assumes "exec_run h org path isPage ls (r # rs) st" "getType (ro_typeId r) = Some ty"
  shows "distinct (map fst (ep_tasks st)) \<and>
    list_all (\<lambda>(i, v). i < most_tasks (r # rs) \<and> (case v of TaskFailed x \<Rightarrow> x \<noteq> [] \<and> trim x = x | TaskDone \<Rightarrow> True)) (ep_tasks st) \<and>
    doneCount st + failedCount st \<le> most_tasks (r # rs) \<and>
    (most_tasks rs \<le> length (rt_tasks ty) \<longrightarrow> (\<forall>c. completion st ty = Some c \<longrightarrow> 0 \<le> c \<and> c \<le> 100))"
proof -
  have inv: "exec_inv (most_tasks (r # rs)) st" by (rule exec_run_inv [OF assms(1)])
  then have ok: "tasks_ok (most_tasks (r # rs)) (ep_tasks st)" by (simp add: exec_inv_def)
  have "most_tasks (r # rs) = length (rt_tasks ty)" if "most_tasks rs \<le> length (rt_tasks ty)"
    using that assms(2) by (simp add: tasks_of_def)
  then show ?thesis
    using ok tasks_ok_length [OF ok] count_split [of st] inv completion_bounds [of ty st]
    by (auto simp: tasks_ok_def strict_sorted_iff list_all_iff good_state_def)
qed

lemma exec_ready_seed: "exec_ready (hd ROLLOUTS) (ROLLOUT_TYPES ! 4)"
  by code_simp

theorem exec_reachable_witness:
  "distinct (map fst (ep_tasks (setDone 5 (exec_init (hd ROLLOUTS))))) \<and>
   doneCount (setDone 5 (exec_init (hd ROLLOUTS))) + failedCount (setDone 5 (exec_init (hd ROLLOUTS))) \<le> length (rt_tasks (ROLLOUT_TYPES ! 4))"
proof -
  let ?r = "hd ROLLOUTS" and ?ty = "ROLLOUT_TYPES ! 4"
  have "5 < length (rt_tasks ?ty)" by code_simp
  then have "EDone 5 \<in> offered_opt (ExecutePanel utc_host [] [] True [] ?r (exec_init ?r)) \<union> {ECopyTimeout}"
    using ExecutePanel_offers_row [OF exec_ready_seed, of 5] by blast
  from exec_run.act [OF exec_run.mount [OF exec_ready_seed] this]
  have "exec_run utc_host [] [] True [] [?r] (exec_act utc_host (EDone 5) (exec_init ?r))" .
  moreover have "getType (ro_typeId ?r) = Some ?ty" using exec_ready_seed by (simp add: exec_ready_def)
  ultimately show ?thesis using exec_reachable [of utc_host "[]" "[]" True "[]" ?r "[]" _ ?ty] by (simp add: tasks_of_def)
qed

text \<open>
  Otherwise it can exceed 100: when all eight tasks of \<open>r-102\<close> are checked on its page and the hash changes to \<open>r-103\<close>, which has four, the panel
  shows 200 per cent.
\<close>

lemma exec_run_done:
  assumes "exec_run h org path isPage ls (r # rs) st" "exec_ready r ty" "list_all (\<lambda>i. i < length (rt_tasks ty)) is"
  shows "exec_run h org path isPage ls (r # rs) (fold (\<lambda>i. exec_act h (EDone i)) is st)"
  using assms(1,3)
proof (induction "is" arbitrary: st)
  case (Cons i js)
  then have "EDone i \<in> offered_opt (ExecutePanel h org path isPage ls r st)"
    using ExecutePanel_offers_row [OF assms(2), of i] by (simp add: image_subset_iff)
  then have "exec_run h org path isPage ls (r # rs) (exec_act h (EDone i) st)" by (intro exec_run.act [OF Cons.prems(1)]) simp
  then show ?case using Cons.IH Cons.prems(2) by simp
qed simp

definition all_checked :: "rollout \<Rightarrow> exec_state" where
  "all_checked r = fold (\<lambda>i. exec_act utc_host (EDone i)) (filter (\<lambda>i. i \<notin> set (ro_checked r)) [0..<tasks_of r]) (exec_init r)"

lemma exec_run_all_checked:
  assumes "exec_ready r ty"
  shows "exec_run utc_host org path isPage ls [r] (all_checked r)"
  unfolding all_checked_def
  by (rule exec_run_done [OF exec_run.mount [OF assms] assms]) (simp add: list_all_iff tasks_of_ready [OF assms])

lemma page_keeps_task_states:
  "exec_run utc_host org path True ls [ROLLOUTS ! 2, ROLLOUTS ! 1] (all_checked (ROLLOUTS ! 1)) \<and>
   Option.bind (getType (ro_typeId (ROLLOUTS ! 2))) (completion (all_checked (ROLLOUTS ! 1))) = Some 200"
proof
  have r: "exec_ready (ROLLOUTS ! 1) (the (getType (ro_typeId (ROLLOUTS ! 1))))" "exec_ready (ROLLOUTS ! 2) (the (getType (ro_typeId (ROLLOUTS ! 2))))"
    by code_simp+
  from exec_run.other [OF exec_run_all_checked [OF r(1)] r(2)]
  show "exec_run utc_host org path True ls [ROLLOUTS ! 2, ROLLOUTS ! 1] (all_checked (ROLLOUTS ! 1))" .
  show "Option.bind (getType (ro_typeId (ROLLOUTS ! 2))) (completion (all_checked (ROLLOUTS ! 1))) = Some 200" by code_simp
qed

text \<open>
  C5. Recording a failure: in a reachable state of the panel a task that is not failed can be marked
  failed, the reason can then be typed, and exactly when it is not blank the button that saves it can be
  pressed. Saving records the trimmed reason for that task alone, closes the form, and from then on the
  panel offers to reschedule the rollout.
\<close>

theorem exec_failure_flow:
  assumes "exec_ready r ty" "i < length (rt_tasks ty)"
    and "ui_reach (ExecutePanel h org path isPage ls r) {ECopyTimeout} (exec_act h) (exec_init r) st"
    and "\<forall>x. map_of (ep_tasks st) i \<noteq> Some (TaskFailed x)"
    and "st1 = exec_act h (EFailed i) st" "st2 = exec_act h (EReason v) st1" "st3 = exec_act h (ESaveReason i) st2"
  shows "EFailed i \<in> offered_opt (ExecutePanel h org path isPage ls r st) \<and>
    EReason v \<in> offered_opt (ExecutePanel h org path isPage ls r st1) \<and>
    (ESaveReason i \<in> offered_opt (ExecutePanel h org path isPage ls r st2) \<longleftrightarrow> trim v \<noteq> []) \<and>
    (trim v \<noteq> [] \<longrightarrow> map_of (ep_tasks st3) = (map_of (ep_tasks st))(i \<mapsto> TaskFailed (trim v)) \<and> ep_failing st3 = None \<and>
       EReschedule \<in> offered_opt (ExecutePanel h org path isPage ls r st3))"
proof -
  let ?P = "ExecutePanel h org path isPage ls r"
  note row = ExecutePanel_offers_row [OF assms(1,2), of _ h org path isPage ls]
  have st1: "st1 = st\<lparr>ep_failing := Some i, ep_reason := []\<rparr>"
    using assms(4) unfolding assms(5) by (cases "map_of (ep_tasks st) i"; cases "the (map_of (ep_tasks st) i)") (auto simp: setFailed_def)
  have st2: "ep_failing st2 = Some i" "ep_reason st2 = v" "ep_tasks st2 = ep_tasks st" by (simp_all add: assms(6) st1)
  have o1: "EFailed i \<in> offered_opt (?P st)" using row [of st] by blast
  have o2: "EReason v \<in> offered_opt (?P st1)" using row [of st1] by (simp add: st1 image_subset_iff)
  have o3: "ESaveReason i \<in> offered_opt (?P st2)" if "trim v \<noteq> []" using row [of st2] that by (simp add: st2)
  have o4: "trim v \<noteq> []" if "ESaveReason i \<in> offered_opt (?P st2)"
    using ExecutePanel_save_guard [OF that] by (simp add: st2)
  have inv: "sorted_wrt (<) (map fst (ep_tasks st))"
    using exec.inv_reach [OF assms(3)] assms(1) by (simp add: exec_good_def exec_inv_def tasks_ok_def)
  have m: "map_of (ep_tasks st3) = (map_of (ep_tasks st))(i \<mapsto> TaskFailed (trim v))" "ep_failing st3 = None" if "trim v \<noteq> []"
    using that map_of_task_put [OF inv] by (simp_all add: assms(7) saveReason_def st2)
  have "EReschedule \<in> offered_opt (?P st3)" if "trim v \<noteq> []"
    using m(1) [OF that] failedCount_pos [of st3 i] by (intro ExecutePanel_offers_reschedule [OF assms(1)]) simp
  with o1 o2 o3 o4 m show ?thesis by blast
qed

theorem exec_failure_flow_witness:
  "map_of (ep_tasks (exec_act utc_host (ESaveReason 5) (exec_act utc_host (EReason '' drift '') (exec_act utc_host (EFailed 5) (exec_init (hd ROLLOUTS)))))) 5
     = Some (TaskFailed ''drift'')"
proof -
  let ?r = "hd ROLLOUTS"
  have i: "5 < length (rt_tasks (ROLLOUT_TYPES ! 4))" by code_simp
  have "map_of (ep_tasks (exec_init ?r)) 5 = None" by code_simp
  then have n: "\<forall>x. map_of (ep_tasks (exec_init ?r)) 5 \<noteq> Some (TaskFailed x)" by simp
  have t: "trim '' drift '' = ''drift''" by code_simp
  from exec_failure_flow [where v = "'' drift ''", OF exec_ready_seed i ui_reach.init n refl refl refl, of utc_host]
  show ?thesis unfolding t by simp
qed

text \<open>
  The tick of a task: in a reachable state, pressing it sets the task to done, or clears it when it
  was done, and leaves every other task alone; the done counter moves by one accordingly, and pressing
  twice on a task that was not failed restores the task states.
\<close>

theorem setDone_toggles:
  assumes "exec_ready r ty"
    and "ui_reach (ExecutePanel h org path isPage ls r) {ECopyTimeout} (exec_act h) (exec_init r) st"
  shows "map_of (ep_tasks (setDone i st)) =
      (map_of (ep_tasks st))(i := (if map_of (ep_tasks st) i = Some TaskDone then None else Some TaskDone)) \<and>
    int (doneCount (setDone i st)) = int (doneCount st) + (if map_of (ep_tasks st) i = Some TaskDone then - 1 else 1) \<and>
    ((\<forall>x. map_of (ep_tasks st) i \<noteq> Some (TaskFailed x)) \<longrightarrow> ep_tasks (setDone i (setDone i st)) = ep_tasks st)"
proof -
  have so: "sorted_wrt (<) (map fst (ep_tasks st))"
    using exec.inv_reach [OF assms(2)] assms(1) by (simp add: exec_good_def exec_inv_def tasks_ok_def)
  have m: "map_of (ep_tasks (setDone i st)) =
      (map_of (ep_tasks st))(i := (if map_of (ep_tasks st) i = Some TaskDone then None else Some TaskDone))"
    using map_of_task_put [OF so] by (simp add: tasks_setDone map_of_task_delete)
  have so': "sorted_wrt (<) (map fst (ep_tasks (setDone i st)))"
    using so by (simp add: tasks_setDone sorted_task_put sorted_task_delete)
  have so'': "sorted_wrt (<) (map fst (ep_tasks (setDone i (setDone i st))))"
    using so' by (simp add: tasks_setDone [of i "setDone i st"] sorted_task_put sorted_task_delete)
  have "map_of (ep_tasks (setDone i (setDone i st))) = map_of (ep_tasks st)" if "\<forall>x. map_of (ep_tasks st) i \<noteq> Some (TaskFailed x)"
    using that map_of_task_put [OF so', of i TaskDone]
    by (cases "map_of (ep_tasks st) i"; cases "the (map_of (ep_tasks st) i)")
      (auto simp: tasks_setDone [of i "setDone i st"] m map_of_task_delete fun_eq_iff)
  then have "ep_tasks (setDone i (setDone i st)) = ep_tasks st" if "\<forall>x. map_of (ep_tasks st) i \<noteq> Some (TaskFailed x)"
    using that so so'' by (metis map_of_sorted_eq)
  then show ?thesis using m doneCount_setDone [OF so] by blast
qed

theorem setDone_toggles_witness:
  "doneCount (exec_init (hd ROLLOUTS)) = 4 \<and> doneCount (setDone 5 (exec_init (hd ROLLOUTS))) = 5 \<and>
   ep_tasks (setDone 5 (setDone 5 (exec_init (hd ROLLOUTS)))) = ep_tasks (exec_init (hd ROLLOUTS))"
proof -
  have "map_of (ep_tasks (exec_init (hd ROLLOUTS))) 5 = None" "doneCount (exec_init (hd ROLLOUTS)) = 4" by code_simp+
  with setDone_toggles [OF exec_ready_seed ui_reach.init, of 5] show ?thesis by simp
qed

text \<open>
  The locks that block a rollout: on a host whose day arithmetic is regular, a lock is reported exactly
  when it covers all products or the rollout's, and the planned day of some stage lies within its first
  and last day, both included; the order of the locks is kept.
\<close>

theorem blockingLocks_exact:
  assumes "regular_day h today_day" "ordered_days h"
  shows "blockingLocks h ls r = filter (\<lambda>l. (''all'' \<in> set (lk_products l) \<or> ro_product r \<in> set (lk_products l)) \<and>
    (\<exists>st \<in> set (ro_stages r). lk_startOffset l \<le> sr_offset st \<and> sr_offset st \<le> lk_endOffset l)) ls"
  using blockingLocks_days [OF assms] by (simp add: list_ex_iff)

theorem blockingLocks_exact_witness:
  "regular_day utc_host today_day \<and> ordered_days utc_host \<and>
   set (blockingLocks utc_host LOCKS_RAW (hd ROLLOUTS)) =
     {l \<in> set LOCKS_RAW. (''all'' \<in> set (lk_products l) \<or> ro_product (hd ROLLOUTS) \<in> set (lk_products l)) \<and>
        (\<exists>st \<in> set (ro_stages (hd ROLLOUTS)). lk_startOffset l \<le> sr_offset st \<and> sr_offset st \<le> lk_endOffset l)}"
  using blockingLocks_exact [of utc_host LOCKS_RAW "hd ROLLOUTS"] by simp

text \<open>
  The create dialog: in every state a user can reach in it, the pair has at most two different members,
  all of them administrators, the chosen product and type exist, and the dialog renders.
\<close>

theorem create_reachable:
  assumes "ui_reach (create_view h) {} create_act create_init st"
  shows "length (cr_pair st) \<le> 2 \<and> distinct (cr_pair st) \<and>
    (\<forall>a. a \<in> set (cr_pair st) \<longrightarrow> (\<exists>x \<in> set ACTORS. ac_id x = a \<and> ac_role x = ''admin'')) \<and>
    getType (cr_typeId st) \<noteq> None \<and> getProduct (cr_productId st) \<noteq> None \<and> CreateRolloutModal h True st \<noteq> None"
proof -
  have inv: "create_inv st" using create.inv_reach [OF assms] .
  then have "CreateRolloutModal h True st \<noteq> None" by (auto simp: create_inv_def CreateRolloutModal_def)
  with inv show ?thesis by (auto simp: create_inv_def admins_def)
qed

theorem create_reachable_witness: "length (cr_pair create_init) \<le> 2 \<and> CreateRolloutModal utc_host True create_init \<noteq> None"
  using create_reachable [OF ui_reach.init, of utc_host] by simp

text \<open>
  The lock dialog: in every reachable state each chosen product is a product of the table or the
  wildcard, none is chosen twice, and the wildcard is never combined with a product.
\<close>

theorem lockmodal_reachable:
  assumes "ui_reach (\<lambda>st. Some (Elem [] [] (CreateLockModal True st))) {} lockmodal_act lockmodal_init st"
  shows "distinct (cl_products st) \<and> (''all'' \<in> set (cl_products st) \<longrightarrow> cl_products st = [''all'']) \<and>
    set (cl_products st) \<subseteq> insert ''all'' (prod_id ` set PRODUCTS)"
  using lockmodal.inv_reach [OF assms] by (simp add: lockmodal_inv_def)

theorem lockmodal_reachable_witness: "distinct (cl_products (lockmodal_act CLAll lockmodal_init))"
proof -
  have "CLAll \<in> offered_opt (Some (Elem [] [] (CreateLockModal True lockmodal_init))) \<union> {}"
    by (simp add: CreateLockModal_def Let_def)
  then have "ui_reach (\<lambda>st. Some (Elem [] [] (CreateLockModal True st))) {} lockmodal_act lockmodal_init (lockmodal_act CLAll lockmodal_init)"
    by (rule ui_reach.act [OF ui_reach.init])
  from lockmodal_reachable [OF this] show ?thesis by simp
qed

end
