(* ===== verification/RR_MasterDetail.thy ===== *)
theory RR_MasterDetail
  imports RR_Shell
begin

text \<open>
  The list-and-detail editors of \<open>src/design/project/master-data.jsx\<close> share one shape: a list of
  entries with ids, the id of the selected entry, and operations that select, add, change and remove.
  This theory has the shell \<open>MDMasterDetail\<close>, the operations, and the contract of such an editor: a
  locale whose laws are what one editor has to provide (fresh entries carry the id they are given, the
  actions of the detail pane keep the invariant, the pane renders for an existing entry) and whose
  lemmas give every editor that its ids stay distinct, its selection stays valid and its view never
  fails.

  New ids are a prefix and the clock reading (\<open>Date.now()\<close>). The clock is part of the state; it
  advances by ticks of the environment and by at least one with every entry that is added, so two
  entries are not added within the same millisecond.
\<close>

text \<open>\<open>v ?? d\<close>, for a value that may be missing.\<close>

definition or_default :: "'v \<Rightarrow> 'v option \<Rightarrow> 'v" where
  "or_default d v = (case v of None \<Rightarrow> d | Some x \<Rightarrow> x)"

record 'a md_state =
  md_items :: "'a list"
  md_selectedId :: "string option"
  md_clock :: nat

definition md_selected :: "('a \<Rightarrow> string) \<Rightarrow> ('a, 'x) md_state_scheme \<Rightarrow> 'a option" where
  "md_selected ident st = (case md_selectedId st of None \<Rightarrow> None | Some i \<Rightarrow> List.find (\<lambda>x. ident x = i) (md_items st))"

definition md_update :: "('a \<Rightarrow> string) \<Rightarrow> ('a \<Rightarrow> 'a) \<Rightarrow> ('a, 'x) md_state_scheme \<Rightarrow> ('a, 'x) md_state_scheme" where
  "md_update ident patch st =
     st\<lparr>md_items := map (\<lambda>x. if md_selectedId st = Some (ident x) then patch x else x) (md_items st)\<rparr>"

definition md_add :: "string \<Rightarrow> (string \<Rightarrow> nat \<Rightarrow> 'a) \<Rightarrow> ('a, 'x) md_state_scheme \<Rightarrow> ('a, 'x) md_state_scheme" where
  "md_add prefix fresh st =
     (let i = prefix @ show_nat (md_clock st) in
      st\<lparr>md_items := md_items st @ [fresh i (length (md_items st))], md_selectedId := Some i, md_clock := Suc (md_clock st)\<rparr>)"

text \<open>\<open>next[0]?.id || null\<close>\<close>

definition md_first :: "('a \<Rightarrow> string) \<Rightarrow> 'a list \<Rightarrow> string option" where
  "md_first ident xs = (case xs of [] \<Rightarrow> None | x # _ \<Rightarrow> if ident x = [] then None else Some (ident x))"

definition md_remove :: "('a \<Rightarrow> string) \<Rightarrow> string \<Rightarrow> ('a, 'x) md_state_scheme \<Rightarrow> ('a, 'x) md_state_scheme" where
  "md_remove ident i st =
     (let next = filter (\<lambda>x. ident x \<noteq> i) (md_items st) in
      st\<lparr>md_items := next, md_selectedId := (if md_selectedId st = Some i then md_first ident next else md_selectedId st)\<rparr>)"

section \<open>The shell\<close>

datatype 'd md_action = MDSelect string | MDAdd | MDTick nat | MDDetail 'd

definition MDMasterDetail ::
    "('a \<Rightarrow> string) \<Rightarrow> 'a list \<Rightarrow> string option \<Rightarrow> string \<Rightarrow> ('a \<Rightarrow> 'd md_action node list) \<Rightarrow> 'd node list option \<Rightarrow>
     'd md_action node option" where
  "MDMasterDetail ident items selectedId addLabel renderListItem renderDetail =
     (case (if selectedId = None \<or> selectedId = Some []
            then Some [Elem ''div'' [cls ''rr-md-empty''] [Text ''Nothing selected.'']]
            else map_option (map (lift_node MDDetail)) renderDetail) of
        None \<Rightarrow> None
      | Some pane \<Rightarrow> Some
         (Elem ''div'' [cls ''rr-md-grid'']
           [Elem ''aside'' [cls ''rr-md-list'']
             [Elem ''div'' [cls ''rr-md-list-head'']
               [Elem ''span'' [cls ''rr-md-list-count'']
                 [Text (show_nat (length items)), Text '' '', Text (if length items = 1 then ''entry'' else ''entries'')],
                Elem ''button'' [cls ''rr-btn rr-btn-primary rr-btn-sm'', On ''onClick'' MDAdd]
                 [Icon (ICONS ''plus'') 12, Text '' '', Text addLabel]],
              Elem ''ul'' [cls ''rr-md-list-items'']
               (map (\<lambda>it. Elem ''li'' []
                  [Elem ''button'' [cls (''rr-md-list-row '' @ (if selectedId = Some (ident it) then ''is-active'' else [])),
                     On ''onClick'' (MDSelect (ident it))] (renderListItem it)]) items)],
            Elem ''section'' [cls ''rr-md-detail''] pane]))"

text \<open>
  The operations of an editor. When the selection becomes empty the detail pane is unmounted and the
  state it keeps (drafts of fields) starts afresh: \<open>reset\<close>.
\<close>

definition md_act ::
    "string \<Rightarrow> (string \<Rightarrow> nat \<Rightarrow> 'a) \<Rightarrow> (('a, 'x) md_state_scheme \<Rightarrow> ('a, 'x) md_state_scheme) \<Rightarrow>
     ('d \<Rightarrow> ('a, 'x) md_state_scheme \<Rightarrow> ('a, 'x) md_state_scheme) \<Rightarrow>
     'd md_action \<Rightarrow> ('a, 'x) md_state_scheme \<Rightarrow> ('a, 'x) md_state_scheme" where
  "md_act prefix fresh reset detail_act a st =
     (let st' = (case a of
          MDSelect i \<Rightarrow> st\<lparr>md_selectedId := Some i\<rparr>
        | MDAdd \<Rightarrow> md_add prefix fresh st
        | MDTick n \<Rightarrow> st\<lparr>md_clock := md_clock st + n\<rparr>
        | MDDetail d \<Rightarrow> detail_act d st)
      in if md_selectedId st' = None then reset st' else st')"

section \<open>The invariant of the entries\<close>

lemma show_nat_two_digits: "10 \<le> n \<Longrightarrow> show_nat n \<noteq> [c]"
  by (subst show_nat.simps) simp

definition md_ok :: "('a \<Rightarrow> string) \<Rightarrow> string \<Rightarrow> ('a, 'x) md_state_scheme \<Rightarrow> bool" where
  "md_ok ident prefix st \<longleftrightarrow>
     distinct (map ident (md_items st)) \<and> [] \<notin> ident ` set (md_items st) \<and>
     (\<forall>t \<ge> md_clock st. prefix @ show_nat t \<notin> ident ` set (md_items st)) \<and>
     (case md_selectedId st of None \<Rightarrow> md_items st = [] | Some i \<Rightarrow> i \<in> ident ` set (md_items st))"

text \<open>The abstract view of the entries: a finite map from ids.\<close>

definition md_abs :: "('a \<Rightarrow> string) \<Rightarrow> 'a list \<Rightarrow> string \<Rightarrow> 'a option" where
  "md_abs ident xs i = List.find (\<lambda>x. ident x = i) xs"

lemma md_abs_Some: "distinct (map ident xs) \<Longrightarrow> md_abs ident xs i = Some x \<longleftrightarrow> x \<in> set xs \<and> ident x = i"
  unfolding md_abs_def by (induction xs) (auto simp: image_iff)

lemma md_abs_None: "md_abs ident xs i = None \<longleftrightarrow> i \<notin> ident ` set xs"
  by (auto simp: md_abs_def find_None_mem)

lemma md_abs_map: "(\<And>x. ident (f x) = ident x) \<Longrightarrow> md_abs ident (map f xs) i = map_option f (md_abs ident xs i)"
  unfolding md_abs_def by (induction xs) simp_all

lemma md_abs_filter: "md_abs ident (filter (\<lambda>x. ident x \<noteq> j) xs) = (md_abs ident xs)(j := None)"
  unfolding md_abs_def by (induction xs) (auto simp: fun_eq_iff)

lemma md_abs_snoc: "ident x \<notin> ident ` set xs \<Longrightarrow> md_abs ident (xs @ [x]) = (md_abs ident xs)(ident x \<mapsto> x)"
  unfolding md_abs_def by (induction xs) (auto simp: fun_eq_iff)

lemma md_ok_selected: "md_ok ident prefix st \<Longrightarrow> md_selectedId st = Some i \<Longrightarrow>
    \<exists>x \<in> set (md_items st). md_selected ident st = Some x \<and> ident x = i"
  using md_abs_None [of ident "md_items st" i] md_abs_Some [of ident "md_items st" i]
  by (auto simp: md_ok_def md_selected_def md_abs_def)

lemma md_ok_cong: "md_items st' = md_items st \<Longrightarrow> md_selectedId st' = md_selectedId st \<Longrightarrow> md_clock st' = md_clock st \<Longrightarrow>
    md_ok ident prefix st' = md_ok ident prefix st"
  by (simp add: md_ok_def cong: option.case_cong)

lemma md_ok_select: "md_ok ident prefix st \<Longrightarrow> i \<in> ident ` set (md_items st) \<Longrightarrow> md_ok ident prefix (st\<lparr>md_selectedId := Some i\<rparr>)"
  by (simp add: md_ok_def)

lemma md_ok_tick: "md_ok ident prefix st \<Longrightarrow> md_ok ident prefix (st\<lparr>md_clock := md_clock st + n\<rparr>)"
  by (simp add: md_ok_def cong: option.case_cong)

text \<open>The invariant depends on the ids only up to their order.\<close>

lemma md_ok_mset:
  assumes "mset (map ident (md_items st')) = mset (map ident (md_items st))" "md_selectedId st' = md_selectedId st" "md_clock st' = md_clock st"
  shows "md_ok ident prefix st' = md_ok ident prefix st"
proof -
  have "ident ` set (md_items st') = ident ` set (md_items st)" using assms(1) by (metis mset_eq_setD set_map)
  moreover have "distinct (map ident (md_items st')) = distinct (map ident (md_items st))" using assms(1) by (rule mset_eq_imp_distinct_iff)
  moreover have "md_items st' = [] \<longleftrightarrow> md_items st = []" using assms(1) by (metis length_0_conv length_map mset_eq_length)
  ultimately show ?thesis unfolding md_ok_def assms(2,3) by (simp cong: option.case_cong)
qed

lemma md_ok_ids: "map ident (md_items st') = map ident (md_items st) \<Longrightarrow> md_selectedId st' = md_selectedId st \<Longrightarrow>
    md_clock st' = md_clock st \<Longrightarrow> md_ok ident prefix st' = md_ok ident prefix st"
  by (rule md_ok_mset) simp_all

lemma md_ok_update: "(\<And>x. ident (f x) = ident x) \<Longrightarrow> md_ok ident prefix (md_update ident f st) = md_ok ident prefix st"
  by (rule md_ok_ids) (simp_all add: md_update_def)

lemma md_ok_remove:
  assumes "md_ok ident prefix st"
  shows "md_ok ident prefix (md_remove ident i st)"
proof -
  let ?next = "filter (\<lambda>x. ident x \<noteq> i) (md_items st)"
  have rest: "distinct (map ident ?next)" "ident ` set ?next \<subseteq> ident ` set (md_items st)"
    using assms by (auto simp: md_ok_def distinct_map_filter)
  have sel: "case md_first ident ?next of None \<Rightarrow> ?next = [] | Some j \<Rightarrow> j \<in> ident ` set ?next"
  proof (cases ?next)
    case (Cons x xs)
    have "x \<in> set ?next" unfolding Cons by simp
    then have "x \<in> set (md_items st)" by simp
    then have "ident x \<in> ident ` set (md_items st)" by simp
    then have "ident x \<noteq> []" using assms by (metis md_ok_def)
    then show ?thesis unfolding Cons md_first_def by simp
  qed (simp add: md_first_def)
  have other: "j \<in> ident ` set ?next" if "md_selectedId st = Some j" "j \<noteq> i" for j
    using assms that by (auto simp: md_ok_def)
  show ?thesis
  proof (cases "md_selectedId st = Some i")
    case True
    then show ?thesis using assms rest sel unfolding md_ok_def md_remove_def Let_def by (auto split: option.splits)
  next
    case False
    then show ?thesis using assms rest other unfolding md_ok_def md_remove_def Let_def by (auto split: option.splits)
  qed
qed

lemma md_update_all: "list_all P (md_items st) \<Longrightarrow> (\<And>x. x \<in> set (md_items st) \<Longrightarrow> P x \<Longrightarrow> P (f x)) \<Longrightarrow>
    list_all P (md_items (md_update ident f st))"
  by (auto simp: md_update_def list_all_iff)

lemma md_remove_all: "list_all P (md_items st) \<Longrightarrow> list_all P (md_items (md_remove ident i st))"
  by (auto simp: md_remove_def Let_def list_all_iff)

lemma md_selected_mem: "md_selected ident st = Some x \<Longrightarrow> x \<in> set (md_items st) \<and> md_selectedId st = Some (ident x)"
  by (auto simp: md_selected_def find_Some_iff split: option.splits)

section \<open>The contract of an editor\<close>

locale master_detail =
  fixes ident :: "'a \<Rightarrow> string" and prefix :: string and fresh :: "string \<Rightarrow> nat \<Rightarrow> 'a"
  assumes fresh_ident: "ident (fresh i n) = i"
    and prefix_ne: "prefix \<noteq> []"
begin

lemma md_ok_add:
  assumes "md_ok ident prefix st"
  shows "md_ok ident prefix (md_add prefix fresh st)"
  using assms prefix_ne by (auto simp: md_ok_def md_add_def Let_def fresh_ident)

lemma selected_add:
  assumes "md_ok ident prefix st"
  shows "md_selected ident (md_add prefix fresh st) = Some (fresh (prefix @ show_nat (md_clock st)) (length (md_items st)))"
  using assms md_abs_snoc [of ident "fresh (prefix @ show_nat (md_clock st)) (length (md_items st))" "md_items st"]
  by (simp add: md_ok_def md_selected_def md_add_def Let_def fresh_ident md_abs_def fun_eq_iff)

text \<open>Refinement: the list operations are the map operations on the abstract view.\<close>

lemma abs_add:
  assumes "md_ok ident prefix st"
  shows "md_abs ident (md_items (md_add prefix fresh st)) =
    (md_abs ident (md_items st))(prefix @ show_nat (md_clock st) \<mapsto> fresh (prefix @ show_nat (md_clock st)) (length (md_items st)))"
  using assms md_abs_snoc [of ident "fresh (prefix @ show_nat (md_clock st)) (length (md_items st))" "md_items st"]
  by (simp add: md_ok_def md_add_def Let_def fresh_ident)

lemma abs_update:
  assumes "\<And>x. ident (f x) = ident x"
  shows "md_abs ident (md_items (md_update ident f st)) =
    (\<lambda>i. if md_selectedId st = Some i then map_option f (md_abs ident (md_items st) i) else md_abs ident (md_items st) i)"
proof
  fix i
  let ?g = "\<lambda>x. if md_selectedId st = Some (ident x) then f x else x"
  have "ident (?g x) = ident x" for x using assms by simp
  then have "md_abs ident (map ?g (md_items st)) i = map_option ?g (md_abs ident (md_items st) i)" by (rule md_abs_map)
  moreover have "ident x = i" if "md_abs ident (md_items st) i = Some x" for x
    using that by (auto simp: md_abs_def find_Some_iff)
  ultimately show "md_abs ident (md_items (md_update ident f st)) i =
      (if md_selectedId st = Some i then map_option f (md_abs ident (md_items st) i) else md_abs ident (md_items st) i)"
    by (cases "md_abs ident (md_items st) i") (auto simp: md_update_def)
qed

lemma abs_remove: "md_abs ident (md_items (md_remove ident i st)) = (md_abs ident (md_items st))(i := None)"
  by (simp add: md_remove_def Let_def md_abs_filter)

end

text \<open>
  An editor: a detail pane for the selected entry whose actions keep the invariant and a condition on
  every entry. It then is a component in the sense of \<open>ui_component\<close>.
\<close>

definition md_view ::
    "('a \<Rightarrow> string) \<Rightarrow> string \<Rightarrow> ('a \<Rightarrow> 'd md_action node list) \<Rightarrow> (('a, 'x) md_state_scheme \<Rightarrow> 'd node list option) \<Rightarrow>
     ('a, 'x) md_state_scheme \<Rightarrow> 'd md_action node option" where
  "md_view ident addLabel item pane st = MDMasterDetail ident (md_items st) (md_selectedId st) addLabel item (pane st)"

lemma offered_md_view:
  assumes "a \<in> offered_opt (md_view ident addLabel item pane st)" "\<And>x. offered_list (item x) = {}"
  shows "a = MDAdd \<or> (\<exists>i \<in> ident ` set (md_items st). a = MDSelect i) \<or>
    (\<exists>d ns. a = MDDetail d \<and> md_selectedId st \<noteq> None \<and> pane st = Some ns \<and> d \<in> offered_list ns)"
proof (cases "md_selectedId st = None \<or> md_selectedId st = Some []")
  case True
  then show ?thesis using assms by (auto simp: md_view_def MDMasterDetail_def)
next
  case False
  then obtain ns where ns: "pane st = Some ns"
    using assms(1) by (cases "pane st") (auto simp: md_view_def MDMasterDetail_def)
  show ?thesis using assms False
    by (auto simp: md_view_def MDMasterDetail_def ns offered_list_lift simp del: offered_list_map)
      (auto simp: offered_list_map)
qed

locale md_editor = master_detail ident prefix fresh
  for ident :: "'a \<Rightarrow> string" and prefix :: string and fresh :: "string \<Rightarrow> nat \<Rightarrow> 'a" +
  fixes reset :: "('a, 'x) md_state_scheme \<Rightarrow> ('a, 'x) md_state_scheme"
    and detail_act :: "'d \<Rightarrow> ('a, 'x) md_state_scheme \<Rightarrow> ('a, 'x) md_state_scheme"
    and addLabel :: string
    and item :: "'a \<Rightarrow> 'd md_action node list"
    and pane :: "('a, 'x) md_state_scheme \<Rightarrow> 'd node list option"
    and start :: "('a, 'x) md_state_scheme"
    and good :: "'a list \<Rightarrow> bool"
    and env :: "'d set"
  assumes start_ok: "md_ok ident prefix start" "good (md_items start)"
    and reset_ids: "md_items (reset st) = md_items st" "md_selectedId (reset st) = md_selectedId st" "md_clock (reset st) = md_clock st"
    and item_quiet: "offered_list (item x) = {}"
    and good_add: "good xs \<Longrightarrow> good (xs @ [fresh i (length xs)])"
    and detail_ok: "md_ok ident prefix st \<Longrightarrow> good (md_items st) \<Longrightarrow> md_selected ident st = Some x \<Longrightarrow> pane st = Some ns \<Longrightarrow>
      d \<in> offered_list ns \<Longrightarrow> md_ok ident prefix (detail_act d st) \<and> good (md_items (detail_act d st))"
    and env_ok: "md_ok ident prefix st \<Longrightarrow> good (md_items st) \<Longrightarrow> d \<in> env \<Longrightarrow>
      md_ok ident prefix (detail_act d st) \<and> good (md_items (detail_act d st))"
    and pane_renders: "md_ok ident prefix st \<Longrightarrow> md_selected ident st = Some x \<Longrightarrow> pane st \<noteq> None"
begin

lemma act_ok:
  assumes i: "md_ok ident prefix st" "good (md_items st)"
    and a: "a \<in> offered_opt (md_view ident addLabel item pane st) \<union> (range MDTick \<union> MDDetail ` env)"
  shows "md_ok ident prefix (md_act prefix fresh reset detail_act a st) \<and> good (md_items (md_act prefix fresh reset detail_act a st))"
proof -
  have settle: "md_ok ident prefix (if md_selectedId s = None then reset s else s) \<and>
      good (md_items (if md_selectedId s = None then reset s else s))" if "md_ok ident prefix s" "good (md_items s)" for s
    using that by (simp add: reset_ids md_ok_cong [of "reset s" s])
  consider "a = MDAdd" | j where "a = MDSelect j" "j \<in> ident ` set (md_items st)" | n where "a = MDTick n"
    | d where "a = MDDetail d" "d \<in> env"
    | d ns where "a = MDDetail d" "md_selectedId st \<noteq> None" "pane st = Some ns" "d \<in> offered_list ns"
    using a offered_md_view [of a ident addLabel item pane st] item_quiet by blast
  then show ?thesis
  proof cases
    case 1
    then show ?thesis unfolding md_act_def using settle [OF md_ok_add [OF i(1)]] good_add [OF i(2)] by (simp add: md_add_def Let_def)
  next
    case 2
    then show ?thesis unfolding md_act_def using settle [OF md_ok_select [OF i(1)]] i(2) by simp
  next
    case 3
    then show ?thesis unfolding md_act_def using settle [OF md_ok_tick [OF i(1)], of n] i(2) by (simp add: Let_def)
  next
    case 4
    then show ?thesis unfolding md_act_def using settle [of "detail_act d st"] env_ok [OF i, of d] by (simp add: Let_def)
  next
    case 5
    then obtain x where x: "md_selected ident st = Some x" using md_ok_selected [OF i(1)] by auto
    show ?thesis unfolding md_act_def using settle [of "detail_act d st"] detail_ok [OF i x 5(3,4)] 5(1) by (simp add: Let_def)
  qed
qed

sublocale ui_component "md_view ident addLabel item pane" "range MDTick \<union> MDDetail ` env" "md_act prefix fresh reset detail_act"
  start "\<lambda>st. md_ok ident prefix st \<and> good (md_items st)"
  by unfold_locales (use start_ok act_ok in blast)+

lemma view_renders: "md_ok ident prefix st \<Longrightarrow> md_view ident addLabel item pane st \<noteq> None"
proof (cases "md_selectedId st")
  case (Some i)
  assume ok: "md_ok ident prefix st"
  then obtain ns where "pane st = Some ns" using md_ok_selected [OF ok Some] pane_renders [OF ok] by blast
  then show ?thesis by (simp add: md_view_def MDMasterDetail_def)
qed (simp add: md_view_def MDMasterDetail_def)

text \<open>What every state a user can reach in an editor satisfies.\<close>

lemma reach_ok:
  assumes "ui_reach (md_view ident addLabel item pane) (range MDTick \<union> MDDetail ` env) (md_act prefix fresh reset detail_act) start st"
  shows "distinct (map ident (md_items st))" "good (md_items st)" "md_view ident addLabel item pane st \<noteq> None"
    "md_selectedId st = None \<longleftrightarrow> md_items st = []" "md_selectedId st = Some i \<Longrightarrow> i \<in> ident ` set (md_items st)"
    "md_ok ident prefix st"
proof -
  have ok: "md_ok ident prefix st" and g: "good (md_items st)" using inv_reach [OF assms] by auto
  show "distinct (map ident (md_items st))" "md_selectedId st = None \<longleftrightarrow> md_items st = []"
    "md_selectedId st = Some i \<Longrightarrow> i \<in> ident ` set (md_items st)"
    using ok by (auto simp: md_ok_def split: option.splits)
  show "md_view ident addLabel item pane st \<noteq> None" by (rule view_renders [OF ok])
qed (use inv_reach [OF assms] in auto)

end

section \<open>Editors that change and remove entries\<close>

datatype 'a entry_action = EntryChange "'a \<Rightarrow> 'a" | EntryRemove

fun entry_act :: "('a \<Rightarrow> string) \<Rightarrow> 'a entry_action \<Rightarrow> ('a, 'x) md_state_scheme \<Rightarrow> ('a, 'x) md_state_scheme" where
  "entry_act ident (EntryChange patch) st = md_update ident patch st"
| "entry_act ident EntryRemove st =
     (case md_selected ident st of None \<Rightarrow> st | Some x \<Rightarrow> md_remove ident (ident x) st)"

definition entry_pane :: "('a \<Rightarrow> string) \<Rightarrow> ('a \<Rightarrow> 'd node) \<Rightarrow> ('a, 'x) md_state_scheme \<Rightarrow> 'd node list option" where
  "entry_pane ident detail st = map_option (\<lambda>x. [detail x]) (md_selected ident st)"

text \<open>The patches that keep the id and a condition on the entry.\<close>

definition keeps :: "('a \<Rightarrow> string) \<Rightarrow> ('a \<Rightarrow> bool) \<Rightarrow> ('a \<Rightarrow> 'a) set" where
  "keeps ident ok = {f. \<forall>y. ident (f y) = ident y \<and> (ok y \<longrightarrow> ok (f y))}"

lemma keeps_update:
  assumes "f \<in> keeps ident ok" "md_ok ident prefix st" "list_all ok (md_items st)"
  shows "md_ok ident prefix (md_update ident f st) \<and> list_all ok (md_items (md_update ident f st))"
  using assms by (simp add: keeps_def md_ok_update md_update_all)

locale entry_editor = master_detail ident prefix fresh
  for ident :: "'a \<Rightarrow> string" and prefix :: string and fresh :: "string \<Rightarrow> nat \<Rightarrow> 'a" +
  fixes addLabel :: string
    and item :: "'a \<Rightarrow> 'a entry_action md_action node list"
    and detail :: "'a \<Rightarrow> 'a entry_action node"
    and start :: "('a, 'x) md_state_scheme"
    and entry_ok :: "'a \<Rightarrow> bool"
  assumes start_valid: "md_ok ident prefix start" "list_all entry_ok (md_items start)"
    and items_quiet: "offered_list (item x) = {}"
    and fresh_ok: "entry_ok (fresh i n)"
    and detail_offers: "entry_ok x \<Longrightarrow> offered (detail x) \<subseteq> {EntryRemove} \<union> EntryChange ` keeps ident entry_ok"
begin

sublocale md_editor ident prefix fresh id "entry_act ident" addLabel item "entry_pane ident detail" start "list_all entry_ok" "{}"
proof
  fix st :: "('a, 'x) md_state_scheme" and x ns d
  assume ok: "md_ok ident prefix st" "list_all entry_ok (md_items st)" and x: "md_selected ident st = Some x"
    and ns: "entry_pane ident detail st = Some ns" "d \<in> offered_list ns"
  have "entry_ok x" using md_selected_mem [OF x] ok(2) by (auto simp: list_all_iff)
  then consider "d = EntryRemove" | f where "d = EntryChange f" "f \<in> keeps ident entry_ok"
    using ns x detail_offers [of x] by (auto simp: entry_pane_def)
  then show "md_ok ident prefix (entry_act ident d st) \<and> list_all entry_ok (md_items (entry_act ident d st))"
  proof cases
    case 1
    then show ?thesis using ok x by (simp add: md_ok_remove md_remove_all)
  next
    case 2
    then show ?thesis using keeps_update [OF 2(2) ok] by simp
  qed
qed (use start_valid items_quiet fresh_ok in \<open>auto simp: entry_pane_def\<close>)

end

end
