(* ===== verification/RR_Products.thy ===== *)
theory RR_Products
  imports RR_Panels RR_MasterDetail
begin

text \<open>
  The products editor of \<open>src/design/project/master-data.jsx\<close>: the entries with their defaults, the
  detail pane with its draft of a broker name, and the properties of the states a user can reach.
\<close>

section \<open>Entries\<close>

record product_entry =
  pe_id :: string
  pe_name :: string
  pe_owner :: string
  pe_brokers :: "string list"
  pe_color :: string
  pe_description :: string
  pe_repo :: string
  pe_runbook :: string
  pe_defaultPair :: "string list"
  pe_allowedTypes :: "string list"
  pe_snowRequired :: bool

definition PRODUCT_COLORS :: "string list" where
  "PRODUCT_COLORS = [''#a78bfa'', ''#5eead4'', ''#fbbf24'', ''#fb7185'', ''#7c8cff'', ''#34d399'', ''#f472b6'', ''#facc15'']"

definition defaultProductDescription :: "string \<Rightarrow> string" where
  "defaultProductDescription i = or_default [] (map_of
     [(''operator'', ''Solace + Oracle operator. Manages broker lifecycle and per-tenant configuration on the TMS platform.''),
      (''concentrator'', ''TLS-terminating gateway in front of every broker pair.''),
      (''monalesy'', ''Tenant-facing monitoring + analytics dashboard.''),
      (''microservices'', ''Collection of small TMS-SSP services (frontend, appluser, monitoring, eks-info, '' @ u_ellipsis @ '').'')] i)"

definition defaultRepo :: "string \<Rightarrow> string" where
  "defaultRepo i = or_default [] (map_of
     [(''operator'', ''git@github.example/tms-platform/operator''),
      (''concentrator'', ''git@github.example/tms-platform/concentrator''),
      (''monalesy'', ''git@github.example/tms-platform/monalesy''),
      (''microservices'', ''git@github.example/tms-platform/microservices'')] i)"

definition defaultRunbook :: "string \<Rightarrow> string" where
  "defaultRunbook i = ''https://docs.example/runbooks/'' @ i"

definition defaultPairFor :: "string \<Rightarrow> string list" where
  "defaultPairFor i = or_default [] (map_of
     [(''operator'', [''luc'', ''hen'']), (''concentrator'', [''mira'', ''tomas'']), (''monalesy'', [''ravi'']),
      (''microservices'', [''luc'', ''ravi''])] i)"

definition defaultTypesFor :: "string \<Rightarrow> string list" where
  "defaultTypesFor i = or_default [] (map_of
     [(''operator'', [''operator-feature'', ''operator-hf'']), (''concentrator'', [''concentrator-mod'']),
      (''monalesy'', [''monalesy-feature'', ''monalesy-patch'']),
      (''microservices'', [''tms-ssp-nc'', ''tms-ssp-c'', ''tms-ssp-hf''])] i)"

definition product_entry_of :: "product \<Rightarrow> product_entry" where
  "product_entry_of p = \<lparr>pe_id = prod_id p, pe_name = prod_name p, pe_owner = prod_owner p, pe_brokers = prod_brokers p,
     pe_color = productColor (prod_id p), pe_description = defaultProductDescription (prod_id p),
     pe_repo = defaultRepo (prod_id p), pe_runbook = defaultRunbook (prod_id p),
     pe_defaultPair = defaultPairFor (prod_id p), pe_allowedTypes = defaultTypesFor (prod_id p),
     pe_snowRequired = (prod_id p \<noteq> ''microservices'')\<rparr>"

definition new_product :: "string \<Rightarrow> nat \<Rightarrow> product_entry" where
  "new_product i n = \<lparr>pe_id = i, pe_name = ''new product'', pe_owner = ''Team '' @ u_mdash, pe_brokers = [],
     pe_color = PRODUCT_COLORS ! (n mod length PRODUCT_COLORS), pe_description = [], pe_repo = [], pe_runbook = [],
     pe_defaultPair = [], pe_allowedTypes = [], pe_snowRequired = False\<rparr>"

section \<open>The detail pane\<close>

datatype product_action = PChange "product_entry \<Rightarrow> product_entry" | PBrokerDraft string | PAddBroker | PRemove

definition pd_removeBroker :: "product_entry \<Rightarrow> string \<Rightarrow> product_action" where
  "pd_removeBroker product b = PChange (\<lambda>x. x\<lparr>pe_brokers := filter (\<lambda>y. y \<noteq> b) (pe_brokers product)\<rparr>)"

definition pd_togglePair :: "product_entry \<Rightarrow> string \<Rightarrow> product_action" where
  "pd_togglePair product actorId = PChange (\<lambda>x. x\<lparr>pe_defaultPair :=
     (if actorId \<in> set (pe_defaultPair product) then filter (\<lambda>y. y \<noteq> actorId) (pe_defaultPair product)
      else if length (pe_defaultPair product) < 2 then pe_defaultPair product @ [actorId]
      else [pe_defaultPair product ! 1, actorId])\<rparr>)"

definition pd_toggleType :: "product_entry \<Rightarrow> string \<Rightarrow> product_action" where
  "pd_toggleType product typeId = PChange (\<lambda>x. x\<lparr>pe_allowedTypes := toggle typeId (pe_allowedTypes product)\<rparr>)"

definition ProductDetail :: "product_entry \<Rightarrow> string \<Rightarrow> product_action node" where
  "ProductDetail product draft =
    Elem ''div'' [cls ''rr-md-detail-inner'']
      [Elem ''header'' [cls ''rr-md-detail-head'']
        [Elem ''div'' [cls ''rr-md-detail-head-l'']
          [Elem ''span'' [cls ''rr-md-detail-dot'', Sty ''background'' (pe_color product)] [],
           Elem ''div'' []
            [Elem ''div'' [cls ''rr-md-detail-eyebrow'']
              [Text (''PRODUCT '' @ u_middot @ '' ''),
               Elem ''span'' [cls ''rr-mono'']
                [Text (pe_id product)]],
             Elem ''h2'' []
              [Text (pe_name product)]]],
         Elem ''div'' [cls ''rr-md-detail-head-r'']
          [Elem ''button'' [cls ''rr-btn rr-btn-ghost rr-btn-sm'']
            [Icon (ICONS ''copy'') 12,
             Text '' Duplicate''],
           Elem ''button'' [cls ''rr-btn rr-btn-ghost rr-btn-sm rr-btn-danger-ghost'', On ''onClick'' PRemove]
            [Icon (ICONS ''x'') 12,
             Text '' Delete'']]],
       Elem ''div'' [cls ''rr-md-section'']
        [Elem ''div'' [cls ''rr-md-section-title'']
          [Text ''Identity''],
         Elem ''div'' [cls ''rr-form-grid'']
          [Elem ''label'' [cls ''rr-field'']
            [Elem ''span'' []
              [Text ''Name''],
             Elem ''input'' [Attr ''value'' (pe_name product), OnVal ''onChange'' (\<lambda>v. (PChange (\<lambda>x. x\<lparr>pe_name := v\<rparr>)))] []],
           Elem ''label'' [cls ''rr-field'']
            [Elem ''span'' []
              [Text ''Owner / Team''],
             Elem ''input'' [Attr ''value'' (pe_owner product), OnVal ''onChange'' (\<lambda>v. (PChange (\<lambda>x. x\<lparr>pe_owner := v\<rparr>)))] []],
           Elem ''label'' [cls ''rr-field'']
            [Elem ''span'' []
              [Text ''Repository / monorepo path''],
             Elem ''input'' [Attr ''value'' (pe_repo product), OnVal ''onChange'' (\<lambda>v. (PChange (\<lambda>x. x\<lparr>pe_repo := v\<rparr>))), Attr ''placeholder'' (''git@'' @ u_ellipsis @ ''/tms-platform/operator'')] []],
           Elem ''label'' [cls ''rr-field'']
            [Elem ''span'' []
              [Text ''Runbook URL''],
             Elem ''input'' [Attr ''value'' (pe_runbook product), OnVal ''onChange'' (\<lambda>v. (PChange (\<lambda>x. x\<lparr>pe_runbook := v\<rparr>))), Attr ''placeholder'' ''https://docs.example/runbooks/operator''] []],
           Elem ''label'' [cls ''rr-field rr-field-wide'']
            [Elem ''span'' []
              [Text ''Description''],
             Elem ''textarea'' [AttrN ''rows'' 2, Attr ''value'' (pe_description product), OnVal ''onChange'' (\<lambda>v. (PChange (\<lambda>x. x\<lparr>pe_description := v\<rparr>)))] []],
           Elem ''div'' [cls ''rr-field'']
            [Elem ''span'' []
              [Text ''Timeline accent color''],
             Elem ''div'' [cls ''rr-color-row'']
              (map (\<lambda>c.
                  Elem ''button'' [cls (''rr-color-sw '' @ (if ((pe_color product) = c) then ''is-on'' else [])), Sty ''background'' c, On ''onClick'' (PChange (\<lambda>x. x\<lparr>pe_color := c\<rparr>))] [])
                PRODUCT_COLORS)],
           Elem ''label'' [cls ''rr-field'']
            [Elem ''span'' []
              [Text ''SNOW change required for prod''],
             Elem ''div'' [cls ''rr-switch-row'']
              [Elem ''button'' [cls (''rr-switch '' @ (if (pe_snowRequired product) then ''is-on'' else [])), On ''onClick'' (PChange (\<lambda>x. x\<lparr>pe_snowRequired := (\<not> (pe_snowRequired product))\<rparr>)), AttrB ''aria-pressed'' (pe_snowRequired product)]
                [Elem ''span'' [cls ''rr-switch-thumb''] []],
               Elem ''span'' [cls ''rr-switch-label'']
                [Text (if (pe_snowRequired product) then ''Required'' else ''Not required'')]]]]],
       Elem ''div'' [cls ''rr-md-section'']
        [Elem ''div'' [cls ''rr-md-section-title'']
          [Text ''Brokers '',
           Elem ''span'' [cls ''rr-muted'']
            [Text ''('',
             Text (show_nat (length (pe_brokers product))),
             Text '')'']],
         Elem ''div'' [cls ''rr-md-broker-grid'']
          (map (\<lambda>b.
              Elem ''div'' [cls ''rr-md-broker'']
                [Elem ''code'' []
                  [Text b],
                 Elem ''button'' [cls ''rr-md-broker-x'', On ''onClick'' (pd_removeBroker product b), Attr ''title'' ''Remove'']
                  [Icon (ICONS ''x'') 11]])
            (pe_brokers product) @
           [Elem ''div'' [cls ''rr-md-broker-add'']
            [Elem ''input'' [Attr ''value'' draft, Attr ''placeholder'' ''e.g. frankfurt-03'', OnVal ''onChange'' (\<lambda>v. (PBrokerDraft v)), On ''onKeyDown:Enter'' PAddBroker] [],
             Elem ''button'' [cls ''rr-btn rr-btn-ghost rr-btn-sm'', On ''onClick'' PAddBroker]
              [Icon (ICONS ''plus'') 11,
               Text '' Add'']]])],
       Elem ''div'' [cls ''rr-md-section'']
        [Elem ''div'' [cls ''rr-md-section-title'']
          [Text ''Default execution pair''],
         Elem ''p'' [cls ''rr-md-section-hint'']
          [Text ''Suggested actors when creating a new rollout for this product. Required for non-microservice deployments.''],
         Elem ''div'' [cls ''rr-pair-pickers'']
          (concat (map (\<lambda>a.
              (let on = ((ac_id a) \<in> set (pe_defaultPair product)) in
              [Elem ''button'' [cls (''rr-pair-pick '' @ (if on then ''is-on'' else [])), On ''onClick'' (pd_togglePair product (ac_id a))]
                (Avatar (ac_id a) 20 False @
                 [Text (ac_name a)])]))
            (filter (\<lambda>a. ((ac_role a) = ''admin'')) ACTORS)))],
       Elem ''div'' [cls ''rr-md-section'']
        [Elem ''div'' [cls ''rr-md-section-title'']
          [Text ''Allowed rollout types''],
         Elem ''p'' [cls ''rr-md-section-hint'']
          [Text (''Only these RolloutTypes show up in the '' @ u_ldquo @ ''New rollout'' @ u_rdquo @ '' dropdown for this product.'')],
         Elem ''div'' [cls ''rr-md-type-grid'']
          (concat (map (\<lambda>t.
              (let on = ((rt_id t) \<in> set (pe_allowedTypes product)) in
              [Elem ''button'' [cls (''rr-md-type-card '' @ (if on then ''is-on'' else [])), On ''onClick'' (pd_toggleType product (rt_id t))]
                [Elem ''div'' [cls ''rr-md-type-card-top'']
                  ([Badge (rt_tone t) False False [Text (rt_short t)]] @
                   guarded on
                    [Icon_full (ICONS ''check'') 12 (16 / 10) ''rr-md-type-tick'' ''none'']),
                 Elem ''div'' [cls ''rr-md-type-card-name'']
                  [Text (rt_name t)],
                 Elem ''div'' [cls ''rr-md-type-card-meta'']
                  [Text (if 1 < length (rt_cascadePlan t) then ((show_int (length (rt_cascadePlan t))) @ ('' stages '' @ u_middot @ '' '') @ join_with '' / '' (map (\<lambda>p. ''+'' @ formatDelay (ps_delayHours p)) (drop 1 (rt_cascadePlan t)))) else ''single-stage'')]]]))
            ROLLOUT_TYPES))]]"

section \<open>The editor\<close>

record products_state = "product_entry md_state" +
  pd_brokerDraft :: string

definition products_init :: "nat \<Rightarrow> products_state" where
  "products_init now = \<lparr>md_items = map product_entry_of PRODUCTS,
     md_selectedId = md_first pe_id (map product_entry_of PRODUCTS), md_clock = now, pd_brokerDraft = []\<rparr>"

definition products_item :: "product_entry \<Rightarrow> 'd md_action node list" where
  "products_item p =
    [Elem ''span'' [cls ''rr-md-list-dot'', Sty ''background'' (pe_color p)] [],
     Elem ''div'' [cls ''rr-md-list-body'']
      [Elem ''div'' [cls ''rr-md-list-name'']
        [Text (pe_name p)],
       Elem ''div'' [cls ''rr-md-list-meta'']
        [Elem ''span'' []
          [Text (pe_owner p)],
         Elem ''span'' [cls ''rr-md-list-sep'']
          [Text u_middot],
         Elem ''span'' [cls ''rr-mono'']
          [Text (show_nat (length (pe_brokers p))),
           Text '' brokers'']]]]"

definition products_pane :: "products_state \<Rightarrow> product_action node list option" where
  "products_pane st = map_option (\<lambda>p. [ProductDetail p (pd_brokerDraft st)]) (md_selected pe_id st)"

fun products_detail_act :: "product_action \<Rightarrow> products_state \<Rightarrow> products_state" where
  "products_detail_act (PChange patch) st = md_update pe_id patch st"
| "products_detail_act (PBrokerDraft v) st = st\<lparr>pd_brokerDraft := v\<rparr>"
| "products_detail_act PAddBroker st =
     (case md_selected pe_id st of
        None \<Rightarrow> st
      | Some product \<Rightarrow>
          let v = trim (pd_brokerDraft st) in
          if v = [] then st
          else (md_update pe_id (\<lambda>x. x\<lparr>pe_brokers := pe_brokers product @ [v]\<rparr>) st)\<lparr>pd_brokerDraft := []\<rparr>)"
| "products_detail_act PRemove st =
     (case md_selected pe_id st of None \<Rightarrow> st | Some product \<Rightarrow> md_remove pe_id (pe_id product) st)"

definition ProductsEditor :: "products_state \<Rightarrow> product_action md_action node option" where
  "ProductsEditor = md_view pe_id ''New product'' products_item products_pane"

definition products_act :: "product_action md_action \<Rightarrow> products_state \<Rightarrow> products_state" where
  "products_act = md_act ''product-'' new_product (\<lambda>st. st\<lparr>pd_brokerDraft := []\<rparr>) products_detail_act"

section \<open>Reachable states of the editor\<close>

text \<open>The pair has at most two different administrators, the allowed types exist and are listed once.\<close>

definition product_good :: "product_entry \<Rightarrow> bool" where
  "product_good p \<longleftrightarrow> length (pe_defaultPair p) \<le> 2 \<and> distinct (pe_defaultPair p) \<and> set (pe_defaultPair p) \<subseteq> admins \<and>
     distinct (pe_allowedTypes p) \<and> set (pe_allowedTypes p) \<subseteq> rt_id ` set ROLLOUT_TYPES"

definition plain_product_patch :: "(product_entry \<Rightarrow> product_entry) \<Rightarrow> bool" where
  "plain_product_patch f \<longleftrightarrow> (\<forall>x. pe_id (f x) = pe_id x \<and> pe_defaultPair (f x) = pe_defaultPair x \<and> pe_allowedTypes (f x) = pe_allowedTypes x)"

lemma offered_products_item: "offered_list (products_item p) = {}"
  by (simp add: products_item_def)

lemma pd_removeBroker_plain: "pd_removeBroker p b \<in> PChange ` Collect plain_product_patch"
  by (simp add: pd_removeBroker_def plain_product_patch_def)

lemma offered_ProductDetail: "offered (ProductDetail p d) \<subseteq>
    {PRemove, PAddBroker} \<union> range PBrokerDraft \<union> PChange ` Collect plain_product_patch \<union>
    pd_togglePair p ` admins \<union> pd_toggleType p ` rt_id ` set ROLLOUT_TYPES"
  using pd_removeBroker_plain
  by (simp add: ProductDetail_def Let_def admins_def) (auto simp: plain_product_patch_def split: if_splits)

lemma pd_togglePair_pick: "pd_togglePair p a = PChange (\<lambda>x. x\<lparr>pe_defaultPair := pick_pair a (pe_defaultPair p)\<rparr>)"
  by (simp add: pd_togglePair_def pick_pair_def)

lemma products_change_ok:
  assumes "md_ok pe_id pre st" "list_all product_good (md_items st)"
    and "\<And>x. pe_id (f x) = pe_id x" "\<And>x. product_good x \<Longrightarrow> product_good (f x)"
  shows "md_ok pe_id pre (md_update pe_id f st) \<and> list_all product_good (md_items (md_update pe_id f st))"
  using assms by (simp add: md_ok_update md_update_all)

interpretation products: md_editor pe_id "''product-''" new_product "\<lambda>st. st\<lparr>pd_brokerDraft := []\<rparr>" products_detail_act
  "''New product''" products_item products_pane "products_init now" "list_all product_good" "{}" for now
proof
  show "md_ok pe_id ''product-'' (products_init now)"
    by (simp add: md_ok_def products_init_def md_first_def product_entry_of_def PRODUCTS_def)
  have "list_all product_good (map product_entry_of PRODUCTS)" unfolding product_good_def admins_def by code_simp
  then show "list_all product_good (md_items (products_init now))" by (simp add: products_init_def)
next
  fix st x ns d
  assume ok: "md_ok pe_id ''product-'' st" "list_all product_good (md_items st)"
    and x: "md_selected pe_id st = Some x" and ns: "products_pane st = Some ns" "d \<in> offered_list ns"
  have gx: "product_good x"
    using x ok(2) by (auto simp: md_selected_def find_Some_iff list_all_iff split: option.splits)
  consider "d = PRemove" | "d = PAddBroker" | v where "d = PBrokerDraft v" | f where "d = PChange f" "plain_product_patch f"
    | a where "d = pd_togglePair x a" "a \<in> admins" | t where "d = pd_toggleType x (rt_id t)" "t \<in> set ROLLOUT_TYPES"
    using ns x offered_ProductDetail [of x "pd_brokerDraft st"] by (auto simp: products_pane_def)
  then show "md_ok pe_id ''product-'' (products_detail_act d st) \<and> list_all product_good (md_items (products_detail_act d st))"
  proof cases
    case 1
    then show ?thesis using ok x by (simp add: md_ok_remove md_remove_all)
  next
    case 2
    let ?f = "\<lambda>y. y\<lparr>pe_brokers := pe_brokers x @ [trim (pd_brokerDraft st)]\<rparr>"
    have "md_ok pe_id ''product-'' (md_update pe_id ?f st) \<and> list_all product_good (md_items (md_update pe_id ?f st))"
      using products_change_ok [OF ok, of ?f] by (simp add: product_good_def)
    then show ?thesis using ok 2 x by (simp add: Let_def md_ok_cong [of "md_update pe_id ?f st\<lparr>pd_brokerDraft := []\<rparr>" "md_update pe_id ?f st"])
  next
    case 3
    then show ?thesis using ok by (simp add: md_ok_cong [of "st\<lparr>pd_brokerDraft := v\<rparr>" st])
  next
    case 4
    then show ?thesis using products_change_ok [OF ok, of f] by (simp add: plain_product_patch_def product_good_def)
  next
    case 5
    let ?f = "\<lambda>y. y\<lparr>pe_defaultPair := pick_pair a (pe_defaultPair x)\<rparr>"
    have "product_good (?f y)" if "product_good y" for y
      using gx that pick_pair_ok [of "pe_defaultPair x" a] pick_pair_admins [of "pe_defaultPair x" admins a] 5(2)
      by (auto simp: product_good_def)
    then show ?thesis using products_change_ok [OF ok, of ?f] 5(1) by (simp add: pd_togglePair_pick)
  next
    case 6
    let ?f = "\<lambda>y. y\<lparr>pe_allowedTypes := toggle (rt_id t) (pe_allowedTypes x)\<rparr>"
    have "product_good (?f y)" if "product_good y" for y
      using gx that 6(2) by (auto simp: product_good_def distinct_toggle in_toggle split: if_splits)
    then show ?thesis using products_change_ok [OF ok, of ?f] 6(1) by (simp add: pd_toggleType_def)
  qed
next
  fix st :: products_state and x
  assume "md_selected pe_id st = Some x"
  then show "products_pane st \<noteq> None" by (simp add: products_pane_def)
qed (simp_all add: new_product_def offered_products_item product_good_def)

section \<open>Properties\<close>

text \<open>
  The products editor: in every state a user can reach, the ids are distinct, an entry is selected
  exactly when there is one and the selected id exists, the view renders, and every product has a default
  pair of at most two different administrators and lists existing rollout types at most once.
\<close>

theorem products_reachable:
  assumes "ui_reach ProductsEditor (range MDTick) products_act (products_init now) st"
  shows "distinct (map pe_id (md_items st)) \<and> (md_selectedId st = None \<longleftrightarrow> md_items st = []) \<and>
    (\<forall>i. md_selectedId st = Some i \<longrightarrow> i \<in> pe_id ` set (md_items st)) \<and> ProductsEditor st \<noteq> None \<and>
    list_all (\<lambda>p. length (pe_defaultPair p) \<le> 2 \<and> distinct (pe_defaultPair p) \<and> set (pe_defaultPair p) \<subseteq> admins \<and>
      distinct (pe_allowedTypes p) \<and> set (pe_allowedTypes p) \<subseteq> rt_id ` set ROLLOUT_TYPES) (md_items st)"
proof -
  have r: "ui_reach (md_view pe_id ''New product'' products_item products_pane) (range MDTick \<union> MDDetail ` {})
      (md_act ''product-'' new_product (\<lambda>st. st\<lparr>pd_brokerDraft := []\<rparr>) products_detail_act) (products_init now) st"
    using assms by (simp add: ProductsEditor_def products_act_def)
  show ?thesis using products.reach_ok [OF r] by (auto simp: ProductsEditor_def product_good_def list_all_iff)
qed

theorem products_reachable_witness:
  "distinct (map pe_id (md_items (products_act MDAdd (products_init 1000)))) \<and> length (md_items (products_act MDAdd (products_init 1000))) = 5"
proof -
  have "ProductsEditor (products_init 1000) \<noteq> None"
    using products_reachable [OF ui_reach.init] by blast
  then have "MDAdd \<in> offered_opt (ProductsEditor (products_init 1000)) \<union> range MDTick"
    by (auto simp: ProductsEditor_def md_view_def MDMasterDetail_def split: option.splits if_splits)
  then have r: "ui_reach ProductsEditor (range MDTick) products_act (products_init 1000) (products_act MDAdd (products_init 1000))"
    by (rule ui_reach.act [OF ui_reach.init])
  have "length (md_items (products_act MDAdd (products_init 1000))) = 5"
    by (simp add: products_act_def md_act_def md_add_def Let_def products_init_def PRODUCTS_def)
  then show ?thesis using products_reachable [OF r] by simp
qed

text \<open>
  C37. The editor refines a map from ids to products: adding binds a new id to the fresh entry, changing
  rewrites the selected entry and no other, deleting removes exactly one binding.
\<close>

theorem products_refine_map:
  assumes "ui_reach ProductsEditor (range MDTick) products_act (products_init now) st"
    and "\<And>x. pe_id (f x) = pe_id x" and "md_selectedId st = Some i"
  shows "md_abs pe_id (md_items (products_act MDAdd st)) =
      (md_abs pe_id (md_items st))(''product-'' @ show_nat (md_clock st) \<mapsto> new_product (''product-'' @ show_nat (md_clock st)) (length (md_items st))) \<and>
    md_abs pe_id (md_items (products_act (MDDetail (PChange f)) st)) = (md_abs pe_id (md_items st))(i := map_option f (md_abs pe_id (md_items st) i)) \<and>
    md_abs pe_id (md_items (products_act (MDDetail PRemove) st)) = (md_abs pe_id (md_items st))(i := None)"
proof -
  have r: "ui_reach (md_view pe_id ''New product'' products_item products_pane) (range MDTick \<union> MDDetail ` {})
      (md_act ''product-'' new_product (\<lambda>st. st\<lparr>pd_brokerDraft := []\<rparr>) products_detail_act) (products_init now) st"
    using assms(1) by (simp add: ProductsEditor_def products_act_def)
  have ok: "md_ok pe_id ''product-'' st" using products.reach_ok(6) [OF r] .
  obtain x where x: "md_selected pe_id st = Some x" "pe_id x = i" using md_ok_selected [OF ok assms(3)] by blast
  show ?thesis
    using products.abs_add [OF ok] products.abs_update [OF assms(2), of st] products.abs_remove [of i st] x assms(3)
    by (auto simp: products_act_def md_act_def Let_def fun_eq_iff md_add_def)
qed

theorem products_refine_map_witness:
  "md_abs pe_id (md_items (products_act (MDDetail PRemove) (products_init 1000))) ''operator'' = None"
proof -
  have "md_selectedId (products_init 1000) = Some ''operator''"
    by (simp add: products_init_def md_first_def PRODUCTS_def product_entry_of_def)
  from products_refine_map [OF ui_reach.init, of id, OF _ this] show ?thesis by simp
qed

end
