(* ===== verification/RR_RolloutTypes.thy ===== *)
theory RR_RolloutTypes
  imports RR_MasterDetail
begin

text \<open>
  The rollout types editor of \<open>src/design/project/master-data.jsx\<close> and the editor of a cascade plan
  inside it. The plan editor reports the new plan to its parent, so its actions are plans.
\<close>

section \<open>The plan of a cascade\<close>

definition cp_update :: "plan_step list \<Rightarrow> nat \<Rightarrow> (plan_step \<Rightarrow> plan_step) \<Rightarrow> plan_step list" where
  "cp_update plan i patch = map_at i patch plan"

definition cp_remove :: "plan_step list \<Rightarrow> nat \<Rightarrow> plan_step list" where
  "cp_remove plan i = remove_at i plan"

definition cp_move :: "plan_step list \<Rightarrow> nat \<Rightarrow> int \<Rightarrow> plan_step list" where
  "cp_move plan i dir = move i dir plan"

definition cp_addStage :: "plan_step list \<Rightarrow> string \<Rightarrow> plan_step list" where
  "cp_addStage plan key =
     (let delay = (if plan = [] then 0 else ps_delayHours (last plan) + 168) in plan @ [\<lparr>ps_stage = key, ps_delayHours = delay\<rparr>])"

definition cp_unused :: "plan_step list \<Rightarrow> string list" where
  "cp_unused plan = filter (\<lambda>k. k \<notin> set (map ps_stage plan)) (map fst STAGE)"

definition cp_row :: "plan_step list \<Rightarrow> nat \<Rightarrow> plan_step \<Rightarrow> plan_step list node list" where
  "cp_row plan i p =
            (let s = (getStage (ps_stage p)) in
            (let prev = (if 0 < i then Some (plan ! (i - 1)) else None) in
            (let stepDelta = (case prev of Some q \<Rightarrow> ps_delayHours p - ps_delayHours q | None \<Rightarrow> 0) in
            [Elem ''li'' [cls ''rr-cp-row'']
              [Elem ''div'' [cls ''rr-cp-row-stagechip'', Sty ''background'' (st_color s), Sty ''color'' ''#0a0a0c'']
                [Text (st_short s)],
               Elem ''div'' [cls ''rr-cp-row-body'']
                [Elem ''div'' [cls ''rr-cp-row-stage'']
                  [Elem ''select'' [Attr ''value'' (ps_stage p), OnVal ''onChange'' (\<lambda>v. (cp_update plan i (\<lambda>x. x\<lparr>ps_stage := v\<rparr>)))]
                    (map (\<lambda>k.
                        Elem ''option'' [Attr ''value'' k, AttrB ''disabled'' (k \<in> set (map ps_stage plan) \<and> k \<noteq> ps_stage p)]
                          [Text (st_label (getStage k))])
                      (map fst STAGE)),
                   Elem ''span'' [cls ''rr-cp-row-meta'']
                    [Icon (ICONS ''bolt'') 11,
                     Text ''announces on '',
                     Elem ''strong'' []
                      [Text (st_announceChannel s)],
                     Text ('' '' @ u_middot @ '' min advance ''),
                     Elem ''strong'' []
                      [Text (formatDelay (st_minAdvanceHours s))]]],
                 Elem ''div'' [cls ''rr-cp-row-delay'']
                  [Elem ''label'' [cls ''rr-field'']
                    [Elem ''span'' []
                      [Text ''Delay from start (hours)''],
                     Elem ''div'' [cls ''rr-cp-row-delay-input'']
                      [Elem ''input'' [Attr ''type'' ''number'', Attr ''min'' ''0'', Attr ''step'' ''1'', AttrN ''value'' (of_int (ps_delayHours p)), OnNum ''onChange'' (\<lambda>n. (cp_update plan i (\<lambda>x. x\<lparr>ps_delayHours := n\<rparr>))), AttrB ''disabled'' (i = 0)] [],
                       Elem ''span'' [cls ''rr-cp-row-delay-suffix'']
                        ([Text ''= '',
                         Text (formatDelay (ps_delayHours p))] @
                         (case (if 0 < stepDelta then prev else None) of None \<Rightarrow> [] | Some q \<Rightarrow>
                          [Elem ''em'' []
                            [Text ('' '' @ u_middot @ '' +''),
                             Text (formatDelay stepDelta),
                             Text '' after '',
                             Text (st_short (getStage (ps_stage q)))]]))]]]],
               Elem ''div'' [cls ''rr-cp-row-tools'']
                [Elem ''button'' [cls ''rr-icon-btn'', AttrB ''disabled'' (i = 0), On ''onClick'' (cp_move plan i (- 1)), Attr ''title'' ''Move up'']
                  [Icon_full (ICONS ''chev'') 12 (16 / 10) ''rr-rot-270'' ''none''],
                 Elem ''button'' [cls ''rr-icon-btn'', AttrB ''disabled'' (i = length plan - 1), On ''onClick'' (cp_move plan i 1), Attr ''title'' ''Move down'']
                  [Icon_full (ICONS ''chev'') 12 (16 / 10) ''rr-rot-90'' ''none''],
                 Elem ''button'' [cls ''rr-icon-btn rr-md-row-x'', On ''onClick'' (cp_remove plan i), Attr ''title'' ''Remove'']
                  [Icon (ICONS ''x'') 12]]]])))"

definition CascadePlanEditor :: "plan_step list \<Rightarrow> plan_step list node" where
  "CascadePlanEditor plan =
    Elem ''div'' [cls ''rr-cp-edit'']
      (guarded (plan = [])
        [Elem ''div'' [cls ''rr-cp-empty'']
          [Text (''No stages yet '' @ u_mdash @ '' pick the first one to start the cascade.'')]] @
       [Elem ''ol'' [cls ''rr-cp-list'']
        (concat (map (\<lambda>(i, p). cp_row plan i p) (enumerate 0 plan)))] @
       guarded (cp_unused plan \<noteq> [])
        [Elem ''div'' [cls ''rr-cp-add'']
          ([Elem ''span'' [cls ''rr-cp-add-label'']
            [Text ''Add stage:'']] @
           concat (map (\<lambda>k.
              (let s = (getStage k) in
              [Elem ''button'' [cls ''rr-cp-add-btn'', On ''onClick'' (cp_addStage plan k)]
                [Elem ''span'' [cls ''rr-md-stage-chip'', Sty ''background'' (st_color s), Sty ''color'' ''#0a0a0c'']
                  [Text (st_short s)],
                 Text (st_label s)]]))
            (cp_unused plan)))])"

section \<open>The detail pane\<close>

datatype type_action =
    TChange "rollout_type \<Rightarrow> rollout_type" | TTaskDraft string | TRuleDraft string | TAddTask | TAddRule | TRemove

definition td_plan :: "rollout_type \<Rightarrow> plan_step list \<Rightarrow> type_action" where
  "td_plan ty plan = TChange (\<lambda>x. x\<lparr>rt_cascadePlan := plan\<rparr>)"

definition td_removeTask :: "rollout_type \<Rightarrow> nat \<Rightarrow> type_action" where
  "td_removeTask ty i = TChange (\<lambda>x. x\<lparr>rt_tasks := remove_at i (rt_tasks ty)\<rparr>)"

definition td_moveTask :: "rollout_type \<Rightarrow> nat \<Rightarrow> int \<Rightarrow> type_action" where
  "td_moveTask ty i dir = TChange (\<lambda>x. x\<lparr>rt_tasks := move i dir (rt_tasks ty)\<rparr>)"

definition td_editTask :: "rollout_type \<Rightarrow> nat \<Rightarrow> string \<Rightarrow> type_action" where
  "td_editTask ty i v = TChange (\<lambda>x. x\<lparr>rt_tasks := (rt_tasks ty)[i := v]\<rparr>)"

definition td_removeRule :: "rollout_type \<Rightarrow> nat \<Rightarrow> type_action" where
  "td_removeRule ty i = TChange (\<lambda>x. x\<lparr>rt_rules := remove_at i (rt_rules ty)\<rparr>)"

definition RolloutTypeDetail :: "rollout_type \<Rightarrow> string \<Rightarrow> string \<Rightarrow> type_action node" where
  "RolloutTypeDetail ty taskDraft ruleDraft =
    Elem ''div'' [cls ''rr-md-detail-inner'']
      [Elem ''header'' [cls ''rr-md-detail-head'']
        [Elem ''div'' [cls ''rr-md-detail-head-l'']
          [Badge (rt_tone ty) False False [Text (rt_short ty)],
           Elem ''div'' []
            [Elem ''div'' [cls ''rr-md-detail-eyebrow'']
              [Text (''ROLLOUT TYPE '' @ u_middot @ '' ''),
               Elem ''span'' [cls ''rr-mono'']
                [Text (rt_id ty)]],
             Elem ''h2'' []
              [Text (rt_name ty)]]],
         Elem ''div'' [cls ''rr-md-detail-head-r'']
          [Elem ''button'' [cls ''rr-btn rr-btn-ghost rr-btn-sm'']
            [Icon (ICONS ''copy'') 12,
             Text '' Duplicate''],
           Elem ''button'' [cls ''rr-btn rr-btn-ghost rr-btn-sm rr-btn-danger-ghost'', On ''onClick'' TRemove]
            [Icon (ICONS ''x'') 12,
             Text '' Delete'']]],
       Elem ''div'' [cls ''rr-md-section'']
        [Elem ''div'' [cls ''rr-md-section-title'']
          [Text ''Identity''],
         Elem ''div'' [cls ''rr-form-grid'']
          [Elem ''label'' [cls ''rr-field'']
            [Elem ''span'' []
              [Text ''Display name''],
             Elem ''input'' [Attr ''value'' (rt_name ty), OnVal ''onChange'' (\<lambda>v. (TChange (\<lambda>x. x\<lparr>rt_name := v\<rparr>)))] []],
           Elem ''label'' [cls ''rr-field'']
            [Elem ''span'' []
              [Text ''Short label''],
             Elem ''input'' [Attr ''value'' (rt_short ty), OnVal ''onChange'' (\<lambda>v. (TChange (\<lambda>x. x\<lparr>rt_short := v\<rparr>)))] []],
           Elem ''label'' [cls ''rr-field'']
            [Elem ''span'' []
              [Text ''Severity tone''],
             Elem ''select'' [Attr ''value'' (rt_tone ty), OnVal ''onChange'' (\<lambda>v. (TChange (\<lambda>x. x\<lparr>rt_tone := v\<rparr>)))]
              [Elem ''option'' [Attr ''value'' ''neutral'']
                [Text ''Neutral''],
               Elem ''option'' [Attr ''value'' ''info'']
                [Text ''Info''],
               Elem ''option'' [Attr ''value'' ''warn'']
                [Text ''Warning''],
               Elem ''option'' [Attr ''value'' ''danger'']
                [Text ''Danger'']]],
           Elem ''div'' [cls ''rr-field'']
            [Elem ''span'' []
              [Text ''Announce policy '',
               Elem ''em'' []
                [Text (''(derived from cascade '' @ u_middot @ '' read-only)'')]],
             Elem ''div'' [cls ''rr-md-derived'']
              [Icon (ICONS ''bolt'') 12,
               Elem ''span'' [cls ''rr-mono'']
                [Text (let s = deriveAnnouncePolicy (Some ty) in if s = [] then u_mdash else s)]]]]],
       Elem ''div'' [cls ''rr-md-section'']
        [Elem ''div'' [cls ''rr-md-section-title'']
          [Text ''Cascade plan '',
           Elem ''span'' [cls ''rr-muted'']
            [Text ''('',
             Text (show_nat (length (rt_cascadePlan ty))),
             Text '' stage'',
             Text (if ((length (rt_cascadePlan ty)) \<noteq> 1) then ''s'' else []),
             Text '')'']],
         Elem ''p'' [cls ''rr-md-section-hint'']
          [Text ''Ordered list of stages this rollout type goes through. The first stage runs at start; each subsequent stage runs '',
           Elem ''em'' []
            [Text ''delay-hours''],
           Text ('' later. Announce policy and pair-requirement come from each stage'' @ [CHR 0x27] @ ''s own definition.'')],
         lift_node (td_plan ty) (CascadePlanEditor (rt_cascadePlan ty))],
       Elem ''div'' [cls ''rr-md-section'']
        [Elem ''div'' [cls ''rr-md-section-title'']
          [Text ''Rules '',
           Elem ''span'' [cls ''rr-muted'']
            [Text ''('',
             Text (show_nat (length (rt_rules ty))),
             Text '')'']],
         Elem ''ul'' [cls ''rr-md-rules'']
          (map (\<lambda>(i, r).
              Elem ''li'' []
                [Icon (ICONS ''check'') 12,
                 Elem ''span'' []
                  [Text r],
                 Elem ''button'' [cls ''rr-md-row-x'', On ''onClick'' (td_removeRule ty i)]
                  [Icon (ICONS ''x'') 11]])
            (enumerate 0 (rt_rules ty))),
         Elem ''div'' [cls ''rr-md-row-add'']
          [Elem ''input'' [Attr ''value'' ruleDraft, Attr ''placeholder'' (''Add a rule'' @ u_ellipsis), OnVal ''onChange'' (\<lambda>v. (TRuleDraft v)), On ''onKeyDown:Enter'' TAddRule] [],
           Elem ''button'' [cls ''rr-btn rr-btn-ghost rr-btn-sm'', On ''onClick'' TAddRule]
            [Icon (ICONS ''plus'') 11,
             Text '' Add rule'']]],
       Elem ''div'' [cls ''rr-md-section'']
        [Elem ''div'' [cls ''rr-md-section-title'']
          [Text ''Inherited tasks '',
           Elem ''span'' [cls ''rr-muted'']
            [Text ''('',
             Text (show_nat (length (rt_tasks ty))),
             Text '')'']],
         Elem ''p'' [cls ''rr-md-section-hint'']
          [Text ''These tasks are copied into every new rollout of this type. Drag-order matters.''],
         Elem ''ol'' [cls ''rr-md-tasks'']
          (map (\<lambda>(i, t).
              Elem ''li'' [cls ''rr-md-task'']
                [Elem ''span'' [cls ''rr-md-task-no rr-mono'']
                  [Text (padStart0 2 (show_nat (i + 1)))],
                 Elem ''input'' [Attr ''value'' t, OnVal ''onChange'' (\<lambda>v. (td_editTask ty i v))] [],
                 Elem ''div'' [cls ''rr-md-task-tools'']
                  [Elem ''button'' [cls ''rr-icon-btn'', On ''onClick'' (td_moveTask ty i (- 1)), Attr ''title'' ''Move up'']
                    [Icon_full (ICONS ''chev'') 12 (16 / 10) ''rr-rot-270'' ''none''],
                   Elem ''button'' [cls ''rr-icon-btn'', On ''onClick'' (td_moveTask ty i 1), Attr ''title'' ''Move down'']
                    [Icon_full (ICONS ''chev'') 12 (16 / 10) ''rr-rot-90'' ''none''],
                   Elem ''button'' [cls ''rr-icon-btn rr-md-row-x'', On ''onClick'' (td_removeTask ty i), Attr ''title'' ''Remove'']
                    [Icon (ICONS ''x'') 12]]])
            (enumerate 0 (rt_tasks ty))),
         Elem ''div'' [cls ''rr-md-row-add'']
          [Elem ''input'' [Attr ''value'' taskDraft, Attr ''placeholder'' (''Add a task'' @ u_ellipsis), OnVal ''onChange'' (\<lambda>v. (TTaskDraft v)), On ''onKeyDown:Enter'' TAddTask] [],
           Elem ''button'' [cls ''rr-btn rr-btn-ghost rr-btn-sm'', On ''onClick'' TAddTask]
            [Icon (ICONS ''plus'') 11,
             Text '' Add task'']]]]"

section \<open>The editor\<close>

record types_state = "rollout_type md_state" +
  td_taskDraft :: string
  td_ruleDraft :: string

definition types_init :: "nat \<Rightarrow> types_state" where
  "types_init now = \<lparr>md_items = ROLLOUT_TYPES, md_selectedId = md_first rt_id ROLLOUT_TYPES, md_clock = now,
     td_taskDraft = [], td_ruleDraft = []\<rparr>"

definition new_type :: "string \<Rightarrow> nat \<Rightarrow> rollout_type" where
  "new_type i n = \<lparr>rt_id = i, rt_name = ''new rollout type'', rt_short = ''new'', rt_tone = ''neutral'',
     rt_cascadePlan = [\<lparr>ps_stage = ''non-prod'', ps_delayHours = 0\<rparr>], rt_announce = [], rt_rules = [], rt_tasks = []\<rparr>"

definition types_item :: "rollout_type \<Rightarrow> 'd md_action node list" where
  "types_item t =
    [Badge (rt_tone t) False False [Text (rt_short t)],
     Elem ''div'' [cls ''rr-md-list-body'']
      [Elem ''div'' [cls ''rr-md-list-name'']
        [Text (rt_name t)],
       Elem ''div'' [cls ''rr-md-list-meta'']
        [Elem ''span'' []
          [Text (if 1 < length (rt_cascadePlan t) then ((''cascade '' @ u_middot @ '' '') @ (show_int (length (rt_cascadePlan t))) @ '' stages'') else ''single-stage'')],
         Elem ''span'' [cls ''rr-md-list-sep'']
          [Text u_middot],
         Elem ''span'' [cls ''rr-mono'']
          [Text (show_nat (length (rt_tasks t))),
           Text '' tasks'']]]]"

definition types_pane :: "types_state \<Rightarrow> type_action node list option" where
  "types_pane st = map_option (\<lambda>ty. [RolloutTypeDetail ty (td_taskDraft st) (td_ruleDraft st)]) (md_selected rt_id st)"

fun types_detail_act :: "type_action \<Rightarrow> types_state \<Rightarrow> types_state" where
  "types_detail_act (TChange patch) st = md_update rt_id patch st"
| "types_detail_act (TTaskDraft v) st = st\<lparr>td_taskDraft := v\<rparr>"
| "types_detail_act (TRuleDraft v) st = st\<lparr>td_ruleDraft := v\<rparr>"
| "types_detail_act TAddTask st =
     (case md_selected rt_id st of
        None \<Rightarrow> st
      | Some ty \<Rightarrow>
          if trim (td_taskDraft st) = [] then st
          else (md_update rt_id (\<lambda>x. x\<lparr>rt_tasks := rt_tasks ty @ [trim (td_taskDraft st)]\<rparr>) st)\<lparr>td_taskDraft := []\<rparr>)"
| "types_detail_act TAddRule st =
     (case md_selected rt_id st of
        None \<Rightarrow> st
      | Some ty \<Rightarrow>
          if trim (td_ruleDraft st) = [] then st
          else (md_update rt_id (\<lambda>x. x\<lparr>rt_rules := rt_rules ty @ [trim (td_ruleDraft st)]\<rparr>) st)\<lparr>td_ruleDraft := []\<rparr>)"
| "types_detail_act TRemove st =
     (case md_selected rt_id st of None \<Rightarrow> st | Some ty \<Rightarrow> md_remove rt_id (rt_id ty) st)"

definition RolloutTypesEditor :: "types_state \<Rightarrow> type_action md_action node option" where
  "RolloutTypesEditor = md_view rt_id ''New rollout type'' types_item types_pane"

definition types_reset :: "types_state \<Rightarrow> types_state" where
  "types_reset st = st\<lparr>td_taskDraft := [], td_ruleDraft := []\<rparr>"

definition types_act :: "type_action md_action \<Rightarrow> types_state \<Rightarrow> types_state" where
  "types_act = md_act ''type-'' new_type types_reset types_detail_act"

section \<open>What the plan editor does\<close>

definition plan_ok :: "plan_step list \<Rightarrow> bool" where
  "plan_ok plan \<longleftrightarrow> distinct (map ps_stage plan) \<and> set (map ps_stage plan) \<subseteq> fst ` set STAGE"

text \<open>The plans one edit leads to.\<close>

inductive plan_edit :: "plan_step list \<Rightarrow> plan_step list \<Rightarrow> bool" for plan :: "plan_step list" where
  stage: "i < length plan \<Longrightarrow> v \<in> fst ` set STAGE \<Longrightarrow> v \<notin> set (map ps_stage plan) \<or> v = ps_stage (plan ! i) \<Longrightarrow>
    plan_edit plan (cp_update plan i (\<lambda>x. x\<lparr>ps_stage := v\<rparr>))"
| delay: "0 < i \<Longrightarrow> i < length plan \<Longrightarrow> plan_edit plan (cp_update plan i (\<lambda>x. x\<lparr>ps_delayHours := n\<rparr>))"
| up: "0 < i \<Longrightarrow> i < length plan \<Longrightarrow> plan_edit plan (cp_move plan i (- 1))"
| down: "Suc i < length plan \<Longrightarrow> plan_edit plan (cp_move plan i 1)"
| drop_stage: "i < length plan \<Longrightarrow> plan_edit plan (cp_remove plan i)"
| add: "k \<in> set (cp_unused plan) \<Longrightarrow> plan_edit plan (cp_addStage plan k)"

lemma offered_cp_row: "offered_list (cp_row plan i p) =
    (\<lambda>v. cp_update plan i (\<lambda>x. x\<lparr>ps_stage := v\<rparr>)) ` {v \<in> fst ` set STAGE. v \<in> set (map ps_stage plan) \<longrightarrow> v = ps_stage p} \<union>
    (if i = 0 then {} else insert (cp_move plan i (- 1)) (range (\<lambda>n. cp_update plan i (\<lambda>x. x\<lparr>ps_delayHours := n\<rparr>)))) \<union>
    (if i = length plan - 1 then {} else {cp_move plan i 1}) \<union> {cp_remove plan i}"
proof -
  have opts: "(\<Union>k \<in> fst ` set STAGE. set (if k \<in> ps_stage ` set plan \<longrightarrow> k = ps_stage p then [k] else [])) =
      {v \<in> fst ` set STAGE. v \<in> set (map ps_stage plan) \<longrightarrow> v = ps_stage p}" by auto
  show ?thesis by (simp add: cp_row_def Let_def opts) blast
qed

lemma offered_CascadePlanEditor: "offered (CascadePlanEditor plan) =
    (\<Union>i < length plan. offered_list (cp_row plan i (plan ! i))) \<union> cp_addStage plan ` set (cp_unused plan)"
proof -
  have e: "(\<Union>x \<in> set (enumerate 0 plan). offered_list (case x of (i, p) \<Rightarrow> cp_row plan i p)) =
      (\<Union>i < length plan. offered_list (cp_row plan i (plan ! i)))"
    by (auto simp: in_set_enumerate_eq) (metis fst_conv snd_conv add_0 in_set_enumerate_eq nth_enumerate_eq length_enumerate nth_mem lessThan_iff)
  have "offered (CascadePlanEditor plan) = (\<Union>x \<in> set (enumerate 0 plan). offered_list (case x of (i, p) \<Rightarrow> cp_row plan i p)) \<union>
      cp_addStage plan ` set (cp_unused plan)"
    by (auto simp: CascadePlanEditor_def Let_def split: if_splits)
  then show ?thesis unfolding e .
qed

lemma cp_row_edits:
  assumes "i < length plan" "q \<in> offered_list (cp_row plan i (plan ! i))"
  shows "plan_edit plan q"
  using assms(2) unfolding offered_cp_row
proof (elim UnE)
  assume "q \<in> (\<lambda>v. cp_update plan i (\<lambda>x. x\<lparr>ps_stage := v\<rparr>)) ` {v \<in> fst ` set STAGE. v \<in> set (map ps_stage plan) \<longrightarrow> v = ps_stage (plan ! i)}"
  then obtain v where "v \<in> fst ` set STAGE" "v \<in> set (map ps_stage plan) \<longrightarrow> v = ps_stage (plan ! i)"
    "q = cp_update plan i (\<lambda>x. x\<lparr>ps_stage := v\<rparr>)" by blast
  then show ?thesis using plan_edit.stage [OF assms(1), of v] by blast
next
  assume "q \<in> (if i = 0 then {} else insert (cp_move plan i (- 1)) (range (\<lambda>n. cp_update plan i (\<lambda>x. x\<lparr>ps_delayHours := n\<rparr>))))"
  then show ?thesis using plan_edit.up [OF _ assms(1)] plan_edit.delay [OF _ assms(1)] by (cases "i = 0") auto
next
  assume "q \<in> (if i = length plan - 1 then {} else {cp_move plan i 1})"
  then show ?thesis using plan_edit.down [of i plan] assms(1) by (cases "i = length plan - 1") auto
next
  assume "q \<in> {cp_remove plan i}"
  then show ?thesis using plan_edit.drop_stage [OF assms(1)] by simp
qed

lemma CascadePlanEditor_edits: "q \<in> offered (CascadePlanEditor plan) \<longleftrightarrow> plan_edit plan q"
proof
  assume "q \<in> offered (CascadePlanEditor plan)"
  then show "plan_edit plan q"
    unfolding offered_CascadePlanEditor using cp_row_edits plan_edit.add by auto
next
  have sub: "offered_list (cp_row plan i (plan ! i)) \<subseteq> offered (CascadePlanEditor plan)" if "i < length plan" for i
    using that by (auto simp: offered_CascadePlanEditor)
  assume "plan_edit plan q"
  then show "q \<in> offered (CascadePlanEditor plan)"
  proof cases
    case (stage i v)
    then show ?thesis using sub [of i] unfolding offered_cp_row by auto
  next
    case (delay i n)
    then show ?thesis using sub [of i] unfolding offered_cp_row by (simp add: image_subset_iff)
  next
    case (up i)
    then show ?thesis using sub [of i] unfolding offered_cp_row by simp
  next
    case (down i)
    then show ?thesis using sub [of i] unfolding offered_cp_row by (simp split: if_splits)
  next
    case (drop_stage i)
    then show ?thesis using sub [of i] unfolding offered_cp_row by simp
  qed (simp add: offered_CascadePlanEditor)
qed

lemma plan_ok_edit: "plan_edit plan q \<Longrightarrow> plan_ok plan \<Longrightarrow> plan_ok q"
proof (induction rule: plan_edit.induct)
  case (stage i v)
  let ?q = "cp_update plan i (\<lambda>x. x\<lparr>ps_stage := v\<rparr>)"
  have m: "map ps_stage ?q = (map ps_stage plan)[i := v]" using stage by (simp add: cp_update_def map_at_eq map_update)
  have "distinct ((map ps_stage plan)[i := v])"
    using stage by (intro distinct_list_update) (auto simp: plan_ok_def nth_list_update dest: in_set_takeD in_set_dropD)
  moreover have "set ((map ps_stage plan)[i := v]) \<subseteq> fst ` set STAGE"
    using stage set_update_subset_insert [of "map ps_stage plan" i v] unfolding plan_ok_def by blast
  ultimately show ?case unfolding plan_ok_def m by blast
next
  case (delay i n)
  have "map ps_stage (cp_update plan i (\<lambda>x. x\<lparr>ps_delayHours := n\<rparr>)) = (map ps_stage plan)[i := map ps_stage plan ! i]"
    using delay by (simp add: cp_update_def map_at_eq map_update)
  then show ?case using delay unfolding plan_ok_def by (metis list_update_id set_map)
next
  case (add k)
  then show ?case by (auto simp: plan_ok_def cp_unused_def cp_addStage_def Let_def)
next
  case (drop_stage i)
  then show ?case using distinct_map_remove_at [of ps_stage plan i] set_remove_at [of i plan] by (auto simp: plan_ok_def cp_remove_def)
qed (simp_all add: plan_ok_def cp_move_def distinct_map_move set_move)

section \<open>Reachable states of the editor\<close>

definition plain_type_patch :: "(rollout_type \<Rightarrow> rollout_type) \<Rightarrow> bool" where
  "plain_type_patch f \<longleftrightarrow> (\<forall>x. rt_id (f x) = rt_id x \<and> rt_cascadePlan (f x) = rt_cascadePlan x)"

abbreviation types_good :: "rollout_type list \<Rightarrow> bool" where
  "types_good \<equiv> list_all (\<lambda>t. plan_ok (rt_cascadePlan t))"

lemma offered_types_item: "offered_list (types_item t) = {}"
  by (simp add: types_item_def)

lemma td_plain:
  "td_removeTask ty i \<in> TChange ` Collect plain_type_patch" "td_moveTask ty i dir \<in> TChange ` Collect plain_type_patch"
  "td_editTask ty i v \<in> TChange ` Collect plain_type_patch" "td_removeRule ty i \<in> TChange ` Collect plain_type_patch"
  by (simp_all add: td_removeTask_def td_moveTask_def td_editTask_def td_removeRule_def plain_type_patch_def)

lemma offered_RolloutTypeDetail: "offered (RolloutTypeDetail ty td rd) \<subseteq>
    {TRemove, TAddTask, TAddRule} \<union> range TTaskDraft \<union> range TRuleDraft \<union> TChange ` Collect plain_type_patch \<union>
    td_plan ty ` Collect (plan_edit (rt_cascadePlan ty))"
  using td_plain CascadePlanEditor_edits
  by (simp add: RolloutTypeDetail_def Let_def) (auto simp: plain_type_patch_def)

lemma types_change_ok:
  assumes "md_ok rt_id pre st" "types_good (md_items st)"
    and "\<And>x. rt_id (f x) = rt_id x" "\<And>x. plan_ok (rt_cascadePlan x) \<Longrightarrow> plan_ok (rt_cascadePlan (f x))"
  shows "md_ok rt_id pre (md_update rt_id f st) \<and> types_good (md_items (md_update rt_id f st))"
  using assms by (simp add: md_ok_update md_update_all)

lemma types_draft_ok:
  "md_ok rt_id pre (st\<lparr>td_taskDraft := v\<rparr>) = md_ok rt_id pre st" "md_ok rt_id pre (st\<lparr>td_ruleDraft := v\<rparr>) = md_ok rt_id pre st"
  by (rule md_ok_cong; simp)+

interpretation types: md_editor rt_id "''type-''" new_type types_reset types_detail_act
  "''New rollout type''" types_item types_pane "types_init now" types_good "{}" for now
proof
  show "md_ok rt_id ''type-'' (types_init now)"
    by (simp add: md_ok_def types_init_def md_first_def ROLLOUT_TYPES_def)
  have "types_good ROLLOUT_TYPES" unfolding plan_ok_def by code_simp
  then show "types_good (md_items (types_init now))" by (simp add: types_init_def)
next
  fix st x ns d
  assume ok: "md_ok rt_id ''type-'' st" "types_good (md_items st)"
    and x: "md_selected rt_id st = Some x" and ns: "types_pane st = Some ns" "d \<in> offered_list ns"
  have gx: "plan_ok (rt_cascadePlan x)" using md_selected_mem [OF x] ok(2) by (auto simp: list_all_iff)
  consider "d = TRemove" | "d = TAddTask" | "d = TAddRule" | v where "d = TTaskDraft v" | v where "d = TRuleDraft v"
    | f where "d = TChange f" "plain_type_patch f" | q where "d = td_plan x q" "plan_edit (rt_cascadePlan x) q"
    using ns x offered_RolloutTypeDetail [of x "td_taskDraft st" "td_ruleDraft st"] by (auto simp: types_pane_def)
  then show "md_ok rt_id ''type-'' (types_detail_act d st) \<and> types_good (md_items (types_detail_act d st))"
  proof cases
    case 1
    then show ?thesis using ok x by (simp add: md_ok_remove md_remove_all)
  next
    case 2
    let ?f = "\<lambda>y. y\<lparr>rt_tasks := rt_tasks x @ [trim (td_taskDraft st)]\<rparr>"
    show ?thesis using types_change_ok [OF ok, of ?f] ok 2 x by (simp add: types_draft_ok)
  next
    case 3
    let ?f = "\<lambda>y. y\<lparr>rt_rules := rt_rules x @ [trim (td_ruleDraft st)]\<rparr>"
    show ?thesis using types_change_ok [OF ok, of ?f] ok 3 x by (simp add: types_draft_ok)
  next
    case 6
    then show ?thesis using types_change_ok [OF ok, of f] by (simp add: plain_type_patch_def)
  next
    case 7
    let ?f = "\<lambda>y. y\<lparr>rt_cascadePlan := q\<rparr>"
    show ?thesis using types_change_ok [OF ok, of ?f] plan_ok_edit [OF 7(2) gx] 7(1) by (simp add: td_plan_def)
  qed (use ok in \<open>simp_all add: types_draft_ok\<close>)
next
  fix st :: types_state and x
  assume "md_selected rt_id st = Some x"
  then show "types_pane st \<noteq> None" by (simp add: types_pane_def)
next
  have "plan_ok [\<lparr>ps_stage = ''non-prod'', ps_delayHours = 0\<rparr>]" unfolding plan_ok_def by code_simp
  then show "types_good (xs @ [new_type i (length xs)])" if "types_good xs" for xs i using that by (simp add: new_type_def)
qed (simp_all add: new_type_def offered_types_item types_reset_def)

section \<open>Properties\<close>

text \<open>
  The rollout types editor: in every state a user can reach, ids are distinct, the selection is valid,
  the view renders, and no cascade plan runs the same stage twice or names a stage that does not exist.
\<close>

theorem types_reachable:
  assumes "ui_reach RolloutTypesEditor (range MDTick) types_act (types_init now) st"
  shows "distinct (map rt_id (md_items st)) \<and> (md_selectedId st = None \<longleftrightarrow> md_items st = []) \<and> RolloutTypesEditor st \<noteq> None \<and>
    list_all (\<lambda>t. distinct (map ps_stage (rt_cascadePlan t)) \<and> set (map ps_stage (rt_cascadePlan t)) \<subseteq> fst ` set STAGE) (md_items st)"
proof -
  have r: "ui_reach (md_view rt_id ''New rollout type'' types_item types_pane) (range MDTick \<union> MDDetail ` {})
      (md_act ''type-'' new_type types_reset types_detail_act) (types_init now) st"
    using assms by (simp add: RolloutTypesEditor_def types_act_def)
  show ?thesis using types.reach_ok [OF r] by (auto simp: RolloutTypesEditor_def plan_ok_def list_all_iff)
qed

theorem types_reachable_witness:
  "distinct (map rt_id (md_items (types_act (MDTick 5) (types_init 1000)))) \<and> RolloutTypesEditor (types_act (MDTick 5) (types_init 1000)) \<noteq> None"
proof -
  have r: "ui_reach RolloutTypesEditor (range MDTick) types_act (types_init 1000) (types_act (MDTick 5) (types_init 1000))"
    by (rule ui_reach.act [OF ui_reach.init]) simp
  show ?thesis using types_reachable [OF r] by simp
qed

text \<open>
  The delay of the first stage: the second stage of a plan can be moved to the front together with its
  delay, and no edit changes the delay of the stage that is first, so a cascade whose first stage does not
  run at the start stays that way unless the stages are rearranged again.
\<close>

theorem cascade_first_delay_stuck:
  "b # a # rest \<in> offered (CascadePlanEditor (a # b # rest)) \<and>
   (q \<in> offered (CascadePlanEditor (p # ps)) \<and> length q = Suc (length ps) \<and> ps_stage (hd q) = ps_stage p \<and>
     ps_stage p \<notin> set (map ps_stage ps) \<longrightarrow> ps_delayHours (hd q) = ps_delayHours p)"
proof -
  have "cp_move (a # b # rest) 1 (- 1) = b # a # rest" by (simp add: cp_move_def move_def Let_def)
  then have up: "plan_edit (a # b # rest) (b # a # rest)" using plan_edit.up [of 1 "a # b # rest"] by simp
  have "ps_delayHours (hd q) = ps_delayHours p"
    if "plan_edit (p # ps) q" "length q = Suc (length ps)" "ps_stage (hd q) = ps_stage p" "ps_stage p \<notin> set (map ps_stage ps)"
    using that
  proof cases
    case (stage i v)
    then show ?thesis by (cases i) (auto simp: cp_update_def map_at_eq)
  next
    case (delay i n)
    then show ?thesis by (cases i) (auto simp: cp_update_def map_at_eq)
  next
    case (up i)
    have "ps_stage (hd q) \<in> set (map ps_stage ps) \<or> hd q = p"
      using up by (cases i) (auto simp: cp_move_def move_def Let_def hd_conv_nth nth_list_update split: if_splits nat.splits)
    then show ?thesis using that by auto
  next
    case (down i)
    have "ps_stage (hd q) \<in> set (map ps_stage ps) \<or> hd q = p"
      using down by (cases i) (auto simp: cp_move_def move_def Let_def hd_conv_nth nth_list_update split: if_splits nat.splits)
    then show ?thesis using that by auto
  next
    case (drop_stage i)
    then show ?thesis using that(2) by (simp add: cp_remove_def remove_at_eq)
  next
    case (add k)
    then show ?thesis by (simp add: cp_addStage_def Let_def)
  qed
  then show ?thesis using up unfolding CascadePlanEditor_edits by blast
qed

theorem cascade_first_delay_stuck_witness:
  "ps_delayHours (hd (cp_update [\<lparr>ps_stage = ''prod1'', ps_delayHours = 168\<rparr>, \<lparr>ps_stage = ''non-prod'', ps_delayHours = 0\<rparr>] 1
     (\<lambda>x. x\<lparr>ps_delayHours := 5\<rparr>))) = 168"
proof -
  let ?p = "\<lparr>ps_stage = ''prod1'', ps_delayHours = 168\<rparr>" and ?n = "\<lparr>ps_stage = ''non-prod'', ps_delayHours = 0\<rparr>"
  let ?q = "cp_update [?p, ?n] 1 (\<lambda>x. x\<lparr>ps_delayHours := 5\<rparr>)"
  have "?q \<in> offered (CascadePlanEditor [?p, ?n])"
    unfolding CascadePlanEditor_edits by (rule plan_edit.delay) simp_all
  then show ?thesis using cascade_first_delay_stuck [of ?n ?p "[]" ?q ?p "[?n]"] by (simp add: cp_update_def map_at_eq)
qed

end
