(* ===== verification/RR_Editors.thy ===== *)
theory RR_Editors
  imports RR_MasterDetail
begin

text \<open>
  The remaining list-and-detail editors of \<open>src/design/project/master-data.jsx\<close>: stages (kept in
  cascade order), saved filters, actors and locks.
\<close>

section \<open>Stages\<close>

record stage_entry =
  se_id :: string
  se_key :: string
  se_label :: string
  se_short :: string
  se_color :: string
  se_description :: string
  se_region :: string
  se_requiresPair :: bool
  se_announceChannel :: string
  se_minAdvanceHours :: int
  se_order :: int
  se_enabled :: bool

definition STAGE_COLORS :: "string list" where
  "STAGE_COLORS = [''#a78bfa'', ''#5eead4'', ''#fbbf24'', ''#fb7185'', ''#7c8cff'', ''#34d399'', ''#f472b6'', ''#38bdf8'']"

definition defaultStageDescription :: "string \<Rightarrow> string" where
  "defaultStageDescription key = (case map_of
     [(''non-prod'', ''Internal test cluster. Used as the first stage of every cascade.''),
      (''prod1'', ''Frankfurt-am-Main production. Carries ~60% of EU traffic.''),
      (''prod2'', ''Zeus production. EU failover region.'')] key of None \<Rightarrow> [] | Some d \<Rightarrow> d)"

definition defaultStageRegion :: "string \<Rightarrow> string" where
  "defaultStageRegion key = (case map_of
     [(''non-prod'', ''Internal''), (''prod1'', ''Frankfurt-am-Main''), (''prod2'', ''Zeus'')] key of None \<Rightarrow> u_mdash | Some d \<Rightarrow> d)"

definition stage_entry_of :: "nat \<Rightarrow> string \<times> stage_meta \<Rightarrow> stage_entry" where
  "stage_entry_of i e = (let key = fst e; s = snd e in
     \<lparr>se_id = key, se_key = key, se_label = st_label s, se_short = st_short s, se_color = st_color s,
      se_description = defaultStageDescription key, se_region = defaultStageRegion key,
      se_requiresPair = (key \<noteq> ''non-prod''),
      se_announceChannel = (if key = ''non-prod'' then ''TMS_NP'' else ''TMS_PROD''),
      se_minAdvanceHours = (if key = ''non-prod'' then 1 else 24), se_order = int i, se_enabled = True\<rparr>)"

definition new_stage :: "string \<Rightarrow> nat \<Rightarrow> stage_entry" where
  "new_stage i n = \<lparr>se_id = i, se_key = ''prod3'', se_label = ''prod3 '' @ u_middot @ '' new region'', se_short = ''P3'',
     se_color = STAGE_COLORS ! (n mod length STAGE_COLORS), se_description = [], se_region = u_mdash, se_requiresPair = True,
     se_announceChannel = ''TMS_PROD'', se_minAdvanceHours = 24, se_order = int n, se_enabled = True\<rparr>"

text \<open>\<open>next.map((s, k) => ({ ...s, order: k }))\<close>\<close>

definition renumber :: "stage_entry list \<Rightarrow> stage_entry list" where
  "renumber xs = map (\<lambda>(k, s). s\<lparr>se_order := int k\<rparr>) (enumerate 0 xs)"

fun find_index :: "('a \<Rightarrow> bool) \<Rightarrow> 'a list \<Rightarrow> nat option" where
  "find_index P [] = None"
| "find_index P (x # xs) = (if P x then Some 0 else map_option Suc (find_index P xs))"

text \<open>The id is that of the selected entry, which is found.\<close>

definition stages_move :: "string \<Rightarrow> int \<Rightarrow> stage_entry list \<Rightarrow> stage_entry list" where
  "stages_move i dir prev = (case find_index (\<lambda>s. se_id s = i) prev of
     None \<Rightarrow> prev
   | Some k \<Rightarrow>
       let j = int k + dir in
       if j < 0 \<or> j \<ge> int (length prev) then prev else renumber (move k dir prev))"

definition is_key_char :: "char \<Rightarrow> bool" where
  "is_key_char c = (let n = char_code c in (97 \<le> n \<and> n \<le> 122) \<or> (48 \<le> n \<and> n \<le> 57) \<or> n = 45)"

datatype stage_action = SgChange "stage_entry \<Rightarrow> stage_entry" | SgMove int | SgRemove

definition StageDetail :: "stage_entry \<Rightarrow> stage_action node" where
  "StageDetail selected =
    Elem ''div'' [cls ''rr-md-detail-inner'']
      [Elem ''header'' [cls ''rr-md-detail-head'']
        [Elem ''div'' [cls ''rr-md-detail-head-l'']
          [Elem ''span'' [cls ''rr-md-stage-chip rr-md-stage-chip-lg'', Sty ''background'' (se_color selected), Sty ''color'' ''#0a0a0c'']
            [Text (se_short selected)],
           Elem ''div'' []
            [Elem ''div'' [cls ''rr-md-detail-eyebrow'']
              [Text (''STAGE '' @ u_middot @ '' ''),
               Elem ''span'' [cls ''rr-mono'']
                [Text (se_key selected)],
               Text ('' '' @ u_middot @ '' order ''),
               Text (show_int (se_order selected + 1))],
             Elem ''h2'' []
              [Text (se_label selected)]]],
         Elem ''div'' [cls ''rr-md-detail-head-r'']
          [Elem ''button'' [cls ''rr-icon-btn'', On ''onClick'' (SgMove (- 1)), Attr ''title'' ''Move up in cascade'']
            [Icon_full (ICONS ''chev'') 12 (16 / 10) ''rr-rot-270'' ''none''],
           Elem ''button'' [cls ''rr-icon-btn'', On ''onClick'' (SgMove 1), Attr ''title'' ''Move down in cascade'']
            [Icon_full (ICONS ''chev'') 12 (16 / 10) ''rr-rot-90'' ''none''],
           Elem ''button'' [cls ''rr-btn rr-btn-ghost rr-btn-sm rr-btn-danger-ghost'', On ''onClick'' SgRemove]
            [Icon (ICONS ''x'') 12,
             Text '' Delete'']]],
       Elem ''div'' [cls ''rr-md-section'']
        [Elem ''div'' [cls ''rr-md-section-title'']
          [Text ''Identity''],
         Elem ''div'' [cls ''rr-form-grid'']
          [Elem ''label'' [cls ''rr-field'']
            [Elem ''span'' []
              [Text ''Key '',
               Elem ''em'' []
                [Text (''(referenced by rollouts '' @ u_mdash @ '' cannot collide)'')]],
             Elem ''input'' [Attr ''value'' (se_key selected), OnVal ''onChange'' (\<lambda>v. (SgChange (\<lambda>x. x\<lparr>se_key := (filter is_key_char (toLowerCase v))\<rparr>)))] []],
           Elem ''label'' [cls ''rr-field'']
            [Elem ''span'' []
              [Text ''Short tag (2 chars)''],
             Elem ''input'' [Attr ''value'' (se_short selected), AttrN ''maxLength'' 3, OnVal ''onChange'' (\<lambda>v. (SgChange (\<lambda>x. x\<lparr>se_short := (toUpperCase v)\<rparr>)))] []],
           Elem ''label'' [cls ''rr-field rr-field-wide'']
            [Elem ''span'' []
              [Text ''Display label''],
             Elem ''input'' [Attr ''value'' (se_label selected), OnVal ''onChange'' (\<lambda>v. (SgChange (\<lambda>x. x\<lparr>se_label := v\<rparr>)))] []],
           Elem ''label'' [cls ''rr-field'']
            [Elem ''span'' []
              [Text ''Region / location''],
             Elem ''input'' [Attr ''value'' (se_region selected), OnVal ''onChange'' (\<lambda>v. (SgChange (\<lambda>x. x\<lparr>se_region := v\<rparr>))), Attr ''placeholder'' ''Frankfurt-am-Main''] []],
           Elem ''label'' [cls ''rr-field'']
            [Elem ''span'' []
              [Text ''Enabled''],
             Elem ''div'' [cls ''rr-switch-row'']
              [Elem ''button'' [cls (''rr-switch '' @ (if (se_enabled selected) then ''is-on'' else [])), On ''onClick'' (SgChange (\<lambda>x. x\<lparr>se_enabled := (\<not> (se_enabled selected))\<rparr>)), AttrB ''aria-pressed'' (se_enabled selected)]
                [Elem ''span'' [cls ''rr-switch-thumb''] []],
               Elem ''span'' [cls ''rr-switch-label'']
                [Text (if (se_enabled selected) then ''Selectable for new rollouts'' else ''Hidden from new rollouts'')]]],
           Elem ''label'' [cls ''rr-field rr-field-wide'']
            [Elem ''span'' []
              [Text ''Description''],
             Elem ''textarea'' [AttrN ''rows'' 2, Attr ''value'' (se_description selected), OnVal ''onChange'' (\<lambda>v. (SgChange (\<lambda>x. x\<lparr>se_description := v\<rparr>)))] []],
           Elem ''div'' [cls ''rr-field rr-field-wide'']
            [Elem ''span'' []
              [Text ''Timeline color''],
             Elem ''div'' [cls ''rr-color-row'']
              (map (\<lambda>c.
                  Elem ''button'' [cls (''rr-color-sw '' @ (if ((se_color selected) = c) then ''is-on'' else [])), Sty ''background'' c, On ''onClick'' (SgChange (\<lambda>x. x\<lparr>se_color := c\<rparr>))] [])
                STAGE_COLORS)]]],
       Elem ''div'' [cls ''rr-md-section'']
        [Elem ''div'' [cls ''rr-md-section-title'']
          [Text ''Execution policy''],
         Elem ''div'' [cls ''rr-form-grid'']
          [Elem ''label'' [cls ''rr-field'']
            [Elem ''span'' []
              [Text ''Requires execution pair''],
             Elem ''div'' [cls ''rr-switch-row'']
              [Elem ''button'' [cls (''rr-switch '' @ (if (se_requiresPair selected) then ''is-on'' else [])), On ''onClick'' (SgChange (\<lambda>x. x\<lparr>se_requiresPair := (\<not> (se_requiresPair selected))\<rparr>)), AttrB ''aria-pressed'' (se_requiresPair selected)]
                [Elem ''span'' [cls ''rr-switch-thumb''] []],
               Elem ''span'' [cls ''rr-switch-label'']
                [Text (if (se_requiresPair selected) then ''Two actors required'' else ''Single actor allowed'')]]],
           Elem ''label'' [cls ''rr-field'']
            [Elem ''span'' []
              [Text ''Announce channel''],
             Elem ''select'' [Attr ''value'' (se_announceChannel selected), OnVal ''onChange'' (\<lambda>v. (SgChange (\<lambda>x. x\<lparr>se_announceChannel := v\<rparr>)))]
              [Elem ''option'' [Attr ''value'' ''TMS_NP'']
                [Text ''TMS_NP''],
               Elem ''option'' [Attr ''value'' ''TMS_PROD'']
                [Text ''TMS_PROD''],
               Elem ''option'' [Attr ''value'' ''none'']
                [Text (u_mdash @ '' none '' @ u_mdash)]]],
           Elem ''label'' [cls ''rr-field'']
            [Elem ''span'' []
              [Text ''Min. advance notice (hours)''],
             Elem ''input'' [Attr ''type'' ''number'', Attr ''min'' ''0'', AttrN ''value'' (of_int (se_minAdvanceHours selected)), OnNum ''onChange'' (\<lambda>n. (SgChange (\<lambda>x. x\<lparr>se_minAdvanceHours := n\<rparr>)))] []]]],
       Elem ''div'' [cls ''rr-md-section'']
        [Elem ''div'' [cls ''rr-md-section-title'']
          [Text ''Preview''],
         Elem ''div'' [cls ''rr-md-stage-preview'']
          [Elem ''div'' [cls ''rr-md-stage-preview-pill'', Sty ''borderColor'' (se_color selected), Sty ''background'' ''rgba(255,255,255,.02)'']
            [Elem ''span'' [cls ''rr-pill-tag'', Sty ''background'' (se_color selected)]
              [Text (se_short selected)],
             Elem ''div'' [cls ''rr-pill-body'']
              [Elem ''span'' [cls ''rr-pill-time'', Sty ''color'' (se_color selected)]
                [Text ''10:00''],
               Elem ''span'' [cls ''rr-pill-meta'']
                [Text ''+2h window'']]],
           Elem ''div'' [cls ''rr-md-stage-preview-meta'']
            [Elem ''div'' []
              [Elem ''span'' [cls ''rr-muted'']
                [Text ''Cascade order:''],
               Text '' '',
               Elem ''strong'' []
                [Text ''#'',
                 Text (show_int (se_order selected + 1))]],
             Elem ''div'' []
              [Elem ''span'' [cls ''rr-muted'']
                [Text ''Announce:''],
               Text '' '',
               Elem ''strong'' []
                [Text (se_announceChannel selected)],
               Text ('' '' @ u_middot @ '' ''),
               Text (show_int (se_minAdvanceHours selected)),
               Text ''h''],
             Elem ''div'' []
              [Elem ''span'' [cls ''rr-muted'']
                [Text ''Pair:''],
               Text '' '',
               Elem ''strong'' []
                [Text (if (se_requiresPair selected) then ''required'' else ''optional'')]]]]]]"

definition stages_item :: "stage_entry \<Rightarrow> 'd md_action node list" where
  "stages_item s =
    [Elem ''span'' [cls ''rr-md-stage-chip'', Sty ''background'' (se_color s), Sty ''color'' ''#0a0a0c'']
      [Text (se_short s)],
     Elem ''div'' [cls ''rr-md-list-body'']
      [Elem ''div'' [cls ''rr-md-list-name'']
        [Text (se_label s)],
       Elem ''div'' [cls ''rr-md-list-meta'']
        ([Elem ''span'' [cls ''rr-mono'']
          [Text (se_key s)],
         Elem ''span'' [cls ''rr-md-list-sep'']
          [Text u_middot],
         Elem ''span'' []
          [Text (se_region s)]] @
         guarded (\<not> (se_enabled s))
          [Elem ''span'' [cls ''rr-md-list-sep'']
            [Text u_middot],
           Elem ''span'' [Sty ''color'' ''#fca5a5'']
            [Text ''disabled'']])]]"

type_synonym stages_state = "stage_entry md_state"

definition stages_init :: "nat \<Rightarrow> stages_state" where
  "stages_init now =
     (let xs = map (\<lambda>(i, e). stage_entry_of i e) (enumerate 0 STAGE) in
      \<lparr>md_items = xs, md_selectedId = md_first se_id xs, md_clock = now\<rparr>)"

fun stages_detail_act :: "stage_action \<Rightarrow> stages_state \<Rightarrow> stages_state" where
  "stages_detail_act (SgChange patch) st = md_update se_id patch st"
| "stages_detail_act (SgMove dir) st =
     (case md_selected se_id st of None \<Rightarrow> st | Some s \<Rightarrow> st\<lparr>md_items := stages_move (se_id s) dir (md_items st)\<rparr>)"
| "stages_detail_act SgRemove st =
     (case md_selected se_id st of
        None \<Rightarrow> st
      | Some s \<Rightarrow> (let st' = md_remove se_id (se_id s) st in st'\<lparr>md_items := renumber (md_items st')\<rparr>))"

definition stages_pane :: "stages_state \<Rightarrow> stage_action node list option" where
  "stages_pane st = map_option (\<lambda>s. [StageDetail s]) (md_selected se_id st)"

definition StagesEditor :: "stages_state \<Rightarrow> stage_action md_action node option" where
  "StagesEditor = md_view se_id ''New stage'' stages_item stages_pane"

definition stages_act :: "stage_action md_action \<Rightarrow> stages_state \<Rightarrow> stages_state" where
  "stages_act = md_act ''stage-'' new_stage id stages_detail_act"

section \<open>Saved filters\<close>

record filter_criteria =
  fc_products :: "string list"
  fc_types :: "string list"
  fc_stages :: "string list"
  fc_actors :: "string list"
  fc_statuses :: "string list"

record filter_entry =
  fe_id :: string
  fe_name :: string
  fe_description :: string
  fe_icon :: string
  fe_color :: string
  fe_pinned :: bool
  fe_criteria :: filter_criteria

record status_choice =
  so_id :: string
  so_label :: string
  so_tone :: string

definition FILTER_ICONS :: "string list" where
  "FILTER_ICONS = [''timeline'', ''rollout'', ''lock'', ''bolt'', ''warn'', ''user'', ''people'']"

definition FILTER_STATUSES :: "status_choice list" where
  "FILTER_STATUSES =
     [\<lparr>so_id = ''scheduled'', so_label = ''scheduled'', so_tone = ''info''\<rparr>,
      \<lparr>so_id = ''active'', so_label = ''in flight'', so_tone = ''ok''\<rparr>,
      \<lparr>so_id = ''done'', so_label = ''done'', so_tone = ''neutral''\<rparr>,
      \<lparr>so_id = ''blocked'', so_label = ''blocked'', so_tone = ''danger''\<rparr>,
      \<lparr>so_id = ''failed'', so_label = ''failed'', so_tone = ''danger''\<rparr>]"

definition no_criteria :: filter_criteria where
  "no_criteria = \<lparr>fc_products = [], fc_types = [], fc_stages = [], fc_actors = [], fc_statuses = []\<rparr>"

definition FILTERS_INIT :: "filter_entry list" where
  "FILTERS_INIT =
     [\<lparr>fe_id = ''f-1'', fe_name = ''My active rollouts'',
        fe_description = ''Rollouts where I'' @ [CHR 0x27] @ ''m in the executing pair, status active or scheduled.'',
        fe_icon = ''rollout'', fe_color = ''#7c8cff'', fe_pinned = True,
        fe_criteria = no_criteria\<lparr>fc_actors := [''luc''], fc_statuses := [''scheduled'', ''active'']\<rparr>\<rparr>,
      \<lparr>fe_id = ''f-2'', fe_name = ''Hotfixes only'',
        fe_description = ''All hotfix-type rollouts across products. Useful when the master branch is locked.'',
        fe_icon = ''warn'', fe_color = ''#ef4444'', fe_pinned = True,
        fe_criteria = no_criteria\<lparr>fc_types := [''tms-ssp-hf'', ''operator-hf'']\<rparr>\<rparr>,
      \<lparr>fe_id = ''f-3'', fe_name = ''Frankfurt brokers'',
        fe_description = ''Anything touching operator or concentrator on the Frankfurt region.'',
        fe_icon = ''bolt'', fe_color = ''#5eead4'', fe_pinned = False,
        fe_criteria = no_criteria\<lparr>fc_products := [''operator'', ''concentrator''], fc_stages := [''prod1'']\<rparr>\<rparr>,
      \<lparr>fe_id = ''f-4'', fe_name = ''Blocked / awaiting'',
        fe_description = ''Rollouts blocked by a lock or paused.'',
        fe_icon = ''lock'', fe_color = ''#fbbf24'', fe_pinned = False,
        fe_criteria = no_criteria\<lparr>fc_statuses := [''blocked'']\<rparr>\<rparr>]"

definition new_filter :: "string \<Rightarrow> nat \<Rightarrow> filter_entry" where
  "new_filter i n = \<lparr>fe_id = i, fe_name = ''New filter'', fe_description = [], fe_icon = ''timeline'', fe_color = ''#7c8cff'',
     fe_pinned = False, fe_criteria = no_criteria\<rparr>"

definition toggle_criterion :: "string \<Rightarrow> string \<Rightarrow> filter_criteria \<Rightarrow> filter_criteria" where
  "toggle_criterion key val c =
     (if key = ''products'' then c\<lparr>fc_products := toggle val (fc_products c)\<rparr>
      else if key = ''types'' then c\<lparr>fc_types := toggle val (fc_types c)\<rparr>
      else if key = ''stages'' then c\<lparr>fc_stages := toggle val (fc_stages c)\<rparr>
      else if key = ''actors'' then c\<lparr>fc_actors := toggle val (fc_actors c)\<rparr>
      else c\<lparr>fc_statuses := toggle val (fc_statuses c)\<rparr>)"

definition fd_toggleIn :: "filter_entry \<Rightarrow> string \<Rightarrow> string \<Rightarrow> filter_entry entry_action" where
  "fd_toggleIn selected key val = EntryChange (\<lambda>x. x\<lparr>fe_criteria := toggle_criterion key val (fe_criteria selected)\<rparr>)"

definition filter_icon :: "string \<Rightarrow> string option" where
  "filter_icon i = (case ICONS i of None \<Rightarrow> ICONS ''timeline'' | Some d \<Rightarrow> Some d)"

definition count_text :: "'a list \<Rightarrow> string \<Rightarrow> string \<Rightarrow> string list" where
  "count_text xs noun plural = guarded (xs \<noteq> []) [show_nat (length xs) @ noun @ (if 1 < length xs then plural else [])]"

definition filterSummary :: "filter_entry \<Rightarrow> string" where
  "filterSummary f =
     (let c = fe_criteria f;
          parts = count_text (fc_products c) '' product'' ''s'' @ count_text (fc_types c) '' type'' ''s'' @
            count_text (fc_stages c) '' stage'' ''s'' @ count_text (fc_actors c) '' actor'' ''s'' @
            count_text (fc_statuses c) '' status'' ''es''
      in if parts = [] then ''no restrictions'' else join_with ('' '' @ u_middot @ '' '') parts)"

definition query_bit :: "string \<Rightarrow> string list \<Rightarrow> string list" where
  "query_bit name xs = guarded (xs \<noteq> []) [name @ '':'' @ join_with '','' xs]"

definition filterToQuery :: "filter_entry \<Rightarrow> string" where
  "filterToQuery f =
     (let c = fe_criteria f;
          bits = query_bit ''product'' (fc_products c) @ query_bit ''type'' (fc_types c) @ query_bit ''stage'' (fc_stages c) @
            query_bit ''actor'' (fc_actors c) @ query_bit ''status'' (fc_statuses c)
      in if bits = [] then ''*'' else join_with '' AND '' bits)"

definition FilterDetail :: "filter_entry \<Rightarrow> filter_entry entry_action node" where
  "FilterDetail selected =
    Elem ''div'' [cls ''rr-md-detail-inner'']
      [Elem ''header'' [cls ''rr-md-detail-head'']
        [Elem ''div'' [cls ''rr-md-detail-head-l'']
          [Elem ''span'' [cls ''rr-md-filter-ic rr-md-filter-ic-lg'', Sty ''background'' ((fe_color selected) @ ''22''), Sty ''color'' (fe_color selected), Sty ''borderColor'' ((fe_color selected) @ ''55'')]
            [Icon (filter_icon (fe_icon selected)) 18],
           Elem ''div'' []
            [Elem ''div'' [cls ''rr-md-detail-eyebrow'']
              [Text (''FILTER '' @ u_middot @ '' ''),
               Elem ''span'' [cls ''rr-mono'']
                [Text (fe_id selected)]],
             Elem ''h2'' []
              [Text (fe_name selected)]]],
         Elem ''div'' [cls ''rr-md-detail-head-r'']
          [Elem ''button'' [cls (''rr-btn rr-btn-ghost rr-btn-sm '' @ (if (fe_pinned selected) then ''is-on-ghost'' else [])), On ''onClick'' (EntryChange (\<lambda>x. x\<lparr>fe_pinned := (\<not> (fe_pinned selected))\<rparr>))]
            [Icon (ICONS ''bolt'') 12,
             Text '' '',
             Text (if (fe_pinned selected) then ''Unpin from sidebar'' else ''Pin to sidebar'')],
           Elem ''button'' [cls ''rr-btn rr-btn-ghost rr-btn-sm rr-btn-danger-ghost'', On ''onClick'' EntryRemove]
            [Icon (ICONS ''x'') 12,
             Text '' Delete'']]],
       Elem ''div'' [cls ''rr-md-section'']
        [Elem ''div'' [cls ''rr-md-section-title'']
          [Text ''Identity''],
         Elem ''div'' [cls ''rr-form-grid'']
          [Elem ''label'' [cls ''rr-field rr-field-wide'']
            [Elem ''span'' []
              [Text ''Name''],
             Elem ''input'' [Attr ''value'' (fe_name selected), OnVal ''onChange'' (\<lambda>v. (EntryChange (\<lambda>x. x\<lparr>fe_name := v\<rparr>)))] []],
           Elem ''label'' [cls ''rr-field rr-field-wide'']
            [Elem ''span'' []
              [Text ''Description''],
             Elem ''textarea'' [AttrN ''rows'' 2, Attr ''value'' (fe_description selected), OnVal ''onChange'' (\<lambda>v. (EntryChange (\<lambda>x. x\<lparr>fe_description := v\<rparr>)))] []],
           Elem ''label'' [cls ''rr-field'']
            [Elem ''span'' []
              [Text ''Icon''],
             Elem ''div'' [cls ''rr-md-icon-row'']
              (map (\<lambda>i.
                  Elem ''button'' [cls (''rr-md-icon-pick '' @ (if ((fe_icon selected) = i) then ''is-on'' else [])), On ''onClick'' (EntryChange (\<lambda>x. x\<lparr>fe_icon := i\<rparr>))]
                    [Icon (ICONS i) 14])
                FILTER_ICONS)],
           Elem ''label'' [cls ''rr-field'']
            [Elem ''span'' []
              [Text ''Accent color''],
             Elem ''div'' [cls ''rr-color-row'']
              (map (\<lambda>c.
                  Elem ''button'' [cls (''rr-color-sw '' @ (if ((fe_color selected) = c) then ''is-on'' else [])), Sty ''background'' c, On ''onClick'' (EntryChange (\<lambda>x. x\<lparr>fe_color := c\<rparr>))] [])
                [''#7c8cff'', ''#a78bfa'', ''#5eead4'', ''#fbbf24'', ''#fb7185'', ''#ef4444'', ''#22c55e'', ''#38bdf8''])]]],
       Elem ''div'' [cls ''rr-md-section'']
        [Elem ''div'' [cls ''rr-md-section-title'']
          [Text ''Criteria''],
         Elem ''p'' [cls ''rr-md-section-hint'']
          [Text ''Empty group = no restriction. All restrictions are AND-ed together.''],
         Elem ''div'' [cls ''rr-md-crit'']
          [Elem ''div'' [cls ''rr-md-crit-label'']
            [Text ''Products''],
           Elem ''div'' [cls ''rr-pair-pickers'']
            (concat (map (\<lambda>p.
                (let on = ((prod_id p) \<in> set (fc_products (fe_criteria selected))) in
                [Elem ''button'' [cls (''rr-prod-pick '' @ (if on then ''is-on'' else [])), On ''onClick'' (fd_toggleIn selected ''products'' (prod_id p))]
                  [Elem ''span'' [cls ''rr-prod-dot'', Sty ''background'' (productColor (prod_id p))] [],
                   Text (prod_name p)]]))
              PRODUCTS))],
         Elem ''div'' [cls ''rr-md-crit'']
          [Elem ''div'' [cls ''rr-md-crit-label'']
            [Text ''Rollout types''],
           Elem ''div'' [cls ''rr-pair-pickers'']
            (concat (map (\<lambda>t.
                (let on = ((rt_id t) \<in> set (fc_types (fe_criteria selected))) in
                [Elem ''button'' [cls (''rr-prod-pick '' @ (if on then ''is-on'' else [])), On ''onClick'' (fd_toggleIn selected ''types'' (rt_id t))]
                  [Badge (rt_tone t) False False [Text (rt_short t)],
                   Elem ''span'' []
                    [Text (rt_name t)]]]))
              ROLLOUT_TYPES))],
         Elem ''div'' [cls ''rr-md-crit'']
          [Elem ''div'' [cls ''rr-md-crit-label'']
            [Text ''Stages''],
           Elem ''div'' [cls ''rr-pair-pickers'']
            (concat (map (\<lambda>(k, s).
                (let on = (k \<in> set (fc_stages (fe_criteria selected))) in
                [Elem ''button'' [cls (''rr-prod-pick '' @ (if on then ''is-on'' else [])), On ''onClick'' (fd_toggleIn selected ''stages'' k)]
                  [Elem ''span'' [cls ''rr-md-stage-chip'', Sty ''background'' (st_color s), Sty ''color'' ''#0a0a0c'']
                    [Text (st_short s)],
                   Text (st_label s)]]))
              STAGE))],
         Elem ''div'' [cls ''rr-md-crit'']
          [Elem ''div'' [cls ''rr-md-crit-label'']
            [Text ''Actors''],
           Elem ''div'' [cls ''rr-pair-pickers'']
            (concat (map (\<lambda>a.
                (let on = ((ac_id a) \<in> set (fc_actors (fe_criteria selected))) in
                [Elem ''button'' [cls (''rr-pair-pick '' @ (if on then ''is-on'' else [])), On ''onClick'' (fd_toggleIn selected ''actors'' (ac_id a))]
                  (Avatar (ac_id a) 18 False @
                   [Text (ac_name a)])]))
              ACTORS))],
         Elem ''div'' [cls ''rr-md-crit'']
          [Elem ''div'' [cls ''rr-md-crit-label'']
            [Text ''Statuses''],
           Elem ''div'' [cls ''rr-pair-pickers'']
            (concat (map (\<lambda>s.
                (let on = ((so_id s) \<in> set (fc_statuses (fe_criteria selected))) in
                [Elem ''button'' [cls (''rr-prod-pick '' @ (if on then ''is-on'' else [])), On ''onClick'' (fd_toggleIn selected ''statuses'' (so_id s))]
                  [Badge (so_tone s) False False [Text (so_label s)]]]))
              FILTER_STATUSES))]],
       Elem ''div'' [cls ''rr-md-section'']
        [Elem ''div'' [cls ''rr-md-section-title'']
          [Text ''Resulting query''],
         Elem ''div'' [cls ''rr-md-query'']
          [Elem ''code'' []
            [Text (filterToQuery selected)]]]]"

definition filters_item :: "filter_entry \<Rightarrow> 'd md_action node list" where
  "filters_item f =
    [Elem ''span'' [cls ''rr-md-filter-ic'', Sty ''background'' ((fe_color f) @ ''22''), Sty ''color'' (fe_color f), Sty ''borderColor'' ((fe_color f) @ ''55'')]
      [Icon (filter_icon (fe_icon f)) 12],
     Elem ''div'' [cls ''rr-md-list-body'']
      [Elem ''div'' [cls ''rr-md-list-name'']
        ([Text (fe_name f)] @
         guarded (fe_pinned f)
          [Elem ''span'' [cls ''rr-md-pin'']
            [Text ''pinned'']]),
       Elem ''div'' [cls ''rr-md-list-meta'']
        [Elem ''span'' [cls ''rr-mono'']
          [Text (filterSummary f)]]]]"

definition filters_init :: "nat \<Rightarrow> filter_entry md_state" where
  "filters_init now = \<lparr>md_items = FILTERS_INIT, md_selectedId = md_first fe_id FILTERS_INIT, md_clock = now\<rparr>"

definition FiltersEditor :: "filter_entry md_state \<Rightarrow> filter_entry entry_action md_action node option" where
  "FiltersEditor = md_view fe_id ''New filter'' filters_item (entry_pane fe_id FilterDetail)"

definition filters_act :: "filter_entry entry_action md_action \<Rightarrow> filter_entry md_state \<Rightarrow> filter_entry md_state" where
  "filters_act = md_act ''f-'' new_filter id (entry_act fe_id)"

section \<open>Actors\<close>

record actor_entry =
  ae_id :: string
  ae_name :: string
  ae_initials :: string
  ae_hue :: int
  ae_role :: string
  ae_email :: string
  ae_department :: string

definition actor_entry_of :: "actor \<Rightarrow> actor_entry" where
  "actor_entry_of a = \<lparr>ae_id = ac_id a, ae_name = ac_name a, ae_initials = ac_initials a, ae_hue = ac_hue a, ae_role = ac_role a,
     ae_email = ac_id a @ ''@tms-platform.example'', ae_department = ''IT-DA-EXT''\<rparr>"

definition new_actor :: "string \<Rightarrow> nat \<Rightarrow> actor_entry" where
  "new_actor i n = \<lparr>ae_id = i, ae_name = ''New Actor'', ae_initials = ''NA'', ae_hue = 220, ae_role = ''readonly'',
     ae_email = [], ae_department = []\<rparr>"

definition ActorDetail :: "actor_entry \<Rightarrow> actor_entry entry_action node" where
  "ActorDetail selected =
    Elem ''div'' [cls ''rr-md-detail-inner'']
      [Elem ''header'' [cls ''rr-md-detail-head'']
        [Elem ''div'' [cls ''rr-md-detail-head-l'']
          (Avatar (ae_id selected) 44 True @
           [Elem ''div'' []
            [Elem ''div'' [cls ''rr-md-detail-eyebrow'']
              [Text (''ACTOR '' @ u_middot @ '' ''),
               Elem ''span'' [cls ''rr-mono'']
                [Text (ae_id selected)]],
             Elem ''h2'' []
              [Text (ae_name selected)]]]),
         Elem ''div'' [cls ''rr-md-detail-head-r'']
          [Elem ''button'' [cls ''rr-btn rr-btn-ghost rr-btn-sm rr-btn-danger-ghost'', On ''onClick'' EntryRemove]
            [Icon (ICONS ''x'') 12,
             Text '' Delete'']]],
       Elem ''div'' [cls ''rr-md-section'']
        [Elem ''div'' [cls ''rr-md-section-title'']
          [Text ''Profile''],
         Elem ''div'' [cls ''rr-form-grid'']
          [Elem ''label'' [cls ''rr-field'']
            [Elem ''span'' []
              [Text ''Display name''],
             Elem ''input'' [Attr ''value'' (ae_name selected), OnVal ''onChange'' (\<lambda>v. (EntryChange (\<lambda>x. x\<lparr>ae_name := v\<rparr>)))] []],
           Elem ''label'' [cls ''rr-field'']
            [Elem ''span'' []
              [Text ''Initials''],
             Elem ''input'' [Attr ''value'' (ae_initials selected), OnVal ''onChange'' (\<lambda>v. (EntryChange (\<lambda>x. x\<lparr>ae_initials := (take 3 (toUpperCase v))\<rparr>))), AttrN ''maxLength'' 3] []],
           Elem ''label'' [cls ''rr-field'']
            [Elem ''span'' []
              [Text ''Email''],
             Elem ''input'' [Attr ''type'' ''email'', Attr ''value'' (ae_email selected), OnVal ''onChange'' (\<lambda>v. (EntryChange (\<lambda>x. x\<lparr>ae_email := v\<rparr>)))] []],
           Elem ''label'' [cls ''rr-field'']
            [Elem ''span'' []
              [Text ''Department''],
             Elem ''input'' [Attr ''value'' (ae_department selected), OnVal ''onChange'' (\<lambda>v. (EntryChange (\<lambda>x. x\<lparr>ae_department := v\<rparr>)))] []],
           Elem ''label'' [cls ''rr-field'']
            [Elem ''span'' []
              [Text ''Role''],
             Elem ''select'' [Attr ''value'' (ae_role selected), OnVal ''onChange'' (\<lambda>v. (EntryChange (\<lambda>x. x\<lparr>ae_role := v\<rparr>)))]
              [Elem ''option'' [Attr ''value'' ''admin'']
                [Text ''admin (can execute rollouts)''],
               Elem ''option'' [Attr ''value'' ''readonly'']
                [Text ''readonly (view + comment only)'']]],
           Elem ''label'' [cls ''rr-field'']
            [Elem ''span'' []
              [Text ''Avatar hue ('',
               Text (show_int (ae_hue selected)),
               Text (u_degree @ '')'')],
             Elem ''input'' [Attr ''type'' ''range'', Attr ''min'' ''0'', Attr ''max'' ''360'', AttrN ''value'' (of_int (ae_hue selected)), OnNum ''onChange'' (\<lambda>n. (EntryChange (\<lambda>x. x\<lparr>ae_hue := n\<rparr>)))] []]]]]"

definition actors_item :: "actor_entry \<Rightarrow> 'd md_action node list" where
  "actors_item a =
    (Avatar (ae_id a) 28 False @
     [Elem ''div'' [cls ''rr-md-list-body'']
      [Elem ''div'' [cls ''rr-md-list-name'']
        [Text (ae_name a)],
       Elem ''div'' [cls ''rr-md-list-meta'']
        [Elem ''span'' [cls ''rr-role-pill'']
          [Text (ae_role a)],
         Elem ''span'' [cls ''rr-md-list-sep'']
          [Text u_middot],
         Elem ''span'' []
          [Text (ae_department a)]]]])"

definition actors_init :: "nat \<Rightarrow> actor_entry md_state" where
  "actors_init now = \<lparr>md_items = map actor_entry_of ACTORS, md_selectedId = md_first ae_id (map actor_entry_of ACTORS), md_clock = now\<rparr>"

definition ActorsEditor :: "actor_entry md_state \<Rightarrow> actor_entry entry_action md_action node option" where
  "ActorsEditor = md_view ae_id ''New actor'' actors_item (entry_pane ae_id ActorDetail)"

definition actors_act :: "actor_entry entry_action md_action \<Rightarrow> actor_entry md_state \<Rightarrow> actor_entry md_state" where
  "actors_act = md_act ''actor-'' new_actor id (entry_act ae_id)"

section \<open>Locks\<close>

definition new_lock :: "string \<Rightarrow> nat \<Rightarrow> lock" where
  "new_lock i n = \<lparr>lk_id = i, lk_title = ''New lock'', lk_description = [], lk_contact = u_mdash, lk_startOffset = 0,
     lk_endOffset = 0, lk_products = [''all''], lk_kind = ''manual''\<rparr>"

definition ld_product :: "lock \<Rightarrow> string \<Rightarrow> lock entry_action" where
  "ld_product selected p =
     (if ''all'' \<in> set (lk_products selected) then EntryChange (\<lambda>x. x\<lparr>lk_products := [p]\<rparr>)
      else EntryChange (\<lambda>x. x\<lparr>lk_products := toggle p (lk_products selected)\<rparr>))"

definition LockDetail :: "lock \<Rightarrow> lock entry_action node" where
  "LockDetail selected =
    Elem ''div'' [cls ''rr-md-detail-inner'']
      [Elem ''header'' [cls ''rr-md-detail-head'']
        [Elem ''div'' [cls ''rr-md-detail-head-l'']
          [Elem ''span'' [cls (''rr-md-detail-lockicon rr-lock-'' @ (lk_kind selected))]
            [Icon (ICONS ''lock'') 16],
           Elem ''div'' []
            [Elem ''div'' [cls ''rr-md-detail-eyebrow'']
              [Text (''LOCK '' @ u_middot @ '' ''),
               Elem ''span'' [cls ''rr-mono'']
                [Text (lk_id selected)]],
             Elem ''h2'' []
              [Text (lk_title selected)]]],
         Elem ''div'' [cls ''rr-md-detail-head-r'']
          [Elem ''button'' [cls ''rr-btn rr-btn-ghost rr-btn-sm rr-btn-danger-ghost'', On ''onClick'' EntryRemove]
            [Icon (ICONS ''x'') 12,
             Text '' Delete'']]],
       Elem ''div'' [cls ''rr-md-section'']
        [Elem ''div'' [cls ''rr-md-section-title'']
          [Text ''Details''],
         Elem ''div'' [cls ''rr-form-grid'']
          [Elem ''label'' [cls ''rr-field rr-field-wide'']
            [Elem ''span'' []
              [Text ''Title''],
             Elem ''input'' [Attr ''value'' (lk_title selected), OnVal ''onChange'' (\<lambda>v. (EntryChange (\<lambda>x. x\<lparr>lk_title := v\<rparr>)))] []],
           Elem ''label'' [cls ''rr-field rr-field-wide'']
            [Elem ''span'' []
              [Text ''Description''],
             Elem ''textarea'' [AttrN ''rows'' 2, Attr ''value'' (lk_description selected), OnVal ''onChange'' (\<lambda>v. (EntryChange (\<lambda>x. x\<lparr>lk_description := v\<rparr>)))] []],
           Elem ''label'' [cls ''rr-field'']
            [Elem ''span'' []
              [Text ''Kind''],
             Elem ''select'' [Attr ''value'' (lk_kind selected), OnVal ''onChange'' (\<lambda>v. (EntryChange (\<lambda>x. x\<lparr>lk_kind := v\<rparr>)))]
              [Elem ''option'' [Attr ''value'' ''manual'']
                [Text ''Manual (e.g. master bug)''],
               Elem ''option'' [Attr ''value'' ''holiday'']
                [Text ''Holiday''],
               Elem ''option'' [Attr ''value'' ''window'']
                [Text ''Custom window'']]],
           Elem ''label'' [cls ''rr-field'']
            [Elem ''span'' []
              [Text ''Contact''],
             Elem ''input'' [Attr ''value'' (lk_contact selected), OnVal ''onChange'' (\<lambda>v. (EntryChange (\<lambda>x. x\<lparr>lk_contact := v\<rparr>)))] []],
           Elem ''label'' [cls ''rr-field'']
            [Elem ''span'' []
              [Text ''Start offset (days from today)''],
             Elem ''input'' [Attr ''type'' ''number'', AttrN ''value'' (of_int (lk_startOffset selected)), OnNum ''onChange'' (\<lambda>n. (EntryChange (\<lambda>x. x\<lparr>lk_startOffset := n\<rparr>)))] []],
           Elem ''label'' [cls ''rr-field'']
            [Elem ''span'' []
              [Text ''End offset (days from today)''],
             Elem ''input'' [Attr ''type'' ''number'', AttrN ''value'' (of_int (lk_endOffset selected)), OnNum ''onChange'' (\<lambda>n. (EntryChange (\<lambda>x. x\<lparr>lk_endOffset := n\<rparr>)))] []],
           Elem ''div'' [cls ''rr-field rr-field-wide'']
            [Elem ''span'' []
              [Text ''Affected products''],
             Elem ''div'' [cls ''rr-prod-pickers'']
              ([Elem ''button'' [cls (''rr-prod-pick '' @ (if (''all'' \<in> set (lk_products selected)) then ''is-on'' else [])), On ''onClick'' (EntryChange (\<lambda>x. x\<lparr>lk_products := [''all'']\<rparr>))]
                [Text ''all'']] @
               concat (map (\<lambda>p.
                  (let on = ((prod_id p) \<in> set (lk_products selected)) in
                  [Elem ''button'' [cls (''rr-prod-pick '' @ (if on then ''is-on'' else [])), On ''onClick'' (ld_product selected (prod_id p))]
                    [Elem ''span'' [cls ''rr-prod-dot'', Sty ''background'' (productColor (prod_id p))] [],
                     Text (prod_name p)]]))
                PRODUCTS))]]]]"

definition locks_item :: "lock \<Rightarrow> 'd md_action node list" where
  "locks_item l =
    [Elem ''span'' [cls (''rr-md-list-sq rr-lock-'' @ (lk_kind l))] [],
     Elem ''div'' [cls ''rr-md-list-body'']
      [Elem ''div'' [cls ''rr-md-list-name'']
        [Text (lk_title l)],
       Elem ''div'' [cls ''rr-md-list-meta'']
        [Elem ''span'' [cls ''rr-mono'']
          [Text (lk_kind l)],
         Elem ''span'' [cls ''rr-md-list-sep'']
          [Text u_middot],
         Elem ''span'' []
          [Text (if ''all'' \<in> set (lk_products l) then ''all products'' else join_with '', '' (lk_products l))]]]]"

definition locks_init :: "nat \<Rightarrow> lock md_state" where
  "locks_init now = \<lparr>md_items = LOCKS_RAW, md_selectedId = md_first lk_id LOCKS_RAW, md_clock = now\<rparr>"

definition LocksEditor :: "lock md_state \<Rightarrow> lock entry_action md_action node option" where
  "LocksEditor = md_view lk_id ''New lock'' locks_item (entry_pane lk_id LockDetail)"

definition locks_act :: "lock entry_action md_action \<Rightarrow> lock md_state \<Rightarrow> lock md_state" where
  "locks_act = md_act ''lock-'' new_lock id (entry_act lk_id)"

section \<open>The order of the stages\<close>

definition orders_ok :: "stage_entry list \<Rightarrow> bool" where
  "orders_ok xs \<longleftrightarrow> map se_order xs = map int [0..<length xs]"

abbreviation stages_good :: "stage_entry list \<Rightarrow> bool" where
  "stages_good xs \<equiv> orders_ok xs \<and> list_all (\<lambda>s. list_all is_key_char (se_key s)) xs"

lemma renumber_ids: "map se_id (renumber xs) = map se_id xs"
  by (rule nth_equalityI) (simp_all add: renumber_def nth_enumerate_eq)

lemma renumber_keys: "map se_key (renumber xs) = map se_key xs"
  by (rule nth_equalityI) (simp_all add: renumber_def nth_enumerate_eq)

lemma orders_ok_renumber: "orders_ok (renumber xs)"
  unfolding orders_ok_def by (rule nth_equalityI) (simp_all add: renumber_def nth_enumerate_eq)

lemma key_chars_keys: "list_all (\<lambda>s. list_all is_key_char (se_key s)) xs \<longleftrightarrow> list_all (list_all is_key_char) (map se_key xs)"
  by (simp add: list.pred_map comp_def)

lemma find_index_Some: "find_index P xs = Some k \<Longrightarrow> k < length xs \<and> P (xs ! k)"
  by (induction xs arbitrary: k) (auto split: if_splits)

lemma stages_move_ids: "mset (map se_id (stages_move i dir xs)) = mset (map se_id xs)"
proof (cases "find_index (\<lambda>s. se_id s = i) xs")
  case (Some k)
  then have k: "k < length xs" using find_index_Some by blast
  have "mset (map se_id (move k dir xs)) = mset (map se_id xs)" using mset_move [OF k] by (metis mset_map)
  then show ?thesis by (simp only: stages_move_def Some option.case Let_def renumber_ids split: if_split) simp
qed (simp add: stages_move_def)

lemma stages_move_good: "stages_good xs \<Longrightarrow> stages_good (stages_move i dir xs)"
proof (cases "find_index (\<lambda>s. se_id s = i) xs")
  case (Some k)
  assume g: "stages_good xs"
  have k: "k < length xs" using Some find_index_Some by blast
  have "set (map se_key (move k dir xs)) = set (map se_key xs)" using set_move [OF k] by simp
  then have "list_all (\<lambda>s. list_all is_key_char (se_key s)) (renumber (move k dir xs))"
    using g unfolding key_chars_keys renumber_keys by (simp add: list_all_iff)
  then show ?thesis using g by (simp add: stages_move_def Some Let_def orders_ok_renumber)
qed (simp add: stages_move_def)

definition plain_stage_patch :: "(stage_entry \<Rightarrow> stage_entry) \<Rightarrow> bool" where
  "plain_stage_patch f \<longleftrightarrow> (\<forall>x. se_id (f x) = se_id x \<and> se_order (f x) = se_order x \<and>
     (list_all is_key_char (se_key x) \<longrightarrow> list_all is_key_char (se_key (f x))))"

lemma offered_stages_item: "offered_list (stages_item s) = {}"
  by (simp add: stages_item_def)

lemma list_all_filter_self: "list_all P (filter P xs)"
  by (simp add: list_all_iff)

lemma offered_StageDetail: "offered (StageDetail s) \<subseteq> {SgRemove} \<union> range SgMove \<union> SgChange ` Collect plain_stage_patch"
  by (simp add: StageDetail_def) (auto simp: plain_stage_patch_def list_all_filter_self)

lemma stages_update_good:
  assumes "plain_stage_patch f" "stages_good (md_items st)"
  shows "stages_good (md_items (md_update se_id f st))"
proof -
  have "map se_order (md_items (md_update se_id f st)) = map se_order (md_items st)"
    using assms(1) by (simp add: md_update_def plain_stage_patch_def)
  moreover have "length (md_items (md_update se_id f st)) = length (md_items st)" by (simp add: md_update_def)
  ultimately have "orders_ok (md_items (md_update se_id f st))" using assms(2) unfolding orders_ok_def by simp
  moreover have "list_all (\<lambda>s. list_all is_key_char (se_key s)) (md_items (md_update se_id f st))"
    using assms by (intro md_update_all) (simp_all add: plain_stage_patch_def)
  ultimately show ?thesis by blast
qed

interpretation stages: md_editor se_id "''stage-''" new_stage id stages_detail_act "''New stage''" stages_item stages_pane
  "stages_init now" stages_good "{}" for now
proof
  show "md_ok se_id ''stage-'' (stages_init now)"
    by (simp add: md_ok_def stages_init_def md_first_def STAGE_def stage_entry_of_def Let_def)
  have "stages_good (map (\<lambda>(i, e). stage_entry_of i e) (enumerate 0 STAGE))" unfolding orders_ok_def by code_simp
  then show "stages_good (md_items (stages_init now))" by (simp add: stages_init_def Let_def)
next
  fix st x ns d
  assume ok: "md_ok se_id ''stage-'' st" "stages_good (md_items st)"
    and x: "md_selected se_id st = Some x" and ns: "stages_pane st = Some ns" "d \<in> offered_list ns"
  consider "d = SgRemove" | dir where "d = SgMove dir" | f where "d = SgChange f" "plain_stage_patch f"
    using ns x offered_StageDetail [of x] by (auto simp: stages_pane_def)
  then show "md_ok se_id ''stage-'' (stages_detail_act d st) \<and> stages_good (md_items (stages_detail_act d st))"
  proof cases
    case 1
    let ?r = "md_remove se_id (se_id x) st"
    have "md_ok se_id ''stage-'' (?r\<lparr>md_items := renumber (md_items ?r)\<rparr>)"
      using md_ok_remove [OF ok(1), of "se_id x"] by (simp add: md_ok_ids [of se_id "?r\<lparr>md_items := renumber (md_items ?r)\<rparr>" ?r] renumber_ids)
    moreover have "list_all (\<lambda>s. list_all is_key_char (se_key s)) (md_items ?r)" using ok(2) md_remove_all by blast
    then have "list_all (\<lambda>s. list_all is_key_char (se_key s)) (renumber (md_items ?r))" unfolding key_chars_keys renumber_keys .
    ultimately show ?thesis using 1 x by (simp add: Let_def orders_ok_renumber)
  next
    case 2
    have "md_ok se_id ''stage-'' (st\<lparr>md_items := stages_move (se_id x) dir (md_items st)\<rparr>) = md_ok se_id ''stage-'' st"
      using stages_move_ids [of "se_id x" dir "md_items st"] by (intro md_ok_mset) simp_all
    then show ?thesis using 2 ok x stages_move_good [of "md_items st" "se_id x" dir] by simp
  next
    case 3
    then show ?thesis using stages_update_good [OF 3(2) ok(2)] ok(1) by (simp add: md_ok_update plain_stage_patch_def)
  qed
next
  show "stages_good (xs @ [new_stage i (length xs)])" if "stages_good xs" for xs i
  proof -
    have "list_all is_key_char ''prod3''" by code_simp
    then show ?thesis using that by (simp add: orders_ok_def new_stage_def)
  qed
qed (auto simp: new_stage_def offered_stages_item stages_pane_def)

section \<open>Filters, actors and locks\<close>

text \<open>No criterion of a filter lists a value twice, and each value is one the pickers offer.\<close>

definition filter_good :: "filter_entry \<Rightarrow> bool" where
  "filter_good f \<longleftrightarrow> (let c = fe_criteria f in
     distinct (fc_products c) \<and> distinct (fc_types c) \<and> distinct (fc_stages c) \<and> distinct (fc_actors c) \<and> distinct (fc_statuses c))"

lemma toggle_criterion_good: "filter_good f \<Longrightarrow> filter_good (x\<lparr>fe_criteria := toggle_criterion key v (fe_criteria f)\<rparr>)"
  by (auto simp: filter_good_def toggle_criterion_def Let_def distinct_toggle)

lemma filters_quiet: "offered_list (filters_item f) = {}"
  by (simp add: filters_item_def)

lemma fd_toggleIn_keeps: "filter_good f \<Longrightarrow> fd_toggleIn f key v \<in> EntryChange ` keeps fe_id filter_good"
  using toggle_criterion_good [of f] by (simp add: fd_toggleIn_def keeps_def)

lemma offered_FilterDetail: "filter_good f \<Longrightarrow> offered (FilterDetail f) \<subseteq> {EntryRemove} \<union> EntryChange ` keeps fe_id filter_good"
  using fd_toggleIn_keeps [of f]
  by (simp add: FilterDetail_def Let_def case_prod_beta) (auto simp: keeps_def filter_good_def)

interpretation filters: entry_editor fe_id "''f-''" new_filter "''New filter''" filters_item FilterDetail "filters_init (now + 100)" filter_good for now
proof
  show "md_ok fe_id ''f-'' (filters_init (now + 100))"
    by (auto simp: md_ok_def filters_init_def md_first_def FILTERS_INIT_def show_nat_two_digits)
  show "list_all filter_good (md_items (filters_init (now + 100)))"
    by (simp add: filters_init_def FILTERS_INIT_def filter_good_def no_criteria_def)
next
  show "offered (FilterDetail x) \<subseteq> {EntryRemove} \<union> EntryChange ` keeps fe_id filter_good" if "filter_good x" for x
    by (rule offered_FilterDetail [OF that])
qed (simp_all add: new_filter_def filters_quiet filter_good_def no_criteria_def)

definition actor_good :: "actor_entry \<Rightarrow> bool" where
  "actor_good a \<longleftrightarrow> length (ae_initials a) \<le> 3 \<and> ae_role a \<in> {''admin'', ''readonly''}"

lemma actors_quiet: "offered_list (actors_item a) = {}"
  by (simp add: actors_item_def)

lemma offered_ActorDetail: "offered (ActorDetail a) \<subseteq> {EntryRemove} \<union> EntryChange ` keeps ae_id actor_good"
  by (simp add: ActorDetail_def) (auto simp: keeps_def actor_good_def)

interpretation actors: entry_editor ae_id "''actor-''" new_actor "''New actor''" actors_item ActorDetail "actors_init now" actor_good for now
proof
  show "md_ok ae_id ''actor-'' (actors_init now)"
    by (simp add: md_ok_def actors_init_def md_first_def ACTORS_def actor_entry_of_def)
  have "list_all actor_good (map actor_entry_of ACTORS)" by code_simp
  then show "list_all actor_good (md_items (actors_init now))" by (simp add: actors_init_def)
next
  show "offered (ActorDetail x) \<subseteq> {EntryRemove} \<union> EntryChange ` keeps ae_id actor_good" for x by (rule offered_ActorDetail)
qed (simp_all add: new_actor_def actors_quiet actor_good_def)

definition lock_good :: "lock \<Rightarrow> bool" where
  "lock_good l \<longleftrightarrow> distinct (lk_products l) \<and> (''all'' \<in> set (lk_products l) \<longrightarrow> lk_products l = [''all'']) \<and>
     set (lk_products l) \<subseteq> insert ''all'' (prod_id ` set PRODUCTS) \<and> lk_kind l \<in> {''manual'', ''holiday'', ''window''}"

lemma locks_quiet: "offered_list (locks_item l) = {}"
  by (simp add: locks_item_def)

lemma ld_product_keeps: "lock_good l \<Longrightarrow> p \<in> set PRODUCTS \<Longrightarrow> ld_product l (prod_id p) \<in> EntryChange ` keeps lk_id lock_good"
proof -
  assume l: "lock_good l" and p: "p \<in> set PRODUCTS"
  have "prod_id p \<noteq> ''all''" using p by (auto simp: PRODUCTS_def)
  then have "lock_good (x\<lparr>lk_products := toggle (prod_id p) (lk_products l)\<rparr>)" if "lock_good x" "''all'' \<notin> set (lk_products l)" for x
    using l p that by (auto simp: lock_good_def distinct_toggle in_toggle split: if_splits)
  moreover have "lock_good (x\<lparr>lk_products := [prod_id p]\<rparr>)" if "lock_good x" for x
    using that p \<open>prod_id p \<noteq> ''all''\<close> by (simp add: lock_good_def)
  ultimately show ?thesis by (simp add: ld_product_def keeps_def)
qed

lemma offered_LockDetail: "lock_good l \<Longrightarrow> offered (LockDetail l) \<subseteq> {EntryRemove} \<union> EntryChange ` keeps lk_id lock_good"
  using ld_product_keeps [of l]
  by (simp add: LockDetail_def Let_def) (auto simp: keeps_def lock_good_def)

interpretation locks: entry_editor lk_id "''lock-''" new_lock "''New lock''" locks_item LockDetail "locks_init now" lock_good for now
proof
  show "md_ok lk_id ''lock-'' (locks_init now)"
    by (simp add: md_ok_def locks_init_def md_first_def LOCKS_RAW_def)
  have "list_all lock_good LOCKS_RAW" by code_simp
  then show "list_all lock_good (md_items (locks_init now))" by (simp add: locks_init_def)
next
  show "offered (LockDetail x) \<subseteq> {EntryRemove} \<union> EntryChange ` keeps lk_id lock_good" if "lock_good x" for x
    by (rule offered_LockDetail [OF that])
qed (simp_all add: new_lock_def locks_quiet lock_good_def)

section \<open>Moving stages\<close>

lemma find_index_id: "distinct (map se_id xs) \<Longrightarrow> k < length xs \<Longrightarrow> find_index (\<lambda>s. se_id s = se_id (xs ! k)) xs = Some k"
proof (induction xs arbitrary: k)
  case (Cons x xs)
  show ?case
  proof (cases k)
    case (Suc j)
    then have "xs ! j \<in> set xs" using Cons.prems(2) by simp
    then have "se_id x \<noteq> se_id (xs ! j)" using Cons.prems(1) by auto
    then show ?thesis using Cons Suc by simp
  qed simp
qed simp

lemma move_nth_Suc: "Suc k < length xs \<Longrightarrow> move k 1 xs ! Suc k = xs ! k"
  by (simp add: move_def Let_def nat_add_distrib)

lemma renumber_nth: "k < length xs \<Longrightarrow> renumber xs ! k = (xs ! k)\<lparr>se_order := int k\<rparr>"
  by (simp add: renumber_def nth_enumerate_eq)

lemma length_renumber [simp]: "length (renumber xs) = length xs"
  by (simp add: renumber_def)

lemma renumber_move_renumber: "k < length xs \<Longrightarrow> renumber (move k dir (renumber xs)) = renumber (move k dir xs)"
proof (rule nth_equalityI)
  fix i assume k: "k < length xs" and i: "i < length (renumber (move k dir (renumber xs)))"
  have "(move k dir (renumber xs) ! i)\<lparr>se_order := int i\<rparr> = (move k dir xs ! i)\<lparr>se_order := int i\<rparr>"
    using i k by (cases "i = k") (auto simp: move_def Let_def nth_list_update renumber_nth split: if_splits)
  then show "renumber (move k dir (renumber xs)) ! i = renumber (move k dir xs) ! i" using i by (simp add: renumber_nth)
qed simp

lemma renumber_id: "orders_ok xs \<Longrightarrow> renumber xs = xs"
proof (rule nth_equalityI)
  fix i assume o: "orders_ok xs" and i: "i < length (renumber xs)"
  have "se_order (xs ! i) = int i" using o i unfolding orders_ok_def by (metis add_0 diff_zero length_renumber length_upt nth_map nth_upt)
  then show "renumber xs ! i = xs ! i" using i by (simp add: renumber_nth)
qed simp

lemma stages_reachable_facts:
  assumes "ui_reach StagesEditor (range MDTick) stages_act (stages_init now) st"
  shows "orders_ok (md_items st)" "distinct (map se_id (md_items st))" "StagesEditor st \<noteq> None"
    "list_all (\<lambda>s. list_all is_key_char (se_key s)) (md_items st)" "md_selectedId st = None \<longleftrightarrow> md_items st = []"
proof -
  have r: "ui_reach (md_view se_id ''New stage'' stages_item stages_pane) (range MDTick \<union> MDDetail ` {})
      (md_act ''stage-'' new_stage id stages_detail_act) (stages_init now) st"
    using assms by (simp add: StagesEditor_def stages_act_def)
  show "orders_ok (md_items st)" "distinct (map se_id (md_items st))" "StagesEditor st \<noteq> None"
    "list_all (\<lambda>s. list_all is_key_char (se_key s)) (md_items st)" "md_selectedId st = None \<longleftrightarrow> md_items st = []"
    using stages.reach_ok [OF r] by (auto simp: StagesEditor_def)
qed

section \<open>Properties\<close>

text \<open>
  The stages editor: in every state a user can reach, the order of each stage is its position in the
  list, ids are distinct, keys consist of lower-case letters, digits and dashes, the selection is valid and
  the view renders.
\<close>

theorem stages_reachable:
  assumes "ui_reach StagesEditor (range MDTick) stages_act (stages_init now) st"
  shows "map se_order (md_items st) = map int [0..<length (md_items st)] \<and> distinct (map se_id (md_items st)) \<and>
    list_all (\<lambda>s. list_all is_key_char (se_key s)) (md_items st) \<and>
    (md_selectedId st = None \<longleftrightarrow> md_items st = []) \<and> StagesEditor st \<noteq> None"
  using stages_reachable_facts [OF assms] by (simp add: orders_ok_def)

theorem stages_reachable_witness:
  "map se_order (md_items (stages_act (MDTick 1) (stages_init 1000))) = [0, 1, 2]"
proof -
  have r: "ui_reach StagesEditor (range MDTick) stages_act (stages_init 1000) (stages_act (MDTick 1) (stages_init 1000))"
    by (rule ui_reach.act [OF ui_reach.init]) simp
  have "length (md_items (stages_act (MDTick 1) (stages_init 1000))) = 3"
    by (simp add: stages_act_def md_act_def stages_init_def STAGE_def Let_def)
  then show ?thesis using stages_reachable [OF r] by (simp add: upt_rec)
qed

text \<open>
  Moving a stage: one step down and one step up again restores the list of a reachable state, and a
  move beyond either end changes nothing.
\<close>

theorem stages_move_back:
  assumes "ui_reach StagesEditor (range MDTick) stages_act (stages_init now) st" "k < length (md_items st)"
  shows "stages_move (se_id (md_items st ! k)) (- 1) (stages_move (se_id (md_items st ! k)) 1 (md_items st)) =
    (if Suc k < length (md_items st) then md_items st else stages_move (se_id (md_items st ! k)) (- 1) (md_items st)) \<and>
    (k = 0 \<longrightarrow> stages_move (se_id (md_items st ! k)) (- 1) (md_items st) = md_items st)"
proof -
  let ?xs = "md_items st" and ?i = "se_id (md_items st ! k)"
  have d: "distinct (map se_id ?xs)" and oo: "orders_ok ?xs"
    using stages_reachable_facts [OF assms(1)] by auto
  have k: "find_index (\<lambda>s. se_id s = ?i) ?xs = Some k" by (rule find_index_id [OF d assms(2)])
  have restore: "stages_move ?i (- 1) (stages_move ?i 1 ?xs) = ?xs" if "Suc k < length ?xs"
  proof -
    let ?ys = "renumber (move k 1 ?xs)"
    have ids: "map se_id ?ys = map se_id (move k 1 ?xs)" by (rule renumber_ids)
    have len: "length ?ys = length ?xs" by (simp add: renumber_def)
    have pos: "se_id (?ys ! Suc k) = ?i"
      using ids that len by (metis (no_types, lifting) length_move move_nth_Suc nth_map)
    have dy: "distinct (map se_id ?ys)" unfolding ids using d by (simp add: distinct_map_move assms(2))
    have ky: "find_index (\<lambda>s. se_id s = ?i) ?ys = Some (Suc k)"
      using find_index_id [OF dy, of "Suc k"] that len pos by simp
    have "stages_move ?i (- 1) ?ys = renumber (move (Suc k) (- 1) ?ys)" using that len by (simp add: stages_move_def ky)
    also have "\<dots> = renumber (move (Suc k) (- 1) (move k 1 ?xs))" using that by (intro renumber_move_renumber) simp
    also have "move (Suc k) (- 1) (move k 1 ?xs) = ?xs" using move_back [of k ?xs 1] that by (simp add: nat_add_distrib)
    also have "renumber ?xs = ?xs" by (rule renumber_id [OF oo])
    finally show ?thesis using that by (simp add: stages_move_def k)
  qed
  show ?thesis using restore assms(2) k by (auto simp: stages_move_def)
qed

theorem stages_move_back_witness:
  "stages_move ''prod1'' (- 1) (stages_move ''prod1'' 1 (md_items (stages_init 1000))) = md_items (stages_init 1000)"
proof -
  have "length (md_items (stages_init 1000)) = 3" "se_id (md_items (stages_init 1000) ! 1) = ''prod1''"
    by (simp_all add: stages_init_def STAGE_def Let_def stage_entry_of_def)
  with stages_move_back [OF ui_reach.init, of 1 1000] show ?thesis by simp
qed

text \<open>
  The keys of stages can collide: two stages added one after the other have different ids but the same
  key, although the field says that keys cannot collide.
\<close>

theorem stage_keys_collide:
  "let st = stages_act MDAdd (stages_act MDAdd (stages_init now)) in
   ui_reach StagesEditor (range MDTick) stages_act (stages_init now) st \<and>
   se_key (md_items st ! 3) = se_key (md_items st ! 4) \<and> se_id (md_items st ! 3) \<noteq> se_id (md_items st ! 4)"
proof -
  have add: "ui_reach StagesEditor (range MDTick) stages_act (stages_init now) (stages_act MDAdd s)"
    if r: "ui_reach StagesEditor (range MDTick) stages_act (stages_init now) s" for s
  proof (rule ui_reach.act [OF r])
    have "StagesEditor s \<noteq> None" using stages_reachable_facts [OF r] by blast
    then show "MDAdd \<in> offered_opt (StagesEditor s) \<union> range MDTick"
      by (auto simp: StagesEditor_def md_view_def MDMasterDetail_def split: option.splits if_splits)
  qed
  show ?thesis
    using add [OF add [OF ui_reach.init]]
    by (simp add: Let_def stages_act_def md_act_def md_add_def stages_init_def STAGE_def new_stage_def)
qed

text \<open>
  The editors of filters, actors and locks: in every state a user can reach the view renders and ids are
  distinct; no criterion of a filter lists a value twice; the initials of an actor have at most three
  characters and its role is one of the two roles; a lock covers all products or some of them, never both.
\<close>

theorem small_editors_reachable:
  "(ui_reach FiltersEditor (range MDTick) filters_act (filters_init (now + 100)) fs \<longrightarrow>
     FiltersEditor fs \<noteq> None \<and> distinct (map fe_id (md_items fs)) \<and> list_all filter_good (md_items fs)) \<and>
   (ui_reach ActorsEditor (range MDTick) actors_act (actors_init now) as \<longrightarrow>
     ActorsEditor as \<noteq> None \<and> distinct (map ae_id (md_items as)) \<and>
     list_all (\<lambda>a. length (ae_initials a) \<le> 3 \<and> ae_role a \<in> {''admin'', ''readonly''}) (md_items as)) \<and>
   (ui_reach LocksEditor (range MDTick) locks_act (locks_init now) ls \<longrightarrow>
     LocksEditor ls \<noteq> None \<and> distinct (map lk_id (md_items ls)) \<and>
     list_all (\<lambda>l. distinct (lk_products l) \<and> (''all'' \<in> set (lk_products l) \<longrightarrow> lk_products l = [''all''])) (md_items ls))"
proof (intro conjI impI)
  assume "ui_reach FiltersEditor (range MDTick) filters_act (filters_init (now + 100)) fs"
  then have r: "ui_reach (md_view fe_id ''New filter'' filters_item (entry_pane fe_id FilterDetail)) (range MDTick \<union> MDDetail ` {})
      (md_act ''f-'' new_filter id (entry_act fe_id)) (filters_init (now + 100)) fs"
    by (simp add: FiltersEditor_def filters_act_def)
  show "FiltersEditor fs \<noteq> None" "distinct (map fe_id (md_items fs))" "list_all filter_good (md_items fs)"
    using filters.reach_ok [OF r] by (auto simp: FiltersEditor_def)
next
  assume "ui_reach ActorsEditor (range MDTick) actors_act (actors_init now) as"
  then have r: "ui_reach (md_view ae_id ''New actor'' actors_item (entry_pane ae_id ActorDetail)) (range MDTick \<union> MDDetail ` {})
      (md_act ''actor-'' new_actor id (entry_act ae_id)) (actors_init now) as"
    by (simp add: ActorsEditor_def actors_act_def)
  show "ActorsEditor as \<noteq> None" "distinct (map ae_id (md_items as))"
    "list_all (\<lambda>a. length (ae_initials a) \<le> 3 \<and> ae_role a \<in> {''admin'', ''readonly''}) (md_items as)"
    using actors.reach_ok [OF r] by (auto simp: ActorsEditor_def actor_good_def list_all_iff)
next
  assume "ui_reach LocksEditor (range MDTick) locks_act (locks_init now) ls"
  then have r: "ui_reach (md_view lk_id ''New lock'' locks_item (entry_pane lk_id LockDetail)) (range MDTick \<union> MDDetail ` {})
      (md_act ''lock-'' new_lock id (entry_act lk_id)) (locks_init now) ls"
    by (simp add: LocksEditor_def locks_act_def)
  show "LocksEditor ls \<noteq> None" "distinct (map lk_id (md_items ls))"
    "list_all (\<lambda>l. distinct (lk_products l) \<and> (''all'' \<in> set (lk_products l) \<longrightarrow> lk_products l = [''all''])) (md_items ls)"
    using locks.reach_ok [OF r] by (auto simp: LocksEditor_def lock_good_def list_all_iff)
qed

theorem small_editors_reachable_witness:
  "FiltersEditor (filters_init 1000) \<noteq> None \<and> ActorsEditor (actors_init 900) \<noteq> None \<and> LocksEditor (locks_init 900) \<noteq> None"
  using small_editors_reachable [of 900 "filters_init 1000" "actors_init 900" "locks_init 900"] by (auto intro: ui_reach.init)

end
