(* ===== verification/RR_Template.thy ===== *)
theory RR_Template
  imports RR_MasterDetail
begin

text \<open>
  The preview of an announcement template: \<open>renderTemplate\<close> of \<open>src/design/project/master-data.jsx\<close>. Variables
  in double braces are replaced by sample values, the text is escaped, and a small part of Markdown becomes
  HTML. The result is put into the page with \<open>dangerouslySetInnerHTML\<close>, so what matters is that a template
  cannot bring its own markup into it. Texts are sequences of bytes (UTF-8).
\<close>

section \<open>Rendering\<close>

definition is_word_char :: "char \<Rightarrow> bool" where
  "is_word_char c = (let n = char_code c in (97 \<le> n \<and> n \<le> 122) \<or> (65 \<le> n \<and> n \<le> 90) \<or> (48 \<le> n \<and> n \<le> 57) \<or> n = 95)"

definition is_var_char :: "char \<Rightarrow> bool" where
  "is_var_char c \<longleftrightarrow> is_word_char c \<or> c = CHR ''.''"

definition sample :: "(string \<times> string) list" where
  "sample =
     [(''rollout.title'', ''operator 24.7 '' @ u_mdash @ '' broker auth refactor''), (''rollout.id'', ''r-101''),
      (''rollout.descExt'', ''operator 24.7 rollout. Customers may observe transient broker creation latency during the maintenance window.''),
      (''rollout.descInt'', ''Includes oracle migration rev 14 + solace exporter v2.3. Pair-reviewed by Luc/Henning.''),
      (''rollout.risks'', ''Deployment + broker creation disabled for ~2h.''),
      (''rollout.pair'', ''Luc Baumann, Henning Hoffer''), (''rollout.runbook'', ''https://docs.example/runbooks/operator''),
      (''type.name'', ''operator feature (oracle & solace)''), (''type.short'', ''operator feature''), (''product.name'', ''operator''),
      (''stage.label'', ''prod1 '' @ u_middot @ '' Frankfurt''), (''stage.region'', ''Frankfurt-am-Main''),
      (''stage.dateLocal'', ''Mon, 02 Jun 2026 '' @ u_middot @ '' 10:00 CET''), (''stage.durationHours'', ''2'')]"

text \<open>
  \<open>sample[k]\<close>: the sample value, or what the object inherits under that name. \<open>proto\<close> gives the text
  of the inherited members (\<open>constructor\<close>, \<open>toString\<close> and so on), which is the engine's.
\<close>

definition sample_value :: "(string \<Rightarrow> string option) \<Rightarrow> string \<Rightarrow> string" where
  "sample_value proto k = (case map_of sample k of
     Some v \<Rightarrow> v
   | None \<Rightarrow> (case proto k of Some v \<Rightarrow> v | None \<Rightarrow> ''<span class=\"rr-md-var-missing\">{{'' @ k @ ''}}</span>''))"

lemma length_dropWhile_less: "length (drop n (dropWhile P xs)) \<le> length xs"
  by (metis length_drop diff_le_self le_trans length_dropWhile_le)

function subst_vars :: "(string \<Rightarrow> string option) \<Rightarrow> string \<Rightarrow> string" where
  "subst_vars proto [] = []"
| "subst_vars proto (c # cs) =
     (if starts_with (c # cs) ''{{''
      then let k = takeWhile is_var_char (drop 1 cs); rest = dropWhile is_var_char (drop 1 cs) in
        if k \<noteq> [] \<and> starts_with rest ''}}'' then sample_value proto k @ subst_vars proto (drop 2 rest)
        else c # subst_vars proto cs
      else c # subst_vars proto cs)"
  by pat_completeness auto
termination
proof (relation "measure (length \<circ> snd)")
  fix c and cs rest :: string
  assume "rest = dropWhile is_var_char (drop 1 cs)"
  then show "((proto, drop 2 rest), proto, c # cs) \<in> measure (length \<circ> snd)" for proto :: "string \<Rightarrow> string option"
    using length_dropWhile_less [of 2 is_var_char "drop 1 cs"] by simp
qed simp_all

definition replace_char :: "char \<Rightarrow> string \<Rightarrow> string \<Rightarrow> string" where
  "replace_char c r s = concat (map (\<lambda>x. if x = c then r else [x]) s)"

definition at_line_end :: "string \<Rightarrow> bool" where
  "at_line_end s \<longleftrightarrow> starts_with s [CHR 0x0A] \<or> starts_with s [CHR 0x0D] \<or>
     starts_with s [CHR 0xE2, CHR 0x80, CHR 0xA8] \<or> starts_with s [CHR 0xE2, CHR 0x80, CHR 0xA9]"

text \<open>
  \<open>(.+?)\<close> and the closing delimiter: the shortest non-empty text on the line before the delimiter, and
  what follows it.
\<close>

fun lazy_end :: "string \<Rightarrow> string \<Rightarrow> string \<Rightarrow> (string \<times> string) option" where
  "lazy_end d acc [] = None"
| "lazy_end d acc (c # cs) =
     (if acc \<noteq> [] \<and> starts_with (c # cs) d then Some (rev acc, drop (length d) (c # cs))
      else if at_line_end (c # cs) then None
      else lazy_end d (c # acc) cs)"

lemma lazy_end_length: "lazy_end d acc s = Some (m, rest) \<Longrightarrow> length rest \<le> length s"
  by (induction d acc s rule: lazy_end.induct) (auto split: if_splits)

text \<open>\<open>s.replace(/d(.+?)d/g, "op$1cl")\<close>\<close>

function wrap :: "string \<Rightarrow> string \<Rightarrow> string \<Rightarrow> string \<Rightarrow> string" where
  "wrap d op cl [] = []"
| "wrap d op cl (c # cs) =
     (if starts_with (c # cs) d \<and> d \<noteq> []
      then (case lazy_end d [] (drop (length d) (c # cs)) of
              Some (m, rest) \<Rightarrow> op @ m @ cl @ wrap d op cl rest
            | None \<Rightarrow> c # wrap d op cl cs)
      else c # wrap d op cl cs)"
  by pat_completeness auto
termination
proof (relation "measure (\<lambda>(d, op, cl, s). length s)")
  fix d op cl cs m rest :: string and c :: char and v :: "string \<times> string"
  assume a: "starts_with (c # cs) d \<and> d \<noteq> []" "lazy_end d [] (drop (length d) (c # cs)) = Some v" "(m, rest) = v"
  then have "length rest \<le> length (drop (length d) (c # cs))" using lazy_end_length by metis
  also have "\<dots> \<le> length cs" using a(1) by (cases d) auto
  finally show "((d, op, cl, rest), d, op, cl, c # cs) \<in> measure (\<lambda>(d, op, cl, s). length s)" by simp
qed simp_all

definition missing_open :: string where
  "missing_open = ''&lt;span class=&quot;rr-md-var-missing&quot;&gt;{{''"

definition missing_close :: string where
  "missing_close = ''}}&lt;/span&gt;''"

function unescape_missing :: "string \<Rightarrow> string" where
  "unescape_missing [] = []"
| "unescape_missing (c # cs) =
     (if starts_with (c # cs) missing_open
      then let body = drop (length missing_open) (c # cs); k = takeWhile is_var_char body; rest = dropWhile is_var_char body in
        if k \<noteq> [] \<and> starts_with rest missing_close
        then ''<span class=\"rr-md-var-missing\">{{'' @ k @ ''}}</span>'' @ unescape_missing (drop (length missing_close) rest)
        else c # unescape_missing cs
      else c # unescape_missing cs)"
  by pat_completeness auto
termination
proof (relation "measure length")
  fix c and cs body rest :: string
  assume b: "body = drop (length missing_open) (c # cs)" "rest = dropWhile is_var_char body"
  have "length body \<le> length cs" unfolding b(1) by (simp add: missing_open_def)
  then show "(drop (length missing_close) rest, c # cs) \<in> measure length"
    using length_dropWhile_less [of "length missing_close" is_var_char body] unfolding b(2) by simp
qed simp_all

definition renderTemplate :: "(string \<Rightarrow> string option) \<Rightarrow> string \<Rightarrow> string" where
  "renderTemplate proto tpl =
     (let s0 = subst_vars proto tpl;
          s1 = replace_char (CHR ''>'') ''&gt;'' (replace_char (CHR ''<'') ''&lt;'' (replace_char (CHR ''&'') ''&amp;'' s0));
          s2 = wrap ''**'' ''<strong>'' ''</strong>'' s1;
          s3 = wrap ''_'' ''<em>'' ''</em>'' s2;
          s4 = wrap ''`'' ''<code>'' ''</code>'' s3;
          s5 = replace_char (CHR 0x0A) ''<br/>'' s4
      in unescape_missing s5)"

section \<open>Safe markup\<close>

text \<open>The tags and character references that the renderer itself writes.\<close>

definition MARKUP :: "string list" where
  "MARKUP = [''&amp;'', ''&lt;'', ''&gt;'', ''<strong>'', ''</strong>'', ''<em>'', ''</em>'', ''<code>'', ''</code>'', ''<br/>'']"

inductive safe_html :: "string \<Rightarrow> bool" where
  nil: "safe_html []"
| markup: "t \<in> set MARKUP \<Longrightarrow> safe_html s \<Longrightarrow> safe_html (t @ s)"
| plain: "c \<noteq> CHR ''&'' \<Longrightarrow> c \<noteq> CHR ''<'' \<Longrightarrow> c \<noteq> CHR ''>'' \<Longrightarrow> safe_html s \<Longrightarrow> safe_html (c # s)"

text \<open>The characters that open and close a span, and the line feed, do not occur in the markup.\<close>

definition markup_chars :: "char set" where
  "markup_chars = \<Union> (set ` set MARKUP)"

lemma delimiters_free:
  "CHR ''*'' \<notin> markup_chars" "CHR ''_'' \<notin> markup_chars" "CHR 0x60 \<notin> markup_chars" "CHR 0x0A \<notin> markup_chars"
  by (simp_all add: markup_chars_def MARKUP_def)

lemma markup_special: "CHR ''&'' \<in> markup_chars" "CHR ''<'' \<in> markup_chars" "CHR ''>'' \<in> markup_chars"
  by (simp_all add: markup_chars_def MARKUP_def)

lemma markup_charsI: "t \<in> set MARKUP \<Longrightarrow> x \<in> set t \<Longrightarrow> x \<in> markup_chars"
  by (auto simp: markup_chars_def)

lemma safe_markup: "t \<in> set MARKUP \<Longrightarrow> safe_html t"
  using safe_html.markup [OF _ safe_html.nil] by simp

lemma safe_append: "safe_html a \<Longrightarrow> safe_html b \<Longrightarrow> safe_html (a @ b)"
  by (induction a rule: safe_html.induct) (auto intro: safe_html.intros)

lemma safe_split:
  "safe_html s \<Longrightarrow> s = u @ x # v \<Longrightarrow> x \<notin> markup_chars \<Longrightarrow> safe_html u \<and> safe_html v"
proof (induction s arbitrary: u rule: safe_html.induct)
  case (markup t s)
  have "x \<notin> set t" using markup.hyps(1) markup.prems(2) markup_charsI by blast
  with markup.prems(1) obtain u' where "u = t @ u'" "s = u' @ x # v"
    by (auto simp: append_eq_append_conv2 append_eq_Cons_conv Cons_eq_append_conv)
  then show ?case using markup.IH markup.prems(2) markup.hyps(1) by (auto intro: safe_html.markup)
next
  case (plain c s)
  show ?case
  proof (cases u)
    case Nil
    then show ?thesis using plain by (auto intro: safe_html.nil)
  next
    case (Cons a u')
    then show ?thesis using plain by (auto intro: safe_html.plain)
  qed
qed simp

lemma safe_drop: "safe_html (d @ w) \<Longrightarrow> set d \<inter> markup_chars = {} \<Longrightarrow> safe_html w"
proof (induction d)
  case (Cons x d)
  then show ?case using safe_split [of "x # d @ w" "[]" x "d @ w"] by simp
qed simp

lemma safe_around:
  assumes "safe_html (m @ d @ r)" "d \<noteq> []" "set d \<inter> markup_chars = {}"
  shows "safe_html m" "safe_html r"
proof -
  obtain x d' where d: "d = x # d'" using assms(2) by (cases d) auto
  then have "safe_html m \<and> safe_html (d' @ r)" using assms safe_split [of "m @ d @ r" m x "d' @ r"] by simp
  then show "safe_html m" "safe_html r" using safe_drop [of d' r] assms(3) d by auto
qed

section \<open>Every step keeps the markup safe\<close>

lemma replace_char_simps [simp]:
  "replace_char c r [] = []" "replace_char c r (x # s) = (if x = c then r else [x]) @ replace_char c r s"
  "replace_char c r (s @ t) = replace_char c r s @ replace_char c r t"
  by (simp_all add: replace_char_def)

lemma replace_char_id: "c \<notin> set s \<Longrightarrow> replace_char c r s = s"
  by (induction s) auto

lemma safe_replace:
  assumes "safe_html s" "c \<notin> markup_chars" "safe_html r"
  shows "safe_html (replace_char c r s)"
  using assms(1)
proof (induction s rule: safe_html.induct)
  case (markup t s)
  then have "replace_char c r t = t" using assms(2) markup_charsI by (blast intro: replace_char_id)
  then show ?case using markup by (simp add: safe_html.markup)
qed (auto intro: safe_html.intros safe_append assms(3))

text \<open>The three replacements that escape a text.\<close>

definition escape_html :: "string \<Rightarrow> string" where
  "escape_html s = replace_char (CHR ''>'') ''&gt;'' (replace_char (CHR ''<'') ''&lt;'' (replace_char (CHR ''&'') ''&amp;'' s))"

lemma escape_html_simps [simp]:
  "escape_html [] = []" "escape_html (s @ t) = escape_html s @ escape_html t"
  "escape_html (c # s) = (if c = CHR ''&'' then ''&amp;'' else if c = CHR ''<'' then ''&lt;'' else if c = CHR ''>'' then ''&gt;'' else [c]) @ escape_html s"
  by (simp_all add: escape_html_def)

lemma safe_escape: "safe_html (escape_html s)"
proof (induction s)
  case (Cons c s)
  then show ?case
    using safe_html.markup [of "''&amp;''"] safe_html.markup [of "''&lt;''"] safe_html.markup [of "''&gt;''"] safe_html.plain [of c]
    by (simp add: MARKUP_def)
qed (simp add: safe_html.nil)

lemma lazy_end_splits: "lazy_end d acc s = Some (m, rest) \<Longrightarrow> rev acc @ s = m @ d @ rest"
proof (induction d acc s rule: lazy_end.induct)
  case (2 d acc c cs)
  then show ?case
    by (auto simp: starts_with_iff simp del: starts_with.simps split: if_splits)
qed simp

lemma wrap_skip: "set t \<inter> set d = {} \<Longrightarrow> d \<noteq> [] \<Longrightarrow> wrap d op cl (t @ s) = t @ wrap d op cl s"
proof (induction t)
  case (Cons c t)
  then have "\<not> starts_with (c # t @ s) d" by (cases d) auto
  then show ?case using Cons by simp
qed simp

lemma wrap_id: "set s \<inter> set d = {} \<Longrightarrow> d \<noteq> [] \<Longrightarrow> wrap d op cl s = s"
  using wrap_skip [of s d op cl "[]"] by simp

lemma safe_wrap:
  assumes "set d \<inter> markup_chars = {}" "d \<noteq> []" "safe_html op" "safe_html cl"
  shows "safe_html s \<Longrightarrow> safe_html (wrap d op cl s)"
proof (induction "length s" arbitrary: s rule: less_induct)
  case less
  from less.prems show ?case
  proof cases
    case (markup t s')
    have "set t \<inter> set d = {}" using markup(2) assms(1) markup_charsI by blast
    moreover have "t \<noteq> []" using markup(2) by (auto simp: MARKUP_def)
    ultimately show ?thesis using less.hyps [of s'] markup assms(2) by (simp add: wrap_skip safe_html.markup)
  next
    case (plain c s')
    have one: "safe_html (c # wrap d op cl s')" using less.hyps [of s'] plain by (auto intro: safe_html.plain)
    show ?thesis
    proof (cases "starts_with (c # s') d")
      case True
      then have cs: "c # s' = d @ drop (length d) (c # s')" by (auto simp: starts_with_iff simp del: starts_with.simps)
      show ?thesis
      proof (cases "lazy_end d [] (drop (length d) (c # s'))")
        case None
        then show ?thesis using one plain(1) True assms(2) by simp
      next
        case (Some mr)
        obtain m rest where mr: "mr = (m, rest)" by force
        have sp: "drop (length d) (c # s') = m @ d @ rest" using lazy_end_splits Some mr by force
        have "safe_html (m @ d @ rest)" using less.prems safe_drop [OF _ assms(1)] cs sp plain(1) by metis
        note parts = safe_around [OF this assms(2,1)]
        have "s = d @ m @ d @ rest" using sp cs plain(1) by simp
        then have "length rest < length s" using assms(2) by simp
        then show ?thesis
          using less.hyps [of rest] parts assms(2-4) True Some mr plain(1) by (simp add: safe_append)
      qed
    next
      case False
      then show ?thesis using one plain(1) by simp
    qed
  qed (simp add: safe_html.nil)
qed

section \<open>Un-escaping a missing variable\<close>

text \<open>In safe markup an ampersand is never followed by a \<open>q\<close>, so the pattern of the last replacement does not occur.\<close>

definition no_quot :: "string \<Rightarrow> bool" where
  "no_quot = successively (\<lambda>a b. \<not> (a = CHR ''&'' \<and> b = CHR ''q''))"

lemma no_quot_Cons: "no_quot (c # s) \<longleftrightarrow> no_quot s \<and> (c = CHR ''&'' \<longrightarrow> s = [] \<or> hd s \<noteq> CHR ''q'')"
  by (cases s) (auto simp: no_quot_def)

lemma safe_no_quot: "safe_html s \<Longrightarrow> no_quot s"
proof (induction s rule: safe_html.induct)
  case (markup t s)
  then show ?case unfolding MARKUP_def by (auto simp: no_quot_Cons)
qed (auto simp: no_quot_Cons, simp add: no_quot_def)

lemma no_quot_unescape: "no_quot s \<Longrightarrow> unescape_missing s = s"
proof (induction s)
  case (Cons c s)
  have "\<not> starts_with (c # s) missing_open"
  proof
    assume "starts_with (c # s) missing_open"
    then obtain t where "c # s = missing_open @ t" by (auto simp: starts_with_iff simp del: starts_with.simps)
    then have "no_quot (missing_open @ t)" using Cons.prems by simp
    then show False by (simp add: missing_open_def no_quot_Cons)
  qed
  then show ?case using Cons by (simp add: no_quot_Cons)
qed simp

lemma renderTemplate_steps:
  "renderTemplate proto tpl =
     replace_char (CHR 0x0A) ''<br/>'' (wrap [CHR 0x60] ''<code>'' ''</code>'' (wrap ''_'' ''<em>'' ''</em>''
       (wrap ''**'' ''<strong>'' ''</strong>'' (escape_html (subst_vars proto tpl)))))" (is "_ = ?r")
  and renderTemplate_safe_steps: "safe_html (renderTemplate proto tpl)"
proof -
  note steps = safe_wrap [OF _ _ safe_markup safe_markup]
  have "safe_html (wrap ''**'' ''<strong>'' ''</strong>'' (escape_html (subst_vars proto tpl)))"
    by (rule steps [OF _ _ _ _ safe_escape]) (simp_all add: delimiters_free MARKUP_def)
  then have "safe_html (wrap ''_'' ''<em>'' ''</em>'' (wrap ''**'' ''<strong>'' ''</strong>'' (escape_html (subst_vars proto tpl))))"
    by (rule steps [rotated 4]) (simp_all add: delimiters_free MARKUP_def)
  then have "safe_html (wrap [CHR 0x60] ''<code>'' ''</code>'' (wrap ''_'' ''<em>'' ''</em>''
      (wrap ''**'' ''<strong>'' ''</strong>'' (escape_html (subst_vars proto tpl)))))"
    by (rule steps [rotated 4]) (simp_all add: delimiters_free MARKUP_def)
  then have r: "safe_html ?r" by (rule safe_replace [OF _ _ safe_markup]) (simp_all add: delimiters_free MARKUP_def)
  have "renderTemplate proto tpl = unescape_missing ?r" by (simp add: renderTemplate_def escape_html_def Let_def)
  then show "renderTemplate proto tpl = ?r" "safe_html (renderTemplate proto tpl)"
    using r no_quot_unescape [OF safe_no_quot [OF r]] by simp_all
qed

section \<open>Substitution of variables\<close>

lemma non_var_chars:
  "\<not> is_var_char (CHR ''}'')" "\<not> is_var_char (CHR ''&'')" "\<not> is_var_char (CHR ''<'')" "\<not> is_var_char (CHR ''>'')"
  "\<not> is_var_char (CHR ''*'')" "\<not> is_var_char (CHR 0x60)" "\<not> is_var_char (CHR 0x0A)"
  by (simp_all add: is_var_char_def is_word_char_def char_code_def Let_def)

lemma var_takeWhile: "list_all is_var_char k \<Longrightarrow> \<not> is_var_char c \<Longrightarrow>
    takeWhile is_var_char (k @ c # r) = k \<and> dropWhile is_var_char (k @ c # r) = c # r"
  by (induction k) auto

lemma subst_vars_plain: "CHR ''{'' \<notin> set s \<Longrightarrow> subst_vars proto (s @ t) = s @ subst_vars proto t"
  by (induction s) auto

lemma subst_vars_var:
  assumes "list_all is_var_char k" "k \<noteq> []"
  shows "subst_vars proto (''{{'' @ k @ ''}}'' @ t) = sample_value proto k @ subst_vars proto t"
proof -
  from var_takeWhile [OF assms(1) non_var_chars(1), of "CHR ''}'' # t"] assms(2) show ?thesis by simp
qed

section \<open>Properties\<close>

text \<open>
  C3. The preview is safe against markup in the template: whatever the template says (and whatever the
  members that the sample object inherits read as), the HTML that the preview inserts consists of the tags
  \<open>strong\<close>, \<open>em\<close>, \<open>code\<close> and \<open>br\<close> without attributes, of the references \<open>&amp;\<close>, \<open>&lt;\<close> and \<open>&gt;\<close>, and of
  other characters that are no \<open>&\<close>, \<open><\<close> or \<open>>\<close>.
\<close>

theorem renderTemplate_safe: "safe_html (renderTemplate proto tpl)"
  by (rule renderTemplate_safe_steps)

text \<open>
  A variable that does not exist is shown with the markup of its marker as text: the final replacement,
  which is to turn the escaped marker back into an element, looks for escaped quotes, and quotes are not
  escaped.
\<close>

theorem missing_variable_not_marked:
  assumes "list_all is_var_char k" "k \<noteq> []" "CHR ''_'' \<notin> set k" "map_of sample k = None" "proto k = None"
  shows "renderTemplate proto (''{{'' @ k @ ''}}'') = ''&lt;span class=\"rr-md-var-missing\"&gt;{{'' @ k @ ''}}&lt;/span&gt;''"
proof -
  have v: "subst_vars proto (''{{'' @ k @ ''}}'') = ''<span class=\"rr-md-var-missing\">{{'' @ k @ ''}}</span>''"
    using subst_vars_var [OF assms(1,2), of proto "[]"] assms(4,5) by (simp add: sample_value_def)
  have k: "x \<in> set k \<Longrightarrow> is_var_char x" for x using assms(1) by (simp add: list_all_iff)
  have no: "CHR ''&'' \<notin> set k" "CHR ''<'' \<notin> set k" "CHR ''>'' \<notin> set k" "CHR ''*'' \<notin> set k" "CHR 0x60 \<notin> set k" "CHR 0x0A \<notin> set k"
    using k non_var_chars by blast+
  then have e: "escape_html k = k" by (simp add: escape_html_def replace_char_id)
  let ?out = "''&lt;span class=\"rr-md-var-missing\"&gt;{{'' @ k @ ''}}&lt;/span&gt;''"
  have esc: "escape_html (subst_vars proto (''{{'' @ k @ ''}}'')) = ?out" unfolding v by (simp add: e)
  have "set ?out \<inter> set ''**'' = {}" "set ?out \<inter> set ''_'' = {}" "set ?out \<inter> set [CHR 0x60] = {}" "CHR 0x0A \<notin> set ?out"
    using no assms(3) by auto
  then show ?thesis unfolding renderTemplate_steps esc by (simp add: wrap_id replace_char_id)
qed

theorem missing_variable_not_marked_witness:
  "renderTemplate (\<lambda>_. None) ''{{rollout.tilte}}'' = ''&lt;span class=\"rr-md-var-missing\"&gt;{{rollout.tilte}}&lt;/span&gt;''"
  using missing_variable_not_marked [of "''rollout.tilte''" "\<lambda>_. None"]
  by (simp add: is_var_char_def is_word_char_def sample_def char_code_def)

end
