(* ===== verification/RR_Channels.thy ===== *)
theory RR_Channels
  imports RR_Template
begin

text \<open>
  The channels editor of \<open>src/design/project/master-data.jsx\<close>: announcement channels with their
  integration, retry policy and message template, and the retry schedule with its timeline. The preview
  of a template is in \<open>RR_Template\<close>.

  A field of an integration that is not set is \<open>None\<close> (\<open>undefined\<close>); a text field shows the empty
  text for it. Texts are sequences of bytes (UTF-8). Seconds and numbers of attempts are whole
  numbers; a number of attempts for which the engine cannot allocate an array is outside the model.
\<close>

text \<open>\<open>v || d\<close> for a text that may be missing.\<close>

definition or_text :: "string \<Rightarrow> string option \<Rightarrow> string" where
  "or_text d v = (case v of None \<Rightarrow> d | Some x \<Rightarrow> if x = [] then d else x)"

definition js_text :: "string option \<Rightarrow> string" where
  "js_text v = (case v of None \<Rightarrow> ''undefined'' | Some x \<Rightarrow> x)"

section \<open>Channels\<close>

record retry_policy =
  rp_maxAttempts :: "int option"
  rp_strategy :: "string option"
  rp_initialDelaySec :: "int option"
  rp_alertOnFinalFail :: "bool option"
  rp_dedupeMin :: "int option"

record integration =
  ig_tenantId :: "string option"
  ig_teamId :: "string option"
  ig_channelId :: "string option"
  ig_webhookUrl :: "string option"
  ig_mentions :: "string list option"
  ig_retry :: "retry_policy option"
  ig_smtpHost :: "string option"
  ig_from :: "string option"
  ig_to :: "string option"
  ig_cc :: "string option"
  ig_authMethod :: "string option"
  ig_url :: "string option"
  ig_method :: "string option"
  ig_authHeader :: "string option"

record quiet_hours =
  qh_enabled :: bool
  qh_from :: "string option"
  qh_to :: "string option"

record channel =
  ch_id :: string
  ch_key :: string
  ch_name :: string
  ch_kind :: string
  ch_color :: string
  ch_description :: string
  ch_health :: string
  ch_integration :: integration
  ch_template :: string
  ch_minAdvanceHours :: int
  ch_sendOn :: "string list"
  ch_quietHours :: quiet_hours
  ch_locale :: string

record channel_kind =
  ck_label :: string
  ck_icon :: string
  ck_color :: string

definition CHANNEL_KIND :: "(string \<times> channel_kind) list" where
  "CHANNEL_KIND =
     [(''teams'', \<lparr>ck_label = ''Microsoft Teams'', ck_icon = ''people'', ck_color = ''#4f6bed''\<rparr>),
      (''slack'', \<lparr>ck_label = ''Slack'', ck_icon = ''people'', ck_color = ''#4a154b''\<rparr>),
      (''email'', \<lparr>ck_label = ''Email'', ck_icon = ''link'', ck_color = ''#5eead4''\<rparr>),
      (''webhook'', \<lparr>ck_label = ''Custom Webhook'', ck_icon = ''bolt'', ck_color = ''#fbbf24''\<rparr>)]"

definition kind_of :: "string \<Rightarrow> channel_kind" where
  "kind_of k = (case map_of CHANNEL_KIND k of Some c \<Rightarrow> c
     | None \<Rightarrow> \<lparr>ck_label = ''Custom Webhook'', ck_icon = ''bolt'', ck_color = ''#fbbf24''\<rparr>)"

definition DEFAULT_TEMPLATE_PROD :: string where
  "DEFAULT_TEMPLATE_PROD = ([CHR 0xF0, CHR 0x9F, CHR 0x93, CHR 0xA6] @ '' **{{rollout.title}}** '' @ u_mdash @ '' {{type.short}}'' @ [CHR 0x0A] @ [CHR 0x0A] @ ''**Product:** {{product.name}}'' @ [CHR 0x0A] @ ''**Stage:** {{stage.label}} '' @ u_middot @ '' {{stage.region}}'' @ [CHR 0x0A] @ ''**Window:** {{stage.dateLocal}} '' @ u_middot @ '' ~{{stage.durationHours}}h'' @ [CHR 0x0A] @ ''**Pair:** {{rollout.pair}}'' @ [CHR 0x0A] @ [CHR 0x0A] @ ''{{rollout.descExt}}'' @ [CHR 0x0A] @ [CHR 0x0A] @ ''_Risks:_ {{rollout.risks}}'' @ [CHR 0x0A] @ [CHR 0x0A] @ u_mdash @ '' ReleaseRadar (rollout-id {{rollout.id}})'')"

definition DEFAULT_TEMPLATE_NP :: string where
  "DEFAULT_TEMPLATE_NP = ([CHR 0xF0, CHR 0x9F, CHR 0x94, CHR 0xA7] @ '' **{{rollout.title}}** '' @ u_mdash @ '' {{type.short}}'' @ [CHR 0x0A] @ [CHR 0x0A] @ ''Heads-up: deploying to **{{stage.label}}** at {{stage.dateLocal}} (~{{stage.durationHours}}h).'' @ [CHR 0x0A] @ ''Pair: {{rollout.pair}} '' @ u_middot @ '' ID: {{rollout.id}}'' @ [CHR 0x0A] @ [CHR 0x0A] @ ''{{rollout.descInt}}'')"

definition no_retry :: retry_policy where
  "no_retry = \<lparr>rp_maxAttempts = None, rp_strategy = None, rp_initialDelaySec = None, rp_alertOnFinalFail = None, rp_dedupeMin = None\<rparr>"

definition mk_retry :: "int \<Rightarrow> int \<Rightarrow> bool \<Rightarrow> int \<Rightarrow> retry_policy" where
  "mk_retry n d a m = \<lparr>rp_maxAttempts = Some n, rp_strategy = Some ''exponential'', rp_initialDelaySec = Some d,
     rp_alertOnFinalFail = Some a, rp_dedupeMin = Some m\<rparr>"

definition no_integration :: integration where
  "no_integration = \<lparr>ig_tenantId = None, ig_teamId = None, ig_channelId = None, ig_webhookUrl = None, ig_mentions = None,
     ig_retry = None, ig_smtpHost = None, ig_from = None, ig_to = None, ig_cc = None, ig_authMethod = None, ig_url = None,
     ig_method = None, ig_authHeader = None\<rparr>"

definition CHANNELS_INIT :: "channel list" where
  "CHANNELS_INIT =
     [\<lparr>ch_id = ''ch-1'', ch_key = ''TMS_NP'', ch_name = ''TMS Non-Prod Announcements'', ch_kind = ''teams'', ch_color = ''#a78bfa'',
        ch_description = ''Internal heads-up channel for all non-prod deployments. Used as the '' @ [CHR 0x27] @ ''announces on'' @
          [CHR 0x27] @ '' channel for the non-prod stage.'',
        ch_health = ''ok'',
        ch_integration = no_integration\<lparr>ig_tenantId := Some ''8d5b1a2c-4e7a-44b2-b3f0-2a3a51e5c7d1'',
          ig_teamId := Some (''19:a4b2'' @ u_ellipsis @ ''@thread.tacv2''), ig_channelId := Some ''tms-nonprod-deploys'',
          ig_webhookUrl := Some (''https://prod-12.westeurope.logic.azure.com/workflows/abc.../triggers/manual/paths/invoke?api-version=2016-06-01&sig='' @ u_ellipsis),
          ig_mentions := Some [''@tms-platform''], ig_retry := Some (mk_retry 3 5 False 15)\<rparr>,
        ch_template = DEFAULT_TEMPLATE_NP, ch_minAdvanceHours = 1, ch_sendOn = [''scheduled'', ''active'', ''done'', ''failed''],
        ch_quietHours = \<lparr>qh_enabled = False, qh_from = Some ''22:00'', qh_to = Some ''07:00''\<rparr>, ch_locale = ''de-CH''\<rparr>,
      \<lparr>ch_id = ''ch-2'', ch_key = ''TMS_PROD'', ch_name = ''TMS Production Announcements'', ch_kind = ''teams'', ch_color = ''#5eead4'',
        ch_description = ''Customer-facing announcement channel. SNOW-change-bound. Anything posted here is visible to tenant owners.'',
        ch_health = ''ok'',
        ch_integration = no_integration\<lparr>ig_tenantId := Some ''8d5b1a2c-4e7a-44b2-b3f0-2a3a51e5c7d1'',
          ig_teamId := Some (''19:c9d4'' @ u_ellipsis @ ''@thread.tacv2''), ig_channelId := Some ''tms-prod-deploys'',
          ig_webhookUrl := Some (''https://prod-12.westeurope.logic.azure.com/workflows/def.../triggers/manual/paths/invoke?api-version=2016-06-01&sig='' @ u_ellipsis),
          ig_mentions := Some [''@tms-platform'', ''@customer-success''], ig_retry := Some (mk_retry 5 10 True 60)\<rparr>,
        ch_template = DEFAULT_TEMPLATE_PROD, ch_minAdvanceHours = 168, ch_sendOn = [''scheduled'', ''active'', ''done'', ''failed''],
        ch_quietHours = \<lparr>qh_enabled = True, qh_from = Some ''20:00'', qh_to = Some ''06:00''\<rparr>, ch_locale = ''de-CH''\<rparr>,
      \<lparr>ch_id = ''ch-3'', ch_key = ''SNOW_CHG'', ch_name = ''ServiceNow Change Email'', ch_kind = ''email'', ch_color = ''#fbbf24'',
        ch_description = ''Auto-attaches the rollout summary to the linked SNOW change request.'', ch_health = ''warn'',
        ch_integration = no_integration\<lparr>ig_smtpHost := Some ''smtp.example.com:587'',
          ig_from := Some ''releaseradar@tms-platform.example'', ig_to := Some ''change-mgmt@example.com'',
          ig_cc := Some ''tms-platform-leads@example.com'', ig_authMethod := Some ''OAuth2''\<rparr>,
        ch_template = ''ReleaseRadar attaches: {{rollout.title}} ({{rollout.id}})'' @ [CHR 0x0A] @ ''See {{rollout.runbook}}'',
        ch_minAdvanceHours = 168, ch_sendOn = [''scheduled''],
        ch_quietHours = \<lparr>qh_enabled = False, qh_from = None, qh_to = None\<rparr>, ch_locale = ''en''\<rparr>]"

definition TEMPLATE_VARS :: "(string \<times> string) list" where
  "TEMPLATE_VARS =
     [(''{{rollout.title}}'', ''Rollout title''), (''{{rollout.id}}'', ''Rollout id (e.g. r-101)''),
      (''{{rollout.descExt}}'', ''External description''), (''{{rollout.descInt}}'', ''Internal description''),
      (''{{rollout.risks}}'', ''Risk text''), (''{{rollout.pair}}'', ''Comma-separated pair names''),
      (''{{rollout.runbook}}'', ''Runbook URL''), (''{{type.name}}'', ''Rollout type name''),
      (''{{type.short}}'', ''Rollout type short label''), (''{{product.name}}'', ''Product name''),
      (''{{stage.label}}'', ''Stage label (e.g. prod1 '' @ u_middot @ '' Frankfurt)''), (''{{stage.region}}'', ''Stage region''),
      (''{{stage.dateLocal}}'', ''Stage start (locale-aware)''), (''{{stage.durationHours}}'', ''Stage duration in hours'')]"

definition new_channel :: "string \<Rightarrow> nat \<Rightarrow> channel" where
  "new_channel i n = \<lparr>ch_id = i, ch_key = ''NEW_CHANNEL'', ch_name = ''New channel'', ch_kind = ''teams'', ch_color = ''#7c8cff'',
     ch_description = [], ch_health = ''untested'',
     ch_integration = no_integration\<lparr>ig_tenantId := Some [], ig_teamId := Some [], ig_channelId := Some [], ig_webhookUrl := Some [],
       ig_mentions := Some [], ig_retry := Some (mk_retry 3 5 False 15)\<rparr>,
     ch_template = DEFAULT_TEMPLATE_NP, ch_minAdvanceHours = 24, ch_sendOn = [''scheduled''],
     ch_quietHours = \<lparr>qh_enabled = False, qh_from = Some ''22:00'', qh_to = Some ''07:00''\<rparr>, ch_locale = ''en''\<rparr>"

section \<open>Retry schedule\<close>

definition retrySchedule :: "retry_policy option \<Rightarrow> int list" where
  "retrySchedule v = (case v of
     None \<Rightarrow> []
   | Some r \<Rightarrow>
      let mx = (case rp_maxAttempts r of None \<Rightarrow> 1 | Some n \<Rightarrow> if n = 0 then 1 else n);
          ini = or_default 5 (rp_initialDelaySec r)
      in if mx \<le> 1 then []
         else if rp_strategy r = Some ''none'' then []
         else if rp_strategy r = Some ''fixed'' then replicate (nat (mx - 1)) ini
         else if rp_strategy r = Some ''linear'' then map (\<lambda>i. ini * (int i + 1)) [0..<nat (mx - 1)]
         else map (\<lambda>i. ini * 2 ^ i) [0..<nat (mx - 1)])"

definition formatSec :: "int \<Rightarrow> string" where
  "formatSec s =
     (if s < 60 then show_int s @ ''s''
      else if s < 3600
      then show_int (js_round (of_int s / 60)) @ ''m '' @ trim (if js_mod s 60 \<noteq> 0 then show_int (js_mod s 60) @ ''s'' else [])
      else show_int (js_round (of_int s / 60)) @ ''m'')"

definition retrySummary :: "retry_policy option \<Rightarrow> string" where
  "retrySummary v = (case v of
     None \<Rightarrow> ''no retry''
   | Some r \<Rightarrow>
      if rp_strategy r = Some ''none'' \<or> or_default 0 (rp_maxAttempts r) \<le> 1 then ''no retry''
      else show_int (or_default 0 (rp_maxAttempts r)) @ u_times @ '' '' @ u_middot @ '' '' @ js_text (rp_strategy r) @ '' '' @ u_middot @
        '' total ~'' @ formatSec (sum_list (retrySchedule v)) @
        (if rp_alertOnFinalFail r = Some True then '' '' @ u_middot @ '' page on fail'' else []))"

fun running_sums :: "int \<Rightarrow> int list \<Rightarrow> int list" where
  "running_sums acc [] = []"
| "running_sums acc (d # ds) = (acc + d) # running_sums (acc + d) ds"

text \<open>\<open>(c / total) * 100 + "%"\<close>; dividing by zero gives a text that is no length.\<close>

definition pct_left :: "int \<Rightarrow> int \<Rightarrow> 'a attr" where
  "pct_left ttl c = (if ttl = 0 then Sty ''left'' ''NaN%'' else StyPct ''left'' (of_int c / of_int ttl * 100))"

definition ScheduleTimeline :: "retry_policy option \<Rightarrow> 'a node" where
  "ScheduleTimeline retry =
     (let sched = retrySchedule retry in
      if sched = [] then Elem ''div'' [cls ''rr-md-retry-tl rr-md-retry-tl-empty''] [Text (''Single delivery attempt '' @ u_mdash @ '' no retry.'')]
      else let cum = running_sums 0 sched; ttl = last cum in
    Elem ''div'' [cls ''rr-md-retry-tl'']
      [Elem ''div'' [cls ''rr-md-retry-tl-label'']
        [Text ''Attempt schedule (relative to first send)''],
       Elem ''div'' [cls ''rr-md-retry-tl-bar'']
        ([Elem ''span'' [cls ''rr-md-retry-tl-mark'', Sty ''left'' ''0%'']
          [Elem ''span'' [cls ''rr-md-retry-tl-pip rr-md-retry-tl-pip-first''] [],
           Elem ''span'' [cls ''rr-md-retry-tl-time'']
            [Text ''0'']]] @
         concat (map (\<lambda>(i, c).
            (let isLast = (i = length cum - 1) in
            [Elem ''span'' [cls ''rr-md-retry-tl-mark'', pct_left ttl c]
              [Elem ''span'' [cls (''rr-md-retry-tl-pip '' @ (if isLast then ''rr-md-retry-tl-pip-last'' else []))] [],
               Elem ''span'' [cls ''rr-md-retry-tl-time'']
                [Text ''+'',
                 Text (formatSec c)],
               Elem ''span'' [cls ''rr-md-retry-tl-num'']
                [Text ''#'',
                 Text (show_nat (i + 2))]]]))
          (enumerate 0 cum)))])"

section \<open>The detail pane\<close>

datatype channel_action =
    CChange "channel \<Rightarrow> channel" | CIntegration "integration \<Rightarrow> integration" | CToggleHelp | CTest | CTestTimeout | CRemove

definition retry_of :: "channel \<Rightarrow> retry_policy" where
  "retry_of channel = or_default no_retry (ig_retry (ch_integration channel))"

definition is_channel_key_char :: "char \<Rightarrow> bool" where
  "is_channel_key_char c = (let n = char_code c in (65 \<le> n \<and> n \<le> 90) \<or> (48 \<le> n \<and> n \<le> 57) \<or> n = 95)"

definition SEND_STATES :: "(string \<times> string) list" where
  "SEND_STATES = [(''scheduled'', ''scheduled''), (''active'', ''in flight''), (''done'', ''completed''), (''failed'', ''failed''), (''blocked'', ''blocked'')]"

definition cd_toggleSendOn :: "channel \<Rightarrow> string \<Rightarrow> channel_action" where
  "cd_toggleSendOn channel v = CChange (\<lambda>x. x\<lparr>ch_sendOn := toggle v (ch_sendOn channel)\<rparr>)"

definition cd_head :: "channel \<Rightarrow> channel_kind \<Rightarrow> channel_action node" where
  "cd_head channel kind =
    Elem ''header'' [cls ''rr-md-detail-head'']
      [Elem ''div'' [cls ''rr-md-detail-head-l'']
        [Elem ''span'' [cls ''rr-md-channel-ic rr-md-channel-ic-lg'', Sty ''background'' ((ck_color kind) @ ''22''), Sty ''color'' (ck_color kind), Sty ''borderColor'' ((ck_color kind) @ ''55'')]
          [Icon (ICONS (ck_icon kind)) 18],
         Elem ''div'' []
          [Elem ''div'' [cls ''rr-md-detail-eyebrow'']
            [Text (''CHANNEL '' @ u_middot @ '' ''),
             Elem ''span'' [cls ''rr-mono'']
              [Text (ch_id channel)],
             Text ('' '' @ u_middot @ '' ''),
             Text (ck_label kind)],
           Elem ''h2'' []
            [Text (ch_name channel)]]],
       Elem ''div'' [cls ''rr-md-detail-head-r'']
        [Elem ''button'' [cls ''rr-btn rr-btn-ghost rr-btn-sm'', On ''onClick'' CTest]
          [Icon (ICONS ''bolt'') 12,
           Text '' Send test message''],
         Elem ''button'' [cls ''rr-btn rr-btn-ghost rr-btn-sm rr-btn-danger-ghost'', On ''onClick'' CRemove]
          [Icon (ICONS ''x'') 12,
           Text '' Delete'']]]"

definition cd_test :: "channel \<Rightarrow> string option \<Rightarrow> string \<Rightarrow> channel_action node list" where
  "cd_test channel testResult clock = guarded (testResult \<noteq> None)
    [Elem ''div'' [cls (''rr-md-test '' @ (if (testResult = Some ''ok'') then ''is-ok'' else (if (testResult = Some ''missing'') then ''is-warn'' else [])))]
      (guarded (testResult = Some ''sending'')
        [Icon (ICONS ''bolt'') 12,
         Text ('' Sending test payload'' @ u_ellipsis)] @
       guarded (testResult = Some ''ok'')
        [Icon (ICONS ''check'') 12,
         Text '' Test message delivered to '',
         Elem ''code'' []
          [Text (or_text (or_text ''endpoint'' (ig_to (ch_integration channel))) (ig_channelId (ch_integration channel)))],
         Text '' at '',
         Text (take 5 clock),
         Text ''.''] @
       guarded (testResult = Some ''missing'')
        [Icon (ICONS ''warn'') 12,
         Text ('' Cannot send '' @ u_mdash @ '' fill the integration credentials below first.'')])]"

definition cd_identity :: "channel \<Rightarrow> channel_action node" where
  "cd_identity channel =
    Elem ''div'' [cls ''rr-md-section'']
      [Elem ''div'' [cls ''rr-md-section-title'']
        [Text ''Identity''],
       Elem ''div'' [cls ''rr-form-grid'']
        [Elem ''label'' [cls ''rr-field'']
          [Elem ''span'' []
            [Text ''Channel kind''],
           Elem ''select'' [Attr ''value'' (ch_kind channel), OnVal ''onChange'' (\<lambda>v. (CChange (\<lambda>x. x\<lparr>ch_kind := v\<rparr>)))]
            (map (\<lambda>(k, v).
                Elem ''option'' [Attr ''value'' k]
                  [Text (ck_label v)])
              CHANNEL_KIND)],
         Elem ''label'' [cls ''rr-field'']
          [Elem ''span'' []
            [Text ''Key '',
             Elem ''em'' []
              [Text (''(referenced by stages '' @ u_mdash @ '' uppercase)'')]],
           Elem ''input'' [Attr ''value'' (ch_key channel), OnVal ''onChange'' (\<lambda>v. (CChange (\<lambda>x. x\<lparr>ch_key := (filter is_channel_key_char (toUpperCase v))\<rparr>)))] []],
         Elem ''label'' [cls ''rr-field rr-field-wide'']
          [Elem ''span'' []
            [Text ''Display name''],
           Elem ''input'' [Attr ''value'' (ch_name channel), OnVal ''onChange'' (\<lambda>v. (CChange (\<lambda>x. x\<lparr>ch_name := v\<rparr>)))] []],
         Elem ''label'' [cls ''rr-field rr-field-wide'']
          [Elem ''span'' []
            [Text ''Description''],
           Elem ''textarea'' [AttrN ''rows'' 2, Attr ''value'' (ch_description channel), OnVal ''onChange'' (\<lambda>v. (CChange (\<lambda>x. x\<lparr>ch_description := v\<rparr>)))] []],
         Elem ''label'' [cls ''rr-field'']
          [Elem ''span'' []
            [Text ''Locale''],
           Elem ''select'' [Attr ''value'' (ch_locale channel), OnVal ''onChange'' (\<lambda>v. (CChange (\<lambda>x. x\<lparr>ch_locale := v\<rparr>)))]
            [Elem ''option'' [Attr ''value'' ''en'']
              [Text ''en''],
             Elem ''option'' [Attr ''value'' ''de-CH'']
              [Text ''de-CH''],
             Elem ''option'' [Attr ''value'' ''de-DE'']
              [Text ''de-DE''],
             Elem ''option'' [Attr ''value'' ''fr-CH'']
              [Text ''fr-CH'']]],
         Elem ''label'' [cls ''rr-field'']
          [Elem ''span'' []
            [Text ''Min advance notice (hours)''],
           Elem ''input'' [Attr ''type'' ''number'', Attr ''min'' ''0'', AttrN ''value'' (of_int (ch_minAdvanceHours channel)), OnNum ''onChange'' (\<lambda>n. (CChange (\<lambda>x. x\<lparr>ch_minAdvanceHours := n\<rparr>)))] []]]]"

definition cd_teams :: "channel \<Rightarrow> channel_action node" where
  "cd_teams channel =
    Elem ''div'' [cls ''rr-md-section'']
      [Elem ''div'' [cls ''rr-md-section-title'']
        [Text ''Teams integration''],
       Elem ''p'' [cls ''rr-md-section-hint'']
        [Text ''Set up an Incoming Webhook in your Teams channel and paste the URL here. Tenant + Team + Channel IDs are needed for adaptive-card rich rendering and @mentions.''],
       Elem ''div'' [cls ''rr-md-teams-banner'']
        [Elem ''div'' [cls ''rr-md-teams-logo'']
          [Elem ''svg'' [Attr ''viewBox'' ''0 0 24 24'', Attr ''width'' ''22'', Attr ''height'' ''22'', Attr ''fill'' ''currentColor'']
            [Elem ''path'' [Attr ''d'' ''M14 6h4a2 2 0 0 1 2 2v8a2 2 0 0 1-2 2h-4M4 4h10v16H4z''] []]],
         Elem ''div'' []
          [Elem ''strong'' []
            [Text ''Microsoft Teams''],
           Elem ''div'' [cls ''rr-md-teams-status'']
            [Elem ''span'' [cls ''rr-status-dot''] [],
             Text ('' Workspace connected '' @ u_middot @ '' tenant ''),
             Elem ''code'' []
              [Text ''tms-platform''],
             Elem ''button'' [cls ''rr-link'']
              [Text ''Re-authenticate'']]]],
       Elem ''div'' [cls ''rr-form-grid'']
        [Elem ''label'' [cls ''rr-field rr-field-wide'']
          [Elem ''span'' []
            [Text ''Incoming Webhook URL''],
           Elem ''input'' [Attr ''value'' (or_text [] (ig_webhookUrl (ch_integration channel))), Attr ''placeholder'' (''https://'' @ u_ellipsis @ ''/workflows/'' @ u_ellipsis @ ''/triggers/manual/paths/invoke?'' @ u_ellipsis), OnVal ''onChange'' (\<lambda>v. (CIntegration (\<lambda>x. x\<lparr>ig_webhookUrl := Some v\<rparr>)))] []],
         Elem ''label'' [cls ''rr-field'']
          [Elem ''span'' []
            [Text ''Tenant ID''],
           Elem ''input'' [Attr ''value'' (or_text [] (ig_tenantId (ch_integration channel))), OnVal ''onChange'' (\<lambda>v. (CIntegration (\<lambda>x. x\<lparr>ig_tenantId := Some v\<rparr>))), Attr ''placeholder'' ''GUID''] []],
         Elem ''label'' [cls ''rr-field'']
          [Elem ''span'' []
            [Text ''Team ID''],
           Elem ''input'' [Attr ''value'' (or_text [] (ig_teamId (ch_integration channel))), OnVal ''onChange'' (\<lambda>v. (CIntegration (\<lambda>x. x\<lparr>ig_teamId := Some v\<rparr>))), Attr ''placeholder'' (''19:'' @ u_ellipsis @ ''@thread.tacv2'')] []],
         Elem ''label'' [cls ''rr-field'']
          [Elem ''span'' []
            [Text ''Channel ID / slug''],
           Elem ''input'' [Attr ''value'' (or_text [] (ig_channelId (ch_integration channel))), OnVal ''onChange'' (\<lambda>v. (CIntegration (\<lambda>x. x\<lparr>ig_channelId := Some v\<rparr>)))] []],
         Elem ''label'' [cls ''rr-field'']
          [Elem ''span'' []
            [Text ''Mentions''],
           Elem ''input'' [Attr ''value'' (join_with '', '' (or_default [] (ig_mentions (ch_integration channel)))), OnVal ''onChange'' (\<lambda>v. (CIntegration (\<lambda>x. x\<lparr>ig_mentions := Some (comma_list v)\<rparr>))), Attr ''placeholder'' ''@tms-platform, @customer-success''] []]],
       Elem ''div'' [cls ''rr-md-retry'']
        [Elem ''div'' [cls ''rr-md-retry-head'']
          [Elem ''span'' [cls ''rr-md-section-title'', StyN ''padding'' 0, StyN ''margin'' 0]
            [Text ''Retry policy''],
           Elem ''span'' [cls ''rr-md-retry-summary rr-mono'']
            [Text (retrySummary (ig_retry (ch_integration channel)))]],
         Elem ''div'' [cls ''rr-form-grid'']
          [Elem ''label'' [cls ''rr-field'']
            [Elem ''span'' []
              [Text ''Max attempts''],
             Elem ''input'' [Attr ''type'' ''number'', Attr ''min'' ''1'', Attr ''max'' ''20'', AttrN ''value'' (of_int (or_default 3 (rp_maxAttempts (retry_of channel)))), OnNum ''onChange'' (\<lambda>n. (CIntegration (\<lambda>x. x\<lparr>ig_retry := Some ((retry_of channel)\<lparr>rp_maxAttempts := Some n\<rparr>)\<rparr>)))] []],
           Elem ''label'' [cls ''rr-field'']
            [Elem ''span'' []
              [Text ''Backoff strategy''],
             Elem ''select'' [Attr ''value'' (or_text ''exponential'' (rp_strategy (retry_of channel))), OnVal ''onChange'' (\<lambda>v. (CIntegration (\<lambda>x. x\<lparr>ig_retry := Some ((retry_of channel)\<lparr>rp_strategy := Some v\<rparr>)\<rparr>)))]
              [Elem ''option'' [Attr ''value'' ''exponential'']
                [Text ''Exponential''],
               Elem ''option'' [Attr ''value'' ''linear'']
                [Text ''Linear''],
               Elem ''option'' [Attr ''value'' ''fixed'']
                [Text ''Fixed interval''],
               Elem ''option'' [Attr ''value'' ''none'']
                [Text ''No retry'']]],
           Elem ''label'' [cls ''rr-field'']
            [Elem ''span'' []
              [Text ''Initial delay (sec)''],
             Elem ''input'' [Attr ''type'' ''number'', Attr ''min'' ''0'', Attr ''max'' ''3600'', AttrN ''value'' (of_int (or_default 5 (rp_initialDelaySec (retry_of channel)))), OnNum ''onChange'' (\<lambda>n. (CIntegration (\<lambda>x. x\<lparr>ig_retry := Some ((retry_of channel)\<lparr>rp_initialDelaySec := Some n\<rparr>)\<rparr>)))] []],
           Elem ''label'' [cls ''rr-field'']
            [Elem ''span'' []
              [Text ''Dedupe window (min)''],
             Elem ''input'' [Attr ''type'' ''number'', Attr ''min'' ''0'', Attr ''max'' ''1440'', AttrN ''value'' (of_int (or_default 15 (rp_dedupeMin (retry_of channel)))), OnNum ''onChange'' (\<lambda>n. (CIntegration (\<lambda>x. x\<lparr>ig_retry := Some ((retry_of channel)\<lparr>rp_dedupeMin := Some n\<rparr>)\<rparr>)))] []],
           Elem ''label'' [cls ''rr-field rr-field-wide'']
            [Elem ''span'' []
              [Text ''Alert on final failure''],
             Elem ''div'' [cls ''rr-switch-row'']
              [Elem ''button'' [cls (''rr-switch '' @ (if (rp_alertOnFinalFail (retry_of channel) = Some True) then ''is-on'' else [])), On ''onClick'' (CIntegration (\<lambda>x. x\<lparr>ig_retry := Some ((retry_of channel)\<lparr>rp_alertOnFinalFail := Some (rp_alertOnFinalFail (retry_of channel) \<noteq> Some True)\<rparr>)\<rparr>)), AttrB ''aria-pressed'' (\<not> (\<not> (rp_alertOnFinalFail (retry_of channel) = Some True)))]
                [Elem ''span'' [cls ''rr-switch-thumb''] []],
               Elem ''span'' [cls ''rr-switch-label'']
                [Text (if (rp_alertOnFinalFail (retry_of channel) = Some True) then ''Page on-call after final retry fails'' else (''Log only '' @ u_mdash @ '' no escalation''))]]]],
         ScheduleTimeline (ig_retry (ch_integration channel))]]"

definition cd_email :: "channel \<Rightarrow> channel_action node" where
  "cd_email channel =
    Elem ''div'' [cls ''rr-md-section'']
      [Elem ''div'' [cls ''rr-md-section-title'']
        [Text ''Email integration''],
       Elem ''div'' [cls ''rr-form-grid'']
        [Elem ''label'' [cls ''rr-field'']
          [Elem ''span'' []
            [Text ''SMTP host''],
           Elem ''input'' [Attr ''value'' (or_text [] (ig_smtpHost (ch_integration channel))), OnVal ''onChange'' (\<lambda>v. (CIntegration (\<lambda>x. x\<lparr>ig_smtpHost := Some v\<rparr>))), Attr ''placeholder'' ''smtp.example.com:587''] []],
         Elem ''label'' [cls ''rr-field'']
          [Elem ''span'' []
            [Text ''Auth method''],
           Elem ''select'' [Attr ''value'' (or_text ''OAuth2'' (ig_authMethod (ch_integration channel))), OnVal ''onChange'' (\<lambda>v. (CIntegration (\<lambda>x. x\<lparr>ig_authMethod := Some v\<rparr>)))]
            [Elem ''option'' []
              [Text ''OAuth2''],
             Elem ''option'' []
              [Text ''STARTTLS + password''],
             Elem ''option'' []
              [Text ''None (relay)'']]],
         Elem ''label'' [cls ''rr-field'']
          [Elem ''span'' []
            [Text ''From''],
           Elem ''input'' [Attr ''value'' (or_text [] (ig_from (ch_integration channel))), OnVal ''onChange'' (\<lambda>v. (CIntegration (\<lambda>x. x\<lparr>ig_from := Some v\<rparr>)))] []],
         Elem ''label'' [cls ''rr-field'']
          [Elem ''span'' []
            [Text ''To''],
           Elem ''input'' [Attr ''value'' (or_text [] (ig_to (ch_integration channel))), OnVal ''onChange'' (\<lambda>v. (CIntegration (\<lambda>x. x\<lparr>ig_to := Some v\<rparr>)))] []],
         Elem ''label'' [cls ''rr-field rr-field-wide'']
          [Elem ''span'' []
            [Text ''CC''],
           Elem ''input'' [Attr ''value'' (or_text [] (ig_cc (ch_integration channel))), OnVal ''onChange'' (\<lambda>v. (CIntegration (\<lambda>x. x\<lparr>ig_cc := Some v\<rparr>)))] []]]]"

definition cd_webhook :: "channel \<Rightarrow> channel_action node" where
  "cd_webhook channel =
    Elem ''div'' [cls ''rr-md-section'']
      [Elem ''div'' [cls ''rr-md-section-title'']
        [Text (if ((ch_kind channel) = ''slack'') then ''Slack'' else ''Webhook''),
         Text '' integration''],
       Elem ''div'' [cls ''rr-form-grid'']
        [Elem ''label'' [cls ''rr-field rr-field-wide'']
          [Elem ''span'' []
            [Text ''URL''],
           Elem ''input'' [Attr ''value'' (or_text (or_text [] (ig_webhookUrl (ch_integration channel))) (ig_url (ch_integration channel))), OnVal ''onChange'' (\<lambda>v. (CIntegration (\<lambda>x. x\<lparr>ig_url := Some v\<rparr>)))] []],
         Elem ''label'' [cls ''rr-field'']
          [Elem ''span'' []
            [Text ''Method''],
           Elem ''select'' [Attr ''value'' (or_text ''POST'' (ig_method (ch_integration channel))), OnVal ''onChange'' (\<lambda>v. (CIntegration (\<lambda>x. x\<lparr>ig_method := Some v\<rparr>)))]
            [Elem ''option'' []
              [Text ''POST''],
             Elem ''option'' []
              [Text ''PUT''],
             Elem ''option'' []
              [Text ''PATCH'']]],
         Elem ''label'' [cls ''rr-field'']
          [Elem ''span'' []
            [Text ''Auth header''],
           Elem ''input'' [Attr ''value'' (or_text [] (ig_authHeader (ch_integration channel))), OnVal ''onChange'' (\<lambda>v. (CIntegration (\<lambda>x. x\<lparr>ig_authHeader := Some v\<rparr>))), Attr ''placeholder'' (''Bearer '' @ u_ellipsis)] []]]]"

definition cd_triggers :: "channel \<Rightarrow> channel_action node" where
  "cd_triggers channel =
    Elem ''div'' [cls ''rr-md-section'']
      [Elem ''div'' [cls ''rr-md-section-title'']
        [Text ''Trigger on rollout state''],
       Elem ''div'' [cls ''rr-pair-pickers'']
        (concat (map (\<lambda>s.
            (let on = (fst s \<in> set (ch_sendOn channel)) in
            [Elem ''button'' [cls (''rr-prod-pick '' @ (if on then ''is-on'' else [])), On ''onClick'' (cd_toggleSendOn channel (fst s))]
              [Text (snd s)]]))
          SEND_STATES)),
       Elem ''div'' [cls ''rr-md-quiet'']
        ([Elem ''label'' [cls ''rr-field'']
          [Elem ''span'' []
            [Text ''Quiet hours''],
           Elem ''div'' [cls ''rr-switch-row'']
            [Elem ''button'' [cls (''rr-switch '' @ (if (qh_enabled (ch_quietHours channel)) then ''is-on'' else [])), On ''onClick'' (CChange (\<lambda>x. x\<lparr>ch_quietHours := ((ch_quietHours channel)\<lparr>qh_enabled := \<not> qh_enabled (ch_quietHours channel)\<rparr>)\<rparr>)), AttrB ''aria-pressed'' (qh_enabled (ch_quietHours channel))]
              [Elem ''span'' [cls ''rr-switch-thumb''] []],
             Elem ''span'' [cls ''rr-switch-label'']
              [Text (if (qh_enabled (ch_quietHours channel)) then (''Defer to next morning between '' @ js_text (qh_from (ch_quietHours channel)) @ '' and '' @ js_text (qh_to (ch_quietHours channel))) else ''Send any time'')]]]] @
         guarded (qh_enabled (ch_quietHours channel))
          [Elem ''label'' [cls ''rr-field'']
            [Elem ''span'' []
              [Text ''From''],
             Elem ''input'' [Attr ''type'' ''time'', Attr ''value'' (or_text [] (qh_from (ch_quietHours channel))), OnVal ''onChange'' (\<lambda>v. (CChange (\<lambda>x. x\<lparr>ch_quietHours := ((ch_quietHours channel)\<lparr>qh_from := Some v\<rparr>)\<rparr>)))] []],
           Elem ''label'' [cls ''rr-field'']
            [Elem ''span'' []
              [Text ''To''],
             Elem ''input'' [Attr ''type'' ''time'', Attr ''value'' (or_text [] (qh_to (ch_quietHours channel))), OnVal ''onChange'' (\<lambda>v. (CChange (\<lambda>x. x\<lparr>ch_quietHours := ((ch_quietHours channel)\<lparr>qh_to := Some v\<rparr>)\<rparr>)))] []]])]"

definition cd_template :: "(string \<Rightarrow> string option) \<Rightarrow> channel \<Rightarrow> bool \<Rightarrow> channel_action node" where
  "cd_template proto channel showHelp =
    Elem ''div'' [cls ''rr-md-section'']
      ([Elem ''div'' [cls ''rr-md-section-title'']
        [Text ''Announcement template'',
         Elem ''button'' [cls ''rr-link'', On ''onClick'' CToggleHelp, Sty ''marginLeft'' ''auto'']
          [Text (if showHelp then ''Hide variables'' else ''Show variables'')]],
       Elem ''p'' [cls ''rr-md-section-hint'']
        [Text ''Use '',
         Elem ''code'' []
          [Text ''{{variable}}''],
         Text '' placeholders. Markdown is rendered for Teams; plaintext for email/webhook.'']] @
       guarded showHelp
        [Elem ''div'' [cls ''rr-md-vars'']
          (map (\<lambda>v.
              Elem ''div'' [cls ''rr-md-var'']
                [Elem ''code'' []
                  [Text (fst v)],
                 Elem ''span'' []
                  [Text (snd v)]])
            TEMPLATE_VARS)] @
       [Elem ''div'' [cls ''rr-md-template-grid'']
        [Elem ''label'' [cls ''rr-field rr-field-wide'']
          [Elem ''span'' []
            [Text ''Template source''],
           Elem ''textarea'' [AttrN ''rows'' 10, Attr ''value'' (ch_template channel), OnVal ''onChange'' (\<lambda>v. (CChange (\<lambda>x. x\<lparr>ch_template := v\<rparr>)))] []],
         Elem ''div'' [cls ''rr-field rr-field-wide'']
          [Elem ''span'' []
            [Text ''Preview '',
             Elem ''em'' []
              [Text ''(rendered with sample data)'']],
           Elem ''div'' [cls ''rr-md-preview'', Attr ''dangerouslySetInnerHTML'' (renderTemplate proto (ch_template channel))] []]]])"

definition ChannelDetail :: "(string \<Rightarrow> string option) \<Rightarrow> channel \<Rightarrow> bool \<Rightarrow> string option \<Rightarrow> string \<Rightarrow> channel_action node" where
  "ChannelDetail proto channel showHelp testResult clock =
     (let kind = kind_of (ch_kind channel) in
      Elem ''div'' [cls ''rr-md-detail-inner'']
        ([cd_head channel kind] @ cd_test channel testResult clock @ [cd_identity channel] @
         guarded (ch_kind channel = ''teams'') [cd_teams channel] @
         guarded (ch_kind channel = ''email'') [cd_email channel] @
         guarded (ch_kind channel = ''webhook'' \<or> ch_kind channel = ''slack'') [cd_webhook channel] @
         [cd_triggers channel, cd_template proto channel showHelp]))"

section \<open>The editor\<close>

text \<open>
  \<open>cs_pending\<close> holds the outcomes of the tests that were sent and whose timer has not fired, in order; an
  outcome is that of the channel for which the button was pressed. The pane is not remounted when another
  channel is selected, so its state stays.
\<close>

record channels_state = "channel md_state" +
  cs_showHelp :: bool
  cs_testResult :: "string option"
  cs_pending :: "string list"

definition channels_init :: "nat \<Rightarrow> channels_state" where
  "channels_init now = \<lparr>md_items = CHANNELS_INIT, md_selectedId = md_first ch_id CHANNELS_INIT, md_clock = now,
     cs_showHelp = False, cs_testResult = None, cs_pending = []\<rparr>"

definition channels_item :: "channel \<Rightarrow> 'd md_action node list" where
  "channels_item c =
     (let kind = kind_of (ch_kind c) in
    [Elem ''span'' [cls ''rr-md-channel-ic'', Sty ''background'' ((ck_color kind) @ ''22''), Sty ''color'' (ck_color kind), Sty ''borderColor'' ((ck_color kind) @ ''55'')]
      [Icon (ICONS (ck_icon kind)) 12],
     Elem ''div'' [cls ''rr-md-list-body'']
      [Elem ''div'' [cls ''rr-md-list-name'']
        [Text (ch_name c),
         Elem ''span'' [cls (''rr-md-health rr-md-health-'' @ (ch_health c))]
          [Text (ch_health c)]],
       Elem ''div'' [cls ''rr-md-list-meta'']
        [Elem ''span'' [cls ''rr-mono'']
          [Text (ch_key c)],
         Elem ''span'' [cls ''rr-md-list-sep'']
          [Text u_middot],
         Elem ''span'' []
          [Text (ck_label kind)]]]])"

definition channels_pane :: "(string \<Rightarrow> string option) \<Rightarrow> (nat \<Rightarrow> string) \<Rightarrow> channels_state \<Rightarrow> channel_action node list option" where
  "channels_pane proto clock st = Some (case md_selected ch_id st of
     None \<Rightarrow> []
   | Some c \<Rightarrow> [ChannelDetail proto c (cs_showHelp st) (cs_testResult st) (clock (md_clock st))])"

definition test_outcome :: "channel \<Rightarrow> string" where
  "test_outcome c = (if or_text (or_text [] (ig_smtpHost (ch_integration c))) (ig_webhookUrl (ch_integration c)) \<noteq> [] then ''ok'' else ''missing'')"

fun channels_detail_act :: "channel_action \<Rightarrow> channels_state \<Rightarrow> channels_state" where
  "channels_detail_act (CChange patch) st = md_update ch_id patch st"
| "channels_detail_act (CIntegration patch) st = md_update ch_id (\<lambda>c. c\<lparr>ch_integration := patch (ch_integration c)\<rparr>) st"
| "channels_detail_act CToggleHelp st = st\<lparr>cs_showHelp := \<not> cs_showHelp st\<rparr>"
| "channels_detail_act CTest st =
     (case md_selected ch_id st of
        None \<Rightarrow> st
      | Some c \<Rightarrow> st\<lparr>cs_testResult := Some ''sending'', cs_pending := cs_pending st @ [test_outcome c]\<rparr>)"
| "channels_detail_act CTestTimeout st =
     (case cs_pending st of [] \<Rightarrow> st | r # rs \<Rightarrow> st\<lparr>cs_testResult := Some r, cs_pending := rs\<rparr>)"
| "channels_detail_act CRemove st =
     (case md_selected ch_id st of None \<Rightarrow> st | Some c \<Rightarrow> md_remove ch_id (ch_id c) st)"

definition channels_reset :: "channels_state \<Rightarrow> channels_state" where
  "channels_reset st = st\<lparr>cs_showHelp := False, cs_testResult := None, cs_pending := []\<rparr>"

definition ChannelsEditor :: "(string \<Rightarrow> string option) \<Rightarrow> (nat \<Rightarrow> string) \<Rightarrow> channels_state \<Rightarrow> channel_action md_action node option" where
  "ChannelsEditor proto clock = md_view ch_id ''New channel'' channels_item (channels_pane proto clock)"

definition channels_act :: "channel_action md_action \<Rightarrow> channels_state \<Rightarrow> channels_state" where
  "channels_act = md_act ''ch-'' new_channel channels_reset channels_detail_act"

section \<open>Properties of the retry schedule\<close>

text \<open>The closed form of the time until the last attempt, for \<open>k\<close> retries.\<close>

definition total_delay :: "string option \<Rightarrow> int \<Rightarrow> nat \<Rightarrow> int" where
  "total_delay strategy d k =
     (if strategy = Some ''none'' then 0
      else if strategy = Some ''fixed'' then int k * d
      else if strategy = Some ''linear'' then d * (int k * (int k + 1) div 2)
      else d * (2 ^ k - 1))"

lemma sum_linear: "sum_list (map (\<lambda>i. d * (int i + 1)) [0..<k]) = d * (int k * (int k + 1) div 2)"
proof (induction k)
  case (Suc k)
  have "int (Suc k) * (int (Suc k) + 1) = int k * (int k + 1) + (int k + 1) * 2" by (simp add: algebra_simps)
  then have "int (Suc k) * (int (Suc k) + 1) div 2 = int k * (int k + 1) div 2 + (int k + 1)" by simp
  then show ?case using Suc by (simp add: distrib_left)
qed simp

lemma sum_exponential: "sum_list (map (\<lambda>i. d * 2 ^ i) [0..<k]) = (d :: int) * (2 ^ k - 1)"
  by (induction k) (simp_all add: algebra_simps)

lemma retrySchedule_sum:
  assumes "rp_maxAttempts r = Some (int k + 1)" "rp_initialDelaySec r = Some d"
  shows "sum_list (retrySchedule (Some r)) = total_delay (rp_strategy r) d k"
    "length (retrySchedule (Some r)) = (if rp_strategy r = Some ''none'' then 0 else k)"
  using assms sum_linear [of d k] sum_exponential [of d k]
  by (simp_all add: retrySchedule_def total_delay_def or_default_def Let_def sum_list_replicate)

lemma retrySchedule_pos: "rp_initialDelaySec r = Some d \<Longrightarrow> 0 < d \<Longrightarrow> x \<in> set (retrySchedule (Some r)) \<Longrightarrow> 0 < x"
  by (auto simp: retrySchedule_def or_default_def Let_def split: if_splits)

lemma length_running_sums [simp]: "length (running_sums acc ds) = length ds"
  by (induction acc ds rule: running_sums.induct) auto

lemma running_sums_Nil [simp]: "running_sums acc ds = [] \<longleftrightarrow> ds = []"
  by (cases ds) auto

lemma running_sums_last: "ds \<noteq> [] \<Longrightarrow> last (running_sums acc ds) = acc + sum_list ds"
  by (induction acc ds rule: running_sums.induct) auto

lemma running_sums_bounds: "\<forall>d \<in> set ds. 0 < d \<Longrightarrow> c \<in> set (running_sums acc ds) \<Longrightarrow> acc < c \<and> c \<le> acc + sum_list ds"
proof (induction acc ds rule: running_sums.induct)
  case (2 acc d ds)
  have "0 \<le> sum_list ds" using "2.prems"(1) by (intro sum_list_nonneg) auto
  then show ?case using 2 by auto
qed simp

lemma running_sums_sorted: "\<forall>d \<in> set ds. 0 < d \<Longrightarrow> sorted_wrt (<) (running_sums acc ds)"
  by (induction acc ds rule: running_sums.induct) (auto dest: running_sums_bounds)

section \<open>Reachable states of the editor\<close>

text \<open>The key has only capital letters, digits and underscores; the triggers are listed once and exist; the kind is one of the list.\<close>

definition channel_good :: "channel \<Rightarrow> bool" where
  "channel_good c \<longleftrightarrow> list_all is_channel_key_char (ch_key c) \<and> distinct (ch_sendOn c) \<and>
     set (ch_sendOn c) \<subseteq> fst ` set SEND_STATES \<and> ch_kind c \<in> fst ` set CHANNEL_KIND"

lemma offered_channels_item: "offered_list (channels_item c) = {}"
  by (simp add: channels_item_def Let_def)

lemma offered_ScheduleTimeline: "offered (ScheduleTimeline r) = {}"
  by (auto simp: ScheduleTimeline_def Let_def pct_left_def split: if_splits)

lemma offered_cd_quiet: "offered (cd_head c kind) \<subseteq> {CTest, CRemove}" "offered_list (cd_test c r t) = {}"
  by (auto simp: cd_head_def cd_test_def)

lemma offered_cd_identity: "offered (cd_identity c) \<subseteq> CChange ` keeps ch_id channel_good"
  by (auto simp: cd_identity_def keeps_def channel_good_def list_all_iff CHANNEL_KIND_def)

lemma offered_cd_integration: "offered (cd_teams c) \<subseteq> range CIntegration" "offered (cd_email c) \<subseteq> range CIntegration"
  "offered (cd_webhook c) \<subseteq> range CIntegration"
  by (auto simp: cd_teams_def cd_email_def cd_webhook_def offered_ScheduleTimeline)

lemma toggle_known: "set xs \<subseteq> S \<Longrightarrow> s \<in> S \<Longrightarrow> distinct xs \<Longrightarrow> distinct (toggle s xs) \<and> set (toggle s xs) \<subseteq> S"
  by (auto simp: distinct_toggle in_toggle split: if_splits)

lemma offered_cd_triggers: "channel_good c \<Longrightarrow> offered (cd_triggers c) \<subseteq> CChange ` keeps ch_id channel_good"
proof -
  assume c: "channel_good c"
  have "(\<lambda>x. x\<lparr>ch_sendOn := toggle s (ch_sendOn c)\<rparr>) \<in> keeps ch_id channel_good" if "s \<in> fst ` set SEND_STATES" for s
    using c toggle_known [OF _ that, of "ch_sendOn c"] by (simp add: keeps_def channel_good_def)
  then have t: "cd_toggleSendOn c s \<in> CChange ` keeps ch_id channel_good" if "s \<in> fst ` set SEND_STATES" for s
    unfolding cd_toggleSendOn_def using that by blast
  have q: "(\<lambda>x. x\<lparr>ch_quietHours := q\<rparr>) \<in> keeps ch_id channel_good" for q by (simp add: keeps_def channel_good_def)
  show "offered (cd_triggers c) \<subseteq> CChange ` keeps ch_id channel_good"
    using t q by (auto simp: cd_triggers_def Let_def offered_list_concat)
qed

lemma offered_cd_template: "offered (cd_template proto c h) \<subseteq> {CToggleHelp} \<union> CChange ` keeps ch_id channel_good"
  by (auto simp: cd_template_def keeps_def channel_good_def)

lemma offered_ChannelDetail: "channel_good c \<Longrightarrow> offered (ChannelDetail proto c h r t) \<subseteq>
    {CTest, CRemove, CToggleHelp} \<union> range CIntegration \<union> CChange ` keeps ch_id channel_good"
  using offered_cd_quiet [of c] offered_cd_identity [of c] offered_cd_integration [of c] offered_cd_triggers [of c]
    offered_cd_template [of proto c h]
  by (simp add: ChannelDetail_def Let_def) blast

lemma channels_init_ok: "10 \<le> now \<Longrightarrow> md_ok ch_id ''ch-'' (channels_init now)"
proof -
  assume "10 \<le> now"
  then have "show_nat t \<noteq> [c]" if "now \<le> t" for t c using that show_nat_two_digits by simp
  then show ?thesis by (simp add: md_ok_def channels_init_def md_first_def CHANNELS_INIT_def)
qed

lemma channels_init_good: "list_all channel_good CHANNELS_INIT"
  unfolding channel_good_def by code_simp

lemma new_channel_good: "channel_good (new_channel i n)"
  by (simp add: channel_good_def new_channel_def is_channel_key_char_def char_code_def SEND_STATES_def CHANNEL_KIND_def)

lemma channels_plain_ok:
  assumes "md_ok ch_id pre st" "list_all channel_good (md_items st)"
  shows "md_ok ch_id pre (st\<lparr>cs_showHelp := h\<rparr>) \<and> list_all channel_good (md_items (st\<lparr>cs_showHelp := h\<rparr>))"
    "md_ok ch_id pre (st\<lparr>cs_testResult := r, cs_pending := p\<rparr>) \<and> list_all channel_good (md_items (st\<lparr>cs_testResult := r, cs_pending := p\<rparr>))"
  using assms md_ok_cong [of "st\<lparr>cs_showHelp := h\<rparr>" st] md_ok_cong [of "st\<lparr>cs_testResult := r, cs_pending := p\<rparr>" st] by simp_all

lemma channels_integration_ok:
  assumes "md_ok ch_id pre st" "list_all channel_good (md_items st)"
  shows "md_ok ch_id pre (channels_detail_act (CIntegration f) st) \<and> list_all channel_good (md_items (channels_detail_act (CIntegration f) st))"
proof -
  have "(\<lambda>c. c\<lparr>ch_integration := f (ch_integration c)\<rparr>) \<in> keeps ch_id channel_good" by (simp add: keeps_def channel_good_def)
  from keeps_update [OF this assms] show ?thesis by simp
qed

interpretation channels: md_editor ch_id "''ch-''" new_channel channels_reset channels_detail_act "''New channel''" channels_item
  "channels_pane proto clock" "channels_init (now + 10)" "list_all channel_good" "{CTestTimeout}" for proto clock now
proof
  show "md_ok ch_id ''ch-'' (channels_init (now + 10))" by (rule channels_init_ok) simp
  show "list_all channel_good (md_items (channels_init (now + 10)))" by (simp add: channels_init_def channels_init_good)
next
  fix st x ns d
  assume ok: "md_ok ch_id ''ch-'' st" "list_all channel_good (md_items st)"
    and x: "md_selected ch_id st = Some x" and ns: "channels_pane proto clock st = Some ns" "d \<in> offered_list ns"
  have "channel_good x" using md_selected_mem [OF x] ok(2) by (auto simp: list_all_iff)
  from offered_ChannelDetail [OF this, of proto "cs_showHelp st" "cs_testResult st" "clock (md_clock st)"]
  have "d \<in> {CTest, CRemove, CToggleHelp} \<union> range CIntegration \<union> CChange ` keeps ch_id channel_good"
    by (rule subsetD) (use ns x in \<open>auto simp: channels_pane_def\<close>)
  then show "md_ok ch_id ''ch-'' (channels_detail_act d st) \<and> list_all channel_good (md_items (channels_detail_act d st))"
    using ok x channels_plain_ok [OF ok] channels_integration_ok [OF ok] keeps_update [OF _ ok]
    by (auto simp: md_ok_remove md_remove_all)
next
  fix st :: channels_state and d
  assume "md_ok ch_id ''ch-'' st" "list_all channel_good (md_items st)" "d \<in> {CTestTimeout}"
  then show "md_ok ch_id ''ch-'' (channels_detail_act d st) \<and> list_all channel_good (md_items (channels_detail_act d st))"
    using channels_plain_ok [of "''ch-''" st] by (simp split: list.splits)
qed (simp_all add: new_channel_good offered_channels_item channels_reset_def channels_pane_def, simp add: new_channel_def)

abbreviation channels_reach :: "(string \<Rightarrow> string option) \<Rightarrow> (nat \<Rightarrow> string) \<Rightarrow> nat \<Rightarrow> channels_state \<Rightarrow> bool" where
  "channels_reach proto clock now \<equiv>
     ui_reach (ChannelsEditor proto clock) (range MDTick \<union> {MDDetail CTestTimeout}) channels_act (channels_init now)"

lemma channels_reach_ok:
  assumes "channels_reach proto clock now st" "10 \<le> now"
  shows "distinct (map ch_id (md_items st))" "list_all channel_good (md_items st)" "ChannelsEditor proto clock st \<noteq> None"
    "md_selectedId st = None \<longleftrightarrow> md_items st = []" "md_selectedId st = Some i \<Longrightarrow> i \<in> ch_id ` set (md_items st)"
    "md_ok ch_id ''ch-'' st"
proof -
  obtain m where now: "now = m + 10" using assms(2) by (metis add.commute le_Suc_ex)
  have r: "ui_reach (md_view ch_id ''New channel'' channels_item (channels_pane proto clock)) (range MDTick \<union> MDDetail ` {CTestTimeout})
      (md_act ''ch-'' new_channel channels_reset channels_detail_act) (channels_init (m + 10)) st"
    using assms(1) by (simp add: ChannelsEditor_def channels_act_def now)
  show "distinct (map ch_id (md_items st))" "list_all channel_good (md_items st)" "ChannelsEditor proto clock st \<noteq> None"
    "md_selectedId st = None \<longleftrightarrow> md_items st = []" "md_selectedId st = Some i \<Longrightarrow> i \<in> ch_id ` set (md_items st)"
    "md_ok ch_id ''ch-'' st"
    using channels.reach_ok [OF r] by (simp_all add: ChannelsEditor_def)
qed

lemma channels_timeout:
  assumes "cs_pending st = r # rs" "md_selected ch_id st = Some c"
  shows "md_selected ch_id (channels_act (MDDetail CTestTimeout) st) = Some c"
    "cs_testResult (channels_act (MDDetail CTestTimeout) st) = Some r"
  using assms by (auto simp: channels_act_def md_act_def md_selected_def split: option.splits)

section \<open>Properties\<close>

text \<open>
  The channels editor: from a start at a clock reading of at least ten milliseconds, in every state a
  user can reach the ids are distinct, an entry is selected exactly when there is one and the selected id
  exists, the view renders, every key consists of capital letters, digits and underscores, every trigger
  is a known state and listed once, and every kind is a known kind.
\<close>

theorem channels_reachable:
  assumes "channels_reach proto clock now st" "10 \<le> now"
  shows "distinct (map ch_id (md_items st)) \<and> (md_selectedId st = None \<longleftrightarrow> md_items st = []) \<and>
    (\<forall>i. md_selectedId st = Some i \<longrightarrow> i \<in> ch_id ` set (md_items st)) \<and> ChannelsEditor proto clock st \<noteq> None \<and>
    list_all (\<lambda>c. list_all is_channel_key_char (ch_key c) \<and> distinct (ch_sendOn c) \<and>
      set (ch_sendOn c) \<subseteq> fst ` set SEND_STATES \<and> ch_kind c \<in> fst ` set CHANNEL_KIND) (md_items st)"
  using channels_reach_ok [OF assms] by (auto simp: channel_good_def list_all_iff)

theorem channels_reachable_witness:
  "ChannelsEditor (\<lambda>_. None) (\<lambda>_. ''10:00:00'') (channels_init 1000) \<noteq> None"
  using channels_reachable [OF ui_reach.init, of 1000 "\<lambda>_. None" "\<lambda>_. ''10:00:00''"] by simp

text \<open>
  The retry schedule agrees with its closed form: with \<open>k\<close> attempts after the first and the initial
  delay \<open>d\<close> there is no delay without a strategy, and otherwise \<open>k\<close> delays that add up to \<open>k d\<close> (fixed),
  \<open>d k (k + 1) / 2\<close> (linear) or \<open>d (2^k - 1)\<close> (exponential).
\<close>

theorem retrySchedule_total:
  assumes "rp_maxAttempts r = Some (int k + 1)" "rp_initialDelaySec r = Some d"
  shows "sum_list (retrySchedule (Some r)) =
      (if rp_strategy r = Some ''none'' then 0
       else if rp_strategy r = Some ''fixed'' then int k * d
       else if rp_strategy r = Some ''linear'' then d * (int k * (int k + 1) div 2)
       else d * (2 ^ k - 1)) \<and>
    length (retrySchedule (Some r)) = (if rp_strategy r = Some ''none'' then 0 else k)"
  using retrySchedule_sum [OF assms] by (simp add: total_delay_def)

theorem retrySchedule_total_witness:
  "sum_list (retrySchedule (Some (mk_retry 5 10 True 60))) = 150"
  using retrySchedule_total [of "mk_retry 5 10 True 60" 4 10] by (simp add: mk_retry_def)

text \<open>
  The marks of the schedule: for a positive initial delay there is one mark per retry, the marks are at
  strictly increasing times after the first send, the last one is at the end of the bar and none is beyond it.
\<close>

theorem schedule_marks:
  assumes "rp_initialDelaySec r = Some d" "0 < d" "retrySchedule (Some r) \<noteq> []"
  shows "sorted_wrt (<) (running_sums 0 (retrySchedule (Some r))) \<and>
    (\<forall>c \<in> set (running_sums 0 (retrySchedule (Some r))). 0 < c \<and> c \<le> last (running_sums 0 (retrySchedule (Some r)))) \<and>
    last (running_sums 0 (retrySchedule (Some r))) = sum_list (retrySchedule (Some r)) \<and>
    length (running_sums 0 (retrySchedule (Some r))) = length (retrySchedule (Some r))"
  using retrySchedule_pos [OF assms(1,2)] running_sums_sorted [of "retrySchedule (Some r)" 0]
    running_sums_bounds [of "retrySchedule (Some r)" _ 0] running_sums_last [OF assms(3), of 0] by simp

theorem schedule_marks_witness:
  "sorted_wrt (<) (running_sums 0 (retrySchedule (Some (mk_retry 5 10 True 60))))"
proof -
  have "retrySchedule (Some (mk_retry 5 10 True 60)) \<noteq> []" by (simp add: retrySchedule_def mk_retry_def Let_def)
  from schedule_marks [OF _ _ this, of 10] show ?thesis by (simp add: mk_retry_def)
qed

text \<open>
  A time between a minute and an hour that has at least thirty seconds over is printed with a minute
  too many: the minutes are rounded, not cut off, and the seconds are printed besides.
\<close>

theorem formatSec_minute_too_many:
  assumes "1 \<le> m" "m < 60" "30 \<le> s" "s < 60"
  shows "formatSec (m * 60 + s) = show_int (m + 1) @ ''m '' @ trim (show_int s @ ''s'')"
proof -
  have "js_round (of_int (m * 60 + s) / 60) = m + 1" unfolding js_round_def using assms by (simp add: floor_eq_iff field_simps)
  moreover have "js_mod (m * 60 + s) 60 = s" using assms by (simp add: js_mod_def)
  ultimately show ?thesis using assms by (simp add: formatSec_def)
qed

theorem formatSec_minute_too_many_witness: "formatSec 90 = ''2m 30s''"
  using formatSec_minute_too_many [of 1 30] by (simp add: show_int_def show_nat.simps) code_simp

text \<open>
  The outcome of a test is shown for another channel: after a test of the first channel is sent and a
  new channel, which has no credentials, is added before the answer, the pane of the new channel shows that
  the test succeeded.
\<close>

theorem test_result_of_another_channel:
  "\<exists>st c. channels_reach proto clock 1000 st \<and> md_selected ch_id st = Some c \<and>
     test_outcome c = ''missing'' \<and> cs_testResult st = Some ''ok''"
proof -
  let ?s0 = "channels_init 1000"
  let ?s1 = "channels_act (MDDetail CTest) ?s0"
  let ?s2 = "channels_act MDAdd ?s1"
  let ?s3 = "channels_act (MDDetail CTestTimeout) ?s2"
  have sel: "md_selected ch_id ?s0 = Some (hd CHANNELS_INIT)"
    by (simp add: md_selected_def channels_init_def md_first_def CHANNELS_INIT_def)
  have test: "test_outcome (hd CHANNELS_INIT) = ''ok''"
    by (simp add: test_outcome_def CHANNELS_INIT_def no_integration_def or_text_def)
  have s1: "?s1 = ?s0\<lparr>cs_testResult := Some ''sending'', cs_pending := [''ok'']\<rparr>"
    using sel test by (simp add: channels_act_def md_act_def) (simp add: channels_init_def md_first_def CHANNELS_INIT_def)
  have r0: "channels_reach proto clock 1000 ?s0" by (rule ui_reach.init)
  have "MDDetail CTest \<in> offered_opt (ChannelsEditor proto clock ?s0)"
    using sel by (simp add: ChannelsEditor_def md_view_def MDMasterDetail_def channels_pane_def ChannelDetail_def Let_def cd_head_def)
      (simp add: channels_init_def md_first_def CHANNELS_INIT_def)
  then have r1: "channels_reach proto clock 1000 ?s1" by (intro ui_reach.act [OF r0]) simp
  have "MDAdd \<in> offered_opt (ChannelsEditor proto clock ?s1)"
    using channels_reach_ok(3) [OF r1] by (auto simp: ChannelsEditor_def md_view_def MDMasterDetail_def split: option.splits if_splits)
  then have r2: "channels_reach proto clock 1000 ?s2" by (intro ui_reach.act [OF r1]) simp
  have r3: "channels_reach proto clock 1000 ?s3" by (intro ui_reach.act [OF r2]) simp
  have sel2: "md_selected ch_id ?s2 = Some (new_channel (''ch-'' @ show_nat (md_clock ?s1)) (length (md_items ?s1)))"
    using channels.selected_add [OF channels_reach_ok(6) [OF r1]] by (simp add: channels_act_def md_act_def Let_def md_add_def)
  have p2: "cs_pending ?s2 = [''ok'']" unfolding s1 by (simp add: channels_act_def md_act_def md_add_def Let_def)
  note after = channels_timeout [OF p2 sel2]
  have "test_outcome (new_channel i n) = ''missing''" for i n
    by (simp add: test_outcome_def new_channel_def no_integration_def or_text_def)
  then show ?thesis using r3 after by metis
qed

end
