(* ===== verification/RR_Contacts.thy ===== *)
theory RR_Contacts
  imports RR_Panels RR_MasterDetail
begin

text \<open>
  The contacts card of \<open>src/design/project/timeline.jsx\<close> (lines 542 to 769): the contacts with their search,
  the groups by product, the selected contact, and the form for a new one. As in the other editors the clock
  is part of the state and advances with every contact that is added.

  The groups are the entries of an object whose keys are product ids; the keys are no array indices, so the
  entries come in the order in which the keys were first set. \<open>Object.entries\<close> is this list.
\<close>

section \<open>Contacts\<close>

record contact =
  ct_id :: string
  ct_product :: string
  ct_name :: string
  ct_email :: string
  ct_role :: string
  ct_snow :: string
  ct_notes :: string

record contact_draft =
  cd_name :: string
  cd_email :: string
  cd_role :: string
  cd_product :: string
  cd_notes :: string
  cd_snow :: string

definition CONTACTS_INIT :: "contact list" where
  "CONTACTS_INIT =
     [\<lparr>ct_id = ''c-1'', ct_product = ''operator'', ct_name = (''Lukas R'' @ u_ue @ ''egg''), ct_email = ''lukas.ruegg@solace-ops.example'', ct_role = (''Solace Ops '' @ u_middot @ '' primary''), ct_snow = ''CHG / std-23'', ct_notes = (''Always copy on oracle migrations. Reachable Mon'' @ u_ndash @ ''Fri 08:00'' @ u_ndash @ ''18:00 CET. Vacation backup: see Eva G.'')\<rparr>,
      \<lparr>ct_id = ''c-2'', ct_product = ''operator'', ct_name = ''Anna Steiner'', ct_email = ''anna.steiner@solace-ops.example'', ct_role = (''Solace Ops '' @ u_middot @ '' backup''), ct_snow = ''CHG / std-23'', ct_notes = []\<rparr>,
      \<lparr>ct_id = ''c-3'', ct_product = ''concentrator'', ct_name = ''Eva Gerber'', ct_email = ''eva.gerber@customer-success.example'', ct_role = (''Customer Success '' @ u_middot @ '' primary''), ct_snow = ''CHG required'', ct_notes = ''Owns customer notification flow for TLS / breaking changes. Requires 1 week notice for prod.''\<rparr>,
      \<lparr>ct_id = ''c-4'', ct_product = ''concentrator'', ct_name = (''Tom'' @ u_aacute @ u_scaron @ '' Proch'' @ u_aacute @ ''zka''), ct_email = ''tomas.prochazka@customer-success.example'', ct_role = (''Customer Success '' @ u_middot @ '' backup''), ct_snow = ''CHG required'', ct_notes = []\<rparr>,
      \<lparr>ct_id = ''c-5'', ct_product = ''monalesy'', ct_name = ''Mira Klein'', ct_email = ''mira.klein@monalesy.example'', ct_role = ''Tenant Owners lead'', ct_snow = ''CHG (if prod)'', ct_notes = (''Forwards prod-component changes to all tenant owners via mailing list monalesy-owners@'' @ u_ellipsis)\<rparr>,
      \<lparr>ct_id = ''c-6'', ct_product = ''monalesy'', ct_name = ''Ravi Nair'', ct_email = ''ravi.nair@monalesy.example'', ct_role = ''Tenant Owners deputy'', ct_snow = ''CHG (if prod)'', ct_notes = []\<rparr>,
      \<lparr>ct_id = ''c-7'', ct_product = ''microservices'', ct_name = ''Sina Wenger'', ct_email = ''sina.wenger@platform-core.example'', ct_role = ''Platform Core on-call'', ct_snow = u_mdash, ct_notes = ''Use the on-call rota in OpsGenie before pinging directly. Acks within 15min during business hours.''\<rparr>,
      \<lparr>ct_id = ''c-8'', ct_product = ''microservices'', ct_name = ''Henning Hoffer'', ct_email = ''henning.hoffer@platform-core.example'', ct_role = (''Platform Core '' @ u_middot @ '' backup''), ct_snow = u_mdash, ct_notes = []\<rparr>]"

definition empty_draft :: contact_draft where
  "empty_draft = \<lparr>cd_name = [], cd_email = [], cd_role = [], cd_product = ''operator'', cd_notes = [], cd_snow = u_mdash\<rparr>"

record contacts_state =
  cs_contacts :: "contact list"
  cs_selectedId :: string
  cs_query :: string
  cs_adding :: bool
  cs_draft :: contact_draft
  cs_openGroups :: "string set"
  cs_clock :: nat

definition contacts_init :: "nat \<Rightarrow> contacts_state" where
  "contacts_init now = \<lparr>cs_contacts = CONTACTS_INIT, cs_selectedId = ''c-1'', cs_query = [], cs_adding = False,
     cs_draft = empty_draft, cs_openGroups = {}, cs_clock = now\<rparr>"

section \<open>Search, groups and selection\<close>

definition contact_matches :: "string \<Rightarrow> contact \<Rightarrow> bool" where
  "contact_matches q c \<longleftrightarrow> str_includes (toLowerCase (ct_name c)) q \<or> str_includes (toLowerCase (ct_email c)) q \<or>
     str_includes (toLowerCase (ct_role c)) q \<or> str_includes (toLowerCase (ct_product c)) q"

definition contacts_filtered :: "contacts_state \<Rightarrow> contact list" where
  "contacts_filtered st =
     (let q = toLowerCase (trim (cs_query st)) in
      if q = [] then cs_contacts st else filter (contact_matches q) (cs_contacts st))"

definition contacts_selected :: "contacts_state \<Rightarrow> contact option" where
  "contacts_selected st = (case List.find (\<lambda>c. ct_id c = cs_selectedId st) (cs_contacts st) of
     Some c \<Rightarrow> Some c
   | None \<Rightarrow> (case contacts_filtered st of [] \<Rightarrow> None | c # _ \<Rightarrow> Some c))"

text \<open>\<open>(m[c.product] = m[c.product] || []).push(c)\<close>\<close>

fun group_put :: "contact \<Rightarrow> (string \<times> contact list) list \<Rightarrow> (string \<times> contact list) list" where
  "group_put c [] = [(ct_product c, [c])]"
| "group_put c ((k, cs) # m) = (if k = ct_product c then (k, cs @ [c]) # m else (k, cs) # group_put c m)"

definition grouped :: "contact list \<Rightarrow> (string \<times> contact list) list" where
  "grouped filtered = fold group_put filtered []"

section \<open>Operations\<close>

datatype contacts_action =
    CSelect string | CQuery string | CAdding bool | CDraft contact_draft | CToggleGroup string
  | CUpdate "contact \<Rightarrow> contact" | CRemove | CAdd | CTick nat

definition contact_of_draft :: "string \<Rightarrow> contact_draft \<Rightarrow> contact" where
  "contact_of_draft i d = \<lparr>ct_id = i, ct_product = cd_product d, ct_name = cd_name d, ct_email = cd_email d, ct_role = cd_role d,
     ct_snow = (if cd_snow d = [] then u_mdash else cd_snow d), ct_notes = cd_notes d\<rparr>"

definition updateSelected :: "(contact \<Rightarrow> contact) \<Rightarrow> contacts_state \<Rightarrow> contacts_state" where
  "updateSelected patch st = (case contacts_selected st of
     None \<Rightarrow> st
   | Some s \<Rightarrow> st\<lparr>cs_contacts := map (\<lambda>c. if ct_id c = ct_id s then patch c else c) (cs_contacts st)\<rparr>)"

definition removeSelected :: "contacts_state \<Rightarrow> contacts_state" where
  "removeSelected st = (case contacts_selected st of
     None \<Rightarrow> st
   | Some s \<Rightarrow>
       let next = filter (\<lambda>c. ct_id c \<noteq> ct_id s) (cs_contacts st) in
       st\<lparr>cs_contacts := next, cs_selectedId := (case next of [] \<Rightarrow> cs_selectedId st | c # _ \<Rightarrow> ct_id c)\<rparr>)"

definition addContact :: "contacts_state \<Rightarrow> contacts_state" where
  "addContact st =
     (if trim (cd_name (cs_draft st)) = [] then st
      else let i = ''c-'' @ show_nat (cs_clock st) in
        st\<lparr>cs_contacts := cs_contacts st @ [contact_of_draft i (cs_draft st)], cs_selectedId := i, cs_adding := False,
          cs_draft := empty_draft, cs_clock := Suc (cs_clock st)\<rparr>)"

definition toggleGroup :: "string \<Rightarrow> string set \<Rightarrow> string set" where
  "toggleGroup pr gs = (if pr \<in> gs then gs - {pr} else insert pr gs)"

fun contacts_act :: "contacts_action \<Rightarrow> contacts_state \<Rightarrow> contacts_state" where
  "contacts_act (CSelect i) st = st\<lparr>cs_selectedId := i\<rparr>"
| "contacts_act (CQuery v) st = st\<lparr>cs_query := v\<rparr>"
| "contacts_act (CAdding b) st = st\<lparr>cs_adding := b\<rparr>"
| "contacts_act (CDraft d) st = st\<lparr>cs_draft := d\<rparr>"
| "contacts_act (CToggleGroup pr) st = st\<lparr>cs_openGroups := toggleGroup pr (cs_openGroups st)\<rparr>"
| "contacts_act (CUpdate patch) st = updateSelected patch st"
| "contacts_act CRemove st = removeSelected st"
| "contacts_act CAdd st = addContact st"
| "contacts_act (CTick n) st = st\<lparr>cs_clock := cs_clock st + n\<rparr>"

section \<open>The view\<close>

definition contacts_head :: "contact list \<Rightarrow> contacts_action node" where
  "contacts_head contacts =
    Elem ''header'' [cls ''rr-card-head'']
      [Elem ''div'' []
        [Elem ''h3'' []
          [Text ''Release-Freigabe contacts''],
         Elem ''span'' [cls ''rr-card-sub'']
          [Text (''Names & emails to notify for SNOW changes & release windows '' @ u_middot @ '' ''),
           Text (show_nat (length contacts)),
           Text '' entries'']],
       Elem ''button'' [cls ''rr-link'', On ''onClick'' (CAdding True)]
        [Icon (ICONS ''plus'') 12,
         Text '' Add contact'']]"

definition contacts_list :: "string \<Rightarrow> string set \<Rightarrow> contact list \<Rightarrow> contact option \<Rightarrow> contacts_action node" where
  "contacts_list query openGroups filtered selected =
    Elem ''div'' [cls ''rr-contacts-list'']
      [Elem ''div'' [cls ''rr-contacts-search'']
        [Icon (ICONS ''search'') 13,
         Elem ''input'' [Attr ''placeholder'' (''Filter by name, email, product'' @ u_ellipsis), Attr ''value'' query, OnVal ''onChange'' (\<lambda>v. (CQuery v))] []],
       Elem ''div'' [cls ''rr-contacts-scroll'']
        (concat (map (\<lambda>(prod, items).
            (let isOpen = (prod \<in> openGroups \<or> trim query \<noteq> []) in
            [Elem ''div'' [cls ''rr-contacts-group'']
              ([Elem ''button'' [cls (''rr-contacts-group-head '' @ (if isOpen then ''is-open'' else [])), On ''onClick'' (CToggleGroup prod)]
                [Icon_full (ICONS ''chev'') 11 (16 / 10) (''rr-group-chev '' @ (if isOpen then ''is-open'' else [])) ''none'',
                 Elem ''span'' [cls ''rr-prod-dot'', Sty ''background'' (productColor prod)] [],
                 Elem ''span'' [cls ''rr-table-prod'']
                  [Text prod],
                 Elem ''span'' [cls ''rr-contacts-count'']
                  [Text (show_nat (length items))]]] @
               guarded isOpen
                (map (\<lambda>c.
                    Elem ''button'' [cls (''rr-contact-row '' @ (if (map_option ct_id selected = Some (ct_id c)) then ''is-active'' else [])), On ''onClick'' (CSelect (ct_id c))]
                      [Elem ''div'' [cls ''rr-contact-row-name'']
                        [Text (ct_name c)],
                       Elem ''div'' [cls ''rr-contact-row-meta'']
                        [Elem ''code'' []
                          [Text (ct_email c)]],
                       Elem ''div'' [cls ''rr-contact-row-role'']
                        [Text (ct_role c)]])
                  items))]))
          (grouped filtered)) @
         guarded (filtered = [])
          [Elem ''div'' [cls ''rr-contacts-empty'']
            [Text (''No contacts match '' @ u_ldquo),
             Text query,
             Text (u_rdquo @ ''.'')]])]"

definition contact_form :: "contact_draft \<Rightarrow> contacts_action node" where
  "contact_form draft =
    Elem ''div'' [cls ''rr-contact-form'']
      [Elem ''div'' [cls ''rr-contact-form-head'']
        [Elem ''h4'' []
          [Text ''New contact''],
         Elem ''button'' [cls ''rr-icon-btn'', On ''onClick'' (CAdding False)]
          [Icon (ICONS ''x'') 13]],
       Elem ''div'' [cls ''rr-form-grid'']
        [Elem ''label'' [cls ''rr-field'']
          [Elem ''span'' []
            [Text ''Product''],
           Elem ''select'' [Attr ''value'' (cd_product draft), OnVal ''onChange'' (\<lambda>v. (CDraft (draft\<lparr>cd_product := v\<rparr>)))]
            (map (\<lambda>p.
                Elem ''option'' [Attr ''value'' (prod_id p)]
                  [Text (prod_name p)])
              PRODUCTS)],
         Elem ''label'' [cls ''rr-field'']
          [Elem ''span'' []
            [Text ''Role''],
           Elem ''input'' [Attr ''placeholder'' (''e.g. Tenant Owners '' @ u_middot @ '' backup''), Attr ''value'' (cd_role draft), OnVal ''onChange'' (\<lambda>v. (CDraft (draft\<lparr>cd_role := v\<rparr>)))] []],
         Elem ''label'' [cls ''rr-field'']
          [Elem ''span'' []
            [Text ''Name''],
           Elem ''input'' [Attr ''placeholder'' ''Full name'', Attr ''value'' (cd_name draft), OnVal ''onChange'' (\<lambda>v. (CDraft (draft\<lparr>cd_name := v\<rparr>)))] []],
         Elem ''label'' [cls ''rr-field'']
          [Elem ''span'' []
            [Text ''Email''],
           Elem ''input'' [Attr ''type'' ''email'', Attr ''placeholder'' ''name@company.example'', Attr ''value'' (cd_email draft), OnVal ''onChange'' (\<lambda>v. (CDraft (draft\<lparr>cd_email := v\<rparr>)))] []],
         Elem ''label'' [cls ''rr-field'']
          [Elem ''span'' []
            [Text ''Change mgmt''],
           Elem ''input'' [Attr ''placeholder'' (''CHG / std-23 '' @ u_middot @ '' CHG required '' @ u_middot @ '' '' @ u_mdash), Attr ''value'' (cd_snow draft), OnVal ''onChange'' (\<lambda>v. (CDraft (draft\<lparr>cd_snow := v\<rparr>)))] []],
         Elem ''label'' [cls ''rr-field rr-field-wide'']
          [Elem ''span'' []
            [Text ''Notes '',
             Elem ''em'' []
              [Text (''(internal '' @ u_mdash @ '' when to ping, escalation path, backup contact'' @ u_ellipsis @ '')'')]],
           Elem ''textarea'' [AttrN ''rows'' 3, Attr ''placeholder'' (''Free text '' @ u_mdash @ '' context for whoever has to reach this person.''), Attr ''value'' (cd_notes draft), OnVal ''onChange'' (\<lambda>v. (CDraft (draft\<lparr>cd_notes := v\<rparr>)))] []]],
       Elem ''div'' [cls ''rr-contact-form-foot'']
        [Elem ''button'' [cls ''rr-btn rr-btn-ghost rr-btn-sm'', On ''onClick'' (CAdding False)]
          [Text ''Cancel''],
         Elem ''button'' [cls ''rr-btn rr-btn-primary rr-btn-sm'', On ''onClick'' CAdd]
          [Text ''Add contact'']]]"

definition contact_detail :: "contact \<Rightarrow> contacts_action node list" where
  "contact_detail sel =
   [Elem ''div'' [cls ''rr-contact-detail-head'']
      [Elem ''div'' [cls ''rr-contact-detail-top'']
        [Elem ''span'' [cls ''rr-prod-dot'', Sty ''background'' (productColor (ct_product sel))] [],
         Elem ''span'' [cls ''rr-table-prod'']
          [Text (ct_product sel)],
         Elem ''span'' [cls ''rr-sep'']
          [Text u_middot],
         Elem ''span'' [cls ''rr-contact-role'']
          [Text (ct_role sel)]],
       Elem ''div'' [cls ''rr-contact-detail-actions'']
        [Elem ''a'' [cls ''rr-btn rr-btn-ghost rr-btn-sm'', Attr ''href'' (''mailto:'' @ (ct_email sel))]
          [Icon (ICONS ''link'') 12,
           Text '' Email''],
         Elem ''button'' [cls ''rr-btn rr-btn-ghost rr-btn-sm rr-btn-danger-ghost'', On ''onClick'' CRemove]
          [Icon (ICONS ''x'') 12,
           Text '' Remove'']]],
    Elem ''div'' [cls ''rr-form-grid rr-contact-form-grid'']
      [Elem ''label'' [cls ''rr-field'']
        [Elem ''span'' []
          [Text ''Name''],
         Elem ''input'' [Attr ''value'' (ct_name sel), OnVal ''onChange'' (\<lambda>v. (CUpdate (\<lambda>x. x\<lparr>ct_name := v\<rparr>)))] []],
       Elem ''label'' [cls ''rr-field'']
        [Elem ''span'' []
          [Text ''Email''],
         Elem ''input'' [Attr ''type'' ''email'', Attr ''value'' (ct_email sel), OnVal ''onChange'' (\<lambda>v. (CUpdate (\<lambda>x. x\<lparr>ct_email := v\<rparr>)))] []],
       Elem ''label'' [cls ''rr-field'']
        [Elem ''span'' []
          [Text ''Role / responsibility''],
         Elem ''input'' [Attr ''value'' (ct_role sel), OnVal ''onChange'' (\<lambda>v. (CUpdate (\<lambda>x. x\<lparr>ct_role := v\<rparr>)))] []],
       Elem ''label'' [cls ''rr-field'']
        [Elem ''span'' []
          [Text ''Change mgmt''],
         Elem ''input'' [Attr ''value'' (ct_snow sel), OnVal ''onChange'' (\<lambda>v. (CUpdate (\<lambda>x. x\<lparr>ct_snow := v\<rparr>)))] []],
       Elem ''label'' [cls ''rr-field rr-field-wide'']
        [Elem ''span'' []
          [Text ''Notes '',
           Elem ''em'' []
            [Text (''(internal '' @ u_mdash @ '' when to ping, escalation path, backup contact'' @ u_ellipsis @ '')'')]],
         Elem ''textarea'' [AttrN ''rows'' 3, Attr ''placeholder'' (''Free text '' @ u_mdash @ '' context for whoever has to reach this person.''), Attr ''value'' (ct_notes sel), OnVal ''onChange'' (\<lambda>v. (CUpdate (\<lambda>x. x\<lparr>ct_notes := v\<rparr>)))] []]]]"

definition ContactsCard :: "contacts_state \<Rightarrow> contacts_action node" where
  "ContactsCard st =
     Elem ''section'' [cls ''rr-card rr-contacts'']
       [contacts_head (cs_contacts st),
        Elem ''div'' [cls ''rr-contacts-body'']
         [contacts_list (cs_query st) (cs_openGroups st) (contacts_filtered st) (contacts_selected st),
          Elem ''div'' [cls ''rr-contacts-detail'']
            (if cs_adding st then [contact_form (cs_draft st)]
             else (case contacts_selected st of
                Some sel \<Rightarrow> contact_detail sel
              | None \<Rightarrow> [Elem ''div'' [cls ''rr-contacts-empty''] [Text ''Select a contact to see details.'']]))]]"

section \<open>Groups\<close>

text \<open>The reference: the products in the order of their first contact, each with its contacts in order.\<close>

definition first_products :: "contact list \<Rightarrow> string list" where
  "first_products cs = rev (remdups (rev (map ct_product cs)))"

definition group_of :: "contact list \<Rightarrow> string \<Rightarrow> string \<times> contact list" where
  "group_of cs k = (k, filter (\<lambda>c. ct_product c = k) cs)"

lemma set_first_products [simp]: "set (first_products cs) = ct_product ` set cs"
  by (simp add: first_products_def)

lemma distinct_first_products [simp]: "distinct (first_products cs)"
  by (simp add: first_products_def)

lemma first_products_snoc: "first_products (cs @ [c]) =
    (if ct_product c \<in> ct_product ` set cs then first_products cs else first_products cs @ [ct_product c])"
  by (simp add: first_products_def)

lemma group_of_snoc: "group_of (cs @ [c]) k = (if k = ct_product c then (k, snd (group_of cs k) @ [c]) else group_of cs k)"
  by (simp add: group_of_def)

lemma group_put_old: "distinct ks \<Longrightarrow> ct_product c \<in> set ks \<Longrightarrow>
    group_put c (map (group_of cs) ks) = map (group_of (cs @ [c])) ks"
  by (induction ks) (auto simp: group_of_def)

lemma group_put_new: "ct_product c \<notin> set ks \<Longrightarrow>
    group_put c (map (group_of cs) ks) = map (group_of (cs @ [c])) ks @ [(ct_product c, [c])]"
  by (induction ks) (auto simp: group_of_def)

lemma grouped_reference: "grouped cs = map (group_of cs) (first_products cs)"
proof (induction cs rule: rev_induct)
  case (snoc c cs)
  have g: "grouped (cs @ [c]) = group_put c (map (group_of cs) (first_products cs))" using snoc by (simp add: grouped_def)
  show ?case
  proof (cases "ct_product c \<in> ct_product ` set cs")
    case True
    then show ?thesis unfolding g by (simp add: first_products_snoc group_put_old)
  next
    case False
    then have "filter (\<lambda>x. ct_product x = ct_product c) cs = []" by (metis (mono_tags, lifting) filter_False imageI)
    then show ?thesis using False unfolding g by (simp add: first_products_snoc group_put_new) (simp add: group_of_def)
  qed
qed (simp add: grouped_def first_products_def)

section \<open>The invariant\<close>

definition contacts_ok :: "contacts_state \<Rightarrow> bool" where
  "contacts_ok st \<longleftrightarrow> distinct (map ct_id (cs_contacts st)) \<and>
     (\<forall>t \<ge> cs_clock st. ''c-'' @ show_nat t \<notin> ct_id ` set (cs_contacts st)) \<and>
     ct_product ` set (cs_contacts st) \<subseteq> prod_id ` set PRODUCTS \<and> cd_product (cs_draft st) \<in> prod_id ` set PRODUCTS \<and>
     (cs_contacts st \<noteq> [] \<longrightarrow> cs_selectedId st \<in> ct_id ` set (cs_contacts st))"

lemma contacts_ok_selected:
  assumes "contacts_ok st" "cs_contacts st \<noteq> []"
  shows "\<exists>c \<in> set (cs_contacts st). contacts_selected st = Some c \<and> ct_id c = cs_selectedId st"
proof -
  have i: "cs_selectedId st \<in> ct_id ` set (cs_contacts st)" using assms by (simp add: contacts_ok_def)
  obtain c where "md_abs ct_id (cs_contacts st) (cs_selectedId st) = Some c" using i md_abs_None by fastforce
  then have f: "List.find (\<lambda>c. ct_id c = cs_selectedId st) (cs_contacts st) = Some c" by (simp add: md_abs_def)
  moreover have "c \<in> set (cs_contacts st)" "ct_id c = cs_selectedId st" using f by (auto simp: find_Some_iff)
  ultimately show ?thesis unfolding contacts_selected_def by (intro bexI [of _ c]) simp_all
qed

lemma contacts_selected_None: "contacts_ok st \<Longrightarrow> contacts_selected st = None \<longleftrightarrow> cs_contacts st = []"
  using contacts_ok_selected [of st] by (fastforce simp: contacts_selected_def contacts_filtered_def Let_def)

lemma contacts_filtered_subset: "set (contacts_filtered st) \<subseteq> set (cs_contacts st)"
  by (auto simp: contacts_filtered_def Let_def)

definition contact_patch :: "(contact \<Rightarrow> contact) \<Rightarrow> bool" where
  "contact_patch f \<longleftrightarrow> (\<forall>x. ct_id (f x) = ct_id x \<and> ct_product (f x) = ct_product x)"

lemma offered_contacts_list: "offered (contacts_list q g cs sel) \<subseteq> range CQuery \<union> range CToggleGroup \<union> CSelect ` ct_id ` set cs"
  by (auto simp: contacts_list_def grouped_reference Let_def offered_list_concat offered_list_map group_of_def split: if_splits)

lemma offered_contact_form: "cd_product d \<in> prod_id ` set PRODUCTS \<Longrightarrow>
    offered (contact_form d) \<subseteq> {CAdding False, CAdd} \<union> CDraft ` {d'. cd_product d' \<in> prod_id ` set PRODUCTS}"
  by (auto simp: contact_form_def)

lemma offered_contact_detail: "offered_list (contact_detail c) \<subseteq> {CRemove} \<union> CUpdate ` Collect contact_patch"
  by (auto simp: contact_detail_def contact_patch_def)

text \<open>What the card offers when the invariant holds.\<close>

definition contacts_offers :: "contacts_state \<Rightarrow> contacts_action set" where
  "contacts_offers st = {CAdd, CRemove} \<union> range CAdding \<union> range CQuery \<union> range CToggleGroup \<union>
    CSelect ` ct_id ` set (cs_contacts st) \<union> CDraft ` {d. cd_product d \<in> prod_id ` set PRODUCTS} \<union> CUpdate ` Collect contact_patch"

lemma contacts_offers_parts:
  assumes "contacts_ok st"
  shows "offered (contacts_head (cs_contacts st)) \<subseteq> contacts_offers st"
    "offered (contacts_list (cs_query st) (cs_openGroups st) (contacts_filtered st) (contacts_selected st)) \<subseteq> contacts_offers st"
    "offered (contact_form (cs_draft st)) \<subseteq> contacts_offers st" "offered_list (contact_detail c) \<subseteq> contacts_offers st"
proof -
  show "offered (contacts_head (cs_contacts st)) \<subseteq> contacts_offers st" by (simp add: contacts_head_def contacts_offers_def)
  show "offered (contacts_list (cs_query st) (cs_openGroups st) (contacts_filtered st) (contacts_selected st)) \<subseteq> contacts_offers st"
  proof (rule order_trans [OF offered_contacts_list])
    have "CSelect ` ct_id ` set (contacts_filtered st) \<subseteq> CSelect ` ct_id ` set (cs_contacts st)"
      by (intro image_mono contacts_filtered_subset)
    then show "range CQuery \<union> range CToggleGroup \<union> CSelect ` ct_id ` set (contacts_filtered st) \<subseteq> contacts_offers st"
      unfolding contacts_offers_def by auto
  qed
  have "cd_product (cs_draft st) \<in> prod_id ` set PRODUCTS" using assms by (simp add: contacts_ok_def)
  from offered_contact_form [OF this] show "offered (contact_form (cs_draft st)) \<subseteq> contacts_offers st"
    unfolding contacts_offers_def by blast
  show "offered_list (contact_detail c) \<subseteq> contacts_offers st"
    using offered_contact_detail [of c] unfolding contacts_offers_def by blast
qed

lemma offered_ContactsCard: "contacts_ok st \<Longrightarrow> offered (ContactsCard st) \<subseteq> contacts_offers st"
  using contacts_offers_parts [of st] by (simp add: ContactsCard_def split: option.splits)

lemma contacts_ok_replace:
  assumes "contacts_ok st" "map ct_id cs = map ct_id (cs_contacts st)" "map ct_product cs = map ct_product (cs_contacts st)"
  shows "contacts_ok (st\<lparr>cs_contacts := cs\<rparr>)"
proof -
  have "ct_id ` set cs = ct_id ` set (cs_contacts st)" using arg_cong [OF assms(2), of set] by simp
  moreover have "ct_product ` set cs = ct_product ` set (cs_contacts st)" using arg_cong [OF assms(3), of set] by simp
  moreover have "cs = [] \<longleftrightarrow> cs_contacts st = []" using arg_cong [OF assms(2), of length] by auto
  ultimately show ?thesis using assms(1,2) by (simp add: contacts_ok_def)
qed

lemma contacts_ok_update:
  assumes "contacts_ok st" "contact_patch f"
  shows "contacts_ok (updateSelected f st)"
  using assms by (auto simp: updateSelected_def contact_patch_def intro!: contacts_ok_replace split: option.splits)

lemma contacts_ok_remove:
  assumes "contacts_ok st"
  shows "contacts_ok (removeSelected st)"
proof (cases "contacts_selected st")
  case (Some s)
  let ?next = "filter (\<lambda>c. ct_id c \<noteq> ct_id s) (cs_contacts st)"
  have "?next \<noteq> [] \<Longrightarrow> ct_id (hd ?next) \<in> ct_id ` set ?next" using hd_in_set by blast
  then show ?thesis using assms Some
    by (auto simp: contacts_ok_def removeSelected_def Let_def distinct_map_filter split: list.splits)
qed (use assms in \<open>simp add: removeSelected_def\<close>)

lemma contacts_ok_add:
  assumes "contacts_ok st"
  shows "contacts_ok (addContact st)"
  using assms by (auto simp: contacts_ok_def addContact_def Let_def contact_of_draft_def empty_draft_def PRODUCTS_def)

lemma contacts_act_ok:
  assumes "contacts_ok st" "a \<in> contacts_offers st \<union> range CTick"
  shows "contacts_ok (contacts_act a st)"
  using assms(2) contacts_ok_update [OF assms(1)] contacts_ok_remove [OF assms(1)] contacts_ok_add [OF assms(1)] assms(1)
  by (auto simp: contacts_offers_def) (auto simp: contacts_ok_def)

lemma contacts_init_ok: "10 \<le> now \<Longrightarrow> contacts_ok (contacts_init now)"
proof -
  assume "10 \<le> now"
  then have "show_nat t \<noteq> [c]" if "now \<le> t" for t c using that show_nat_two_digits by simp
  then show ?thesis by (simp add: contacts_ok_def contacts_init_def CONTACTS_INIT_def PRODUCTS_def empty_draft_def)
qed

interpretation contacts: ui_component "\<lambda>st. Some (ContactsCard st)" "range CTick" contacts_act "contacts_init (now + 10)" contacts_ok for now
proof
  show "contacts_ok (contacts_init (now + 10))" by (rule contacts_init_ok) simp
  show "contacts_ok (contacts_act a st)" if "contacts_ok st" "a \<in> offered_opt (Some (ContactsCard st)) \<union> range CTick" for st a
    using that contacts_act_ok [of st a] offered_ContactsCard [of st] by auto
qed

abbreviation contacts_reach :: "nat \<Rightarrow> contacts_state \<Rightarrow> bool" where
  "contacts_reach now \<equiv> ui_reach (\<lambda>st. Some (ContactsCard st)) (range CTick) contacts_act (contacts_init now)"

lemma contacts_reach_ok: "contacts_reach now st \<Longrightarrow> 10 \<le> now \<Longrightarrow> contacts_ok st"
  using contacts.inv_reach [of "now - 10" st] by simp

lemma updateSelected_abs:
  assumes "contacts_ok st" "contacts_selected st = Some s" "\<And>x. ct_id (f x) = ct_id x"
  shows "md_abs ct_id (cs_contacts (updateSelected f st)) = (md_abs ct_id (cs_contacts st))(ct_id s := map_option f (md_abs ct_id (cs_contacts st) (ct_id s)))"
proof
  fix i
  let ?g = "\<lambda>c. if ct_id c = ct_id s then f c else c"
  have "md_abs ct_id (map ?g (cs_contacts st)) i = map_option ?g (md_abs ct_id (cs_contacts st) i)"
    by (rule md_abs_map) (simp add: assms(3))
  moreover have "ct_id x = i" if "md_abs ct_id (cs_contacts st) i = Some x" for x using that by (auto simp: md_abs_def find_Some_iff)
  ultimately show "md_abs ct_id (cs_contacts (updateSelected f st)) i =
      ((md_abs ct_id (cs_contacts st))(ct_id s := map_option f (md_abs ct_id (cs_contacts st) (ct_id s)))) i"
    using assms(2) by (cases "md_abs ct_id (cs_contacts st) i") (auto simp: updateSelected_def)
qed

section \<open>Properties\<close>

text \<open>
  The contacts card: in every state a user can reach the ids are distinct, every contact belongs to an
  existing product, and a contact is shown exactly when there is one; it is the one whose id is selected.
\<close>

theorem contacts_reachable:
  assumes "contacts_reach now st" "10 \<le> now"
  shows "distinct (map ct_id (cs_contacts st)) \<and> ct_product ` set (cs_contacts st) \<subseteq> prod_id ` set PRODUCTS \<and>
    (contacts_selected st = None \<longleftrightarrow> cs_contacts st = []) \<and>
    (\<forall>c. contacts_selected st = Some c \<longrightarrow> c \<in> set (cs_contacts st) \<and> ct_id c = cs_selectedId st)"
proof -
  have ok: "contacts_ok st" by (rule contacts_reach_ok [OF assms])
  have "c \<in> set (cs_contacts st) \<and> ct_id c = cs_selectedId st" if "contacts_selected st = Some c" for c
    using contacts_ok_selected [OF ok] contacts_selected_None [OF ok] that by force
  then show ?thesis using ok contacts_selected_None [OF ok] by (simp add: contacts_ok_def)
qed

theorem contacts_reachable_witness: "contacts_selected (contacts_init 1000) \<noteq> None"
  using contacts_reachable [OF ui_reach.init, of 1000] by (simp add: contacts_init_def CONTACTS_INIT_def)

text \<open>
  Grouping agrees with its reference: the groups are the products in the order of their first contact,
  and the group of a product holds its contacts in the order of the list; every contact is in the group
  of its product and no product has two groups.
\<close>

theorem grouped_correct:
  "grouped cs = map (\<lambda>k. (k, filter (\<lambda>c. ct_product c = k) cs)) (rev (remdups (rev (map ct_product cs)))) \<and>
   distinct (map fst (grouped cs)) \<and> mset (concat (map snd (grouped cs))) = mset cs"
proof -
  have g: "grouped cs = map (group_of cs) (first_products cs)" by (rule grouped_reference)
  have "mset (concat (map (\<lambda>k. filter (\<lambda>c. ct_product c = k) cs) ks)) = mset (filter (\<lambda>c. ct_product c \<in> set ks) cs)" if "distinct ks" for ks
    using that
  proof (induction ks)
    case (Cons k ks)
    have "mset (filter (\<lambda>c. ct_product c \<in> set (k # ks)) cs) =
        mset (filter (\<lambda>c. ct_product c = k) cs) + mset (filter (\<lambda>c. ct_product c \<in> set ks) cs)"
      using Cons.prems by (induction cs) auto
    then show ?case using Cons by simp
  qed simp
  from this [of "first_products cs"] have "mset (concat (map snd (grouped cs))) = mset cs"
    by (simp add: g group_of_def o_def)
  then show ?thesis by (simp add: g group_of_def [abs_def] o_def first_products_def)
qed

text \<open>
  The card refines a map from ids to contacts: a contact whose name is not blank is added under a new
  id, one with a blank name is not, changing a field rewrites the shown contact and no other, and removing
  deletes exactly the shown contact.
\<close>

theorem contacts_refine_map:
  assumes "contacts_reach now st" "10 \<le> now" "contacts_selected st = Some s" "\<And>x. ct_id (f x) = ct_id x"
  shows "md_abs ct_id (cs_contacts (contacts_act CAdd st)) =
      (if trim (cd_name (cs_draft st)) = [] then md_abs ct_id (cs_contacts st)
       else (md_abs ct_id (cs_contacts st))(''c-'' @ show_nat (cs_clock st) \<mapsto>
              contact_of_draft (''c-'' @ show_nat (cs_clock st)) (cs_draft st))) \<and>
    md_abs ct_id (cs_contacts (contacts_act (CUpdate f) st)) =
      (md_abs ct_id (cs_contacts st))(ct_id s := map_option f (md_abs ct_id (cs_contacts st) (ct_id s))) \<and>
    md_abs ct_id (cs_contacts (contacts_act CRemove st)) = (md_abs ct_id (cs_contacts st))(ct_id s := None)"
proof -
  have ok: "contacts_ok st" by (rule contacts_reach_ok [OF assms(1,2)])
  let ?c = "contact_of_draft (''c-'' @ show_nat (cs_clock st)) (cs_draft st)"
  have "ct_id ?c \<notin> ct_id ` set (cs_contacts st)" using ok by (simp add: contacts_ok_def contact_of_draft_def)
  from md_abs_snoc [of ct_id, OF this] have add: "md_abs ct_id (cs_contacts st @ [?c]) =
      (md_abs ct_id (cs_contacts st))(''c-'' @ show_nat (cs_clock st) \<mapsto> ?c)" by (simp add: contact_of_draft_def)
  show ?thesis
    using add updateSelected_abs [OF ok assms(3,4)] assms(3)
    by (simp add: addContact_def removeSelected_def Let_def md_abs_filter)
qed

theorem contacts_refine_map_witness:
  "md_abs ct_id (cs_contacts (contacts_act CRemove (contacts_init 1000))) ''c-1'' = None"
proof -
  have "contacts_selected (contacts_init 1000) = Some (hd CONTACTS_INIT)"
    by (simp add: contacts_selected_def contacts_init_def CONTACTS_INIT_def)
  from contacts_refine_map [OF ui_reach.init _ this, of id] show ?thesis by (simp add: CONTACTS_INIT_def)
qed

end
