(* ===== verification/RR_MasterData.thy ===== *)
theory RR_MasterData
  imports RR_Products RR_RolloutTypes RR_Editors RR_Channels RR_Contacts
begin

text \<open>
  The master data page of \<open>src/design/project/master-data.jsx\<close>: its tabs and the editor of the tab that is
  open, and the locks page. Only the editor of the open tab is mounted, so its state starts afresh whenever
  its tab is opened. The invariant is compositional: the state of the mounted editor is one that its user
  can reach in the editor alone, so what the theories of the editors show holds on the page.
\<close>

section \<open>State and operations\<close>

definition MD_TABS :: "(string \<times> string) list" where
  "MD_TABS = [(''products'', ''Products''), (''stages'', ''Stages''), (''types'', ''Rollout Types''), (''channels'', ''Channels''),
     (''contacts'', ''Contacts''), (''actors'', ''Actors''), (''filters'', ''Filters'')]"

datatype md_body =
    BProducts products_state | BStages stages_state | BTypes types_state | BChannels channels_state
  | BContacts contacts_state | BActors "actor_entry md_state" | BFilters "filter_entry md_state" | BNone nat

record data_state =
  dv_tab :: string
  dv_body :: md_body

datatype data_action =
    DTab string
  | DProducts "product_action md_action" | DStages "stage_action md_action" | DTypes "type_action md_action"
  | DChannels "channel_action md_action" | DContacts contacts_action
  | DActors "actor_entry entry_action md_action" | DFilters "filter_entry entry_action md_action"

definition body_clock :: "md_body \<Rightarrow> nat" where
  "body_clock b = (case b of BProducts s \<Rightarrow> md_clock s | BStages s \<Rightarrow> md_clock s | BTypes s \<Rightarrow> md_clock s | BChannels s \<Rightarrow> md_clock s
     | BContacts s \<Rightarrow> cs_clock s | BActors s \<Rightarrow> md_clock s | BFilters s \<Rightarrow> md_clock s | BNone n \<Rightarrow> n)"

text \<open>The editor that a tab mounts.\<close>

definition mount :: "string \<Rightarrow> nat \<Rightarrow> md_body" where
  "mount tab now =
     (if tab = ''products'' then BProducts (products_init now)
      else if tab = ''stages'' then BStages (stages_init now)
      else if tab = ''types'' then BTypes (types_init now)
      else if tab = ''channels'' then BChannels (channels_init now)
      else if tab = ''contacts'' then BContacts (contacts_init now)
      else if tab = ''actors'' then BActors (actors_init now)
      else if tab = ''filters'' then BFilters (filters_init now)
      else BNone now)"

definition data_init :: "string \<Rightarrow> nat \<Rightarrow> data_state" where
  "data_init initialTab now = \<lparr>dv_tab = initialTab, dv_body = mount initialTab now\<rparr>"

fun body_act :: "data_action \<Rightarrow> md_body \<Rightarrow> md_body" where
  "body_act (DProducts a) (BProducts s) = BProducts (products_act a s)"
| "body_act (DStages a) (BStages s) = BStages (stages_act a s)"
| "body_act (DTypes a) (BTypes s) = BTypes (types_act a s)"
| "body_act (DChannels a) (BChannels s) = BChannels (channels_act a s)"
| "body_act (DContacts a) (BContacts s) = BContacts (contacts_act a s)"
| "body_act (DActors a) (BActors s) = BActors (actors_act a s)"
| "body_act (DFilters a) (BFilters s) = BFilters (filters_act a s)"
| "body_act _ b = b"

definition data_act :: "data_action \<Rightarrow> data_state \<Rightarrow> data_state" where
  "data_act a st = (case a of
     DTab t \<Rightarrow> (if t = dv_tab st then st else \<lparr>dv_tab = t, dv_body = mount t (body_clock (dv_body st))\<rparr>)
   | _ \<Rightarrow> st\<lparr>dv_body := body_act a (dv_body st)\<rparr>)"

section \<open>Views\<close>

definition body_view :: "(string \<Rightarrow> string option) \<Rightarrow> (nat \<Rightarrow> string) \<Rightarrow> md_body \<Rightarrow> data_action node list option" where
  "body_view proto clock b = (case b of
     BProducts s \<Rightarrow> map_option (\<lambda>n. [lift_node DProducts n]) (ProductsEditor s)
   | BStages s \<Rightarrow> map_option (\<lambda>n. [lift_node DStages n]) (StagesEditor s)
   | BTypes s \<Rightarrow> map_option (\<lambda>n. [lift_node DTypes n]) (RolloutTypesEditor s)
   | BChannels s \<Rightarrow> map_option (\<lambda>n. [lift_node DChannels n]) (ChannelsEditor proto clock s)
   | BContacts s \<Rightarrow> Some [Elem ''div'' [cls ''rr-md-hosted''] [lift_node DContacts (ContactsCard s)]]
   | BActors s \<Rightarrow> map_option (\<lambda>n. [lift_node DActors n]) (ActorsEditor s)
   | BFilters s \<Rightarrow> map_option (\<lambda>n. [lift_node DFilters n]) (FiltersEditor s)
   | BNone _ \<Rightarrow> Some [])"

definition MasterDataView :: "(string \<Rightarrow> string option) \<Rightarrow> (nat \<Rightarrow> string) \<Rightarrow> data_state \<Rightarrow> data_action node option" where
  "MasterDataView proto clock st = map_option (\<lambda>body.
     Elem ''div'' [cls ''rr-md'']
       [Elem ''div'' [cls ''rr-md-head'']
         [Elem ''div'' []
           [Elem ''h1'' [cls ''rr-md-title''] [Text ''Master Data''],
            Elem ''p'' [cls ''rr-md-sub'']
             [Text ''Configure products, rollout types, actors, and locks that drive the timeline and execute flow.'']]],
        Elem ''div'' [cls ''rr-md-tabs'']
         (map (\<lambda>t. Elem ''button'' [cls (''rr-md-tab '' @ (if dv_tab st = fst t then ''is-active'' else [])),
            On ''onClick'' (DTab (fst t))] [Text (snd t)]) MD_TABS),
        Elem ''div'' [cls ''rr-md-body''] body])
     (body_view proto clock (dv_body st))"

definition LocksOnlyView :: "lock md_state \<Rightarrow> lock entry_action md_action node option" where
  "LocksOnlyView st = map_option (\<lambda>editor.
     Elem ''div'' [cls ''rr-md'']
       [Elem ''div'' [cls ''rr-md-head'', Sty ''display'' ''flex'', Sty ''alignItems'' ''flex-start'', Sty ''justifyContent'' ''space-between'', StyN ''gap'' 16]
         [Elem ''div'' []
           [Elem ''h1'' [cls ''rr-md-title''] [Text ''Locks''],
            Elem ''p'' [cls ''rr-md-sub''] 
             [Text ''Rollout-Sperren that block scheduling and execution. Friday-rule locks are automatic; the entries below are explicit manual or holiday locks.'']]],
        Elem ''div'' [cls ''rr-md-body''] [editor]])
     (LocksEditor st)"

section \<open>The editors alone\<close>

text \<open>The surroundings of each editor: the clock, and the timer of a channel test.\<close>

definition data_env :: "data_action set" where
  "data_env = DProducts ` range MDTick \<union> DStages ` range MDTick \<union> DTypes ` range MDTick \<union>
     DChannels ` (range MDTick \<union> {MDDetail CTestTimeout}) \<union> DContacts ` range CTick \<union> DActors ` range MDTick \<union> DFilters ` range MDTick"

text \<open>The states of an editor that its user can reach in the editor alone, from a start at a reading of at least 100.\<close>

definition since :: "('s \<Rightarrow> 'a node option) \<Rightarrow> 'a set \<Rightarrow> ('a \<Rightarrow> 's \<Rightarrow> 's) \<Rightarrow> (nat \<Rightarrow> 's) \<Rightarrow> 's \<Rightarrow> bool" where
  "since view env act init s \<longleftrightarrow> (\<exists>now \<ge> 100. ui_reach view env act (init now) s)"

lemma since_init: "100 \<le> now \<Longrightarrow> since view env act init (init now)"
  by (auto simp: since_def intro: ui_reach.init)

lemma since_act: "since view env act init s \<Longrightarrow> a \<in> offered_opt (view s) \<union> env \<Longrightarrow> since view env act init (act a s)"
  unfolding since_def by (blast intro: ui_reach.act)

definition body_reach :: "(string \<Rightarrow> string option) \<Rightarrow> (nat \<Rightarrow> string) \<Rightarrow> md_body \<Rightarrow> bool" where
  "body_reach proto clock b = (case b of
     BProducts s \<Rightarrow> since ProductsEditor (range MDTick) products_act products_init s
   | BStages s \<Rightarrow> since StagesEditor (range MDTick) stages_act stages_init s
   | BTypes s \<Rightarrow> since RolloutTypesEditor (range MDTick) types_act types_init s
   | BChannels s \<Rightarrow> since (ChannelsEditor proto clock) (range MDTick \<union> {MDDetail CTestTimeout}) channels_act channels_init s
   | BContacts s \<Rightarrow> since (\<lambda>st. Some (ContactsCard st)) (range CTick) contacts_act contacts_init s
   | BActors s \<Rightarrow> since ActorsEditor (range MDTick) actors_act actors_init s
   | BFilters s \<Rightarrow> since FiltersEditor (range MDTick) filters_act filters_init s
   | BNone _ \<Rightarrow> True)"

lemma mount_reach: "100 \<le> now \<Longrightarrow> body_reach proto clock (mount tab now)"
  by (simp add: mount_def body_reach_def since_init)

lemma mount_clock: "body_clock (mount tab now) = now"
  unfolding mount_def body_clock_def
  by (simp add: products_init_def stages_init_def types_init_def channels_init_def contacts_init_def actors_init_def filters_init_def Let_def)

text \<open>The action of the open editor that an action of the page stands for.\<close>

lemma body_act_reach:
  assumes "body_reach proto clock b" "body_view proto clock b = Some ns" "a \<in> offered_list ns \<union> data_env"
  shows "body_reach proto clock (body_act a b)"
proof (cases b)
  case (BProducts s)
  then show ?thesis using assms since_act [of ProductsEditor "range MDTick" products_act products_init s]
    by (auto simp: body_reach_def body_view_def data_env_def)
next
  case (BStages s)
  then show ?thesis using assms since_act [of StagesEditor "range MDTick" stages_act stages_init s]
    by (auto simp: body_reach_def body_view_def data_env_def)
next
  case (BTypes s)
  then show ?thesis using assms since_act [of RolloutTypesEditor "range MDTick" types_act types_init s]
    by (auto simp: body_reach_def body_view_def data_env_def)
next
  case (BChannels s)
  then show ?thesis
    using assms since_act [of "ChannelsEditor proto clock" "range MDTick \<union> {MDDetail CTestTimeout}" channels_act channels_init s]
    by (auto simp: body_reach_def body_view_def data_env_def)
next
  case (BContacts s)
  then show ?thesis using assms since_act [of "\<lambda>st. Some (ContactsCard st)" "range CTick" contacts_act contacts_init s]
    by (auto simp: body_reach_def body_view_def data_env_def simp del: contacts_act.simps)
next
  case (BActors s)
  then show ?thesis using assms since_act [of ActorsEditor "range MDTick" actors_act actors_init s]
    by (auto simp: body_reach_def body_view_def data_env_def)
next
  case (BFilters s)
  then show ?thesis using assms since_act [of FiltersEditor "range MDTick" filters_act filters_init s]
    by (auto simp: body_reach_def body_view_def data_env_def)
next
  case (BNone n)
  then show ?thesis by (cases a) (simp_all add: body_reach_def)
qed

section \<open>The clock does not go back\<close>

lemma md_act_clock:
  assumes "\<And>st. md_clock (reset st) = md_clock st" "\<And>d. md_clock (detail_act d st) = md_clock st"
  shows "md_clock st \<le> md_clock (md_act prefix fresh reset detail_act a st)"
  using assms by (cases a) (simp_all add: md_act_def md_add_def Let_def)

lemma md_update_clock [simp]: "md_clock (md_update ident f st) = md_clock st"
  by (simp add: md_update_def)

lemma md_remove_clock [simp]: "md_clock (md_remove ident i st) = md_clock st"
  by (simp add: md_remove_def Let_def)

lemma entry_act_clock: "md_clock (entry_act ident d st) = md_clock st"
  by (cases d) (simp_all split: option.splits)

lemma detail_act_clocks:
  "md_clock (products_detail_act d1 s1) = md_clock s1" "md_clock (stages_detail_act d2 s2) = md_clock s2"
  "md_clock (types_detail_act d3 s3) = md_clock s3" "md_clock (channels_detail_act d4 s4) = md_clock s4"
proof -
  show "md_clock (products_detail_act d1 s1) = md_clock s1" by (cases d1) (simp_all add: Let_def split: option.splits)
  show "md_clock (stages_detail_act d2 s2) = md_clock s2" by (cases d2) (simp_all add: Let_def split: option.splits)
  show "md_clock (types_detail_act d3 s3) = md_clock s3" by (cases d3) (simp_all add: Let_def split: option.splits)
  show "md_clock (channels_detail_act d4 s4) = md_clock s4" by (cases d4) (simp_all add: Let_def split: option.splits list.splits)
qed

lemma contacts_act_clock: "cs_clock s \<le> cs_clock (contacts_act a s)"
  by (cases a) (simp_all add: updateSelected_def removeSelected_def addContact_def Let_def split: option.splits)

lemma body_act_clock: "body_clock b \<le> body_clock (body_act a b)"
  unfolding body_clock_def
  by (cases "(a, b)" rule: body_act.cases)
    (auto simp: products_act_def stages_act_def types_act_def channels_act_def actors_act_def filters_act_def types_reset_def
      channels_reset_def detail_act_clocks entry_act_clock contacts_act_clock simp del: contacts_act.simps products_detail_act.simps
      stages_detail_act.simps types_detail_act.simps channels_detail_act.simps intro!: md_act_clock)

section \<open>Every editor renders\<close>

lemma editors_render:
  "since ProductsEditor (range MDTick) products_act products_init s1 \<Longrightarrow> ProductsEditor s1 \<noteq> None"
  "since StagesEditor (range MDTick) stages_act stages_init s2 \<Longrightarrow> StagesEditor s2 \<noteq> None"
  "since RolloutTypesEditor (range MDTick) types_act types_init s3 \<Longrightarrow> RolloutTypesEditor s3 \<noteq> None"
  "since (ChannelsEditor proto clock) (range MDTick \<union> {MDDetail CTestTimeout}) channels_act channels_init s4 \<Longrightarrow> ChannelsEditor proto clock s4 \<noteq> None"
  "since ActorsEditor (range MDTick) actors_act actors_init s5 \<Longrightarrow> ActorsEditor s5 \<noteq> None"
  "since FiltersEditor (range MDTick) filters_act filters_init s6 \<Longrightarrow> FiltersEditor s6 \<noteq> None"
proof -
  show "since ProductsEditor (range MDTick) products_act products_init s1 \<Longrightarrow> ProductsEditor s1 \<noteq> None"
    using products.reach_ok(3) by (auto simp: since_def ProductsEditor_def products_act_def)
  show "since StagesEditor (range MDTick) stages_act stages_init s2 \<Longrightarrow> StagesEditor s2 \<noteq> None"
    using stages.reach_ok(3) by (auto simp: since_def StagesEditor_def stages_act_def)
  show "since RolloutTypesEditor (range MDTick) types_act types_init s3 \<Longrightarrow> RolloutTypesEditor s3 \<noteq> None"
    using types.reach_ok(3) by (auto simp: since_def RolloutTypesEditor_def types_act_def)
  show "since (ChannelsEditor proto clock) (range MDTick \<union> {MDDetail CTestTimeout}) channels_act channels_init s4 \<Longrightarrow> ChannelsEditor proto clock s4 \<noteq> None"
    using channels_reach_ok(3) by (force simp: since_def)
  show "since ActorsEditor (range MDTick) actors_act actors_init s5 \<Longrightarrow> ActorsEditor s5 \<noteq> None"
    using actors.reach_ok(3) by (auto simp: since_def ActorsEditor_def actors_act_def)
  show "FiltersEditor s6 \<noteq> None" if s: "since FiltersEditor (range MDTick) filters_act filters_init s6"
  proof -
    obtain now where "100 \<le> now" "ui_reach FiltersEditor (range MDTick) filters_act (filters_init now) s6" using s by (auto simp: since_def)
    then have "ui_reach FiltersEditor (range MDTick) filters_act (filters_init (now - 100 + 100)) s6" by simp
    then show ?thesis using filters.reach_ok(3) by (auto simp: FiltersEditor_def filters_act_def)
  qed
qed

lemma body_renders: "body_reach proto clock b \<Longrightarrow> body_view proto clock b \<noteq> None"
  using editors_render by (cases b) (auto simp: body_reach_def body_view_def)

section \<open>The page\<close>

definition body_tab :: "md_body \<Rightarrow> string option" where
  "body_tab b = (case b of BProducts _ \<Rightarrow> Some ''products'' | BStages _ \<Rightarrow> Some ''stages'' | BTypes _ \<Rightarrow> Some ''types''
     | BChannels _ \<Rightarrow> Some ''channels'' | BContacts _ \<Rightarrow> Some ''contacts'' | BActors _ \<Rightarrow> Some ''actors''
     | BFilters _ \<Rightarrow> Some ''filters'' | BNone _ \<Rightarrow> None)"

definition data_ok :: "(string \<Rightarrow> string option) \<Rightarrow> (nat \<Rightarrow> string) \<Rightarrow> data_state \<Rightarrow> bool" where
  "data_ok proto clock st \<longleftrightarrow> body_reach proto clock (dv_body st) \<and> 100 \<le> body_clock (dv_body st) \<and>
     body_tab (dv_body st) = Some (dv_tab st)"

lemma body_tab_mount: "t \<in> fst ` set MD_TABS \<Longrightarrow> body_tab (mount t now) = Some t"
  by (auto simp: MD_TABS_def mount_def body_tab_def)

lemma body_tab_act: "body_tab (body_act a b) = body_tab b"
  by (cases "(a, b)" rule: body_act.cases) (simp_all add: body_tab_def)

lemma data_env_no_tab: "a \<in> data_env \<Longrightarrow> data_act a st = st\<lparr>dv_body := body_act a (dv_body st)\<rparr>"
  by (auto simp: data_env_def data_act_def)

lemma offered_body_no_tab: "body_view proto clock b = Some ns \<Longrightarrow> a \<in> offered_list ns \<Longrightarrow>
    data_act a st = st\<lparr>dv_body := body_act a (dv_body st)\<rparr>"
  by (auto simp: body_view_def data_act_def split: md_body.splits)

lemma offered_MasterDataView:
  assumes "a \<in> offered_opt (MasterDataView proto clock st)"
  shows "(\<exists>t \<in> fst ` set MD_TABS. a = DTab t) \<or> (\<exists>ns. body_view proto clock (dv_body st) = Some ns \<and> a \<in> offered_list ns)"
  using assms by (cases "body_view proto clock (dv_body st)") (auto simp: MasterDataView_def)

interpretation data: ui_component "MasterDataView proto clock" data_env data_act "data_init ''products'' (now + 100)" "data_ok proto clock"
  for proto clock now
proof
  show "data_ok proto clock (data_init ''products'' (now + 100))"
    by (simp add: data_ok_def data_init_def mount_reach mount_clock body_tab_mount MD_TABS_def)
next
  fix st a
  assume ok: "data_ok proto clock st" and a: "a \<in> offered_opt (MasterDataView proto clock st) \<union> data_env"
  obtain ns where ns: "body_view proto clock (dv_body st) = Some ns" using ok body_renders by (fastforce simp: data_ok_def)
  have "(\<exists>t \<in> fst ` set MD_TABS. a = DTab t) \<or> a \<in> offered_list ns \<union> data_env"
    using a offered_MasterDataView [of a proto clock st] ns by auto
  then consider t where "a = DTab t" "t \<in> fst ` set MD_TABS"
    | "a \<in> offered_list ns \<union> data_env" "data_act a st = st\<lparr>dv_body := body_act a (dv_body st)\<rparr>"
    using data_env_no_tab [of a st] offered_body_no_tab [OF ns, of a st] by (metis UnE)
  then show "data_ok proto clock (data_act a st)"
  proof cases
    case 1
    then show ?thesis using ok by (simp add: data_ok_def data_act_def mount_reach mount_clock body_tab_mount)
  next
    case 2
    have "body_reach proto clock (body_act a (dv_body st))"
      using ok body_act_reach [OF _ ns 2(1)] by (simp add: data_ok_def)
    then show ?thesis using ok body_act_clock [of "dv_body st" a] 2(2) by (simp add: data_ok_def body_tab_act)
  qed
qed

abbreviation data_reach :: "(string \<Rightarrow> string option) \<Rightarrow> (nat \<Rightarrow> string) \<Rightarrow> nat \<Rightarrow> data_state \<Rightarrow> bool" where
  "data_reach proto clock now \<equiv> ui_reach (MasterDataView proto clock) data_env data_act (data_init ''products'' now)"

lemma data_reach_ok: "data_reach proto clock now st \<Longrightarrow> 100 \<le> now \<Longrightarrow> data_ok proto clock st"
  using data.inv_reach [of proto clock "now - 100" st] by simp

section \<open>Properties\<close>

text \<open>
  C32. The master data page composes its editors: in every state a user can reach on the page the view
  renders, the open editor is the one of the active tab, and the state of that editor is one that its user
  can reach in the editor alone, so the properties of the editors hold on the page.
\<close>

theorem master_data_reachable:
  assumes "data_reach proto clock now st" "100 \<le> now"
  shows "MasterDataView proto clock st \<noteq> None \<and> body_tab (dv_body st) = Some (dv_tab st) \<and> body_reach proto clock (dv_body st)"
proof -
  have "data_ok proto clock st" by (rule data_reach_ok [OF assms])
  then show ?thesis using body_renders by (auto simp: data_ok_def MasterDataView_def)
qed

theorem master_data_reachable_witness:
  "body_tab (dv_body (data_act (DTab ''channels'') (data_init ''products'' 1000))) = Some ''channels''"
proof -
  let ?st = "data_init ''products'' 1000"
  have "MasterDataView (\<lambda>_. None) (\<lambda>_. []) ?st \<noteq> None" using master_data_reachable [OF ui_reach.init] by simp
  then have "DTab ''channels'' \<in> offered_opt (MasterDataView (\<lambda>_. None) (\<lambda>_. []) ?st) \<union> data_env"
    by (auto simp: MasterDataView_def MD_TABS_def)
  then have "data_reach (\<lambda>_. None) (\<lambda>_. []) 1000 (data_act (DTab ''channels'') ?st)" by (rule ui_reach.act [OF ui_reach.init])
  from master_data_reachable [OF this] show ?thesis by (simp add: data_act_def data_init_def)
qed

text \<open>
  What is entered under one tab is lost when another tab is opened: coming back shows the initial
  entries, whatever was changed before.
\<close>

theorem tab_switch_discards_edits:
  assumes "dv_tab st = t" "u \<noteq> t"
  shows "dv_tab (data_act (DTab t) (data_act (DTab u) st)) = t \<and>
    dv_body (data_act (DTab t) (data_act (DTab u) st)) = mount t (body_clock (dv_body st))"
  using assms by (simp add: data_act_def mount_clock)

theorem tab_switch_discards_edits_witness:
  "let st = data_act (DProducts MDAdd) (data_init ''products'' 1000) in
   length (md_items (products_act MDAdd (products_init 1000))) = 5 \<and> dv_body st = BProducts (products_act MDAdd (products_init 1000)) \<and>
   dv_body (data_act (DTab ''products'') (data_act (DTab ''stages'') st)) = BProducts (products_init 1001)"
proof -
  let ?st = "data_act (DProducts MDAdd) (data_init ''products'' 1000)"
  have t: "dv_tab ?st = ''products''" by (simp add: data_act_def data_init_def)
  have b: "dv_body ?st = BProducts (products_act MDAdd (products_init 1000))" by (simp add: data_act_def data_init_def mount_def)
  then have "body_clock (dv_body ?st) = 1001"
    by (simp add: body_clock_def products_act_def md_act_def md_add_def products_init_def Let_def)
  moreover have "length (md_items (products_act MDAdd (products_init 1000))) = 5"
    by (simp add: products_act_def md_act_def md_add_def Let_def products_init_def PRODUCTS_def)
  ultimately show ?thesis using tab_switch_discards_edits [OF t, of "''stages''"] b by (simp add: mount_def Let_def)
qed

end
