(* ===== verification/RR_App.thy ===== *)
theory RR_App
  imports RR_Panels
begin

text \<open>
  The root component of the prototype, \<open>src/design/project/app.jsx\<close>: navigation, the drawer and the full
  page of a rollout, the dialogs, and the route in the hash of the location.

  \<open>App\<close> returns elements of the other components with their properties; they are the constructors of
  \<open>app_element\<close>. The callbacks it passes to them are the operations below. The location is part of the state:
  the fragment of the URL and the number of \<open>hashchange\<close> events that the browser has queued and not yet
  delivered. Assigning \<open>location.hash\<close> changes the fragment and queues an event when the fragment is a new one;
  \<open>history.pushState\<close> changes the URL and queues none. The ids of rollouts have no character that a URL
  would encode.
\<close>

section \<open>Routes\<close>

definition location_hash :: "string \<Rightarrow> string" where
  "location_hash fragment = (if fragment = [] then [] else CHR ''#'' # fragment)"

definition parseHash :: "string \<Rightarrow> string option" where
  "parseHash hash =
     (let h = (case hash of [] \<Rightarrow> [] | c # cs \<Rightarrow> if c = CHR ''#'' then cs else c # cs) in
      if starts_with h ''rollout/'' then Some (drop (length ''rollout/'') h) else None)"

section \<open>State and elements\<close>

record app_state =
  nav :: string
  openId :: "string option"
  createOpen :: bool
  lockOpen :: bool
  hashRoute :: "string option"
  fragment :: string
  hash_events :: nat

definition app_start :: "string \<Rightarrow> app_state" where
  "app_start frag = \<lparr>nav = ''timeline'', openId = None, createOpen = False, lockOpen = False,
     hashRoute = parseHash (location_hash frag), fragment = frag, hash_events = 0\<rparr>"

datatype app_element =
    SidebarEl "string option" | HeaderEl | ExecuteEl string rollout | TimelineEl "rollout list" "lock list" "string option"
  | ListEl "rollout list" "string option" | MasterDataEl string | DocsEl | LocksOnlyEl | CreateRolloutEl bool | CreateLockEl bool
  | Box string "app_element list"

definition find_rollout :: "string option \<Rightarrow> rollout option" where
  "find_rollout i = (case i of None \<Rightarrow> None | Some j \<Rightarrow> List.find (\<lambda>r. ro_id r = j) ROLLOUTS)"

definition openRolloutOf :: "app_state \<Rightarrow> rollout option" where
  "openRolloutOf st = find_rollout (openId st)"

definition detailRollout :: "app_state \<Rightarrow> rollout option" where
  "detailRollout st = find_rollout (hashRoute st)"

definition app_page :: "app_state \<Rightarrow> app_element list" where
  "app_page st = (case detailRollout st of
     Some r \<Rightarrow> [ExecuteEl ''page'' r]
   | None \<Rightarrow>
       guarded (nav st = ''timeline'') [TimelineEl ROLLOUTS LOCKS_RAW (openId st)] @
       guarded (nav st = ''list'') [ListEl ROLLOUTS (openId st)] @
       guarded (nav st = ''data'') [MasterDataEl ''products''] @
       guarded (nav st = ''docs'') [DocsEl] @
       guarded (nav st = ''locks'') [LocksOnlyEl])"

definition app_drawer :: "app_state \<Rightarrow> app_element list" where
  "app_drawer st = (case (detailRollout st, openRolloutOf st) of
     (None, Some r) \<Rightarrow> [ExecuteEl ''drawer'' r]
   | _ \<Rightarrow> [])"

definition App :: "app_state \<Rightarrow> app_element" where
  "App st = Box ''rr-shell''
     ([SidebarEl (if detailRollout st \<noteq> None then None else Some (nav st)),
       Box ''rr-main'' (HeaderEl # app_page st)] @
      app_drawer st @
      [CreateRolloutEl (createOpen st), CreateLockEl (lockOpen st)])"

section \<open>Operations\<close>

definition set_hash :: "string \<Rightarrow> app_state \<Rightarrow> app_state" where
  "set_hash frag st = (if frag = fragment st then st else st\<lparr>fragment := frag, hash_events := Suc (hash_events st)\<rparr>)"

definition openFullPage :: "string \<Rightarrow> app_state \<Rightarrow> app_state" where
  "openFullPage i st = (if i = [] then st else (set_hash (''rollout/'' @ i) st)\<lparr>openId := None\<rparr>)"

definition closeDetailPage :: "app_state \<Rightarrow> app_state" where
  "closeDetailPage st = st\<lparr>fragment := [], hashRoute := None\<rparr>"

definition onNav :: "string \<Rightarrow> app_state \<Rightarrow> app_state" where
  "onNav n st = (closeDetailPage st)\<lparr>nav := n\<rparr>"

definition onHash :: "app_state \<Rightarrow> app_state" where
  "onHash st = st\<lparr>hashRoute := parseHash (location_hash (fragment st)), hash_events := hash_events st - 1\<rparr>"

text \<open>
  The steps: an operation that the mounted elements offer, a queued event, or a change of the fragment by
  the user (an edited address, a link, the back button).
\<close>

inductive app_step :: "app_state \<Rightarrow> app_state \<Rightarrow> bool" where
  nav: "Nav n \<in> offered (Sidebar a) \<Longrightarrow> app_step st (onNav n st)"
| open_rollout: "\<exists>e \<in> set (app_page st). e \<in> range (TimelineEl ROLLOUTS LOCKS_RAW) \<union> range (ListEl ROLLOUTS) \<Longrightarrow>
    r \<in> set ROLLOUTS \<Longrightarrow> app_step st (st\<lparr>openId := Some (ro_id r)\<rparr>)"
| close_drawer: "app_drawer st \<noteq> [] \<Longrightarrow> app_step st (st\<lparr>openId := None\<rparr>)"
| full_page: "ExecuteEl ''drawer'' r \<in> set (app_drawer st) \<Longrightarrow> app_step st (openFullPage (ro_id r) st)"
| close_page: "ExecuteEl ''page'' r \<in> set (app_page st) \<Longrightarrow> app_step st (closeDetailPage st)"
| create: "app_step st (st\<lparr>createOpen := b\<rparr>)"
| create_lock: "app_step st (st\<lparr>lockOpen := b\<rparr>)"
| hashchange: "0 < hash_events st \<Longrightarrow> app_step st (onHash st)"
| browse: "app_step st (set_hash frag st)"

inductive_cases app_stepE: "app_step st st'"

definition app_reach :: "string \<Rightarrow> app_state \<Rightarrow> bool" where
  "app_reach frag st \<longleftrightarrow> app_step\<^sup>*\<^sup>* (app_start frag) st"

section \<open>Routes and rollouts\<close>

lemma parseHash_rollout [simp]: "parseHash (location_hash (''rollout/'' @ i)) = Some i"
  by (simp add: parseHash_def location_hash_def)

lemma ROLLOUTS_distinct: "distinct (map ro_id ROLLOUTS)"
  by code_simp

lemma ROLLOUTS_named: "r \<in> set ROLLOUTS \<Longrightarrow> ro_id r \<noteq> []"
proof -
  have "list_all (\<lambda>r. ro_id r \<noteq> []) ROLLOUTS" by code_simp
  then show "r \<in> set ROLLOUTS \<Longrightarrow> ro_id r \<noteq> []" by (simp add: list_all_iff)
qed

lemma find_id: "distinct (map f xs) \<Longrightarrow> r \<in> set xs \<Longrightarrow> List.find (\<lambda>x. f x = f r) xs = Some r"
  by (induction xs) auto

lemma find_rollout_id: "r \<in> set ROLLOUTS \<Longrightarrow> find_rollout (Some (ro_id r)) = Some r"
  by (simp add: find_rollout_def find_id [OF ROLLOUTS_distinct])

lemma find_rollout_Some: "find_rollout i = Some r \<Longrightarrow> r \<in> set ROLLOUTS \<and> i = Some (ro_id r)"
  by (auto simp: find_rollout_def find_Some_iff split: option.splits)

section \<open>The invariant\<close>

definition app_ok :: "app_state \<Rightarrow> bool" where
  "app_ok st \<longleftrightarrow> nav st \<in> nav_id ` set NAV \<and>
     (hash_events st = 0 \<longrightarrow> hashRoute st = parseHash (location_hash (fragment st))) \<and>
     (case openId st of None \<Rightarrow> True | Some i \<Rightarrow> i \<in> ro_id ` set ROLLOUTS)"

lemma app_ok_start: "app_ok (app_start frag)"
  by (simp add: app_ok_def app_start_def NAV_def)

lemma app_ok_step: "app_step st st' \<Longrightarrow> app_ok st \<Longrightarrow> app_ok st'"
  by (induction rule: app_step.induct)
    (auto simp: app_ok_def onNav_def closeDetailPage_def openFullPage_def set_hash_def onHash_def offered_Sidebar
      parseHash_def location_hash_def Let_def split: option.splits)

lemma app_reach_ok: "app_reach frag st \<Longrightarrow> app_ok st"
  unfolding app_reach_def by (induction rule: rtranclp_induct) (auto intro: app_ok_start app_ok_step)

text \<open>Delivering every queued event.\<close>

lemma onHash_iterate: "0 < n \<Longrightarrow> (onHash ^^ n) st = st\<lparr>hashRoute := parseHash (location_hash (fragment st)), hash_events := hash_events st - n\<rparr>"
proof (induction n arbitrary: st)
  case (Suc n)
  then show ?case by (cases n) (simp_all add: onHash_def funpow_swap1)
qed simp

section \<open>Links\<close>

definition url_fragment :: "string \<Rightarrow> string" where
  "url_fragment url = drop 1 (dropWhile (\<lambda>c. c \<noteq> CHR ''#'') url)"

lemma url_fragment_shareLink:
  "CHR ''#'' \<notin> set origin \<Longrightarrow> CHR ''#'' \<notin> set pathname \<Longrightarrow>
   url_fragment (shareLink origin pathname r) = ''rollout/'' @ ro_id r"
  unfolding url_fragment_def shareLink_def by (subst dropWhile_append2, blast)+ simp

section \<open>Properties\<close>

text \<open>
  C24. Navigation: in every reachable state the main area shows exactly one page, which is the page of the
  rollout in the route if there is one and otherwise the page of the active entry of the sidebar; the
  drawer is never open beside the page of a rollout, and when no event is queued the route is that of the
  address.
\<close>

theorem app_one_page:
  assumes "app_reach frag st"
  shows "(\<exists>e. app_page st = [e] \<and> (case detailRollout st of
      Some r \<Rightarrow> e = ExecuteEl ''page'' r \<and> app_drawer st = []
    | None \<Rightarrow> e \<in> {TimelineEl ROLLOUTS LOCKS_RAW (openId st), ListEl ROLLOUTS (openId st), MasterDataEl ''products'', DocsEl, LocksOnlyEl})) \<and>
    (hash_events st = 0 \<longrightarrow> hashRoute st = parseHash (location_hash (fragment st)))"
proof -
  have ok: "app_ok st" by (rule app_reach_ok [OF assms])
  then have "nav st \<in> {''timeline'', ''list'', ''locks'', ''data'', ''docs''}" by (simp add: app_ok_def NAV_def)
  then show ?thesis using ok by (auto simp: app_ok_def app_page_def app_drawer_def guarded_def split: option.splits)
qed

theorem app_one_page_witness:
  "app_page (app_start ''rollout/r-101'') = [ExecuteEl ''page'' (hd ROLLOUTS)] \<and> app_page (app_start ''rollout/r-999'') \<noteq> []"
proof -
  have "app_reach frag (app_start frag)" for frag by (simp add: app_reach_def)
  note one = app_one_page [OF this]
  have r: "hd ROLLOUTS \<in> set ROLLOUTS" "ro_id (hd ROLLOUTS) = ''r-101''" by (simp_all add: ROLLOUTS_def)
  have "detailRollout (app_start ''rollout/r-101'') = Some (hd ROLLOUTS)"
    using find_rollout_id [OF r(1)] r(2) parseHash_rollout [of "''r-101''"] by (simp add: detailRollout_def app_start_def)
  then show ?thesis using one [of "''rollout/r-101''"] one [of "''rollout/r-999''"] by auto
qed

text \<open>
  C25. Opening the full page: pressing the button in the drawer of a rollout leads, once the browser has
  delivered the queued events, to the page of that rollout, and at least one event is queued.
\<close>

theorem open_full_page_opens:
  assumes "app_reach frag st" "ExecuteEl ''drawer'' r \<in> set (app_drawer st)"
  shows "let st' = openFullPage (ro_id r) st in 0 < hash_events st' \<and>
    (let st'' = (onHash ^^ hash_events st') st' in hash_events st'' = 0 \<and> app_page st'' = [ExecuteEl ''page'' r] \<and> app_drawer st'' = [])"
proof -
  have ok: "app_ok st" by (rule app_reach_ok [OF assms(1)])
  have d: "detailRollout st = None" and o: "openRolloutOf st = Some r"
    using assms(2) by (auto simp: app_drawer_def split: option.splits)
  have r: "r \<in> set ROLLOUTS" "openId st = Some (ro_id r)" using o find_rollout_Some [of "openId st" r] by (simp_all add: openRolloutOf_def)
  let ?s = "openFullPage (ro_id r) st"
  have f: "fragment ?s = ''rollout/'' @ ro_id r" using ROLLOUTS_named [OF r(1)] by (simp add: openFullPage_def set_hash_def)
  have e: "0 < hash_events ?s"
  proof (cases "fragment st = ''rollout/'' @ ro_id r")
    case True
    then have "hash_events st \<noteq> 0" using d ok find_rollout_id [OF r(1)] parseHash_rollout [of "ro_id r"] by (auto simp: app_ok_def detailRollout_def)
    then show ?thesis using True ROLLOUTS_named [OF r(1)] by (simp add: openFullPage_def set_hash_def)
  next
    case False
    then show ?thesis using ROLLOUTS_named [OF r(1)] by (simp add: openFullPage_def set_hash_def)
  qed
  have "detailRollout ((onHash ^^ hash_events ?s) ?s) = Some r"
    using find_rollout_id [OF r(1)] parseHash_rollout [of "ro_id r"] by (simp add: onHash_iterate [OF e] f detailRollout_def)
  then show ?thesis using e by (simp add: Let_def app_page_def app_drawer_def onHash_iterate [OF e])
qed

theorem open_full_page_opens_witness:
  "app_page (onHash (openFullPage ''r-101'' ((app_start [])\<lparr>openId := Some ''r-101''\<rparr>))) = [ExecuteEl ''page'' (hd ROLLOUTS)]"
proof -
  let ?st = "(app_start [])\<lparr>openId := Some ''r-101''\<rparr>"
  have r: "hd ROLLOUTS \<in> set ROLLOUTS" "ro_id (hd ROLLOUTS) = ''r-101''" by (simp_all add: ROLLOUTS_def)
  have "detailRollout (app_start []) = None"
    by (simp add: detailRollout_def app_start_def parseHash_def location_hash_def find_rollout_def)
  then have "TimelineEl ROLLOUTS LOCKS_RAW None \<in> set (app_page (app_start []))"
    by (simp add: app_page_def guarded_def app_start_def)
  then have "app_step (app_start []) ?st" using app_step.open_rollout [OF _ r(1), of "app_start []"] r(2) by fastforce
  then have reach: "app_reach [] ?st" by (simp add: app_reach_def)
  have "ExecuteEl ''drawer'' (hd ROLLOUTS) \<in> set (app_drawer ?st)"
    using find_rollout_id [OF r(1)] r(2)
    by (simp add: app_drawer_def openRolloutOf_def detailRollout_def app_start_def parseHash_def location_hash_def find_rollout_def)
  moreover have "hash_events (openFullPage ''r-101'' ?st) = 1" by (simp add: openFullPage_def set_hash_def app_start_def)
  ultimately show ?thesis using open_full_page_opens [OF reach, of "hd ROLLOUTS"] r(2) by (simp add: Let_def)
qed

end
