(* ===== verification/RR_Stage.thy ===== *)
theory RR_Stage
  imports RR_Shell RR_ScheduleRules
begin

text \<open>
  \<open>src/frontend/src/app/core/stage.ts\<close>: the stages, colours and delay texts of the frontend, the conversion of
  durations, and the expansion of a cascade plan into dated stages. Definitions that the prototype has
  under the same name carry the suffix \<open>_ts\<close>.

  Dates travel as ISO texts. \<open>toISOString\<close> prints an instant in UTC with milliseconds; \<open>new_Date\<close> reads the forms
  the frontend and its inputs write: a date and a time with optional seconds and milliseconds, in UTC when
  a \<open>Z\<close> follows and in local time otherwise. Any other text is an invalid date, \<open>None\<close>, and
  \<open>toISOString\<close> of an invalid date throws.
\<close>

section \<open>Dates as texts\<close>

definition hms_text :: "int \<Rightarrow> string" where
  "hms_text ms = two_digits (ms div 3600000) @ '':'' @ two_digits (ms div 60000 mod 60) @ '':'' @ two_digits (ms div 1000 mod 60) @
     ''.'' @ padStart0 3 (show_int (ms mod 1000))"

definition toISOString :: "int \<Rightarrow> string" where
  "toISOString t =
     (let d = t div ms_per_day in
      iso_year (year_from_day d) @ ''-'' @ two_digits (month_from_day d + 1) @ ''-'' @ two_digits (date_from_day d) @
      ''T'' @ hms_text (t mod ms_per_day) @ ''Z'')"

definition num_field :: "string \<Rightarrow> nat \<Rightarrow> nat \<Rightarrow> int" where
  "num_field s i n = int (read_digits (take n (drop i s)))"

definition digits_at :: "string \<Rightarrow> nat \<Rightarrow> nat \<Rightarrow> bool" where
  "digits_at s i n \<longleftrightarrow> length (take n (drop i s)) = n \<and> list_all is_digit (take n (drop i s))"

text \<open>The milliseconds of a date and time, counted in the zone it is written for.\<close>

definition parse_ms :: "string \<Rightarrow> int option" where
  "parse_ms s =
     (if length s \<in> {16, 19, 23} \<and> digits_at s 0 4 \<and> digits_at s 5 2 \<and> digits_at s 8 2 \<and> digits_at s 11 2 \<and> digits_at s 14 2 \<and>
         s ! 4 = CHR ''-'' \<and> s ! 7 = CHR ''-'' \<and> s ! 10 = CHR ''T'' \<and> s ! 13 = CHR '':'' \<and>
         (19 \<le> length s \<longrightarrow> s ! 16 = CHR '':'' \<and> digits_at s 17 2) \<and> (length s = 23 \<longrightarrow> s ! 19 = CHR ''.'' \<and> digits_at s 20 3) \<and>
         1 \<le> num_field s 5 2 \<and> num_field s 5 2 \<le> 12 \<and> 1 \<le> num_field s 8 2 \<and> num_field s 8 2 \<le> 31 \<and>
         num_field s 11 2 \<le> 23 \<and> num_field s 14 2 \<le> 59 \<and> (19 \<le> length s \<longrightarrow> num_field s 17 2 \<le> 59)
      then Some (make_day (num_field s 0 4) (num_field s 5 2 - 1) (num_field s 8 2) * ms_per_day +
        num_field s 11 2 * 3600000 + num_field s 14 2 * 60000 + (if 19 \<le> length s then num_field s 17 2 * 1000 else 0) +
        (if length s = 23 then num_field s 20 3 else 0))
      else None)"

definition new_Date :: "host \<Rightarrow> string \<Rightarrow> int option" where
  "new_Date h s = (if s \<noteq> [] \<and> last s = CHR ''Z'' then parse_ms (butlast s) else map_option (utc_of_local h) (parse_ms s))"

section \<open>Stages\<close>

definition STAGE_ts :: "(string \<times> stage_meta) list" where
  "STAGE_ts =
     [(''non-prod'', \<lparr>st_label = ''non-prod'', st_short = ''NP'', st_color = ''#a78bfa'', st_soft = ''rgba(167,139,250,.15)'',
         st_border = ''rgba(167,139,250,.55)'', st_announceChannel = ''TMS_NP'', st_minAdvanceHours = 1\<rparr>),
      (''prod1'', \<lparr>st_label = ''prod1 '' @ u_middot @ '' Frankfurt'', st_short = ''P1'', st_color = ''#5eead4'', st_soft = ''rgba(94,234,212,.12)'',
         st_border = ''rgba(94,234,212,.5)'', st_announceChannel = ''TMS_PROD'', st_minAdvanceHours = 168\<rparr>),
      (''prod2'', \<lparr>st_label = ''prod2 '' @ u_middot @ '' Zeus'', st_short = ''P2'', st_color = ''#fbbf24'', st_soft = ''rgba(251,191,36,.12)'',
         st_border = ''rgba(251,191,36,.5)'', st_announceChannel = ''TMS_PROD'', st_minAdvanceHours = 336\<rparr>)]"

definition getStage_ts :: "string \<Rightarrow> stage_meta" where
  "getStage_ts k = (case map_of STAGE_ts k of
     Some s \<Rightarrow> s
   | None \<Rightarrow> \<lparr>st_label = k, st_short = toUpperCase (take 2 (if k = [] then ''??'' else k)), st_color = ''#94a3b8'',
       st_soft = ''rgba(148,163,184,.12)'', st_border = ''rgba(148,163,184,.5)'', st_announceChannel = ''TMS_PROD'', st_minAdvanceHours = 24\<rparr>)"

definition productColor_ts :: "string \<Rightarrow> string" where
  "productColor_ts i = (case map_of
       [(''operator'', ''#a78bfa''), (''concentrator'', ''#5eead4''), (''monalesy'', ''#fbbf24''), (''microservices'', ''#fb7185'')] i of
     Some c \<Rightarrow> c | None \<Rightarrow> ''#888'')"

definition formatDelay_ts :: "int \<Rightarrow> string" where
  "formatDelay_ts hours =
     (if hours = 0 then ''0h''
      else if hours < 24 then show_int hours @ ''h''
      else let d = hours div 24; r = js_mod hours 24 in
        if r = 0 then show_int d @ ''d'' else show_int d @ ''d '' @ show_int r @ ''h'')"

section \<open>Durations and cascades\<close>

definition NS_PER_HOUR :: int where
  "NS_PER_HOUR = 3600000000000"

definition hoursToNs :: "rat \<Rightarrow> int" where
  "hoursToNs hours = js_round (hours * of_int NS_PER_HOUR)"

definition nsToHours :: "int \<Rightarrow> rat" where
  "nsToHours ns = of_int ns / of_int NS_PER_HOUR"

record planned_stage =
  pl_env :: string
  pl_startAt :: string
  pl_durationNs :: int
  pl_status :: string

text \<open>Instants beyond a hundred million days from the epoch are invalid; printing one throws.\<close>

definition time_clip :: "int \<Rightarrow> int option" where
  "time_clip t = (if \<bar>t\<bar> \<le> 8640000000000000 then Some t else None)"

definition cascadeStages :: "host \<Rightarrow> string \<Rightarrow> plan_step list \<Rightarrow> rat \<Rightarrow> planned_stage list option" where
  "cascadeStages h baseISO plan durationHours =
     (let entries = (if plan = [] then [\<lparr>ps_stage = ''non-prod'', ps_delayHours = 0\<rparr>] else plan) in
      Option.bind (new_Date h baseISO) (\<lambda>base.
        those (map (\<lambda>p. map_option (\<lambda>t. \<lparr>pl_env = ps_stage p, pl_startAt = toISOString t,
            pl_durationNs = hoursToNs durationHours, pl_status = ''scheduled''\<rparr>)
          (time_clip (base + ps_delayHours p * 3600000))) entries)))"

definition dateKey_ts :: "int \<Rightarrow> string" where
  "dateKey_ts d = take 10 (toISOString d)"

definition addDays_ts :: "host \<Rightarrow> int \<Rightarrow> int \<Rightarrow> int" where
  "addDays_ts h d n = set_date h d (getDate h d + n)"

definition daysBetween :: "int \<Rightarrow> int \<Rightarrow> int" where
  "daysBetween a b = (a - b) div ms_per_day"

section \<open>Reading a printed date\<close>

lemma digits_padStart0: "list_all is_digit s \<Longrightarrow> list_all is_digit (padStart0 w s)"
  by (auto simp: padStart0_def list_all_iff is_digit_def char_code_def)

lemma number_text:
  assumes "0 \<le> n" "n < 10 ^ Suc k" "Suc k \<le> w"
  shows "length (padStart0 w (show_int n)) = w" "list_all is_digit (padStart0 w (show_int n))"
    "int (read_digits (padStart0 w (show_int n))) = n"
proof -
  have "length (show_nat (nat n)) \<le> Suc k" using assms(1,2) by (intro length_show_nat) (simp add: nat_less_iff)
  then show "length (padStart0 w (show_int n)) = w" using assms by (simp add: length_padStart0 show_int_def)
  show "list_all is_digit (padStart0 w (show_int n))" using assms digits_show_nat by (simp add: digits_padStart0 show_int_def)
  show "int (read_digits (padStart0 w (show_int n))) = n" using assms by (simp add: read_padStart0 show_int_def read_show_nat)
qed

text \<open>The fields of a text with milliseconds, and of one that ends with the minutes.\<close>

lemma parse_ms_long:
  assumes "length y = 4" "length mo = 2" "length d = 2" "length hh = 2" "length mi = 2" "length se = 2" "length ml = 3"
    and dig: "list_all (list_all is_digit) [y, mo, d, hh, mi, se, ml]"
    and rng: "1 \<le> int (read_digits mo)" "int (read_digits mo) \<le> 12" "1 \<le> int (read_digits d)" "int (read_digits d) \<le> 31" "int (read_digits hh) \<le> 23"
      "int (read_digits mi) \<le> 59" "int (read_digits se) \<le> 59"
  shows "parse_ms (y @ ''-'' @ mo @ ''-'' @ d @ ''T'' @ hh @ '':'' @ mi @ '':'' @ se @ ''.'' @ ml) =
    Some (make_day (int (read_digits y)) (int (read_digits mo) - 1) (int (read_digits d)) * ms_per_day + int (read_digits hh) * 3600000 +
      int (read_digits mi) * 60000 + int (read_digits se) * 1000 + int (read_digits ml))" (is "parse_ms ?s = _")
proof -
  have f: "take 4 (drop 0 ?s) = y" "take 2 (drop 5 ?s) = mo" "take 2 (drop 8 ?s) = d" "take 2 (drop 11 ?s) = hh"
    "take 2 (drop 14 ?s) = mi" "take 2 (drop 17 ?s) = se" "take 3 (drop 20 ?s) = ml" "length ?s = 23"
    "?s ! 4 = CHR ''-''" "?s ! 7 = CHR ''-''" "?s ! 10 = CHR ''T''" "?s ! 13 = CHR '':''" "?s ! 16 = CHR '':''" "?s ! 19 = CHR ''.''"
    using assms(1-7) by (simp_all add: nth_append)
  show ?thesis unfolding parse_ms_def digits_at_def num_field_def f using dig rng assms(1-7) by simp
qed

lemma parse_ms_minutes:
  assumes "length y = 4" "length mo = 2" "length d = 2" "length hh = 2" "length mi = 2"
    and dig: "list_all (list_all is_digit) [y, mo, d, hh, mi]"
    and rng: "1 \<le> int (read_digits mo)" "int (read_digits mo) \<le> 12" "1 \<le> int (read_digits d)" "int (read_digits d) \<le> 31"
      "int (read_digits hh) \<le> 23" "int (read_digits mi) \<le> 59"
  shows "parse_ms (y @ ''-'' @ mo @ ''-'' @ d @ ''T'' @ hh @ '':'' @ mi) =
    Some (make_day (int (read_digits y)) (int (read_digits mo) - 1) (int (read_digits d)) * ms_per_day + int (read_digits hh) * 3600000 +
      int (read_digits mi) * 60000)" (is "parse_ms ?s = _")
proof -
  have f: "take 4 (drop 0 ?s) = y" "take 2 (drop 5 ?s) = mo" "take 2 (drop 8 ?s) = d" "take 2 (drop 11 ?s) = hh"
    "take 2 (drop 14 ?s) = mi" "length ?s = 16"
    "?s ! 4 = CHR ''-''" "?s ! 7 = CHR ''-''" "?s ! 10 = CHR ''T''" "?s ! 13 = CHR '':''"
    using assms(1-5) by (simp_all add: nth_append)
  show ?thesis unfolding parse_ms_def digits_at_def num_field_def f using dig rng assms(1-5) by simp
qed

lemma parse_ms_seconds:
  assumes "length y = 4" "length mo = 2" "length d = 2" "length hh = 2" "length mi = 2" "length se = 2"
    and dig: "list_all (list_all is_digit) [y, mo, d, hh, mi, se]"
    and rng: "1 \<le> int (read_digits mo)" "int (read_digits mo) \<le> 12" "1 \<le> int (read_digits d)" "int (read_digits d) \<le> 31"
      "int (read_digits hh) \<le> 23" "int (read_digits mi) \<le> 59" "int (read_digits se) \<le> 59"
  shows "parse_ms (y @ ''-'' @ mo @ ''-'' @ d @ ''T'' @ hh @ '':'' @ mi @ '':'' @ se) =
    Some (make_day (int (read_digits y)) (int (read_digits mo) - 1) (int (read_digits d)) * ms_per_day + int (read_digits hh) * 3600000 +
      int (read_digits mi) * 60000 + int (read_digits se) * 1000)" (is "parse_ms ?s = _")
proof -
  have f: "take 4 (drop 0 ?s) = y" "take 2 (drop 5 ?s) = mo" "take 2 (drop 8 ?s) = d" "take 2 (drop 11 ?s) = hh"
    "take 2 (drop 14 ?s) = mi" "take 2 (drop 17 ?s) = se" "length ?s = 19"
    "?s ! 4 = CHR ''-''" "?s ! 7 = CHR ''-''" "?s ! 10 = CHR ''T''" "?s ! 13 = CHR '':''" "?s ! 16 = CHR '':''"
    using assms(1-6) by (simp_all add: nth_append)
  show ?thesis unfolding parse_ms_def digits_at_def num_field_def f using dig rng assms(1-6) by simp
qed

lemma parse_ms_numbers:
  assumes "0 \<le> y" "y \<le> 9999" "1 \<le> mo" "mo \<le> 12" "1 \<le> d" "d \<le> 31" "0 \<le> hh" "hh \<le> 23" "0 \<le> mi" "mi \<le> 59"
  shows "0 \<le> se \<Longrightarrow> se \<le> 59 \<Longrightarrow> 0 \<le> ml \<Longrightarrow> ml < 1000 \<Longrightarrow>
      parse_ms (padStart0 4 (show_int y) @ ''-'' @ padStart0 2 (show_int mo) @ ''-'' @ padStart0 2 (show_int d) @ ''T'' @
        padStart0 2 (show_int hh) @ '':'' @ padStart0 2 (show_int mi) @ '':'' @ padStart0 2 (show_int se) @ ''.'' @
        padStart0 3 (show_int ml)) =
      Some (make_day y (mo - 1) d * ms_per_day + hh * 3600000 + mi * 60000 + se * 1000 + ml)"
    and "parse_ms (padStart0 4 (show_int y) @ ''-'' @ padStart0 2 (show_int mo) @ ''-'' @ padStart0 2 (show_int d) @ ''T'' @
        padStart0 2 (show_int hh) @ '':'' @ padStart0 2 (show_int mi)) =
      Some (make_day y (mo - 1) d * ms_per_day + hh * 3600000 + mi * 60000)"
    and "parse_ms (padStart0 4 (show_int y) @ ''-'' @ padStart0 2 (show_int mo) @ ''-'' @ padStart0 2 (show_int d) @ ''T'' @
        padStart0 2 (show_int hh) @ '':'' @ padStart0 2 (show_int mi) @ '':00'') =
      Some (make_day y (mo - 1) d * ms_per_day + hh * 3600000 + mi * 60000)"
proof -
  have two: "length (padStart0 2 (show_int n)) = 2" "list_all is_digit (padStart0 2 (show_int n))"
    "int (read_digits (padStart0 2 (show_int n))) = n" if "0 \<le> n" "n \<le> 59" for n
    using that number_text [of n 1 2] by simp_all
  have four: "length (padStart0 4 (show_int y)) = 4" "list_all is_digit (padStart0 4 (show_int y))"
    "int (read_digits (padStart0 4 (show_int y))) = y"
    using assms number_text [of y 3 4] by simp_all
  note fields = four two [of mo] two [of d] two [of hh] two [of mi]
  show "parse_ms (padStart0 4 (show_int y) @ ''-'' @ padStart0 2 (show_int mo) @ ''-'' @ padStart0 2 (show_int d) @ ''T'' @
        padStart0 2 (show_int hh) @ '':'' @ padStart0 2 (show_int mi)) =
      Some (make_day y (mo - 1) d * ms_per_day + hh * 3600000 + mi * 60000)"
    using assms fields by (subst parse_ms_minutes) simp_all
  have zero: "list_all is_digit ''00''" "read_digits ''00'' = 0" by code_simp+
  show "parse_ms (padStart0 4 (show_int y) @ ''-'' @ padStart0 2 (show_int mo) @ ''-'' @ padStart0 2 (show_int d) @ ''T'' @
        padStart0 2 (show_int hh) @ '':'' @ padStart0 2 (show_int mi) @ '':00'') =
      Some (make_day y (mo - 1) d * ms_per_day + hh * 3600000 + mi * 60000)"
    using assms fields zero parse_ms_seconds [of "padStart0 4 (show_int y)" "padStart0 2 (show_int mo)" "padStart0 2 (show_int d)"
        "padStart0 2 (show_int hh)" "padStart0 2 (show_int mi)" "''00''"] by simp
  assume sm: "0 \<le> se" "se \<le> 59" "0 \<le> ml" "ml < 1000"
  have three: "length (padStart0 3 (show_int ml)) = 3" "list_all is_digit (padStart0 3 (show_int ml))"
    "int (read_digits (padStart0 3 (show_int ml))) = ml"
    using sm number_text [of ml 2 3] by simp_all
  show "parse_ms (padStart0 4 (show_int y) @ ''-'' @ padStart0 2 (show_int mo) @ ''-'' @ padStart0 2 (show_int d) @ ''T'' @
        padStart0 2 (show_int hh) @ '':'' @ padStart0 2 (show_int mi) @ '':'' @ padStart0 2 (show_int se) @ ''.'' @
        padStart0 3 (show_int ml)) =
      Some (make_day y (mo - 1) d * ms_per_day + hh * 3600000 + mi * 60000 + se * 1000 + ml)"
    using assms sm fields two [of se] three by (subst parse_ms_long) simp_all
qed

lemma hms_split: "r div 3600000 * 3600000 + r div 60000 mod 60 * 60000 + r div 1000 mod 60 * 1000 + r mod 1000 = r" for r :: int
proof -
  have q: "r div 60000 = r div 1000 div 60" "r div 3600000 = r div 60000 div 60" by (simp_all flip: zdiv_zmult2_eq)
  have "r div 1000 * 1000 + r mod 1000 = r" "r div 60000 * 60 + r div 1000 mod 60 = r div 1000"
    "r div 3600000 * 60 + r div 60000 mod 60 = r div 60000"
    unfolding q by (rule div_mult_mod_eq)+
  then show ?thesis by linarith
qed

lemma hms_bounds:
  fixes r :: int
  assumes "0 \<le> r" "r < 86400000"
  shows "0 \<le> r div 3600000" "r div 3600000 \<le> 23" "0 \<le> r div 60000 mod 60" "r div 60000 mod 60 \<le> 59"
    "0 \<le> r div 1000 mod 60" "r div 1000 mod 60 \<le> 59" "0 \<le> r mod 1000" "r mod 1000 < 1000"
  using assms by auto

lemma new_Date_toISOString:
  assumes "0 \<le> year_from_day (t div ms_per_day)" "year_from_day (t div ms_per_day) \<le> 9999"
  shows "new_Date h (toISOString t) = Some t"
proof -
  define d where "d = t div ms_per_day"
  define r where "r = t mod ms_per_day"
  have r: "0 \<le> r" "r < 86400000" by (simp_all add: r_def ms_per_day_def)
  have mo: "0 \<le> month_from_day d" "month_from_day d \<le> 11" by (rule month_date_bounds)+
  let ?s = "padStart0 4 (show_int (year_from_day d)) @ ''-'' @ padStart0 2 (show_int (month_from_day d + 1)) @ ''-'' @
    padStart0 2 (show_int (date_from_day d)) @ ''T'' @ padStart0 2 (show_int (r div 3600000)) @ '':'' @
    padStart0 2 (show_int (r div 60000 mod 60)) @ '':'' @ padStart0 2 (show_int (r div 1000 mod 60)) @ ''.'' @
    padStart0 3 (show_int (r mod 1000))"
  have "toISOString t = ?s @ ''Z''"
    using assms by (simp add: toISOString_def hms_text_def iso_year_def two_digits_def Let_def d_def r_def)
  then have "new_Date h (toISOString t) = parse_ms ?s" unfolding new_Date_def by (simp add: butlast_append)
  also have "\<dots> = Some (make_day (year_from_day d) (month_from_day d + 1 - 1) (date_from_day d) * ms_per_day +
      r div 3600000 * 3600000 + r div 60000 mod 60 * 60000 + r div 1000 mod 60 * 1000 + r mod 1000)"
    using mo by (intro parse_ms_numbers(1) assms [folded d_def] month_date_bounds(3,4) hms_bounds [OF r]) simp_all
  also have "\<dots> = Some (d * ms_per_day + r)" using hms_split [of r] unfolding add_diff_cancel_right' make_day_of_day option.inject by linarith
  finally show ?thesis by (simp add: d_def r_def)
qed

text \<open>The instants that print with four digits of year, and that they are valid dates.\<close>

definition plain_year :: "int \<Rightarrow> bool" where
  "plain_year t \<longleftrightarrow> 0 \<le> year_from_day (t div ms_per_day) \<and> year_from_day (t div ms_per_day) \<le> 9999"

lemma plain_year_reads: "plain_year t \<Longrightarrow> new_Date h (toISOString t) = Some t"
  by (simp add: plain_year_def new_Date_toISOString)

lemma day_from_year_mono: "a \<le> b \<Longrightarrow> day_from_year a \<le> day_from_year b"
  using day_from_year_less [of a b] by (cases "a = b") auto

lemma plain_year_clip: "plain_year t \<Longrightarrow> time_clip t = Some t"
proof -
  assume p: "plain_year t"
  let ?d = "t div ms_per_day"
  have "day_from_year 0 \<le> day_from_year (year_from_day ?d)" "day_from_year (year_from_day ?d + 1) \<le> day_from_year 10000"
    using p unfolding plain_year_def by (intro day_from_year_mono; linarith)+
  then have "day_from_year 0 \<le> ?d" "?d < day_from_year 10000" using year_from_day_bounds [of ?d] by linarith+
  then have d: "-719528 \<le> ?d" "?d < 2932897" by (simp_all add: day_from_year_def)
  have "\<bar>t\<bar> \<le> 8640000000000000" if "t = q * 86400000 + r" "-719528 \<le> q" "q < 2932897" "0 \<le> r" "r < 86400000" for q r
    using that by linarith
  from this [OF _ d, of "t mod ms_per_day"] have "\<bar>t\<bar> \<le> 8640000000000000" using pos_mod_bound [of ms_per_day t] by (simp add: ms_per_day_def)
  then show ?thesis by (simp add: time_clip_def)
qed

section \<open>Properties\<close>

text \<open>
  The production frontend shows stages as the prototype does: the same metadata and colours for every
  key, known or not, and the same delay texts.
\<close>

lemma stages_as_in_prototype:
  "getStage_ts k = getStage k \<and> productColor_ts i = productColor i \<and> formatDelay_ts n = formatDelay n"
  by (simp add: getStage_ts_def getStage_def STAGE_ts_def STAGE_def fallbackStage_def productColor_ts_def productColor_def
      formatDelay_ts_def formatDelay_def Let_def)

lemma cascade_stages_eq:
  assumes "new_Date h baseISO = Some base" "plan \<noteq> []"
    and "\<forall>p \<in> set plan. plain_year (base + ps_delayHours p * 3600000)"
  shows "cascadeStages h baseISO plan durationHours = Some (map (\<lambda>p. \<lparr>pl_env = ps_stage p,
    pl_startAt = toISOString (base + ps_delayHours p * 3600000), pl_durationNs = hoursToNs durationHours, pl_status = ''scheduled''\<rparr>) plan)"
proof -
  have "those (map (\<lambda>p. map_option (\<lambda>t. \<lparr>pl_env = ps_stage p, pl_startAt = toISOString t, pl_durationNs = hoursToNs durationHours,
      pl_status = ''scheduled''\<rparr>) (time_clip (base + ps_delayHours p * 3600000))) plan) = Some (map (\<lambda>p. \<lparr>pl_env = ps_stage p,
    pl_startAt = toISOString (base + ps_delayHours p * 3600000), pl_durationNs = hoursToNs durationHours, pl_status = ''scheduled''\<rparr>) plan)"
    using assms(3) by (induction plan) (simp_all add: plain_year_clip)
  then show ?thesis using assms(1,2) by (simp add: cascadeStages_def)
qed

text \<open>
  A cascade plan is expanded into one stage per entry, in the order of the plan: each start, read back,
  lies the entry's delay after the anchor. The expansion never throws while the anchor is a valid date
  and the starts stay within four-digit years.
\<close>

lemma cascade_stages_dates:
  assumes "new_Date h baseISO = Some base" "plan \<noteq> []"
    and "\<forall>p \<in> set plan. plain_year (base + ps_delayHours p * 3600000)"
  obtains ss where "cascadeStages h baseISO plan durationHours = Some ss"
    "map (\<lambda>s. (pl_env s, new_Date h (pl_startAt s))) ss = map (\<lambda>p. (ps_stage p, Some (base + ps_delayHours p * 3600000))) plan"
    "\<forall>s \<in> set ss. pl_durationNs s = hoursToNs durationHours \<and> pl_status s = ''scheduled''"
  by (rule that [OF cascade_stages_eq [OF assms]]) (use assms(3) in \<open>auto simp: plain_year_reads\<close>)

lemma hours_roundtrip: "nsToHours (hoursToNs (of_int n)) = of_int n"
proof -
  have "hoursToNs (of_int n) = n * NS_PER_HOUR" unfolding hoursToNs_def of_int_mult [symmetric] by (rule js_round_of_int)
  then show ?thesis by (simp add: nsToHours_def NS_PER_HOUR_def)
qed

end
