(* ===== verification/RR_Api.thy ===== *)
theory RR_Api
  imports RR_Stage RR_Session
begin

text \<open>
  What the views of the frontend share: the documents of \<open>core/models/rollout.models.ts\<close>, the requests of
  \<open>core/api/api.service.ts\<close>, the errors they deliver, and the services that an answer acts on. A request is
  a value; sending it and its answer are events of the views. An optional text or list of a document that the code reads with a
  default is the default where it is absent.
\<close>

section \<open>Documents\<close>

type_synonym rollout_stage = planned_stage

record rollout_task =
  tk_index :: int
  tk_description :: string
  tk_status :: string
  tk_reason :: "string option"
  tk_by :: "string option"

record rollout_doc =
  rd_id :: string
  rd_product :: string
  rd_typeId :: string
  rd_title :: string
  rd_descExt :: string
  rd_descInt :: string
  rd_risks :: string
  rd_stages :: "rollout_stage list"
  rd_pair :: "string list option"
  rd_tasks :: "rollout_task list"

datatype lock_kind = Manual | Holiday | Window

record lock_doc =
  ld_id :: string
  ld_title :: string
  ld_description :: string
  ld_contact :: string
  ld_startAt :: string
  ld_endAt :: string
  ld_products :: "string list"
  ld_kind :: lock_kind

section \<open>Requests\<close>

record 'b http_request =
  rq_method :: string
  rq_url :: string
  rq_body :: "'b option"

definition http_plain :: "string \<Rightarrow> string \<Rightarrow> 'b http_request" where
  "http_plain mth u = \<lparr>rq_method = mth, rq_url = ''/api'' @ u, rq_body = None\<rparr>"

definition http_send :: "string \<Rightarrow> string \<Rightarrow> 'b \<Rightarrow> 'b http_request" where
  "http_send mth u b = \<lparr>rq_method = mth, rq_url = ''/api'' @ u, rq_body = Some b\<rparr>"

definition api_me :: "'b http_request" where
  "api_me = http_plain ''GET'' ''/me''"

definition api_products :: "'b http_request" where
  "api_products = http_plain ''GET'' ''/products''"

definition api_upsertProduct :: "'b \<Rightarrow> 'b http_request" where
  "api_upsertProduct body = http_send ''POST'' ''/products'' body"

definition api_rolloutTypes :: "'b http_request" where
  "api_rolloutTypes = http_plain ''GET'' ''/rollout-types''"

definition api_upsertRolloutType :: "'b \<Rightarrow> 'b http_request" where
  "api_upsertRolloutType body = http_send ''POST'' ''/rollout-types'' body"

definition api_rollouts :: "'b http_request" where
  "api_rollouts = http_plain ''GET'' ''/rollouts''"

definition api_rollout :: "string \<Rightarrow> 'b http_request" where
  "api_rollout i = http_plain ''GET'' (''/rollouts/'' @ i)"

definition api_createRollout :: "'b \<Rightarrow> 'b http_request" where
  "api_createRollout body = http_send ''POST'' ''/rollouts'' body"

definition api_updateRollout :: "string \<Rightarrow> 'b \<Rightarrow> 'b http_request" where
  "api_updateRollout i body = http_send ''PATCH'' (''/rollouts/'' @ i) body"

definition api_deleteRollout :: "string \<Rightarrow> 'b http_request" where
  "api_deleteRollout i = http_plain ''DELETE'' (''/rollouts/'' @ i)"

definition api_updateTask :: "string \<Rightarrow> int \<Rightarrow> 'b \<Rightarrow> 'b http_request" where
  "api_updateTask i n body = http_send ''PATCH'' (''/rollouts/'' @ i @ ''/tasks/'' @ show_int n) body"

definition api_locks :: "'b http_request" where
  "api_locks = http_plain ''GET'' ''/locks''"

definition api_createLock :: "'b \<Rightarrow> 'b http_request" where
  "api_createLock body = http_send ''POST'' ''/locks'' body"

definition api_updateLock :: "string \<Rightarrow> 'b \<Rightarrow> 'b http_request" where
  "api_updateLock i body = http_send ''PATCH'' (''/locks/'' @ i) body"

definition api_deleteLock :: "string \<Rightarrow> 'b http_request" where
  "api_deleteLock i = http_plain ''DELETE'' (''/locks/'' @ i)"

text \<open>What a failed request delivers: \<open>error\<close> is a text or something else, \<open>message\<close> may be absent.\<close>

record api_error =
  er_error :: "string option"
  er_message :: "string option"

definition extractError :: "api_error \<Rightarrow> string" where
  "extractError e = (case er_error e of
     Some s \<Rightarrow> if trim s \<noteq> [] then trim s else (case er_message e of Some msg \<Rightarrow> msg | None \<Rightarrow> ''Unexpected error'')
   | None \<Rightarrow> (case er_message e of Some msg \<Rightarrow> msg | None \<Rightarrow> ''Unexpected error''))"

section \<open>Services\<close>

record services =
  sv_bus :: refresh_bus
  sv_dialog :: "lock_doc dialogs"
  sv_route :: "string list"

end
