(* ===== verification/RR_Create.thy ===== *)
theory RR_Create
  imports RR_Api
begin

text \<open>
  The two dialogs of the frontend that write to the API, \<open>create-rollout-modal.component.ts\<close> and
  \<open>create-lock-modal.component.ts\<close> under \<open>src/frontend/src/app/features/create/\<close>. The signals of a component are a record, its methods functions on it; a
  computed signal is a function of the record. \<open>create_step\<close> and \<open>lock_step\<close> run one event (an input, a
  click, an answer of the server) on a dialog and the services it shares with the application: the refresh bus,
  the dialog store and the router. An answer arrives also after the dialog was closed, since the
  subscription is not cancelled.

  The templates of the two dialogs are in \<open>RR_Views\<close>, and what can be sent through them in \<open>RR_Dialogs\<close>.
\<close>

section \<open>Submitting\<close>

text \<open>A call of \<open>submit\<close> returns at once, throws while it builds the body, or sends a request.\<close>

datatype 'b submitted = Refused | Threw | Sent "'b http_request"

section \<open>The rollout dialog\<close>

record rollout_form =
  cf_products :: "product list"
  cf_types :: "rollout_type list"
  cf_productId :: string
  cf_typeId :: string
  cf_title :: string
  cf_startDate :: string
  cf_startTime :: string
  cf_durationHours :: rat
  cf_descExt :: string
  cf_descInt :: string
  cf_risks :: string
  cf_pairText :: string
  cf_submitting :: bool
  cf_error :: "string option"

record rollout_body =
  rb_product :: string
  rb_typeId :: string
  rb_title :: string
  rb_descExt :: string
  rb_descInt :: string
  rb_risks :: string
  rb_stages :: "planned_stage list"
  rb_pair :: "string list"

definition defaultDate :: "host \<Rightarrow> int \<Rightarrow> string" where
  "defaultDate h now = take 10 (toISOString (set_date h now (getDate h now + 1)))"

definition new_rollout_form :: "host \<Rightarrow> int \<Rightarrow> rollout_form" where
  "new_rollout_form h now =
     \<lparr>cf_products = [], cf_types = [], cf_productId = [], cf_typeId = [], cf_title = [], cf_startDate = defaultDate h now,
      cf_startTime = ''10:00'', cf_durationHours = 2, cf_descExt = [], cf_descInt = [], cf_risks = [], cf_pairText = [],
      cf_submitting = False, cf_error = None\<rparr>"

definition selectedType :: "rollout_form \<Rightarrow> rollout_type option" where
  "selectedType f = find (\<lambda>t. rt_id t = cf_typeId f) (cf_types f)"

definition baseISO :: "rollout_form \<Rightarrow> string" where
  "baseISO f = cf_startDate f @ ''T'' @ cf_startTime f @ '':00''"

definition preview :: "host \<Rightarrow> rollout_form \<Rightarrow> planned_stage list option" where
  "preview h f = cascadeStages h (baseISO f) (case selectedType f of Some t \<Rightarrow> rt_cascadePlan t | None \<Rightarrow> []) (cf_durationHours f)"

definition canSubmit :: "rollout_form \<Rightarrow> bool" where
  "canSubmit f \<longleftrightarrow> cf_productId f \<noteq> [] \<and> cf_typeId f \<noteq> [] \<and> trim (cf_title f) \<noteq> [] \<and> \<not> cf_submitting f"

definition lead_hours :: "int \<Rightarrow> int \<Rightarrow> rat" where
  "lead_hours now d = of_int (d - now) / 3600000"

definition lead_warning :: "int \<Rightarrow> stage_meta \<Rightarrow> int \<Rightarrow> string list" where
  "lead_warning now meta d =
     (if st_minAdvanceHours meta \<noteq> 0 \<and> lead_hours now d < of_int (st_minAdvanceHours meta)
      then [st_label meta @ '': only '' @ show_int (max 0 (js_round (lead_hours now d))) @ ''h lead time '' @ u_mdash @
        '' policy asks for '' @ u_ge @ '' '' @ show_int (st_minAdvanceHours meta) @ ''h advance notice.'']
      else [])"

definition stage_advisories :: "host \<Rightarrow> int \<Rightarrow> planned_stage \<Rightarrow> string list" where
  "stage_advisories h now s = (case new_Date h (pl_startAt s) of
     None \<Rightarrow> []
   | Some d \<Rightarrow> lead_warning now (getStage_ts (pl_env s)) d @
       map (\<lambda>w. st_label (getStage_ts (pl_env s)) @ '': '' @ w) (scheduleWarnings h d))"

definition scheduleAdvisories :: "host \<Rightarrow> int \<Rightarrow> rollout_form \<Rightarrow> string list option" where
  "scheduleAdvisories h now f = map_option (\<lambda>ss. concat (map (stage_advisories h now) ss)) (preview h f)"

definition stepDelay :: "rollout_type \<Rightarrow> nat \<Rightarrow> string" where
  "stepDelay ty i =
     (let plan = rt_cascadePlan ty; delay = (\<lambda>k. if k < length plan then ps_delayHours (plan ! k) else 0) in
      formatDelay_ts (delay (i + 1) - delay i))"

text \<open>The two effects of the constructor: the first product and the first type are chosen once they are known.\<close>

definition default_ids :: "rollout_form \<Rightarrow> rollout_form" where
  "default_ids f =
     (let f1 = (if cf_products f \<noteq> [] \<and> cf_productId f = [] then f\<lparr>cf_productId := prod_id (hd (cf_products f))\<rparr> else f) in
      if cf_types f1 \<noteq> [] \<and> cf_typeId f1 = [] then f1\<lparr>cf_typeId := rt_id (hd (cf_types f1))\<rparr> else f1)"

definition submit_rollout :: "host \<Rightarrow> rollout_form \<Rightarrow> rollout_form \<times> rollout_body submitted" where
  "submit_rollout h f =
     (if \<not> canSubmit f then (f, Refused)
      else let f1 = f\<lparr>cf_submitting := True, cf_error := None\<rparr>; pair = comma_list (cf_pairText f1) in
        case preview h f1 of
          None \<Rightarrow> (f1, Threw)
        | Some ss \<Rightarrow> (f1, Sent (api_createRollout
            \<lparr>rb_product = cf_productId f1, rb_typeId = cf_typeId f1, rb_title = trim (cf_title f1), rb_descExt = cf_descExt f1,
             rb_descInt = cf_descInt f1, rb_risks = cf_risks f1, rb_stages = ss, rb_pair = pair\<rparr>)))"

definition rollout_failed :: "api_error \<Rightarrow> rollout_form \<Rightarrow> rollout_form" where
  "rollout_failed e f = f\<lparr>cf_submitting := False, cf_error := Some (extractError e)\<rparr>"

datatype rollout_edit =
  EditTitle string | EditProduct string | EditType string | EditStartDate string | EditStartTime string | EditDuration rat |
  EditDescExt string | EditDescInt string | EditRisks string | EditPairText string

fun apply_rollout_edit :: "rollout_edit \<Rightarrow> rollout_form \<Rightarrow> rollout_form" where
  "apply_rollout_edit (EditTitle s) f = f\<lparr>cf_title := s\<rparr>"
| "apply_rollout_edit (EditProduct s) f = f\<lparr>cf_productId := s\<rparr>"
| "apply_rollout_edit (EditType s) f = f\<lparr>cf_typeId := s\<rparr>"
| "apply_rollout_edit (EditStartDate s) f = f\<lparr>cf_startDate := s\<rparr>"
| "apply_rollout_edit (EditStartTime s) f = f\<lparr>cf_startTime := s\<rparr>"
| "apply_rollout_edit (EditDuration n) f = f\<lparr>cf_durationHours := n\<rparr>"
| "apply_rollout_edit (EditDescExt s) f = f\<lparr>cf_descExt := s\<rparr>"
| "apply_rollout_edit (EditDescInt s) f = f\<lparr>cf_descInt := s\<rparr>"
| "apply_rollout_edit (EditRisks s) f = f\<lparr>cf_risks := s\<rparr>"
| "apply_rollout_edit (EditPairText s) f = f\<lparr>cf_pairText := s\<rparr>"

section \<open>The lock dialog\<close>

record lock_form =
  lf_editId :: "string option"
  lf_kind :: lock_kind
  lf_start :: string
  lf_end :: string
  lf_title :: string
  lf_description :: string
  lf_contact :: string
  lf_products :: "string list"
  lf_submitting :: bool
  lf_error :: "string option"

record lock_body =
  lb_title :: string
  lb_description :: string
  lb_contact :: string
  lb_startAt :: string
  lb_endAt :: string
  lb_products :: "string list"
  lb_kind :: lock_kind

definition getHours :: "host \<Rightarrow> int \<Rightarrow> int" where
  "getHours h t = local_time h t mod ms_per_day div 3600000"

definition getMinutes :: "host \<Rightarrow> int \<Rightarrow> int" where
  "getMinutes h t = local_time h t mod ms_per_day div 60000 mod 60"

text \<open>\<open>d.setMinutes(0, 0, 0)\<close>\<close>

definition clear_minutes :: "host \<Rightarrow> int \<Rightarrow> int" where
  "clear_minutes h t = utc_of_local h (local_time h t - local_time h t mod 3600000)"

text \<open>\<open>pad\<close> of the dialog has the text of \<open>pad\<close> in the schedule rules, which is used here.\<close>

definition localInput :: "host \<Rightarrow> int \<Rightarrow> string" where
  "localInput h d = show_int (getFullYear h d) @ ''-'' @ pad (getMonth h d + 1) @ ''-'' @ pad (getDate h d) @ ''T'' @
     pad (getHours h d) @ '':'' @ pad (getMinutes h d)"

definition toLocalInput :: "host \<Rightarrow> string \<Rightarrow> string" where
  "toLocalInput h s = (case new_Date h s of Some d \<Rightarrow> localInput h d | None \<Rightarrow> ''NaN-NaN-NaNTNaN:NaN'')"

definition defaultStart :: "host \<Rightarrow> int \<Rightarrow> string" where
  "defaultStart h now = localInput h (clear_minutes h now)"

definition defaultEnd :: "host \<Rightarrow> int \<Rightarrow> string" where
  "defaultEnd h now = localInput h (clear_minutes h (set_date h now (getDate h now + 1)))"

definition new_lock_form :: "host \<Rightarrow> int \<Rightarrow> lock_doc option \<Rightarrow> lock_form" where
  "new_lock_form h now existing = (case existing of
     None \<Rightarrow> \<lparr>lf_editId = None, lf_kind = Manual, lf_start = defaultStart h now, lf_end = defaultEnd h now, lf_title = [],
       lf_description = [], lf_contact = [], lf_products = [''all''], lf_submitting = False, lf_error = None\<rparr>
   | Some l \<Rightarrow> \<lparr>lf_editId = Some (ld_id l), lf_kind = ld_kind l, lf_start = toLocalInput h (ld_startAt l), lf_end = toLocalInput h (ld_endAt l),
       lf_title = ld_title l, lf_description = ld_description l, lf_contact = ld_contact l, lf_products = ld_products l,
       lf_submitting = False, lf_error = None\<rparr>)"

definition lock_canSubmit :: "lock_form \<Rightarrow> bool" where
  "lock_canSubmit f \<longleftrightarrow> trim (lf_title f) \<noteq> [] \<and> lf_start f \<noteq> [] \<and> lf_end f \<noteq> [] \<and> lf_products f \<noteq> [] \<and> \<not> lf_submitting f"

definition selectAll :: "lock_form \<Rightarrow> lock_form" where
  "selectAll f = f\<lparr>lf_products := [''all'']\<rparr>"

definition toggleProduct :: "string \<Rightarrow> lock_form \<Rightarrow> lock_form" where
  "toggleProduct i f =
     (let cur = lf_products f in
      f\<lparr>lf_products := (if ''all'' \<in> set cur then [i] else if i \<in> set cur then filter (\<lambda>x. x \<noteq> i) cur else cur @ [i])\<rparr>)"

definition submit_lock :: "host \<Rightarrow> lock_form \<Rightarrow> lock_form \<times> lock_body submitted" where
  "submit_lock h f =
     (if \<not> lock_canSubmit f then (f, Refused)
      else let f1 = f\<lparr>lf_submitting := True, lf_error := None\<rparr> in
        case (new_Date h (lf_start f1), new_Date h (lf_end f1)) of
          (Some s, Some e) \<Rightarrow>
            let body = \<lparr>lb_title = trim (lf_title f1), lb_description = lf_description f1, lb_contact = lf_contact f1,
              lb_startAt = toISOString s, lb_endAt = toISOString e, lb_products = lf_products f1, lb_kind = lf_kind f1\<rparr> in
            (f1, Sent (case lf_editId f1 of
               Some i \<Rightarrow> if i \<noteq> [] then api_updateLock i body else api_createLock body
             | None \<Rightarrow> api_createLock body))
        | _ \<Rightarrow> (f1, Threw))"

definition lock_failed :: "api_error \<Rightarrow> lock_form \<Rightarrow> lock_form" where
  "lock_failed e f = f\<lparr>lf_submitting := False, lf_error := Some (extractError e)\<rparr>"

datatype lock_edit =
  LockKind lock_kind | LockStart string | LockEnd string | LockTitle string | LockDescription string | LockContact string |
  LockAll | LockToggle string

fun apply_lock_edit :: "lock_edit \<Rightarrow> lock_form \<Rightarrow> lock_form" where
  "apply_lock_edit (LockKind k) f = f\<lparr>lf_kind := k\<rparr>"
| "apply_lock_edit (LockStart s) f = f\<lparr>lf_start := s\<rparr>"
| "apply_lock_edit (LockEnd s) f = f\<lparr>lf_end := s\<rparr>"
| "apply_lock_edit (LockTitle s) f = f\<lparr>lf_title := s\<rparr>"
| "apply_lock_edit (LockDescription s) f = f\<lparr>lf_description := s\<rparr>"
| "apply_lock_edit (LockContact s) f = f\<lparr>lf_contact := s\<rparr>"
| "apply_lock_edit LockAll f = selectAll f"
| "apply_lock_edit (LockToggle i) f = toggleProduct i f"

section \<open>The dialogs in the application\<close>

definition rollout_created :: "string \<Rightarrow> services \<Rightarrow> services" where
  "rollout_created i s = s\<lparr>sv_bus := bump (sv_bus s), sv_dialog := dialog_close (sv_dialog s), sv_route := [''/rollout'', i]\<rparr>"

definition lock_saved :: "services \<Rightarrow> services" where
  "lock_saved s = s\<lparr>sv_bus := bump (sv_bus s), sv_dialog := dialog_close (sv_dialog s)\<rparr>"

definition close_modal :: "services \<Rightarrow> services" where
  "close_modal s = s\<lparr>sv_dialog := dialog_close (sv_dialog s)\<rparr>"

text \<open>
  One dialog: its form, whether it is still mounted, the requests that wait for an answer, every
  request it sent, and the services. The shell removes a dialog when the store closes it; its form then gets no more
  inputs, but an answer is still delivered.
\<close>

record ('f, 'b) modal =
  mo_form :: 'f
  mo_mounted :: bool
  mo_waiting :: "'b http_request list"
  mo_sent :: "'b http_request list"
  mo_services :: services

definition on_form :: "('f \<Rightarrow> 'f) \<Rightarrow> ('f, 'b) modal \<Rightarrow> ('f, 'b) modal" where
  "on_form g w = (if mo_mounted w then w\<lparr>mo_form := g (mo_form w)\<rparr> else w)"

definition on_submit :: "('f \<Rightarrow> 'f \<times> 'b submitted) \<Rightarrow> ('f, 'b) modal \<Rightarrow> ('f, 'b) modal" where
  "on_submit submit w =
     (if mo_mounted w then
        (case submit (mo_form w) of
           (f, Sent r) \<Rightarrow> w\<lparr>mo_form := f, mo_waiting := mo_waiting w @ [r], mo_sent := mo_sent w @ [r]\<rparr>
         | (f, _) \<Rightarrow> w\<lparr>mo_form := f\<rparr>)
      else w)"

definition on_answer :: "(api_error \<Rightarrow> 'f \<Rightarrow> 'f) \<Rightarrow> ('a \<Rightarrow> services \<Rightarrow> services) \<Rightarrow> api_error + 'a \<Rightarrow> ('f, 'b) modal \<Rightarrow> ('f, 'b) modal" where
  "on_answer failed done_with answer w = (case mo_waiting w of
     [] \<Rightarrow> w
   | _ # rest \<Rightarrow> (case answer of
         Inl e \<Rightarrow> w\<lparr>mo_waiting := rest, mo_form := failed e (mo_form w)\<rparr>
       | Inr a \<Rightarrow> w\<lparr>mo_waiting := rest, mo_mounted := False, mo_services := done_with a (mo_services w)\<rparr>))"

definition on_close :: "('f, 'b) modal \<Rightarrow> ('f, 'b) modal" where
  "on_close w = (if mo_mounted w then w\<lparr>mo_mounted := False, mo_services := close_modal (mo_services w)\<rparr> else w)"

text \<open>Another dialog is opened by the rest of the application once this one is gone.\<close>

definition on_open_lock :: "lock_doc option \<Rightarrow> ('f, 'b) modal \<Rightarrow> ('f, 'b) modal" where
  "on_open_lock l w = (if mo_mounted w then w else w\<lparr>mo_services := (mo_services w)\<lparr>sv_dialog := openLock l (sv_dialog (mo_services w))\<rparr>\<rparr>)"

datatype create_event =
  ProductsLoaded "product list" | TypesLoaded "rollout_type list" | RolloutEdit rollout_edit | RolloutSubmit |
  RolloutAnswer "api_error + string" | RolloutClose | RolloutThenLock "lock_doc option"

fun create_step :: "host \<Rightarrow> create_event \<Rightarrow> (rollout_form, rollout_body) modal \<Rightarrow> (rollout_form, rollout_body) modal" where
  "create_step h (ProductsLoaded ps) w = on_form (\<lambda>f. default_ids (f\<lparr>cf_products := ps\<rparr>)) w"
| "create_step h (TypesLoaded ts) w = on_form (\<lambda>f. default_ids (f\<lparr>cf_types := ts\<rparr>)) w"
| "create_step h (RolloutEdit e) w = on_form (\<lambda>f. default_ids (apply_rollout_edit e f)) w"
| "create_step h RolloutSubmit w = on_submit (submit_rollout h) w"
| "create_step h (RolloutAnswer a) w = on_answer rollout_failed rollout_created a w"
| "create_step h RolloutClose w = on_close w"
| "create_step h (RolloutThenLock l) w = on_open_lock l w"

datatype lock_event = LockEdit lock_edit | LockSubmit | LockAnswer "api_error + unit" | LockClose | LockThenLock "lock_doc option"

fun lock_step :: "host \<Rightarrow> lock_event \<Rightarrow> (lock_form, lock_body) modal \<Rightarrow> (lock_form, lock_body) modal" where
  "lock_step h (LockEdit e) w = on_form (apply_lock_edit e) w"
| "lock_step h LockSubmit w = on_submit (submit_lock h) w"
| "lock_step h (LockAnswer a) w = on_answer lock_failed (\<lambda>_. lock_saved) a w"
| "lock_step h LockClose w = on_close w"
| "lock_step h (LockThenLock l) w = on_open_lock l w"

definition open_modal :: "'f \<Rightarrow> services \<Rightarrow> ('f, 'b) modal" where
  "open_modal f s = \<lparr>mo_form = f, mo_mounted = True, mo_waiting = [], mo_sent = [], mo_services = s\<rparr>"

section \<open>What a form promises to its dialog\<close>

text \<open>
  A form refuses to submit while it is submitting, marks itself before it builds the body, and is released by a failed
  answer only. Every dialog over such a form has at most one request on the way.
\<close>

locale submit_form =
  fixes submit :: "'f \<Rightarrow> 'f \<times> 'b submitted"
    and submitting :: "'f \<Rightarrow> bool"
    and failed :: "api_error \<Rightarrow> 'f \<Rightarrow> 'f"
  assumes submit_busy: "submitting f \<Longrightarrow> submit f = (f, Refused)"
    and submit_refused: "submit f = (f', Refused) \<Longrightarrow> f' = f"
    and submit_marks: "submit f = (f', r) \<Longrightarrow> r \<noteq> Refused \<Longrightarrow> submitting f'"
    and failed_releases: "\<not> submitting (failed e f)"
begin

definition flight_ok :: "('f, 'b) modal \<Rightarrow> bool" where
  "flight_ok w \<longleftrightarrow> length (mo_waiting w) \<le> (if submitting (mo_form w) then 1 else 0)"

definition stuck :: "('f, 'b) modal \<Rightarrow> bool" where
  "stuck w \<longleftrightarrow> submitting (mo_form w) \<and> mo_waiting w = []"

lemma flight_submit: "flight_ok w \<Longrightarrow> flight_ok (on_submit submit w)"
proof (cases "mo_mounted w \<and> \<not> submitting (mo_form w)")
  case True
  assume ok: "flight_ok w"
  obtain f r where sub: "submit (mo_form w) = (f, r)" by fastforce
  with True ok submit_refused [of "mo_form w" f] submit_marks [OF sub] show ?thesis
    by (cases r) (auto simp: flight_ok_def on_submit_def)
next
  case False
  then show "flight_ok w \<Longrightarrow> ?thesis" using submit_busy by (auto simp: flight_ok_def on_submit_def)
qed

lemma flight_form:
  assumes "\<And>f. submitting (g f) = submitting f"
  shows "flight_ok (on_form g w) = flight_ok w"
proof -
  have "submitting (mo_form (on_form g w)) = submitting (mo_form w)" "mo_waiting (on_form g w) = mo_waiting w"
    by (simp_all add: on_form_def assms)
  then show ?thesis by (simp only: flight_ok_def)
qed

lemma flight_answer: "flight_ok w \<Longrightarrow> flight_ok (on_answer failed done_with a w)"
  using failed_releases by (auto simp: flight_ok_def on_answer_def split: list.splits sum.splits if_splits)

lemma flight_close: "flight_ok w \<Longrightarrow> flight_ok (on_close w)" "flight_ok w \<Longrightarrow> flight_ok (on_open_lock l w)"
  by (auto simp: flight_ok_def on_close_def on_open_lock_def)

lemma stuck_submit: "stuck w \<Longrightarrow> on_submit submit w = w"
  by (simp add: stuck_def on_submit_def submit_busy)

lemma stuck_form: "(\<And>f. submitting (g f) = submitting f) \<Longrightarrow> stuck w \<Longrightarrow> stuck (on_form g w)"
  by (simp add: stuck_def on_form_def)

lemma stuck_answer: "stuck w \<Longrightarrow> on_answer failed done_with a w = w"
  by (simp add: stuck_def on_answer_def)

lemma stuck_close: "stuck w \<Longrightarrow> stuck (on_close w)" "stuck w \<Longrightarrow> stuck (on_open_lock l w)"
  by (auto simp: stuck_def on_close_def on_open_lock_def)

end

lemma sent_kept: "mo_sent (on_form g w) = mo_sent w" "mo_sent (on_close w) = mo_sent w" "mo_sent (on_open_lock l w) = mo_sent w"
  by (simp_all add: on_form_def on_close_def on_open_lock_def)

text \<open>A dialog is a form with events, each of which is one of the five ways to act on it.\<close>

locale dialog_events = submit_form submit submitting failed
  for submit :: "'f \<Rightarrow> 'f \<times> 'b submitted" and submitting :: "'f \<Rightarrow> bool" and failed :: "api_error \<Rightarrow> 'f \<Rightarrow> 'f" +
  fixes step :: "'e \<Rightarrow> ('f, 'b) modal \<Rightarrow> ('f, 'b) modal"
    and done_with :: "'a \<Rightarrow> services \<Rightarrow> services"
  assumes step_kinds: "(\<exists>g. (\<forall>f. submitting (g f) = submitting f) \<and> step e = on_form g) \<or> step e = on_submit submit \<or>
      (\<exists>a. step e = on_answer failed done_with a) \<or> step e = on_close \<or> (\<exists>l. step e = on_open_lock l)"
begin

lemma flight_step: "flight_ok w \<Longrightarrow> flight_ok (step e w)"
  using step_kinds [of e] flight_form flight_submit flight_answer flight_close by metis

lemma stuck_step: "stuck w \<Longrightarrow> stuck (step e w) \<and> mo_sent (step e w) = mo_sent w"
  using step_kinds [of e] stuck_form stuck_submit stuck_answer stuck_close sent_kept by metis

lemma flight_run: "flight_ok w \<Longrightarrow> flight_ok (fold step es w)"
  by (induction es arbitrary: w) (simp_all add: flight_step)

lemma stuck_run: "stuck w \<Longrightarrow> stuck (fold step es w) \<and> mo_sent (fold step es w) = mo_sent w"
  by (induction es arbitrary: w) (simp_all add: stuck_step)

end

lemma submit_rollout_cases:
  "submit_rollout h f = (f', r) \<Longrightarrow> (f' = f \<and> r = Refused) \<or> (cf_submitting f' \<and> r \<noteq> Refused \<and> \<not> cf_submitting f)"
  by (auto simp: submit_rollout_def canSubmit_def Let_def split: if_splits option.splits)

lemma submit_lock_cases:
  "submit_lock h f = (f', r) \<Longrightarrow> (f' = f \<and> r = Refused) \<or> (lf_submitting f' \<and> r \<noteq> Refused \<and> \<not> lf_submitting f)"
  by (auto simp: submit_lock_def lock_canSubmit_def Let_def split: if_splits option.splits)

lemma default_ids_submitting: "cf_submitting (default_ids f) = cf_submitting f"
  by (simp add: default_ids_def Let_def)

lemma edits_submitting: "cf_submitting (apply_rollout_edit e f) = cf_submitting f" "lf_submitting (apply_lock_edit k g) = lf_submitting g"
  by (cases e; simp) (cases k; simp add: selectAll_def toggleProduct_def Let_def)

text \<open>Every event as the function it runs on the dialog.\<close>

lemma create_step_funs:
  "create_step h (ProductsLoaded ps) = on_form (\<lambda>f. default_ids (f\<lparr>cf_products := ps\<rparr>))"
  "create_step h (TypesLoaded ts) = on_form (\<lambda>f. default_ids (f\<lparr>cf_types := ts\<rparr>))"
  "create_step h (RolloutEdit e) = on_form (\<lambda>f. default_ids (apply_rollout_edit e f))"
  "create_step h RolloutSubmit = on_submit (submit_rollout h)"
  "create_step h (RolloutAnswer a) = on_answer rollout_failed rollout_created a"
  "create_step h RolloutClose = on_close" "create_step h (RolloutThenLock l) = on_open_lock l"
  by (simp_all add: fun_eq_iff)

lemma lock_step_funs:
  "lock_step h (LockEdit k) = on_form (apply_lock_edit k)" "lock_step h LockSubmit = on_submit (submit_lock h)"
  "lock_step h (LockAnswer a) = on_answer lock_failed (\<lambda>_. lock_saved) a"
  "lock_step h LockClose = on_close" "lock_step h (LockThenLock l) = on_open_lock l"
  by (simp_all add: fun_eq_iff)

lemma keeping_form: "(\<And>f. busy (g f) = busy f) \<Longrightarrow> \<exists>g'. (\<forall>f. busy (g' f) = busy f) \<and> on_form g = on_form g'"
  by blast

interpretation rollout_dialog: dialog_events "submit_rollout h" cf_submitting rollout_failed "create_step h" rollout_created for h
proof unfold_locales
  fix f f' :: rollout_form and e :: api_error and r :: "rollout_body submitted" and ev :: create_event
  show "cf_submitting f \<Longrightarrow> submit_rollout h f = (f, Refused)" by (simp add: submit_rollout_def canSubmit_def)
  show "submit_rollout h f = (f', Refused) \<Longrightarrow> f' = f" using submit_rollout_cases by blast
  show "submit_rollout h f = (f', r) \<Longrightarrow> r \<noteq> Refused \<Longrightarrow> cf_submitting f'" using submit_rollout_cases by blast
  show "\<not> cf_submitting (rollout_failed e f)" by (simp add: rollout_failed_def)
  note keeps = default_ids_submitting edits_submitting
  show "(\<exists>g. (\<forall>f. cf_submitting (g f) = cf_submitting f) \<and> create_step h ev = on_form g) \<or> create_step h ev = on_submit (submit_rollout h) \<or>
      (\<exists>a. create_step h ev = on_answer rollout_failed rollout_created a) \<or> create_step h ev = on_close \<or>
      (\<exists>l. create_step h ev = on_open_lock l)"
    by (cases ev; simp only: create_step_funs; (intro disjI1 keeping_form; simp add: keeps)?; blast?)
qed

interpretation lock_dialog: dialog_events "submit_lock h" lf_submitting lock_failed "lock_step h" "\<lambda>_ :: unit. lock_saved" for h
proof unfold_locales
  fix f f' :: lock_form and e :: api_error and r :: "lock_body submitted" and ev :: lock_event
  show "lf_submitting f \<Longrightarrow> submit_lock h f = (f, Refused)" by (simp add: submit_lock_def lock_canSubmit_def)
  show "submit_lock h f = (f', Refused) \<Longrightarrow> f' = f" using submit_lock_cases by blast
  show "submit_lock h f = (f', r) \<Longrightarrow> r \<noteq> Refused \<Longrightarrow> lf_submitting f'" using submit_lock_cases by blast
  show "\<not> lf_submitting (lock_failed e f)" by (simp add: lock_failed_def)
  show "(\<exists>g. (\<forall>f. lf_submitting (g f) = lf_submitting f) \<and> lock_step h ev = on_form g) \<or> lock_step h ev = on_submit (submit_lock h) \<or>
      (\<exists>a. lock_step h ev = on_answer lock_failed (\<lambda>_ :: unit. lock_saved) a) \<or> lock_step h ev = on_close \<or>
      (\<exists>l. lock_step h ev = on_open_lock l)"
    by (cases ev; simp only: lock_step_funs; (intro disjI1 keeping_form; simp add: edits_submitting)?; blast?)
qed

section \<open>Dates in the forms\<close>

text \<open>
  What the lock dialog needs of the zone at an instant: the offset is in whole minutes, the local time
  of its minute belongs to one instant only, and the year prints with four digits.
\<close>

definition wall_clock :: "host \<Rightarrow> int \<Rightarrow> bool" where
  "wall_clock h t \<longleftrightarrow> 60000 dvd off_utc h t \<and> off_loc h (t - t mod 60000 + off_utc h t) = off_utc h t \<and>
     1000 \<le> getFullYear h t \<and> getFullYear h t \<le> 9999"

lemma minutes_split: "r div 3600000 * 3600000 + r div 60000 mod 60 * 60000 = r - r mod 60000" for r :: int
proof -
  have "r div 3600000 = r div 60000 div 60" by (simp flip: zdiv_zmult2_eq)
  then have "r div 3600000 * 60 + r div 60000 mod 60 = r div 60000" by (simp only: div_mult_mod_eq)
  moreover have "r div 60000 * 60000 + r mod 60000 = r" by (rule div_mult_mod_eq)
  ultimately show ?thesis by linarith
qed

lemma minute_of_day: "l - l mod 60000 = l div ms_per_day * ms_per_day + (l mod ms_per_day - l mod ms_per_day mod 60000)"
proof -
  have "l mod ms_per_day mod 60000 = l mod 60000" by (rule mod_mod_cancel) (simp add: ms_per_day_def)
  then show ?thesis using div_mult_mod_eq [of l ms_per_day] by linarith
qed

lemma show_nat_length_ge: "10 ^ k \<le> n \<Longrightarrow> Suc k \<le> length (show_nat n)"
proof (induction k arbitrary: n)
  case 0
  then show ?case by (subst show_nat.simps) simp
next
  case (Suc k)
  then have "10 ^ k \<le> n div 10" by (simp add: less_eq_div_iff_mult_less_eq mult.commute)
  moreover from this have "\<not> n < 10" using one_le_power [of "10 :: nat" k] by (metis div_less not_one_le_zero le_trans one_le_numeral)
  ultimately show ?case using Suc.IH [of "n div 10"] by (subst show_nat.simps) simp
qed

lemma four_digits: "1000 \<le> n \<Longrightarrow> n \<le> 9999 \<Longrightarrow> padStart0 4 (show_int n) = show_int n"
  using show_nat_length_ge [of 3 "nat n"] by (simp add: padStart0_def show_int_def)

lemma last_pad:
  assumes "list_all is_digit s" "s \<noteq> []"
  shows "last (xs @ s) \<noteq> CHR ''Z''"
proof -
  have "is_digit (last s)" using assms by (simp add: list_all_iff)
  moreover have "\<not> is_digit (CHR ''Z'')" by code_simp
  ultimately show ?thesis using assms(2) by (metis last_appendR)
qed

lemma localInput_minute:
  assumes "1000 \<le> getFullYear h t" "getFullYear h t \<le> 9999"
  shows "new_Date h (localInput h t) = Some (utc_of_local h (local_time h t - local_time h t mod 60000))"
proof -
  define l where "l = local_time h t"
  define d where "d = l div ms_per_day"
  define r where "r = l mod ms_per_day"
  have r: "0 \<le> r" "r < 86400000" by (simp_all add: r_def ms_per_day_def)
  have y: "1000 \<le> year_from_day d" "year_from_day d \<le> 9999"
    using assms by (simp_all add: getFullYear_def local_day_def d_def l_def)
  have mo: "0 \<le> month_from_day d" "month_from_day d \<le> 11" by (rule month_date_bounds)+
  let ?p = "padStart0 4 (show_int (year_from_day d)) @ ''-'' @ padStart0 2 (show_int (month_from_day d + 1)) @ ''-'' @
    padStart0 2 (show_int (date_from_day d)) @ ''T'' @ padStart0 2 (show_int (r div 3600000)) @ '':''"
  let ?m = "padStart0 2 (show_int (r div 60000 mod 60))"
  have eq: "localInput h t = ?p @ ?m"
    unfolding localInput_def pad_two_digits two_digits_def getFullYear_def getMonth_def getDate_def getHours_def getMinutes_def
      local_day_def four_digits [OF y] by (simp add: d_def r_def l_def)
  have "length ?m = 2" "list_all is_digit ?m" using number_text [of "r div 60000 mod 60" 1 2] hms_bounds(3,4) [OF r] by simp_all
  then have "last (?p @ ?m) \<noteq> CHR ''Z''" by (intro last_pad) auto
  then have "new_Date h (localInput h t) = map_option (utc_of_local h) (parse_ms (?p @ ?m))" by (simp only: new_Date_def eq simp_thms if_False)
  also have "parse_ms (?p @ ?m) = Some (make_day (year_from_day d) (month_from_day d + 1 - 1) (date_from_day d) * ms_per_day +
      r div 3600000 * 3600000 + r div 60000 mod 60 * 60000)"
    unfolding append_assoc using mo y by (intro parse_ms_numbers(2) month_date_bounds(3,4) hms_bounds [OF r]) simp_all
  also have "\<dots> = Some (l - l mod 60000)"
    using minutes_split [of r] minute_of_day [of l] unfolding add_diff_cancel_right' make_day_of_day option.inject d_def r_def by linarith
  finally show ?thesis by (simp add: l_def)
qed

lemma localInput_reads:
  assumes "wall_clock h t"
  shows "new_Date h (localInput h t) = Some (t - t mod 60000)"
proof -
  have "local_time h t mod 60000 = t mod 60000"
    using assms unfolding local_time_def wall_clock_def by (metis mod_add_self2 dvd_imp_mod_0 mod_add_right_eq add.right_neutral)
  then have "local_time h t - local_time h t mod 60000 = t - t mod 60000 + off_utc h t" by (simp add: local_time_def)
  then show ?thesis using assms by (simp add: localInput_minute utc_of_local_def wall_clock_def)
qed

text \<open>
  Where that holds: the host reads a local time as an instant that has it, the local time of the minute belongs to one instant only, so it is not in the
  hour that is repeated when the clocks go back, and the offset is in whole minutes and does not change within the minute.
\<close>

definition host_reads :: "host \<Rightarrow> bool" where
  "host_reads h \<longleftrightarrow> (\<forall>t. local_time h (utc_of_local h (local_time h t)) = local_time h t)"

definition named_once :: "host \<Rightarrow> int \<Rightarrow> bool" where
  "named_once h t \<longleftrightarrow> (\<forall>t'. local_time h t' = local_time h t \<longrightarrow> t' = t)"

definition plain_minute :: "host \<Rightarrow> int \<Rightarrow> bool" where
  "plain_minute h t \<longleftrightarrow> 60000 dvd off_utc h t \<and> off_utc h (t - t mod 60000) = off_utc h t \<and> 1000 \<le> getFullYear h t \<and> getFullYear h t \<le> 9999"

lemma wall_clock_named_once:
  assumes "host_reads h" "plain_minute h t" "named_once h (t - t mod 60000)"
  shows "wall_clock h t"
proof -
  let ?m = "t - t mod 60000"
  have l: "local_time h ?m = ?m + off_utc h t" using assms(2) by (simp add: local_time_def plain_minute_def)
  have "utc_of_local h (local_time h ?m) = ?m" using assms(1,3) by (simp add: host_reads_def named_once_def)
  then have "off_loc h (?m + off_utc h t) = off_utc h t" unfolding l by (simp add: utc_of_local_def)
  then show ?thesis using assms(2) by (simp add: wall_clock_def plain_minute_def)
qed

text \<open>The anchor of a cascade is the local time entered in the two inputs.\<close>

lemma baseISO_reads:
  assumes "cf_startDate f = iso_day n" "plain_year (n * ms_per_day)" "cf_startTime f = pad hh @ '':'' @ pad mi"
    and "0 \<le> hh" "hh \<le> 23" "0 \<le> mi" "mi \<le> 59"
  shows "new_Date h (baseISO f) = Some (utc_of_local h (n * ms_per_day + hh * 3600000 + mi * 60000))"
proof -
  have y: "0 \<le> year_from_day n" "year_from_day n \<le> 9999" using assms(2) by (simp_all add: plain_year_def)
  have mo: "0 \<le> month_from_day n" "month_from_day n \<le> 11" by (rule month_date_bounds)+
  have "iso_day n = padStart0 4 (show_int (year_from_day n)) @ ''-'' @ padStart0 2 (show_int (month_from_day n + 1)) @ ''-'' @
      padStart0 2 (show_int (date_from_day n))"
    using y mo month_date_bounds(3,4) [of n] iso_year_length [OF y] two_digits_length [of "month_from_day n + 1"] two_digits_length [of "date_from_day n"]
    by (simp add: iso_day_def two_digits_def iso_year_def)
  then have eq: "baseISO f = padStart0 4 (show_int (year_from_day n)) @ ''-'' @ padStart0 2 (show_int (month_from_day n + 1)) @ ''-'' @
      padStart0 2 (show_int (date_from_day n)) @ ''T'' @ padStart0 2 (show_int hh) @ '':'' @ padStart0 2 (show_int mi) @ '':00''"
    using assms(1,3) by (simp add: baseISO_def pad_two_digits two_digits_def)
  have "parse_ms (baseISO f) = Some (make_day (year_from_day n) (month_from_day n + 1 - 1) (date_from_day n) * ms_per_day + hh * 3600000 + mi * 60000)"
    unfolding eq using mo y by (intro parse_ms_numbers(3) month_date_bounds(3,4) assms) simp_all
  moreover have "last (baseISO f) \<noteq> CHR ''Z''" by (simp add: baseISO_def)
  ultimately show ?thesis by (simp add: new_Date_def make_day_of_day)
qed

lemma stage_notice_positive: "0 < st_minAdvanceHours (getStage_ts k)"
  by (simp add: getStage_ts_def STAGE_ts_def)

lemma lead_warning_empty: "0 < st_minAdvanceHours meta \<Longrightarrow>
    lead_warning now meta d = [] \<longleftrightarrow> now + st_minAdvanceHours meta * 3600000 \<le> d"
proof -
  assume "0 < st_minAdvanceHours meta"
  moreover have "lead_hours now d < of_int (st_minAdvanceHours meta) \<longleftrightarrow> (of_int (d - now) :: rat) < of_int (st_minAdvanceHours meta * 3600000)"
    by (simp add: lead_hours_def field_simps)
  ultimately show ?thesis unfolding lead_warning_def of_int_less_iff by auto
qed

lemma no_date_no_anchor: "cf_startDate f = [] \<Longrightarrow> new_Date h (baseISO f) = None"
  by (simp add: baseISO_def new_Date_def parse_ms_def digits_at_def is_digit_def char_code_def eval_nat_numeral)

lemma localInput_nonempty: "localInput h t \<noteq> []"
  by (simp add: localInput_def)

section \<open>Properties\<close>

text \<open>A form filled in for the examples: the type of two stages, Tuesday 2 June 2026 at 10:00.\<close>

definition example_type :: rollout_type where
  "example_type = \<lparr>rt_id = ''minor'', rt_name = ''Minor'', rt_short = ''M'', rt_tone = ''info'',
     rt_cascadePlan = [\<lparr>ps_stage = ''non-prod'', ps_delayHours = 0\<rparr>, \<lparr>ps_stage = ''prod1'', ps_delayHours = 168\<rparr>],
     rt_announce = [], rt_rules = [], rt_tasks = []\<rparr>"

definition example_form :: rollout_form where
  "example_form = \<lparr>cf_products = [], cf_types = [example_type], cf_productId = ''operator'', cf_typeId = ''minor'', cf_title = ''24.7'',
     cf_startDate = ''2026-06-02'', cf_startTime = ''10:00'', cf_durationHours = 2, cf_descExt = [], cf_descInt = [], cf_risks = [],
     cf_pairText = ''luc, henning'', cf_submitting = False, cf_error = None\<rparr>"

definition example_services :: services where
  "example_services = \<lparr>sv_bus = new_bus, sv_dialog = openRollout new_dialogs, sv_route = []\<rparr>"

lemma example_plain: "plain_year (20606 * ms_per_day)" "plain_year (1780394400000 + 0 * 3600000)" "plain_year (1780394400000 + 168 * 3600000)"
  by code_simp+

lemma example_preview: "\<exists>ss. preview utc_host example_form = Some ss"
proof -
  have "selectedType example_form = Some example_type" "new_Date utc_host (baseISO example_form) = Some 1780394400000" by code_simp+
  then show ?thesis
    using cascade_stages_eq [of utc_host "baseISO example_form" 1780394400000 "rt_cascadePlan example_type" 2] example_plain
    by (simp add: preview_def example_type_def example_form_def)
qed

lemma example_submits: "preview utc_host example_form = Some ss \<Longrightarrow> mo_waiting (create_step utc_host RolloutSubmit (open_modal example_form example_services)) \<noteq> []"
proof -
  assume p: "preview utc_host example_form = Some ss"
  have "canSubmit example_form" by code_simp
  moreover have "preview utc_host (example_form\<lparr>cf_submitting := True, cf_error := None\<rparr>) = Some ss"
    using p by (simp add: preview_def selectedType_def baseISO_def)
  ultimately show ?thesis by (simp add: open_modal_def on_submit_def submit_rollout_def Let_def)
qed



text \<open>
  The dialog gives no advice exactly when every stage of the plan starts no earlier than its minimum notice
  from now and no start is a Friday, a holiday or the eve of one by the schedule rules.
\<close>

theorem advisories_silent:
  assumes "selectedType f = Some ty" "rt_cascadePlan ty \<noteq> []" "new_Date h (baseISO f) = Some base"
    and "\<forall>p \<in> set (rt_cascadePlan ty). plain_year (base + ps_delayHours p * 3600000)"
  shows "scheduleAdvisories h now f = Some [] \<longleftrightarrow>
    (\<forall>p \<in> set (rt_cascadePlan ty). now + st_minAdvanceHours (getStage_ts (ps_stage p)) * 3600000 \<le> base + ps_delayHours p * 3600000 \<and>
      scheduleWarnings h (base + ps_delayHours p * 3600000) = [])"
proof -
  note eq = cascade_stages_eq [OF assms(3,2,4), of "cf_durationHours f"]
  show ?thesis using assms(4)
    by (auto simp: scheduleAdvisories_def preview_def assms(1) eq stage_advisories_def plain_year_reads lead_warning_empty stage_notice_positive)
qed

theorem advisories_silent_witness: "scheduleAdvisories utc_host 1779000000000 example_form = Some []"
proof -
  have d: "local_day utc_host 1780394400000 = 20606" "local_day utc_host (1780394400000 + 168 * 3600000) = 20613"
    "100 \<le> getFullYear utc_host 1780394400000" "100 \<le> getFullYear utc_host (1780394400000 + 168 * 3600000)"
    "weekday 20606 \<noteq> 5" "weekday 20613 \<noteq> 5" "map holiday_name [20606, 20606 + 1, 20613, 20613 + 1] = [None, None, None, None]"
    by code_simp+
  have "scheduleWarnings utc_host 1780394400000 = []"
    unfolding scheduleWarnings_days [OF utc_keeps_day d(3) d(1) [symmetric]] using d(5,7) by (simp add: guarded_def)
  moreover have "scheduleWarnings utc_host (1780394400000 + 168 * 3600000) = []"
    unfolding scheduleWarnings_days [OF utc_keeps_day d(4) d(2) [symmetric]] using d(6,7) by (simp add: guarded_def)
  moreover have "selectedType example_form = Some example_type" "new_Date utc_host (baseISO example_form) = Some 1780394400000"
    "st_minAdvanceHours (getStage_ts ''non-prod'') = 1" "st_minAdvanceHours (getStage_ts ''prod1'') = 168"
    by code_simp+
  ultimately show ?thesis
    using advisories_silent [of example_form example_type utc_host 1780394400000 1779000000000] example_plain
    by (simp add: example_type_def)
qed

text \<open>
  C11. In every run of either dialog at most one request waits for its answer, and while one does the
  button that sends another is disabled.
\<close>

theorem dialogs_single_flight:
  "length (mo_waiting (fold (create_step h) es (open_modal (new_rollout_form h now) s))) \<le> 1 \<and>
   length (mo_waiting (fold (lock_step h) ls (open_modal (new_lock_form h now l) s))) \<le> 1 \<and>
   (mo_waiting (fold (create_step h) es (open_modal (new_rollout_form h now) s)) \<noteq> [] \<longrightarrow>
     \<not> canSubmit (mo_form (fold (create_step h) es (open_modal (new_rollout_form h now) s)))) \<and>
   (mo_waiting (fold (lock_step h) ls (open_modal (new_lock_form h now l) s)) \<noteq> [] \<longrightarrow>
     \<not> lock_canSubmit (mo_form (fold (lock_step h) ls (open_modal (new_lock_form h now l) s))))"
proof -
  have "rollout_dialog.flight_ok (fold (create_step h) es (open_modal (new_rollout_form h now) s))"
    by (intro rollout_dialog.flight_run) (simp add: rollout_dialog.flight_ok_def open_modal_def)
  moreover have "lock_dialog.flight_ok (fold (lock_step h) ls (open_modal (new_lock_form h now l) s))"
    by (intro lock_dialog.flight_run) (simp add: lock_dialog.flight_ok_def open_modal_def)
  ultimately show ?thesis
    by (auto simp: rollout_dialog.flight_ok_def lock_dialog.flight_ok_def canSubmit_def lock_canSubmit_def split: if_splits)
qed

theorem dialogs_single_flight_witness:
  "mo_waiting (fold (create_step utc_host) [TypesLoaded [example_type], RolloutEdit (EditProduct ''operator''), RolloutEdit (EditTitle ''24.7''), RolloutSubmit]
     (open_modal (new_rollout_form utc_host 0) example_services)) \<noteq> [] \<and>
   \<not> canSubmit (mo_form (fold (create_step utc_host) [TypesLoaded [example_type], RolloutEdit (EditProduct ''operator''), RolloutEdit (EditTitle ''24.7''), RolloutSubmit]
     (open_modal (new_rollout_form utc_host 0) example_services)))"
proof -
  let ?es = "[TypesLoaded [example_type], RolloutEdit (EditProduct ''operator''), RolloutEdit (EditTitle ''24.7''), RolloutSubmit]"
  have "mo_waiting (fold (create_step utc_host) ?es (open_modal (new_rollout_form utc_host 0) example_services)) \<noteq> []" by code_simp
  then show ?thesis using dialogs_single_flight [of utc_host ?es 0 example_services "[]" None] by blast
qed

text \<open>
  C27. Opening a lock in the dialog and saving it unchanged sends an update of that lock with the same times, cut to the minute, its other texts
  and its products, when its title is not blank, it has a product, and the local time of each of its two minutes names one instant only. That
  fails in the hour that is repeated when the clocks go back.
\<close>

theorem lock_edit_roundtrip:
  assumes "new_Date h (ld_startAt l) = Some s" "new_Date h (ld_endAt l) = Some e"
    and "host_reads h" "plain_minute h s" "plain_minute h e" "named_once h (s - s mod 60000)" "named_once h (e - e mod 60000)"
    and "ld_id l \<noteq> []" "trim (ld_title l) \<noteq> []" "ld_products l \<noteq> []"
  shows "snd (submit_lock h (new_lock_form h now (Some l))) = Sent (api_updateLock (ld_id l)
    \<lparr>lb_title = trim (ld_title l), lb_description = ld_description l, lb_contact = ld_contact l, lb_startAt = toISOString (s - s mod 60000),
     lb_endAt = toISOString (e - e mod 60000), lb_products = ld_products l, lb_kind = ld_kind l\<rparr>)"
  using assms(1,2,8-10) wall_clock_named_once [OF assms(3,4,6)] wall_clock_named_once [OF assms(3,5,7)]
  by (simp add: submit_lock_def new_lock_form_def lock_canSubmit_def toLocalInput_def localInput_reads localInput_nonempty Let_def)

theorem lock_edit_roundtrip_witness:
  "snd (submit_lock utc_host (new_lock_form utc_host 0 (Some \<lparr>ld_id = ''l1'', ld_title = ''Master bug'', ld_description = [], ld_contact = ''luc'',
      ld_startAt = ''2026-06-02T10:00:30.000Z'', ld_endAt = ''2026-06-03T10:00:00.000Z'', ld_products = [''all''], ld_kind = Manual\<rparr>))) =
   Sent (api_updateLock ''l1'' \<lparr>lb_title = ''Master bug'', lb_description = [], lb_contact = ''luc'', lb_startAt = ''2026-06-02T10:00:00.000Z'',
      lb_endAt = ''2026-06-03T10:00:00.000Z'', lb_products = [''all''], lb_kind = Manual\<rparr>)"
proof -
  let ?l = "\<lparr>ld_id = ''l1'', ld_title = ''Master bug'', ld_description = [], ld_contact = ''luc'',
      ld_startAt = ''2026-06-02T10:00:30.000Z'', ld_endAt = ''2026-06-03T10:00:00.000Z'', ld_products = [''all''], ld_kind = Manual\<rparr>"
  have "new_Date utc_host (ld_startAt ?l) = Some 1780394430000" "new_Date utc_host (ld_endAt ?l) = Some 1780480800000"
    "plain_minute utc_host 1780394430000" "plain_minute utc_host 1780480800000" "trim ''Master bug'' = ''Master bug''"
    "toISOString (1780394430000 - 1780394430000 mod 60000) = ''2026-06-02T10:00:00.000Z''"
    "toISOString (1780480800000 - 1780480800000 mod 60000) = ''2026-06-03T10:00:00.000Z''"
    by code_simp+
  moreover have "host_reads utc_host" "named_once utc_host t" for t
    by (simp_all add: host_reads_def named_once_def utc_host_def local_time_def utc_of_local_def)
  ultimately show ?thesis using lock_edit_roundtrip [of utc_host ?l 1780394430000 1780480800000 0] by simp
qed

text \<open>
  In the repeated hour it shifts the lock: with clocks that go back at 01:00 UTC on 25 October 2026 a lock from the second 02:10 to 12:00 is saved
  unchanged with a start one hour earlier.
\<close>

definition autumn_host :: host where
  "autumn_host = \<lparr>off_utc = (\<lambda>t. if t < 1792890000000 then 7200000 else 3600000), off_loc = (\<lambda>l. if l < 1792897200000 then 7200000 else 3600000),
     locale_date = (\<lambda>_ _. [])\<rparr>"

lemma lock_edit_shifts:
  assumes "new_Date autumn_host (ld_startAt l) = Some 1792890600000" "new_Date autumn_host (ld_endAt l) = Some 1792926000000"
    and "ld_id l \<noteq> []" "trim (ld_title l) \<noteq> []" "ld_products l \<noteq> []"
  shows "\<exists>b. snd (submit_lock autumn_host (new_lock_form autumn_host now (Some l))) = Sent (api_updateLock (ld_id l) b) \<and>
    lb_startAt b = toISOString (1792890600000 - 3600000) \<and> lb_endAt b = toISOString 1792926000000"
proof -
  have y: "1000 \<le> getFullYear autumn_host 1792890600000" "getFullYear autumn_host 1792890600000 \<le> 9999"
    "1000 \<le> getFullYear autumn_host 1792926000000" "getFullYear autumn_host 1792926000000 \<le> 9999"
    by code_simp+
  have "new_Date autumn_host (localInput autumn_host 1792890600000) = Some (1792890600000 - 3600000)"
    "new_Date autumn_host (localInput autumn_host 1792926000000) = Some 1792926000000"
    unfolding localInput_minute [OF y(1,2)] localInput_minute [OF y(3,4)] by (simp_all add: autumn_host_def local_time_def utc_of_local_def)
  then have "snd (submit_lock autumn_host (new_lock_form autumn_host now (Some l))) = Sent (api_updateLock (ld_id l)
      \<lparr>lb_title = trim (ld_title l), lb_description = ld_description l, lb_contact = ld_contact l, lb_startAt = toISOString (1792890600000 - 3600000),
       lb_endAt = toISOString 1792926000000, lb_products = ld_products l, lb_kind = ld_kind l\<rparr>)"
    using assms by (simp add: submit_lock_def new_lock_form_def lock_canSubmit_def toLocalInput_def localInput_nonempty Let_def)
  then show ?thesis by (intro exI conjI) (assumption, simp_all)
qed

text \<open>
  With an empty start date a click on the button throws while the body is built, after the form was
  marked as submitting: no request is sent then or by any later event, and the form can no longer be submitted.
\<close>

lemma empty_date_stuck:
  assumes "mo_mounted w" "mo_waiting w = []" "canSubmit (mo_form w)" "cf_startDate (mo_form w) = []"
  shows "mo_sent (fold (create_step h) es (create_step h RolloutSubmit w)) = mo_sent w \<and>
    \<not> canSubmit (mo_form (fold (create_step h) es (create_step h RolloutSubmit w)))"
proof -
  let ?w = "create_step h RolloutSubmit w"
  have "preview h ((mo_form w)\<lparr>cf_submitting := True, cf_error := None\<rparr>) = None"
    using no_date_no_anchor [of "(mo_form w)\<lparr>cf_submitting := True, cf_error := None\<rparr>" h] assms(4)
    by (simp add: preview_def cascadeStages_def Let_def)
  then have "rollout_dialog.stuck ?w" "mo_sent ?w = mo_sent w"
    using assms(1-3) by (simp_all add: rollout_dialog.stuck_def on_submit_def submit_rollout_def Let_def)
  then show ?thesis using rollout_dialog.stuck_run [of ?w h es]
    by (simp add: rollout_dialog.stuck_def canSubmit_def)
qed

text \<open>
  Closing the rollout dialog does not cancel its request: the answer closes whatever dialog is open by then.
\<close>

lemma late_answer_closes_other_dialog:
  assumes "mo_mounted w" "mo_waiting w = []" "submit_rollout h (mo_form w) = (f, Sent r)"
  shows "dialog_open (sv_dialog (mo_services (fold (create_step h) [RolloutSubmit, RolloutClose, RolloutThenLock l] w))) = Some DLock"
    "dialog_open (sv_dialog (mo_services (fold (create_step h)
      [RolloutSubmit, RolloutClose, RolloutThenLock l, RolloutAnswer (Inr i)] w))) = None"
  using assms by (simp_all add: on_submit_def on_close_def on_open_lock_def on_answer_def openLock_def rollout_created_def dialog_close_def)

end
