(* ===== verification/RR_Detail.thy ===== *)
theory RR_Detail
  imports RR_Api
begin

text \<open>
  The page of one rollout in the frontend, \<open>src/frontend/src/app/features/rollout-detail/rollout-detail.component.ts\<close>.
  The signals of the component are a record. The stream behind \<open>rollout\<close> restarts when the route or the
  refresh bus changes and then waits for the answer of its last request only (\<open>switchMap\<close>): \<open>dt_loading\<close> is the
  id it waits for. A request that changes data is sent and answered; \<open>dt_waiting\<close> has those without an answer.
  \<open>detail_offers\<close> says which events the template offers in a state: its conditions and \<open>disabled\<close> attributes; \<open>RR_DetailView\<close> proves it of the markup.
\<close>

section \<open>State\<close>

record detail_state =
  dt_busy :: bool
  dt_actionError :: "string option"
  dt_failingIndex :: "int option"
  dt_reasonDraft :: string
  dt_editing :: bool
  dt_draft :: "rollout_doc option"
  dt_newTaskDraft :: string
  dt_confirmingDelete :: bool
  dt_hadRollout :: bool
  dt_rollout :: "rollout_doc option"
  dt_types :: "rollout_type list"
  dt_allLocks :: "lock_doc list"

definition new_detail_state :: detail_state where
  "new_detail_state =
     \<lparr>dt_busy = False, dt_actionError = None, dt_failingIndex = None, dt_reasonDraft = [], dt_editing = False, dt_draft = None,
      dt_newTaskDraft = [], dt_confirmingDelete = False, dt_hadRollout = False, dt_rollout = None, dt_types = [], dt_allLocks = []\<rparr>"

section \<open>Computed values\<close>

definition deleted :: "detail_state \<Rightarrow> bool" where
  "deleted s \<longleftrightarrow> dt_hadRollout s \<and> dt_rollout s = None"

definition detail_type :: "detail_state \<Rightarrow> rollout_type option" where
  "detail_type s = (case dt_rollout s of
     None \<Rightarrow> None
   | Some r \<Rightarrow> find (\<lambda>t. rt_id t = rd_typeId r) (dt_types s))"

text \<open>
  A comparison with the time of an invalid date is false, so such a stage or lock overlaps nothing.
\<close>

definition stage_overlaps :: "host \<Rightarrow> lock_doc \<Rightarrow> rollout_stage \<Rightarrow> bool" where
  "stage_overlaps h l st = (case (new_Date h (ld_startAt l), new_Date h (ld_endAt l), new_Date h (pl_startAt st)) of
     (Some ls, Some le, Some start) \<Rightarrow>
       start < le \<and> of_int start + nsToHours (pl_durationNs st) * 3600000 > of_int ls
   | _ \<Rightarrow> False)"

definition detail_blockingLocks :: "host \<Rightarrow> detail_state \<Rightarrow> lock_doc list" where
  "detail_blockingLocks h s = (case dt_rollout s of
     None \<Rightarrow> []
   | Some r \<Rightarrow> filter (\<lambda>l. (''all'' \<in> set (ld_products l) \<or> rd_product r \<in> set (ld_products l)) \<and>
       list_ex (stage_overlaps h l) (rd_stages r)) (dt_allLocks s))"

definition lockTitles :: "host \<Rightarrow> detail_state \<Rightarrow> string" where
  "lockTitles h s = join_with ('' '' @ u_bullet @ '' '') (map ld_title (detail_blockingLocks h s))"

definition detail_advisories :: "host \<Rightarrow> detail_state \<Rightarrow> string list" where
  "detail_advisories h s = (case dt_rollout s of
     None \<Rightarrow> []
   | Some r \<Rightarrow> concat (map (\<lambda>st. case new_Date h (pl_startAt st) of
         Some d \<Rightarrow> map (\<lambda>w. st_label (getStage_ts (pl_env st)) @ '': '' @ w) (scheduleWarnings h d)
       | None \<Rightarrow> []) (rd_stages r)))"

definition detail_tasks :: "detail_state \<Rightarrow> rollout_task list" where
  "detail_tasks s = (case dt_rollout s of Some r \<Rightarrow> rd_tasks r | None \<Rightarrow> [])"

definition completion_ts :: "detail_state \<Rightarrow> int" where
  "completion_ts s =
     (let tasks = detail_tasks s in
      if tasks = [] then 0
      else js_round (of_nat (length (filter (\<lambda>t. tk_status t = ''done'') tasks)) / of_nat (length tasks) * 100))"

definition failedCount_ts :: "detail_state \<Rightarrow> nat" where
  "failedCount_ts s = length (filter (\<lambda>t. tk_status t = ''failed'') (detail_tasks s))"

definition failedPct :: "detail_state \<Rightarrow> rat" where
  "failedPct s =
     (let tasks = detail_tasks s in
      if tasks = [] then 0 else of_nat (failedCount_ts s) / of_nat (length tasks) * 100)"

definition detail_hours :: "int \<Rightarrow> int" where
  "detail_hours ns = js_round (nsToHours ns)"

definition fmtDate :: "host \<Rightarrow> string \<Rightarrow> string" where
  "fmtDate h s = (case new_Date h s of
     Some d \<Rightarrow> locale_date h [(''weekday'', ''short''), (''day'', ''2-digit''), (''month'', ''short'')] d
   | None \<Rightarrow> ''Invalid Date'')"

text \<open>The text between two stages whose dates are valid.\<close>

definition stageGap :: "int \<Rightarrow> int \<Rightarrow> string" where
  "stageGap before start =
     (let n = js_round (of_int (start - before) / 3600000) in
      if n < 24 then show_int n @ ''h'' else show_int (js_round (of_int n / 24)) @ ''d'')"

section \<open>Requests and answers\<close>

record rollout_patch =
  rp_title :: string
  rp_descExt :: string
  rp_descInt :: string
  rp_risks :: string
  rp_stages :: "rollout_stage list"
  rp_pair :: "string list option"
  rp_tasks :: "rollout_task list"

datatype detail_body = TaskBody string string | RolloutBody rollout_patch

datatype mutation = TaskUpdate | RolloutSave | RolloutDelete

record detail =
  dw_state :: detail_state
  dw_route :: "string option"
  dw_loading :: "string option"
  dw_waiting :: "mutation list"
  dw_sent :: "detail_body http_request list"
  dw_services :: services

definition on_state :: "(detail_state \<Rightarrow> detail_state) \<Rightarrow> detail \<Rightarrow> detail" where
  "on_state f w = w\<lparr>dw_state := f (dw_state w)\<rparr>"

definition send_mutation :: "mutation \<Rightarrow> detail_body http_request \<Rightarrow> detail \<Rightarrow> detail" where
  "send_mutation k r w = w\<lparr>dw_state := (dw_state w)\<lparr>dt_busy := True, dt_actionError := None\<rparr>, dw_waiting := dw_waiting w @ [k], dw_sent := dw_sent w @ [r]\<rparr>"

definition patch :: "string \<Rightarrow> int \<Rightarrow> string \<Rightarrow> string \<Rightarrow> detail \<Rightarrow> detail" where
  "patch i n sts reason w = send_mutation TaskUpdate (api_updateTask i n (TaskBody sts reason)) w"

definition patched :: "bool \<Rightarrow> detail \<Rightarrow> detail" where
  "patched ok w =
     (if ok then w\<lparr>dw_state := (dw_state w)\<lparr>dt_busy := False, dt_failingIndex := None, dt_reasonDraft := []\<rparr>,
          dw_services := (dw_services w)\<lparr>sv_bus := bump (sv_bus (dw_services w))\<rparr>\<rparr>
      else w\<lparr>dw_state := (dw_state w)\<lparr>dt_busy := False, dt_actionError := Some (''Could not update the task '' @ u_mdash @ '' please retry.'')\<rparr>\<rparr>)"

section \<open>Running the tasks\<close>

definition toggleDone :: "bool \<Rightarrow> string \<Rightarrow> rollout_task \<Rightarrow> detail \<Rightarrow> detail" where
  "toggleDone can i t w =
     (if \<not> can then w else patch i (tk_index t) (if tk_status t = ''done'' then [] else ''done'') [] w)"

definition begin_reason :: "rollout_task \<Rightarrow> detail_state \<Rightarrow> detail_state" where
  "begin_reason t s = s\<lparr>dt_failingIndex := Some (tk_index t), dt_reasonDraft := (case tk_reason t of Some q \<Rightarrow> q | None \<Rightarrow> [])\<rparr>"

definition onFail :: "bool \<Rightarrow> string \<Rightarrow> rollout_task \<Rightarrow> detail \<Rightarrow> detail" where
  "onFail can i t w =
     (if \<not> can then w
      else if tk_status t = ''failed'' then patch i (tk_index t) [] [] w
      else on_state (begin_reason t) w)"

definition editReason :: "rollout_task \<Rightarrow> detail \<Rightarrow> detail" where
  "editReason t w = on_state (begin_reason t) w"

definition saveFailure :: "string \<Rightarrow> rollout_task \<Rightarrow> detail \<Rightarrow> detail" where
  "saveFailure i t w =
     (let reason = trim (dt_reasonDraft (dw_state w)) in
      if reason = [] then w else patch i (tk_index t) ''failed'' reason w)"

definition cancelFail :: "detail \<Rightarrow> detail" where
  "cancelFail w = on_state (\<lambda>s. s\<lparr>dt_failingIndex := None, dt_reasonDraft := []\<rparr>) w"

section \<open>Editing the rollout\<close>

definition enterEdit :: "detail \<Rightarrow> detail" where
  "enterEdit w = (case dt_rollout (dw_state w) of
     None \<Rightarrow> w
   | Some r \<Rightarrow> on_state (\<lambda>s. s\<lparr>dt_draft := Some r, dt_editing := True\<rparr>) w)"

definition cancelEdit :: "detail \<Rightarrow> detail" where
  "cancelEdit w = on_state (\<lambda>s. s\<lparr>dt_editing := False, dt_draft := None, dt_newTaskDraft := []\<rparr>) w"

definition patchDraft :: "(rollout_doc \<Rightarrow> rollout_doc) \<Rightarrow> detail \<Rightarrow> detail" where
  "patchDraft f w = on_state (\<lambda>s. s\<lparr>dt_draft := map_option f (dt_draft s)\<rparr>) w"

definition detail_pairText :: "detail_state \<Rightarrow> string" where
  "detail_pairText s = join_with '', '' (case dt_draft s of
     Some d \<Rightarrow> (case rd_pair d of Some p \<Rightarrow> p | None \<Rightarrow> []) | None \<Rightarrow> [])"

definition setPair :: "string \<Rightarrow> detail \<Rightarrow> detail" where
  "setPair v w = patchDraft (\<lambda>d. d\<lparr>rd_pair := Some (comma_list v)\<rparr>) w"

definition addDraftTask :: "detail \<Rightarrow> detail" where
  "addDraftTask w =
     (let v = trim (dt_newTaskDraft (dw_state w)) in
      case dt_draft (dw_state w) of
        None \<Rightarrow> w
      | Some d \<Rightarrow>
          if v = [] then w
          else on_state (\<lambda>s. s\<lparr>dt_draft := Some (d\<lparr>rd_tasks := rd_tasks d @
            [\<lparr>tk_index = int (length (rd_tasks d)), tk_description = v, tk_status = [], tk_reason = None, tk_by = None\<rparr>]\<rparr>),
            dt_newTaskDraft := []\<rparr>) w)"

definition editDraftTask :: "nat \<Rightarrow> string \<Rightarrow> detail \<Rightarrow> detail" where
  "editDraftTask i v w = patchDraft (\<lambda>d. d\<lparr>rd_tasks := map_at i (\<lambda>t. t\<lparr>tk_description := v\<rparr>) (rd_tasks d)\<rparr>) w"

definition removeDraftTask :: "nat \<Rightarrow> detail \<Rightarrow> detail" where
  "removeDraftTask i w = patchDraft (\<lambda>d. d\<lparr>rd_tasks := remove_at i (rd_tasks d)\<rparr>) w"

definition moveDraftTask :: "nat \<Rightarrow> int \<Rightarrow> detail \<Rightarrow> detail" where
  "moveDraftTask i dir w = patchDraft (\<lambda>d. d\<lparr>rd_tasks := move i dir (rd_tasks d)\<rparr>) w"

definition patch_of :: "rollout_doc \<Rightarrow> rollout_patch" where
  "patch_of d = \<lparr>rp_title = rd_title d, rp_descExt = rd_descExt d, rp_descInt = rd_descInt d, rp_risks = rd_risks d,
     rp_stages = rd_stages d, rp_pair = rd_pair d, rp_tasks = rd_tasks d\<rparr>"

definition save :: "detail \<Rightarrow> detail" where
  "save w = (case dt_draft (dw_state w) of
     None \<Rightarrow> w
   | Some d \<Rightarrow> send_mutation RolloutSave (api_updateRollout (rd_id d) (RolloutBody (patch_of d))) w)"

definition saved :: "bool \<Rightarrow> detail \<Rightarrow> detail" where
  "saved ok w =
     (if ok then w\<lparr>dw_state := (dw_state w)\<lparr>dt_busy := False, dt_editing := False, dt_draft := None\<rparr>,
          dw_services := (dw_services w)\<lparr>sv_bus := bump (sv_bus (dw_services w))\<rparr>\<rparr>
      else w\<lparr>dw_state := (dw_state w)\<lparr>dt_busy := False, dt_actionError := Some (''Could not save changes '' @ u_mdash @ '' please retry.'')\<rparr>\<rparr>)"

section \<open>Deleting\<close>

definition requestDelete :: "detail \<Rightarrow> detail" where
  "requestDelete w = on_state (\<lambda>s. s\<lparr>dt_confirmingDelete := True\<rparr>) w"

definition cancelDelete :: "detail \<Rightarrow> detail" where
  "cancelDelete w = on_state (\<lambda>s. s\<lparr>dt_confirmingDelete := False\<rparr>) w"

definition confirmDelete :: "string \<Rightarrow> detail \<Rightarrow> detail" where
  "confirmDelete i w = send_mutation RolloutDelete (api_deleteRollout i) w"

definition deletion_done :: "bool \<Rightarrow> detail \<Rightarrow> detail" where
  "deletion_done ok w =
     (if ok then w\<lparr>dw_state := (dw_state w)\<lparr>dt_busy := False, dt_confirmingDelete := False\<rparr>,
          dw_services := (dw_services w)\<lparr>sv_bus := bump (sv_bus (dw_services w)), sv_route := [''/timeline'']\<rparr>\<rparr>
      else w\<lparr>dw_state := (dw_state w)\<lparr>dt_busy := False, dt_confirmingDelete := False,
          dt_actionError := Some (''Could not delete the rollout '' @ u_mdash @ '' please retry.'')\<rparr>\<rparr>)"

definition back_to_timeline :: "detail \<Rightarrow> detail" where
  "back_to_timeline w = w\<lparr>dw_services := (dw_services w)\<lparr>sv_route := [''/timeline'']\<rparr>\<rparr>"

section \<open>Loading\<close>

text \<open>
  A new id in the route clears the flag and the banner and starts a request; without an id the
  value is \<open>null\<close> at once. A tick repeats the request.
\<close>

definition restart :: "detail \<Rightarrow> detail" where
  "restart w = (case dw_route w of
     Some i \<Rightarrow> if i \<noteq> [] then w\<lparr>dw_loading := Some i\<rparr> else w\<lparr>dw_loading := None, dw_state := (dw_state w)\<lparr>dt_rollout := None\<rparr>\<rparr>
   | None \<Rightarrow> w\<lparr>dw_loading := None, dw_state := (dw_state w)\<lparr>dt_rollout := None\<rparr>\<rparr>)"

definition navigate :: "string option \<Rightarrow> detail \<Rightarrow> detail" where
  "navigate i w = restart (w\<lparr>dw_route := i, dw_state := (dw_state w)\<lparr>dt_hadRollout := False, dt_actionError := None\<rparr>\<rparr>)"

datatype fetch = Found rollout_doc | NotFound | Failed

definition fetched :: "fetch \<Rightarrow> detail \<Rightarrow> detail" where
  "fetched a w = (case dw_loading w of
     None \<Rightarrow> w
   | Some i \<Rightarrow> (case a of
         Found r \<Rightarrow> w\<lparr>dw_loading := None, dw_state := (dw_state w)\<lparr>dt_hadRollout := True, dt_rollout := Some r\<rparr>\<rparr>
       | NotFound \<Rightarrow> w\<lparr>dw_loading := None, dw_state := (dw_state w)\<lparr>dt_rollout := None\<rparr>\<rparr>
       | Failed \<Rightarrow> w\<lparr>dw_loading := None\<rparr>))"

definition answered :: "bool \<Rightarrow> detail \<Rightarrow> detail" where
  "answered ok w = (case dw_waiting w of
     [] \<Rightarrow> w
   | TaskUpdate # ms \<Rightarrow> patched ok (w\<lparr>dw_waiting := ms\<rparr>)
   | RolloutSave # ms \<Rightarrow> saved ok (w\<lparr>dw_waiting := ms\<rparr>)
   | RolloutDelete # ms \<Rightarrow> deletion_done ok (w\<lparr>dw_waiting := ms\<rparr>))"

section \<open>Events\<close>

datatype detail_event =
    ToggleDone rollout_task | Fail rollout_task | EditReason rollout_task | ReasonInput string | CancelFail | SaveFailure rollout_task
  | EnterEdit | CancelEdit | DraftTitle string | DraftDescExt string | DraftDescInt string | DraftRisks string | SetPair string
  | NewTaskInput string | AddDraftTask | EditDraftTask nat string | RemoveDraftTask nat | MoveDraftTask nat int | Save
  | RequestDelete | CancelDelete | ConfirmDelete | Back
  | Navigate "string option" | Tick | Fetched fetch | Answered bool | TypesFetched "rollout_type list" | LocksFetched "lock_doc list"

text \<open>The template passes the id of the rollout that is shown.\<close>

definition shown_id :: "detail \<Rightarrow> string" where
  "shown_id w = (case dt_rollout (dw_state w) of Some r \<Rightarrow> rd_id r | None \<Rightarrow> [])"

fun detail_step :: "bool \<Rightarrow> detail_event \<Rightarrow> detail \<Rightarrow> detail" where
  "detail_step can (ToggleDone t) w = toggleDone can (shown_id w) t w"
| "detail_step can (Fail t) w = onFail can (shown_id w) t w"
| "detail_step can (EditReason t) w = editReason t w"
| "detail_step can (ReasonInput v) w = on_state (\<lambda>s. s\<lparr>dt_reasonDraft := v\<rparr>) w"
| "detail_step can CancelFail w = cancelFail w"
| "detail_step can (SaveFailure t) w = saveFailure (shown_id w) t w"
| "detail_step can EnterEdit w = enterEdit w"
| "detail_step can CancelEdit w = cancelEdit w"
| "detail_step can (DraftTitle v) w = patchDraft (\<lambda>d. d\<lparr>rd_title := v\<rparr>) w"
| "detail_step can (DraftDescExt v) w = patchDraft (\<lambda>d. d\<lparr>rd_descExt := v\<rparr>) w"
| "detail_step can (DraftDescInt v) w = patchDraft (\<lambda>d. d\<lparr>rd_descInt := v\<rparr>) w"
| "detail_step can (DraftRisks v) w = patchDraft (\<lambda>d. d\<lparr>rd_risks := v\<rparr>) w"
| "detail_step can (SetPair v) w = setPair v w"
| "detail_step can (NewTaskInput v) w = on_state (\<lambda>s. s\<lparr>dt_newTaskDraft := v\<rparr>) w"
| "detail_step can AddDraftTask w = addDraftTask w"
| "detail_step can (EditDraftTask i v) w = editDraftTask i v w"
| "detail_step can (RemoveDraftTask i) w = removeDraftTask i w"
| "detail_step can (MoveDraftTask i dir) w = moveDraftTask i dir w"
| "detail_step can Save w = save w"
| "detail_step can RequestDelete w = requestDelete w"
| "detail_step can CancelDelete w = cancelDelete w"
| "detail_step can ConfirmDelete w = confirmDelete (shown_id w) w"
| "detail_step can Back w = back_to_timeline w"
| "detail_step can (Navigate i) w = navigate i w"
| "detail_step can Tick w = restart w"
| "detail_step can (Fetched a) w = fetched a w"
| "detail_step can (Answered ok) w = answered ok w"
| "detail_step can (TypesFetched ts) w = on_state (\<lambda>s. s\<lparr>dt_types := ts\<rparr>) w"
| "detail_step can (LocksFetched ls) w = on_state (\<lambda>s. s\<lparr>dt_allLocks := ls\<rparr>) w"

definition editor_open :: "detail_state \<Rightarrow> bool" where
  "editor_open s \<longleftrightarrow> dt_editing s \<and> dt_draft s \<noteq> None"

text \<open>
  What a user can do on the page, from the conditions of the template, when the user may edit at that moment (\<open>can\<close>); the server answers with the document that was asked for.
\<close>

fun detail_offers :: "bool \<Rightarrow> detail_event \<Rightarrow> detail \<Rightarrow> bool" where
  "detail_offers can (Navigate i) w \<longleftrightarrow> True"
| "detail_offers can Tick w \<longleftrightarrow> True"
| "detail_offers can (Fetched a) w \<longleftrightarrow> (case a of Found r \<Rightarrow> dw_loading w = Some (rd_id r) | _ \<Rightarrow> True)"
| "detail_offers can (Answered ok) w \<longleftrightarrow> True"
| "detail_offers can (TypesFetched ts) w \<longleftrightarrow> True"
| "detail_offers can (LocksFetched ls) w \<longleftrightarrow> True"
| "detail_offers can ev w \<longleftrightarrow> (let s = dw_state w in case dt_rollout s of
     None \<Rightarrow> ev = Back \<and> deleted s
   | Some r \<Rightarrow> (case ev of
       ToggleDone t \<Rightarrow> \<not> editor_open s \<and> t \<in> set (rd_tasks r) \<and> can \<and> \<not> dt_busy s
     | Fail t \<Rightarrow> \<not> editor_open s \<and> t \<in> set (rd_tasks r) \<and> can \<and> \<not> dt_busy s
     | EditReason t \<Rightarrow> \<not> editor_open s \<and> t \<in> set (rd_tasks r) \<and> tk_status t = ''failed'' \<and> dt_failingIndex s \<noteq> Some (tk_index t) \<and>
         tk_reason t \<noteq> None \<and> tk_reason t \<noteq> Some [] \<and> can
     | ReasonInput v \<Rightarrow> \<not> editor_open s \<and> dt_failingIndex s \<in> set (map (\<lambda>t. Some (tk_index t)) (rd_tasks r))
     | CancelFail \<Rightarrow> \<not> editor_open s \<and> dt_failingIndex s \<in> set (map (\<lambda>t. Some (tk_index t)) (rd_tasks r))
     | SaveFailure t \<Rightarrow> \<not> editor_open s \<and> t \<in> set (rd_tasks r) \<and> dt_failingIndex s = Some (tk_index t) \<and>
         trim (dt_reasonDraft s) \<noteq> [] \<and> \<not> dt_busy s
     | EnterEdit \<Rightarrow> can \<and> \<not> dt_editing s
     | RequestDelete \<Rightarrow> can \<and> \<not> dt_editing s
     | CancelEdit \<Rightarrow> can \<and> dt_editing s
     | Save \<Rightarrow> can \<and> dt_editing s \<and> \<not> dt_busy s
     | CancelDelete \<Rightarrow> dt_confirmingDelete s
     | ConfirmDelete \<Rightarrow> dt_confirmingDelete s \<and> \<not> dt_busy s
     | Back \<Rightarrow> True
     | EditDraftTask i v \<Rightarrow> (case dt_draft s of Some d \<Rightarrow> dt_editing s \<and> i < length (rd_tasks d) | None \<Rightarrow> False)
     | RemoveDraftTask i \<Rightarrow> (case dt_draft s of Some d \<Rightarrow> dt_editing s \<and> i < length (rd_tasks d) | None \<Rightarrow> False)
     | MoveDraftTask i dir \<Rightarrow> (case dt_draft s of Some d \<Rightarrow> dt_editing s \<and> i < length (rd_tasks d) \<and> (dir = 1 \<or> dir = -1) | None \<Rightarrow> False)
     | _ \<Rightarrow> editor_open s))"

definition new_detail :: "services \<Rightarrow> detail" where
  "new_detail sv = \<lparr>dw_state = new_detail_state, dw_route = None, dw_loading = None, dw_waiting = [], dw_sent = [], dw_services = sv\<rparr>"

text \<open>
  The states of the page. Whether the user may edit can change between two events, since an expired session is cleared while the page stays open; \<open>ever\<close> says
  whether there may be moments at which the user may edit.
\<close>

inductive detail_reach :: "bool \<Rightarrow> detail \<Rightarrow> bool" for ever :: bool where
  start: "detail_reach ever (new_detail sv)"
| step: "detail_reach ever w \<Longrightarrow> can \<longrightarrow> ever \<Longrightarrow> detail_offers can ev w \<Longrightarrow> detail_reach ever (detail_step can ev w)"

section \<open>Invariants\<close>

lemmas detail_ops = toggleDone_def onFail_def editReason_def begin_reason_def saveFailure_def cancelFail_def enterEdit_def cancelEdit_def
  patchDraft_def setPair_def addDraftTask_def editDraftTask_def removeDraftTask_def moveDraftTask_def save_def requestDelete_def
  cancelDelete_def confirmDelete_def back_to_timeline_def navigate_def restart_def fetched_def patch_def send_mutation_def on_state_def

lemmas detail_answers = answered_def patched_def saved_def deletion_done_def

definition reported :: "detail_body http_request \<Rightarrow> bool" where
  "reported r \<longleftrightarrow> (case rq_body r of Some (TaskBody st reason) \<Rightarrow> st = ''failed'' \<longrightarrow> reason \<noteq> [] \<and> trim reason = reason | _ \<Rightarrow> True)"

lemma reported_simps [simp]:
  "reported (api_updateTask i n (TaskBody st reason)) \<longleftrightarrow> (st = ''failed'' \<longrightarrow> reason \<noteq> [] \<and> trim reason = reason)"
  "reported (api_updateRollout i (RolloutBody b))" "reported (api_deleteRollout i)"
  by (simp_all add: reported_def api_updateTask_def api_updateRollout_def api_deleteRollout_def http_send_def http_plain_def)

definition detail_inv :: "bool \<Rightarrow> detail \<Rightarrow> bool" where
  "detail_inv ever w \<longleftrightarrow> (let s = dw_state w in
     length (dw_waiting w) \<le> 1 \<and> dt_busy s = (dw_waiting w \<noteq> []) \<and> dt_editing s = (dt_draft s \<noteq> None) \<and>
     (\<forall>r \<in> set (dw_sent w). reported r) \<and>
     (ever \<or> dw_sent w = [] \<and> dt_failingIndex s = None \<and> \<not> dt_editing s \<and> \<not> dt_confirmingDelete s))"

lemma detail_inv_start: "detail_inv can (new_detail sv)"
  by (simp add: detail_inv_def new_detail_def new_detail_state_def)

lemma detail_inv_step: "detail_inv ever w \<Longrightarrow> can \<longrightarrow> ever \<Longrightarrow> detail_offers can ev w \<Longrightarrow> detail_inv ever (detail_step can ev w)"
proof (cases ev)
  case (Answered ok)
  assume "detail_inv ever w"
  then show ?thesis
    by (cases "dw_waiting w"; cases "hd (dw_waiting w)"; cases ok) (auto simp: Answered detail_inv_def detail_answers Let_def)
qed (auto simp: detail_inv_def detail_ops editor_open_def Let_def split: option.splits fetch.splits)

lemma detail_reach_inv: "detail_reach can w \<Longrightarrow> detail_inv can w"
  by (induction rule: detail_reach.induct) (simp_all add: detail_inv_start detail_inv_step)

text \<open>Which rollout is shown: the one of the route, once it was loaded since the last navigation.\<close>

definition shown_inv :: "detail \<Rightarrow> bool" where
  "shown_inv w \<longleftrightarrow> (dw_loading w = None \<or> dw_loading w = dw_route w) \<and>
     (dt_hadRollout (dw_state w) \<longrightarrow> (case dt_rollout (dw_state w) of Some r \<Rightarrow> dw_route w = Some (rd_id r) | None \<Rightarrow> True))"

lemma shown_inv_step: "shown_inv w \<Longrightarrow> detail_offers can ev w \<Longrightarrow> shown_inv (detail_step can ev w)"
proof (cases ev)
  case (Answered ok)
  assume "shown_inv w"
  then show ?thesis
    by (cases "dw_waiting w"; cases "hd (dw_waiting w)"; cases ok) (auto simp: Answered shown_inv_def detail_answers Let_def split: option.splits)
qed (auto simp: shown_inv_def detail_ops Let_def split: option.splits fetch.splits)

lemma shown_inv_start: "shown_inv (new_detail sv)"
  by (simp add: shown_inv_def new_detail_def new_detail_state_def)

lemma detail_reach_shown: "detail_reach can w \<Longrightarrow> shown_inv w"
  by (induction rule: detail_reach.induct) (simp_all add: shown_inv_start shown_inv_step)

text \<open>Two half-open intervals that are not empty share an instant exactly when each begins before the other ends.\<close>

lemma intervals_meet: "a < b \<Longrightarrow> c < d \<Longrightarrow> (\<exists>t. a \<le> t \<and> t < b \<and> c \<le> t \<and> t < d) \<longleftrightarrow> a < d \<and> c < b" for a b c d :: rat
proof
  assume "a < b" "c < d" "a < d \<and> c < b"
  then show "\<exists>t. a \<le> t \<and> t < b \<and> c \<le> t \<and> t < d" by (intro exI [of _ "max a c"]) auto
qed auto

lemma stage_window: "nsToHours ns * 3600000 = of_int ns / 1000000"
  by (simp add: nsToHours_def NS_PER_HOUR_def)

lemma count_filter_split: "length (filter P xs) + length (filter Q xs) \<le> length xs" if "\<And>x. P x \<Longrightarrow> \<not> Q x"
  using that by (induction xs) auto

lemma round_share:
  fixes d n :: nat
  assumes "d \<le> n" "0 < n"
  shows "0 \<le> js_round (of_nat d / of_nat n * 100)" "js_round (of_nat d / of_nat n * 100) \<le> 100"
    "(of_int (js_round (of_nat d / of_nat n * 100)) :: rat) \<le> of_nat d / of_nat n * 100 + 1 / 2"
    "n < 200 \<Longrightarrow> js_round (of_nat d / of_nat n * 100) = 100 \<longleftrightarrow> d = n"
proof -
  let ?x = "of_nat d / of_nat n * 100 :: rat"
  have x: "0 \<le> ?x" "?x \<le> 100" using assms by (simp_all add: field_simps)
  show "0 \<le> js_round ?x" using js_round_mono [OF x(1)] js_round_of_int [of 0] by simp
  show "js_round ?x \<le> 100" using js_round_mono [OF x(2)] js_round_of_int [of 100] by simp
  show "(of_int (js_round ?x) :: rat) \<le> ?x + 1 / 2" by (simp add: js_round_def)
  assume n: "n < 200"
  show "js_round ?x = 100 \<longleftrightarrow> d = n"
  proof (cases "d = n")
    case True
    then have "?x = of_int 100" using assms by simp
    then show ?thesis using True js_round_of_int [of 100] by simp
  next
    case False
    then have "of_nat (Suc d) \<le> (of_nat n :: rat)" using assms unfolding of_nat_le_iff by simp
    then have "(of_nat d :: rat) * 100 \<le> (of_nat n - 1) * 100" by simp
    also have "\<dots> < (100 - 1 / 2) * of_nat n" using n assms by (simp add: field_simps)
    finally have "?x < 100 - 1 / 2" using assms by (simp add: field_simps)
    then have "js_round ?x < 100" by (simp add: js_round_def floor_less_iff)
    then show ?thesis using False by simp
  qed
qed

lemma length_filter_all: "length (filter P xs) = length xs \<longleftrightarrow> (\<forall>x \<in> set xs. P x)"
  by (metis filter_id_conv length_filter_less less_irrefl)

section \<open>Properties\<close>

text \<open>Rollouts and a lock for the examples.\<close>

definition example_task :: rollout_task where
  "example_task = \<lparr>tk_index = 0, tk_description = ''deploy'', tk_status = [], tk_reason = None, tk_by = None\<rparr>"

definition example_rollout :: "string \<Rightarrow> rollout_doc" where
  "example_rollout i = \<lparr>rd_id = i, rd_product = ''operator'', rd_typeId = ''minor'', rd_title = ''24.7'', rd_descExt = [], rd_descInt = [],
     rd_risks = [], rd_stages = [\<lparr>pl_env = ''prod1'', pl_startAt = ''2026-06-02T10:00:00Z'', pl_durationNs = 7200000000000, pl_status = ''scheduled''\<rparr>],
     rd_pair = None, rd_tasks = [example_task]\<rparr>"

definition example_lock :: lock_doc where
  "example_lock = \<lparr>ld_id = ''l1'', ld_title = ''Master bug'', ld_description = [], ld_contact = [], ld_startAt = ''2026-06-02T11:00:00Z'',
     ld_endAt = ''2026-06-03T10:00:00Z'', ld_products = [''all''], ld_kind = Manual\<rparr>"

definition example_sv :: services where
  "example_sv = \<lparr>sv_bus = new_bus, sv_dialog = new_dialogs, sv_route = []\<rparr>"

text \<open>
  C8. On the page of a rollout at most one change waits for its answer, the buttons are busy exactly
  then, an open editor has a draft, and every reported failure has a reason that is trimmed and not blank, also when the user loses or gains the right to
  edit while the page is open; a user who has no such right at any moment of the run sends no change.
\<close>

theorem detail_safe:
  assumes "detail_reach ever w"
  shows "length (dw_waiting w) \<le> 1 \<and> dt_busy (dw_state w) = (dw_waiting w \<noteq> []) \<and>
    dt_editing (dw_state w) = (dt_draft (dw_state w) \<noteq> None) \<and> (\<forall>r \<in> set (dw_sent w). reported r) \<and> (ever \<or> dw_sent w = [])"
  using detail_reach_inv [OF assms] by (auto simp: detail_inv_def Let_def)

theorem detail_safe_witness:
  "dw_sent (fold (detail_step False) [Navigate (Some ''r1''), Fetched (Found (example_rollout ''r1''))] (new_detail example_sv)) = []"
proof -
  have "detail_reach False (detail_step False (Fetched (Found (example_rollout ''r1''))) (detail_step False (Navigate (Some ''r1'')) (new_detail example_sv)))"
    by (intro detail_reach.intros) (simp_all add: navigate_def restart_def example_rollout_def)
  from detail_safe [OF this] show ?thesis by simp
qed

text \<open>
  Saving a reason and confirming a deletion do not look at the right to edit: a user whose session ended while the form or the dialog was open
  is still offered its button, and the request is sent.
\<close>

lemma revoked_rights_still_send:
  assumes "dt_rollout (dw_state w) = Some r" "t \<in> set (rd_tasks r)" "\<not> dt_busy (dw_state w)" "\<not> dt_editing (dw_state w)"
    and "dt_failingIndex (dw_state w) = Some (tk_index t)" "trim (dt_reasonDraft (dw_state w)) \<noteq> []" "dt_confirmingDelete (dw_state w)"
  shows "detail_offers False (SaveFailure t) w \<and> length (dw_sent (detail_step False (SaveFailure t) w)) = length (dw_sent w) + 1 \<and>
    detail_offers False ConfirmDelete w \<and> length (dw_sent (detail_step False ConfirmDelete w)) = length (dw_sent w) + 1"
  using assms by (simp add: detail_ops editor_open_def Let_def)

text \<open>
  C29. Once a rollout has been loaded since the last navigation, the page shows the rollout of its route or, when
  that one was deleted, says so; a request that fails for another reason changes nothing of what is shown.
\<close>

theorem detail_shows_route:
  assumes "detail_reach can w" "dt_hadRollout (dw_state w)"
  shows "(case dt_rollout (dw_state w) of Some r \<Rightarrow> dw_route w = Some (rd_id r) | None \<Rightarrow> deleted (dw_state w)) \<and>
    dw_state (fetched Failed w) = dw_state w"
  using detail_reach_shown [OF assms(1)] assms(2) by (auto simp: shown_inv_def deleted_def fetched_def split: option.splits)

theorem detail_shows_route_witness:
  "dw_route (fold (detail_step True) [Navigate (Some ''r1''), Fetched (Found (example_rollout ''r1''))] (new_detail example_sv)) = Some ''r1''"
proof -
  let ?w = "detail_step True (Fetched (Found (example_rollout ''r1''))) (detail_step True (Navigate (Some ''r1'')) (new_detail example_sv))"
  have "detail_reach True ?w"
    by (intro detail_reach.intros) (simp_all add: navigate_def restart_def example_rollout_def)
  moreover have "dt_hadRollout (dw_state ?w)" "dt_rollout (dw_state ?w) = Some (example_rollout ''r1'')"
    by (simp_all add: navigate_def restart_def fetched_def)
  ultimately show ?thesis using detail_shows_route [of True ?w] by (simp add: example_rollout_def)
qed

text \<open>
  C17. When every stage of the rollout has a positive duration and both times of a lock can be read and are in order, the lock is
  reported exactly when it covers the product of the rollout and some instant lies both in the window of a stage and in the lock, the end of
  either excluded.
\<close>

theorem blocking_locks_overlap:
  assumes "dt_rollout s = Some r" "l \<in> set (dt_allLocks s)"
    and "new_Date h (ld_startAt l) = Some ls" "new_Date h (ld_endAt l) = Some le" "ls < le"
    and "\<forall>st \<in> set (rd_stages r). 0 < pl_durationNs st"
  shows "l \<in> set (detail_blockingLocks h s) \<longleftrightarrow> (''all'' \<in> set (ld_products l) \<or> rd_product r \<in> set (ld_products l)) \<and>
    (\<exists>st \<in> set (rd_stages r). \<exists>start. new_Date h (pl_startAt st) = Some start \<and>
      (\<exists>t :: rat. of_int start \<le> t \<and> t < of_int start + of_int (pl_durationNs st) / 1000000 \<and> of_int ls \<le> t \<and> t < of_int le))"
proof -
  have "stage_overlaps h l st \<longleftrightarrow> (\<exists>start. new_Date h (pl_startAt st) = Some start \<and>
      (\<exists>t :: rat. of_int start \<le> t \<and> t < of_int start + of_int (pl_durationNs st) / 1000000 \<and> of_int ls \<le> t \<and> t < of_int le))"
    if "st \<in> set (rd_stages r)" for st
  proof (cases "new_Date h (pl_startAt st)")
    case (Some start)
    have "(of_int start :: rat) < of_int start + of_int (pl_durationNs st) / 1000000" "(of_int ls :: rat) < of_int le"
      using assms(5,6) that by simp_all
    from intervals_meet [OF this] show ?thesis by (simp add: stage_overlaps_def assms(3,4) Some stage_window)
  qed (simp add: stage_overlaps_def assms(3,4))
  then show ?thesis using assms(1,2) by (auto simp: detail_blockingLocks_def list_ex_iff)
qed

theorem blocking_locks_overlap_witness:
  "example_lock \<in> set (detail_blockingLocks utc_host (new_detail_state\<lparr>dt_rollout := Some (example_rollout ''r1''), dt_allLocks := [example_lock]\<rparr>))"
proof -
  let ?s = "new_detail_state\<lparr>dt_rollout := Some (example_rollout ''r1''), dt_allLocks := [example_lock]\<rparr>"
  have d: "new_Date utc_host ''2026-06-02T11:00:00Z'' = Some 1780398000000" "new_Date utc_host ''2026-06-03T10:00:00Z'' = Some 1780480800000"
    "new_Date utc_host ''2026-06-02T10:00:00Z'' = Some 1780394400000"
    by code_simp+
  have "example_lock \<in> set (detail_blockingLocks utc_host ?s) \<longleftrightarrow>
      (\<exists>t :: rat. of_int 1780394400000 \<le> t \<and> t < of_int 1780394400000 + of_int 7200000000000 / 1000000 \<and> of_int 1780398000000 \<le> t \<and> t < of_int 1780480800000)"
    using blocking_locks_overlap [of ?s "example_rollout ''r1''" example_lock utc_host 1780398000000 1780480800000] d
    by (simp add: example_lock_def example_rollout_def)
  also have \<dots> by (intro exI [of _ 1780398000000]) simp
  finally show ?thesis .
qed

text \<open>
  The progress of the tasks: the percentage lies between 0 and 100, with the share of the failed tasks it exceeds 100 by
  rounding at most, and for fewer than 200 tasks it is 100 exactly when every task is done.
\<close>

theorem progress_bounds:
  "0 \<le> completion_ts s \<and> completion_ts s \<le> 100 \<and> of_int (completion_ts s) + failedPct s \<le> 100 + 1 / 2 \<and>
   (detail_tasks s \<noteq> [] \<and> length (detail_tasks s) < 200 \<longrightarrow>
     (completion_ts s = 100 \<longleftrightarrow> (\<forall>t \<in> set (detail_tasks s). tk_status t = ''done'')))"
proof (cases "detail_tasks s = []")
  case True
  then show ?thesis by (simp add: completion_ts_def failedPct_def Let_def)
next
  case False
  let ?n = "length (detail_tasks s)" and ?d = "length (filter (\<lambda>t. tk_status t = ''done'') (detail_tasks s))"
  have sum: "?d + failedCount_ts s \<le> ?n" unfolding failedCount_ts_def by (rule count_filter_split) simp
  then have dn: "?d \<le> ?n" "0 < ?n" using False by simp_all
  note r = round_share [OF dn]
  have c: "completion_ts s = js_round (of_nat ?d / of_nat ?n * 100)" "failedPct s = of_nat (failedCount_ts s) / of_nat ?n * 100"
    using False by (simp_all add: completion_ts_def failedPct_def Let_def)
  have "(of_nat ?d / of_nat ?n * 100 + of_nat (failedCount_ts s) / of_nat ?n * 100 :: rat) = of_nat (?d + failedCount_ts s) / of_nat ?n * 100"
    by (simp add: add_divide_distrib distrib_right)
  also have "\<dots> \<le> 100" using sum dn(2) by (simp add: divide_le_eq flip: of_nat_add)
  finally have "of_int (completion_ts s) + failedPct s \<le> 100 + 1 / 2" using r(3) unfolding c by linarith
  moreover have "?d = ?n \<longleftrightarrow> (\<forall>t \<in> set (detail_tasks s). tk_status t = ''done'')" by (rule length_filter_all)
  ultimately show ?thesis using r(1,2,4) unfolding c(1) by blast
qed

theorem progress_bounds_witness:
  "completion_ts (new_detail_state\<lparr>dt_rollout := Some (example_rollout ''r1'')\<rparr>) \<noteq> 100"
  using progress_bounds [of "new_detail_state\<lparr>dt_rollout := Some (example_rollout ''r1'')\<rparr>"]
  by (simp add: detail_tasks_def example_rollout_def example_task_def)

text \<open>
  Reporting a failed task: the button opens the form, a reason that is not blank is sent trimmed for that task, and only then;
  a success closes the form and refreshes the views, a failure shows a message and keeps the text.
\<close>

theorem detail_failure_flow:
  assumes "dt_rollout (dw_state w) = Some r" "t \<in> set (rd_tasks r)" "tk_status t \<noteq> ''failed''" "trim q \<noteq> []"
    and "dw_waiting w = []" "\<not> dt_busy (dw_state w)" "\<not> dt_editing (dw_state w)"
    and "w1 = detail_step True (ReasonInput q) (detail_step True (Fail t) w)" "w2 = detail_step True (SaveFailure t) w1"
  shows "detail_offers True (Fail t) w \<and> detail_offers True (SaveFailure t) w1 \<and>
    \<not> detail_offers True (SaveFailure t) (detail_step True (ReasonInput []) w1) \<and>
    dw_sent w2 = dw_sent w @ [api_updateTask (rd_id r) (tk_index t) (TaskBody ''failed'' (trim q))] \<and>
    dt_failingIndex (dw_state (answered True w2)) = None \<and>
    bus_n (sv_bus (dw_services (answered True w2))) = bus_n (sv_bus (dw_services w)) + 1 \<and>
    dt_actionError (dw_state (answered False w2)) \<noteq> None \<and> dt_reasonDraft (dw_state (answered False w2)) = q"
  using assms by (simp add: detail_ops detail_answers editor_open_def Let_def shown_id_def bump_def)

theorem detail_failure_flow_witness:
  "dw_sent (fold (detail_step True) [Navigate (Some ''r1''), Fetched (Found (example_rollout ''r1'')), Fail example_task, ReasonInput '' timeout '', SaveFailure example_task]
     (new_detail example_sv)) = [api_updateTask ''r1'' 0 (TaskBody ''failed'' ''timeout'')]"
proof -
  let ?w = "fold (detail_step True) [Navigate (Some ''r1''), Fetched (Found (example_rollout ''r1''))] (new_detail example_sv)"
  have w: "dt_rollout (dw_state ?w) = Some (example_rollout ''r1'')" "dw_waiting ?w = []" "\<not> dt_busy (dw_state ?w)" "\<not> dt_editing (dw_state ?w)" "dw_sent ?w = []"
    by (simp_all add: navigate_def restart_def fetched_def new_detail_def new_detail_state_def)
  have "trim '' timeout '' = ''timeout''" by code_simp
  then show ?thesis
    using detail_failure_flow [OF w(1) _ _ _ w(2,3,4) refl refl, of example_task "'' timeout ''"] w(5)
    by (simp add: example_rollout_def example_task_def)
qed

text \<open>
  When the next rollout cannot be loaded, the page keeps the previous one: the route says one id and
  the page, with its buttons, shows another.
\<close>

theorem stale_rollout_after_navigation:
  assumes "rd_id a \<noteq> []" "i \<noteq> []" "w = fold (detail_step can) [Navigate (Some (rd_id a)), Fetched (Found a), Navigate (Some i), Fetched Failed] (new_detail sv)"
  shows "detail_reach can w \<and> dw_route w = Some i \<and> dw_loading w = None \<and> dt_rollout (dw_state w) = Some a"
proof -
  have "detail_reach can w" unfolding assms(3) fold_simps comp_def id_def
    by (intro detail_reach.intros) (simp_all add: assms(1) navigate_def restart_def)
  then show ?thesis using assms by (simp add: navigate_def restart_def fetched_def)
qed

theorem stale_rollout_after_navigation_witness:
  "dt_rollout (dw_state (fold (detail_step True) [Navigate (Some ''r1''), Fetched (Found (example_rollout ''r1'')), Navigate (Some ''r2''), Fetched Failed]
     (new_detail example_sv))) = Some (example_rollout ''r1'')"
  using stale_rollout_after_navigation [of "example_rollout ''r1''" "''r2''" _ True example_sv] by (simp add: example_rollout_def)

text \<open>
  C40. Navigation resets the error and the loaded flag but not the form of a failed task: a reason typed for one rollout is
  offered, and sent, for the task with the same index of the next.
\<close>

theorem reason_leaks_to_next_rollout:
  assumes "rd_id a \<noteq> []" "rd_id b \<noteq> []" "t \<in> set (rd_tasks a)" "u \<in> set (rd_tasks b)" "tk_index u = tk_index t" "tk_status t \<noteq> ''failed''" "trim q \<noteq> []"
    and "w = fold (detail_step True) [Navigate (Some (rd_id a)), Fetched (Found a), Fail t, ReasonInput q, Navigate (Some (rd_id b)), Fetched (Found b)] (new_detail sv)"
  shows "detail_reach True w \<and> detail_offers True (SaveFailure u) w \<and>
    dw_sent (detail_step True (SaveFailure u) w) = [api_updateTask (rd_id b) (tk_index t) (TaskBody ''failed'' (trim q))]"
proof -
  note defs = detail_ops new_detail_def new_detail_state_def editor_open_def shown_id_def
  have "detail_reach True w" unfolding assms(8) fold_simps comp_def id_def
    by (intro detail_reach.intros) (use assms in \<open>auto simp: defs\<close>)
  then show ?thesis using assms by (simp add: defs)
qed

theorem reason_leaks_to_next_rollout_witness:
  "dw_sent (detail_step True (SaveFailure example_task) (fold (detail_step True) [Navigate (Some ''r1''), Fetched (Found (example_rollout ''r1'')),
     Fail example_task, ReasonInput ''timeout'', Navigate (Some ''r2''), Fetched (Found (example_rollout ''r2''))] (new_detail example_sv))) =
   [api_updateTask ''r2'' 0 (TaskBody ''failed'' ''timeout'')]"
proof -
  have "trim ''timeout'' = ''timeout''" by code_simp
  then show ?thesis
    using reason_leaks_to_next_rollout [of "example_rollout ''r1''" "example_rollout ''r2''" example_task example_task "''timeout''" _ example_sv]
    by (simp add: example_rollout_def example_task_def)
qed

text \<open>Moving a task of the draft keeps the tasks, and moving it back restores their order.\<close>

lemma move_draft_task:
  assumes "dt_draft (dw_state w) = Some d" "i < length (rd_tasks d)"
  shows "\<exists>e. dt_draft (dw_state (moveDraftTask i dir w)) = Some e \<and> mset (rd_tasks e) = mset (rd_tasks d) \<and> rd_id e = rd_id d"
  using assms by (simp add: moveDraftTask_def patchDraft_def on_state_def mset_move)

end
