(* ===== verification/RR_RolloutList.thy ===== *)
theory RR_RolloutList
  imports RR_Api
begin

text \<open>
  The list of rollouts in the frontend, \<open>src/frontend/src/app/features/list/list-view/list-view.component.ts\<close>: one row per stage, the
  filters, the groups by day, the counts of the status buttons and the relative day of a group. Rows are for documents whose
  dates can be read; a document with another date has no rows here (\<open>rl_rows\<close> is \<open>None\<close>). The current time is an argument.
\<close>

section \<open>State and rows\<close>

datatype list_window = Upcoming | AllTimes | Past

record list_page =
  lp_window :: list_window
  lp_status :: string
  lp_product :: string
  lp_loaded :: bool
  lp_rollouts :: "rollout_doc list"
  lp_products :: "product list"

definition new_list_page :: list_page where
  "new_list_page = \<lparr>lp_window = AllTimes, lp_status = ''all'', lp_product = ''all'', lp_loaded = False, lp_rollouts = [], lp_products = []\<rparr>"

definition list_data :: "rollout_doc list option \<Rightarrow> product list option \<Rightarrow> list_page \<Rightarrow> list_page" where
  "list_data rs ps s = s\<lparr>lp_rollouts := (case rs of Some x \<Rightarrow> x | None \<Rightarrow> []), lp_products := (case ps of Some x \<Rightarrow> x | None \<Rightarrow> []), lp_loaded := True\<rparr>"

record rl_row =
  lr_key :: string
  lr_rollout :: rollout_doc
  lr_stage :: rollout_stage
  lr_date :: int

definition rollout_rows :: "host \<Rightarrow> rollout_doc \<Rightarrow> rl_row list option" where
  "rollout_rows h r = those (map (\<lambda>(idx, st). map_option
     (\<lambda>d. \<lparr>lr_key = rd_id r @ ''-'' @ show_nat idx, lr_rollout = r, lr_stage = st, lr_date = d\<rparr>) (new_Date h (pl_startAt st)))
     (enumerate 0 (rd_stages r)))"

definition rl_rows :: "host \<Rightarrow> list_page \<Rightarrow> rl_row list option" where
  "rl_rows h s = map_option (\<lambda>xs. sort_key lr_date (concat xs)) (those (map (rollout_rows h) (lp_rollouts s)))"

definition row_passes :: "int \<Rightarrow> list_page \<Rightarrow> rl_row \<Rightarrow> bool" where
  "row_passes now s r \<longleftrightarrow>
     (if lp_status s \<noteq> ''all'' \<and> pl_status (lr_stage r) \<noteq> lp_status s then False
      else if lp_product s \<noteq> ''all'' \<and> rd_product (lr_rollout r) \<noteq> lp_product s then False
      else let future = lr_date r \<ge> now in
        if lp_window s = Upcoming \<and> \<not> future then False
        else if lp_window s = Past \<and> future then False
        else True)"

definition filteredRows :: "int \<Rightarrow> list_page \<Rightarrow> rl_row list \<Rightarrow> rl_row list" where
  "filteredRows now s rows = filter (row_passes now s) rows"

section \<open>Groups and counts\<close>

record row_group =
  gr_key :: string
  gr_date :: int
  gr_rows :: "rl_row list"

definition rl_group_step :: "row_group list \<times> string option \<Rightarrow> rl_row \<Rightarrow> row_group list \<times> string option" where
  "rl_group_step acc r = (case acc of (g, previous) \<Rightarrow>
     let k = dateKey_ts (lr_date r);
         (g1, previous1) = (if Some k \<noteq> previous then (g @ [\<lparr>gr_key = k, gr_date = lr_date r, gr_rows = []\<rparr>], Some k) else (g, previous))
     in (butlast g1 @ [(last g1)\<lparr>gr_rows := gr_rows (last g1) @ [r]\<rparr>], previous1))"

definition row_groups :: "rl_row list \<Rightarrow> row_group list" where
  "row_groups rows = fst (foldl rl_group_step ([], None) rows)"

definition count_step :: "(string \<times> nat) list \<Rightarrow> rl_row \<Rightarrow> (string \<times> nat) list" where
  "count_step m r =
     (let m1 = obj_set ''all'' ((case map_of m ''all'' of Some n \<Rightarrow> n | None \<Rightarrow> 0) + 1) m; k = pl_status (lr_stage r) in
      obj_set k ((case map_of m1 k of Some n \<Rightarrow> n | None \<Rightarrow> 0) + 1) m1)"

definition statusCounts :: "rl_row list \<Rightarrow> (string \<times> nat) list" where
  "statusCounts rows = foldl count_step [(''all'', 0)] rows"

definition rl_count :: "rl_row list \<Rightarrow> string \<Rightarrow> nat" where
  "rl_count rows i = (case map_of (statusCounts rows) i of Some n \<Rightarrow> n | None \<Rightarrow> 0)"

section \<open>Texts\<close>

definition STATUS_TONE :: "(string \<times> string) list" where
  "STATUS_TONE = [(''scheduled'', ''info''), (''active'', ''ok''), (''blocked'', ''danger''), (''done'', ''neutral''), (''failed'', ''danger'')]"

definition statusTone :: "string \<Rightarrow> string" where
  "statusTone s = (case map_of STATUS_TONE s of Some t \<Rightarrow> t | None \<Rightarrow> ''neutral'')"

definition list_hours :: "int \<Rightarrow> int" where
  "list_hours ns = js_round (nsToHours ns)"

definition isToday :: "int \<Rightarrow> int \<Rightarrow> bool" where
  "isToday now d \<longleftrightarrow> dateKey_ts d = dateKey_ts now"

definition isPast :: "int \<Rightarrow> int \<Rightarrow> bool" where
  "isPast now d \<longleftrightarrow> d < now \<and> \<not> isToday now d"

definition relDay :: "int \<Rightarrow> int \<Rightarrow> string" where
  "relDay now d =
     (let diff = js_round (of_int (d - now) / 86400000) in
      if isToday now d then ''Today''
      else if diff = 1 then ''Tomorrow''
      else if diff > 0 \<and> diff < 7 then ''in '' @ show_int diff @ '' days''
      else if diff < 0 \<and> diff > -7 then show_int \<bar>diff\<bar> @ '' days ago''
      else if diff \<ge> 7 then ''in '' @ show_int \<lceil>of_int diff / 7 :: rat\<rceil> @ '' week'' @ (if diff \<ge> 14 then ''s'' else [])
      else show_int \<lceil>of_int \<bar>diff\<bar> / 7 :: rat\<rceil> @ '' week'' @ (if diff \<le> -14 then ''s'' else []) @ '' ago'')"

definition list_open :: "string \<Rightarrow> services \<Rightarrow> services" where
  "list_open i sv = sv\<lparr>sv_route := [''/rollout'', i]\<rparr>"

definition list_newRollout :: "services \<Rightarrow> services" where
  "list_newRollout sv = sv\<lparr>sv_dialog := openRollout (sv_dialog sv)\<rparr>"

section \<open>Groups by day\<close>

definition groups_ok :: "row_group list \<Rightarrow> rl_row list \<Rightarrow> bool" where
  "groups_ok g rows \<longleftrightarrow> concat (map gr_rows g) = rows \<and> successively (\<noteq>) (map gr_key g) \<and>
     (\<forall>x \<in> set g. gr_rows x \<noteq> [] \<and> gr_date x = lr_date (hd (gr_rows x)) \<and> (\<forall>r \<in> set (gr_rows x). dateKey_ts (lr_date r) = gr_key x))"

lemma rl_group_step_ok:
  assumes "groups_ok g rows" "previous = (if g = [] then None else Some (gr_key (last g)))" "rl_group_step (g, previous) r = (g', previous')"
  shows "groups_ok g' (rows @ [r])" "previous' = (if g' = [] then None else Some (gr_key (last g')))"
proof -
  show "groups_ok g' (rows @ [r])"
  proof (cases "Some (dateKey_ts (lr_date r)) = previous")
    case True
    then obtain gs x where g: "g = gs @ [x]" using assms(2) by (cases g rule: rev_cases) auto
    with True assms show ?thesis by (auto simp: groups_ok_def rl_group_step_def)
  next
    case False
    then have "g' = g @ [\<lparr>gr_key = dateKey_ts (lr_date r), gr_date = lr_date r, gr_rows = [r]\<rparr>]" using assms(3) by (simp add: rl_group_step_def Let_def)
    then show ?thesis using assms(1,2) False by (auto simp: groups_ok_def successively_append_iff last_map)
  qed
  show "previous' = (if g' = [] then None else Some (gr_key (last g')))"
    using assms(2,3) by (cases "Some (dateKey_ts (lr_date r)) = previous") (auto simp: rl_group_step_def Let_def split: if_splits)
qed

lemma row_groups_fold:
  "groups_ok (row_groups rows) rows \<and> snd (foldl rl_group_step ([], None) rows) = (if row_groups rows = [] then None else Some (gr_key (last (row_groups rows))))"
proof (induction rows rule: rev_induct)
  case Nil
  then show ?case by (simp add: row_groups_def groups_ok_def)
next
  case (snoc r rows)
  obtain g p where f: "foldl rl_group_step ([], None) rows = (g, p)" by fastforce
  obtain g' p' where s: "rl_group_step (g, p) r = (g', p')" by fastforce
  have "groups_ok g rows" "p = (if g = [] then None else Some (gr_key (last g)))" using snoc unfolding row_groups_def f fst_conv snd_conv by blast+
  note ok = rl_group_step_ok [OF this s]
  show ?case unfolding row_groups_def foldl_append f foldl.simps s fst_conv snd_conv using ok by blast
qed

lemma dateKey_plain: "plain_year d \<Longrightarrow> dateKey_ts d = iso_day (d div ms_per_day)"
  using month_date_bounds [of "d div ms_per_day"] iso_year_length two_digits_length
  by (simp add: plain_year_def dateKey_ts_def toISOString_def iso_day_def Let_def)

lemma sorted_heads: "sorted (map f (concat xss)) \<Longrightarrow> \<forall>xs \<in> set xss. xs \<noteq> [] \<Longrightarrow> sorted (map (\<lambda>xs. f (hd xs)) xss)" for f :: "'a \<Rightarrow> int"
proof (induction xss)
  case (Cons xs xss)
  then have le: "\<forall>x \<in> set xs. \<forall>y \<in> set (concat xss). f x \<le> f y" and s: "sorted (map (\<lambda>xs. f (hd xs)) xss)"
    by (simp_all add: sorted_append)
  have "f (hd xs) \<le> f (hd ys)" if "ys \<in> set xss" for ys
  proof -
    have "hd xs \<in> set xs" "hd ys \<in> set ys" using Cons.prems(2) that by simp_all
    moreover from this have "hd ys \<in> set (concat xss)" using that unfolding set_concat by blast
    ultimately have "hd xs \<in> set xs" "hd ys \<in> set (concat xss)" by blast+
    then show ?thesis using le by blast
  qed
  with s show ?case by simp
qed simp

lemma sorted_neighbours_distinct: "sorted xs \<Longrightarrow> successively (\<noteq>) xs \<Longrightarrow> distinct xs" for xs :: "int list"
  by (induction xs rule: induct_list012) auto

lemma row_groups_distinct:
  assumes "sorted (map lr_date rows)" "\<forall>r \<in> set rows. plain_year (lr_date r)"
  shows "distinct (map gr_key (row_groups rows))"
proof -
  let ?g = "row_groups rows" and ?day = "\<lambda>x. gr_date x div ms_per_day"
  have ok: "groups_ok ?g rows" using row_groups_fold by blast
  have in_rows: "hd (gr_rows x) \<in> set rows" if "x \<in> set ?g" for x
  proof -
    have h: "hd (gr_rows x) \<in> set (gr_rows x)" and c: "concat (map gr_rows ?g) = rows" using ok that by (simp_all add: groups_ok_def)
    from h have "hd (gr_rows x) \<in> set (concat (map gr_rows ?g))" using that unfolding set_concat set_map by blast
    then show ?thesis by (simp only: c)
  qed
  have pl: "plain_year (gr_date x)" if "x \<in> set ?g" for x using ok in_rows [OF that] assms(2) that by (auto simp: groups_ok_def)
  have key: "gr_key x = iso_day (?day x)" if "x \<in> set ?g" for x
  proof -
    have "gr_rows x \<noteq> []" "gr_date x = lr_date (hd (gr_rows x))" "\<forall>r \<in> set (gr_rows x). dateKey_ts (lr_date r) = gr_key x"
      using ok that by (simp_all add: groups_ok_def)
    then have "gr_key x = dateKey_ts (gr_date x)" by simp
    then show ?thesis using dateKey_plain [OF pl [OF that]] by simp
  qed
  have "sorted (map (\<lambda>xs. lr_date (hd xs)) (map gr_rows ?g))"
    using assms(1) ok by (intro sorted_heads) (auto simp: groups_ok_def)
  moreover have "map (\<lambda>xs. lr_date (hd xs)) (map gr_rows ?g) = map gr_date ?g" using ok by (simp add: groups_ok_def)
  ultimately have "sorted (map gr_date ?g)" by (simp only:)
  then have "sorted (map ?day ?g)" by (auto simp: sorted_iff_nth_mono zdiv_mono1)
  moreover have "successively (\<noteq>) (map ?day ?g)"
    using ok key unfolding groups_ok_def successively_map by (auto elim!: successively_mono)
  ultimately have d: "distinct (map ?day ?g)" by (rule sorted_neighbours_distinct)
  have "inj_on iso_day (set (map ?day ?g))"
    using pl by (auto simp: inj_on_def plain_year_def iso_day_inj)
  with d have "distinct (map iso_day (map ?day ?g))" by (simp only: distinct_map [of iso_day])
  moreover have "map iso_day (map ?day ?g) = map gr_key ?g" using key by simp
  ultimately show ?thesis by (simp only:)
qed

section \<open>Counts\<close>

definition counted :: "(string \<times> nat) list \<Rightarrow> string \<Rightarrow> nat" where
  "counted m i = (case map_of m i of Some n \<Rightarrow> n | None \<Rightarrow> 0)"

lemma counted_step: "counted (count_step m r) i =
    counted m i + (if i = ''all'' then 1 else 0) + (if pl_status (lr_stage r) = i then 1 else 0)"
  by (simp add: counted_def count_step_def Let_def map_of_obj_set)

lemma status_count_eq: "rl_count rows i = (if i = ''all'' then length rows else 0) + length (filter (\<lambda>r. pl_status (lr_stage r) = i) rows)"
proof -
  have "counted (foldl count_step m rows) i =
      counted m i + (if i = ''all'' then length rows else 0) + length (filter (\<lambda>r. pl_status (lr_stage r) = i) rows)" for m
    by (induction rows arbitrary: m) (simp_all add: counted_step)
  then show ?thesis by (simp add: rl_count_def statusCounts_def counted_def)
qed

section \<open>Properties\<close>

lemma rl_rows_sorted: "rl_rows h s = Some rows \<Longrightarrow> sorted (map lr_date rows)"
  by (auto simp: rl_rows_def)

text \<open>
  C18. The groups of the list keep every row that passes the filters, in order of time; no group is empty, the rows of
  a group share its day, and no two groups have the same key.
\<close>

theorem rollout_list_groups:
  assumes "rl_rows h s = Some rows" "\<forall>r \<in> set rows. plain_year (lr_date r)"
  shows "concat (map gr_rows (row_groups (filteredRows now s rows))) = filteredRows now s rows \<and>
    sorted (map lr_date (filteredRows now s rows)) \<and> distinct (map gr_key (row_groups (filteredRows now s rows))) \<and>
    (\<forall>g \<in> set (row_groups (filteredRows now s rows)). gr_rows g \<noteq> [] \<and> (\<forall>r \<in> set (gr_rows g). iso_day (lr_date r div ms_per_day) = gr_key g))"
proof -
  let ?f = "filteredRows now s rows"
  have srt: "sorted (map lr_date ?f)" using rl_rows_sorted [OF assms(1)] by (simp add: filteredRows_def sorted_filter)
  have pl: "\<forall>r \<in> set ?f. plain_year (lr_date r)" using assms(2) by (simp add: filteredRows_def)
  have ok: "groups_ok (row_groups ?f) ?f" using row_groups_fold by blast
  then have c: "concat (map gr_rows (row_groups ?f)) = ?f" by (simp only: groups_ok_def)
  have "iso_day (lr_date r div ms_per_day) = gr_key g" if g: "g \<in> set (row_groups ?f)" "r \<in> set (gr_rows g)" for g r
  proof -
    have "r \<in> set (concat (map gr_rows (row_groups ?f)))" using g unfolding set_concat set_map by blast
    then have "plain_year (lr_date r)" using pl by (simp only: c)
    then have "dateKey_ts (lr_date r) = iso_day (lr_date r div ms_per_day)" by (rule dateKey_plain)
    moreover have "dateKey_ts (lr_date r) = gr_key g" using ok g by (simp add: groups_ok_def)
    ultimately show ?thesis by simp
  qed
  moreover have "gr_rows g \<noteq> []" if "g \<in> set (row_groups ?f)" for g using ok that by (simp add: groups_ok_def)
  ultimately show ?thesis using c srt row_groups_distinct [OF srt pl] by blast
qed

definition example_list :: list_page where
  "example_list = new_list_page\<lparr>lp_rollouts := [\<lparr>rd_id = ''r1'', rd_product = ''operator'', rd_typeId = ''minor'', rd_title = ''24.7'', rd_descExt = [], rd_descInt = [],
     rd_risks = [], rd_stages = [\<lparr>pl_env = ''prod1'', pl_startAt = ''2026-06-02T10:00:00Z'', pl_durationNs = 0, pl_status = ''scheduled''\<rparr>,
       \<lparr>pl_env = ''non-prod'', pl_startAt = ''2026-06-01T23:30:00Z'', pl_durationNs = 0, pl_status = ''done''\<rparr>], rd_pair = None, rd_tasks = []\<rparr>]\<rparr>"

definition example_rows :: "rl_row list" where
  "example_rows = [\<lparr>lr_key = ''r1-1'', lr_rollout = hd (lp_rollouts example_list), lr_stage = rd_stages (hd (lp_rollouts example_list)) ! 1, lr_date = 1780356600000\<rparr>,
     \<lparr>lr_key = ''r1-0'', lr_rollout = hd (lp_rollouts example_list), lr_stage = rd_stages (hd (lp_rollouts example_list)) ! 0, lr_date = 1780394400000\<rparr>]"

lemma example_list_rows: "rl_rows utc_host example_list = Some example_rows" "list_all (\<lambda>r. plain_year (lr_date r)) example_rows"
  by code_simp+

theorem rollout_list_groups_witness: "distinct (map gr_key (row_groups (filteredRows 0 example_list example_rows)))"
  using rollout_list_groups [OF example_list_rows(1), of 0] example_list_rows(2) by (simp add: list_all_iff)

text \<open>
  The number on a status button is the number of rows that the button shows when nothing else is filtered.
\<close>

theorem status_count_exact:
  assumes "\<forall>r \<in> set rows. pl_status (lr_stage r) \<noteq> ''all''"
  shows "rl_count rows i = length (filteredRows now (new_list_page\<lparr>lp_status := i\<rparr>) rows)"
  using assms by (induction rows) (auto simp: status_count_eq filteredRows_def row_passes_def new_list_page_def)

theorem status_count_exact_witness: "rl_count example_rows ''done'' = length (filteredRows 0 (new_list_page\<lparr>lp_status := ''done''\<rparr>) example_rows)"
  by (rule status_count_exact) (simp add: example_rows_def example_list_def)

text \<open>
  A stage less than twelve hours away on another day (in UTC), such as one shortly after midnight, is announced
  as \<open>0 week ago\<close>, also when it lies ahead.
\<close>

theorem relDay_zero_weeks:
  assumes "\<not> isToday now d" "\<bar>d - now\<bar> < 43200000"
  shows "relDay now d = ''0 week ago''"
proof -
  have "(of_int \<bar>d - now\<bar> :: rat) < of_int 43200000" using assms(2) by (simp only: of_int_less_iff)
  then have "js_round (of_int (d - now) / 86400000) = 0"
    unfolding js_round_def by (intro floor_unique) (simp_all add: field_simps abs_less_iff)
  then show ?thesis using assms(1) by (simp add: relDay_def show_int_def) (simp add: show_nat.simps show_zero_digit)
qed

theorem relDay_zero_weeks_witness: "relDay 1780437600000 1780444800000 = ''0 week ago''"
proof -
  have "\<not> isToday 1780437600000 1780444800000" by code_simp
  from relDay_zero_weeks [OF this] show ?thesis by simp
qed

text \<open>
  Rows are grouped by their day in UTC while a group is headed by the local day of its first row: two hours east of
  Greenwich two stages of the same local day come in two groups.
\<close>

lemma one_local_day_in_two_groups:
  "map (local_day (utc_host\<lparr>off_utc := (\<lambda>_. 7200000), off_loc := (\<lambda>_. 7200000)\<rparr>)) (map lr_date example_rows) = [20606, 20606] \<and>
   length (row_groups example_rows) = 2"
  by code_simp

end
