(* ===== verification/RR_RolloutTimeline.thy ===== *)
theory RR_RolloutTimeline
  imports RR_Api
begin

text \<open>
  The timeline of the frontend, \<open>src/frontend/src/app/features/timeline/timeline-view/timeline-view.component.ts\<close>: the window of days, the
  column of every stage and lock, the connectors of a cascade and the sizes of its elements. A document of the API has
  absolute times, so the branches for the offsets of the mock data have no counterpart here; an unreadable date has no column
  (\<open>None\<close>, \<open>NaN\<close> in the code). The observer that fits the number of days to the width is the event \<open>fit_days\<close>.
\<close>

section \<open>State\<close>

definition DAY_W_ts :: int where "DAY_W_ts = 56"

definition ROW_H_ts :: int where "ROW_H_ts = 64"

definition LABEL_W_ts :: int where "LABEL_W_ts = 280"

record timeline_page =
  tp_offset :: int
  tp_days :: int
  tp_today :: int
  tp_rollouts :: "rollout_doc list"
  tp_locks :: "lock_doc list"
  tp_types :: "rollout_type list"

definition new_timeline_page :: "int \<Rightarrow> timeline_page" where
  "new_timeline_page now = \<lparr>tp_offset = -3, tp_days = 28, tp_today = now, tp_rollouts = [], tp_locks = [], tp_types = []\<rparr>"

definition timeline_data :: "rollout_doc list option \<Rightarrow> lock_doc list option \<Rightarrow> rollout_type list option \<Rightarrow> timeline_page \<Rightarrow> timeline_page" where
  "timeline_data rs ls ts s = s\<lparr>tp_rollouts := (case rs of Some x \<Rightarrow> x | None \<Rightarrow> []), tp_locks := (case ls of Some x \<Rightarrow> x | None \<Rightarrow> []),
     tp_types := (case ts of Some x \<Rightarrow> x | None \<Rightarrow> [])\<rparr>"

text \<open>A \<open>Map\<close> filled in order: a later type with the same id replaces the earlier one.\<close>

definition typeMap :: "timeline_page \<Rightarrow> string \<Rightarrow> rollout_type option" where
  "typeMap s i = map_of (rev (map (\<lambda>t. (rt_id t, t)) (tp_types s))) i"

definition timeline_start :: "host \<Rightarrow> timeline_page \<Rightarrow> int" where
  "timeline_start h s = addDays_ts h (tp_today s) (tp_offset s)"

definition trackWidth :: "timeline_page \<Rightarrow> int" where
  "trackWidth s = tp_days s * DAY_W_ts"

definition column_of :: "host \<Rightarrow> timeline_page \<Rightarrow> int \<Rightarrow> int" where
  "column_of h s d = (d - timeline_start h s) div 86400000"

definition todayIdx :: "host \<Rightarrow> timeline_page \<Rightarrow> int" where
  "todayIdx h s = column_of h s (tp_today s)"

section \<open>Columns\<close>

record day_column =
  dc_i :: int
  dc_date :: int
  dc_weekday :: string
  dc_day :: string
  dc_month :: "string option"
  dc_isToday :: bool
  dc_isWeekend :: bool
  dc_isFriday :: bool

definition make_column :: "host \<Rightarrow> timeline_page \<Rightarrow> int \<Rightarrow> day_column" where
  "make_column h s i =
     (let d = addDays_ts h (timeline_start h s) i; dow = getDay h d in
      \<lparr>dc_i = i, dc_date = d, dc_weekday = locale_date h [(''weekday'', ''short'')] d, dc_day = locale_date h [(''day'', ''2-digit'')] d,
       dc_month = (if i = 0 \<or> getDate h d = 1 \<or> dow = 1 then Some (locale_date h [(''month'', ''short'')] d) else None),
       dc_isToday = (dateKey_ts d = dateKey_ts (tp_today s)), dc_isWeekend = (dow = 0 \<or> dow = 6), dc_isFriday = (dow = 5)\<rparr>)"

definition dayColumns :: "host \<Rightarrow> timeline_page \<Rightarrow> day_column list" where
  "dayColumns h s = map (make_column h s) [0..tp_days s - 1]"

record placed_stage =
  pg_stage :: rollout_stage
  pg_idx :: "int option"
  pg_meta :: stage_meta

definition place_stage :: "host \<Rightarrow> timeline_page \<Rightarrow> rollout_stage \<Rightarrow> placed_stage" where
  "place_stage h s st =
     \<lparr>pg_stage = st,
      pg_idx = map_option (column_of h s) (if pl_startAt st \<noteq> [] then new_Date h (pl_startAt st) else Some (tp_today s)),
      pg_meta = getStage_ts (pl_env st)\<rparr>"

definition timelineRows :: "host \<Rightarrow> timeline_page \<Rightarrow> (rollout_doc \<times> placed_stage list) list" where
  "timelineRows h s = map (\<lambda>r. (r, map (place_stage h s) (rd_stages r))) (tp_rollouts s)"

record lock_overlay =
  ov_lock :: lock_doc
  ov_left :: int
  ov_width :: int

definition lock_time :: "host \<Rightarrow> timeline_page \<Rightarrow> string \<Rightarrow> int option" where
  "lock_time h s t = (if t \<noteq> [] then new_Date h t else Some (addDays_ts h (tp_today s) 0))"

definition overlay_of :: "host \<Rightarrow> timeline_page \<Rightarrow> lock_doc \<Rightarrow> lock_overlay option" where
  "overlay_of h s l = (case (lock_time h s (ld_startAt l), lock_time h s (ld_endAt l)) of
     (Some ls, Some le) \<Rightarrow>
       let startDelta = column_of h s ls; endDelta = column_of h s le in
       Some \<lparr>ov_lock = l, ov_left = startDelta * DAY_W_ts, ov_width = (endDelta - startDelta + 1) * DAY_W_ts\<rparr>
   | _ \<Rightarrow> None)"

definition totalHeight :: "timeline_page \<Rightarrow> int" where
  "totalHeight s = int (length (tp_rollouts s)) * ROW_H_ts"

section \<open>Operations and sizes\<close>

definition fit_days :: "int \<Rightarrow> timeline_page \<Rightarrow> timeline_page" where
  "fit_days clientWidth s =
     (let avail = clientWidth - LABEL_W_ts - 2; n = max 7 (avail div DAY_W_ts) in
      if n \<noteq> tp_days s then s\<lparr>tp_days := n\<rparr> else s)"

definition stepWeek :: "int \<Rightarrow> timeline_page \<Rightarrow> timeline_page" where
  "stepWeek delta s = s\<lparr>tp_offset := tp_offset s + delta\<rparr>"

definition resetToToday :: "timeline_page \<Rightarrow> timeline_page" where
  "resetToToday s = s\<lparr>tp_offset := -3\<rparr>"

definition timeline_openRollout :: "string \<Rightarrow> services \<Rightarrow> services" where
  "timeline_openRollout i sv = sv\<lparr>sv_route := [''/rollout'', i]\<rparr>"

definition pillLeft :: "int \<Rightarrow> int" where
  "pillLeft idx = idx * DAY_W_ts + 4"

definition pillWidth :: "rat \<Rightarrow> rat" where
  "pillWidth durationHours = max 28 ((if durationHours = 0 then 1 else durationHours) / 24 * of_int DAY_W_ts - 8)"

definition pillStyle :: "stage_meta \<Rightarrow> (string \<times> string) list" where
  "pillStyle meta = [(''background'', ''linear-gradient(180deg, '' @ st_soft meta @ '', rgba(0,0,0,0))''), (''borderColor'', st_border meta), (''color'', st_color meta)]"

record cascade_style =
  cs_left :: int
  cs_width :: int
  cs_top :: int
  cs_color :: string

definition cascadeStyle :: "int \<Rightarrow> int \<Rightarrow> string \<Rightarrow> cascade_style option" where
  "cascadeStyle fromIdx toIdx color =
     (let left = fromIdx * DAY_W_ts + DAY_W_ts div 2 + 16; right = toIdx * DAY_W_ts + DAY_W_ts div 2 - 16; w = right - left in
      if w \<le> 0 then None else Some \<lparr>cs_left = left, cs_width = w, cs_top = ROW_H_ts div 2 - 1, cs_color = color\<rparr>)"

definition stageDurationHours :: "rollout_stage \<Rightarrow> rat" where
  "stageDurationHours st = of_int (pl_durationNs st) / 3600000000000"

definition formatRange :: "host \<Rightarrow> timeline_page \<Rightarrow> string" where
  "formatRange h s =
     (let a = timeline_start h s; e = addDays_ts h a (tp_days s - 1); fmt = locale_date h [(''day'', ''2-digit''), (''month'', ''short'')] in
      fmt a @ '' '' @ u_arrow @ '' '' @ fmt e)"

definition formatMonthLabel :: "host \<Rightarrow> int \<Rightarrow> string" where
  "formatMonthLabel h d = locale_date h [(''month'', ''long''), (''year'', ''numeric'')] d"

section \<open>Days and columns\<close>

lemma addDays_day: "keeps_day h \<Longrightarrow> local_day h (addDays_ts h d n) = local_day h d + n"
  by (simp add: addDays_ts_def)

text \<open>
  Every column has the day it should have, also when the clock is changed. Where a stage is drawn is computed from the time since the first instant of the window, so
  it depends on whether the clock was changed in between: \<open>plain_start\<close> says that the current time of day exists on the first day.
\<close>

definition plain_start :: "host \<Rightarrow> timeline_page \<Rightarrow> bool" where
  "plain_start h s \<longleftrightarrow> local_time h (timeline_start h s) = local_time h (tp_today s) + tp_offset s * ms_per_day"

definition same_clock :: "host \<Rightarrow> int \<Rightarrow> int \<Rightarrow> bool" where
  "same_clock h a b \<longleftrightarrow> off_utc h a = off_utc h b"

text \<open>The time since local midnight.\<close>

definition day_time :: "host \<Rightarrow> int \<Rightarrow> int" where
  "day_time h t = local_time h t mod ms_per_day"

lemma div_of_difference: "0 < m \<Longrightarrow> (a - b) div m = a div m - b div m - (if a mod m < b mod m then 1 else 0)" for a b m :: int
proof -
  assume m: "0 < m"
  have "a - b = (a mod m - b mod m) + (a div m - b div m) * m"
    using div_mult_mod_eq [of a m] div_mult_mod_eq [of b m] by (simp add: algebra_simps)
  then have "(a - b) div m = (a mod m - b mod m) div m + (a div m - b div m)"
    using m by (metis div_mult_self1 add.commute less_irrefl mult.commute)
  moreover have "(a mod m - b mod m) div m = (if a mod m < b mod m then -1 else 0)"
  proof (cases "a mod m < b mod m")
    case True
    have "(a mod m - b mod m) div m = -1"
      by (rule int_div_pos_eq [where r = "a mod m - b mod m + m"])
        (use True pos_mod_bound [OF m, of b] pos_mod_sign [OF m, of a] in linarith)+
    then show ?thesis using True by simp
  next
    case False
    have "(a mod m - b mod m) div m = 0"
      using False pos_mod_bound [OF m, of a] pos_mod_sign [OF m, of b] by (intro div_pos_pos_trivial) linarith+
    then show ?thesis using False by simp
  qed
  ultimately show ?thesis by simp
qed

lemma column_same_clock:
  assumes "plain_start h s" "same_clock h d (timeline_start h s)"
  shows "column_of h s d = local_day h d - local_day h (tp_today s) - tp_offset s - (if day_time h d < day_time h (tp_today s) then 1 else 0)"
proof -
  have "d - timeline_start h s = local_time h d - local_time h (timeline_start h s)"
    using assms(2) by (simp add: same_clock_def local_time_def)
  also have "\<dots> = (local_time h d - local_time h (tp_today s)) + - tp_offset s * ms_per_day"
    using assms(1) by (simp add: plain_start_def)
  finally have "column_of h s d = (local_time h d - local_time h (tp_today s)) div ms_per_day - tp_offset s"
    unfolding column_of_def using day_shift [of "local_time h d - local_time h (tp_today s)" "- tp_offset s"] by (simp add: ms_per_day_def)
  then show ?thesis by (simp add: div_of_difference local_day_def day_time_def)
qed

lemma todayIdx_same_clock: "plain_start h s \<Longrightarrow> same_clock h (tp_today s) (timeline_start h s) \<Longrightarrow> todayIdx h s = - tp_offset s"
  by (simp add: todayIdx_def column_same_clock)

lemma column_date:
  assumes "keeps_day h" "0 \<le> j" "j < tp_days s"
  shows "local_day h (dc_date (dayColumns h s ! nat j)) = local_day h (tp_today s) + tp_offset s + j"
  using assms by (simp add: dayColumns_def make_column_def Let_def timeline_start_def addDays_day [OF assms(1)])

text \<open>
  When the clock was put forward between the first day of the window and now, the line of today is one column early: on the day before, and when that is the last column, beside no
  column of today at all.
\<close>

lemma today_line_one_early:
  assumes "plain_start h s" "off_utc h (timeline_start h s) < off_utc h (tp_today s)" "off_utc h (tp_today s) \<le> off_utc h (timeline_start h s) + ms_per_day"
  shows "todayIdx h s = - tp_offset s - 1"
proof -
  let ?e = "off_utc h (timeline_start h s) - off_utc h (tp_today s)"
  have "tp_today s - timeline_start h s = ?e + - tp_offset s * ms_per_day"
    using assms(1) by (simp add: plain_start_def local_time_def)
  then have "todayIdx h s = ?e div ms_per_day - tp_offset s"
    unfolding todayIdx_def column_of_def using day_shift [of ?e "- tp_offset s"] by (simp add: ms_per_day_def)
  moreover have "?e div ms_per_day = -1" using assms(2,3) by (intro int_div_pos_eq [where r = "?e + ms_per_day"]) (simp_all add: ms_per_day_def)
  ultimately show ?thesis by simp
qed

section \<open>Properties\<close>


lemma plain_utc: "plain_start utc_host s" "same_clock utc_host a b"
proof -
  show "same_clock utc_host a b" by (simp add: same_clock_def utc_host_def)
  show "plain_start utc_host s"
    unfolding plain_start_def timeline_start_def addDays_ts_def set_date_shift by (simp add: utc_of_local_def local_time_def utc_host_def)
qed


text \<open>
  The number of days fits the width: at least a week, and more than a week only when all columns fit beside the labels.
\<close>

lemma fit_days_bounds:
  "7 \<le> tp_days (fit_days w s) \<and> (tp_days (fit_days w s) = 7 \<or> LABEL_W_ts + 2 + trackWidth (fit_days w s) \<le> w)"
proof -
  have "(w - LABEL_W_ts - 2) div DAY_W_ts * DAY_W_ts \<le> w - LABEL_W_ts - 2"
    using div_mult_mod_eq [of "w - LABEL_W_ts - 2" DAY_W_ts] pos_mod_sign [of DAY_W_ts "w - LABEL_W_ts - 2"] by (simp add: DAY_W_ts_def)
  then show ?thesis by (auto simp: fit_days_def trackWidth_def Let_def max_def)
qed

text \<open>A connector is drawn exactly when the next stage is in a later column.\<close>

lemma cascadeStyle_drawn: "cascadeStyle a b col \<noteq> None \<longleftrightarrow> a < b"
  by (auto simp: cascadeStyle_def Let_def DAY_W_ts_def)

end
