(* ===== verification/RR_DataPage.thy ===== *)
theory RR_DataPage
  imports RR_Api
begin

text \<open>
  The master data page of the frontend, \<open>src/frontend/src/app/features/master-data/master-data-view/master-data-view.component.ts\<close>: a draft of a
  product and of a rollout type, the operations on them, and saving. The two effects of the constructor, which select the
  first entry, run after every event. \<open>data_offers\<close> has the conditions of the template, whose markup is in \<open>RR_DataView\<close>. The names of operations that other theories
  have carry the suffix \<open>_md\<close>.
\<close>

section \<open>State\<close>

datatype data_tab = ProductsTab | TypesTab

record data_page =
  dp_tab :: data_tab
  dp_products :: "product list"
  dp_types :: "rollout_type list"
  dp_productDraft :: "product option"
  dp_typeDraft :: "rollout_type option"
  dp_brokerDraft :: string
  dp_ruleDraft :: string
  dp_taskDraft :: string
  dp_saving :: bool
  dp_error :: "string option"

definition new_data_page :: data_page where
  "new_data_page = \<lparr>dp_tab = ProductsTab, dp_products = [], dp_types = [], dp_productDraft = None, dp_typeDraft = None, dp_brokerDraft = [],
     dp_ruleDraft = [], dp_taskDraft = [], dp_saving = False, dp_error = None\<rparr>"

definition auto_select :: "data_page \<Rightarrow> data_page" where
  "auto_select s =
     (let s1 = (if dp_products s \<noteq> [] \<and> dp_productDraft s = None then s\<lparr>dp_productDraft := Some (hd (dp_products s))\<rparr> else s) in
      if dp_types s1 \<noteq> [] \<and> dp_typeDraft s1 = None then s1\<lparr>dp_typeDraft := Some (hd (dp_types s1))\<rparr> else s1)"

definition stageKeys :: "string list" where
  "stageKeys = map fst STAGE_ts"

section \<open>Selecting\<close>

definition selectProduct :: "product \<Rightarrow> data_page \<Rightarrow> data_page" where
  "selectProduct p s = s\<lparr>dp_error := None, dp_productDraft := Some p\<rparr>"

definition newProduct :: "data_page \<Rightarrow> data_page" where
  "newProduct s = s\<lparr>dp_error := None, dp_productDraft := Some \<lparr>prod_id = [], prod_name = ''new product'', prod_owner = [], prod_brokers = []\<rparr>\<rparr>"

definition selectType :: "rollout_type \<Rightarrow> data_page \<Rightarrow> data_page" where
  "selectType t s = s\<lparr>dp_error := None, dp_typeDraft := Some t\<rparr>"

definition newType :: "data_page \<Rightarrow> data_page" where
  "newType s = s\<lparr>dp_error := None, dp_typeDraft := Some \<lparr>rt_id = [], rt_name = ''new rollout type'', rt_short = ''new'', rt_tone = ''neutral'',
     rt_cascadePlan = [\<lparr>ps_stage = ''non-prod'', ps_delayHours = 0\<rparr>], rt_announce = [], rt_rules = [], rt_tasks = []\<rparr>\<rparr>"

section \<open>Editing a product\<close>

definition patchProduct :: "(product \<Rightarrow> product) \<Rightarrow> data_page \<Rightarrow> data_page" where
  "patchProduct f s = s\<lparr>dp_productDraft := map_option f (dp_productDraft s)\<rparr>"

definition addBroker_md :: "data_page \<Rightarrow> data_page" where
  "addBroker_md s =
     (let v = trim (dp_brokerDraft s) in
      case dp_productDraft s of
        None \<Rightarrow> s
      | Some d \<Rightarrow> if v = [] then s
          else s\<lparr>dp_productDraft := Some (d\<lparr>prod_brokers := prod_brokers d @ [v]\<rparr>), dp_brokerDraft := []\<rparr>)"

definition removeBroker_md :: "string \<Rightarrow> data_page \<Rightarrow> data_page" where
  "removeBroker_md b s = patchProduct (\<lambda>d. d\<lparr>prod_brokers := filter (\<lambda>x. x \<noteq> b) (prod_brokers d)\<rparr>) s"

section \<open>Editing a type\<close>

definition patchType :: "(rollout_type \<Rightarrow> rollout_type) \<Rightarrow> data_page \<Rightarrow> data_page" where
  "patchType f s = s\<lparr>dp_typeDraft := map_option f (dp_typeDraft s)\<rparr>"

definition addRule_md :: "data_page \<Rightarrow> data_page" where
  "addRule_md s =
     (let v = trim (dp_ruleDraft s) in
      case dp_typeDraft s of
        None \<Rightarrow> s
      | Some d \<Rightarrow> if v = [] then s else s\<lparr>dp_typeDraft := Some (d\<lparr>rt_rules := rt_rules d @ [v]\<rparr>), dp_ruleDraft := []\<rparr>)"

definition removeRule_md :: "nat \<Rightarrow> data_page \<Rightarrow> data_page" where
  "removeRule_md i s = patchType (\<lambda>d. d\<lparr>rt_rules := remove_at i (rt_rules d)\<rparr>) s"

definition addTask_md :: "data_page \<Rightarrow> data_page" where
  "addTask_md s =
     (let v = trim (dp_taskDraft s) in
      case dp_typeDraft s of
        None \<Rightarrow> s
      | Some d \<Rightarrow> if v = [] then s else s\<lparr>dp_typeDraft := Some (d\<lparr>rt_tasks := rt_tasks d @ [v]\<rparr>), dp_taskDraft := []\<rparr>)"

definition editTask_md :: "nat \<Rightarrow> string \<Rightarrow> data_page \<Rightarrow> data_page" where
  "editTask_md i v s = patchType (\<lambda>d. d\<lparr>rt_tasks := (rt_tasks d)[i := v]\<rparr>) s"

definition removeTask_md :: "nat \<Rightarrow> data_page \<Rightarrow> data_page" where
  "removeTask_md i s = patchType (\<lambda>d. d\<lparr>rt_tasks := remove_at i (rt_tasks d)\<rparr>) s"

definition moveTask_md :: "nat \<Rightarrow> int \<Rightarrow> data_page \<Rightarrow> data_page" where
  "moveTask_md i dir s = patchType (\<lambda>d. d\<lparr>rt_tasks := move i dir (rt_tasks d)\<rparr>) s"

definition addStage_md :: "string \<Rightarrow> data_page \<Rightarrow> data_page" where
  "addStage_md k s = patchType (\<lambda>d.
     let delay = (if rt_cascadePlan d = [] then 0 else ps_delayHours (last (rt_cascadePlan d)) + 168) in
     d\<lparr>rt_cascadePlan := rt_cascadePlan d @ [\<lparr>ps_stage = k, ps_delayHours = delay\<rparr>]\<rparr>) s"

definition patchStage_md :: "nat \<Rightarrow> (plan_step \<Rightarrow> plan_step) \<Rightarrow> data_page \<Rightarrow> data_page" where
  "patchStage_md i f s = patchType (\<lambda>d. d\<lparr>rt_cascadePlan := map_at i f (rt_cascadePlan d)\<rparr>) s"

definition removeStage_md :: "nat \<Rightarrow> data_page \<Rightarrow> data_page" where
  "removeStage_md i s = patchType (\<lambda>d. d\<lparr>rt_cascadePlan := remove_at i (rt_cascadePlan d)\<rparr>) s"

definition usedStageKeys :: "data_page \<Rightarrow> string set" where
  "usedStageKeys s = (case dp_typeDraft s of Some d \<Rightarrow> set (map ps_stage (rt_cascadePlan d)) | None \<Rightarrow> {})"

definition unusedStageKeys :: "data_page \<Rightarrow> string list" where
  "unusedStageKeys s = filter (\<lambda>k. k \<notin> usedStageKeys s) stageKeys"

section \<open>Saving\<close>

datatype data_body = ProductBody product | TypeBody rollout_type

record data_view =
  dv_page :: data_page
  dv_waiting :: "data_body list"
  dv_sent :: "data_body http_request list"
  dv_services :: services

definition send_data :: "data_body \<Rightarrow> data_body http_request \<Rightarrow> data_view \<Rightarrow> data_view" where
  "send_data b r w = w\<lparr>dv_page := (dv_page w)\<lparr>dp_saving := True, dp_error := None\<rparr>, dv_waiting := dv_waiting w @ [b], dv_sent := dv_sent w @ [r]\<rparr>"

definition saveProduct :: "data_view \<Rightarrow> data_view" where
  "saveProduct w = (case dp_productDraft (dv_page w) of
     None \<Rightarrow> w
   | Some d \<Rightarrow> if trim (prod_name d) = [] then w else send_data (ProductBody d) (api_upsertProduct (ProductBody d)) w)"

definition saveType :: "data_view \<Rightarrow> data_view" where
  "saveType w = (case dp_typeDraft (dv_page w) of
     None \<Rightarrow> w
   | Some d \<Rightarrow> if trim (rt_name d) = [] then w else send_data (TypeBody d) (api_upsertRolloutType (TypeBody d)) w)"

definition data_failed :: "api_error \<Rightarrow> data_page \<Rightarrow> data_page" where
  "data_failed e s = s\<lparr>dp_saving := False, dp_error := Some (extractError e)\<rparr>"

text \<open>The server answers with the saved document, or with an error.\<close>

definition data_answer :: "api_error + data_body \<Rightarrow> data_view \<Rightarrow> data_view" where
  "data_answer a w = (case dv_waiting w of
     [] \<Rightarrow> w
   | _ # bs \<Rightarrow> (case a of
         Inl e \<Rightarrow> w\<lparr>dv_waiting := bs, dv_page := data_failed e (dv_page w)\<rparr>
       | Inr b \<Rightarrow> w\<lparr>dv_waiting := bs,
           dv_page := (case b of
               ProductBody p \<Rightarrow> (dv_page w)\<lparr>dp_saving := False, dp_productDraft := Some p\<rparr>
             | TypeBody t \<Rightarrow> (dv_page w)\<lparr>dp_saving := False, dp_typeDraft := Some t\<rparr>),
           dv_services := (dv_services w)\<lparr>sv_bus := bump (sv_bus (dv_services w))\<rparr>\<rparr>))"

section \<open>Events\<close>

datatype data_event =
    SetTab data_tab | SelectProduct product | NewProduct | ProductName string | ProductOwner string | BrokerInput string | AddBroker | RemoveBroker string
  | SaveProduct | SelectType rollout_type | NewType | TypeName string | TypeShort string | TypeTone string | RuleInput string | AddRule | RemoveRule nat
  | TaskInput string | AddTask | EditTask nat string | RemoveTask nat | MoveTask nat int | AddStage string | StageKey nat string | StageDelay nat int
  | RemoveStage nat | SaveType | DataLoaded "product list" "rollout_type list" | DataAnswer "api_error + data_body"

fun page_step :: "data_event \<Rightarrow> data_page \<Rightarrow> data_page" where
  "page_step (SetTab t) s = s\<lparr>dp_tab := t\<rparr>"
| "page_step (SelectProduct p) s = selectProduct p s"
| "page_step NewProduct s = newProduct s"
| "page_step (ProductName v) s = patchProduct (\<lambda>d. d\<lparr>prod_name := v\<rparr>) s"
| "page_step (ProductOwner v) s = patchProduct (\<lambda>d. d\<lparr>prod_owner := v\<rparr>) s"
| "page_step (BrokerInput v) s = s\<lparr>dp_brokerDraft := v\<rparr>"
| "page_step AddBroker s = addBroker_md s"
| "page_step (RemoveBroker b) s = removeBroker_md b s"
| "page_step (SelectType t) s = selectType t s"
| "page_step NewType s = newType s"
| "page_step (TypeName v) s = patchType (\<lambda>d. d\<lparr>rt_name := v\<rparr>) s"
| "page_step (TypeShort v) s = patchType (\<lambda>d. d\<lparr>rt_short := v\<rparr>) s"
| "page_step (TypeTone v) s = patchType (\<lambda>d. d\<lparr>rt_tone := v\<rparr>) s"
| "page_step (RuleInput v) s = s\<lparr>dp_ruleDraft := v\<rparr>"
| "page_step AddRule s = addRule_md s"
| "page_step (RemoveRule i) s = removeRule_md i s"
| "page_step (TaskInput v) s = s\<lparr>dp_taskDraft := v\<rparr>"
| "page_step AddTask s = addTask_md s"
| "page_step (EditTask i v) s = editTask_md i v s"
| "page_step (RemoveTask i) s = removeTask_md i s"
| "page_step (MoveTask i dir) s = moveTask_md i dir s"
| "page_step (AddStage k) s = addStage_md k s"
| "page_step (StageKey i k) s = patchStage_md i (\<lambda>p. p\<lparr>ps_stage := k\<rparr>) s"
| "page_step (StageDelay i n) s = patchStage_md i (\<lambda>p. p\<lparr>ps_delayHours := n\<rparr>) s"
| "page_step (RemoveStage i) s = removeStage_md i s"
| "page_step (DataLoaded ps ts) s = s\<lparr>dp_products := ps, dp_types := ts\<rparr>"
| "page_step _ s = s"

definition data_step :: "data_event \<Rightarrow> data_view \<Rightarrow> data_view" where
  "data_step ev w =
     (let w1 = (case ev of
          SaveProduct \<Rightarrow> saveProduct w
        | SaveType \<Rightarrow> saveType w
        | DataAnswer a \<Rightarrow> data_answer a w
        | _ \<Rightarrow> w\<lparr>dv_page := page_step ev (dv_page w)\<rparr>) in
      w1\<lparr>dv_page := auto_select (dv_page w1)\<rparr>)"

definition tone_keys :: "string list" where
  "tone_keys = [''neutral'', ''info'', ''warn'', ''danger'', ''ok'']"

text \<open>
  A user with the role \<open>readonly\<close> sees a notice instead of the page (\<open>can\<close> is false then). An answer is for the
  document that was sent.
\<close>

definition product_tab :: "data_page \<Rightarrow> product option" where
  "product_tab s = (if dp_tab s = ProductsTab then dp_productDraft s else None)"

definition type_tab :: "data_page \<Rightarrow> rollout_type option" where
  "type_tab s = (if dp_tab s = TypesTab then dp_typeDraft s else None)"

fun same_kind :: "data_body \<Rightarrow> data_body \<Rightarrow> bool" where
  "same_kind (ProductBody p) (ProductBody q) = True"
| "same_kind (TypeBody p) (TypeBody q) = True"
| "same_kind _ _ = False"

definition data_offers :: "bool \<Rightarrow> data_event \<Rightarrow> data_view \<Rightarrow> bool" where
  "data_offers can ev w \<longleftrightarrow> (let s = dv_page w in case ev of
     DataLoaded ps ts \<Rightarrow> True
   | DataAnswer a \<Rightarrow> (case a of Inr b \<Rightarrow> dv_waiting w \<noteq> [] \<and> same_kind b (hd (dv_waiting w)) | Inl e \<Rightarrow> True)
   | SetTab t \<Rightarrow> can
   | SelectProduct p \<Rightarrow> can \<and> dp_tab s = ProductsTab \<and> p \<in> set (dp_products s)
   | NewProduct \<Rightarrow> can \<and> dp_tab s = ProductsTab
   | RemoveBroker b \<Rightarrow> can \<and> (case product_tab s of Some d \<Rightarrow> b \<in> set (prod_brokers d) | None \<Rightarrow> False)
   | SaveProduct \<Rightarrow> can \<and> \<not> dp_saving s \<and> (case product_tab s of Some d \<Rightarrow> trim (prod_name d) \<noteq> [] | None \<Rightarrow> False)
   | SelectType t \<Rightarrow> can \<and> dp_tab s = TypesTab \<and> t \<in> set (dp_types s)
   | NewType \<Rightarrow> can \<and> dp_tab s = TypesTab
   | TypeTone v \<Rightarrow> can \<and> type_tab s \<noteq> None \<and> v \<in> set tone_keys
   | RemoveRule i \<Rightarrow> can \<and> (case type_tab s of Some d \<Rightarrow> i < length (rt_rules d) | None \<Rightarrow> False)
   | EditTask i v \<Rightarrow> can \<and> (case type_tab s of Some d \<Rightarrow> i < length (rt_tasks d) | None \<Rightarrow> False)
   | RemoveTask i \<Rightarrow> can \<and> (case type_tab s of Some d \<Rightarrow> i < length (rt_tasks d) | None \<Rightarrow> False)
   | MoveTask i dir \<Rightarrow> can \<and> (dir = 1 \<or> dir = -1) \<and> (case type_tab s of Some d \<Rightarrow> i < length (rt_tasks d) | None \<Rightarrow> False)
   | AddStage k \<Rightarrow> can \<and> type_tab s \<noteq> None \<and> k \<in> set (unusedStageKeys s)
   | StageKey i k \<Rightarrow> can \<and> k \<in> set stageKeys \<and> (case type_tab s of Some d \<Rightarrow> i < length (rt_cascadePlan d) | None \<Rightarrow> False)
   | StageDelay i n \<Rightarrow> can \<and> 0 < i \<and> (case type_tab s of Some d \<Rightarrow> i < length (rt_cascadePlan d) | None \<Rightarrow> False)
   | RemoveStage i \<Rightarrow> can \<and> (case type_tab s of Some d \<Rightarrow> i < length (rt_cascadePlan d) | None \<Rightarrow> False)
   | SaveType \<Rightarrow> can \<and> \<not> dp_saving s \<and> (case type_tab s of Some d \<Rightarrow> trim (rt_name d) \<noteq> [] | None \<Rightarrow> False)
   | TypeName v \<Rightarrow> can \<and> type_tab s \<noteq> None | TypeShort v \<Rightarrow> can \<and> type_tab s \<noteq> None
   | RuleInput v \<Rightarrow> can \<and> type_tab s \<noteq> None | AddRule \<Rightarrow> can \<and> type_tab s \<noteq> None
   | TaskInput v \<Rightarrow> can \<and> type_tab s \<noteq> None | AddTask \<Rightarrow> can \<and> type_tab s \<noteq> None
   | _ \<Rightarrow> can \<and> product_tab s \<noteq> None)"

definition new_data_view :: "services \<Rightarrow> data_view" where
  "new_data_view sv = \<lparr>dv_page = new_data_page, dv_waiting = [], dv_sent = [], dv_services = sv\<rparr>"

text \<open>The states of the page; \<open>ever\<close> says whether there may be moments at which the user may edit.\<close>

inductive data_reach :: "bool \<Rightarrow> data_view \<Rightarrow> bool" for ever :: bool where
  start: "data_reach ever (new_data_view sv)"
| step: "data_reach ever w \<Longrightarrow> can \<longrightarrow> ever \<Longrightarrow> data_offers can ev w \<Longrightarrow> data_reach ever (data_step ev w)"

section \<open>Invariant\<close>

lemmas page_ops = selectProduct_def newProduct_def selectType_def newType_def patchProduct_def addBroker_md_def removeBroker_md_def patchType_def
  addRule_md_def removeRule_md_def addTask_md_def editTask_md_def removeTask_md_def moveTask_md_def addStage_md_def patchStage_md_def removeStage_md_def

lemma page_step_saving [simp]: "dp_saving (page_step ev s) = dp_saving s"
  by (cases ev) (simp_all add: page_ops Let_def split: option.split)

lemma auto_select_saving [simp]: "dp_saving (auto_select s) = dp_saving s"
  by (simp add: auto_select_def Let_def)

lemma auto_select_keeps [simp]: "dp_productDraft s = Some p \<Longrightarrow> dp_productDraft (auto_select s) = Some p" "dp_tab (auto_select s) = dp_tab s"
  "dp_products (auto_select s) = dp_products s"
  by (simp_all add: auto_select_def Let_def)

definition body_name :: "data_body \<Rightarrow> string" where
  "body_name b = (case b of ProductBody p \<Rightarrow> prod_name p | TypeBody t \<Rightarrow> rt_name t)"

definition named_request :: "data_body http_request \<Rightarrow> bool" where
  "named_request r \<longleftrightarrow> (case rq_body r of Some b \<Rightarrow> trim (body_name b) \<noteq> [] | None \<Rightarrow> False)"

definition data_inv :: "bool \<Rightarrow> data_view \<Rightarrow> bool" where
  "data_inv can w \<longleftrightarrow> length (dv_waiting w) \<le> 1 \<and> dp_saving (dv_page w) = (dv_waiting w \<noteq> []) \<and>
     (\<forall>r \<in> set (dv_sent w). named_request r) \<and> (can \<or> dv_sent w = [])"

lemma data_inv_save:
  assumes "data_inv can w" "\<not> dp_saving (dv_page w)" can
  shows "data_inv can (saveProduct w)" "data_inv can (saveType w)"
  using assms by (auto simp: data_inv_def saveProduct_def saveType_def send_data_def named_request_def body_name_def api_upsertProduct_def
      api_upsertRolloutType_def http_send_def split: option.split)

lemma data_inv_answer: "data_inv can w \<Longrightarrow> data_inv can (data_answer a w)"
  by (auto simp: data_inv_def data_answer_def data_failed_def split: list.split sum.split data_body.split)

lemma data_inv_page: "dp_saving s = dp_saving (dv_page w) \<Longrightarrow> data_inv can (w\<lparr>dv_page := s\<rparr>) = data_inv can w"
  by (simp add: data_inv_def)

lemma data_inv_step: "data_inv ever w \<Longrightarrow> can \<longrightarrow> ever \<Longrightarrow> data_offers can ev w \<Longrightarrow> data_inv ever (data_step ev w)"
proof (cases ev)
  case SaveProduct
  assume "data_inv ever w" "can \<longrightarrow> ever" "data_offers can ev w"
  then show ?thesis using data_inv_save(1) [of ever w] by (simp add: data_step_def SaveProduct data_inv_page data_offers_def Let_def)
next
  case SaveType
  assume "data_inv ever w" "can \<longrightarrow> ever" "data_offers can ev w"
  then show ?thesis using data_inv_save(2) [of ever w] by (simp add: data_step_def SaveType data_inv_page data_offers_def Let_def)
next
  case (DataAnswer a)
  assume "data_inv ever w"
  then show ?thesis using data_inv_answer [of ever w a] by (simp add: data_step_def DataAnswer data_inv_page Let_def)
qed (simp_all add: data_step_def data_inv_page Let_def del: page_step.simps)

lemma data_inv_start: "data_inv can (new_data_view sv)"
  by (simp add: data_inv_def new_data_view_def new_data_page_def)

lemma data_reach_inv: "data_reach can w \<Longrightarrow> data_inv can w"
  by (induction rule: data_reach.induct) (simp_all add: data_inv_step data_inv_start)

section \<open>Properties\<close>

text \<open>
  On the master data page at most one document is on its way to the server, the save buttons are disabled exactly
  then, every document sent has a name that is not blank, and a user who may only read sends none.
\<close>

theorem data_page_safe:
  assumes "data_reach can w"
  shows "length (dv_waiting w) \<le> 1 \<and> dp_saving (dv_page w) = (dv_waiting w \<noteq> []) \<and> (\<forall>r \<in> set (dv_sent w). named_request r) \<and> (can \<or> dv_sent w = [])"
  using data_reach_inv [OF assms] by (simp add: data_inv_def)

definition example_product :: "string \<Rightarrow> product" where
  "example_product i = \<lparr>prod_id = i, prod_name = i, prod_owner = [], prod_brokers = []\<rparr>"

definition example_data :: data_view where
  "example_data = new_data_view \<lparr>sv_bus = new_bus, sv_dialog = new_dialogs, sv_route = []\<rparr>"

lemma example_data_saves: "data_reach True (fold data_step [DataLoaded [example_product ''a'', example_product ''b''] [], SaveProduct] example_data)"
proof -
  have "trim ''a'' \<noteq> []" by code_simp
  then show ?thesis unfolding fold_simps comp_def id_def example_data_def
    by (intro data_reach.intros)
      (simp_all add: data_offers_def data_step_def auto_select_def product_tab_def new_data_view_def new_data_page_def example_product_def Let_def)
qed

theorem data_page_safe_witness:
  "dp_saving (dv_page (fold data_step [DataLoaded [example_product ''a'', example_product ''b''] [], SaveProduct] example_data)) =
   (dv_waiting (fold data_step [DataLoaded [example_product ''a'', example_product ''b''] [], SaveProduct] example_data) \<noteq> [])"
  using data_page_safe [OF example_data_saves] by blast

text \<open>
  An answer replaces the draft that is open by then: a product selected while another one is being saved, and its edits, are
  replaced by the saved one.
\<close>

theorem save_replaces_later_selection:
  assumes "dv_waiting w = [ProductBody p]" "dp_tab (dv_page w) = ProductsTab" "q \<in> set (dp_products (dv_page w))"
    and "w1 = data_step (ProductOwner v) (data_step (SelectProduct q) w)"
  shows "data_offers True (SelectProduct q) w \<and> dp_productDraft (dv_page w1) = Some (q\<lparr>prod_owner := v\<rparr>) \<and> data_offers True (DataAnswer (Inr (ProductBody p))) w1 \<and>
    dp_productDraft (dv_page (data_step (DataAnswer (Inr (ProductBody p))) w1)) = Some p"
proof -
  let ?w0 = "data_step (SelectProduct q) w"
  have w0: "dp_productDraft (dv_page ?w0) = Some q" "dv_waiting ?w0 = dv_waiting w"
    by (simp_all add: data_step_def Let_def selectProduct_def)
  have w1: "dp_productDraft (dv_page w1) = Some (q\<lparr>prod_owner := v\<rparr>)" "dv_waiting w1 = [ProductBody p]"
    using w0 assms(1) unfolding assms(4) data_step_def [of "ProductOwner v"] Let_def by (simp_all add: patchProduct_def)
  have "dp_productDraft (dv_page (data_step (DataAnswer (Inr (ProductBody p))) w1)) = Some p"
    unfolding data_step_def Let_def using w1(2) by (simp add: data_answer_def)
  then show ?thesis using w1 assms(2,3) by (simp add: data_offers_def)
qed

theorem save_replaces_later_selection_witness:
  "dp_productDraft (dv_page (fold data_step [DataLoaded [example_product ''a'', example_product ''b''] [], SaveProduct, SelectProduct (example_product ''b''),
     ProductOwner ''luc'', DataAnswer (Inr (ProductBody (example_product ''a'')))] example_data)) = Some (example_product ''a'')"
proof -
  let ?w = "fold data_step [DataLoaded [example_product ''a'', example_product ''b''] [], SaveProduct] example_data"
  have "trim ''a'' \<noteq> []" by code_simp
  then have "dv_waiting ?w = [ProductBody (example_product ''a'')]" "dp_tab (dv_page ?w) = ProductsTab" "example_product ''b'' \<in> set (dp_products (dv_page ?w))"
    by (simp_all add: data_step_def auto_select_def saveProduct_def send_data_def example_data_def new_data_view_def new_data_page_def example_product_def Let_def)
  from save_replaces_later_selection [OF this refl, of "''luc''"] show ?thesis by simp
qed

text \<open>
  The buttons add only stages that the plan does not have, but the list of a row offers every stage: a plan can get a stage twice.
\<close>

lemma plan_stage_twice:
  assumes "dp_tab (dv_page w) = TypesTab" "dp_typeDraft (dv_page w) = Some d" "rt_cascadePlan d = [a, b]" "ps_stage a \<in> set stageKeys"
  shows "data_offers True (StageKey 1 (ps_stage a)) w \<and>
    map ps_stage (rt_cascadePlan (the (dp_typeDraft (dv_page (data_step (StageKey 1 (ps_stage a)) w))))) = [ps_stage a, ps_stage a]"
  using assms by (simp add: data_offers_def type_tab_def data_step_def auto_select_def page_ops map_at_eq Let_def)

text \<open>Adding a stage by the button keeps the stages of a plan distinct and known.\<close>

lemma add_stage_distinct:
  assumes "k \<in> set (unusedStageKeys s)" "dp_typeDraft s = Some d" "distinct (map ps_stage (rt_cascadePlan d))" "set (map ps_stage (rt_cascadePlan d)) \<subseteq> set stageKeys"
  shows "\<exists>e. dp_typeDraft (addStage_md k s) = Some e \<and> distinct (map ps_stage (rt_cascadePlan e)) \<and> set (map ps_stage (rt_cascadePlan e)) \<subseteq> set stageKeys"
  using assms by (auto simp: addStage_md_def patchType_def unusedStageKeys_def usedStageKeys_def Let_def)

end
