(* ===== verification/RR_Frame.thy ===== *)
theory RR_Frame
  imports RR_Api
begin

text \<open>
  What surrounds the views of the frontend: the shell with its navigation and buttons (\<open>shared/layout/shell/shell.component.ts\<close>),
  the routes (\<open>app.routes.ts\<close>), the focus trap of the dialogs (\<open>shared/a11y/focus-trap.directive.ts\<close>), icons and badges (\<open>shared/ui\<close>), and
  the two small pages for locks (\<open>features/locks\<close>) and contacts (\<open>features/contacts\<close>).
\<close>

section \<open>Icons and badges\<close>

definition ICONS_ts :: "(string \<times> string) list" where
  "ICONS_ts =
     [(''timeline'', ''M3 6h18M3 12h12M3 18h7''),
      (''rollout'', ''M4 12h10M4 12l4-4M4 12l4 4M14 4h6v16h-6''),
      (''lock'', ''M6 11h12v9H6zM8 11V8a4 4 0 1 1 8 0v3''),
      (''data'', ''M4 6c0-1.1 3.6-2 8-2s8 .9 8 2-3.6 2-8 2-8-.9-8-2zm0 0v12c0 1.1 3.6 2 8 2s8-.9 8-2V6M4 12c0 1.1 3.6 2 8 2s8-.9 8-2''),
      (''people'', ''M16 11a3 3 0 1 0-3-3M3 20a6 6 0 0 1 12 0M17 13a5 5 0 0 1 4 7M8 8a3 3 0 1 0 6 0 3 3 0 0 0-6 0z''),
      (''cal'', ''M3 5h18v16H3zM3 9h18M8 3v4M16 3v4''),
      (''download'', ''M12 4v12m0 0l-4-4m4 4l4-4M4 20h16''),
      (''search'', ''M11 4a7 7 0 1 0 0 14 7 7 0 0 0 0-14zm5 12 5 5''),
      (''plus'', ''M12 5v14M5 12h14''),
      (''warn'', ''M12 3l10 18H2L12 3zM12 10v5M12 18v.5''),
      (''check'', ''M4 12l5 5L20 6''),
      (''x'', ''M6 6l12 12M18 6L6 18''),
      (''chev'', ''M9 6l6 6-6 6''),
      (''bolt'', ''M13 3 4 14h7l-1 7 9-11h-7l1-7z''),
      (''filter'', ''M3 5h18M6 12h12M10 19h4''),
      (''link'', ''M10 14a5 5 0 0 0 7 0l3-3a5 5 0 0 0-7-7l-1 1M14 10a5 5 0 0 0-7 0l-3 3a5 5 0 0 0 7 7l1-1''),
      (''copy'', ''M9 9h11v11H9zM5 15V5h10''),
      (''code'', ''M9 4l-5 8 5 8M15 4l5 8-5 8M14 4L10 20''),
      (''user'', ''M12 12a4 4 0 1 0 0-8 4 4 0 0 0 0 8zM4 21a8 8 0 0 1 16 0'')]"

definition icon_path :: "string option \<Rightarrow> string option \<Rightarrow> string" where
  "icon_path name d = (case d of
     Some p \<Rightarrow> if p \<noteq> [] then p else (case name of Some k \<Rightarrow> (case map_of ICONS_ts k of Some q \<Rightarrow> q | None \<Rightarrow> []) | None \<Rightarrow> [])
   | None \<Rightarrow> (case name of Some k \<Rightarrow> (case map_of ICONS_ts k of Some q \<Rightarrow> q | None \<Rightarrow> []) | None \<Rightarrow> []))"

definition TONE_ts :: "(string \<times> tone) list" where
  "TONE_ts =
     [(''neutral'', \<lparr>tn_bg = ''rgba(113,113,122,.16)'', tn_fg = ''#e4e4e7'', tn_bd = ''rgba(113,113,122,.4)''\<rparr>),
      (''info'', \<lparr>tn_bg = ''rgba(56,139,253,.12)'', tn_fg = ''#7cc4ff'', tn_bd = ''rgba(56,139,253,.4)''\<rparr>),
      (''warn'', \<lparr>tn_bg = ''rgba(245,158,11,.12)'', tn_fg = ''#fbbf24'', tn_bd = ''rgba(245,158,11,.4)''\<rparr>),
      (''danger'', \<lparr>tn_bg = ''rgba(239,68,68,.12)'', tn_fg = ''#fca5a5'', tn_bd = ''rgba(239,68,68,.45)''\<rparr>),
      (''ok'', \<lparr>tn_bg = ''rgba(34,197,94,.12)'', tn_fg = ''#86efac'', tn_bd = ''rgba(34,197,94,.4)''\<rparr>)]"

definition palette :: "string \<Rightarrow> tone" where
  "palette tone = (case map_of TONE_ts tone of Some t \<Rightarrow> t | None \<Rightarrow> \<lparr>tn_bg = ''rgba(113,113,122,.16)'', tn_fg = ''#e4e4e7'', tn_bd = ''rgba(113,113,122,.4)''\<rparr>)"

definition badge_view :: "string \<Rightarrow> bool \<Rightarrow> bool \<Rightarrow> 'a node list \<Rightarrow> 'a node" where
  "badge_view tone dot monosp content =
     Elem ''span'' [cls ''rr-badge'', Sty ''background'' (tn_bg (palette tone)), Sty ''color'' (tn_fg (palette tone)), Sty ''borderColor'' (tn_bd (palette tone)),
         Sty ''fontFamily'' (if monosp then ''var(--mono)'' else ''inherit'')]
       (guarded dot [Elem ''span'' [cls ''rr-badge-dot'', Sty ''background'' (tn_fg (palette tone))] []] @ content)"

section \<open>The shell\<close>

record nav_link =
  nl_id :: string
  nl_label :: string
  nl_icon :: string
  nl_link :: string
  nl_badge :: "int option"

definition shell_nav :: "nav_link list" where
  "shell_nav =
     [\<lparr>nl_id = ''timeline'', nl_label = ''Timeline'', nl_icon = icon_path (Some ''timeline'') None, nl_link = ''/timeline'', nl_badge = None\<rparr>,
      \<lparr>nl_id = ''list'', nl_label = ''Rollouts'', nl_icon = icon_path (Some ''rollout'') None, nl_link = ''/list'', nl_badge = None\<rparr>,
      \<lparr>nl_id = ''locks'', nl_label = ''Locks'', nl_icon = icon_path (Some ''lock'') None, nl_link = ''/locks'', nl_badge = None\<rparr>,
      \<lparr>nl_id = ''data'', nl_label = ''Master Data'', nl_icon = icon_path (Some ''data'') None, nl_link = ''/data'', nl_badge = None\<rparr>,
      \<lparr>nl_id = ''contacts'', nl_label = ''Contacts'', nl_icon = icon_path (Some ''people'') None, nl_link = ''/contacts'', nl_badge = None\<rparr>,
      \<lparr>nl_id = ''docs'', nl_label = ''API & MCP'', nl_icon = icon_path (Some ''code'') None, nl_link = ''/docs'', nl_badge = None\<rparr>]"

definition liveLabel :: "live_status \<Rightarrow> string" where
  "liveLabel st = (case st of
     Live \<Rightarrow> ''Live''
   | Reconnecting \<Rightarrow> ''Reconnecting'' @ u_ellipsis
   | Connecting \<Rightarrow> ''Connecting'' @ u_ellipsis
   | Offline \<Rightarrow> ''Offline'')"

definition onCreateRollout :: "session \<Rightarrow> services \<Rightarrow> services" where
  "onCreateRollout u sv = (if \<not> canEdit u then sv else sv\<lparr>sv_dialog := openRollout (sv_dialog sv)\<rparr>)"

definition onCreateLock :: "session \<Rightarrow> services \<Rightarrow> services" where
  "onCreateLock u sv = (if \<not> canEdit u then sv else sv\<lparr>sv_dialog := openLock None (sv_dialog sv)\<rparr>)"

section \<open>Routes\<close>

text \<open>The children of the shell, each with the segments of its path; a segment that starts with a colon matches any.\<close>

definition child_routes :: "(string list \<times> string) list" where
  "child_routes =
     [([''timeline''], ''TimelineViewComponent''), ([''list''], ''ListViewComponent''), ([''locks''], ''LocksViewComponent''),
      ([''data''], ''MasterDataViewComponent''), ([''contacts''], ''ContactsViewComponent''), ([''docs''], ''DocsViewComponent''),
      ([''rollout'', '':id''], ''RolloutDetailComponent'')]"

fun segments_match :: "string list \<Rightarrow> string list \<Rightarrow> bool" where
  "segments_match [] [] = True"
| "segments_match (p # ps) (s # ss) = ((p = s \<or> starts_with p '':'') \<and> segments_match ps ss)"
| "segments_match _ _ = False"

definition route_component :: "string list \<Rightarrow> string option" where
  "route_component ss =
     (let path = (if ss = [] then [''timeline''] else ss) in
      map_option snd (find (\<lambda>r. segments_match (fst r) path) child_routes))"

text \<open>The segments of a navigation: the first command is split at its slashes, each further one is a segment of its own.\<close>

definition url_segments :: "string list \<Rightarrow> string list" where
  "url_segments commands = (case commands of
     [] \<Rightarrow> []
   | c # cs \<Rightarrow> filter (\<lambda>s. s \<noteq> []) (split_on (CHR ''/'') c) @ cs)"

section \<open>The focus trap\<close>

text \<open>
  \<open>f\<close> are the visible elements of the host that take the focus, in document order. A handler that calls \<open>preventDefault\<close> moves the focus
  itself (\<open>Some\<close>); otherwise the browser moves it to the neighbour in the order of the whole document.
\<close>

definition onTab :: "'e list \<Rightarrow> 'e option \<Rightarrow> 'e option" where
  "onTab f active = (if f = [] then None else if active = Some (last f) then Some (hd f) else None)"

definition onShiftTab :: "'e list \<Rightarrow> 'e option \<Rightarrow> 'e option" where
  "onShiftTab f active = (if f = [] then None else if active = Some (hd f) then Some (last f) else None)"

fun next_in :: "'e list \<Rightarrow> 'e \<Rightarrow> 'e option" where
  "next_in (x # y # zs) e = (if x = e then Some y else next_in (y # zs) e)"
| "next_in _ e = None"

definition press_tab :: "'e list \<Rightarrow> 'e list \<Rightarrow> 'e option \<Rightarrow> 'e option" where
  "press_tab document f active = (case onTab f active of
     Some e \<Rightarrow> Some e
   | None \<Rightarrow> Option.bind active (next_in document))"

definition press_shift_tab :: "'e list \<Rightarrow> 'e list \<Rightarrow> 'e option \<Rightarrow> 'e option" where
  "press_shift_tab document f active = (case onShiftTab f active of
     Some e \<Rightarrow> Some e
   | None \<Rightarrow> Option.bind active (next_in (rev document)))"

section \<open>The pages for contacts and locks\<close>

definition snowRequired :: "product \<Rightarrow> bool" where
  "snowRequired p \<longleftrightarrow> prod_id p \<noteq> ''microservices''"

record locks_page =
  kp_confirmingId :: "string option"
  kp_loaded :: bool
  kp_locks :: "lock_doc list"
  kp_waiting :: nat
  kp_deleted :: "string list"
  kp_services :: services

definition new_locks_page :: "services \<Rightarrow> locks_page" where
  "new_locks_page sv = \<lparr>kp_confirmingId = None, kp_loaded = False, kp_locks = [], kp_waiting = 0, kp_deleted = [], kp_services = sv\<rparr>"

definition locks_data :: "lock_doc list option \<Rightarrow> locks_page \<Rightarrow> locks_page" where
  "locks_data ls s = s\<lparr>kp_loaded := True, kp_locks := (case ls of Some x \<Rightarrow> x | None \<Rightarrow> [])\<rparr>"

definition newLock :: "locks_page \<Rightarrow> locks_page" where
  "newLock s = s\<lparr>kp_services := (kp_services s)\<lparr>sv_dialog := openLock None (sv_dialog (kp_services s))\<rparr>\<rparr>"

definition editLock :: "lock_doc \<Rightarrow> locks_page \<Rightarrow> locks_page" where
  "editLock l s = s\<lparr>kp_services := (kp_services s)\<lparr>sv_dialog := openLock (Some l) (sv_dialog (kp_services s))\<rparr>\<rparr>"

definition confirmRemove :: "lock_doc \<Rightarrow> locks_page \<Rightarrow> locks_page" where
  "confirmRemove l s = s\<lparr>kp_waiting := kp_waiting s + 1, kp_deleted := kp_deleted s @ [ld_id l]\<rparr>"

definition remove_answer :: "bool \<Rightarrow> locks_page \<Rightarrow> locks_page" where
  "remove_answer ok s = (case kp_waiting s of
     0 \<Rightarrow> s
   | Suc n \<Rightarrow> if ok then s\<lparr>kp_waiting := n, kp_confirmingId := None, kp_services := (kp_services s)\<lparr>sv_bus := bump (sv_bus (kp_services s))\<rparr>\<rparr>
       else s\<lparr>kp_waiting := n, kp_confirmingId := None\<rparr>)"

datatype locks_event = LocksLoaded "lock_doc list option" | NewLock | EditLock lock_doc | AskRemove lock_doc | KeepLock | ConfirmRemove lock_doc | RemoveAnswer bool

fun locks_step :: "locks_event \<Rightarrow> locks_page \<Rightarrow> locks_page" where
  "locks_step (LocksLoaded ls) s = locks_data ls s"
| "locks_step NewLock s = newLock s"
| "locks_step (EditLock l) s = editLock l s"
| "locks_step (AskRemove l) s = s\<lparr>kp_confirmingId := Some (ld_id l)\<rparr>"
| "locks_step KeepLock s = s\<lparr>kp_confirmingId := None\<rparr>"
| "locks_step (ConfirmRemove l) s = confirmRemove l s"
| "locks_step (RemoveAnswer ok) s = remove_answer ok s"

fun locks_offers :: "bool \<Rightarrow> locks_event \<Rightarrow> locks_page \<Rightarrow> bool" where
  "locks_offers can (LocksLoaded ls) s \<longleftrightarrow> True"
| "locks_offers can (RemoveAnswer ok) s \<longleftrightarrow> True"
| "locks_offers can NewLock s \<longleftrightarrow> can"
| "locks_offers can (EditLock l) s \<longleftrightarrow> can \<and> l \<in> set (kp_locks s)"
| "locks_offers can (AskRemove l) s \<longleftrightarrow> can \<and> l \<in> set (kp_locks s) \<and> kp_confirmingId s \<noteq> Some (ld_id l)"
| "locks_offers can KeepLock s \<longleftrightarrow> can \<and> kp_confirmingId s \<in> set (map (\<lambda>l. Some (ld_id l)) (kp_locks s))"
| "locks_offers can (ConfirmRemove l) s \<longleftrightarrow> can \<and> l \<in> set (kp_locks s) \<and> kp_confirmingId s = Some (ld_id l)"

section \<open>Properties\<close>

text \<open>Badges look as in the prototype.\<close>

lemma badge_as_in_prototype: "badge_view tone dot monosp content = Badge tone dot monosp content"
  by (simp add: badge_view_def Badge_def palette_def TONE_ts_def TONE_def tone_or_neutral_def Let_def split: option.split)

lemma next_in_nth: "distinct xs \<Longrightarrow> Suc i < length xs \<Longrightarrow> next_in xs (xs ! i) = Some (xs ! Suc i)"
proof (induction xs arbitrary: i rule: induct_list012)
  case (3 x y zs)
  show ?case
  proof (cases i)
    case (Suc n)
    then have n: "n < length (y # zs)" using 3(4) by simp
    then have "x \<noteq> (y # zs) ! n" using 3(3) nth_mem [OF n] by auto
    then show ?thesis using 3 Suc by simp
  qed simp
qed simp_all

lemma tab_within:
  assumes "distinct (a @ f @ b)" "i < length f"
  shows "press_tab (a @ f @ b) f (Some (f ! i)) = Some (f ! (Suc i mod length f))"
proof (cases "Suc i = length f")
  case True
  then have "f ! i = last f" using assms(2) by (metis diff_Suc_1 last_conv_nth length_0_conv not_less_zero)
  then show ?thesis using True assms(2) by (auto simp: press_tab_def onTab_def hd_conv_nth)
next
  case False
  then have s: "Suc i < length f" using assms(2) by simp
  then have "last f = f ! (length f - 1)" by (intro last_conv_nth) auto
  then have "f ! i \<noteq> last f" using assms(1) s by (simp add: nth_eq_iff_index_eq)
  moreover have "next_in (a @ f @ b) ((a @ f @ b) ! (length a + i)) = Some ((a @ f @ b) ! Suc (length a + i))"
    using assms(1) s by (intro next_in_nth) simp_all
  ultimately show ?thesis using s by (auto simp: press_tab_def onTab_def nth_append)
qed

lemma shift_tab_within:
  assumes "distinct (a @ f @ b)" "i < length f"
  shows "press_shift_tab (a @ f @ b) f (Some (f ! (Suc i mod length f))) = Some (f ! i)"
proof (cases "Suc i = length f")
  case True
  have f: "f \<noteq> []" using assms(2) by auto
  then have "last f = f ! i" "hd f = f ! 0" using True by (simp_all add: hd_conv_nth last_conv_nth flip: True)
  then show ?thesis using True f by (simp add: press_shift_tab_def onShiftTab_def)
next
  case False
  then have s: "Suc i < length f" using assms(2) by simp
  let ?d = "a @ f @ b" and ?k = "length b + (length f - Suc (Suc i))"
  have "hd f = f ! 0" using s by (intro hd_conv_nth) auto
  moreover have "f ! Suc i \<noteq> f ! 0" using assms(1) s nth_eq_iff_index_eq [of f "Suc i" 0] by fastforce
  ultimately have "f ! Suc i \<noteq> hd f" by simp
  moreover have "next_in (rev ?d) (rev ?d ! ?k) = Some (rev ?d ! Suc ?k)"
    using s distinct_rev [of ?d] assms(1) by (intro next_in_nth) (simp_all del: rev_append distinct_append)
  moreover have "rev ?d ! ?k = f ! Suc i" "rev ?d ! Suc ?k = f ! i" using s by (auto simp: rev_nth nth_append)
  ultimately show ?thesis using s by (auto simp: press_shift_tab_def onShiftTab_def)
qed

text \<open>
  Inside a dialog the tab key walks through its elements in order and from the last to the first, never out of the dialog, and
  shift-tab takes the step back.
\<close>

theorem focus_trap_cycles:
  assumes "distinct (a @ f @ b)" "i < length f"
  shows "press_tab (a @ f @ b) f (Some (f ! i)) = Some (f ! (Suc i mod length f)) \<and>
    press_shift_tab (a @ f @ b) f (press_tab (a @ f @ b) f (Some (f ! i))) = Some (f ! i)"
  using tab_within [OF assms] shift_tab_within [OF assms] by simp

theorem focus_trap_cycles_witness: "press_tab [1, 2, 3, 4 :: nat] [2, 3] (Some 3) = Some 2"
  using focus_trap_cycles [of "[1 :: nat]" "[2, 3]" "[4]" 1] by simp

text \<open>
  Every link of the navigation, and every target that the views navigate to, is a route of the application: the pages for the links, the page of a
  rollout for its id, the timeline after a deletion.
\<close>

lemma rollout_segments [simp]: "url_segments [''/rollout'', i] = [''rollout'', i]"
  by (simp add: url_segments_def)

theorem navigation_targets_exist:
  "map (\<lambda>n. route_component (url_segments [nl_link n])) shell_nav =
      map Some [''TimelineViewComponent'', ''ListViewComponent'', ''LocksViewComponent'', ''MasterDataViewComponent'', ''ContactsViewComponent'', ''DocsViewComponent''] \<and>
    route_component (url_segments [''/rollout'', i]) = Some ''RolloutDetailComponent'' \<and>
    route_component (url_segments [''/timeline'']) = Some ''TimelineViewComponent'' \<and> route_component [] = Some ''TimelineViewComponent''"
proof -
  have "map (\<lambda>n. route_component (url_segments [nl_link n])) shell_nav =
      map Some [''TimelineViewComponent'', ''ListViewComponent'', ''LocksViewComponent'', ''MasterDataViewComponent'', ''ContactsViewComponent'', ''DocsViewComponent'']"
    "route_component (url_segments [''/timeline'']) = Some ''TimelineViewComponent''" "route_component [] = Some ''TimelineViewComponent''"
    by code_simp+
  moreover have "route_component [''rollout'', i] = Some ''RolloutDetailComponent''" by (simp add: route_component_def child_routes_def)
  ultimately show ?thesis by simp
qed

text \<open>A user who may not edit opens no dialog from the shell, and the page of the locks offers nothing but its data.\<close>

lemma readonly_frame:
  "\<not> canEdit u \<Longrightarrow> onCreateRollout u sv = sv \<and> onCreateLock u sv = sv"
  "locks_offers False ev s \<Longrightarrow> kp_deleted (locks_step ev s) = kp_deleted s \<and> sv_dialog (kp_services (locks_step ev s)) = sv_dialog (kp_services s)"
  by (simp_all add: onCreateRollout_def onCreateLock_def) (cases ev; auto simp: locks_data_def remove_answer_def split: nat.splits)

end
