(* ===== verification/RR_MockTeams.thy ===== *)
theory RR_MockTeams
  imports RR_Live RR_Stage
begin

text \<open>
  The stand-in for Microsoft Teams, \<open>src/mock-teams/server.js\<close>: a server that checks the cards it is sent and keeps
  the valid ones, for the tests of the notifications. A handler runs up to its first \<open>await\<close> when the request
  arrives and goes on when the body is complete, so requests with bodies interleave: \<open>mk_waiting\<close> has those
  whose body is still to come. A handler that throws rejects its promise, which nobody handles, and the process
  ends: \<open>mk_down\<close>.

  \<open>JSON.parse\<close> and \<open>JSON.stringify\<close> are the arguments \<open>parse\<close> and \<open>stringify\<close>; responses are values before they are
  printed. The path of a request is \<open>None\<close> when \<open>new URL\<close> throws. The body of a request arrives completely.
\<close>

section \<open>Percent encoding\<close>

definition hex_digit :: "char \<Rightarrow> nat option" where
  "hex_digit c = (let n = char_code c in
     if 48 \<le> n \<and> n \<le> 57 then Some (n - 48)
     else if 65 \<le> n \<and> n \<le> 70 then Some (n - 55)
     else if 97 \<le> n \<and> n \<le> 102 then Some (n - 87) else None)"

fun hex_byte :: "string \<Rightarrow> (nat \<times> string) option" where
  "hex_byte (a # b # cs) = (case (hex_digit a, hex_digit b) of
     (Some x, Some y) \<Rightarrow> Some (16 * x + y, cs) | _ \<Rightarrow> None)"
| "hex_byte _ = None"

text \<open>The bytes that follow the first byte of a character, and which second bytes make it well formed.\<close>

definition utf8_more :: "nat \<Rightarrow> nat option" where
  "utf8_more b =
     (if 0xC2 \<le> b \<and> b \<le> 0xDF then Some 1 else if 0xE0 \<le> b \<and> b \<le> 0xEF then Some 2
      else if 0xF0 \<le> b \<and> b \<le> 0xF4 then Some 3 else None)"

definition utf8_second :: "nat \<Rightarrow> nat \<Rightarrow> bool" where
  "utf8_second b c \<longleftrightarrow>
     (b = 0xE0 \<longrightarrow> 0xA0 \<le> c) \<and> (b = 0xED \<longrightarrow> c \<le> 0x9F) \<and> (b = 0xF0 \<longrightarrow> 0x90 \<le> c) \<and> (b = 0xF4 \<longrightarrow> c \<le> 0x8F)"

fun hex_bytes :: "nat \<Rightarrow> string \<Rightarrow> (nat list \<times> string) option" where
  "hex_bytes 0 s = Some ([], s)"
| "hex_bytes (Suc n) s = (case s of
     [] \<Rightarrow> None
   | c # cs \<Rightarrow> if c \<noteq> CHR ''%'' then None else (case hex_byte cs of
       None \<Rightarrow> None
     | Some (b, r) \<Rightarrow> if b < 0x80 \<or> 0xBF < b then None else map_option (\<lambda>(bs, r2). (b # bs, r2)) (hex_bytes n r)))"

lemma hex_byte_length: "hex_byte s = Some (b, r) \<Longrightarrow> length s = Suc (Suc (length r))"
  by (cases s rule: hex_byte.cases) (auto split: option.splits)

lemma hex_bytes_length: "hex_bytes n s = Some (bs, r) \<Longrightarrow> length r \<le> length s"
  by (induction n arbitrary: s bs) (fastforce split: list.splits if_splits option.splits dest!: hex_byte_length)+

text \<open>\<open>decodeURIComponent\<close> on the bytes of a text; \<open>None\<close> is a \<open>URIError\<close>.\<close>

function decodeURIComponent :: "string \<Rightarrow> string option" where
  "decodeURIComponent [] = Some []"
| "decodeURIComponent (c # cs) =
     (if c \<noteq> CHR ''%'' then map_option (\<lambda>r. c # r) (decodeURIComponent cs)
      else case hex_byte cs of
        None \<Rightarrow> None
      | Some (b, r) \<Rightarrow>
          if b < 0x80 then map_option (\<lambda>t. char_of b # t) (decodeURIComponent r)
          else (case utf8_more b of
            None \<Rightarrow> None
          | Some n \<Rightarrow> (case hex_bytes n r of
              None \<Rightarrow> None
            | Some (bs, r2) \<Rightarrow>
                if utf8_second b (hd bs) then map_option (\<lambda>t. map char_of (b # bs) @ t) (decodeURIComponent r2) else None)))"
  by pat_completeness auto
termination
  by (relation "measure length") (auto dest!: hex_byte_length hex_bytes_length)

section \<open>Cards\<close>

text \<open>A property of a value; \<open>None\<close> is \<open>undefined\<close>. None of the names read here is inherited by an array or a text.\<close>

fun jget :: "string \<Rightarrow> json \<Rightarrow> json option" where
  "jget k (JObj m) = map_of m k"
| "jget k _ = None"

fun truthy :: "json \<Rightarrow> bool" where
  "truthy JNull = False"
| "truthy (JBool b) = b"
| "truthy (JNum n) = (n \<noteq> 0)"
| "truthy (JStr s) = (s \<noteq> [])"
| "truthy _ = True"

definition readBody :: "(string \<Rightarrow> json option) \<Rightarrow> string list \<Rightarrow> json" where
  "readBody parse chunks =
     (if chunks = [] then JNull
      else let raw = concat chunks in
        case parse raw of Some v \<Rightarrow> v | None \<Rightarrow> JObj [(''__invalid'', JStr raw)])"

datatype verdict = Accepted | Rejected string | Raised

definition check_content :: "json option \<Rightarrow> verdict" where
  "check_content content = (case content of
     None \<Rightarrow> Rejected ''attachment.content.type must be AdaptiveCard''
   | Some c \<Rightarrow>
       if \<not> truthy c \<or> jget ''type'' c \<noteq> Some (JStr ''AdaptiveCard'') then Rejected ''attachment.content.type must be AdaptiveCard''
       else (case jget ''body'' c of
         Some (JArr (x # xs)) \<Rightarrow> Accepted
       | _ \<Rightarrow> Rejected ''card body must be non-empty''))"

definition check_attachment :: "(json option \<Rightarrow> string) \<Rightarrow> json \<Rightarrow> verdict" where
  "check_attachment stringify att =
     (if att = JNull then Raised
      else if jget ''contentType'' att \<noteq> Some (JStr ''application/vnd.microsoft.card.adaptive'')
      then Rejected (''unexpected contentType '' @ stringify (jget ''contentType'' att))
      else check_content (jget ''content'' att))"

definition validateAdaptiveCard :: "(json option \<Rightarrow> string) \<Rightarrow> json \<Rightarrow> verdict" where
  "validateAdaptiveCard stringify body =
     (if \<not> truthy body \<or> jget ''__invalid'' body \<noteq> None then Rejected ''invalid JSON body''
      else if jget ''type'' body \<noteq> Some (JStr ''message'')
      then Rejected (''expected type=\"message\", got '' @ stringify (jget ''type'' body))
      else (case jget ''attachments'' body of
        Some (JArr (att # rest)) \<Rightarrow> check_attachment stringify att
      | _ \<Rightarrow> Rejected ''expected non-empty attachments array''))"

section \<open>The server\<close>

record inbox_entry =
  en_name :: string
  en_at :: string
  en_body :: json

definition entry_json :: "inbox_entry \<Rightarrow> json" where
  "entry_json e = JObj [(''name'', JStr (en_name e)), (''at'', JStr (en_at e)), (''body'', en_body e)]"

datatype response = Response int json

definition jsonError :: "int \<Rightarrow> string \<Rightarrow> response" where
  "jsonError st msg = Response st (JObj [(''error'', JStr msg)])"

definition jsonOk :: "json \<Rightarrow> response" where
  "jsonOk body = Response 200 body"

record mock =
  mk_received :: "inbox_entry list"
  mk_waiting :: "(nat \<times> string) list"
  mk_answers :: "(nat \<times> response) list"
  mk_down :: bool

definition new_mock :: mock where
  "new_mock = \<lparr>mk_received = [], mk_waiting = [], mk_answers = [], mk_down = False\<rparr>"

definition respond :: "nat \<Rightarrow> response \<Rightarrow> mock \<Rightarrow> mock" where
  "respond i r s = s\<lparr>mk_answers := mk_answers s @ [(i, r)]\<rparr>"

definition crash :: "mock \<Rightarrow> mock" where
  "crash s = s\<lparr>mk_down := True\<rparr>"

definition route_request :: "nat \<Rightarrow> string \<Rightarrow> string \<Rightarrow> mock \<Rightarrow> mock" where
  "route_request i mth path s =
     (if mth = ''GET'' \<and> path = ''/healthz'' then
        respond i (jsonOk (JObj [(''ok'', JBool True), (''count'', JNum (of_nat (length (mk_received s))))])) s
      else if mth = ''GET'' \<and> path = ''/received'' then respond i (jsonOk (JArr (map entry_json (mk_received s)))) s
      else if mth = ''GET'' \<and> starts_with path ''/received/'' then
        (case decodeURIComponent (drop (length ''/received/'') path) of
           None \<Rightarrow> crash s
         | Some name \<Rightarrow> respond i (jsonOk (JArr (map entry_json (filter (\<lambda>r. en_name r = name) (mk_received s))))) s)
      else if mth = ''POST'' \<and> path = ''/reset'' then
        respond i (jsonOk (JObj [(''reset'', JBool True)])) (s\<lparr>mk_received := []\<rparr>)
      else if mth = ''POST'' \<and> starts_with path ''/webhook/'' then
        (case decodeURIComponent (drop (length ''/webhook/'') path) of
           None \<Rightarrow> crash s
         | Some name \<Rightarrow> s\<lparr>mk_waiting := mk_waiting s @ [(i, name)]\<rparr>)
      else respond i (jsonError 404 (''no handler for '' @ mth @ '' '' @ path)) s)"

definition body_complete ::
  "(string \<Rightarrow> json option) \<Rightarrow> (json option \<Rightarrow> string) \<Rightarrow> nat \<Rightarrow> string list \<Rightarrow> int \<Rightarrow> mock \<Rightarrow> mock" where
  "body_complete parse stringify i chunks now s = (case map_of (mk_waiting s) i of
     None \<Rightarrow> s
   | Some name \<Rightarrow>
       let body = readBody parse chunks; s1 = s\<lparr>mk_waiting := filter (\<lambda>w. fst w \<noteq> i) (mk_waiting s)\<rparr> in
       (case validateAdaptiveCard stringify body of
          Raised \<Rightarrow> crash s1
        | Rejected err \<Rightarrow> respond i (jsonError 400 err) s1
        | Accepted \<Rightarrow> respond i (Response 200 (JObj [(''ok'', JBool True)]))
            (s1\<lparr>mk_received := \<lparr>en_name = name, en_at = toISOString now, en_body = body\<rparr> # mk_received s1\<rparr>)))"

text \<open>A request (its path is \<open>None\<close> when the address is no URL), or the end of a body with the current time.\<close>

datatype mock_event = Request nat string "string option" | BodyEnd nat "string list" int

fun mock_step :: "(string \<Rightarrow> json option) \<Rightarrow> (json option \<Rightarrow> string) \<Rightarrow> mock_event \<Rightarrow> mock \<Rightarrow> mock" where
  "mock_step parse stringify (Request i mth path) s =
     (if mk_down s then s else case path of None \<Rightarrow> crash s | Some p \<Rightarrow> route_request i mth p s)"
| "mock_step parse stringify (BodyEnd i chunks now) s = (if mk_down s then s else body_complete parse stringify i chunks now s)"

inductive mock_reach :: "(string \<Rightarrow> json option) \<Rightarrow> (json option \<Rightarrow> string) \<Rightarrow> mock \<Rightarrow> bool" for parse stringify where
  start: "mock_reach parse stringify new_mock"
| step: "mock_reach parse stringify s \<Longrightarrow> mock_reach parse stringify (mock_step parse stringify ev s)"

section \<open>Lemmas\<close>

lemma decode_plain: "CHR ''%'' \<notin> set s \<Longrightarrow> decodeURIComponent s = Some s"
  by (induction s) auto

lemma jget_truthy: "jget k v = Some w \<Longrightarrow> truthy v"
  by (cases v) auto

text \<open>What a valid card is, without the order of the checks.\<close>

definition valid_card :: "json \<Rightarrow> bool" where
  "valid_card body \<longleftrightarrow> jget ''__invalid'' body = None \<and> jget ''type'' body = Some (JStr ''message'') \<and>
     (\<exists>att rest c x xs. jget ''attachments'' body = Some (JArr (att # rest)) \<and>
        jget ''contentType'' att = Some (JStr ''application/vnd.microsoft.card.adaptive'') \<and>
        jget ''content'' att = Some c \<and> jget ''type'' c = Some (JStr ''AdaptiveCard'') \<and> jget ''body'' c = Some (JArr (x # xs)))"

lemma check_content_iff:
  "check_content content = Accepted \<longleftrightarrow>
     (\<exists>c x xs. content = Some c \<and> jget ''type'' c = Some (JStr ''AdaptiveCard'') \<and> jget ''body'' c = Some (JArr (x # xs)))"
  "check_content content \<noteq> Raised"
  by (auto simp: check_content_def jget_truthy split: option.splits json.splits list.splits)

lemma check_attachment_iff:
  "check_attachment stringify att = Accepted \<longleftrightarrow>
     jget ''contentType'' att = Some (JStr ''application/vnd.microsoft.card.adaptive'') \<and> check_content (jget ''content'' att) = Accepted"
  "check_attachment stringify att = Raised \<longleftrightarrow> att = JNull"
  by (auto simp: check_attachment_def check_content_iff(2))

lemma validate_cases:
  assumes "jget ''__invalid'' body = None" "jget ''type'' body = Some (JStr ''message'')"
  shows "validateAdaptiveCard stringify body = (case jget ''attachments'' body of
    Some (JArr (att # rest)) \<Rightarrow> check_attachment stringify att | _ \<Rightarrow> Rejected ''expected non-empty attachments array'')"
  using assms jget_truthy [OF assms(2)] by (simp add: validateAdaptiveCard_def)

lemma validate_other:
  "\<not> (jget ''__invalid'' body = None \<and> jget ''type'' body = Some (JStr ''message'')) \<Longrightarrow> \<exists>e. validateAdaptiveCard stringify body = Rejected e"
  by (auto simp: validateAdaptiveCard_def)

lemma validate_accepts: "validateAdaptiveCard stringify body = Accepted \<longleftrightarrow> valid_card body"
proof (cases "jget ''__invalid'' body = None \<and> jget ''type'' body = Some (JStr ''message'')")
  case True
  then show ?thesis
    by (simp add: validate_cases valid_card_def split: option.split json.split list.split)
      (metis check_attachment_iff(1) check_content_iff(1))
next
  case False
  then show ?thesis using validate_other [OF False, of stringify] by (auto simp: valid_card_def)
qed

lemma validate_raises:
  "validateAdaptiveCard stringify body = Raised \<longleftrightarrow> jget ''__invalid'' body = None \<and> jget ''type'' body = Some (JStr ''message'') \<and>
     (\<exists>rest. jget ''attachments'' body = Some (JArr (JNull # rest)))"
proof (cases "jget ''__invalid'' body = None \<and> jget ''type'' body = Some (JStr ''message'')")
  case True
  then show ?thesis by (simp add: validate_cases check_attachment_iff(2) split: option.split json.split list.split)
next
  case False
  then show ?thesis using validate_other [OF False, of stringify] by auto
qed

lemma mock_step_received:
  "\<exists>new. mk_received (mock_step parse stringify ev s) = new @ mk_received s \<and> length new \<le> 1 \<and> (\<forall>e \<in> set new. valid_card (en_body e)) \<or>
     mk_received (mock_step parse stringify ev s) = [] \<and> (\<exists>i. ev = Request i ''POST'' (Some ''/reset''))"
proof (cases ev)
  case (Request i mth path)
  then show ?thesis
    by (cases path) (auto simp: route_request_def respond_def crash_def split: option.splits)
next
  case (BodyEnd i chunks now)
  have "mk_received (body_complete parse stringify i chunks now s) = mk_received s \<or>
    (\<exists>e. mk_received (body_complete parse stringify i chunks now s) = e # mk_received s \<and> valid_card (en_body e))"
    by (auto simp: body_complete_def Let_def respond_def crash_def validate_accepts split: option.splits verdict.splits)
  then show ?thesis using BodyEnd by (auto intro: exI [of _ "[_]"])
qed

lemma mock_inbox_valid: "mock_reach parse stringify s \<Longrightarrow> \<forall>e \<in> set (mk_received s). valid_card (en_body e)"
proof (induction rule: mock_reach.induct)
  case (step s ev)
  then show ?case using mock_step_received [of parse stringify ev s] by fastforce
qed (simp add: new_mock_def)

section \<open>Properties\<close>

text \<open>
  C21. A message of the backend reaches the test that waits for it: when the body of a request to the webhook of a channel is complete, a
  valid card is answered with 200 and comes first among what the channel has received, everything that was there stays, and a body that
  is no valid card is answered with 400 and changes nothing. The server goes down only on a list of
  attachments that starts with null.
\<close>

theorem webhook_delivery:
  assumes "\<not> mk_down s" "map_of (mk_waiting s) i = Some name" "body = readBody parse chunks"
    and "s1 = mock_step parse stringify (BodyEnd i chunks now) s"
  shows "if valid_card body then \<not> mk_down s1 \<and> (\<exists>b. last (mk_answers s1) = (i, Response 200 b)) \<and>
      mk_received s1 = \<lparr>en_name = name, en_at = toISOString now, en_body = body\<rparr> # mk_received s
    else mk_received s1 = mk_received s \<and> (if jget ''__invalid'' body = None \<and> jget ''type'' body = Some (JStr ''message'') \<and>
        (\<exists>rest. jget ''attachments'' body = Some (JArr (JNull # rest)))
      then mk_down s1 else \<not> mk_down s1 \<and> (\<exists>b. last (mk_answers s1) = (i, Response 400 b)))"
proof -
  have s1: "s1 = body_complete parse stringify i chunks now s" using assms(1,4) by simp
  show ?thesis
    unfolding validate_accepts [of stringify, symmetric] validate_raises [of stringify, symmetric]
    using assms(1) by (cases "validateAdaptiveCard stringify body")
      (simp_all add: s1 body_complete_def Let_def respond_def crash_def jsonError_def assms(2) assms(3) [symmetric])
qed

definition example_card :: json where
  "example_card = JObj [(''type'', JStr ''message''), (''attachments'', JArr [JObj [(''contentType'', JStr ''application/vnd.microsoft.card.adaptive''),
     (''content'', JObj [(''type'', JStr ''AdaptiveCard''), (''body'', JArr [JStr ''24.7''])])]])]"

definition example_mock :: mock where
  "example_mock = mock_step (\<lambda>t. Some example_card) (\<lambda>v. []) (Request 1 ''POST'' (Some ''/webhook/TMS_NP'')) new_mock"

lemma example_mock_waits: "\<not> mk_down example_mock" "map_of (mk_waiting example_mock) 1 = Some ''TMS_NP''"
  by (simp_all add: example_mock_def new_mock_def route_request_def hex_digit_def)

theorem webhook_delivery_witness:
  "en_name (hd (mk_received (mock_step (\<lambda>t. Some example_card) (\<lambda>v. []) (BodyEnd 1 [''{}''] 0) example_mock))) = ''TMS_NP''"
proof -
  have "readBody (\<lambda>t. Some example_card) [''{}''] = example_card" by (simp add: readBody_def)
  moreover have "valid_card example_card" by (simp add: valid_card_def example_card_def)
  ultimately show ?thesis
    using webhook_delivery [OF example_mock_waits refl refl, of "\<lambda>t. Some example_card" "[''{}'']" "\<lambda>v. []" 0] by simp
qed

text \<open>
  The inbox is safe: whatever requests arrive, every stored message is a valid card, and one event adds at most
  one message in front and removes nothing, unless it is the request to reset, which empties the inbox. A request for the messages of a channel
  is answered with exactly those of its name, in the order of the inbox.
\<close>

theorem mock_inbox_safe:
  assumes "mock_reach parse stringify s" "\<not> mk_down s" "CHR ''%'' \<notin> set name"
  shows "(\<forall>e \<in> set (mk_received s). valid_card (en_body e)) \<and>
    ((\<exists>new. mk_received (mock_step parse stringify ev s) = new @ mk_received s \<and> length new \<le> 1) \<or>
      mk_received (mock_step parse stringify ev s) = [] \<and> (\<exists>i. ev = Request i ''POST'' (Some ''/reset''))) \<and>
    last (mk_answers (mock_step parse stringify (Request i ''GET'' (Some (''/received/'' @ name))) s)) =
      (i, jsonOk (JArr (map entry_json (filter (\<lambda>e. en_name e = name) (mk_received s)))))"
proof (intro conjI)
  show "\<forall>e \<in> set (mk_received s). valid_card (en_body e)" using mock_inbox_valid [OF assms(1)] .
  show "(\<exists>new. mk_received (mock_step parse stringify ev s) = new @ mk_received s \<and> length new \<le> 1) \<or>
      mk_received (mock_step parse stringify ev s) = [] \<and> (\<exists>i. ev = Request i ''POST'' (Some ''/reset''))"
    using mock_step_received [of parse stringify ev s] by blast
  show "last (mk_answers (mock_step parse stringify (Request i ''GET'' (Some (''/received/'' @ name))) s)) =
      (i, jsonOk (JArr (map entry_json (filter (\<lambda>e. en_name e = name) (mk_received s)))))"
    using assms(2,3) by (simp add: route_request_def decode_plain respond_def)
qed

theorem mock_inbox_safe_witness:
  "last (mk_answers (mock_step (\<lambda>t. None) (\<lambda>v. []) (Request 1 ''GET'' (Some ''/received/TMS_NP'')) new_mock)) = (1, jsonOk (JArr []))"
  using mock_inbox_safe [OF mock_reach.start, of "''TMS_NP''" "\<lambda>t. None" "\<lambda>v. []" "Request 1 [] None" 1] by (simp add: new_mock_def)

text \<open>An attachment that is null ends the server, although the check is there to answer malformed cards with 400.\<close>

lemma null_attachment_crashes:
  "mk_down (mock_step (\<lambda>t. Some (JObj [(''type'', JStr ''message''), (''attachments'', JArr [JNull])])) stringify (BodyEnd 1 [''{}''] 0) example_mock)"
  using example_mock_waits
  by (simp add: body_complete_def readBody_def validateAdaptiveCard_def check_attachment_def crash_def)

end
