(* ===== verification/RR_Highlight.thy ===== *)
theory RR_Highlight
  imports RR_Template RR_Vdom "HOL-Library.Sublist"
begin

text \<open>
  The highlighter of the code blocks of the documentation page, \<open>Highlight\<close> in \<open>src/design/project/docs.jsx\<close>. The text is
  escaped and then goes through one global replacement after the other. A regular expression is a matcher: from
  what comes before a position (reversed) and what follows it, the length of the match there.
  A matcher follows the backtracking of its expression: where several lengths are possible, it takes the
  one that is tried first among those that satisfy the assertions around it.
\<close>

section \<open>Global replacement\<close>

type_synonym matcher = "string \<Rightarrow> string \<Rightarrow> nat option"

function replace_all :: "matcher \<Rightarrow> (string \<Rightarrow> string) \<Rightarrow> string \<Rightarrow> string \<Rightarrow> string" where
  "replace_all m f pre [] = []"
| "replace_all m f pre (c # cs) = (case m pre (c # cs) of
     Some (Suc n) \<Rightarrow> f (c # take n cs) @ replace_all m f (rev (take n cs) @ c # pre) (drop n cs)
   | _ \<Rightarrow> c # replace_all m f (c # pre) cs)"
  by pat_completeness auto
termination
  by (relation "measure (\<lambda>(m, f, pre, s). length s)") auto

definition span :: "string \<Rightarrow> string \<Rightarrow> string" where
  "span k w = ''<span class=\"rr-tk-'' @ k @ ''\">'' @ w @ ''</span>''"

section \<open>Matchers\<close>

definition word_head :: "string \<Rightarrow> bool" where
  "word_head s \<longleftrightarrow> s \<noteq> [] \<and> is_word_char (hd s)"

definition is_digit :: "char \<Rightarrow> bool" where
  "is_digit c \<longleftrightarrow> 48 \<le> char_code c \<and> char_code c \<le> 57"

text \<open>\<open>"([^"]+)":\<close> and \<open>: "([^"\n]*)"\<close>\<close>

definition m_key :: matcher where
  "m_key pre s = (case s of
     [] \<Rightarrow> None
   | c # r \<Rightarrow> let k = takeWhile (\<lambda>x. x \<noteq> CHR 0x22) r in
       if c = CHR 0x22 \<and> k \<noteq> [] \<and> starts_with (drop (length k) r) [CHR 0x22, CHR '':''] then Some (length k + 3) else None)"

definition m_str :: matcher where
  "m_str pre s =
     (let v = takeWhile (\<lambda>x. x \<noteq> CHR 0x22 \<and> x \<noteq> CHR 0x0A) (drop 3 s) in
      if starts_with s [CHR '':'', CHR '' '', CHR 0x22] \<and> starts_with (drop (3 + length v) s) [CHR 0x22] then Some (length v + 4) else None)"

text \<open>\<open>\b(w1|w2|...)\b\<close>; every alternative begins and ends with a word character.\<close>

definition m_words :: "string list \<Rightarrow> matcher" where
  "m_words ws pre s =
     (if word_head pre then None
      else map_option length (List.find (\<lambda>w. starts_with s w \<and> \<not> word_head (drop (length w) s)) ws))"

text \<open>
  \<open>\b(-?\d+(?:\.\d+)?)\b\<close> with what may follow: the digits with their fraction, else without it. Fewer digits never
  end at a word boundary. Before a minus sign the boundary needs a word character, before a digit none.
\<close>

definition number_ends :: "(string \<Rightarrow> bool) \<Rightarrow> string \<Rightarrow> nat option" where
  "number_ends ok s =
     (let d = takeWhile is_digit s; r = drop (length d) s; q = takeWhile is_digit (drop 1 r) in
      if d = [] then None
      else if starts_with r ''.'' \<and> q \<noteq> [] \<and> \<not> word_head (drop (1 + length q) r) \<and> ok (drop (1 + length q) r) then Some (length d + 1 + length q)
      else if \<not> word_head r \<and> ok r then Some (length d) else None)"

definition m_number :: "(string \<Rightarrow> bool) \<Rightarrow> matcher" where
  "m_number ok pre s =
     (if starts_with s ''-'' then (if word_head pre then map_option Suc (number_ends ok (drop 1 s)) else None)
      else if word_head pre then None else number_ends ok s)"

text \<open>The number of JSON also has \<open>(?<!"\w*)\<close> before and \<open>(?!\w*")\<close> after it.\<close>

definition quote_next :: "string \<Rightarrow> bool" where
  "quote_next s \<longleftrightarrow> starts_with (dropWhile is_word_char s) [CHR 0x22]"

definition m_json_number :: matcher where
  "m_json_number pre s = (if quote_next pre then None else m_number (\<lambda>r. \<not> quote_next r) pre s)"

text \<open>\<open>^(\$ ?)\<close> at the start of a line, \<open>(-{1,2}[\w-]+)\<close>, \<open>('[^']*')\<close> and \<open>(\/\/[^\n]*)\<close>\<close>

definition line_start :: "string \<Rightarrow> bool" where
  "line_start pre \<longleftrightarrow> pre = [] \<or> starts_with pre [CHR 0x0A] \<or> starts_with pre [CHR 0x0D] \<or>
     starts_with pre [CHR 0xA8, CHR 0x80, CHR 0xE2] \<or> starts_with pre [CHR 0xA9, CHR 0x80, CHR 0xE2]"

definition m_prompt :: matcher where
  "m_prompt pre s = (if line_start pre \<and> starts_with s ''$'' then Some (if starts_with s ''$ '' then 2 else 1) else None)"

definition m_flag :: matcher where
  "m_flag pre s =
     (let w = takeWhile (\<lambda>x. is_word_char x \<or> x = CHR ''-'') (drop 1 s) in
      if starts_with s ''-'' \<and> w \<noteq> [] then Some (1 + length w) else None)"

definition m_quoted :: "char \<Rightarrow> matcher" where
  "m_quoted q pre s =
     (let w = takeWhile (\<lambda>x. x \<noteq> q) (drop 1 s) in
      if starts_with s [q] \<and> starts_with (drop (1 + length w) s) [q] then Some (length w + 2) else None)"

definition m_string :: matcher where
  "m_string pre s = (case m_quoted (CHR 0x22) pre s of
     Some n \<Rightarrow> Some n
   | None \<Rightarrow> (case m_quoted (CHR 0x27) pre s of Some n \<Rightarrow> Some n | None \<Rightarrow> m_quoted (CHR 0x60) pre s))"

definition m_comment :: matcher where
  "m_comment pre s =
     (if starts_with s ''//'' then Some (2 + length (takeWhile (\<lambda>x. x \<noteq> CHR 0x0A) (drop 2 s))) else None)"

section \<open>The highlighter\<close>

definition SHELL_WORDS :: "string list" where
  "SHELL_WORDS = [''curl'', ''cat'', ''echo'', ''export'', ''claude'', ''npx'', ''node'', ''GET'', ''POST'', ''PUT'', ''PATCH'', ''DELETE'']"

definition TS_WORDS :: "string list" where
  "TS_WORDS = [''const'', ''let'', ''var'', ''function'', ''return'', ''import'', ''export'', ''from'', ''async'', ''await'', ''new'', ''class'',
     ''interface'', ''type'', ''if'', ''else'', ''for'', ''of'', ''in'']"

type_synonym pass = "matcher \<times> (string \<Rightarrow> string)"

definition json_passes :: "pass list" where
  "json_passes =
     [(m_key, \<lambda>w. span ''key'' (butlast w) @ '':''), (m_str, \<lambda>w. '': '' @ span ''str'' (drop 2 w)),
      (m_words [''true'', ''false'', ''null''], span ''lit''), (m_json_number, span ''num'')]"

definition shell_passes :: "pass list" where
  "shell_passes =
     [(m_prompt, span ''prompt''), (m_words SHELL_WORDS, span ''kw''), (m_flag, span ''flag''), (m_quoted (CHR 0x27), span ''str''),
      (m_quoted (CHR 0x22), span ''str'')]"

definition ts_passes :: "pass list" where
  "ts_passes =
     [(m_words TS_WORDS, span ''kw''), (m_string, span ''str''), (m_words [''true'', ''false'', ''null'', ''undefined''], span ''lit''),
      (m_number (\<lambda>r. True), span ''num''), (m_comment, span ''com'')]"

definition passes_of :: "string \<Rightarrow> pass list" where
  "passes_of language =
     (if language = ''json'' then json_passes
      else if language = ''bash'' \<or> language = ''sh'' then shell_passes
      else if language = ''ts'' \<or> language = ''typescript'' \<or> language = ''js'' then ts_passes else [])"

definition run_pass :: "pass \<Rightarrow> string \<Rightarrow> string" where
  "run_pass p s = replace_all (fst p) (snd p) [] s"

definition highlight :: "string \<Rightarrow> string \<Rightarrow> string" where
  "highlight language children = fold run_pass (passes_of language) (escape_html children)"

definition Highlight :: "string \<Rightarrow> string \<Rightarrow> 'a node" where
  "Highlight language children = Elem ''span'' [Attr ''dangerouslySetInnerHTML'' (highlight language children)] []"

section \<open>Lemmas\<close>

text \<open>
  What highlighting may do to a text: wrap a stretch that is not empty in a \<open>span\<close> element of one of the given classes, any number of
  times. Nothing is removed, moved or inserted besides the two tags of a wrapping.
\<close>

inductive wrapped :: "string set \<Rightarrow> string \<Rightarrow> string \<Rightarrow> bool" for K :: "string set" where
  none: "wrapped K s s"
| wrap: "wrapped K s (a @ w @ b) \<Longrightarrow> w \<noteq> [] \<Longrightarrow> k \<in> K \<Longrightarrow> wrapped K s (a @ span k w @ b)"

lemma wrapped_trans: "wrapped K t u \<Longrightarrow> wrapped K s t \<Longrightarrow> wrapped K s u"
  by (induction rule: wrapped.induct) (auto intro: wrapped.wrap)

lemma wrapped_inside: "wrapped K s t \<Longrightarrow> wrapped K (x @ s @ y) (x @ t @ y)"
proof (induction rule: wrapped.induct)
  case (wrap s a w b k)
  then show ?case using wrapped.wrap [of K "x @ s @ y" "x @ a" w "b @ y" k] by simp
qed (rule wrapped.none)

lemma wrapped_append: "wrapped K s t \<Longrightarrow> wrapped K s' t' \<Longrightarrow> wrapped K (s @ s') (t @ t')"
  using wrapped_inside [of K s t "[]" s'] wrapped_inside [of K s' t' t "[]"] wrapped_trans by fastforce

lemma wrapped_Cons: "wrapped K s t \<Longrightarrow> wrapped K (c # s) (c # t)"
  using wrapped_inside [of K s t "[c]" "[]"] by simp

lemma wrapped_span: "w \<noteq> [] \<Longrightarrow> k \<in> K \<Longrightarrow> wrapped K w (span k w)"
  using wrapped.wrap [of K w "[]" w "[]" k] wrapped.none by simp

text \<open>Both tags of a wrapping are whole, so the text is still there and there are as many opening as closing brackets.\<close>

lemma wrapped_subseq: "wrapped K s t \<Longrightarrow> subseq s t"
proof (induction rule: wrapped.induct)
  case (wrap s a w b k)
  have "subseq w (span k w)"
    unfolding span_def by (metis append.assoc list_emb_append2 subseq_order.order_refl subseq_rev_drop_many)
  then have "subseq (a @ w @ b) (a @ span k w @ b)" by (intro list_emb_append_mono subseq_order.order_refl)
  with wrap.IH show ?case by (rule subseq_order.order_trans)
qed simp

definition pass_ok :: "string set \<Rightarrow> pass \<Rightarrow> bool" where
  "pass_ok K p \<longleftrightarrow> (\<forall>pre c cs n. fst p pre (c # cs) = Some (Suc n) \<longrightarrow> wrapped K (c # take n cs) (snd p (c # take n cs)))"

lemma pass_ok_span: "k \<in> K \<Longrightarrow> pass_ok K (m, span k)"
  by (simp add: pass_ok_def wrapped_span)

lemma key_text: "m_key pre s = Some n \<Longrightarrow> \<exists>k. k \<noteq> [] \<and> take n s = k @ '':''"
proof -
  assume a: "m_key pre s = Some n"
  then obtain r where s: "s = CHR 0x22 # r" by (auto simp: m_key_def Let_def split: list.splits if_splits)
  define k where "k = takeWhile (\<lambda>x. x \<noteq> CHR 0x22) r"
  have k: "starts_with (drop (length k) r) [CHR 0x22, CHR '':'']" "n = length k + 3"
    using a by (auto simp: s m_key_def Let_def k_def split: if_splits)
  then obtain v where "drop (length k) r = [CHR 0x22, CHR '':''] @ v" by (auto simp: starts_with_iff)
  then have "take n s = (CHR 0x22 # take (length k) r @ [CHR 0x22]) @ '':''"
    unfolding s k(2) using take_add [of "length k" 2 r] by (simp add: numeral_3_eq_3 numeral_2_eq_2)
  then show ?thesis by blast
qed

lemma str_text: "m_str pre s = Some n \<Longrightarrow> \<exists>k. k \<noteq> [] \<and> take n s = '': '' @ k"
proof -
  assume "m_str pre s = Some n"
  then have "starts_with s [CHR '':'', CHR '' '', CHR 0x22]" "4 \<le> n" by (auto simp: m_str_def Let_def split: if_splits)
  then show ?thesis by (auto simp: starts_with_iff take_Cons' split: if_splits)
qed

lemma json_pass_ok:
  "''key'' \<in> K \<Longrightarrow> pass_ok K (m_key, \<lambda>w. span ''key'' (butlast w) @ '':'')" "''str'' \<in> K \<Longrightarrow> pass_ok K (m_str, \<lambda>w. '': '' @ span ''str'' (drop 2 w))"
proof -
  show "''key'' \<in> K \<Longrightarrow> pass_ok K (m_key, \<lambda>w. span ''key'' (butlast w) @ '':'')"
    unfolding pass_ok_def fst_conv snd_conv
  proof (intro allI impI)
    fix pre c cs n assume K: "''key'' \<in> K" and "m_key pre (c # cs) = Some (Suc n)"
    then obtain k where k: "k \<noteq> []" "c # take n cs = k @ '':''" using key_text [of pre "c # cs" "Suc n"] by auto
    show "wrapped K (c # take n cs) (span ''key'' (butlast (c # take n cs)) @ '':'')"
      unfolding k(2) using wrapped_append [OF wrapped_span [OF k(1) K] wrapped.none [of K "'':''"]] by simp
  qed
  show "''str'' \<in> K \<Longrightarrow> pass_ok K (m_str, \<lambda>w. '': '' @ span ''str'' (drop 2 w))"
    unfolding pass_ok_def fst_conv snd_conv
  proof (intro allI impI)
    fix pre c cs n assume K: "''str'' \<in> K" and "m_str pre (c # cs) = Some (Suc n)"
    then obtain k where k: "k \<noteq> []" "c # take n cs = '': '' @ k" using str_text [of pre "c # cs" "Suc n"] by auto
    show "wrapped K (c # take n cs) ('': '' @ span ''str'' (drop 2 (c # take n cs)))"
      unfolding k(2) using wrapped_append [OF wrapped.none [of K "'': ''"] wrapped_span [OF k(1) K]] by simp
  qed
qed

text \<open>The classes that each language uses.\<close>

definition token_classes :: "string \<Rightarrow> string set" where
  "token_classes language =
     (if language = ''json'' then {''key'', ''str'', ''lit'', ''num''}
      else if language = ''bash'' \<or> language = ''sh'' then {''prompt'', ''kw'', ''flag'', ''str''}
      else if language = ''ts'' \<or> language = ''typescript'' \<or> language = ''js'' then {''kw'', ''str'', ''lit'', ''num'', ''com''} else {})"

lemma passes_ok: "list_all (pass_ok (token_classes language)) (passes_of language)"
proof -
  have "list_all (pass_ok {''key'', ''str'', ''lit'', ''num''}) json_passes"
    unfolding json_passes_def list.pred_inject by (intro conjI json_pass_ok pass_ok_span TrueI) simp_all
  moreover have "list_all (pass_ok {''prompt'', ''kw'', ''flag'', ''str''}) shell_passes"
    unfolding shell_passes_def list.pred_inject by (intro conjI pass_ok_span TrueI) simp_all
  moreover have "list_all (pass_ok {''kw'', ''str'', ''lit'', ''num'', ''com''}) ts_passes"
    unfolding ts_passes_def list.pred_inject by (intro conjI pass_ok_span TrueI) simp_all
  ultimately show ?thesis by (simp add: passes_of_def token_classes_def)
qed

lemma replace_all_wraps: "pass_ok K (m, f) \<Longrightarrow> wrapped K s (replace_all m f pre s)"
proof (induction m f pre s rule: replace_all.induct)
  case (2 m f pre c cs)
  show ?case
  proof (cases "m pre (c # cs)")
    case None
    then show ?thesis using 2 by (simp add: wrapped_Cons)
  next
    case (Some k)
    then show ?thesis
    proof (cases k)
      case 0
      then show ?thesis using 2 Some by (simp add: wrapped_Cons)
    next
      case (Suc n)
      then have "wrapped K (c # take n cs) (f (c # take n cs))" using 2(4) Some unfolding pass_ok_def by fastforce
      from wrapped_append [OF this 2(3) [OF Some Suc 2(4)]] show ?thesis using Some Suc by simp
    qed
  qed
qed (simp add: wrapped.none)

lemma fold_passes: "list_all (pass_ok K) ps \<Longrightarrow> wrapped K s (fold run_pass ps s)"
proof (induction ps arbitrary: s)
  case (Cons p ps)
  then have "wrapped K s (run_pass p s)" unfolding run_pass_def by (intro replace_all_wraps) simp
  then show ?case using Cons wrapped_trans by fastforce
qed (simp add: wrapped.none)

lemma escape_brackets: "CHR ''<'' \<notin> set (escape_html s)" "CHR ''>'' \<notin> set (escape_html s)"
  by (induction s) simp_all

section \<open>Properties\<close>

text \<open>
  C4. Whatever the language, highlighting only adds markup: the result comes from the escaped text, which has no brackets, by wrapping stretches
  that are not empty in \<open>span\<close> elements of the token classes of the language, and by nothing else. So the text is still there, character
  after character, and every bracket belongs to a tag that the highlighter inserted. The tags of a later pass may
  stand inside those of an earlier one.
\<close>

theorem highlight_only_adds:
  "CHR ''<'' \<notin> set (escape_html s) \<and> CHR ''>'' \<notin> set (escape_html s) \<and>
   wrapped (token_classes language) (escape_html s) (highlight language s) \<and> subseq (escape_html s) (highlight language s)"
  using escape_brackets [of s] fold_passes [OF passes_ok [of language], of "escape_html s"] wrapped_subseq by (simp add: highlight_def)

text \<open>
  A pass of the shell also replaces in the tags of the passes before it: the class of the prompt becomes a flag,
  and the quotes of the class a text, so the markup of every prompt is broken.
\<close>

lemma shell_markup_broken:
  "highlight ''bash'' ''$ curl'' =
     ''<span class=<span class=\"rr-tk-str\">\"rr<span class=\"</span>rr-tk-flag<span class=\"rr-tk-str\">\">-tk-prompt</span>\"</span>>$ </span><span class=<span class=\"rr-tk-str\">\"rr<span class=\"</span>rr-tk-flag<span class=\"rr-tk-str\">\">-tk-kw</span>\"</span>>curl</span>''"
  by code_simp

end
