(* ===== verification/RR_DocsText.thy ===== *)
theory RR_DocsText
  imports RR_Highlight RR_Shell
begin

text \<open>
  The content of the documentation page, \<open>src/design/project/docs.jsx\<close> (lines 116 to 180, 248 to 781 and 1128 to 1140): the tables of
  contents, the building blocks, and the sections on the REST interface and on the MCP server. \<open>data_sections\<close> lists
  the anchors of rendered markup in document order, as \<open>querySelectorAll\<close> does.
\<close>

section \<open>Tables of contents\<close>

record docs_child =
  dk_id :: string
  dk_method :: "string option"
  dk_label :: string

record docs_section =
  ds_id :: string
  ds_label :: string
  ds_icon :: "string option"
  ds_children :: "docs_child list"

definition REST_SECTIONS :: "docs_section list" where
  "REST_SECTIONS =
     [\<lparr>ds_id = ''overview'', ds_label = ''Overview'', ds_icon = Some ''bolt'', ds_children = []\<rparr>,
      \<lparr>ds_id = ''auth'', ds_label = ''Authentication'', ds_icon = Some ''lock'', ds_children = []\<rparr>,
      \<lparr>ds_id = ''tokens'', ds_label = ''API tokens'', ds_icon = Some ''lock'', ds_children = []\<rparr>,
      \<lparr>ds_id = ''errors'', ds_label = ''Errors & rate limits'', ds_icon = None, ds_children = []\<rparr>,
      \<lparr>ds_id = ''rollouts'', ds_label = ''Rollouts'', ds_icon = None, ds_children = [\<lparr>dk_id = ''ep-list-rollouts'', dk_method = Some ''GET'', dk_label = ''/rollouts''\<rparr>,
         \<lparr>dk_id = ''ep-create-rollout'', dk_method = Some ''POST'', dk_label = ''/rollouts''\<rparr>,
         \<lparr>dk_id = ''ep-get-rollout'', dk_method = Some ''GET'', dk_label = ''/rollouts/{id}''\<rparr>,
         \<lparr>dk_id = ''ep-update-rollout'', dk_method = Some ''PATCH'', dk_label = ''/rollouts/{id}''\<rparr>,
         \<lparr>dk_id = ''ep-delete-rollout'', dk_method = Some ''DELETE'', dk_label = ''/rollouts/{id}''\<rparr>,
         \<lparr>dk_id = ''ep-execute-stage'', dk_method = Some ''POST'', dk_label = ''/{id}/stages/{idx}/execute''\<rparr>,
         \<lparr>dk_id = ''ep-fail-task'', dk_method = Some ''POST'', dk_label = ''/{id}/tasks/{idx}/fail''\<rparr>,
         \<lparr>dk_id = ''ep-reschedule'', dk_method = Some ''POST'', dk_label = ''/{id}/reschedule''\<rparr>]\<rparr>,
      \<lparr>ds_id = ''masterdata'', ds_label = ''Master data'', ds_icon = None, ds_children = [\<lparr>dk_id = ''ep-products'', dk_method = Some ''GET'', dk_label = ''/products''\<rparr>,
         \<lparr>dk_id = ''ep-stages'', dk_method = Some ''GET'', dk_label = ''/stages''\<rparr>,
         \<lparr>dk_id = ''ep-types'', dk_method = Some ''GET'', dk_label = ''/rollout-types''\<rparr>,
         \<lparr>dk_id = ''ep-channels'', dk_method = Some ''GET'', dk_label = ''/channels''\<rparr>,
         \<lparr>dk_id = ''ep-actors'', dk_method = Some ''GET'', dk_label = ''/actors''\<rparr>,
         \<lparr>dk_id = ''ep-locks'', dk_method = Some ''GET'', dk_label = ''/locks''\<rparr>]\<rparr>,
      \<lparr>ds_id = ''announcements'', ds_label = ''Announcements'', ds_icon = None, ds_children = []\<rparr>,
      \<lparr>ds_id = ''calendar'', ds_label = ''iCalendar feed'', ds_icon = None, ds_children = []\<rparr>,
      \<lparr>ds_id = ''webhooks'', ds_label = ''Webhooks'', ds_icon = None, ds_children = []\<rparr>]"

definition MCP_SECTIONS :: "docs_section list" where
  "MCP_SECTIONS =
     [\<lparr>ds_id = ''mcp-overview'', ds_label = ''What is MCP?'', ds_icon = Some ''bolt'', ds_children = []\<rparr>,
      \<lparr>ds_id = ''mcp-install'', ds_label = ''Install & connect'', ds_icon = Some ''download'', ds_children = []\<rparr>,
      \<lparr>ds_id = ''mcp-tools'', ds_label = ''Tools'', ds_icon = None, ds_children = [\<lparr>dk_id = ''tool-list-rollouts'', dk_method = None, dk_label = ''list_rollouts''\<rparr>,
         \<lparr>dk_id = ''tool-get-rollout'', dk_method = None, dk_label = ''get_rollout''\<rparr>,
         \<lparr>dk_id = ''tool-create-rollout'', dk_method = None, dk_label = ''create_rollout''\<rparr>,
         \<lparr>dk_id = ''tool-execute-stage'', dk_method = None, dk_label = ''execute_stage''\<rparr>,
         \<lparr>dk_id = ''tool-fail-task'', dk_method = None, dk_label = ''fail_task''\<rparr>,
         \<lparr>dk_id = ''tool-reschedule'', dk_method = None, dk_label = ''reschedule_rollout''\<rparr>,
         \<lparr>dk_id = ''tool-announce-preview'', dk_method = None, dk_label = ''preview_announcement''\<rparr>,
         \<lparr>dk_id = ''tool-create-lock'', dk_method = None, dk_label = ''create_lock''\<rparr>]\<rparr>,
      \<lparr>ds_id = ''mcp-resources'', ds_label = ''Resources'', ds_icon = None, ds_children = []\<rparr>,
      \<lparr>ds_id = ''mcp-prompts'', ds_label = ''Prompts'', ds_icon = None, ds_children = []\<rparr>,
      \<lparr>ds_id = ''mcp-auth'', ds_label = ''Auth & scopes'', ds_icon = None, ds_children = []\<rparr>,
      \<lparr>ds_id = ''mcp-claude'', ds_label = ''Use with Claude Desktop'', ds_icon = None, ds_children = []\<rparr>]"

section \<open>Building blocks\<close>

definition DocsSection :: "string \<Rightarrow> string \<Rightarrow> 'a node list \<Rightarrow> 'a node" where
  "DocsSection i title children =
     Elem ''section'' [cls ''rr-docs-section'', Attr ''data-section'' i]
       (Elem ''h2'' [cls ''rr-docs-h2''] [Elem ''a'' [Attr ''href'' (''#'' @ i), cls ''rr-docs-anchor''] [Text [CHR 0xC2, CHR 0xA7]], Text '' '', Text title] #
        children)"

definition Endpoint :: "string \<Rightarrow> string \<Rightarrow> string \<Rightarrow> string \<Rightarrow> bool \<Rightarrow> 'a node list \<Rightarrow> 'a node" where
  "Endpoint i mth path summary deprecated children =
     Elem ''article'' [Attr ''id'' i, cls ''rr-endpoint'', Attr ''data-section'' i]
       ([Elem ''header'' [cls ''rr-endpoint-head'']
           ([Elem ''span'' [cls (''rr-method rr-method-'' @ toLowerCase mth)] [Text mth],
             Elem ''code'' [cls ''rr-endpoint-path''] [Text path]] @
            guarded deprecated [Elem ''span'' [cls ''rr-endpoint-deprecated''] [Text ''deprecated'']]),
         Elem ''p'' [cls ''rr-endpoint-summary''] [Text summary]] @
        children)"

definition Code :: "string \<Rightarrow> string \<Rightarrow> 'a node" where
  "Code language children = Elem ''pre'' [cls (''rr-code rr-code-'' @ language)] [Elem ''code'' [] [Highlight language children]]"

definition Table :: "string list \<Rightarrow> 'a node list list list \<Rightarrow> 'a node" where
  "Table cols rows =
     Elem ''table'' [cls ''rr-docs-table'']
       [Elem ''thead'' [] [Elem ''tr'' [] (map (\<lambda>c. Elem ''th'' [] [Text c]) cols)],
        Elem ''tbody'' [] (map (\<lambda>r. Elem ''tr'' [] (map (\<lambda>cell. Elem ''td'' [] cell) r)) rows)]"

definition McpTool :: "string \<Rightarrow> string \<Rightarrow> string \<Rightarrow> string \<Rightarrow> 'a node" where
  "McpTool i name desc schema =
     Elem ''article'' [Attr ''id'' i, cls ''rr-mcp-tool'', Attr ''data-section'' i]
       [Elem ''header'' [cls ''rr-mcp-tool-head''] [Elem ''code'' [cls ''rr-mcp-tool-name''] [Text name], Elem ''span'' [cls ''rr-mcp-tool-kind''] [Text ''tool'']],
        Elem ''p'' [cls ''rr-endpoint-summary''] [Text desc],
        Elem ''details'' [cls ''rr-mcp-schema''] [Elem ''summary'' [] [Text ''Input schema''], Code ''json'' schema]]"

section \<open>Sections\<close>

definition rest_overview :: "'a node" where
  "rest_overview =
    DocsSection ''overview'' ''Overview''
      [Elem ''p'' []
        [Text ''The ReleaseRadar REST API exposes everything the UI does: rollouts, the cascading stage execution, master-data CRUD, announcement channels and the iCalendar feed.''],
       Table [''Property'', ''Value'']
        [[[Text ''Base URL''], [Elem ''code'' []
              [Text ''https://releaseradar.tms-platform.example/api/v2'']]],
         [[Text ''Content type''], [Elem ''code'' []
              [Text ''application/json; charset=utf-8'']]],
         [[Text ''Encoding''], [Text ''UTF-8'']],
         [[Text ''Auth''], [Text ''OAuth2 bearer (see below)'']],
         [[Text ''Stability''], [Elem ''span'' [cls ''rr-stable'']
              [Text ''stable'']]],
         [[Text ''OpenAPI spec''], [Elem ''code'' []
              [Text ''/api/v2/openapi.json'']]]],
       Elem ''h4'' [cls ''rr-docs-h4'']
        [Text ''A quick example''],
       Code ''bash''
        (''$ curl -H \"Authorization: Bearer $RR_TOKEN\" '' @ [CHR 0x5C] @ [CHR 0x0A] @ ''       https://releaseradar.tms-platform.example/api/v2/rollouts?status=scheduled&limit=5'')]"

definition rest_auth :: "'a node" where
  "rest_auth =
    DocsSection ''auth'' ''Authentication''
      [Elem ''p'' []
        [Text ''All endpoints require an OAuth2 bearer token. Tokens can be issued from the workspace settings (per-actor, scoped, revocable).''],
       Code ''bash''
        (''$ export RR_TOKEN=\"rr_pat_a8sd9f...zZ\"'' @ [CHR 0x0A] @ ''$ curl -H \"Authorization: Bearer $RR_TOKEN\" /api/v2/rollouts''),
       Table [''Scope'', ''Grants'']
        [[[Text ''rollouts.read''], [Text ''list, get rollouts'']],
         [[Text ''rollouts.write''], [Text ''create, patch, delete rollouts'']],
         [[Text ''rollouts.execute''], [Text ''execute stages, mark tasks, reschedule'']],
         [[Text ''masterdata.read''], [Text ''list products/stages/types/channels/actors'']],
         [[Text ''masterdata.write''], [Text ''edit master data'']],
         [[Text ''webhooks.manage''], [Text ''register webhooks'']]]]"

definition rest_tokens :: "'a node" where
  "rest_tokens =
    DocsSection ''tokens'' ''API tokens''
      [Elem ''p'' []
        [Text ''Tokens grant programmatic access to the API. See the dedicated'',
         Text '' '',
         Elem ''strong'' []
          [Text ''API Keys''],
         Text '' tab above for the full list, generation, and revocation.'']]"

definition rest_errors :: "'a node" where
  "rest_errors =
    DocsSection ''errors'' ''Errors & rate limits''
      [Elem ''p'' []
        [Text ''Errors are returned as RFC 7807 problem documents.''],
       Code ''json''
        (''{'' @ [CHR 0x0A] @ ''  \"type\": \"https://releaseradar.example/errors/lock-active\",'' @ [CHR 0x0A] @ ''  \"title\": \"Rollout cannot be executed\",'' @ [CHR 0x0A] @ ''  \"status\": 409,'' @ [CHR 0x0A] @ ''  \"detail\": \"Master branch is locked by lock-id l-2 until 2026-05-30T08:00:00Z.\",'' @ [CHR 0x0A] @ ''  \"lockId\": \"l-2\",'' @ [CHR 0x0A] @ ''  \"rolloutId\": \"r-104\"'' @ [CHR 0x0A] @ ''}''),
       Elem ''p'' []
        [Text ''Rate limit: '',
         Elem ''code'' []
          [Text ''60 req/min''],
         Text '' per token, returned in '',
         Elem ''code'' []
          [Text ''X-RateLimit-Remaining''],
         Text ''. Bursts are softened via a leaky bucket of 120.'']]"

definition rest_rollouts :: "'a node" where
  "rest_rollouts =
    DocsSection ''rollouts'' ''Rollouts''
      [Elem ''p'' []
        [Text ''Rollouts are the central resource. Each one has an ordered list of stages (its cascade) and a checklist inherited from its '',
         Elem ''code'' []
          [Text ''rolloutTypeId''],
         Text ''.''],
       Endpoint ''ep-list-rollouts'' ''GET'' ''/rollouts''
        ''List rollouts. Filter by product, type, status, actor, or date range.'' False
        [Elem ''h4'' [cls ''rr-docs-h4'']
          [Text ''Query parameters''],
         Table [''Param'', ''Type'', ''Notes'']
          [[[Text ''product''], [Text ''string[]''], [Text ''filter by product key'']],
           [[Text ''type''], [Text ''string[]''], [Text ''filter by rolloutTypeId'']],
           [[Text ''status''], [Text ''string[]''], [Text ''any of '',
               Elem ''code'' []
                [Text ''scheduled''],
               Text '', '',
               Elem ''code'' []
                [Text ''active''],
               Text '', '',
               Elem ''code'' []
                [Text ''done''],
               Text '', '',
               Elem ''code'' []
                [Text ''failed''],
               Text '', '',
               Elem ''code'' []
                [Text ''blocked'']]],
           [[Text ''actor''], [Text ''string[]''], [Text ''actor in the execution pair'']],
           [[Text ''from''], [Text ''ISO 8601''], [Text (''stage start '' @ u_ge @ '' this'')]],
           [[Text ''to''], [Text ''ISO 8601''], [Text (''stage start '' @ [CHR 0xE2, CHR 0x89, CHR 0xA4] @ '' this'')]],
           [[Text ''limit''], [Text ''int''], [Text ''default 50, max 200'']],
           [[Text ''cursor''], [Text ''string''], [Text ''opaque cursor (pagination)'']]],
         Elem ''h4'' [cls ''rr-docs-h4'']
          [Text ''Response''],
         Code ''json''
          (''{'' @ [CHR 0x0A] @ ''  \"data\": ['' @ [CHR 0x0A] @ ''    {'' @ [CHR 0x0A] @ ''      \"id\": \"r-101\",'' @ [CHR 0x0A] @ ''      \"title\": \"operator 24.7 '' @ u_mdash @ '' broker auth refactor\",'' @ [CHR 0x0A] @ ''      \"productId\": \"operator\",'' @ [CHR 0x0A] @ ''      \"rolloutTypeId\": \"operator-feature\",'' @ [CHR 0x0A] @ ''      \"stages\": ['' @ [CHR 0x0A] @ ''        { \"stageKey\": \"non-prod\", \"scheduledAt\": \"2026-05-25T09:00:00Z\", \"durationHours\": 2, \"status\": \"done\" },'' @ [CHR 0x0A] @ ''        { \"stageKey\": \"prod1\",    \"scheduledAt\": \"2026-06-01T10:00:00Z\", \"durationHours\": 2, \"status\": \"scheduled\" },'' @ [CHR 0x0A] @ ''        { \"stageKey\": \"prod2\",    \"scheduledAt\": \"2026-06-08T10:00:00Z\", \"durationHours\": 2, \"status\": \"scheduled\" }'' @ [CHR 0x0A] @ ''      ],'' @ [CHR 0x0A] @ ''      \"pair\": [\"luc\", \"hen\"],'' @ [CHR 0x0A] @ ''      \"descExt\": \"operator 24.7 rollout. Customers may observe transient broker creation latency'' @ u_ellipsis @ ''\",'' @ [CHR 0x0A] @ ''      \"announcementText\": \"operator 24.7 rollout '' @ u_mdash @ '' short maintenance window expected.\",'' @ [CHR 0x0A] @ ''      \"risks\": \"Deployment + broker creation disabled for ~2h.\",'' @ [CHR 0x0A] @ ''      \"links\": { \"self\": \"/rollouts/r-101\", \"ics\": \"/rollouts/r-101/ics\" }'' @ [CHR 0x0A] @ ''    }'' @ [CHR 0x0A] @ ''  ],'' @ [CHR 0x0A] @ ''  \"nextCursor\": \"eyJvZmZzZXQiOjUwfQ==\"'' @ [CHR 0x0A] @ ''}'')],
       Endpoint ''ep-create-rollout'' ''POST'' ''/rollouts''
        (''Create a rollout. The cascade is materialized from the rollout type'' @ [CHR 0x27] @ ''s cascadePlan.'') False
        [Elem ''h4'' [cls ''rr-docs-h4'']
          [Text ''Request body''],
         Code ''json''
          (''{'' @ [CHR 0x0A] @ ''  \"productId\": \"operator\",'' @ [CHR 0x0A] @ ''  \"rolloutTypeId\": \"operator-feature\",'' @ [CHR 0x0A] @ ''  \"startAt\": \"2026-06-15T10:00:00Z\",'' @ [CHR 0x0A] @ ''  \"pair\": [\"luc\", \"hen\"],'' @ [CHR 0x0A] @ ''  \"title\": \"operator 24.8 '' @ u_mdash @ '' solace tls\",'' @ [CHR 0x0A] @ ''  \"descExt\": \"operator 24.8 rollout.\",'' @ [CHR 0x0A] @ ''  \"descInt\": \"Internal notes'' @ u_ellipsis @ ''\",'' @ [CHR 0x0A] @ ''  \"announcementText\": \"Optional override '' @ u_mdash @ '' falls back to descExt if empty.\",'' @ [CHR 0x0A] @ ''  \"risks\": \"Connection blip during certificate hot-reload.\"'' @ [CHR 0x0A] @ ''}''),
         Elem ''p'' []
          [Text ''Returns '',
           Elem ''span'' [cls ''rr-stable'']
            [Text ''201 Created''],
           Text '' with the materialized rollout including computed stage timestamps.'']],
       Endpoint ''ep-get-rollout'' ''GET'' ''/rollouts/{id}''
        ''Fetch a single rollout with stages and tasks.'' False
        [],
       Endpoint ''ep-update-rollout'' ''PATCH'' ''/rollouts/{id}''
        ''Patch descriptions, announcementText, risks, or the pair. Stage times require /reschedule.'' False
        [Code ''json''
          ''{ \"announcementText\": \"Customer-friendly summary updated 2 days before prod1.\" }''],
       Endpoint ''ep-delete-rollout'' ''DELETE'' ''/rollouts/{id}''
        ''Cancel a rollout (only allowed while all stages are scheduled or blocked).'' False
        [],
       Endpoint ''ep-execute-stage'' ''POST'' ''/rollouts/{id}/stages/{idx}/execute''
        ''Mark a stage as active and start its checklist clock. Pair confirmation required.'' False
        [Code ''json''
          ''{ \"confirmedBy\": [\"luc\", \"hen\"], \"force\": false }'',
         Elem ''p'' []
          [Text ''Returns '',
           Elem ''span'' [cls ''rr-stable'']
            [Text ''409 Conflict''],
           Text '' with a problem document if a lock overlaps the stage window. Pass '',
           Elem ''code'' []
            [Text ''force: true''],
           Text '' only if your token has'',
           Elem ''code'' []
            [Text ''locks.bypass''],
           Text '' scope.'']],
       Endpoint ''ep-fail-task'' ''POST'' ''/rollouts/{id}/tasks/{idx}/fail''
        ''Mark a task as failed with a required reason.'' False
        [Code ''json''
          (''{ \"reason\": \"broker diff returned 14 unexpected drift entries on zeus-02 '' @ u_mdash @ '' investigate.\", \"by\": \"luc\" }'')],
       Endpoint ''ep-reschedule'' ''POST'' ''/rollouts/{id}/reschedule''
        ''Mark the rollout failed and create a copy scheduled for a new start.'' False
        [Code ''json''
          ''{ \"newStartAt\": \"2026-06-22T10:00:00Z\", \"addContext\": \"retry after broker cleanup on zeus-02\" }'',
         Elem ''p'' []
          [Text ''Response includes the new rollout id and a back-link to the failed original.'']]]"

definition rest_masterdata :: "'a node" where
  "rest_masterdata =
    DocsSection ''masterdata'' ''Master data''
      [Elem ''p'' []
        [Text ''All master-data resources expose the same shape: '',
         Elem ''code'' []
          [Text ''GET /'',
           Text ''{resource}''],
         Text '' for a paginated list, '',
         Elem ''code'' []
          [Text ''POST /'',
           Text ''{resource}''],
         Text '' to create, '',
         Elem ''code'' []
          [Text ''PATCH''],
         Text '' and'',
         Elem ''code'' []
          [Text ''DELETE''],
         Text '' on the item URL. Below: just the example responses.''],
       Endpoint ''ep-products'' ''GET'' ''/products''
        ''Products owned by this workspace.'' False
        [Code ''json''
          (''{'' @ [CHR 0x0A] @ ''  \"data\": ['' @ [CHR 0x0A] @ ''    {'' @ [CHR 0x0A] @ ''      \"id\": \"operator\",'' @ [CHR 0x0A] @ ''      \"name\": \"operator\",'' @ [CHR 0x0A] @ ''      \"owner\": \"Team Athena\",'' @ [CHR 0x0A] @ ''      \"color\": \"#a78bfa\",'' @ [CHR 0x0A] @ ''      \"brokers\": [\"frankfurt-01\", \"frankfurt-02\", \"zeus-01\", \"zeus-02\"],'' @ [CHR 0x0A] @ ''      \"allowedRolloutTypes\": [\"operator-feature\", \"operator-hf\"],'' @ [CHR 0x0A] @ ''      \"defaultPair\": [\"luc\", \"hen\"]'' @ [CHR 0x0A] @ ''    }'' @ [CHR 0x0A] @ ''  ]'' @ [CHR 0x0A] @ ''}'')],
       Endpoint ''ep-stages'' ''GET'' ''/stages''
        (''Deployment stages (non-prod, prod1'' @ u_ellipsis @ ''). Reorder via PATCH with an `order` field.'') False
        [Code ''json''
          (''{'' @ [CHR 0x0A] @ ''  \"data\": ['' @ [CHR 0x0A] @ ''    {'' @ [CHR 0x0A] @ ''      \"key\": \"prod1\",'' @ [CHR 0x0A] @ ''      \"label\": \"prod1 '' @ u_middot @ '' Frankfurt\",'' @ [CHR 0x0A] @ ''      \"short\": \"P1\",'' @ [CHR 0x0A] @ ''      \"region\": \"Frankfurt-am-Main\",'' @ [CHR 0x0A] @ ''      \"color\": \"#5eead4\",'' @ [CHR 0x0A] @ ''      \"requiresPair\": true,'' @ [CHR 0x0A] @ ''      \"announceChannelKey\": \"TMS_PROD\",'' @ [CHR 0x0A] @ ''      \"minAdvanceHours\": 168,'' @ [CHR 0x0A] @ ''      \"order\": 1,'' @ [CHR 0x0A] @ ''      \"enabled\": true'' @ [CHR 0x0A] @ ''    }'' @ [CHR 0x0A] @ ''  ]'' @ [CHR 0x0A] @ ''}'')],
       Endpoint ''ep-types'' ''GET'' ''/rollout-types''
        ''Rollout types and their cascadePlan.'' False
        [Code ''json''
          (''{'' @ [CHR 0x0A] @ ''  \"id\": \"operator-feature\",'' @ [CHR 0x0A] @ ''  \"name\": \"operator feature (oracle & solace)\",'' @ [CHR 0x0A] @ ''  \"short\": \"operator feature\",'' @ [CHR 0x0A] @ ''  \"tone\": \"info\",'' @ [CHR 0x0A] @ ''  \"cascadePlan\": ['' @ [CHR 0x0A] @ ''    { \"stageKey\": \"non-prod\", \"delayHours\": 0 },'' @ [CHR 0x0A] @ ''    { \"stageKey\": \"prod1\",    \"delayHours\": 168 },'' @ [CHR 0x0A] @ ''    { \"stageKey\": \"prod2\",    \"delayHours\": 336 }'' @ [CHR 0x0A] @ ''  ],'' @ [CHR 0x0A] @ ''  \"rules\": [\"Maintenance mode active\", \"Rollout im Pair\", \"Run broker diff before lifting maintenance\"],'' @ [CHR 0x0A] @ ''  \"tasks\": [\"Announce in TMS_NP ('' @ u_ge @ '' 1h)\", \"Deploy operator\", \"Run broker diff on all brokers\", \"Manual log check\"]'' @ [CHR 0x0A] @ ''}''),
         Elem ''p'' []
          [Text ''The '',
           Elem ''code'' []
            [Text ''announce''],
           Text ('' policy is derived from the cascade plan and the referenced stages '' @ u_mdash @ '' it is not stored.'')]],
       Endpoint ''ep-channels'' ''GET'' ''/channels''
        ''Announcement channels and their integration configs.'' False
        [Code ''json''
          (''{'' @ [CHR 0x0A] @ ''  \"id\": \"ch-2\",'' @ [CHR 0x0A] @ ''  \"key\": \"TMS_PROD\",'' @ [CHR 0x0A] @ ''  \"name\": \"TMS Production Announcements\",'' @ [CHR 0x0A] @ ''  \"kind\": \"teams\",'' @ [CHR 0x0A] @ ''  \"integration\": {'' @ [CHR 0x0A] @ ''    \"tenantId\":  \"8d5b1a2c-...\",'' @ [CHR 0x0A] @ ''    \"teamId\":    \"19:c9d4@thread.tacv2\",'' @ [CHR 0x0A] @ ''    \"channelId\": \"tms-prod-deploys\",'' @ [CHR 0x0A] @ ''    \"webhookUrl\": \"<encrypted at rest>\",'' @ [CHR 0x0A] @ ''    \"mentions\":  [\"@tms-platform\", \"@customer-success\"],'' @ [CHR 0x0A] @ ''    \"retry\":     { \"maxAttempts\": 5, \"strategy\": \"exponential\", \"initialDelaySec\": 10, \"alertOnFinalFail\": true, \"dedupeMin\": 60 }'' @ [CHR 0x0A] @ ''  },'' @ [CHR 0x0A] @ ''  \"template\": \"'' @ [CHR 0xF0, CHR 0x9F, CHR 0x93, CHR 0xA6] @ '' **{{rollout.title}}** '' @ u_mdash @ '' {{type.short}}'' @ [CHR 0x5C] @ ''n'' @ [CHR 0x5C] @ ''nProduct: {{product.name}}'' @ [CHR 0x5C] @ ''n'' @ u_ellipsis @ ''\",'' @ [CHR 0x0A] @ ''  \"minAdvanceHours\": 168,'' @ [CHR 0x0A] @ ''  \"sendOn\": [\"scheduled\", \"active\", \"done\", \"failed\"],'' @ [CHR 0x0A] @ ''  \"quietHours\": { \"enabled\": true, \"from\": \"20:00\", \"to\": \"06:00\" }'' @ [CHR 0x0A] @ ''}'')],
       Endpoint ''ep-actors'' ''GET'' ''/actors''
        (''People who can execute rollouts. Read-only '' @ u_mdash @ '' actors are synced from IdP.'') False
        [],
       Endpoint ''ep-locks'' ''GET'' ''/locks''
        ''Active and upcoming rollout-Sperren.'' False
        []]"

definition rest_announcements :: "'a node" where
  "rest_announcements =
    DocsSection ''announcements'' ''Announcements''
      [Elem ''p'' []
        [Text (''Channels are triggered automatically by stage state transitions (per the channel'' @ [CHR 0x27] @ ''s''),
         Elem ''code'' []
          [Text ''sendOn''],
         Text '' list). You can also send announcements imperatively:''],
       Endpoint ''ep-announce-preview'' ''POST'' ''/rollouts/{id}/announcements:preview''
        (''Render the announcement template against a rollout '' @ u_mdash @ '' does not send.'') False
        [Code ''json''
          ''{ \"channelKey\": \"TMS_PROD\", \"stageIdx\": 1 }'',
         Elem ''p'' []
          [Text ''Returns '',
           Elem ''code'' []
            [Text ''{ \"text\": \"...\", \"missingVariables\": [], \"warnings\": [] }''],
           Text ''.'']],
       Endpoint ''ep-announce-send'' ''POST'' ''/rollouts/{id}/announcements:send''
        (''Send the rendered announcement. Throttled by the channel'' @ [CHR 0x27] @ ''s dedupe window.'') False
        []]"

definition rest_calendar :: "'a node" where
  "rest_calendar =
    DocsSection ''calendar'' ''iCalendar feed''
      [Elem ''p'' []
        [Text ''Each user gets a private Cal-DAV URL via '',
         Elem ''code'' []
          [Text (''/calendar.ics?token='' @ u_ellipsis)],
         Text (''. Personal subscriptions only include the rollouts that match the user'' @ [CHR 0x27] @ ''s saved filters.'')],
       Code ''bash''
        ''$ curl -L https://releaseradar.tms-platform.example/calendar.ics?token=$RR_CAL_TOKEN > tms.ics'']"

definition rest_webhooks :: "'a node" where
  "rest_webhooks =
    DocsSection ''webhooks'' ''Webhooks''
      [Elem ''p'' []
        [Text ''Subscribe to system events. Payloads are signed with HMAC-SHA256 ('',
         Elem ''code'' []
          [Text ''X-RR-Signature''],
         Text '' header).''],
       Table [''Event'', ''Payload top-level'']
        [[[Text ''rollout.created''], [Elem ''code'' []
              [Text ''rollout'']]],
         [[Text ''rollout.updated''], [Elem ''code'' []
              [Text ''rollout, changes[]'']]],
         [[Text ''rollout.stage.executed''], [Elem ''code'' []
              [Text ''rollout, stage, executor'']]],
         [[Text ''rollout.task.failed''], [Elem ''code'' []
              [Text ''rollout, taskIdx, reason, by'']]],
         [[Text ''rollout.rescheduled''], [Elem ''code'' []
              [Text ''oldRollout, newRollout'']]],
         [[Text ''lock.created''], [Elem ''code'' []
              [Text ''lock'']]],
         [[Text ''channel.failed''], [Elem ''code'' []
              [Text ''channelKey, attempts[], lastError'']]]]]"

definition docs_mcp_overview :: "'a node" where
  "docs_mcp_overview =
    DocsSection ''mcp-overview'' ''What is MCP?''
      [Elem ''p'' []
        [Text ''The Model Context Protocol (MCP) lets AI assistants like Claude talk to ReleaseRadar as a first-class data source. Our MCP server exposes the same operations as the REST API, plus typed '',
         Elem ''strong'' []
          [Text ''resources''],
         Text '' the assistant can read and structured'',
         Elem ''strong'' []
          [Text '' prompts''],
         Text '' for common workflows.''],
       Elem ''div'' [cls ''rr-callout'']
        [Icon (ICONS ''bolt'') 14,
         Elem ''div'' []
          [Elem ''strong'' []
            [Text ''Why use it?''],
           Text '' '',
           Text (''Instead of pasting endpoints into your agent'' @ [CHR 0x27] @ ''s tool list, point Claude at one MCP server and it discovers everything: cascade planning, rollout creation, lock inspection, announcement previews. The assistant always has up-to-date context about what'' @ [CHR 0x27] @ ''s currently scheduled.'')]]]"

definition docs_mcp_install :: "'a node" where
  "docs_mcp_install =
    DocsSection ''mcp-install'' ''Install & connect''
      [Elem ''p'' []
        [Text ''The server ships as both an npm package (stdio transport for local agents) and an HTTP/SSE endpoint.''],
       Elem ''h4'' [cls ''rr-docs-h4'']
        [Text (''Option A '' @ u_mdash @ '' stdio (Claude Desktop, local IDEs)'')],
       Code ''bash''
        ''$ npx -y @tms-platform/releaseradar-mcp@latest --token $RR_TOKEN'',
       Elem ''h4'' [cls ''rr-docs-h4'']
        [Text (''Option B '' @ u_mdash @ '' HTTP/SSE (remote agents)'')],
       Code ''bash''
        (''$ curl -N -H \"Authorization: Bearer $RR_TOKEN\" '' @ [CHR 0x5C] @ [CHR 0x0A] @ ''       https://releaseradar.tms-platform.example/mcp/sse''),
       Elem ''h4'' [cls ''rr-docs-h4'']
        [Text ''Handshake''],
       Code ''json''
        (''{'' @ [CHR 0x0A] @ ''  \"name\": \"releaseradar\",'' @ [CHR 0x0A] @ ''  \"version\": \"0.3.1\",'' @ [CHR 0x0A] @ ''  \"protocolVersion\": \"2025-03-26\",'' @ [CHR 0x0A] @ ''  \"capabilities\": {'' @ [CHR 0x0A] @ ''    \"tools\":     { \"listChanged\": true },'' @ [CHR 0x0A] @ ''    \"resources\": { \"subscribe\": true, \"listChanged\": true },'' @ [CHR 0x0A] @ ''    \"prompts\":   {}'' @ [CHR 0x0A] @ ''  }'' @ [CHR 0x0A] @ ''}'')]"

definition docs_mcp_tools :: "'a node" where
  "docs_mcp_tools =
    DocsSection ''mcp-tools'' ''Tools''
      [Elem ''p'' []
        [Text ''Every tool returns structured JSON. Errors follow the same RFC-7807 shape as the REST API.''],
       McpTool ''tool-list-rollouts'' ''list_rollouts'' ''List rollouts with optional filters. Wraps GET /rollouts.''
        (''{'' @ [CHR 0x0A] @ ''  \"type\": \"object\",'' @ [CHR 0x0A] @ ''  \"properties\": {'' @ [CHR 0x0A] @ ''    \"products\":  { \"type\": \"array\", \"items\": { \"type\": \"string\" } },'' @ [CHR 0x0A] @ ''    \"types\":     { \"type\": \"array\", \"items\": { \"type\": \"string\" } },'' @ [CHR 0x0A] @ ''    \"statuses\":  { \"type\": \"array\", \"items\": { \"enum\": [\"scheduled\",\"active\",\"done\",\"failed\",\"blocked\"] } },'' @ [CHR 0x0A] @ ''    \"from\":      { \"type\": \"string\", \"format\": \"date-time\" },'' @ [CHR 0x0A] @ ''    \"to\":        { \"type\": \"string\", \"format\": \"date-time\" },'' @ [CHR 0x0A] @ ''    \"limit\":     { \"type\": \"integer\", \"default\": 25, \"maximum\": 200 }'' @ [CHR 0x0A] @ ''  }'' @ [CHR 0x0A] @ ''}''),
       McpTool ''tool-get-rollout'' ''get_rollout'' ''Fetch a rollout by id with its full stage & task state.''
        ''{ \"type\": \"object\", \"required\": [\"id\"], \"properties\": { \"id\": { \"type\": \"string\" } } }'',
       McpTool ''tool-create-rollout'' ''create_rollout'' ''Create a new rollout. The cascade is auto-materialized from the chosen rollout type.''
        (''{'' @ [CHR 0x0A] @ ''  \"type\": \"object\",'' @ [CHR 0x0A] @ ''  \"required\": [\"productId\", \"rolloutTypeId\", \"startAt\", \"title\"],'' @ [CHR 0x0A] @ ''  \"properties\": {'' @ [CHR 0x0A] @ ''    \"productId\":        { \"type\": \"string\" },'' @ [CHR 0x0A] @ ''    \"rolloutTypeId\":    { \"type\": \"string\" },'' @ [CHR 0x0A] @ ''    \"startAt\":          { \"type\": \"string\", \"format\": \"date-time\" },'' @ [CHR 0x0A] @ ''    \"pair\":             { \"type\": \"array\", \"items\": { \"type\": \"string\" }, \"maxItems\": 2 },'' @ [CHR 0x0A] @ ''    \"title\":            { \"type\": \"string\" },'' @ [CHR 0x0A] @ ''    \"descExt\":          { \"type\": \"string\" },'' @ [CHR 0x0A] @ ''    \"descInt\":          { \"type\": \"string\" },'' @ [CHR 0x0A] @ ''    \"announcementText\": { \"type\": \"string\" },'' @ [CHR 0x0A] @ ''    \"risks\":            { \"type\": \"string\" }'' @ [CHR 0x0A] @ ''  }'' @ [CHR 0x0A] @ ''}''),
       McpTool ''tool-execute-stage'' ''execute_stage'' (''Execute the next stage in a rollout'' @ [CHR 0x27] @ ''s cascade. Refuses if a lock overlaps the window.'')
        (''{'' @ [CHR 0x0A] @ ''  \"type\": \"object\",'' @ [CHR 0x0A] @ ''  \"required\": [\"rolloutId\", \"stageIdx\"],'' @ [CHR 0x0A] @ ''  \"properties\": {'' @ [CHR 0x0A] @ ''    \"rolloutId\":     { \"type\": \"string\" },'' @ [CHR 0x0A] @ ''    \"stageIdx\":      { \"type\": \"integer\" },'' @ [CHR 0x0A] @ ''    \"confirmedBy\":   { \"type\": \"array\", \"items\": { \"type\": \"string\" } }'' @ [CHR 0x0A] @ ''  }'' @ [CHR 0x0A] @ ''}''),
       McpTool ''tool-fail-task'' ''fail_task'' ''Record a task failure with a required reason.''
        (''{'' @ [CHR 0x0A] @ ''  \"type\": \"object\",'' @ [CHR 0x0A] @ ''  \"required\": [\"rolloutId\", \"taskIdx\", \"reason\", \"by\"],'' @ [CHR 0x0A] @ ''  \"properties\": {'' @ [CHR 0x0A] @ ''    \"rolloutId\": { \"type\": \"string\" },'' @ [CHR 0x0A] @ ''    \"taskIdx\":   { \"type\": \"integer\" },'' @ [CHR 0x0A] @ ''    \"reason\":    { \"type\": \"string\", \"minLength\": 4 },'' @ [CHR 0x0A] @ ''    \"by\":        { \"type\": \"string\" }'' @ [CHR 0x0A] @ ''  }'' @ [CHR 0x0A] @ ''}''),
       McpTool ''tool-reschedule'' ''reschedule_rollout'' ''Mark a rollout failed and create a copy at a new time.''
        ''{ \"type\": \"object\", \"required\": [\"id\", \"newStartAt\"], \"properties\": { \"id\": { \"type\": \"string\" }, \"newStartAt\": { \"type\": \"string\", \"format\": \"date-time\" }, \"addContext\": { \"type\": \"string\" } } }'',
       McpTool ''tool-announce-preview'' ''preview_announcement'' (''Render the announcement template for a stage. Read-only '' @ u_mdash @ '' never sends.'')
        ''{ \"type\": \"object\", \"required\": [\"rolloutId\", \"stageIdx\"], \"properties\": { \"rolloutId\": { \"type\": \"string\" }, \"stageIdx\": { \"type\": \"integer\" }, \"channelKey\": { \"type\": \"string\" } } }'',
       McpTool ''tool-create-lock'' ''create_lock'' ''Create a rollout-Sperre. Useful when an agent detects a master-bug from CI logs.''
        (''{'' @ [CHR 0x0A] @ ''  \"type\": \"object\",'' @ [CHR 0x0A] @ ''  \"required\": [\"title\", \"kind\", \"startAt\", \"endAt\"],'' @ [CHR 0x0A] @ ''  \"properties\": {'' @ [CHR 0x0A] @ ''    \"title\":       { \"type\": \"string\" },'' @ [CHR 0x0A] @ ''    \"description\": { \"type\": \"string\" },'' @ [CHR 0x0A] @ ''    \"contact\":     { \"type\": \"string\" },'' @ [CHR 0x0A] @ ''    \"kind\":        { \"enum\": [\"manual\", \"holiday\", \"window\"] },'' @ [CHR 0x0A] @ ''    \"startAt\":     { \"type\": \"string\", \"format\": \"date-time\" },'' @ [CHR 0x0A] @ ''    \"endAt\":       { \"type\": \"string\", \"format\": \"date-time\" },'' @ [CHR 0x0A] @ ''    \"products\":    { \"type\": \"array\", \"items\": { \"type\": \"string\" } }'' @ [CHR 0x0A] @ ''  }'' @ [CHR 0x0A] @ ''}'')]"

definition docs_mcp_resources :: "'a node" where
  "docs_mcp_resources =
    DocsSection ''mcp-resources'' ''Resources''
      [Elem ''p'' []
        [Text ''Resources are read-only context the assistant can pull on demand. Subscribe and the server pushes '',
         Elem ''code'' []
          [Text ''resources/updated''],
         Text '' notifications when anything changes.''],
       Table [''URI scheme'', ''Returns'']
        [[[Elem ''code'' []
              [Text ''rollout://{id}'']], [Text ''JSON rollout, including stage and task state'']],
         [[Elem ''code'' []
              [Text ''rollout://{id}/announcement'']], [Text ''Rendered customer announcement (text/markdown)'']],
         [[Elem ''code'' []
              [Text ''product://{id}'']], [Text ''Product master record + broker list'']],
         [[Elem ''code'' []
              [Text ''stage://{key}'']], [Text ''Stage definition (color, channel, advance hours)'']],
         [[Elem ''code'' []
              [Text ''type://{id}'']], [Text ''Rollout type with cascadePlan, rules, tasks'']],
         [[Elem ''code'' []
              [Text ''lock://{id}'']], [Text ''Lock detail'']],
         [[Elem ''code'' []
              [Text ''calendar://upcoming'']], [Text ''Next 30 days as iCalendar VEVENTs'']]]]"

definition docs_mcp_prompts :: "'a node" where
  "docs_mcp_prompts =
    DocsSection ''mcp-prompts'' ''Prompts''
      [Elem ''p'' []
        [Text (''Pre-baked instructions for common workflows. Selectable from the assistant'' @ [CHR 0x27] @ ''s prompt picker.'')],
       Table [''Name'', ''Inputs'', ''What it does'']
        [[[Text ''cascade_planner''], [Text ''product, change_summary''], [Text ''Picks an appropriate rollout type, proposes start time avoiding locks and weekends, returns a create_rollout payload.'']],
         [[Text ''incident_lockdown''], [Text ''trigger (e.g. CI failure)''], [Text ''Drafts a lock (title, description, affected products) ready to confirm with create_lock.'']],
         [[Text ''customer_summary''], [Text ''rollout_id''], [Text ''Reads the rollout + announcement template, writes a customer-friendly digest.'']],
         [[Text ''weekly_changelog''], [Text ''from, to''], [Text ''Summarizes all completed rollouts for a stakeholder update.'']]]]"

definition docs_mcp_auth :: "'a node" where
  "docs_mcp_auth =
    DocsSection ''mcp-auth'' ''Auth & scopes''
      [Elem ''p'' []
        [Text ''The MCP server uses the same OAuth2 tokens as the REST API; scopes are honored 1:1.''],
       Code ''bash''
        (''$ export RR_TOKEN=\"rr_pat_...\"'' @ [CHR 0x0A] @ ''$ npx @tms-platform/releaseradar-mcp --token $RR_TOKEN '' @ [CHR 0x5C] @ [CHR 0x0A] @ ''                                    --scopes rollouts.read,rollouts.execute,masterdata.read''),
       Elem ''p'' []
        [Text (''Tool calls that exceed your token'' @ [CHR 0x27] @ ''s scopes return a structured error the assistant is trained to interpret '' @ u_mdash @ '' it will surface \"needs additional scope: '' @ u_ellipsis @ ''\" to the user instead of failing silently.'')]]"

definition docs_mcp_claude :: "'a node" where
  "docs_mcp_claude =
    DocsSection ''mcp-claude'' ''Use with Claude Desktop''
      [Elem ''p'' []
        [Text ''Add the MCP server to your '',
         Elem ''code'' []
          [Text ''claude_desktop_config.json''],
         Text '':''],
       Code ''json''
        (''{'' @ [CHR 0x0A] @ ''  \"mcpServers\": {'' @ [CHR 0x0A] @ ''    \"releaseradar\": {'' @ [CHR 0x0A] @ ''      \"command\": \"npx\",'' @ [CHR 0x0A] @ ''      \"args\": [\"-y\", \"@tms-platform/releaseradar-mcp@latest\"],'' @ [CHR 0x0A] @ ''      \"env\": {'' @ [CHR 0x0A] @ ''        \"RR_TOKEN\": \"rr_pat_a8sd9f...zZ\"'' @ [CHR 0x0A] @ ''      }'' @ [CHR 0x0A] @ ''    }'' @ [CHR 0x0A] @ ''  }'' @ [CHR 0x0A] @ ''}''),
       Elem ''p'' []
        [Text ''Restart Claude Desktop; the radar icon appears in the composer and \"Use cascade_planner\" becomes available as a prompt. The assistant will list rollouts, suggest types, avoid lock windows and ask for confirmation before any write.''],
       Elem ''div'' [cls ''rr-callout'']
        [Icon (ICONS ''warn'') 14,
         Elem ''div'' []
          [Elem ''strong'' []
            [Text ''Write operations are confirmation-gated.''],
           Text '' '',
           Text ''The server requires an '',
           Elem ''code'' []
            [Text ''X-MCP-Confirm: yes''],
           Text ('' header for any tool that would mutate state. The Claude Desktop adapter handles this via the user-prompted tool-permissions dialog '' @ u_mdash @ '' there is no way for the assistant to silently execute a stage or reschedule a rollout.'')]]]"

definition RestDocs :: "'a node list" where
  "RestDocs = [rest_overview, rest_auth, rest_tokens, rest_errors, rest_rollouts, rest_masterdata, rest_announcements, rest_calendar, rest_webhooks]"

definition McpDocs :: "'a node list" where
  "McpDocs = [docs_mcp_overview, docs_mcp_install, docs_mcp_tools, docs_mcp_resources, docs_mcp_prompts, docs_mcp_auth, docs_mcp_claude]"

section \<open>Anchors\<close>

fun data_sections :: "'a node \<Rightarrow> string list" where
  "data_sections (Text s) = []"
| "data_sections (Elem t as ks) =
     concat (map (\<lambda>a. case a of Attr n v \<Rightarrow> if n = ''data-section'' then [v] else [] | _ \<Rightarrow> []) as) @ concat (map data_sections ks)"

section \<open>Lemmas\<close>

lemma guarded_sections [simp]: "concat (map data_sections (guarded b xs)) = (if b then concat (map data_sections xs) else [])"
  by (simp add: guarded_def)

lemma data_sections_blocks [simp]:
  "data_sections (DocsSection i title children) = i # concat (map data_sections children)"
  "data_sections (Endpoint i mth path summary deprecated children) = i # concat (map data_sections children)"
  "data_sections (Code language text) = []"
  "data_sections (Table cols rows) = concat (map (\<lambda>r. concat (map (\<lambda>cell. concat (map data_sections cell)) r)) rows)"
  "data_sections (McpTool i name desc schema) = [i]"
  by (simp_all add: DocsSection_def Endpoint_def Code_def Table_def McpTool_def Highlight_def comp_def)

lemma data_sections_Icon [simp]: "data_sections (Icon_full d sz stroke className fill) = []"
  by (cases d) (simp_all add: Icon_full_def)

lemma offered_blocks [simp]:
  "offered (DocsSection i title children) = offered_list children"
  "offered (Endpoint i mth path summary deprecated children) = offered_list children"
  "offered (Code language text) = {}"
  "offered (Table cols rows) = (\<Union>r \<in> set rows. \<Union>cell \<in> set r. offered_list cell)"
  "offered (McpTool i name desc schema) = {}"
  by (auto simp: DocsSection_def Endpoint_def Code_def Table_def McpTool_def Highlight_def offered_Elem offered_list_map)

lemmas rest_sections = rest_overview_def rest_auth_def rest_tokens_def rest_errors_def rest_rollouts_def rest_masterdata_def rest_announcements_def rest_calendar_def rest_webhooks_def

lemmas mcp_sections = docs_mcp_overview_def docs_mcp_install_def docs_mcp_tools_def docs_mcp_resources_def docs_mcp_prompts_def docs_mcp_auth_def docs_mcp_claude_def

lemma rest_anchors: "concat (map data_sections RestDocs) =
    [''overview'', ''auth'', ''tokens'', ''errors'', ''rollouts'', ''ep-list-rollouts'',
     ''ep-create-rollout'', ''ep-get-rollout'', ''ep-update-rollout'', ''ep-delete-rollout'', ''ep-execute-stage'', ''ep-fail-task'',
     ''ep-reschedule'', ''masterdata'', ''ep-products'', ''ep-stages'', ''ep-types'', ''ep-channels'',
     ''ep-actors'', ''ep-locks'', ''announcements'', ''ep-announce-preview'', ''ep-announce-send'', ''calendar'',
     ''webhooks'']"
  by (simp add: RestDocs_def rest_sections)

lemma mcp_anchors: "concat (map data_sections McpDocs) =
    [''mcp-overview'', ''mcp-install'', ''mcp-tools'', ''tool-list-rollouts'', ''tool-get-rollout'', ''tool-create-rollout'',
     ''tool-execute-stage'', ''tool-fail-task'', ''tool-reschedule'', ''tool-announce-preview'', ''tool-create-lock'', ''mcp-resources'',
     ''mcp-prompts'', ''mcp-auth'', ''mcp-claude'']"
  by (simp add: McpDocs_def mcp_sections)

lemma docs_offer_nothing: "offered_list RestDocs = {}" "offered_list McpDocs = {}"
  by (simp_all add: RestDocs_def rest_sections McpDocs_def mcp_sections)

end
