(* ===== verification/RR_Tokens.thy ===== *)
theory RR_Tokens
  imports RR_DocsText
begin

text \<open>
  The API tokens of the documentation page, \<open>src/design/project/docs.jsx\<close> (lines 184 to 246 and 782 to 1126): the table of
  tokens with its search and its revocation, and the dialog that creates one. A token is a record whose
  \<open>revokedAt\<close> is absent until it is revoked. The clock \<open>ak_now\<close> is part of the state; \<open>rand\<close> gives the text of each
  call of \<open>Math.random().toString(36).slice(2, 10)\<close> and \<open>ak_rand\<close> counts the calls. \<open>clip\<close> says whether the browser
  lets the page write to the clipboard.
\<close>

section \<open>Tokens\<close>

record token =
  tok_id :: string
  tok_name :: string
  tok_prefix :: string
  tok_scopes :: "string list"
  tok_createdBy :: string
  tok_createdAt :: int
  tok_lastUsedAt :: "int option"
  tok_expiresAt :: "int option"
  tok_status :: string
  tok_revokedAt :: "int option"
  tok_ipAllowlist :: "string list"

text \<open>\<open>new Date(y, m, d, hh, mm)\<close>\<close>

definition new_date_time :: "host \<Rightarrow> int \<Rightarrow> int \<Rightarrow> int \<Rightarrow> int \<Rightarrow> int \<Rightarrow> int" where
  "new_date_time h y m d hh mm = utc_of_local h (make_day (full_year y) m d * ms_per_day + hh * 3600000 + mm * 60000)"

definition SEED_TOKENS :: "host \<Rightarrow> token list" where
  "SEED_TOKENS h =
     [\<lparr>tok_id = ''tok_01HZ5K8X'', tok_name = (''GitLab CI '' @ u_mdash @ '' operator deploy''), tok_prefix = ''rr_pat_a8sd'',
       tok_scopes = [''rollouts.read'', ''rollouts.execute'', ''masterdata.read''], tok_createdBy = ''luc'', tok_createdAt = (new_date_time h 2026 3 4 14 30),
       tok_lastUsedAt = Some (new_date_time h 2026 4 27 9 12), tok_expiresAt = Some (new_date_time h 2026 9 4 0 0), tok_status = ''active'', tok_revokedAt = None,
       tok_ipAllowlist = [''10.42.0.0/16'']\<rparr>,
      \<lparr>tok_id = ''tok_01HZ5K8Y'', tok_name = (''Claude Desktop '' @ u_mdash @ '' Mira''), tok_prefix = ''rr_pat_x21q'',
       tok_scopes = [''rollouts.read'', ''masterdata.read''], tok_createdBy = ''mira'', tok_createdAt = (new_date_time h 2026 4 12 10 0),
       tok_lastUsedAt = Some (new_date_time h 2026 4 26 17 48), tok_expiresAt = None, tok_status = ''active'', tok_revokedAt = None,
       tok_ipAllowlist = []\<rparr>,
      \<lparr>tok_id = ''tok_01HZ5K8Z'', tok_name = (''Calendar subscription '' @ u_mdash @ '' Henning''), tok_prefix = ''rr_cal_p9mn'',
       tok_scopes = [''calendar.read''], tok_createdBy = ''hen'', tok_createdAt = (new_date_time h 2026 1 18 9 0),
       tok_lastUsedAt = Some (new_date_time h 2026 4 27 6 30), tok_expiresAt = None, tok_status = ''active'', tok_revokedAt = None,
       tok_ipAllowlist = []\<rparr>,
      \<lparr>tok_id = ''tok_01HZ5K90'', tok_name = ''Old GitLab CI (rotated)'', tok_prefix = ''rr_pat_qq22'',
       tok_scopes = [''rollouts.read'', ''rollouts.execute''], tok_createdBy = ''luc'', tok_createdAt = (new_date_time h 2025 11 1 0 0),
       tok_lastUsedAt = Some (new_date_time h 2026 3 3 0 0), tok_expiresAt = None, tok_status = ''revoked'', tok_revokedAt = Some (new_date_time h 2026 3 4 0 0),
       tok_ipAllowlist = []\<rparr>]"

record scope =
  sc_id :: string
  sc_label :: string

definition ALL_SCOPES :: "scope list" where
  "ALL_SCOPES =
     [\<lparr>sc_id = ''rollouts.read'', sc_label = ''List & read rollouts''\<rparr>,
      \<lparr>sc_id = ''rollouts.write'', sc_label = ''Create, patch, delete rollouts''\<rparr>,
      \<lparr>sc_id = ''rollouts.execute'', sc_label = ''Execute stages, mark tasks, reschedule''\<rparr>,
      \<lparr>sc_id = ''masterdata.read'', sc_label = ''List products / stages / types / channels / actors''\<rparr>,
      \<lparr>sc_id = ''masterdata.write'', sc_label = ''Edit master data''\<rparr>,
      \<lparr>sc_id = ''locks.manage'', sc_label = ''Create and lift locks''\<rparr>,
      \<lparr>sc_id = ''locks.bypass'', sc_label = ''Force-execute through an active lock''\<rparr>,
      \<lparr>sc_id = ''calendar.read'', sc_label = ''Subscribe to iCalendar feed''\<rparr>,
      \<lparr>sc_id = ''webhooks.manage'', sc_label = ''Register & manage webhooks''\<rparr>]"

section \<open>State and actions\<close>

record keys_state =
  ks_query :: string
  ks_showRevoked :: bool
  ks_confirmId :: "string option"

record generate_state =
  gm_name :: string
  gm_scopes :: "string list"
  gm_expiry :: string
  gm_ipAllow :: string
  gm_created :: "(token \<times> string) option"
  gm_copied :: bool

record api_keys =
  ak_tokens :: "token list"
  ak_keys :: keys_state
  ak_modal :: "generate_state option"
  ak_now :: int
  ak_rand :: nat

definition new_keys :: keys_state where
  "new_keys = \<lparr>ks_query = [], ks_showRevoked = False, ks_confirmId = None\<rparr>"

definition new_generate :: generate_state where
  "new_generate = \<lparr>gm_name = [], gm_scopes = [''rollouts.read'', ''masterdata.read''], gm_expiry = ''90'', gm_ipAllow = [], gm_created = None, gm_copied = False\<rparr>"

text \<open>\<open>DScroll\<close> is a scroll event that finds the anchors with these numbers above the line; \<open>DTick\<close> and \<open>GCopiedOff\<close> are the clock and a timer.\<close>

datatype docs_action =
    DTab string | DScrollTo string | DGenerateOpen | DClose | DScroll "nat \<Rightarrow> bool" | DTick nat
  | GName string | GScope string | GExpiry string | GIpAllow string | GGenerate | GCopy | GCopiedOff
  | KQuery string | KShowRevoked bool | KConfirm "string option" | KRevoke string

section \<open>Texts and counts\<close>

definition days_ago :: "host \<Rightarrow> int \<Rightarrow> rat" where
  "days_ago h d = of_int (TODAY h - d) / 86400000"

definition fmtAgo :: "host \<Rightarrow> int option \<Rightarrow> string" where
  "fmtAgo h x = (case x of
     None \<Rightarrow> u_mdash
   | Some d \<Rightarrow> let diff = days_ago h d in
       if diff < 1 then show_int (max 1 (js_round (diff * 24))) @ ''h ago''
       else if diff < 30 then show_int (js_round diff) @ ''d ago''
       else locale_date h [(''day'', ''2-digit''), (''month'', ''short''), (''year'', ''2-digit'')] d)"

definition fmtDate_docs :: "host \<Rightarrow> int option \<Rightarrow> string" where
  "fmtDate_docs h x = (case x of
     None \<Rightarrow> u_mdash
   | Some d \<Rightarrow> locale_date h [(''day'', ''2-digit''), (''month'', ''short''), (''year'', ''numeric'')] d)"

text \<open>\<open>s.replace(a, b)\<close> with a text: the first occurrence.\<close>

fun replace_first :: "string \<Rightarrow> string \<Rightarrow> string \<Rightarrow> string" where
  "replace_first a b [] = (if a = [] then b else [])"
| "replace_first a b (c # s) = (if starts_with (c # s) a then b @ drop (length a) (c # s) else c # replace_first a b s)"

definition expires_soon :: "host \<Rightarrow> token \<Rightarrow> bool" where
  "expires_soon h t = (case tok_expiresAt t of None \<Rightarrow> False | Some d \<Rightarrow> (of_int (d - TODAY h) / 86400000 :: rat) < 30)"

definition creator_name :: "token \<Rightarrow> string" where
  "creator_name t = (case getActor (tok_createdBy t) of
     Some a \<Rightarrow> if ac_name a = [] then tok_createdBy t else ac_name a | None \<Rightarrow> tok_createdBy t)"

definition count_tokens :: "(token \<Rightarrow> bool) \<Rightarrow> token list \<Rightarrow> int" where
  "count_tokens P tokens = int (length (filter P tokens))"

definition key_active :: "token list \<Rightarrow> int" where
  "key_active = count_tokens (\<lambda>t. tok_status t = ''active'')"

definition key_revoked :: "token list \<Rightarrow> int" where
  "key_revoked = count_tokens (\<lambda>t. tok_status t = ''revoked'')"

definition key_expiring :: "host \<Rightarrow> token list \<Rightarrow> int" where
  "key_expiring h = count_tokens (\<lambda>t. tok_status t = ''active'' \<and> expires_soon h t)"

definition key_unused :: "host \<Rightarrow> token list \<Rightarrow> int" where
  "key_unused h = count_tokens (\<lambda>t. tok_status t = ''active'' \<and> (case tok_lastUsedAt t of None \<Rightarrow> True | Some d \<Rightarrow> days_ago h d > 30))"

section \<open>The list of tokens\<close>

definition revoke :: "string \<Rightarrow> 'a api_keys_scheme \<Rightarrow> 'a api_keys_scheme" where
  "revoke i st = st\<lparr>ak_tokens := map (\<lambda>t. if tok_id t = i then t\<lparr>tok_status := ''revoked'', tok_revokedAt := Some (ak_now st)\<rparr> else t) (ak_tokens st),
     ak_keys := (ak_keys st)\<lparr>ks_confirmId := None\<rparr>\<rparr>"

definition token_row :: "host \<Rightarrow> string option \<Rightarrow> token \<Rightarrow> docs_action node" where
  "token_row h confirmId t =
    (let isRevoked = (tok_status t = ''revoked''); expiring = (expires_soon h t \<and> \<not> isRevoked) in
    Elem ''li'' [cls (''rr-token '' @ (if isRevoked then ''is-revoked'' else []))]
      [Elem ''div'' [cls ''rr-token-l'']
        [Elem ''div'' [cls ''rr-token-head'']
          ([Elem ''span'' [cls ''rr-token-name'']
            [Text (tok_name t)]] @
           (if isRevoked
           then [Badge ''danger'' False False [Text ''revoked'']]
           else (if expiring
                 then [Badge ''warn'' True False [Text ''expires '',
                         Text (replace_first '' ago'' '' from now'' (fmtAgo h (tok_expiresAt t)))]]
                 else [Badge ''ok'' True False [Text ''active'']]))),
         Elem ''div'' [cls ''rr-token-prefix'']
          [Elem ''code'' []
            [Text (tok_prefix t),
             Text u_ellipsis],
           Elem ''span'' [cls ''rr-token-id rr-mono rr-muted'']
            [Text (tok_id t)]],
         Elem ''div'' [cls ''rr-token-scopes'']
          (map (\<lambda>s.
              Elem ''code'' [cls ''rr-token-scope'']
                [Text s])
            (tok_scopes t)),
         Elem ''div'' [cls ''rr-token-meta'']
          ([Elem ''span'' []
            ([Icon (ICONS ''user'') 11,
             Text ''created by ''] @
             Avatar (tok_createdBy t) 14 False @
             [Text (creator_name t)]),
           Elem ''span'' []
            [Icon (ICONS ''cal'') 11,
             Text '' '',
             Text (fmtDate_docs h (Some (tok_createdAt t)))],
           Elem ''span'' []
            [Icon (ICONS ''bolt'') 11,
             Text ''last used '',
             Elem ''strong'' []
              [Text (fmtAgo h (tok_lastUsedAt t))]],
           Elem ''span'' []
            [Icon (ICONS ''lock'') 11,
             Text '' expires '',
             Text (if tok_expiresAt t = None then ''never'' else fmtDate_docs h (tok_expiresAt t))]] @
           guarded ((length (tok_ipAllowlist t)) > 0)
            [Elem ''span'' []
              [Icon (ICONS ''filter'') 11,
               Text '' IP '',
               Text (join_with '', '' (tok_ipAllowlist t))]] @
           guarded isRevoked
            [Elem ''span'' [cls ''rr-token-revoked-at'']
              [Text ''revoked '',
               Text (fmtDate_docs h (tok_revokedAt t))]])],
       Elem ''div'' [cls ''rr-token-r'']
        (guarded (\<not> isRevoked)
          (if (confirmId = Some (tok_id t))
           then [Elem ''div'' [cls ''rr-token-confirm'']
                  [Elem ''span'' []
                    [Text ''Revoke this token?''],
                   Elem ''button'' [cls ''rr-btn rr-btn-ghost rr-btn-sm'', On ''onClick'' (KConfirm None)]
                    [Text ''Cancel''],
                   Elem ''button'' [cls ''rr-btn rr-btn-danger rr-btn-sm'', On ''onClick'' (KRevoke (tok_id t))]
                    [Text ''Revoke'']]]
           else [Elem ''button'' [cls ''rr-btn rr-btn-ghost rr-btn-sm rr-btn-danger-ghost'', On ''onClick'' (KConfirm (Some (tok_id t)))]
                  [Icon (ICONS ''x'') 12,
                   Text '' Revoke'']]))])"

definition TokensManager :: "host \<Rightarrow> keys_state \<Rightarrow> token list \<Rightarrow> docs_action node" where
  "TokensManager h ks tokens =
    (let showRevoked = ks_showRevoked ks; visible = filter (\<lambda>t. showRevoked \<or> tok_status t = ''active'') tokens;
         activeCount = key_active tokens; revokedCount = key_revoked tokens in
     Elem ''div'' [cls ''rr-tokens'']
       [Elem ''header'' [cls ''rr-tokens-head'']
      [Elem ''div'' [cls ''rr-tokens-meta'']
        ([Elem ''span'' [cls ''rr-mono'']
          [Elem ''strong'' [cls ''rr-tokens-strong'']
            [Text (show_int activeCount)],
           Text '' active'']] @
         guarded (revokedCount > 0)
          [Elem ''span'' [cls ''rr-mono'']
            [Elem ''strong'' [cls ''rr-tokens-strong'']
              [Text (show_int revokedCount)],
             Text '' revoked'']] @
         [Elem ''label'' [cls ''rr-tokens-toggle'']
          [Elem ''input'' [Attr ''type'' ''checkbox'', AttrB ''checked'' showRevoked, OnChk ''onChange'' (\<lambda>b. (KShowRevoked b))] [],
           Elem ''span'' []
            [Text ''Show revoked'']]]),
       Elem ''button'' [cls ''rr-btn rr-btn-primary rr-btn-sm'', On ''onClick'' DGenerateOpen]
        [Icon (ICONS ''plus'') 12,
         Text '' Generate token'']],
        Elem ''ul'' [cls ''rr-tokens-list'']
         (guarded (length visible = 0) [Elem ''li'' [cls ''rr-tokens-empty''] [Text ''No tokens to show.'']] @
          map (token_row h (ks_confirmId ks)) visible)])"

definition token_matches :: "string \<Rightarrow> token \<Rightarrow> bool" where
  "token_matches query t \<longleftrightarrow> trim query = [] \<or> (let q = toLowerCase query in
     str_includes (toLowerCase (tok_name t)) q \<or> str_includes (toLowerCase (tok_id t)) q \<or> str_includes (toLowerCase (tok_prefix t)) q \<or>
     list_ex (\<lambda>s. str_includes (toLowerCase s) q) (tok_scopes t))"

definition keys_stats :: "host \<Rightarrow> token list \<Rightarrow> docs_action node" where
  "keys_stats h tokens =
    Elem ''div'' [cls ''rr-keys-stats'']
      [Elem ''div'' [cls ''rr-keys-stat'']
        [Elem ''div'' [cls ''rr-keys-stat-label'']
          [Text ''Active keys''],
         Elem ''div'' [cls ''rr-keys-stat-value'', Sty ''color'' ''#86efac'']
          [Text (show_int (key_active tokens))]],
       Elem ''div'' [cls ''rr-keys-stat'']
        [Elem ''div'' [cls ''rr-keys-stat-label'']
          [Text ''Expiring < 30d''],
         Elem ''div'' [cls ''rr-keys-stat-value'', Sty ''color'' (if ((key_expiring h tokens) > 0) then ''#fbbf24'' else ''var(--muted)'')]
          [Text (show_int (key_expiring h tokens))]],
       Elem ''div'' [cls ''rr-keys-stat'']
        [Elem ''div'' [cls ''rr-keys-stat-label'']
          [Text ''Idle > 30d''],
         Elem ''div'' [cls ''rr-keys-stat-value'', Sty ''color'' (if ((key_unused h tokens) > 0) then ''#fbbf24'' else ''var(--muted)'')]
          [Text (show_int (key_unused h tokens))]],
       Elem ''div'' [cls ''rr-keys-stat'']
        [Elem ''div'' [cls ''rr-keys-stat-label'']
          [Text ''Revoked''],
         Elem ''div'' [cls ''rr-keys-stat-value rr-mono'', Sty ''color'' ''var(--muted)'']
          [Text (show_int (key_revoked tokens))]]]"

definition ApiKeysTab :: "host \<Rightarrow> keys_state \<Rightarrow> token list \<Rightarrow> docs_action node" where
  "ApiKeysTab h ks tokens =
    (let query = ks_query ks; filtered = filter (token_matches query) tokens in
     Elem ''div'' [cls ''rr-keys-page'']
      [keys_stats h tokens,
       Elem ''div'' [cls ''rr-keys-search-row'']
      [Elem ''div'' [cls ''rr-header-search rr-keys-search'']
        [Icon (ICONS ''search'') 13,
         Elem ''input'' [Attr ''placeholder'' (''Filter by name, id, prefix, or scope'' @ u_ellipsis), Attr ''value'' query, OnVal ''onChange'' (\<lambda>v. (KQuery v))] []],
       Elem ''button'' [cls ''rr-btn rr-btn-primary rr-btn-sm'', On ''onClick'' DGenerateOpen]
        [Icon (ICONS ''plus'') 13,
         Text '' Generate new key'']],
       Elem ''div'' [cls ''rr-keys-callout'']
      [Icon (ICONS ''lock'') 14,
       Elem ''div'' []
        [Text ''API keys carry the scopes of the user who created them and act as that user for audit logging. '',
         Elem ''strong'' []
          [Text ''Revoke immediately''],
         Text ('' if a key leaves a trusted environment '' @ u_mdash @ '' there is no way to recover the value once issued.'')]],
       TokensManager h ks filtered])"

section \<open>The dialog\<close>

definition toggleScope :: "string \<Rightarrow> generate_state \<Rightarrow> generate_state" where
  "toggleScope s m = m\<lparr>gm_scopes := (if s \<in> set (gm_scopes m) then filter (\<lambda>x. x \<noteq> s) (gm_scopes m) else gm_scopes m @ [s])\<rparr>"

definition generate :: "host \<Rightarrow> (nat \<Rightarrow> string) \<Rightarrow> generate_state \<Rightarrow> 'a api_keys_scheme \<Rightarrow> 'a api_keys_scheme" where
  "generate h rand m st =
     (if trim (gm_name m) = [] \<or> gm_scopes m = [] then st
      else let expiresAt = (if gm_expiry m = ''never'' then None else Some (addDays h (ak_now st) (int (read_digits (gm_expiry m)))));
               n = ak_rand st;
               val = ''rr_pat_'' @ rand n @ rand (n + 1) @ rand (n + 2) @ rand (n + 3);
               token = \<lparr>tok_id = ''tok_'' @ toUpperCase (rand (n + 4)), tok_name = trim (gm_name m), tok_prefix = take 12 val, tok_scopes = gm_scopes m,
                 tok_createdBy = ''luc'', tok_createdAt = ak_now st, tok_lastUsedAt = None, tok_expiresAt = expiresAt, tok_status = ''active'',
                 tok_revokedAt = None, tok_ipAllowlist = comma_list (gm_ipAllow m)\<rparr>
           in st\<lparr>ak_tokens := token # ak_tokens st, ak_modal := Some (m\<lparr>gm_created := Some (token, val)\<rparr>), ak_rand := n + 5\<rparr>)"

definition secret_view :: "(token \<times> string) \<Rightarrow> bool \<Rightarrow> docs_action node" where
  "secret_view c copied =
    Elem ''div'' [cls ''rr-modal-body'']
      [Elem ''div'' [cls ''rr-token-secret'']
        [Elem ''div'' [cls ''rr-token-secret-label'']
          [Text ''Your token''],
         Elem ''code'' [cls ''rr-token-secret-value'']
          [Text (snd c)],
         Elem ''button'' [cls (''rr-btn rr-btn-primary rr-btn-sm '' @ (if copied then ''is-on-ghost'' else [])), On ''onClick'' GCopy]
          [Icon (if copied then ICONS ''check'' else ICONS ''copy'') 12,
           Text (if copied then ''Copied'' else ''Copy'')]],
       Elem ''div'' [cls ''rr-callout'']
        [Icon (ICONS ''warn'') 14,
         Elem ''div'' []
          [Elem ''strong'' []
            [Text (''This is the only time you'' @ [CHR 0x27] @ ''ll see the full value.'')],
           Text '' '',
           Text (''ReleaseRadar only stores the hash. Closing this dialog without copying means you'' @ [CHR 0x27] @ ''ll need to generate a new token if you lose it.'')]],
       Elem ''h4'' [cls ''rr-docs-h4'']
        [Text ''Use it in code''],
       Code ''bash''
        (''$ export RR_TOKEN=\"'' @ (snd c) @ (''\"'' @ [CHR 0x0A] @ ''$ curl -H \"Authorization: Bearer $RR_TOKEN\" '' @ [CHR 0x5C] @ [CHR 0x0A] @ ''       https://releaseradar.tms-platform.example/api/v2/rollouts''))]"

definition generate_form :: "generate_state \<Rightarrow> docs_action node" where
  "generate_form m =
    (let name = gm_name m; scopes = gm_scopes m; expiry = gm_expiry m; ipAllow = gm_ipAllow m in
    Elem ''div'' [cls ''rr-modal-body'']
      [Elem ''label'' [cls ''rr-field'']
        [Elem ''span'' []
          [Text ''Name '',
           Elem ''em'' []
            [Text (''(internal label '' @ u_mdash @ '' e.g. \"GitLab CI '' @ u_mdash @ '' operator deploy\")'')]],
         Elem ''input'' [Attr ''placeholder'' ''What is this token for?'', Attr ''value'' name, OnVal ''onChange'' (\<lambda>v. (GName v)), AttrB ''autoFocus'' True] []],
       Elem ''div'' [cls ''rr-field'']
        [Elem ''span'' []
          [Text ''Scopes '',
           Elem ''em'' []
            [Text (''(grant only what'' @ [CHR 0x27] @ ''s required)'')]],
         Elem ''div'' [cls ''rr-token-scopes-pick'']
          (concat (map (\<lambda>s.
              (let on = ((sc_id s) \<in> set scopes) in
              [Elem ''button'' [cls (''rr-token-scope-pick '' @ (if on then ''is-on'' else [])), On ''onClick'' (GScope (sc_id s))]
                [Elem ''span'' [cls ''rr-token-scope-check'']
                  (guarded on
                    [Icon (ICONS ''check'') 11]),
                 Elem ''div'' []
                  [Elem ''code'' []
                    [Text (sc_id s)],
                   Elem ''div'' [cls ''rr-token-scope-desc'']
                    [Text (sc_label s)]]]]))
            ALL_SCOPES))],
       Elem ''div'' [cls ''rr-form-grid'']
        [Elem ''label'' [cls ''rr-field'']
          [Elem ''span'' []
            [Text ''Expiry''],
           Elem ''select'' [Attr ''value'' expiry, OnVal ''onChange'' (\<lambda>v. (GExpiry v))]
            [Elem ''option'' [Attr ''value'' ''7'']
              [Text ''7 days''],
             Elem ''option'' [Attr ''value'' ''30'']
              [Text ''30 days''],
             Elem ''option'' [Attr ''value'' ''90'']
              [Text ''90 days (recommended)''],
             Elem ''option'' [Attr ''value'' ''365'']
              [Text ''1 year''],
             Elem ''option'' [Attr ''value'' ''never'']
              [Text ''Never expires'']]],
         Elem ''label'' [cls ''rr-field'']
          [Elem ''span'' []
            [Text ''IP allow-list '',
             Elem ''em'' []
              [Text ''(optional, comma-separated CIDR)'']],
           Elem ''input'' [Attr ''placeholder'' ''10.42.0.0/16, 192.168.1.0/24'', Attr ''value'' ipAllow, OnVal ''onChange'' (\<lambda>v. (GIpAllow v))] []]]])"

definition generate_foot :: "generate_state \<Rightarrow> docs_action node" where
  "generate_foot m =
    (let name = gm_name m; scopes = gm_scopes m; created = gm_created m in
    Elem ''footer'' [cls ''rr-modal-foot'']
      (case created of Some c \<Rightarrow>
        [Elem ''span'' [cls ''rr-muted'']
          [Text ''Token '',
           Elem ''code'' []
            [Text (tok_id (fst c))],
           Text '' is now active.''],
         Elem ''div'' [cls ''rr-modal-foot-actions'']
          [Elem ''button'' [cls ''rr-btn rr-btn-primary'', On ''onClick'' DClose]
            [Text ''Done'']]]
       | None \<Rightarrow>
        [Elem ''span'' [cls ''rr-muted'']
          [Text (show_nat (length scopes)),
           Text '' scope'',
           Text (if (length scopes = 1) then [] else ''s''),
           Text '' selected''],
         Elem ''div'' [cls ''rr-modal-foot-actions'']
          [Elem ''button'' [cls ''rr-btn rr-btn-ghost'', On ''onClick'' DClose]
            [Text ''Cancel''],
           Elem ''button'' [cls ''rr-btn rr-btn-primary'', On ''onClick'' GGenerate, AttrB ''disabled'' (trim name = [] \<or> scopes = [])]
            [Icon (ICONS ''bolt'') 12,
             Text '' Generate token'']]]))"

definition GenerateTokenModal :: "generate_state \<Rightarrow> docs_action node" where
  "GenerateTokenModal m =
    (let created = gm_created m in
     Elem ''div'' [cls ''rr-modal-scrim'', On ''onClick'' DClose]
      [Elem ''div'' [cls ''rr-modal'', Stop ''onClick'']
        [Elem ''header'' [cls ''rr-modal-head'']
          [Elem ''div'' []
            [Elem ''h2'' [] [Text (if created \<noteq> None then ''Token created'' else ''Generate API token'')],
             Elem ''p'' [cls ''rr-modal-sub'']
              [Text (if created \<noteq> None then ''Copy this token now '' @ u_mdash @ '' it will not be shown again.''
                 else ''Tokens act on your behalf. Grant the minimum scopes the integration needs.'')]],
           Elem ''button'' [cls ''rr-icon-btn'', On ''onClick'' DClose] [Icon (ICONS ''x'') 14]],
         (case created of Some c \<Rightarrow> secret_view c (gm_copied m) | None \<Rightarrow> generate_form m),
         generate_foot m]])"

section \<open>What the actions do\<close>

definition on_modal :: "(generate_state \<Rightarrow> generate_state) \<Rightarrow> 'a api_keys_scheme \<Rightarrow> 'a api_keys_scheme" where
  "on_modal f st = st\<lparr>ak_modal := map_option f (ak_modal st)\<rparr>"

fun keys_act :: "host \<Rightarrow> (nat \<Rightarrow> string) \<Rightarrow> bool \<Rightarrow> docs_action \<Rightarrow> 'a api_keys_scheme \<Rightarrow> 'a api_keys_scheme" where
  "keys_act h rand clip DGenerateOpen st = (if ak_modal st = None then st\<lparr>ak_modal := Some new_generate\<rparr> else st)"
| "keys_act h rand clip DClose st = st\<lparr>ak_modal := None\<rparr>"
| "keys_act h rand clip (GName v) st = on_modal (\<lambda>m. m\<lparr>gm_name := v\<rparr>) st"
| "keys_act h rand clip (GScope v) st = on_modal (toggleScope v) st"
| "keys_act h rand clip (GExpiry v) st = on_modal (\<lambda>m. m\<lparr>gm_expiry := v\<rparr>) st"
| "keys_act h rand clip (GIpAllow v) st = on_modal (\<lambda>m. m\<lparr>gm_ipAllow := v\<rparr>) st"
| "keys_act h rand clip GGenerate st = (case ak_modal st of None \<Rightarrow> st | Some m \<Rightarrow> generate h rand m st)"
| "keys_act h rand clip GCopy st = on_modal (\<lambda>m. if clip then m\<lparr>gm_copied := True\<rparr> else m) st"
| "keys_act h rand clip GCopiedOff st = on_modal (\<lambda>m. m\<lparr>gm_copied := False\<rparr>) st"
| "keys_act h rand clip (KQuery v) st = st\<lparr>ak_keys := (ak_keys st)\<lparr>ks_query := v\<rparr>\<rparr>"
| "keys_act h rand clip (KShowRevoked b) st = st\<lparr>ak_keys := (ak_keys st)\<lparr>ks_showRevoked := b\<rparr>\<rparr>"
| "keys_act h rand clip (KConfirm i) st = st\<lparr>ak_keys := (ak_keys st)\<lparr>ks_confirmId := i\<rparr>\<rparr>"
| "keys_act h rand clip (KRevoke i) st = revoke i st"
| "keys_act h rand clip (DTick n) st = st\<lparr>ak_now := ak_now st + int n\<rparr>"
| "keys_act h rand clip _ st = st"

section \<open>Lemmas\<close>

lemma offered_token_row: "offered (token_row h confirmId t) =
    (if tok_status t = ''revoked'' then {}
     else if confirmId = Some (tok_id t) then {KConfirm None, KRevoke (tok_id t)} else {KConfirm (Some (tok_id t))})"
  by (auto simp: token_row_def Let_def offered_Elem offered_list_map)

lemma offered_TokensManager: "offered (TokensManager h ks tokens) =
    range KShowRevoked \<union> {DGenerateOpen} \<union>
    (\<Union>t \<in> {t \<in> set tokens. ks_showRevoked ks \<or> tok_status t = ''active''}. offered (token_row h (ks_confirmId ks) t))"
  by (auto simp: TokensManager_def Let_def offered_Elem offered_list_map)

lemma offered_ApiKeysTab: "offered (ApiKeysTab h ks tokens) =
    range KQuery \<union> {DGenerateOpen} \<union> offered (TokensManager h ks (filter (token_matches (ks_query ks)) tokens))"
  by (auto simp: ApiKeysTab_def keys_stats_def Let_def offered_Elem)

lemma offered_GenerateTokenModal: "offered (GenerateTokenModal m) = {DClose} \<union>
    (if gm_created m = None
     then range GName \<union> GScope ` sc_id ` set ALL_SCOPES \<union> GExpiry ` {''7'', ''30'', ''90'', ''365'', ''never''} \<union> range GIpAllow \<union>
       (if trim (gm_name m) = [] \<or> gm_scopes m = [] then {} else {GGenerate})
     else {GCopy})"
  by (auto simp: GenerateTokenModal_def secret_view_def generate_form_def generate_foot_def Let_def offered_Elem offered_list_concat
      split: option.splits if_splits)

text \<open>What the dialog keeps: scopes that exist, each once, and one of the offered periods.\<close>

definition generate_ok :: "generate_state \<Rightarrow> bool" where
  "generate_ok m \<longleftrightarrow> distinct (gm_scopes m) \<and> set (gm_scopes m) \<subseteq> sc_id ` set ALL_SCOPES \<and>
     gm_expiry m \<in> {''7'', ''30'', ''90'', ''365'', ''never''}"

lemma generate_ok_new: "generate_ok new_generate"
  by (simp add: generate_ok_def new_generate_def ALL_SCOPES_def)

lemma generate_ok_toggle: "generate_ok m \<Longrightarrow> s \<in> sc_id ` set ALL_SCOPES \<Longrightarrow> generate_ok (toggleScope s m)"
  by (auto simp: generate_ok_def toggleScope_def)

lemma generate_ok_cong:
  "generate_ok (m\<lparr>gm_name := v\<rparr>) = generate_ok m" "generate_ok (m\<lparr>gm_ipAllow := v\<rparr>) = generate_ok m"
  "generate_ok (m\<lparr>gm_copied := b\<rparr>) = generate_ok m" "generate_ok (m\<lparr>gm_created := c\<rparr>) = generate_ok m"
  "generate_ok m \<Longrightarrow> x \<in> {''7'', ''30'', ''90'', ''365'', ''never''} \<Longrightarrow> generate_ok (m\<lparr>gm_expiry := x\<rparr>)"
  by (simp_all add: generate_ok_def)

text \<open>A token as the dialog makes it.\<close>

definition fresh_token :: "host \<Rightarrow> token \<Rightarrow> bool" where
  "fresh_token h t \<longleftrightarrow> tok_name t \<noteq> [] \<and> trim (tok_name t) = tok_name t \<and> tok_scopes t \<noteq> [] \<and> distinct (tok_scopes t) \<and>
     set (tok_scopes t) \<subseteq> sc_id ` set ALL_SCOPES \<and> tok_status t = ''active'' \<and> tok_revokedAt t = None \<and>
     starts_with (tok_prefix t) ''rr_pat_'' \<and> length (tok_prefix t) \<le> 12 \<and>
     (tok_expiresAt t = None \<or> (\<exists>n \<in> {7, 30, 90, 365}. tok_expiresAt t = Some (addDays h (tok_createdAt t) n)))"

lemma read_periods:
  "read_digits ''7'' = 7" "read_digits ''30'' = 30" "read_digits ''90'' = 90" "read_digits ''365'' = 365"
  by (simp_all add: read_digits_def char_code_def)

lemma generate_tokens:
  assumes "trim (gm_name m) \<noteq> []" "gm_scopes m \<noteq> []" "generate_ok m"
  shows "\<exists>t v. ak_tokens (generate h rand m st) = t # ak_tokens st \<and> fresh_token h t \<and> tok_createdAt t = ak_now st \<and>
    ak_modal (generate h rand m st) = Some (m\<lparr>gm_created := Some (t, v)\<rparr>) \<and> tok_prefix t = take 12 v"
  using assms by (auto simp: generate_def Let_def fresh_token_def generate_ok_def read_periods)

lemma generate_guard: "trim (gm_name m) = [] \<or> gm_scopes m = [] \<Longrightarrow> generate h rand m st = st"
  by (simp add: generate_def)

section \<open>Revoking\<close>

text \<open>The tokens after some revocations: each is as it was, or it was not revoked and now is.\<close>

definition revoked_since :: "token \<Rightarrow> token \<Rightarrow> bool" where
  "revoked_since t0 t \<longleftrightarrow> t = t0 \<or> tok_status t0 \<noteq> ''revoked'' \<and> (\<exists>d. t = t0\<lparr>tok_status := ''revoked'', tok_revokedAt := Some d\<rparr>)"

lemma revoked_since_id: "revoked_since t0 t \<Longrightarrow> tok_id t = tok_id t0"
  by (auto simp: revoked_since_def)

lemma revoked_since_revoke:
  "revoked_since t0 t \<Longrightarrow> tok_status t \<noteq> ''revoked'' \<Longrightarrow> revoked_since t0 (t\<lparr>tok_status := ''revoked'', tok_revokedAt := Some d\<rparr>)"
  by (auto simp: revoked_since_def)

lemma list_all2_ids: "list_all2 revoked_since ts us \<Longrightarrow> map tok_id us = map tok_id ts"
  by (induction rule: list_all2_induct) (auto dest: revoked_since_id)

lemma distinct_id_eq: "distinct (map f xs) \<Longrightarrow> x \<in> set xs \<Longrightarrow> y \<in> set xs \<Longrightarrow> f x = f y \<Longrightarrow> x = y"
  by (auto simp: distinct_map dest: inj_onD)

lemma revoke_since:
  assumes "list_all2 revoked_since ts us" "distinct (map tok_id ts)" "t \<in> set us" "tok_status t \<noteq> ''revoked''" "tok_id t = i"
  shows "list_all2 revoked_since ts (map (\<lambda>t. if tok_id t = i then t\<lparr>tok_status := ''revoked'', tok_revokedAt := Some d\<rparr> else t) us)"
proof -
  have "distinct (map tok_id us)" using assms(1,2) list_all2_ids by simp
  then have one: "u \<in> set us \<Longrightarrow> tok_id u = i \<Longrightarrow> tok_status u \<noteq> ''revoked''" for u
    using distinct_id_eq [of tok_id us u t] assms(3,4,5) by auto
  show ?thesis unfolding list.rel_map
    by (rule list.rel_mono_strong [OF assms(1)]) (auto intro: revoked_since_revoke dest: one)
qed

definition keys_start :: "token list \<Rightarrow> int \<Rightarrow> api_keys" where
  "keys_start tokens now = \<lparr>ak_tokens = tokens, ak_keys = new_keys, ak_modal = None, ak_now = now, ak_rand = 0\<rparr>"

interpretation keys_tab: ui_component "\<lambda>st. Some (ApiKeysTab h (ak_keys st) (ak_tokens st))" "range DTick" "keys_act h rand clip"
  "keys_start tokens now" "\<lambda>st. distinct (map tok_id tokens) \<longrightarrow> list_all2 revoked_since tokens (ak_tokens st)"
  for h rand clip tokens now
proof
  show "distinct (map tok_id tokens) \<longrightarrow> list_all2 revoked_since tokens (ak_tokens (keys_start tokens now))"
    by (simp add: keys_start_def revoked_since_def list.rel_refl)
  fix st :: api_keys and a
  assume inv: "distinct (map tok_id tokens) \<longrightarrow> list_all2 revoked_since tokens (ak_tokens st)"
    and a: "a \<in> offered_opt (Some (ApiKeysTab h (ak_keys st) (ak_tokens st))) \<union> range DTick"
  show "distinct (map tok_id tokens) \<longrightarrow> list_all2 revoked_since tokens (ak_tokens (keys_act h rand clip a st))"
  proof
    assume d: "distinct (map tok_id tokens)"
    have "(\<exists>t \<in> set (ak_tokens st). tok_status t \<noteq> ''revoked'' \<and> a = KRevoke (tok_id t)) \<or> ak_tokens (keys_act h rand clip a st) = ak_tokens st"
      using a by (auto simp: offered_ApiKeysTab offered_TokensManager offered_token_row split: if_splits)
    then show "list_all2 revoked_since tokens (ak_tokens (keys_act h rand clip a st))"
      using inv d by (auto simp: revoke_def intro: revoke_since)
  qed
qed

section \<open>Properties\<close>

text \<open>
  C23. Revocation is exact and final: whatever is done on the page of the tokens, no token appears or disappears, and each is as it was
  or was not revoked before and now is, with nothing else of it changed. A token that is shown and not revoked can be revoked with two clicks, which revoke
  it alone and with the current time.
\<close>

theorem token_revocation:
  assumes "distinct (map tok_id tokens)"
    and "ui_reach (\<lambda>st. Some (ApiKeysTab h (ak_keys st) (ak_tokens st))) (range DTick) (keys_act h rand clip) (keys_start tokens now) st"
    and "t \<in> set (ak_tokens st)" "tok_status t = ''active''" "token_matches (ks_query (ak_keys st)) t" "ks_confirmId (ak_keys st) \<noteq> Some (tok_id t)"
    and "st1 = keys_act h rand clip (KConfirm (Some (tok_id t))) st" "st2 = keys_act h rand clip (KRevoke (tok_id t)) st1"
  shows "list_all2 revoked_since tokens (ak_tokens st) \<and>
    KConfirm (Some (tok_id t)) \<in> offered (ApiKeysTab h (ak_keys st) (ak_tokens st)) \<and>
    KRevoke (tok_id t) \<in> offered (ApiKeysTab h (ak_keys st1) (ak_tokens st1)) \<and>
    ak_tokens st2 = map (\<lambda>u. if u = t then t\<lparr>tok_status := ''revoked'', tok_revokedAt := Some (ak_now st)\<rparr> else u) (ak_tokens st) \<and>
    ks_confirmId (ak_keys st2) = None"
proof (intro conjI)
  show since: "list_all2 revoked_since tokens (ak_tokens st)" using keys_tab.inv_reach [OF assms(2)] assms(1) by simp
  have "distinct (map tok_id (ak_tokens st))" using since assms(1) list_all2_ids by simp
  then have "u \<in> set (ak_tokens st) \<Longrightarrow> tok_id u = tok_id t \<longleftrightarrow> u = t" for u
    using distinct_id_eq [of tok_id "ak_tokens st" u t] assms(3) by auto
  then show "ak_tokens st2 = map (\<lambda>u. if u = t then t\<lparr>tok_status := ''revoked'', tok_revokedAt := Some (ak_now st)\<rparr> else u) (ak_tokens st)"
    by (auto simp: assms(7,8) revoke_def)
  show "KConfirm (Some (tok_id t)) \<in> offered (ApiKeysTab h (ak_keys st) (ak_tokens st))"
    using assms(3-6) by (auto simp: offered_ApiKeysTab offered_TokensManager offered_token_row intro!: bexI [of _ t])
  show "KRevoke (tok_id t) \<in> offered (ApiKeysTab h (ak_keys st1) (ak_tokens st1))"
    using assms(3-5) by (auto simp: assms(7) offered_ApiKeysTab offered_TokensManager offered_token_row intro!: bexI [of _ t])
  show "ks_confirmId (ak_keys st2) = None" by (simp add: assms(8) revoke_def)
qed

definition example_token :: token where
  "example_token = \<lparr>tok_id = ''tok_1'', tok_name = ''CI'', tok_prefix = ''rr_pat_a8sd'', tok_scopes = [''rollouts.read''], tok_createdBy = ''luc'', tok_createdAt = 0,
     tok_lastUsedAt = None, tok_expiresAt = None, tok_status = ''active'', tok_revokedAt = None, tok_ipAllowlist = []\<rparr>"

theorem token_revocation_witness:
  "KRevoke ''tok_1'' \<in> offered (ApiKeysTab utc_host (new_keys\<lparr>ks_confirmId := Some ''tok_1''\<rparr>) [example_token])"
  using token_revocation [OF _ ui_reach.init, of "[example_token]" example_token 0 _ utc_host "\<lambda>n. []" True, OF _ _ _ _ _ refl refl]
  by (simp add: example_token_def keys_start_def new_keys_def token_matches_def)

text \<open>
  The badge of a token that expires soon does not tell when: whenever the token expires within thirty days from today, it says that
  it expires in one hour.
\<close>

theorem expiry_badge_one_hour:
  assumes "tok_expiresAt t = Some d" "TODAY h \<le> d" "d < TODAY h + 30 * 86400000"
  shows "expires_soon h t \<and> replace_first '' ago'' '' from now'' (fmtAgo h (tok_expiresAt t)) = ''1h from now''"
proof -
  have "days_ago h d \<le> 0" using assms(2) by (simp add: days_ago_def divide_nonpos_pos)
  then have "max 1 (js_round (days_ago h d * 24)) = 1" using js_round_mono [of "days_ago h d * 24" 0] js_round_of_int [of 0] by simp
  moreover have "show_int 1 = ''1''" by code_simp
  moreover have "(of_int (d - TODAY h) :: rat) < of_int (30 * 86400000)" using assms(3) unfolding of_int_less_iff by simp
  ultimately show ?thesis
    using assms(1) \<open>days_ago h d \<le> 0\<close> by (simp add: expires_soon_def fmtAgo_def Let_def)
qed

theorem expiry_badge_one_hour_witness:
  "replace_first '' ago'' '' from now'' (fmtAgo utc_host (Some (TODAY utc_host + 20 * 86400000))) = ''1h from now''"
  using expiry_badge_one_hour [of "example_token\<lparr>tok_expiresAt := Some (TODAY utc_host + 20 * 86400000)\<rparr>" "TODAY utc_host + 20 * 86400000" utc_host] by simp

end
