(* ===== verification/RR_Docs.thy ===== *)
theory RR_Docs
  imports RR_Tokens
begin

text \<open>
  The documentation page as a whole, \<open>DocsView\<close> of \<open>src/design/project/docs.jsx\<close> (lines 5 to 114): its tabs, the table of
  contents with its scrolling, the open tab, and the dialog for a new token. After a change of the tab an
  effect reads the first section of the new tab; where it throws, React removes the whole application: \<open>dc_dead\<close>. \<open>dc_scrolled\<close> is
  the anchor that was last scrolled into view.
\<close>

section \<open>State\<close>

record docs_state = api_keys +
  dc_section :: string
  dc_tab :: string
  dc_scrolled :: "string option"
  dc_dead :: bool

definition sections_of :: "string \<Rightarrow> docs_section list" where
  "sections_of tab = (if tab = ''rest'' then REST_SECTIONS else if tab = ''mcp'' then MCP_SECTIONS else [])"

text \<open>The effect on the tab: \<open>setSection(sections[0].id)\<close>\<close>

definition reset_section :: "docs_state \<Rightarrow> docs_state" where
  "reset_section st = (case sections_of (dc_tab st) of
     [] \<Rightarrow> st\<lparr>dc_dead := True\<rparr>
   | s # _ \<Rightarrow> st\<lparr>dc_section := ds_id s\<rparr>)"

definition docs_start :: "host \<Rightarrow> int \<Rightarrow> docs_state" where
  "docs_start h now = reset_section
     \<lparr>ak_tokens = SEED_TOKENS h, ak_keys = new_keys, ak_modal = None, ak_now = now, ak_rand = 0,
      dc_section = ''overview'', dc_tab = ''rest'', dc_scrolled = None, dc_dead = False\<rparr>"

section \<open>Rendering\<close>

definition docs_toolbar :: "docs_action node" where
  "docs_toolbar =
    Elem ''div'' [cls ''rr-docs-toolbar'']
      [Elem ''div'' []
        [Elem ''h1'' [cls ''rr-md-title''] [Text ''Developers''],
         Elem ''p'' [cls ''rr-md-sub''] [Text ''REST API and Model Context Protocol (MCP) integration for ReleaseRadar.'']],
       Elem ''div'' [cls ''rr-docs-toolbar-r'']
        [Elem ''a'' [cls ''rr-btn rr-btn-ghost rr-btn-sm''] [Icon (ICONS ''download'') 13, Text '' Download OpenAPI spec''],
         Elem ''button'' [cls ''rr-btn rr-btn-primary rr-btn-sm'', On ''onClick'' DGenerateOpen]
          [Icon (ICONS ''link'') 13, Text '' Generate API token'']]]"

definition docs_tabs :: "string \<Rightarrow> token list \<Rightarrow> docs_action node" where
  "docs_tabs tab tokens =
    Elem ''div'' [cls ''rr-docs-tabs'']
      [Elem ''button'' [cls (''rr-md-tab '' @ (if tab = ''rest'' then ''is-active'' else [])), On ''onClick'' (DTab ''rest'')] [Text ''REST API''],
       Elem ''button'' [cls (''rr-md-tab '' @ (if tab = ''mcp'' then ''is-active'' else [])), On ''onClick'' (DTab ''mcp'')] [Text ''MCP Server''],
       Elem ''button'' [cls (''rr-md-tab '' @ (if tab = ''keys'' then ''is-active'' else [])), On ''onClick'' (DTab ''keys'')]
        [Text ''API Keys'', Elem ''span'' [cls ''rr-docs-tab-badge''] [Text (show_int (key_active tokens))]],
       Elem ''span'' [cls ''rr-docs-tab-meta'']
        (guarded (tab = ''rest'') [Text (''v2.4 '' @ u_middot @ '' OpenAPI 3.1'')] @
         guarded (tab = ''mcp'') [Text (''v0.3 '' @ u_middot @ '' @modelcontextprotocol/sdk 1.6'')] @
         guarded (tab = ''keys'') [Text ''Manage programmatic access''])]"

definition toc_child :: "docs_child \<Rightarrow> docs_action node" where
  "toc_child c =
    Elem ''li'' []
      [Elem ''button'' [cls ''rr-docs-toc-item-sub'', On ''onClick'' (DScrollTo (dk_id c))]
        ((case dk_method c of Some mth \<Rightarrow> [Elem ''span'' [cls (''rr-method rr-method-'' @ toLowerCase mth)] [Text mth]] | None \<Rightarrow> []) @
         [Text (dk_label c)])]"

definition toc_item :: "string \<Rightarrow> docs_section \<Rightarrow> docs_action node" where
  "toc_item section s =
    Elem ''li'' []
      ([Elem ''button'' [cls (''rr-docs-toc-item '' @ (if section = ds_id s then ''is-active'' else [])), On ''onClick'' (DScrollTo (ds_id s))]
        ((case ds_icon s of Some ic \<Rightarrow> [Icon (ICONS ic) 11] | None \<Rightarrow> []) @ [Elem ''span'' [] [Text (ds_label s)]])] @
       guarded (ds_children s \<noteq> []) [Elem ''ul'' [cls ''rr-docs-toc-sub''] (map toc_child (ds_children s))])"

definition docs_toc :: "string \<Rightarrow> string \<Rightarrow> docs_action node" where
  "docs_toc tab section =
    Elem ''aside'' [cls ''rr-docs-toc'']
      [Elem ''div'' [cls ''rr-docs-toc-title''] [Text (if tab = ''rest'' then ''REST endpoints'' else ''MCP capabilities'')],
       Elem ''ul'' [] (map (toc_item section) (sections_of tab))]"

definition docs_body :: "host \<Rightarrow> docs_state \<Rightarrow> docs_action node list" where
  "docs_body h st =
     (guarded (dc_tab st = ''rest'') RestDocs @ guarded (dc_tab st = ''mcp'') McpDocs @
      guarded (dc_tab st = ''keys'') [ApiKeysTab h (ak_keys st) (ak_tokens st)])"

definition DocsView :: "host \<Rightarrow> docs_state \<Rightarrow> docs_action node" where
  "DocsView h st =
    (let tab = dc_tab st in
     Elem ''div'' [cls ''rr-docs'']
      ([docs_toolbar, docs_tabs tab (ak_tokens st),
        Elem ''div'' [cls (''rr-docs-grid '' @ (if tab = ''keys'' then ''is-single'' else []))]
         (guarded (tab \<noteq> ''keys'') [docs_toc tab (dc_section st)] @
          [Elem ''div'' [cls ''rr-docs-body''] (docs_body h st)])] @
       (case ak_modal st of Some m \<Rightarrow> [GenerateTokenModal m] | None \<Rightarrow> [])))"

definition docs_view :: "host \<Rightarrow> docs_state \<Rightarrow> docs_action node option" where
  "docs_view h st = (if dc_dead st then None else Some (DocsView h st))"

section \<open>Actions\<close>

definition anchors :: "host \<Rightarrow> docs_state \<Rightarrow> string list" where
  "anchors h st = concat (map data_sections (docs_body h st))"

text \<open>The scroll handler: the last anchor above the line, at first the first section; it keeps the section when there is none.\<close>

definition scroll_spy :: "host \<Rightarrow> (nat \<Rightarrow> bool) \<Rightarrow> docs_state \<Rightarrow> docs_state" where
  "scroll_spy h passed st =
     (let first = (case sections_of (dc_tab st) of s # _ \<Rightarrow> Some (ds_id s) | [] \<Rightarrow> None);
          cur = foldl (\<lambda>cur (i, a). if passed i then Some a else cur) first (enumerate 0 (anchors h st)) in
      case cur of None \<Rightarrow> st | Some c \<Rightarrow> if c = [] then st else st\<lparr>dc_section := c\<rparr>)"

definition scrollTo :: "host \<Rightarrow> string \<Rightarrow> docs_state \<Rightarrow> docs_state" where
  "scrollTo h i st = (if i \<in> set (anchors h st) then st\<lparr>dc_scrolled := Some i\<rparr> else st)"

definition setTab :: "string \<Rightarrow> docs_state \<Rightarrow> docs_state" where
  "setTab t st = (if t = dc_tab st then st else reset_section (st\<lparr>dc_tab := t, ak_keys := new_keys\<rparr>))"

definition docs_act :: "host \<Rightarrow> (nat \<Rightarrow> string) \<Rightarrow> bool \<Rightarrow> docs_action \<Rightarrow> docs_state \<Rightarrow> docs_state" where
  "docs_act h rand clip a st =
     (if dc_dead st then st else case a of
        DTab t \<Rightarrow> setTab t st
      | DScrollTo i \<Rightarrow> scrollTo h i st
      | DScroll passed \<Rightarrow> scroll_spy h passed st
      | _ \<Rightarrow> keys_act h rand clip a st)"

definition docs_env :: "docs_action set" where
  "docs_env = range DScroll \<union> range DTick \<union> {GCopiedOff}"

section \<open>Lemmas\<close>

lemma offered_toc_child: "offered (toc_child c) = {DScrollTo (dk_id c)}"
  by (cases "dk_method c") (simp_all add: toc_child_def)

lemma offered_toc_item: "offered (toc_item section s) = insert (DScrollTo (ds_id s)) ((\<lambda>c. DScrollTo (dk_id c)) ` set (ds_children s))"
  by (cases "ds_icon s"; cases "ds_children s") (auto simp: toc_item_def offered_Elem offered_list_map offered_toc_child)

lemma offered_docs_toc: "offered (docs_toc tab section) =
    (\<Union>s \<in> set (sections_of tab). insert (DScrollTo (ds_id s)) ((\<lambda>c. DScrollTo (dk_id c)) ` set (ds_children s)))"
  by (auto simp: docs_toc_def offered_Elem offered_list_map offered_toc_item)

lemma offered_docs_body: "offered_list (docs_body h st) = (if dc_tab st = ''keys'' then offered (ApiKeysTab h (ak_keys st) (ak_tokens st)) else {})"
  by (simp add: docs_body_def docs_offer_nothing)

lemma offered_DocsView: "offered (DocsView h st) = {DGenerateOpen, DTab ''rest'', DTab ''mcp'', DTab ''keys''} \<union>
    (if dc_tab st = ''keys'' then offered (ApiKeysTab h (ak_keys st) (ak_tokens st)) else offered (docs_toc (dc_tab st) (dc_section st))) \<union>
    (case ak_modal st of Some m \<Rightarrow> offered (GenerateTokenModal m) | None \<Rightarrow> {})"
  by (auto simp: DocsView_def docs_toolbar_def docs_tabs_def Let_def offered_Elem offered_docs_body split: option.splits)

text \<open>Where the table of contents leads.\<close>

definition toc_ids :: "string \<Rightarrow> string list" where
  "toc_ids tab = concat (map (\<lambda>s. ds_id s # map dk_id (ds_children s)) (sections_of tab))"

lemma toc_offered: "DScrollTo i \<in> offered (docs_toc tab section) \<longleftrightarrow> i \<in> set (toc_ids tab)"
  by (auto simp: offered_docs_toc toc_ids_def)

lemma anchors_of_tab:
  "dc_tab st = ''rest'' \<Longrightarrow> anchors h st = concat (map data_sections (RestDocs :: docs_action node list))"
  "dc_tab st = ''mcp'' \<Longrightarrow> anchors h st = concat (map data_sections (McpDocs :: docs_action node list))"
  by (simp_all add: anchors_def docs_body_def)

lemma toc_anchored: "dc_tab st \<in> {''rest'', ''mcp''} \<Longrightarrow> set (toc_ids (dc_tab st)) \<subseteq> set (anchors h st) \<and> distinct (anchors h st)"
  by (auto simp: anchors_of_tab rest_anchors mcp_anchors toc_ids_def sections_of_def REST_SECTIONS_def MCP_SECTIONS_def)

lemma anchors_named: "dc_tab st \<in> {''rest'', ''mcp''} \<Longrightarrow> [] \<notin> set (anchors h st)"
  by (auto simp: anchors_of_tab rest_anchors mcp_anchors)

lemma anchors_cong: "dc_tab s = dc_tab st \<Longrightarrow> dc_tab st \<noteq> ''keys'' \<Longrightarrow> anchors h s = anchors h st"
  by (simp add: anchors_def docs_body_def)

lemma spy_mem: "foldl (\<lambda>cur (i, a). if passed i then Some a else cur) x (enumerate n as) = Some c \<Longrightarrow> x = Some c \<or> c \<in> set as"
proof (induction as arbitrary: x n)
  case (Cons a as)
  then show ?case by (cases "passed n") (fastforce simp del: enumerate_Suc)+
qed simp

text \<open>The invariant: as long as the page lives, one of the two tabs with sections is open, and the tokens are those it started with and new ones before them.\<close>

definition docs_inv :: "host \<Rightarrow> docs_state \<Rightarrow> bool" where
  "docs_inv h st \<longleftrightarrow> dc_dead st \<or> dc_tab st \<in> {''rest'', ''mcp''} \<and> dc_section st \<in> set (anchors h st) \<and>
     (\<exists>new. ak_tokens st = new @ SEED_TOKENS h \<and> (\<forall>t \<in> set new. fresh_token h t)) \<and>
     (\<forall>m. ak_modal st = Some m \<longrightarrow> generate_ok m)"

lemma first_section:
  "sections_of ''rest'' = \<lparr>ds_id = ''overview'', ds_label = ''Overview'', ds_icon = Some ''bolt'', ds_children = []\<rparr> # tl REST_SECTIONS"
  "sections_of ''mcp'' = \<lparr>ds_id = ''mcp-overview'', ds_label = ''What is MCP?'', ds_icon = Some ''bolt'', ds_children = []\<rparr> # tl MCP_SECTIONS"
  "sections_of ''keys'' = []"
  by (simp_all add: sections_of_def REST_SECTIONS_def MCP_SECTIONS_def)

lemma section_anchored: "tab \<in> {''rest'', ''mcp''} \<Longrightarrow> dc_tab st = tab \<Longrightarrow> sections_of tab = s # ss \<Longrightarrow> ds_id s \<in> set (anchors h st)"
  using toc_anchored [of st h] by (auto simp: toc_ids_def)

lemma docs_inv_start: "docs_inv h (docs_start h now)"
  by (simp add: docs_inv_def docs_start_def reset_section_def first_section anchors_of_tab rest_anchors)

lemma docs_inv_tab:
  assumes "docs_inv h st" "\<not> dc_dead st" "t \<in> {''rest'', ''mcp'', ''keys''}"
  shows "docs_inv h (setTab t st)"
  using assms by (auto simp: docs_inv_def setTab_def reset_section_def first_section anchors_of_tab rest_anchors mcp_anchors)

lemma docs_inv_spy:
  assumes "docs_inv h st" "\<not> dc_dead st"
  shows "docs_inv h (scroll_spy h passed st)"
proof -
  have tab: "dc_tab st \<in> {''rest'', ''mcp''}" using assms by (simp add: docs_inv_def)
  obtain s ss where s: "sections_of (dc_tab st) = s # ss" using tab first_section(1,2) by fastforce
  let ?cur = "foldl (\<lambda>cur (i, a). if passed i then Some a else cur) (Some (ds_id s)) (enumerate 0 (anchors h st))"
  have cur: "?cur = Some c \<Longrightarrow> c \<in> set (anchors h st)" for c
    using spy_mem [of passed "Some (ds_id s)" 0 "anchors h st" c] section_anchored [OF tab refl s] by auto
  show ?thesis
  proof (cases ?cur)
    case None
    then show ?thesis using assms by (simp add: scroll_spy_def s)
  next
    case (Some c)
    have "anchors h (st\<lparr>dc_section := c\<rparr>) = anchors h st" by (rule anchors_cong) (use tab in auto)
    then show ?thesis using assms cur [OF Some] by (simp add: scroll_spy_def s Some docs_inv_def)
  qed
qed

lemma keys_act_page:
  "dc_dead (keys_act h rand clip a st) = dc_dead st" "dc_tab (keys_act h rand clip a st) = dc_tab st"
  "dc_section (keys_act h rand clip a st) = dc_section st"
  by (cases a; simp add: on_modal_def revoke_def generate_def Let_def split: option.split)+

lemma docs_inv_keys:
  assumes "docs_inv h st" "\<not> dc_dead st" "a \<in> offered (DocsView h st) \<union> docs_env"
  shows "docs_inv h (keys_act h rand clip a st)"
proof -
  let ?s = "keys_act h rand clip a st"
  have tab: "dc_tab st \<in> {''rest'', ''mcp''}" and sec: "dc_section st \<in> set (anchors h st)"
    and mod: "\<And>m. ak_modal st = Some m \<Longrightarrow> generate_ok m"
    and tok: "\<exists>new. ak_tokens st = new @ SEED_TOKENS h \<and> (\<forall>t \<in> set new. fresh_token h t)"
    using assms(1,2) by (auto simp: docs_inv_def)
  have anch: "anchors h ?s = anchors h st" by (rule anchors_cong) (use tab in \<open>auto simp: keys_act_page\<close>)
  have act: "a \<in> {DGenerateOpen, DTab ''rest'', DTab ''mcp'', DTab ''keys''} \<union> range DScrollTo \<union> docs_env \<or> (\<exists>m. ak_modal st = Some m \<and> a \<in> offered (GenerateTokenModal m))"
    using assms(3) tab by (auto simp: offered_DocsView offered_docs_toc split: option.splits)
  have "(\<exists>new. ak_tokens ?s = new @ SEED_TOKENS h \<and> (\<forall>t \<in> set new. fresh_token h t)) \<and> (\<forall>m. ak_modal ?s = Some m \<longrightarrow> generate_ok m)"
  proof (cases "\<exists>m. ak_modal st = Some m \<and> a = GGenerate")
    case True
    then obtain m where m: "ak_modal st = Some m" "a = GGenerate" by blast
    show ?thesis
    proof (cases "trim (gm_name m) = [] \<or> gm_scopes m = []")
      case True
      then show ?thesis using m tok mod by (simp add: generate_guard)
    next
      case False
      then obtain t v where t: "ak_tokens ?s = t # ak_tokens st" "fresh_token h t" "ak_modal ?s = Some (m\<lparr>gm_created := Some (t, v)\<rparr>)"
        using generate_tokens [of m h rand st] mod m by auto
      obtain new where "ak_tokens st = new @ SEED_TOKENS h" "\<forall>t \<in> set new. fresh_token h t" using tok by blast
      then show ?thesis using t mod m by (auto intro!: exI [of _ "t # new"] simp: generate_ok_cong)
    qed
  next
    case False
    then have "ak_tokens ?s = ak_tokens st" "\<forall>m. ak_modal ?s = Some m \<longrightarrow> generate_ok m"
      using act mod generate_ok_new
      by (auto simp: docs_env_def offered_GenerateTokenModal on_modal_def generate_ok_cong generate_ok_toggle split: if_splits)
    then show ?thesis using tok by simp
  qed
  then show ?thesis using tab sec anch by (simp add: docs_inv_def keys_act_page)
qed

lemma docs_inv_act:
  assumes "docs_inv h st" "a \<in> offered_opt (docs_view h st) \<union> docs_env"
  shows "docs_inv h (docs_act h rand clip a st)"
proof (cases "dc_dead st")
  case False
  then have a: "a \<in> offered (DocsView h st) \<union> docs_env" using assms(2) by (simp add: docs_view_def)
  consider (tab) t where "a = DTab t" | (to) i where "a = DScrollTo i" | (spy) passed where "a = DScroll passed"
    | (other) "docs_act h rand clip a st = keys_act h rand clip a st"
    using False by (cases a) (simp_all add: docs_act_def)
  then show ?thesis
  proof cases
    case tab
    then have "t \<in> {''rest'', ''mcp'', ''keys''}"
      using a assms(1) False by (auto simp: docs_inv_def offered_DocsView offered_docs_toc offered_GenerateTokenModal docs_env_def split: option.splits if_splits)
    then show ?thesis using docs_inv_tab [OF assms(1) False] tab False by (simp add: docs_act_def)
  next
    case to
    have "docs_inv h (scrollTo h i st)"
    proof -
      have "anchors h (st\<lparr>dc_scrolled := Some i\<rparr>) = anchors h st" by (rule anchors_cong) (use assms(1) False in \<open>auto simp: docs_inv_def\<close>)
      then show ?thesis using assms(1) by (simp add: scrollTo_def docs_inv_def)
    qed
    then show ?thesis using to False by (simp add: docs_act_def)
  next
    case spy
    then show ?thesis using docs_inv_spy [OF assms(1) False] False by (simp add: docs_act_def)
  next
    case other
    then show ?thesis using docs_inv_keys [OF assms(1) False a] by simp
  qed
qed (simp add: docs_inv_def docs_act_def)

interpretation docs_page: ui_component "docs_view h" docs_env "docs_act h rand clip" "docs_start h now" "docs_inv h"
  for h rand clip now
  by unfold_locales (use docs_inv_start docs_inv_act in blast)+

section \<open>Properties\<close>

text \<open>
  C22. The documentation page in every state that its user can reach, as long as it is there: the REST or the MCP tab is open, the active
  section is an anchor of it, every entry of the table of contents scrolls to its section, and the tokens are the original ones
  after those created in the dialog, which have a name, known scopes and one of the offered periods.
\<close>

theorem docs_page_reachable:
  assumes "ui_reach (docs_view h) docs_env (docs_act h rand clip) (docs_start h now) st" "\<not> dc_dead st"
  shows "dc_tab st \<in> {''rest'', ''mcp''} \<and> dc_section st \<in> set (anchors h st) \<and> distinct (anchors h st) \<and>
    (\<forall>i. DScrollTo i \<in> offered (DocsView h st) \<longrightarrow> dc_scrolled (docs_act h rand clip (DScrollTo i) st) = Some i) \<and>
    (\<exists>new. ak_tokens st = new @ SEED_TOKENS h \<and> (\<forall>t \<in> set new. fresh_token h t))"
proof -
  have inv: "docs_inv h st" by (rule docs_page.inv_reach [OF assms(1)])
  then have tab: "dc_tab st \<in> {''rest'', ''mcp''}" using assms(2) by (simp add: docs_inv_def)
  have "dc_scrolled (docs_act h rand clip (DScrollTo i) st) = Some i" if "DScrollTo i \<in> offered (DocsView h st)" for i
  proof -
    have "i \<in> set (toc_ids (dc_tab st))"
      using that tab toc_offered [of i "dc_tab st" "dc_section st"]
      by (auto simp: offered_DocsView offered_GenerateTokenModal split: option.splits if_splits)
    then show ?thesis using toc_anchored [OF tab, of h] assms(2) by (auto simp: docs_act_def scrollTo_def)
  qed
  then show ?thesis using inv assms(2) toc_anchored [OF tab, of h] by (auto simp: docs_inv_def)
qed

theorem docs_page_reachable_witness: "dc_section (docs_start utc_host 0) \<in> set (anchors utc_host (docs_start utc_host 0))"
  using docs_page_reachable [OF ui_reach.init, of utc_host 0]
  by (simp add: docs_start_def reset_section_def first_section)

text \<open>
  The tab with the API keys cannot be opened: in every reachable state the page offers it, and opening it
  removes the application, because the effect reads the first of no sections.
\<close>

theorem keys_tab_breaks_page:
  assumes "ui_reach (docs_view h) docs_env (docs_act h rand clip) (docs_start h now) st" "\<not> dc_dead st"
  shows "DTab ''keys'' \<in> offered (DocsView h st) \<and> docs_view h (docs_act h rand clip (DTab ''keys'') st) = None"
proof -
  have "dc_tab st \<in> {''rest'', ''mcp''}" using docs_page.inv_reach [OF assms(1)] assms(2) by (simp add: docs_inv_def)
  then show ?thesis
    using assms(2) by (auto simp: offered_DocsView docs_view_def docs_act_def setTab_def reset_section_def first_section)
qed

theorem keys_tab_breaks_page_witness: "docs_view utc_host (docs_act utc_host (\<lambda>n. []) True (DTab ''keys'') (docs_start utc_host 0)) = None"
  using keys_tab_breaks_page [OF ui_reach.init, of utc_host 0 "\<lambda>n. []" True] by (simp add: docs_start_def reset_section_def first_section)

end
