(* ===== verification/RR_Export.thy ===== *)
theory RR_Export
  imports RR_Panels
begin

text \<open>
  The exported copy of the prototype under \<open>src/design/project/export/src\<close>, first part: its tables in
  \<open>data.js\<close> and the atoms, sidebar and header of \<open>shell.jsx\<close>. The copy is an older state of the program
  with files of its own; a definition here is the translation of the file there and carries the suffix
  \<open>_ex\<close>. Records and host operations are those of the current prototype where the fields agree. Rollout
  types still have a flag and two delays in days where the current ones have a plan, and stages have no
  announcement channel.
\<close>

section \<open>Tables\<close>

record legacy_type =
  lt_id :: string
  lt_name :: string
  lt_short :: string
  lt_tone :: string
  lt_cascade :: bool
  lt_delayProd1Days :: "int option"
  lt_delayProd2Days :: "int option"
  lt_announce :: string
  lt_rules :: "string list"
  lt_tasks :: "string list"

definition PRODUCTS_ex :: "product list" where
  "PRODUCTS_ex =
    [\<lparr>prod_id = ''operator'',
       prod_name = ''operator'',
       prod_owner = ''Team Athena'',
       prod_brokers = [''frankfurt-01'', ''frankfurt-02'', ''zeus-01'', ''zeus-02'']\<rparr>,
     \<lparr>prod_id = ''concentrator'',
       prod_name = ''concentrator'',
       prod_owner = ''Team Athena'',
       prod_brokers = [''frankfurt-01'', ''frankfurt-02'', ''zeus-01'', ''zeus-02'']\<rparr>,
     \<lparr>prod_id = ''monalesy'',
       prod_name = ''monalesy'',
       prod_owner = ''Team Hermes'',
       prod_brokers = [''mon-eu-1'', ''mon-eu-2'']\<rparr>,
     \<lparr>prod_id = ''microservices'',
       prod_name = ''micro services'',
       prod_owner = ''Platform Core'',
       prod_brokers = [''frontend'', ''appluser'', ''monitoring'', ''eks-info'', ''solace-exporter'', ''ca'', ''msg-dup'']\<rparr>]"

definition ROLLOUT_TYPES_ex :: "legacy_type list" where
  "ROLLOUT_TYPES_ex =
    [\<lparr>lt_id = ''tms-ssp-nc'',
       lt_name = ''tms-ssp non-critical'',
       lt_short = ''non-critical'',
       lt_tone = ''neutral'',
       lt_cascade = False,
       lt_delayProd1Days = None,
       lt_delayProd2Days = None,
       lt_announce = (''Ank'' @ u_ue @ ''ndigen in TMS_PROD min. 1h vorab''),
       lt_rules = [(''Micro-Service Rollout '' @ u_mdash @ '' kein Einfluss auf Produktion m'' @ u_oe @ ''glich''), ''Manuelle Nachkontrolle der Applikation + Logs''],
       lt_tasks = [(''Announce in TMS_PROD ('' @ u_ge @ '' 1h)''), ''Deploy to environment'', ''Manual log check'', ''Confirm green metrics in Grafana'']\<rparr>,
     \<lparr>lt_id = ''tms-ssp-c'',
       lt_name = ''tms-ssp critical'',
       lt_short = ''critical'',
       lt_tone = ''warn'',
       lt_cascade = False,
       lt_delayProd1Days = None,
       lt_delayProd2Days = None,
       lt_announce = (''Ank'' @ u_ue @ ''ndigen in TMS_PROD min. 1d vorab''),
       lt_rules = [''Deployment + broker creation disabled during window'', ''Maintenance mode aktiv'', ''Rollout im Pair'', ''Run broker diff before lifting maintenance mode''],
       lt_tasks = [(''Announce in TMS_PROD ('' @ u_ge @ '' 1d)''), ''Enable Maintenance Mode'', ''Disable deployment + broker creation'', ''Deploy'', ''Run broker diff on all brokers'', ''Lift Maintenance Mode'', ''Manual log check'']\<rparr>,
     \<lparr>lt_id = ''tms-ssp-hf'',
       lt_name = ''tms-ssp critical hotfix'',
       lt_short = ''critical hotfix'',
       lt_tone = ''danger'',
       lt_cascade = False,
       lt_delayProd1Days = None,
       lt_delayProd2Days = None,
       lt_announce = (''Ank'' @ u_ue @ ''ndigen in TMS_PROD min. 1h vorab''),
       lt_rules = [(''Pair review vorab um Risiko abzusch'' @ u_ae @ ''tzen''), ''via HotFix branch'', ''Maintenance mode aktiv'', ''Run broker diff vor Aufheben der Maintenance''],
       lt_tasks = [''Pair-review risk assessment'', ''Cut hotfix branch'', (''Announce in TMS_PROD ('' @ u_ge @ '' 1h)''), ''Enable Maintenance Mode'', ''Deploy hotfix'', ''Run broker diff on all brokers'', ''Lift Maintenance Mode'', ''Manual log check'']\<rparr>,
     \<lparr>lt_id = ''concentrator-mod'',
       lt_name = ''concentrator modification'',
       lt_short = ''concentrator mod'',
       lt_tone = ''warn'',
       lt_cascade = True,
       lt_delayProd1Days = Some 7,
       lt_delayProd2Days = Some 14,
       lt_announce = (''TMS_NP 1d '' @ u_bullet @ '' TMS_PROD 1w (prod1) '' @ u_bullet @ '' TMS_PROD 2w (prod2)''),
       lt_rules = [''Individuelles Rollout-Drehbuch erforderlich'', ''Maintenance mode aktiv'', ''Rollout im Pair'', ''Run broker diff vor Aufheben der Maintenance''],
       lt_tasks = [(''Announce in TMS_NP ('' @ u_ge @ '' 1d) for non-prod''), (''Announce in TMS_PROD ('' @ u_ge @ '' 1w) for prod1''), (''Announce in TMS_PROD ('' @ u_ge @ '' 2w) for prod2''), ''Enable Maintenance Mode'', ''Apply concentrator modification'', ''Run broker diff on all brokers'', ''Lift Maintenance Mode'', ''Manual log check'']\<rparr>,
     \<lparr>lt_id = ''operator-feature'',
       lt_name = ''operator feature (oracle & solace)'',
       lt_short = ''operator feature'',
       lt_tone = ''info'',
       lt_cascade = True,
       lt_delayProd1Days = Some 7,
       lt_delayProd2Days = Some 14,
       lt_announce = (''TMS_NP 1h '' @ u_bullet @ '' TMS_PROD 1w (prod1) '' @ u_bullet @ '' TMS_PROD 2w (prod2)''),
       lt_rules = [''Maintenance mode aktiv'', ''Rollout im Pair'', ''Run broker diff vor Aufheben der Maintenance''],
       lt_tasks = [(''Announce in TMS_NP ('' @ u_ge @ '' 1h)''), (''Announce in TMS_PROD ('' @ u_ge @ '' 1w prod1, '' @ u_ge @ '' 2w prod2)''), ''Enable Maintenance Mode'', ''Deploy operator (oracle + solace)'', ''Run broker diff on all brokers'', ''Lift Maintenance Mode'', ''Manual log check'']\<rparr>,
     \<lparr>lt_id = ''operator-hf'',
       lt_name = ''operator critical hotfix'',
       lt_short = ''operator hotfix'',
       lt_tone = ''danger'',
       lt_cascade = True,
       lt_delayProd1Days = Some 1,
       lt_delayProd2Days = Some 2,
       lt_announce = (''TMS_NP 1h '' @ u_bullet @ '' TMS_PROD 1d (prod1) '' @ u_bullet @ '' TMS_PROD 2d (prod2)''),
       lt_rules = [''via HotFix branch'', ''Maintenance mode aktiv'', ''Rollout im Pair''],
       lt_tasks = [''Cut hotfix branch'', (''Announce in TMS_NP ('' @ u_ge @ '' 1h)''), (''Announce in TMS_PROD ('' @ u_ge @ '' 1d prod1, '' @ u_ge @ '' 2d prod2)''), ''Enable Maintenance Mode'', ''Deploy hotfix'', ''Run broker diff on all brokers'', ''Lift Maintenance Mode'', ''Manual log check'']\<rparr>,
     \<lparr>lt_id = ''monalesy-feature'',
       lt_name = ''monalesy feature'',
       lt_short = ''monalesy feature'',
       lt_tone = ''info'',
       lt_cascade = False,
       lt_delayProd1Days = None,
       lt_delayProd2Days = None,
       lt_announce = ''TMS_PROD 1d vorab'',
       lt_rules = [''SNOW change / Anmeldung beim Kunden (prod)'', ''Rollout im Pair (prod)''],
       lt_tasks = [''Open SNOW change'', (''Announce in TMS_PROD ('' @ u_ge @ '' 1d)''), ''Customer notification'', ''Deploy monalesy'', ''Manual log check'']\<rparr>,
     \<lparr>lt_id = ''monalesy-patch'',
       lt_name = ''monalesy patch'',
       lt_short = ''monalesy patch'',
       lt_tone = ''neutral'',
       lt_cascade = False,
       lt_delayProd1Days = None,
       lt_delayProd2Days = None,
       lt_announce = ''TMS_PROD 1h vorab'',
       lt_rules = [''SNOW change bei prod-Komponenten'', ''Rollout im Pair bei prod-Komponenten''],
       lt_tasks = [''Open SNOW change (if prod)'', (''Announce in TMS_PROD ('' @ u_ge @ '' 1h)''), ''Deploy patch'', ''Manual log check'']\<rparr>]"

definition ACTORS_ex :: "actor list" where
  "ACTORS_ex =
    [\<lparr>ac_id = ''luc'',
       ac_name = ''Luc B.'',
       ac_initials = ''LB'',
       ac_hue = 210,
       ac_role = ''admin''\<rparr>,
     \<lparr>ac_id = ''hen'',
       ac_name = ''Henning H.'',
       ac_initials = ''HH'',
       ac_hue = 30,
       ac_role = ''admin''\<rparr>,
     \<lparr>ac_id = ''mira'',
       ac_name = ''Mira K.'',
       ac_initials = ''MK'',
       ac_hue = 280,
       ac_role = ''admin''\<rparr>,
     \<lparr>ac_id = ''tomas'',
       ac_name = (''Tom'' @ u_aacute @ u_scaron @ '' P.''),
       ac_initials = ''TP'',
       ac_hue = 150,
       ac_role = ''admin''\<rparr>,
     \<lparr>ac_id = ''sina'',
       ac_name = ''Sina W.'',
       ac_initials = ''SW'',
       ac_hue = 340,
       ac_role = ''readonly''\<rparr>,
     \<lparr>ac_id = ''ravi'',
       ac_name = ''Ravi N.'',
       ac_initials = ''RN'',
       ac_hue = 195,
       ac_role = ''admin''\<rparr>]"

definition TODAY_ex :: "host \<Rightarrow> int" where
  "TODAY_ex h = new_date h 2026 4 27"

definition dateKey_ex :: "int \<Rightarrow> string" where
  "dateKey_ex d = iso_day (d div ms_per_day)"

definition addDays_ex :: "host \<Rightarrow> int \<Rightarrow> int \<Rightarrow> int" where
  "addDays_ex h d n = set_date h d (getDate h d + n)"

definition ROLLOUTS_ex :: "rollout list" where
  "ROLLOUTS_ex =
    [\<lparr>ro_id = ''r-101'',
       ro_product = ''operator'',
       ro_typeId = ''operator-feature'',
       ro_title = (''operator 24.7 '' @ u_mdash @ '' broker auth refactor''),
       ro_stages = [\<lparr>sr_env = ''non-prod'', sr_offset = - 2, sr_time = ''09:00'', sr_duration = 2, sr_status = ''done''\<rparr>, \<lparr>sr_env = ''prod1'', sr_offset = 5, sr_time = ''10:00'', sr_duration = 2, sr_status = ''scheduled''\<rparr>, \<lparr>sr_env = ''prod2'', sr_offset = 12, sr_time = ''10:00'', sr_duration = 2, sr_status = ''scheduled''\<rparr>],
       ro_pair = [''luc'', ''hen''],
       ro_risks = ''Deployment + broker creation disabled for ~2h. Touches oracle schema migration (rev 14).'',
       ro_descExt = ''operator 24.7 rollout. Customers may observe transient broker creation latency during the maintenance window.'',
       ro_descInt = ''Includes oracle migration rev 14 + solace exporter v2.3. Pair-reviewed by Luc/Henning. Rollback path: revert deploy + downgrade migration.'',
       ro_checked = [0, 1, 2, 3]\<rparr>,
     \<lparr>ro_id = ''r-102'',
       ro_product = ''concentrator'',
       ro_typeId = ''concentrator-mod'',
       ro_title = (''concentrator '' @ u_mdash @ '' TLS 1.3 enforcement''),
       ro_stages = [\<lparr>sr_env = ''non-prod'', sr_offset = 1, sr_time = ''14:00'', sr_duration = 3, sr_status = ''scheduled''\<rparr>, \<lparr>sr_env = ''prod1'', sr_offset = 8, sr_time = ''10:00'', sr_duration = 3, sr_status = ''scheduled''\<rparr>, \<lparr>sr_env = ''prod2'', sr_offset = 15, sr_time = ''10:00'', sr_duration = 3, sr_status = ''scheduled''\<rparr>],
       ro_pair = [''mira'', ''tomas''],
       ro_risks = ''Old clients on TLS 1.2 will be rejected. Customer list reviewed; 3 customers notified individually.'',
       ro_descExt = ''concentrator enforces TLS 1.3 minimum. Legacy TLS 1.2 connections will be rejected after this rollout.'',
       ro_descInt = ''Drehbuch: docs/runbooks/conc-tls13.md. Pre-check: openssl scan against all brokers.'',
       ro_checked = []\<rparr>,
     \<lparr>ro_id = ''r-103'',
       ro_product = ''microservices'',
       ro_typeId = ''tms-ssp-nc'',
       ro_title = (''tms-ssp '' @ u_mdash @ '' frontend nav redesign''),
       ro_stages = [\<lparr>sr_env = ''non-prod'', sr_offset = 0, sr_time = ''11:00'', sr_duration = 1, sr_status = ''active''\<rparr>],
       ro_pair = [''sina''],
       ro_risks = ''Pure frontend change, feature-flagged.'',
       ro_descExt = ''Updated navigation in the TMS self-service portal.'',
       ro_descInt = (''Behind flag `nav-v2`. Roll-forward only '' @ u_mdash @ '' no DB changes.''),
       ro_checked = [0, 1]\<rparr>,
     \<lparr>ro_id = ''r-104'',
       ro_product = ''microservices'',
       ro_typeId = ''tms-ssp-hf'',
       ro_title = (''tms-ssp '' @ u_mdash @ '' auth token leak hotfix''),
       ro_stages = [\<lparr>sr_env = ''non-prod'', sr_offset = 2, sr_time = ''08:00'', sr_duration = 1, sr_status = ''blocked''\<rparr>],
       ro_pair = [''luc'', ''ravi''],
       ro_risks = (u_warning @ '' Lock Active: Bug on master (#4029). Force-push not acceptable. Rollout paused until hotfix branch is green.''),
       ro_descExt = ''Security hotfix addressing token leak in appluser service.'',
       ro_descInt = ''Hotfix branch: hotfix/4029-token-leak. Awaiting CI green before scheduling.'',
       ro_checked = [0]\<rparr>,
     \<lparr>ro_id = ''r-105'',
       ro_product = ''monalesy'',
       ro_typeId = ''monalesy-patch'',
       ro_title = (''monalesy '' @ u_mdash @ '' 12.4.2 patch''),
       ro_stages = [\<lparr>sr_env = ''non-prod'', sr_offset = 3, sr_time = ''13:00'', sr_duration = 1, sr_status = ''scheduled''\<rparr>],
       ro_pair = [''tomas''],
       ro_risks = ''Minor patch. No customer notification required (no prod components).'',
       ro_descExt = ''Routine monalesy patch.'',
       ro_descInt = (''Bumps libmon 2.4 '' @ u_arrow @ '' 2.4.1.''),
       ro_checked = []\<rparr>,
     \<lparr>ro_id = ''r-106'',
       ro_product = ''operator'',
       ro_typeId = ''operator-hf'',
       ro_title = (''operator '' @ u_mdash @ '' solace pool leak hotfix''),
       ro_stages = [\<lparr>sr_env = ''non-prod'', sr_offset = 4, sr_time = ''16:00'', sr_duration = 1, sr_status = ''scheduled''\<rparr>, \<lparr>sr_env = ''prod1'', sr_offset = 6, sr_time = ''10:00'', sr_duration = 1, sr_status = ''scheduled''\<rparr>, \<lparr>sr_env = ''prod2'', sr_offset = 8, sr_time = ''10:00'', sr_duration = 1, sr_status = ''scheduled''\<rparr>],
       ro_pair = [''hen'', ''mira''],
       ro_risks = ''Connection pool exhaustion under high fan-out. Hotfix branch already reviewed.'',
       ro_descExt = ''operator hotfix addressing solace connection pool exhaustion.'',
       ro_descInt = ''hotfix/solace-pool-leak. Cherry-picked from main.'',
       ro_checked = []\<rparr>,
     \<lparr>ro_id = ''r-107'',
       ro_product = ''monalesy'',
       ro_typeId = ''monalesy-feature'',
       ro_title = (''monalesy '' @ u_mdash @ '' multi-tenant export''),
       ro_stages = [\<lparr>sr_env = ''non-prod'', sr_offset = 9, sr_time = ''09:30'', sr_duration = 2, sr_status = ''scheduled''\<rparr>],
       ro_pair = [''ravi'', ''sina''],
       ro_risks = ''Customer-facing feature. SNOW change opened (CHG0094821).'',
       ro_descExt = ''Adds multi-tenant export support to monalesy.'',
       ro_descInt = ''Feature behind tenant flag. SNOW CHG0094821 raised.'',
       ro_checked = []\<rparr>]"

definition LOCKS_RAW_ex :: "lock list" where
  "LOCKS_RAW_ex =
    [\<lparr>lk_id = ''l-1'',
       lk_title = (''Berner Feiertag '' @ u_mdash @ '' Auffahrt''),
       lk_description = ''Cantonal holiday (Bern). No rollouts permitted.'',
       lk_contact = u_mdash,
       lk_startOffset = 7,
       lk_endOffset = 7,
       lk_products = [''all''],
       lk_kind = ''holiday''\<rparr>,
     \<lparr>lk_id = ''l-2'',
       lk_title = ''Master Branch Bug #4029'',
       lk_description = ''Auth token leak present on master. Do not deploy until hotfix branch is merged. Force-push on master is NOT permitted.'',
       lk_contact = (''Luc B. '' @ u_mdash @ '' #tms-platform''),
       lk_startOffset = - 1,
       lk_endOffset = 3,
       lk_products = [''microservices'', ''operator''],
       lk_kind = ''manual''\<rparr>,
     \<lparr>lk_id = ''l-3'',
       lk_title = ''Easter Friday'',
       lk_description = ''Public holiday. No rollouts.'',
       lk_contact = u_mdash,
       lk_startOffset = 14,
       lk_endOffset = 14,
       lk_products = [''all''],
       lk_kind = ''holiday''\<rparr>]"

definition isFriday_ex :: "host \<Rightarrow> int \<Rightarrow> bool" where
  "isFriday_ex h d \<longleftrightarrow> getDay h d = 5"

definition getProduct_ex :: "string \<Rightarrow> product option" where
  "getProduct_ex i = List.find (\<lambda>p. prod_id p = i) PRODUCTS_ex"

definition getType_ex :: "string \<Rightarrow> legacy_type option" where
  "getType_ex i = List.find (\<lambda>t. lt_id t = i) ROLLOUT_TYPES_ex"

definition getActor_ex :: "string \<Rightarrow> actor option" where
  "getActor_ex i = List.find (\<lambda>a. ac_id a = i) ACTORS_ex"

section \<open>Icons, tones, stages\<close>

definition ICONS_ex :: "string \<Rightarrow> string option" where
  "ICONS_ex = map_of
     [(''timeline'', ''M3 6h18M3 12h12M3 18h7''),
      (''rollout'', ''M4 12h10M4 12l4-4M4 12l4 4M14 4h6v16h-6''),
      (''lock'', ''M6 11h12v9H6zM8 11V8a4 4 0 1 1 8 0v3''),
      (''data'', ''M4 6c0-1.1 3.6-2 8-2s8 .9 8 2-3.6 2-8 2-8-.9-8-2zm0 0v12c0 1.1 3.6 2 8 2s8-.9 8-2V6M4 12c0 1.1 3.6 2 8 2s8-.9 8-2''),
      (''people'', ''M16 11a3 3 0 1 0-3-3M3 20a6 6 0 0 1 12 0M17 13a5 5 0 0 1 4 7M8 8a3 3 0 1 0 6 0 3 3 0 0 0-6 0z''),
      (''cal'', ''M3 5h18v16H3zM3 9h18M8 3v4M16 3v4''),
      (''download'', ''M12 4v12m0 0l-4-4m4 4l4-4M4 20h16''),
      (''search'', ''M11 4a7 7 0 1 0 0 14 7 7 0 0 0 0-14zm5 12 5 5''),
      (''plus'', ''M12 5v14M5 12h14''),
      (''warn'', ''M12 3l10 18H2L12 3zM12 10v5M12 18v.5''),
      (''check'', ''M4 12l5 5L20 6''),
      (''x'', ''M6 6l12 12M18 6L6 18''),
      (''chev'', ''M9 6l6 6-6 6''),
      (''dot'', ''M12 12.01''),
      (''bolt'', ''M13 3 4 14h7l-1 7 9-11h-7l1-7z''),
      (''filter'', ''M3 5h18M6 12h12M10 19h4''),
      (''link'', ''M10 14a5 5 0 0 0 7 0l3-3a5 5 0 0 0-7-7l-1 1M14 10a5 5 0 0 0-7 0l-3 3a5 5 0 0 0 7 7l1-1''),
      (''copy'', ''M9 9h11v11H9zM5 15V5h10''),
      (''user'', ''M12 12a4 4 0 1 0 0-8 4 4 0 0 0 0 8zM4 21a8 8 0 0 1 16 0'')]"

definition Icon_full_ex :: "string option \<Rightarrow> rat \<Rightarrow> rat \<Rightarrow> string \<Rightarrow> string \<Rightarrow> 'a node" where
  "Icon_full_ex d sz stroke className fill =
     Elem ''svg'' [AttrN ''width'' sz, AttrN ''height'' sz, Attr ''viewBox'' ''0 0 24 24'', Attr ''fill'' fill,
         Attr ''stroke'' ''currentColor'', AttrN ''strokeWidth'' stroke, Attr ''strokeLinecap'' ''round'',
         Attr ''strokeLinejoin'' ''round'', cls className]
       (case d of Some p \<Rightarrow> [Elem ''path'' [Attr ''d'' p] []] | None \<Rightarrow> [])"

abbreviation Icon_ex :: "string option \<Rightarrow> rat \<Rightarrow> 'a node" where
  "Icon_ex d sz \<equiv> Icon_full_ex d sz (16 / 10) [] ''none''"

definition TONE_ex :: "(string \<times> tone) list" where
  "TONE_ex =
     [(''neutral'', \<lparr>tn_bg = ''rgba(113,113,122,.16)'', tn_fg = ''#e4e4e7'', tn_bd = ''rgba(113,113,122,.4)''\<rparr>),
      (''info'', \<lparr>tn_bg = ''rgba(56,139,253,.12)'', tn_fg = ''#7cc4ff'', tn_bd = ''rgba(56,139,253,.4)''\<rparr>),
      (''warn'', \<lparr>tn_bg = ''rgba(245,158,11,.12)'', tn_fg = ''#fbbf24'', tn_bd = ''rgba(245,158,11,.4)''\<rparr>),
      (''danger'', \<lparr>tn_bg = ''rgba(239,68,68,.12)'', tn_fg = ''#fca5a5'', tn_bd = ''rgba(239,68,68,.45)''\<rparr>),
      (''ok'', \<lparr>tn_bg = ''rgba(34,197,94,.12)'', tn_fg = ''#86efac'', tn_bd = ''rgba(34,197,94,.4)''\<rparr>)]"

record stage_ex =
  sx_label :: string
  sx_short :: string
  sx_color :: string
  sx_soft :: string
  sx_border :: string

definition STAGE_ex :: "(string \<times> stage_ex) list" where
  "STAGE_ex =
     [(''non-prod'', \<lparr>sx_label = ''non-prod'', sx_short = ''NP'', sx_color = ''#a78bfa'', sx_soft = ''rgba(167,139,250,.15)'', sx_border = ''rgba(167,139,250,.55)''\<rparr>),
      (''prod1'', \<lparr>sx_label = (''prod1 '' @ u_middot @ '' Frankfurt''), sx_short = ''P1'', sx_color = ''#5eead4'', sx_soft = ''rgba(94,234,212,.12)'', sx_border = ''rgba(94,234,212,.5)''\<rparr>),
      (''prod2'', \<lparr>sx_label = (''prod2 '' @ u_middot @ '' Zeus''), sx_short = ''P2'', sx_color = ''#fbbf24'', sx_soft = ''rgba(251,191,36,.12)'', sx_border = ''rgba(251,191,36,.5)''\<rparr>)]"

section \<open>Atoms\<close>

definition Badge_ex :: "string \<Rightarrow> bool \<Rightarrow> bool \<Rightarrow> 'a node list \<Rightarrow> 'a node" where
  "Badge_ex tone dot monosp children =
     (let t = (case map_of TONE_ex tone of Some t \<Rightarrow> t | None \<Rightarrow> snd (hd TONE_ex)) in
      Elem ''span'' [cls ''rr-badge'', Sty ''background'' (tn_bg t), Sty ''color'' (tn_fg t), Sty ''borderColor'' (tn_bd t),
          Sty ''fontFamily'' (if monosp then ''var(--mono)'' else ''inherit'')]
        (guarded dot [Elem ''span'' [cls ''rr-badge-dot'', Sty ''background'' (tn_fg t)] []] @ children))"

definition Avatar_ex :: "string \<Rightarrow> rat \<Rightarrow> bool \<Rightarrow> 'a node list" where
  "Avatar_ex i sz ring = (case getActor_ex i of
     None \<Rightarrow> []
   | Some a \<Rightarrow>
       [Elem ''div'' [cls ''rr-avatar'',
          Attr ''title'' (ac_name a @ (if ac_role a = ''admin'' then '' (admin)'' else '' (readonly)'')),
          StyN ''width'' sz, StyN ''height'' sz,
          Sty ''background'' (''linear-gradient(135deg, hsl('' @ show_int (ac_hue a) @ '' 60% 38%), hsl('' @
            show_int (ac_hue a) @ '' 60% 24%))''),
          Sty ''boxShadow'' (if ring then ''0 0 0 2px #0a0a0c, 0 0 0 3px hsl('' @ show_int (ac_hue a) @ '' 60% 45%)''
            else ''inset 0 0 0 1px rgba(255,255,255,.08)''),
          StyN ''fontSize'' (sz * (42 / 100))]
         [Text (ac_initials a)]])"

definition AvatarStack_ex :: "string list \<Rightarrow> int \<Rightarrow> 'a node" where
  "AvatarStack_ex ids sz =
     Elem ''div'' [cls ''rr-avstack'', Sty ''--sz'' (show_int sz @ ''px'')]
       (concat (map (\<lambda>i. Avatar_ex i (of_int sz) False) ids))"

section \<open>Sidebar and header\<close>

definition NAV_ex :: "nav_item list" where
  "NAV_ex =
     [\<lparr>nav_id = ''timeline'', nav_label = ''Timeline'', nav_icon = ICONS_ex ''timeline'', nav_badge = None\<rparr>,
      \<lparr>nav_id = ''active'', nav_label = ''Active Rollouts'', nav_icon = ICONS_ex ''rollout'', nav_badge = None\<rparr>,
      \<lparr>nav_id = ''locks'', nav_label = ''Locks'', nav_icon = ICONS_ex ''lock'', nav_badge = Some 3\<rparr>,
      \<lparr>nav_id = ''data'', nav_label = ''Master Data'', nav_icon = ICONS_ex ''data'', nav_badge = None\<rparr>,
      \<lparr>nav_id = ''actors'', nav_label = ''Actors'', nav_icon = ICONS_ex ''people'', nav_badge = None\<rparr>]"

definition productColor_ex :: "string \<Rightarrow> string" where
  "productColor_ex i = (case map_of
       [(''operator'', ''#a78bfa''), (''concentrator'', ''#5eead4''), (''monalesy'', ''#fbbf24''),
        (''microservices'', ''#fb7185'')] i of
     Some c \<Rightarrow> c | None \<Rightarrow> ''#888'')"

definition Sidebar_ex :: "string \<Rightarrow> shell_action node" where
  "Sidebar_ex active =
    Elem ''aside'' [cls ''rr-sidebar'']
      [Elem ''div'' [cls ''rr-brand'']
        [Elem ''div'' [cls ''rr-brand-mark'']
          [Elem ''svg'' [Attr ''viewBox'' ''0 0 24 24'', Attr ''width'' ''20'', Attr ''height'' ''20'', Attr ''fill'' ''none'', Attr ''stroke'' ''currentColor'', Attr ''strokeWidth'' ''1.8'']
            [Elem ''circle'' [Attr ''cx'' ''12'', Attr ''cy'' ''12'', Attr ''r'' ''2''] [],
             Elem ''circle'' [Attr ''cx'' ''12'', Attr ''cy'' ''12'', Attr ''r'' ''6.5'', Attr ''opacity'' ''.55''] [],
             Elem ''circle'' [Attr ''cx'' ''12'', Attr ''cy'' ''12'', Attr ''r'' ''11'', Attr ''opacity'' ''.25''] [],
             Elem ''path'' [Attr ''d'' ''M12 1v3M12 20v3M1 12h3M20 12h3''] []]],
         Elem ''div'' []
          [Elem ''div'' [cls ''rr-brand-name'']
            [Text ''ReleaseRadar''],
           Elem ''div'' [cls ''rr-brand-sub'']
            [Text (''tms-platform '' @ u_middot @ '' prod'')]]],
       Elem ''div'' [cls ''rr-cta-row'']
        [Elem ''button'' [cls ''rr-btn rr-btn-primary'', On ''onClick'' CreateRollout]
          [Icon_ex (ICONS_ex ''plus'') 14,
           Text '' New rollout''],
         Elem ''button'' [cls ''rr-btn rr-btn-ghost'', On ''onClick'' CreateLock, Attr ''title'' ''Create lock'']
          [Icon_ex (ICONS_ex ''lock'') 14]],
       Elem ''nav'' [cls ''rr-nav'']
        (map (\<lambda>n.
            Elem ''button'' [cls (''rr-nav-item '' @ (if (active = (nav_id n)) then ''is-active'' else [])), On ''onClick'' (Nav (nav_id n))]
              ([Icon_ex (nav_icon n) 15,
               Elem ''span'' []
                [Text (nav_label n)]] @
               (case nav_badge n of Some b \<Rightarrow> guarded (b \<noteq> 0) [Elem ''span'' [cls ''rr-nav-badge''] [Text (show_int b)]] | None \<Rightarrow> [])))
          NAV_ex),
       Elem ''div'' [cls ''rr-side-section'']
        [Elem ''div'' [cls ''rr-side-section-title'']
          [Text ''Filters''],
         Elem ''div'' [cls ''rr-chip-list'']
          (map (\<lambda>p.
              Elem ''button'' [cls ''rr-chip'']
                [Elem ''span'' [cls ''rr-chip-dot'', Sty ''background'' (productColor_ex (prod_id p))] [],
                 Text (prod_name p)])
            PRODUCTS_ex)],
       Elem ''div'' [cls ''rr-side-section'']
        [Elem ''div'' [cls ''rr-side-section-title'']
          [Text ''Legend''],
         Elem ''div'' [cls ''rr-legend'']
          (map (\<lambda>(k, s).
              Elem ''div'' [cls ''rr-legend-row'']
                [Elem ''span'' [cls ''rr-legend-sq'', Sty ''background'' (sx_soft s), Sty ''borderColor'' (sx_border s), Sty ''color'' (sx_color s)]
                  [Text (sx_short s)],
                 Elem ''span'' []
                  [Text (sx_label s)]])
            STAGE_ex @
           [Elem ''div'' [cls ''rr-legend-row'']
            [Elem ''span'' [cls ''rr-legend-lock''] [],
             Elem ''span'' []
              [Text ''Rollout-Sperre'']]])],
       Elem ''div'' [cls ''rr-side-foot'']
        [Elem ''div'' [cls ''rr-foot-row'']
          [Elem ''span'' [cls ''rr-status-dot''] [],
           Text ('' API healthy '' @ u_middot @ '' 11ms'')],
         Elem ''div'' [cls ''rr-foot-row rr-foot-muted'']
          [Text (''v2.4.1 '' @ u_middot @ '' 7d uptime'')]]]"

datatype header_action = Scope nat

definition Header_ex :: "nat \<Rightarrow> header_action node" where
  "Header_ex scope =
    Elem ''header'' [cls ''rr-header'']
      [Elem ''div'' [cls ''rr-header-left'']
        [Elem ''div'' [cls ''rr-breadcrumbs'']
          [Elem ''span'' [cls ''rr-crumb-muted'']
            [Text ''Workspace''],
           Icon_full_ex (ICONS_ex ''chev'') 12 (16 / 10) ''rr-crumb-sep'' ''none'',
           Elem ''span'' [cls ''rr-crumb'']
            [Text ''Release planning''],
           Icon_full_ex (ICONS_ex ''chev'') 12 (16 / 10) ''rr-crumb-sep'' ''none'',
           Elem ''span'' [cls ''rr-crumb-active'']
            [Text ''Timeline'']]],
       Elem ''div'' [cls ''rr-header-search'']
        [Icon_ex (ICONS_ex ''search'') 14,
         Elem ''input'' [Attr ''placeholder'' (''Search rollouts, brokers, tasks'' @ u_ellipsis)] [],
         Elem ''kbd'' []
          [Text (u_cmd @ ''K'')]],
       Elem ''div'' [cls ''rr-header-right'']
        [Elem ''div'' [cls ''rr-seg'']
          (map (\<lambda>(i, s).
              Elem ''button'' [cls (''rr-seg-item '' @ (if (scope = i) then ''is-active'' else [])), On ''onClick'' (Scope i)]
                [Text s])
            (enumerate 0 [''Week'', ''2 Weeks'', ''3 Weeks'', ''Month''])),
         Elem ''button'' [cls ''rr-btn rr-btn-ghost rr-btn-sm'']
          [Icon_ex (ICONS_ex ''cal'') 13,
           Text '' Today''],
         Elem ''button'' [cls ''rr-btn rr-btn-ghost rr-btn-sm'']
          [Icon_ex (ICONS_ex ''download'') 13,
           Text '' Export Cal-DAV''],
         Elem ''div'' [cls ''rr-divider''] [],
         Elem ''div'' [cls ''rr-user'']
          (Avatar_ex ''luc'' 28 True @
           [Elem ''div'' [cls ''rr-user-meta'']
            [Elem ''div'' [cls ''rr-user-name'']
              [Text ''Luc Baumann''],
             Elem ''div'' [cls ''rr-user-role'']
              [Elem ''span'' [cls ''rr-role-pill'']
                [Text ''admin''],
               Text '' IT-DA-EXT'']]])]]"

section \<open>Agreement with the current prototype\<close>

text \<open>What the copy holds unchanged.\<close>

lemma tables_same:
  "PRODUCTS_ex = PRODUCTS" "ACTORS_ex = ACTORS" "ROLLOUTS_ex = ROLLOUTS" "LOCKS_RAW_ex = LOCKS_RAW" "TONE_ex = TONE"
  by (simp_all only: PRODUCTS_ex_def PRODUCTS_def ACTORS_ex_def ACTORS_def ROLLOUTS_ex_def ROLLOUTS_def
      LOCKS_RAW_ex_def LOCKS_RAW_def TONE_ex_def TONE_def)

lemma dates_same: "TODAY_ex = TODAY" "dateKey_ex = dateKey" "addDays_ex = addDays" "isFriday_ex = isFriday"
  by (simp_all add: fun_eq_iff TODAY_ex_def TODAY_def dateKey_ex_def dateKey_def addDays_ex_def addDays_def isFriday_ex_def isFriday_def)

lemma lookups_same: "getProduct_ex = getProduct" "getActor_ex = getActor"
  by (simp_all add: fun_eq_iff getProduct_ex_def getProduct_def getActor_ex_def getActor_def tables_same)

lemma icons_same:
  "ICONS_ex ''timeline'' = ICONS ''timeline''" "ICONS_ex ''rollout'' = ICONS ''rollout''" "ICONS_ex ''lock'' = ICONS ''lock''"
  "ICONS_ex ''data'' = ICONS ''data''" "ICONS_ex ''people'' = ICONS ''people''" "ICONS_ex ''cal'' = ICONS ''cal''"
  "ICONS_ex ''download'' = ICONS ''download''" "ICONS_ex ''search'' = ICONS ''search''" "ICONS_ex ''plus'' = ICONS ''plus''"
  "ICONS_ex ''warn'' = ICONS ''warn''" "ICONS_ex ''check'' = ICONS ''check''" "ICONS_ex ''x'' = ICONS ''x''"
  "ICONS_ex ''chev'' = ICONS ''chev''" "ICONS_ex ''dot'' = ICONS ''dot''" "ICONS_ex ''bolt'' = ICONS ''bolt''"
  "ICONS_ex ''filter'' = ICONS ''filter''" "ICONS_ex ''link'' = ICONS ''link''" "ICONS_ex ''copy'' = ICONS ''copy''"
  "ICONS_ex ''user'' = ICONS ''user''"
  by (simp_all add: ICONS_ex_def ICONS_def)

lemma atoms_same:
  "Icon_full_ex = Icon_full" "Badge_ex = Badge" "Avatar_ex = Avatar" "AvatarStack_ex = AvatarStack" "productColor_ex = productColor"
  unfolding fun_eq_iff Icon_full_ex_def Icon_full_def Badge_ex_def Badge_def tone_or_neutral_def Avatar_ex_def Avatar_def
    AvatarStack_ex_def AvatarStack_def productColor_ex_def productColor_def tables_same lookups_same by simp_all

lemmas export_same = tables_same dates_same lookups_same icons_same atoms_same

text \<open>What changed: a stage lost its announcement fields, a rollout type had two delays for a plan.\<close>

definition legacy_stage :: "stage_meta \<Rightarrow> stage_ex" where
  "legacy_stage s = \<lparr>sx_label = st_label s, sx_short = st_short s, sx_color = st_color s, sx_soft = st_soft s, sx_border = st_border s\<rparr>"

lemma legacy_stage_sel [simp]:
  "sx_label (legacy_stage s) = st_label s" "sx_short (legacy_stage s) = st_short s" "sx_color (legacy_stage s) = st_color s"
  "sx_soft (legacy_stage s) = st_soft s" "sx_border (legacy_stage s) = st_border s"
  by (simp_all add: legacy_stage_def)

lemma STAGE_ex_legacy: "STAGE_ex = map (\<lambda>(k, s). (k, legacy_stage s)) STAGE"
  by (simp add: STAGE_ex_def STAGE_def legacy_stage_def)

lemma stage_legacy: "map_of STAGE_ex k = map_option legacy_stage (map_of STAGE k)"
  unfolding STAGE_ex_legacy by (simp add: map_of_map comp_def)

definition legacy_delay :: "int option \<Rightarrow> int \<Rightarrow> int" where
  "legacy_delay d dflt = (case d of None \<Rightarrow> dflt | Some n \<Rightarrow> if n = 0 then dflt else n)"

definition modern_plan :: "legacy_type \<Rightarrow> plan_step list" where
  "modern_plan t = \<lparr>ps_stage = ''non-prod'', ps_delayHours = 0\<rparr> # guarded (lt_cascade t)
     [\<lparr>ps_stage = ''prod1'', ps_delayHours = 24 * legacy_delay (lt_delayProd1Days t) 7\<rparr>,
      \<lparr>ps_stage = ''prod2'', ps_delayHours = 24 * legacy_delay (lt_delayProd2Days t) 14\<rparr>]"

definition modern_type :: "legacy_type \<Rightarrow> rollout_type" where
  "modern_type t = \<lparr>rt_id = lt_id t, rt_name = lt_name t, rt_short = lt_short t, rt_tone = lt_tone t,
     rt_cascadePlan = modern_plan t, rt_announce = lt_announce t, rt_rules = lt_rules t, rt_tasks = lt_tasks t\<rparr>"

lemma modern_type_sel [simp]:
  "rt_id (modern_type t) = lt_id t" "rt_name (modern_type t) = lt_name t" "rt_short (modern_type t) = lt_short t"
  "rt_tone (modern_type t) = lt_tone t" "rt_cascadePlan (modern_type t) = modern_plan t" "rt_announce (modern_type t) = lt_announce t"
  "rt_rules (modern_type t) = lt_rules t" "rt_tasks (modern_type t) = lt_tasks t"
  by (simp_all add: modern_type_def)

lemma types_modern: "ROLLOUT_TYPES = map modern_type ROLLOUT_TYPES_ex"
  unfolding ROLLOUT_TYPES_def ROLLOUT_TYPES_ex_def
  by (simp only: list.map modern_type_def modern_plan_def legacy_type.simps guarded_def legacy_delay_def option.case if_True if_False) simp

lemma find_map: "List.find P (map f xs) = map_option f (List.find (\<lambda>x. P (f x)) xs)"
  by (induction xs) simp_all

lemma getType_modern: "getType i = map_option modern_type (getType_ex i)"
  by (simp add: getType_def getType_ex_def types_modern find_map)

end
