(* ===== verification/RR_ExportTimeline.thy ===== *)
theory RR_ExportTimeline
  imports RR_Export
begin

text \<open>
  The exported copy of the prototype, second part: \<open>export/src/timeline.jsx\<close>. The timeline there has no
  filter; the number of days is a property of the page, its counters are fixed texts, and the cards of the
  locks and contacts stand below the grid. Its handlers are those of the current timeline, so it uses the
  same actions; opening a lock does nothing.
\<close>

section \<open>Dates and columns\<close>

definition DAY_W_ex :: int where "DAY_W_ex = 56"
definition ROW_H_ex :: int where "ROW_H_ex = 64"
definition LABEL_W_ex :: int where "LABEL_W_ex = 280"
definition DAYS_DEFAULT :: int where "DAYS_DEFAULT = 21"

definition fmtDay_ex :: "host \<Rightarrow> int \<Rightarrow> string" where
  "fmtDay_ex h d = locale_date h [(''day'', ''2-digit'')] d"

definition fmtMon_ex :: "host \<Rightarrow> int \<Rightarrow> string" where
  "fmtMon_ex h d = locale_date h [(''month'', ''short'')] d"

definition fmtWD_ex :: "host \<Rightarrow> int \<Rightarrow> string" where
  "fmtWD_ex h d = locale_date h [(''weekday'', ''short'')] d"

definition sameDay_ex :: "int \<Rightarrow> int \<Rightarrow> bool" where
  "sameDay_ex a b \<longleftrightarrow> dateKey_ex a = dateKey_ex b"

definition lockSpan_ex :: "host \<Rightarrow> lock \<Rightarrow> int \<Rightarrow> int \<times> int" where
  "lockSpan_ex h lock start =
     (let lockStart = addDays_ex h (TODAY_ex h) (lk_startOffset lock);
          lockEnd = addDays_ex h (TODAY_ex h) (lk_endOffset lock);
          startDelta = (lockStart - start) div 86400000;
          endDelta = (lockEnd - start) div 86400000
      in (startDelta * DAY_W_ex, (endDelta - startDelta + 1) * DAY_W_ex))"

section \<open>Rows\<close>

definition StagePill_ex :: "stage_run \<Rightarrow> int \<Rightarrow> timeline_action \<Rightarrow> bool \<Rightarrow> timeline_action node option" where
  "StagePill_ex stage dayIndex click active = (case map_of STAGE_ex (sr_env stage) of
     None \<Rightarrow> None
   | Some s \<Rightarrow>
      (let left = dayIndex * DAY_W_ex + 4;
           width = max 28 ((if sr_duration stage = 0 then 1 else sr_duration stage) * DAY_W_ex - 8);
           isBlocked = sr_status stage = ''blocked'';
           isActive = sr_status stage = ''active'';
           isDone = sr_status stage = ''done''
       in Some (Elem ''button'' [On ''onClick'' click, cls ((''rr-pill '' @ (if active then ''is-focus '' else [])) @ (if isBlocked then ''is-blocked'' else [])), StyN ''left'' (of_int left), StyN ''width'' (of_int width), StyN ''top'' 10, StyN ''height'' (of_int (ROW_H_ex - 20)), Sty ''background'' (''linear-gradient(180deg, '' @ (sx_soft s) @ '', rgba(0,0,0,0))''), Sty ''borderColor'' (sx_border s), Sty ''color'' (sx_color s), Attr ''title'' ((sx_label s) @ ('' '' @ u_middot @ '' '') @ (sr_time stage))]
           ([Elem ''span'' [cls ''rr-pill-tag'', Sty ''background'' (sx_color s)]
             [Text (sx_short s)],
            Elem ''span'' [cls ''rr-pill-body'']
             [Elem ''span'' [cls ''rr-pill-time'', Sty ''color'' (sx_color s)]
               [Text (sr_time stage)],
              Elem ''span'' [cls ''rr-pill-meta'']
               (guarded isDone
                 [Elem ''span'' [cls ''rr-pill-dot is-done''] [],
                  Text '' done''] @
                guarded isActive
                 [Elem ''span'' [cls ''rr-pill-dot is-active''] [],
                  Text '' in flight''] @
                guarded isBlocked
                 [Elem ''span'' [cls ''rr-pill-dot is-blocked''] [],
                  Text '' locked''] @
                guarded ((sr_status stage) = ''scheduled'')
                 [Text ''+'',
                  Text (show_int (sr_duration stage)),
                  Text ''h window''])]] @
            guarded isActive
             [Elem ''span'' [cls ''rr-pill-pulse'', Sty ''background'' (sx_color s)] []]))))"

definition Cascade_ex :: "int \<Rightarrow> int \<Rightarrow> string \<Rightarrow> 'a node list" where
  "Cascade_ex fromIdx toIdx color =
     (let left = fromIdx * DAY_W_ex + DAY_W_ex div 2 + 16;
          right = toIdx * DAY_W_ex + DAY_W_ex div 2 - 16;
          w = right - left
      in if w \<le> 0 then []
         else [Elem ''div'' [cls ''rr-cascade'', StyN ''left'' (of_int left), StyN ''width'' (of_int w), StyN ''top'' (of_int (ROW_H_ex div 2 - 1))]
              [Elem ''span'' [cls ''rr-cascade-line'', Sty ''background'' (''linear-gradient(90deg, '' @ color @ '' 0%, '' @ color @ '' 100%)'')] [],
               Elem ''span'' [cls ''rr-cascade-arrow'', Sty ''borderLeftColor'' color] [],
               Elem ''span'' [cls ''rr-cascade-label'']
                [Text ''+'',
                 Text (show_int (js_round (of_int w / of_int DAY_W_ex) + 0)),
                 Text ''d'']]])"

definition placed_ex :: "host \<Rightarrow> int \<Rightarrow> rollout \<Rightarrow> (stage_run \<times> int) list" where
  "placed_ex h start rollout = map (\<lambda>st. (st, (addDays_ex h (TODAY_ex h) (sr_offset st) - start) div 86400000)) (ro_stages rollout)"

text \<open>The connectors of neighbouring stages; the colour is read from the later one.\<close>

fun connectors_ex :: "(stage_run \<times> int) list \<Rightarrow> 'a node list option" where
  "connectors_ex (p # q # ps) = (case map_of STAGE_ex (sr_env (fst q)) of
     None \<Rightarrow> None
   | Some s \<Rightarrow> map_option (\<lambda>ns. Cascade_ex (snd p) (snd q) (sx_color s) @ ns) (connectors_ex (q # ps)))"
| "connectors_ex ps = Some []"

definition RolloutTrack_ex :: "host \<Rightarrow> rollout \<Rightarrow> int \<Rightarrow> string option \<Rightarrow> timeline_action node option" where
  "RolloutTrack_ex h rollout start focusedId =
     (let placed = placed_ex h start rollout in
      case (connectors_ex placed,
            those (map (\<lambda>p. StagePill_ex (fst p) (snd p) (TOpen (ro_id rollout)) (focusedId = Some (ro_id rollout))) placed)) of
        (Some cs, Some ps) \<Rightarrow> Some (Elem ''div'' [cls ''rr-row-track''] (cs @ ps))
      | _ \<Rightarrow> None)"

definition RolloutRowLabel_ex :: "rollout \<Rightarrow> string option \<Rightarrow> timeline_action node option" where
  "RolloutRowLabel_ex rollout focusedId =
     (case (getType_ex (ro_typeId rollout), getProduct_ex (ro_product rollout), those (map getActor_ex (ro_pair rollout))) of
        (Some ty, Some product, Some actors) \<Rightarrow> Some
         (Elem ''button'' [cls (''rr-row-label '' @ (if focusedId = Some (ro_id rollout) then ''is-focus'' else [])), On ''onClick'' (TOpen (ro_id rollout))]
           [Elem ''div'' [cls ''rr-row-label-top'']
             [Elem ''span'' [cls ''rr-prod-dot'', Sty ''background'' (productColor_ex (ro_product rollout))] [],
              Elem ''span'' [cls ''rr-row-product'']
               [Text (prod_name product)],
              Badge_ex (lt_tone ty) False False [Text (lt_short ty)]],
            Elem ''div'' [cls ''rr-row-title'']
             [Text (ro_title rollout)],
            Elem ''div'' [cls ''rr-row-meta'']
             [AvatarStack_ex (ro_pair rollout) 18,
              Elem ''span'' [cls ''rr-row-actors-text'']
               [Text (join_with ('' '' @ u_middot @ '' '') (map (\<lambda>a. split_first '' '' (ac_name a)) actors))]]])
      | _ \<Rightarrow> None)"

text \<open>One row with its label and track in one element, a component that no page uses any more.\<close>

definition RolloutRow :: "host \<Rightarrow> rollout \<Rightarrow> int \<Rightarrow> string option \<Rightarrow> timeline_action node option" where
  "RolloutRow h rollout start focusedId =
     (let placed = placed_ex h start rollout in
      case (getType_ex (ro_typeId rollout), getProduct_ex (ro_product rollout), those (map getActor_ex (ro_pair rollout)),
            connectors_ex placed,
            those (map (\<lambda>p. StagePill_ex (fst p) (snd p) (TOpen (ro_id rollout)) (focusedId = Some (ro_id rollout))) placed)) of
        (Some ty, Some product, Some actors, Some cs, Some ps) \<Rightarrow> Some
         (Elem ''div'' [cls ''rr-row'', StyN ''height'' (of_int ROW_H_ex)]
           [Elem ''div'' [cls ''rr-row-label'']
             [Elem ''div'' [cls ''rr-row-label-top'']
               [Elem ''span'' [cls ''rr-prod-dot'', Sty ''background'' (productColor_ex (ro_product rollout))] [],
                Elem ''span'' [cls ''rr-row-product'']
                 [Text (prod_name product)],
                Badge_ex (lt_tone ty) False False [Text (lt_short ty)]],
              Elem ''div'' [cls ''rr-row-title'']
               [Text (ro_title rollout)],
              Elem ''div'' [cls ''rr-row-meta'']
               [AvatarStack_ex (ro_pair rollout) 18,
                Elem ''span'' [cls ''rr-row-actors-text'']
                 [Text (join_with '' & '' (map (\<lambda>a. split_first '' '' (ac_name a)) actors))]]],
            Elem ''div'' [cls ''rr-row-track'']
             (cs @ ps)])
      | _ \<Rightarrow> None)"

definition Stat_ex :: "string \<Rightarrow> string \<Rightarrow> string \<Rightarrow> string \<Rightarrow> 'a node option" where
  "Stat_ex label value sub tone = (case map_of TONE_ex tone of
     None \<Rightarrow> None
   | Some t \<Rightarrow> Some
        (Elem ''div'' [cls ''rr-stat'']
           ([Elem ''div'' [cls ''rr-stat-label'']
             [Text label],
            Elem ''div'' [cls ''rr-stat-value'', Sty ''color'' (tn_fg t)]
             [Text value]] @
            guarded (sub \<noteq> []) [Elem ''div'' [cls ''rr-stat-sub''] [Text sub]])))"

section \<open>Header, locks and cards\<close>

definition day_cell_ex :: "host \<Rightarrow> int \<Rightarrow> int \<Rightarrow> 'a node" where
  "day_cell_ex h start i =
     (let d = addDays_ex h start i;
          isToday = sameDay_ex d (TODAY_ex h);
          isWE = getDay h d = 0 \<or> getDay h d = 6;
          isFri = isFriday_ex h d;
          showMonth = i = 0 \<or> getDate h d = 1 \<or> getDay h d = 1
      in Elem ''div'' [cls (((''rr-day '' @ (if isToday then ''is-today '' else [])) @ (if isWE then ''is-we '' else [])) @ (if isFri then ''is-fri'' else [])), StyN ''width'' (of_int DAY_W_ex)]
            ([Elem ''div'' [cls ''rr-day-wd'']
              [Text (fmtWD_ex h d)],
             Elem ''div'' [cls ''rr-day-num'']
              [Text (fmtDay_ex h d)]] @
             guarded showMonth
              [Elem ''div'' [cls ''rr-day-mon'']
                [Text (fmtMon_ex h d)]] @
             guarded isFri
              [Elem ''div'' [cls ''rr-day-flag'']
                [Text ''Fr-Lock'']] @
             guarded isToday
              [Elem ''div'' [cls ''rr-day-today'']
                [Text ''Today'']]))"

definition DaysHeader_ex :: "host \<Rightarrow> int \<Rightarrow> int \<Rightarrow> 'a node" where
  "DaysHeader_ex h start days = Elem ''div'' [cls ''rr-days''] (map (day_cell_ex h start) [0..days - 1])"

definition LockOverlay_ex :: "host \<Rightarrow> lock list \<Rightarrow> int \<Rightarrow> int \<Rightarrow> int \<Rightarrow> timeline_action node" where
  "LockOverlay_ex h locks start days totalHeight =
    Elem ''div'' [cls ''rr-locks-layer'', StyN ''width'' (of_int (days * DAY_W_ex)), StyN ''height'' (of_int totalHeight)]
      (concat (map (\<lambda>i.
          (let d = (addDays_ex h start i) in
          (if (\<not> (isFriday_ex h d)) then [] else
           [Elem ''div'' [cls ''rr-lock-col rr-lock-fri'', StyN ''left'' (of_int (i * DAY_W_ex)), StyN ''width'' (of_int DAY_W_ex), StyN ''height'' (of_int totalHeight), Attr ''title'' (''Friday rule '' @ u_mdash @ '' no rollouts'')] []])))
        [0..days - 1]) @
       concat (map (\<lambda>lock.
          (let (left, width) = lockSpan_ex h lock start in
          (if (((left + width) < 0) \<or> (left > (days * DAY_W_ex))) then [] else
           [Elem ''button'' [On ''onClick'' (TOpenLock (lk_id lock)), cls (''rr-lock-col rr-lock-'' @ (lk_kind lock)), StyN ''left'' (of_int left), StyN ''width'' (of_int width), StyN ''height'' (of_int totalHeight)]
             [Elem ''span'' [cls ''rr-lock-label'']
               [Icon_ex (ICONS_ex ''lock'') 11,
                Text (lk_title lock)]]])))
        locks))"

definition ActiveLocksCard_ex :: "host \<Rightarrow> lock list \<Rightarrow> 'a node" where
  "ActiveLocksCard_ex h locks =
    Elem ''section'' [cls ''rr-card'']
      [Elem ''header'' [cls ''rr-card-head'']
        [Elem ''h3'' []
          [Text ''Active locks (Rollout-Sperren)''],
         Elem ''button'' [cls ''rr-link'']
          [Icon_ex (ICONS_ex ''plus'') 12,
           Text '' New lock'']],
       Elem ''ul'' [cls ''rr-lock-list'']
        (concat (map (\<lambda>l.
            (let tone = (if ((lk_kind l) = ''manual'') then ''danger'' else ''warn'') in
            (let startD = addDays_ex h (TODAY_ex h) (lk_startOffset l) in
            (let endD = addDays_ex h (TODAY_ex h) (lk_endOffset l) in
            [Elem ''li'' [cls ''rr-lock-item'']
              [Elem ''div'' [cls ''rr-lock-item-stripes''] [],
               Elem ''div'' [cls ''rr-lock-item-body'']
                [Elem ''div'' [cls ''rr-lock-item-head'']
                  [Badge_ex tone False False [Text (if ((lk_kind l) = ''manual'') then ''MANUAL'' else ''HOLIDAY'')],
                   Elem ''strong'' []
                    [Text (lk_title l)]],
                 Elem ''p'' []
                  [Text (lk_description l)],
                 Elem ''div'' [cls ''rr-lock-item-foot'']
                  [Elem ''span'' []
                    [Icon_ex (ICONS_ex ''cal'') 11,
                     Text '' '',
                     Text (locale_date h [(''day'', ''2-digit''), (''month'', ''short'')] startD),
                     Text (if (\<not> (sameDay_ex startD endD)) then (('' '' @ u_arrow @ '' '') @ (locale_date h [(''day'', ''2-digit''), (''month'', ''short'')] endD)) else [])],
                   Elem ''span'' []
                    [Icon_ex (ICONS_ex ''user'') 11,
                     Text '' '',
                     Text (lk_contact l)],
                   Elem ''span'' []
                    [Icon_ex (ICONS_ex ''bolt'') 11,
                     Text '' '',
                     Text (if (''all'' \<in> set (lk_products l)) then ''all products'' else (join_with '', '' (lk_products l)))]]]]]))))
          locks))]"

record contact_ex =
  cx_product :: string
  cx_contact :: string
  cx_channel :: string
  cx_snow :: string

definition CONTACTS_ex :: "contact_ex list" where
  "CONTACTS_ex =
     [\<lparr>cx_product = ''operator'', cx_contact = (''Solace Ops '' @ u_mdash @ '' Lukas R.''), cx_channel = ''#tms-platform'', cx_snow = ''CHG / std-23''\<rparr>,
      \<lparr>cx_product = ''concentrator'', cx_contact = (''Customer Success '' @ u_mdash @ '' Eva G.''), cx_channel = ''#tms-cs'', cx_snow = ''CHG required''\<rparr>,
      \<lparr>cx_product = ''monalesy'', cx_contact = ''Tenant Owners'', cx_channel = ''#monalesy'', cx_snow = ''CHG (if prod)''\<rparr>,
      \<lparr>cx_product = ''microservices'', cx_contact = ''Platform Core on-call'', cx_channel = ''#tms-platform'', cx_snow = u_mdash\<rparr>]"

definition ContactsCard_ex :: "'a node" where
  "ContactsCard_ex =
    Elem ''section'' [cls ''rr-card'']
      [Elem ''header'' [cls ''rr-card-head'']
        [Elem ''h3'' []
          [Text ''Release-Freigabe contacts''],
         Elem ''span'' [cls ''rr-card-sub'']
          [Text ''Who to ping for SNOW changes & release windows'']],
       Elem ''table'' [cls ''rr-table'']
        [Elem ''thead'' []
          [Elem ''tr'' []
            [Elem ''th'' []
              [Text ''Product''],
             Elem ''th'' []
              [Text ''Contact''],
             Elem ''th'' []
              [Text ''Channel''],
             Elem ''th'' []
              [Text ''Change mgmt'']]],
         Elem ''tbody'' []
          (map (\<lambda>c.
              Elem ''tr'' []
                [Elem ''td'' []
                  [Elem ''span'' [cls ''rr-prod-dot'', Sty ''background'' (productColor_ex (cx_product c))] [],
                   Elem ''span'' [cls ''rr-table-prod'']
                    [Text (cx_product c)]],
                 Elem ''td'' []
                  [Text (cx_contact c)],
                 Elem ''td'' []
                  [Elem ''code'' []
                    [Text (cx_channel c)]],
                 Elem ''td'' []
                  [Text (cx_snow c)]])
            CONTACTS_ex)]]"

section \<open>The page\<close>

definition timeline_stats_ex :: "rollout list \<Rightarrow> lock list \<Rightarrow> 'a node list option" where
  "timeline_stats_ex rollouts locks = those
     [Stat_ex ''Scheduled'' (show_nat (length rollouts)) [] ''info'',
      Stat_ex ''In flight'' ''1'' [] ''ok'',
      Stat_ex ''Blocked'' ''1'' [] ''danger'',
      Stat_ex ''Active locks'' (show_nat (length locks) @ '' + Fr'') [] ''warn'',
      Stat_ex ''Window load'' ''62%'' ''vs. 3-wk avg 48%'' ''neutral'',
      Stat_ex ''Cal-DAV subs'' ''34'' ''last sync 4m ago'' ''neutral'']"

definition row_labels_ex :: "rollout list \<Rightarrow> string option \<Rightarrow> timeline_action node list option" where
  "row_labels_ex rs focusedId = those (map (\<lambda>r. map_option (\<lambda>n.
       Elem ''div'' [cls ''rr-row-label-slot'', StyN ''height'' (of_int ROW_H_ex)] [n]) (RolloutRowLabel_ex r focusedId)) rs)"

definition row_tracks_ex :: "host \<Rightarrow> rollout list \<Rightarrow> int \<Rightarrow> string option \<Rightarrow> timeline_action node list option" where
  "row_tracks_ex h rs start focusedId = those (map (\<lambda>(i, r). map_option (\<lambda>n.
       Elem ''div'' [cls ''rr-row-track-wrap'', StyN ''top'' (of_int (int i * ROW_H_ex)), StyN ''height'' (of_int ROW_H_ex)] [n])
     (RolloutTrack_ex h r start focusedId)) (enumerate 0 rs))"

text \<open>The state of the page is the offset of its first day; \<open>days\<close> is the property, with its default.\<close>

definition TimelineView_ex ::
    "host \<Rightarrow> rollout list \<Rightarrow> lock list \<Rightarrow> string option \<Rightarrow> int option \<Rightarrow> int \<Rightarrow> timeline_action node option" where
  "TimelineView_ex h rollouts locks focusedId daysProp offset =
     (let days = (case daysProp of None \<Rightarrow> DAYS_DEFAULT | Some d \<Rightarrow> d);
          start = addDays_ex h (TODAY_ex h) offset;
          trackW = days * DAY_W_ex;
          todayIdx = (TODAY_ex h - start) div 86400000;
          totalHeight = int (length rollouts) * ROW_H_ex
      in case (timeline_stats_ex rollouts locks, row_labels_ex rollouts focusedId, row_tracks_ex h rollouts start focusedId) of
        (Some stats, Some labels, Some tracks) \<Rightarrow> Some
         (Elem ''div'' [cls ''rr-timeline'']
           [Elem ''div'' [cls ''rr-tl-toolbar'']
             [Elem ''div'' [cls ''rr-tl-toolbar-left'']
               [Elem ''div'' [cls ''rr-month-title'']
                 [Elem ''span'' []
                   [Text (locale_date h [(''month'', ''long''), (''year'', ''numeric'')] start)],
                  Elem ''span'' [cls ''rr-month-range'']
                   [Text (locale_date h [(''day'', ''2-digit''), (''month'', ''short'')] start),
                    Text ('' '' @ u_arrow),
                    Text '' '',
                    Text (locale_date h [(''day'', ''2-digit''), (''month'', ''short'')] (addDays_ex h start (days - 1)))]],
                Elem ''div'' [cls ''rr-nav-arrows'']
                 [Elem ''button'' [cls ''rr-icon-btn'', On ''onClick'' (TShift (- 7)), Attr ''title'' ''Previous week'']
                   [Icon_full_ex (ICONS_ex ''chev'') 14 (16 / 10) ''rr-rot-180'' ''none''],
                  Elem ''button'' [cls ''rr-icon-btn'', On ''onClick'' TReset, Attr ''title'' ''Reset to today'']
                   [Text u_middot],
                  Elem ''button'' [cls ''rr-icon-btn'', On ''onClick'' (TShift 7), Attr ''title'' ''Next week'']
                   [Icon_ex (ICONS_ex ''chev'') 14]]],
              Elem ''div'' [cls ''rr-tl-toolbar-right'']
               [Elem ''button'' [cls ''rr-btn rr-btn-ghost rr-btn-sm'']
                 [Icon_ex (ICONS_ex ''filter'') 13,
                  Text '' Filter''],
                Elem ''button'' [cls ''rr-btn rr-btn-ghost rr-btn-sm'', On ''onClick'' TCreateLock]
                 [Icon_ex (ICONS_ex ''lock'') 13,
                  Text '' New lock''],
                Elem ''button'' [cls ''rr-btn rr-btn-primary rr-btn-sm'', On ''onClick'' TCreateRollout]
                 [Icon_ex (ICONS_ex ''plus'') 13,
                  Text '' New rollout'']]],
            Elem ''div'' [cls ''rr-tl-stats'']
             (stats),
            Elem ''div'' [cls ''rr-tl-scroll'']
             [Elem ''div'' [cls ''rr-tl-grid'', StyN ''width'' (of_int (LABEL_W_ex + trackW))]
               [Elem ''div'' [cls ''rr-tl-corner'', StyN ''width'' (of_int LABEL_W_ex)]
                 [Elem ''div'' [cls ''rr-tl-corner-title'']
                   [Text ''Rollout''],
                  Elem ''div'' [cls ''rr-tl-corner-sub'']
                   [Text (''Product '' @ u_middot @ '' Type '' @ u_middot @ '' Pair'')]],
                DaysHeader_ex h start days,
                Elem ''div'' [cls ''rr-tl-body'', StyN ''width'' (of_int (LABEL_W_ex + trackW))]
                 [Elem ''div'' [cls ''rr-tl-bodylabels'', StyN ''width'' (of_int LABEL_W_ex)]
                   (labels),
                  Elem ''div'' [cls ''rr-tl-tracks'', StyN ''width'' (of_int trackW), StyN ''height'' (of_int totalHeight)]
                   ([Elem ''div'' [cls ''rr-tl-gridlines'', StyN ''width'' (of_int trackW), Sty ''backgroundImage'' ((''repeating-linear-gradient(90deg,'' @ [CHR 0x0A] @ ''                  rgba(255,255,255,.04) 0px,'' @ [CHR 0x0A] @ ''                  rgba(255,255,255,.04) 1px,'' @ [CHR 0x0A] @ ''                  transparent 1px,'' @ [CHR 0x0A] @ ''                  transparent '') @ (show_int DAY_W_ex) @ ''px)'')] []] @
                    concat (map (\<lambda>i.
                       (let d = addDays_ex h start i in
                       (let we = ((getDay h d = 0) \<or> (getDay h d = 6)) in
                       (if (\<not> we) then [] else
                        [Elem ''div'' [cls ''rr-tl-weekend'', StyN ''left'' (of_int (i * DAY_W_ex)), StyN ''width'' (of_int DAY_W_ex)] []]))))
                     [0..days - 1]) @
                    [LockOverlay_ex h locks start days totalHeight] @
                    guarded ((todayIdx \<ge> 0) \<and> (todayIdx < days))
                     [Elem ''div'' [cls ''rr-today-line'', StyN ''left'' (of_int (todayIdx * DAY_W_ex + DAY_W_ex div 2))] []] @
                    tracks)]]],
            Elem ''div'' [cls ''rr-below-grid'']
             [ActiveLocksCard_ex h locks,
              ContactsCard_ex]])
      | _ \<Rightarrow> None)"

fun timeline_act_ex :: "timeline_action \<Rightarrow> int \<Rightarrow> int" where
  "timeline_act_ex (TShift n) offset = offset + n"
| "timeline_act_ex TReset offset = - 3"
| "timeline_act_ex _ offset = offset"

section \<open>Agreement with the current timeline\<close>

lemma geometry_same: "DAY_W_ex = DAY_W" "ROW_H_ex = ROW_H" "LABEL_W_ex = LABEL_W"
  by (simp_all add: DAY_W_ex_def DAY_W_def ROW_H_ex_def ROW_H_def LABEL_W_ex_def LABEL_W_def)

lemma format_same: "fmtDay_ex = fmtDay" "fmtMon_ex = fmtMon" "fmtWD_ex = fmtWD" "sameDay_ex = sameDay"
  by (simp_all add: fun_eq_iff fmtDay_ex_def fmtDay_def fmtMon_ex_def fmtMon_def fmtWD_ex_def fmtWD_def sameDay_ex_def sameDay_def dates_same)

lemma lockSpan_same: "lockSpan_ex = lockSpan"
  by (simp add: fun_eq_iff lockSpan_ex_def lockSpan_def column_def geometry_same dates_same)

lemma Cascade_same: "Cascade_ex = Cascade"
  unfolding fun_eq_iff Cascade_ex_def Cascade_def geometry_same by simp

lemma placed_same: "placed_ex h start r = placed_stages h start r"
  by (simp add: placed_ex_def placed_stages_def column_def dates_same)

lemma StagePill_same: "StagePill_ex = StagePill"
  by (simp add: fun_eq_iff StagePill_ex_def StagePill_def stage_legacy geometry_same split: option.split)

lemma connectors_same: "connectors_ex ps = connectors ps"
  by (induction ps rule: connectors.induct) (simp_all add: stage_legacy Cascade_same split: option.split)

lemma RolloutTrack_same: "RolloutTrack_ex = RolloutTrack"
  by (simp add: fun_eq_iff RolloutTrack_ex_def RolloutTrack_def placed_same connectors_same StagePill_same)

lemma RolloutRowLabel_same: "RolloutRowLabel_ex = RolloutRowLabel"
  by (simp add: fun_eq_iff RolloutRowLabel_ex_def RolloutRowLabel_def getType_modern lookups_same atoms_same split: option.split)

lemma day_cell_same: "day_cell_ex = day_cell"
  unfolding fun_eq_iff day_cell_ex_def day_cell_def format_same geometry_same dates_same by simp

lemma DaysHeader_same: "DaysHeader_ex = DaysHeader"
  by (simp add: fun_eq_iff DaysHeader_ex_def DaysHeader_def day_cell_same)

lemma LockOverlay_same: "LockOverlay_ex = LockOverlay"
  unfolding fun_eq_iff LockOverlay_ex_def LockOverlay_def geometry_same lockSpan_same export_same by simp

lemma ActiveLocksCard_same: "ActiveLocksCard_ex = ActiveLocksCard"
  unfolding fun_eq_iff ActiveLocksCard_ex_def ActiveLocksCard_def format_same export_same by simp

lemma row_labels_same: "row_labels_ex = row_labels"
  by (simp add: fun_eq_iff row_labels_ex_def row_labels_def RolloutRowLabel_same geometry_same)

lemma row_tracks_same: "row_tracks_ex = row_tracks"
  by (simp add: fun_eq_iff row_tracks_ex_def row_tracks_def RolloutTrack_same geometry_same)

lemmas timeline_same = geometry_same format_same lockSpan_same Cascade_same placed_same StagePill_same connectors_same
  RolloutTrack_same RolloutRowLabel_same day_cell_same DaysHeader_same LockOverlay_same ActiveLocksCard_same row_labels_same row_tracks_same

section \<open>What the page offers\<close>

lemma Stat_ex_renders [simp]: "tone \<in> {''neutral'', ''info'', ''warn'', ''danger'', ''ok''} \<Longrightarrow> Stat_ex l v s tone \<noteq> None"
  by (auto simp: Stat_ex_def TONE_ex_def)

lemma Stat_ex_offers: "offered_opt (Stat_ex l v s tone) = {}"
  by (simp add: Stat_ex_def split: option.split)

lemma stats_ex_render: "\<exists>ns. timeline_stats_ex rs ls = Some ns"
  unfolding timeline_stats_ex_def Stat_ex_def TONE_ex_def by simp

lemma stats_ex_offers: "timeline_stats_ex rs ls = Some ns \<Longrightarrow> offered_list ns = {}"
  using offered_list_those [where f = "\<lambda>x. x", unfolded list.map_ident, of _ ns]
  by (simp only: timeline_stats_ex_def) (auto simp: Stat_ex_offers)

lemma offered_ContactsCard_ex [simp]: "offered ContactsCard_ex = {}"
  by (simp add: ContactsCard_ex_def)

lemma offered_ActiveLocksCard [simp]: "offered (ActiveLocksCard h ls) = {}"
  by (simp add: ActiveLocksCard_def Let_def)

lemma TimelineView_ex_renders:
  assumes "\<forall>r \<in> set rs. resolves r"
  shows "TimelineView_ex h rs ls f d off \<noteq> None"
proof -
  obtain stats :: "timeline_action node list" and labels tracks where "timeline_stats_ex rs ls = Some stats" "row_labels rs f = Some labels"
    "row_tracks h rs (addDays h (TODAY h) off) f = Some tracks"
    using stats_ex_render row_labels_render [OF assms] row_tracks_render [OF assms] by blast
  then show ?thesis by (simp add: TimelineView_ex_def Let_def dates_same row_labels_same row_tracks_same)
qed

lemma TimelineView_ex_offers:
  assumes "TimelineView_ex h rs ls f d off = Some n"
  shows "offered n \<subseteq> {TShift (- 7), TShift 7, TReset, TCreateLock, TCreateRollout} \<union> range TOpenLock \<union> TOpen ` ro_id ` set rs"
    and "TOpen ` ro_id ` set rs \<subseteq> offered n"
proof -
  let ?start = "addDays h (TODAY h) off" and ?days = "case d of None \<Rightarrow> DAYS_DEFAULT | Some d \<Rightarrow> d"
  obtain stats :: "timeline_action node list" and labels tracks where s: "timeline_stats_ex rs ls = Some stats" and l: "row_labels rs f = Some labels"
    and t: "row_tracks h rs ?start f = Some tracks"
    using assms by (auto simp: TimelineView_ex_def Let_def dates_same row_labels_same row_tracks_same split: option.splits)
  have "offered n = offered_opt (TimelineView_ex h rs ls f d off)" using assms by simp
  also have "\<dots> = {TShift (- 7), TReset, TShift 7, TCreateLock, TCreateRollout} \<union> offered_list labels \<union>
      offered (LockOverlay h ls ?start ?days (int (length rs) * ROW_H)) \<union> offered_list tracks"
    unfolding TimelineView_ex_def Let_def export_same timeline_same s l t prod.case option.case offered_opt_simps
    using stats_ex_offers [OF s] by simp blast
  finally have n: "offered n = \<dots>" .
  show "offered n \<subseteq> {TShift (- 7), TShift 7, TReset, TCreateLock, TCreateRollout} \<union> range TOpenLock \<union> TOpen ` ro_id ` set rs"
    unfolding n using row_labels_offers [OF l] row_tracks_offers [OF t] offered_LockOverlay [of h ls ?start ?days "int (length rs) * ROW_H"]
    by (simp add: subset_iff image_iff)
  show "TOpen ` ro_id ` set rs \<subseteq> offered n" unfolding n row_labels_offers [OF l] by blast
qed

end
