(* ===== verification/RR_ExportPanels.thy ===== *)
theory RR_ExportPanels
  imports RR_ExportTimeline
begin

text \<open>
  The exported copy of the prototype, third part: \<open>export/src/panels.jsx\<close>. The drawer keeps the set of the
  checked tasks, in the order of insertion, and three texts; the dialogs have the state of the current ones
  without the announcement text. The cascade preview adds the two delays of the rollout type to the chosen
  start.
\<close>

section \<open>Executing a rollout\<close>

record exec_ex =
  xe_checked :: "nat list"
  xe_risks :: string
  xe_descExt :: string
  xe_descInt :: string

datatype exec_ex_action = XToggle nat | XDescExt string | XDescInt string | XRisks string | XClose

text \<open>\<open>new Set(xs)\<close>: a value keeps the place of its first occurrence.\<close>

definition new_set :: "nat list \<Rightarrow> nat list" where
  "new_set xs = foldl (\<lambda>s x. if x \<in> set s then s else s @ [x]) [] xs"

definition exec_init_ex :: "rollout \<Rightarrow> exec_ex" where
  "exec_init_ex r = \<lparr>xe_checked = new_set (ro_checked r), xe_risks = ro_risks r, xe_descExt = ro_descExt r, xe_descInt = ro_descInt r\<rparr>"

definition blockingLocks_ex :: "host \<Rightarrow> lock list \<Rightarrow> rollout \<Rightarrow> lock list" where
  "blockingLocks_ex h locks rollout = filter (\<lambda>l.
     (''all'' \<in> set (lk_products l) \<or> ro_product rollout \<in> set (lk_products l)) \<and>
     list_ex (\<lambda>st. let d = addDays_ex h (TODAY_ex h) (sr_offset st);
                       ls = addDays_ex h (TODAY_ex h) (lk_startOffset l);
                       le = addDays_ex h (TODAY_ex h) (lk_endOffset l)
                   in d \<ge> ls \<and> d \<le> le) (ro_stages rollout)) locks"

definition taskLog_ex :: "nat \<Rightarrow> (string \<times> string) option" where
  "taskLog_ex i = map_of [(0, (''luc'', ''09:54'')), (1, (''hen'', ''10:02'')), (2, (''luc'', ''10:11'')), (3, (''hen'', ''10:14''))] i"

definition toggle_ex :: "nat \<Rightarrow> nat list \<Rightarrow> nat list" where
  "toggle_ex i checked = (if i \<in> set checked then filter (\<lambda>x. x \<noteq> i) checked else checked @ [i])"

fun exec_act_ex :: "exec_ex_action \<Rightarrow> exec_ex \<Rightarrow> exec_ex" where
  "exec_act_ex (XToggle i) st = st\<lparr>xe_checked := toggle_ex i (xe_checked st)\<rparr>"
| "exec_act_ex (XDescExt v) st = st\<lparr>xe_descExt := v\<rparr>"
| "exec_act_ex (XDescInt v) st = st\<lparr>xe_descInt := v\<rparr>"
| "exec_act_ex (XRisks v) st = st\<lparr>xe_risks := v\<rparr>"
| "exec_act_ex XClose st = st"

text \<open>\<open>Math.round((checked.size / type.tasks.length) * 100)\<close>; without tasks it is not a number.\<close>

definition completion_ex :: "legacy_type \<Rightarrow> exec_ex \<Rightarrow> int option" where
  "completion_ex ty st = (if lt_tasks ty = [] then None
     else Some (js_round (of_nat (length (xe_checked st)) / of_nat (length (lt_tasks ty)) * 100)))"

definition exec_head_ex :: "rollout \<Rightarrow> legacy_type \<Rightarrow> product \<Rightarrow> exec_ex_action node" where
  "exec_head_ex rollout ty product =
    Elem ''header'' [cls ''rr-drawer-head'']
      [Elem ''div'' [cls ''rr-drawer-head-l'']
        [Elem ''div'' [cls ''rr-drawer-eyebrow'']
          [Elem ''span'' [cls ''rr-prod-dot'', Sty ''background'' (productColor_ex (ro_product rollout))] [],
           Elem ''span'' []
            [Text (prod_name product)],
           Elem ''span'' [cls ''rr-sep'']
            [Text ''/''],
           Badge_ex (lt_tone ty) False False [Text (lt_short ty)],
           Elem ''span'' [cls ''rr-sep'']
            [Text ''/''],
           Elem ''span'' [cls ''rr-mono rr-muted'']
            [Text (ro_id rollout)]],
         Elem ''h2'' [cls ''rr-drawer-title'']
          [Text (ro_title rollout)]],
       Elem ''div'' [cls ''rr-drawer-head-r'']
        [Elem ''button'' [cls ''rr-btn rr-btn-ghost rr-btn-sm'']
          [Icon_ex (ICONS_ex ''copy'') 13,
           Text '' Duplicate''],
         Elem ''button'' [cls ''rr-btn rr-btn-ghost rr-btn-sm'']
          [Icon_ex (ICONS_ex ''download'') 13,
           Text '' .ics''],
         Elem ''button'' [cls ''rr-btn rr-btn-primary rr-btn-sm'']
          [Text ''Execute next step''],
         Elem ''button'' [cls ''rr-icon-btn'', On ''onClick'' XClose]
          [Icon_ex (ICONS_ex ''x'') 14]]]"

definition exec_lock_banner_ex :: "lock list \<Rightarrow> exec_ex_action node list" where
  "exec_lock_banner_ex blocking = guarded (blocking \<noteq> [])
    [Elem ''div'' [cls ''rr-banner rr-banner-danger'']
      [Icon_ex (ICONS_ex ''warn'') 18,
       Elem ''div'' []
        [Elem ''strong'' []
          [Text (''Lock Active '' @ u_mdash @ '' Do not deploy.'')],
         Elem ''p'' []
          [Text (join_with ('' '' @ u_bullet @ '' '') (map lk_title blocking)),
           Text ''.'',
           Text '' '',
           Text (lk_description (hd blocking))]],
       Elem ''button'' [cls ''rr-banner-action'']
        [Text ''Acknowledge'']]]"

definition exec_stage_card_ex :: "host \<Rightarrow> rollout \<Rightarrow> nat \<Rightarrow> stage_run \<Rightarrow> exec_ex_action node list option" where
  "exec_stage_card_ex h rollout i st = (case map_of STAGE_ex (sr_env st) of
     None \<Rightarrow> None
   | Some s \<Rightarrow> (let d = addDays_ex h (TODAY_ex h) (sr_offset st) in Some
       (guarded (i > 0)
        [Elem ''div'' [cls ''rr-stage-arrow'']
          [Elem ''span'' []
            [Text ''+'',
             Text (show_int (sr_offset (ro_stages rollout ! i) - sr_offset (ro_stages rollout ! (i - 1)))),
             Text ''d''],
           Icon_ex (Some ''M5 12h14m0 0l-4-4m4 4l-4 4'') 14]] @
       [Elem ''div'' [cls ''rr-stage-card'', Sty ''borderColor'' (sx_border s), Sty ''background'' (sx_soft s)]
          [Elem ''div'' [cls ''rr-stage-card-top'']
            [Elem ''span'' [cls ''rr-stage-card-tag'', Sty ''background'' (sx_color s), Sty ''color'' ''#0a0a0c'']
              [Text (sx_short s)],
             Elem ''span'' [Sty ''color'' (sx_color s), StyN ''fontWeight'' 600]
              [Text (sx_label s)]],
           Elem ''div'' [cls ''rr-stage-card-date'']
            [Text (locale_date h [(''weekday'', ''short''), (''day'', ''2-digit''), (''month'', ''short'')] d),
             Elem ''span'' []
              [Text ('' '' @ u_middot @ '' ''),
               Text (sr_time st)]],
           Elem ''div'' [cls ''rr-stage-card-status'']
            [Elem ''span'' [cls (''rr-pill-dot is-'' @ (sr_status st))] [],
             Text (sr_status st)]]])))"

text \<open>
  \<open>taskLog[i] || {by: rollout.pair[i % rollout.pair.length], ...}\<close> with the actor it names; nothing when
  there is none, where reading the name throws.
\<close>

definition task_log_ex :: "rollout \<Rightarrow> nat \<Rightarrow> (string \<times> string \<times> actor) option" where
  "task_log_ex rollout i = (case taskLog_ex i of
     Some (who, tm) \<Rightarrow> map_option (\<lambda>x. (who, tm, x)) (getActor_ex who)
   | None \<Rightarrow>
       if ro_pair rollout = [] then None
       else let who = ro_pair rollout ! (i mod length (ro_pair rollout)) in
         map_option (\<lambda>x. (who, ''10:'' @ padStart0 2 (show_nat (20 + i * 4)), x)) (getActor_ex who))"

definition exec_task_row_ex :: "rollout \<Rightarrow> exec_ex \<Rightarrow> nat \<Rightarrow> string \<Rightarrow> exec_ex_action node option" where
  "exec_task_row_ex rollout st i label =
     (let isOn = i \<in> set (xe_checked st);
          log = (if isOn then task_log_ex rollout i else None)
      in if isOn \<and> log = None then None
         else Some (Elem ''li'' [cls (''rr-task '' @ (if isOn then ''is-done'' else []))]
          ([Elem ''button'' [cls ''rr-check'', On ''onClick'' (XToggle i), AttrB ''aria-pressed'' isOn]
            (if isOn
             then [Icon_ex (ICONS_ex ''check'') 12]
             else []),
           Elem ''span'' [cls ''rr-task-label'']
            [Text label]] @
           (case log of Some lg \<Rightarrow>
            [Elem ''span'' [cls ''rr-task-log'']
              (Avatar_ex (fst lg) 16 False @
               [Elem ''span'' []
                [Text ''checked by '',
                 Text (ac_name (snd (snd lg))),
                 Text ('' '' @ u_middot @ '' ''),
                 Text (fst (snd lg))]])]
           | None \<Rightarrow>
            [Elem ''span'' [cls ''rr-task-pending'']
              [Text ''pending'']]))))"

definition exec_tasks_ex :: "legacy_type \<Rightarrow> exec_ex \<Rightarrow> exec_ex_action node list \<Rightarrow> exec_ex_action node" where
  "exec_tasks_ex ty st rows =
    Elem ''section'' [cls ''rr-block'']
      [Elem ''div'' [cls ''rr-block-head'']
        [Elem ''h3'' []
          [Text ''Tasks '',
           Elem ''span'' [cls ''rr-muted'']
            [Text ''(inherited from '',
             Text (lt_short ty),
             Text '')'']],
         Elem ''div'' [cls ''rr-progress-wrap'']
          [Elem ''div'' [cls ''rr-progress'']
            [Elem ''div'' [Sty ''width'' ((case completion_ex ty st of Some c \<Rightarrow> show_int c | None \<Rightarrow> ''NaN'') @ ''%'')] []],
           Elem ''span'' [cls ''rr-mono'']
            [Text (case completion_ex ty st of Some c \<Rightarrow> show_int c | None \<Rightarrow> ''NaN''),
             Text ''%'']]],
       Elem ''ul'' [cls ''rr-tasks'']
        (rows),
       Elem ''button'' [cls ''rr-task-add'']
        [Icon_ex (ICONS_ex ''plus'') 12,
         Text '' Add custom task'']]"

definition exec_descriptions_ex :: "exec_ex \<Rightarrow> exec_ex_action node" where
  "exec_descriptions_ex st =
    Elem ''section'' [cls ''rr-block'']
      [Elem ''div'' [cls ''rr-block-head'']
        [Elem ''h3'' []
          [Text ''Descriptions & Risks'']],
       Elem ''div'' [cls ''rr-fields'']
        [Elem ''label'' [cls ''rr-field'']
          [Elem ''span'' []
            [Text ''External description '',
             Elem ''em'' []
              [Text ''(customer-visible)'']],
           Elem ''textarea'' [AttrN ''rows'' 2, Attr ''value'' (xe_descExt st), OnVal ''onChange'' (\<lambda>v. (XDescExt v))] []],
         Elem ''label'' [cls ''rr-field'']
          [Elem ''span'' []
            [Text ''Internal description''],
           Elem ''textarea'' [AttrN ''rows'' 2, Attr ''value'' (xe_descInt st), OnVal ''onChange'' (\<lambda>v. (XDescInt v))] []],
         Elem ''label'' [cls ''rr-field'']
          [Elem ''span'' []
            [Text ''Risks''],
           Elem ''textarea'' [AttrN ''rows'' 2, Attr ''value'' (xe_risks st), OnVal ''onChange'' (\<lambda>v. (XRisks v))] []]]]"

definition exec_pair_card_ex :: "actor \<Rightarrow> exec_ex_action node" where
  "exec_pair_card_ex a =
    Elem ''div'' [cls ''rr-pair-card'']
      (Avatar_ex (ac_id a) 36 True @
       [Elem ''div'' []
        [Elem ''div'' [cls ''rr-pair-name'']
          [Text (ac_name a)],
         Elem ''div'' [cls ''rr-pair-role'']
          [Elem ''span'' [cls ''rr-role-pill'']
            [Text (ac_role a)],
           Text ('' '' @ u_middot @ '' oAuth verified'')]]])"

definition exec_pair_ex :: "rollout \<Rightarrow> exec_ex_action node list \<Rightarrow> exec_ex_action node" where
  "exec_pair_ex rollout cards =
    Elem ''section'' [cls ''rr-block'']
      [Elem ''div'' [cls ''rr-block-head'']
        [Elem ''h3'' []
          [Text ''Executed by (pair)'']],
       Elem ''div'' [cls ''rr-pair'']
        (cards @
         guarded (length (ro_pair rollout) = 1)
          [Elem ''button'' [cls ''rr-pair-add'']
            [Icon_ex (ICONS_ex ''plus'') 14,
             Text '' Add second actor'',
             Elem ''span'' [cls ''rr-pair-add-hint'']
              [Text ''Pair required for this rollout type'']]])]"

definition exec_rules_ex :: "legacy_type \<Rightarrow> exec_ex_action node" where
  "exec_rules_ex ty =
    Elem ''section'' [cls ''rr-block'']
      [Elem ''div'' [cls ''rr-block-head'']
        [Elem ''h3'' []
          [Text ''RolloutType rules'']],
       Elem ''ul'' [cls ''rr-rules'']
        (map (\<lambda>(i, r).
            Elem ''li'' []
              [Icon_ex (ICONS_ex ''check'') 12,
               Text '' '',
               Text r])
          (enumerate 0 (lt_rules ty)))]"

definition exec_brokers_ex :: "product \<Rightarrow> exec_ex_action node" where
  "exec_brokers_ex product =
    Elem ''section'' [cls ''rr-block'']
      [Elem ''div'' [cls ''rr-block-head'']
        [Elem ''h3'' []
          [Text (''Brokers '' @ u_middot @ '' diff status'')],
         Elem ''span'' [cls ''rr-block-sub'']
          [Text (show_nat (length (prod_brokers product))),
           Text '' total'']],
       Elem ''ul'' [cls ''rr-brokers'']
        (map (\<lambda>(i, b).
            Elem ''li'' [cls ''rr-broker'']
              ([Elem ''code'' []
                [Text b]] @
               (if (i mod 4 = 3)
               then [Badge_ex ''warn'' True False [Text ''drift +2'']]
               else [Badge_ex ''ok'' True False [Text ''clean'']])))
          (enumerate 0 (prod_brokers product))),
       Elem ''button'' [cls ''rr-btn rr-btn-ghost rr-btn-sm rr-block-action'']
        [Icon_ex (ICONS_ex ''bolt'') 12,
         Text '' Run broker diff'']]"

definition exec_announcements_ex :: "exec_ex_action node" where
  "exec_announcements_ex =
    Elem ''section'' [cls ''rr-block'']
      [Elem ''div'' [cls ''rr-block-head'']
        [Elem ''h3'' []
          [Text ''Announcements'']],
       Elem ''ul'' [cls ''rr-announce'']
        [Elem ''li'' []
          [Badge_ex ''ok'' True False [Text ''sent''],
           Text '' '',
           Elem ''span'' []
            [Text (''TMS_NP '' @ u_middot @ '' 1d ahead'')],
           Elem ''span'' [cls ''rr-mono rr-muted'']
            [Text ''Mon 09:00'']],
         Elem ''li'' []
          [Badge_ex ''ok'' True False [Text ''sent''],
           Text '' '',
           Elem ''span'' []
            [Text (''TMS_PROD '' @ u_middot @ '' 1w ahead (prod1)'')],
           Elem ''span'' [cls ''rr-mono rr-muted'']
            [Text ''Mon 09:01'']],
         Elem ''li'' []
          [Badge_ex ''warn'' True False [Text ''queued''],
           Text '' '',
           Elem ''span'' []
            [Text (''TMS_PROD '' @ u_middot @ '' 2w ahead (prod2)'')],
           Elem ''span'' [cls ''rr-mono rr-muted'']
            [Text ''in 3d'']]]]"

definition ExecutePanel_ex :: "host \<Rightarrow> lock list \<Rightarrow> rollout \<Rightarrow> exec_ex \<Rightarrow> exec_ex_action node option" where
  "ExecutePanel_ex h locks rollout st =
     (case (getType_ex (ro_typeId rollout), getProduct_ex (ro_product rollout),
            those (map (\<lambda>(i, s). exec_stage_card_ex h rollout i s) (enumerate 0 (ro_stages rollout))),
            those (map getActor_ex (ro_pair rollout))) of
        (Some ty, Some product, Some cards, Some actors) \<Rightarrow>
          (case those (map (\<lambda>(i, t). exec_task_row_ex rollout st i t) (enumerate 0 (lt_tasks ty))) of
             None \<Rightarrow> None
           | Some rows \<Rightarrow> Some
              (Elem ''div'' [cls ''rr-drawer-scrim'', On ''onClick'' XClose]
                [Elem ''aside'' [cls ''rr-drawer'', Stop ''onClick'']
                 ([exec_head_ex rollout ty product] @
                  exec_lock_banner_ex (blockingLocks_ex h locks rollout) @
                  [Elem ''div'' [cls ''rr-drawer-grid'']
                    [Elem ''div'' [cls ''rr-drawer-col'']
                      [Elem ''section'' [cls ''rr-block'']
                        [Elem ''div'' [cls ''rr-block-head'']
                          [Elem ''h3'' [] [Text ''Cascade''], Elem ''span'' [cls ''rr-block-sub''] [Text (lt_announce ty)]],
                         Elem ''div'' [cls ''rr-stage-cards''] (concat cards)],
                       exec_tasks_ex ty st rows, exec_descriptions_ex st],
                     Elem ''div'' [cls ''rr-drawer-col rr-drawer-col-right'']
                      [exec_pair_ex rollout (map exec_pair_card_ex actors), exec_rules_ex ty, exec_brokers_ex product,
                       exec_announcements_ex]]])]))
      | _ \<Rightarrow> None)"

section \<open>Creating a rollout\<close>

record create_ex =
  cx_productId :: string
  cx_typeId :: string
  cx_start :: string
  cx_time :: string
  cx_pair :: "string list"
  cx_descExt :: string
  cx_descInt :: string
  cx_risks :: string

definition create_init_ex :: create_ex where
  "create_init_ex = \<lparr>cx_productId = ''operator'', cx_typeId = ''operator-feature'', cx_start = ''2026-06-03'',
     cx_time = ''10:00'', cx_pair = [''luc'', ''hen''], cx_descExt = [], cx_descInt = [], cx_risks = []\<rparr>"

definition pick_pair_ex :: "string \<Rightarrow> string list \<Rightarrow> string list" where
  "pick_pair_ex a p = (if a \<in> set p then filter (\<lambda>x. x \<noteq> a) p else if length p < 2 then p @ [a] else [p ! 1, a])"

text \<open>The actions are those of the current dialog; this one offers no announcement text.\<close>

fun create_act_ex :: "create_action \<Rightarrow> create_ex \<Rightarrow> create_ex" where
  "create_act_ex (CRProduct v) st = st\<lparr>cx_productId := v\<rparr>"
| "create_act_ex (CRType v) st = st\<lparr>cx_typeId := v\<rparr>"
| "create_act_ex (CRStart v) st = st\<lparr>cx_start := v\<rparr>"
| "create_act_ex (CRTime v) st = st\<lparr>cx_time := v\<rparr>"
| "create_act_ex (CRPair a) st = st\<lparr>cx_pair := pick_pair_ex a (cx_pair st)\<rparr>"
| "create_act_ex (CRDescExt v) st = st\<lparr>cx_descExt := v\<rparr>"
| "create_act_ex (CRDescInt v) st = st\<lparr>cx_descInt := v\<rparr>"
| "create_act_ex (CRRisks v) st = st\<lparr>cx_risks := v\<rparr>"
| "create_act_ex _ st = st"

text \<open>The stages of the preview: an environment and its instant, \<open>None\<close> for an invalid start.\<close>

definition cascade_stages_ex :: "host \<Rightarrow> string \<Rightarrow> string \<Rightarrow> legacy_type \<Rightarrow> (string \<times> int option) list" where
  "cascade_stages_ex h start tim ty =
     (let startD = parse_local h (start @ ''T'' @ tim);
          days = (\<lambda>d dflt. case d of None \<Rightarrow> dflt | Some n \<Rightarrow> if n = 0 then dflt else n)
      in [(''non-prod'', startD),
          (''prod1'', map_option (\<lambda>t. t + days (lt_delayProd1Days ty) 7 * 86400000) startD),
          (''prod2'', map_option (\<lambda>t. t + days (lt_delayProd2Days ty) 14 * 86400000) startD)])"

text \<open>The number in an arrow; arithmetic on a missing delay is not a number.\<close>

definition cascade_gap_ex :: "legacy_type \<Rightarrow> nat \<Rightarrow> string" where
  "cascade_gap_ex ty i =
     (if i = 0 then (case lt_delayProd1Days ty of Some d \<Rightarrow> show_int d | None \<Rightarrow> [])
      else (case (lt_delayProd1Days ty, lt_delayProd2Days ty) of (Some a, Some b) \<Rightarrow> show_int (b - a) | _ \<Rightarrow> ''NaN''))"

definition CascadePreview_ex :: "host \<Rightarrow> string \<Rightarrow> string \<Rightarrow> legacy_type \<Rightarrow> 'a node option" where
  "CascadePreview_ex h start tim ty =
     (let stages = cascade_stages_ex h start tim ty in
      map_option (\<lambda>ns. Elem ''div'' [cls ''rr-cp''] (concat ns))
       (those (map (\<lambda>(i, s). map_option (\<lambda>st.
          let dt = (case snd s of Some d \<Rightarrow> locale_date h [(''weekday'', ''short''), (''day'', ''2-digit''), (''month'', ''short'')] d
                    | None \<Rightarrow> ''Invalid Date'')
          in [Elem ''div'' [cls ''rr-cp-card'', Sty ''borderColor'' (sx_border st), Sty ''background'' (sx_soft st)]
          [Elem ''span'' [cls ''rr-cp-tag'', Sty ''background'' (sx_color st), Sty ''color'' ''#0a0a0c'']
            [Text (sx_short st)],
           Elem ''div'' []
            [Elem ''div'' [cls ''rr-cp-env'', Sty ''color'' (sx_color st)]
              [Text (sx_label st)],
             Elem ''div'' [cls ''rr-cp-date'']
              [Text dt,
               Elem ''span'' []
                [Text ('' '' @ u_middot @ '' ''),
                 Text tim]]]]] @
             guarded (i + 1 < length stages)
              [Elem ''div'' [cls ''rr-cp-arrow'']
          [Elem ''span'' []
            [Text ''+'',
             Text (cascade_gap_ex ty i),
             Text ''d''],
           Icon_ex (Some ''M5 12h14m0 0l-4-4m4 4l-4 4'') 14]]) (map_of STAGE_ex (fst s))) (enumerate 0 stages))))"

definition CreateRolloutModal_ex :: "host \<Rightarrow> bool \<Rightarrow> create_ex \<Rightarrow> create_action node list option" where
  "CreateRolloutModal_ex h isOpen st =
     (if \<not> isOpen then Some []
      else case getType_ex (cx_typeId st) of
        None \<Rightarrow> None
      | Some ty \<Rightarrow> (case (if lt_cascade ty then map_option (\<lambda>n. [n]) (CascadePreview_ex h (cx_start st) (cx_time st) ty) else Some []) of
          None \<Rightarrow> None
        | Some preview \<Rightarrow> Some
      [Elem ''div'' [cls ''rr-modal-scrim'', On ''onClick'' CRClose]
        [Elem ''div'' [cls ''rr-modal'', Stop ''onClick'']
          [Elem ''header'' [cls ''rr-modal-head'']
            [Elem ''div'' []
              [Elem ''h2'' []
                [Text ''Create rollout''],
               Elem ''p'' [cls ''rr-modal-sub'']
                [Text ''Inherits TODOs, announcement rules, and cascade delays from the chosen RolloutType.'']],
             Elem ''button'' [cls ''rr-icon-btn'', On ''onClick'' CRClose]
              [Icon_ex (ICONS_ex ''x'') 14]],
           Elem ''div'' [cls ''rr-modal-body'']
            [Elem ''div'' [cls ''rr-form-grid'']
              [Elem ''label'' [cls ''rr-field'']
                [Elem ''span'' []
                  [Text ''Product''],
                 Elem ''select'' [Attr ''value'' (cx_productId st), OnVal ''onChange'' (\<lambda>v. (CRProduct v))]
                  (map (\<lambda>p.
                      Elem ''option'' [Attr ''value'' (prod_id p)]
                        [Text (prod_name p)])
                    PRODUCTS_ex)],
               Elem ''label'' [cls ''rr-field'']
                [Elem ''span'' []
                  [Text ''Rollout type''],
                 Elem ''select'' [Attr ''value'' (cx_typeId st), OnVal ''onChange'' (\<lambda>v. (CRType v))]
                  (map (\<lambda>t.
                      Elem ''option'' [Attr ''value'' (lt_id t)]
                        [Text (lt_name t)])
                    ROLLOUT_TYPES_ex)],
               Elem ''label'' [cls ''rr-field'']
                [Elem ''span'' []
                  [Text ''Start (non-prod)''],
                 Elem ''input'' [Attr ''type'' ''date'', Attr ''value'' (cx_start st), OnVal ''onChange'' (\<lambda>v. (CRStart v))] []],
               Elem ''label'' [cls ''rr-field'']
                [Elem ''span'' []
                  [Text ''Time''],
                 Elem ''input'' [Attr ''type'' ''time'', Attr ''value'' (cx_time st), OnVal ''onChange'' (\<lambda>v. (CRTime v))] []]],
             Elem ''div'' [cls ''rr-hint'']
              [Elem ''div'' [cls ''rr-hint-icon'']
                [Icon_ex (ICONS_ex ''bolt'') 14],
               Elem ''div'' [cls ''rr-hint-body'']
                ([Elem ''div'' [cls ''rr-hint-title'']
                  [Text (lt_name ty)],
                 Elem ''div'' [cls ''rr-hint-sub'']
                  [Text (lt_announce ty)]] @
                 guarded (lt_cascade ty)
                  [Elem ''div'' [cls ''rr-cascade-preview'']
                    (preview)] @
                 [Elem ''ul'' [cls ''rr-hint-rules'']
                  (map (\<lambda>(i, r).
                      Elem ''li'' []
                        [Icon_ex (ICONS_ex ''check'') 11,
                         Text '' '',
                         Text r])
                    (enumerate 0 (lt_rules ty)))])],
             Elem ''div'' [cls ''rr-block-head'']
              [Elem ''h3'' []
                [Text ''Inherited tasks '',
                 Elem ''span'' [cls ''rr-muted'']
                  [Text ''('',
                   Text (show_nat (length (lt_tasks ty))),
                   Text '')'']]],
             Elem ''ul'' [cls ''rr-tasks-preview'']
              (map (\<lambda>(i, tk).
                  Elem ''li'' []
                    [Elem ''span'' [cls ''rr-mono rr-muted'']
                      [Text (padStart0 2 (show_nat (i + 1)))],
                     Text '' '',
                     Text tk])
                (enumerate 0 (lt_tasks ty))),
             Elem ''div'' [cls ''rr-form-grid'']
              [Elem ''label'' [cls ''rr-field rr-field-wide'']
                [Elem ''span'' []
                  [Text ''External description''],
                 Elem ''textarea'' [AttrN ''rows'' 2, Attr ''placeholder'' (''Customer-visible summary'' @ u_ellipsis), Attr ''value'' (cx_descExt st), OnVal ''onChange'' (\<lambda>v. (CRDescExt v))] []],
               Elem ''label'' [cls ''rr-field rr-field-wide'']
                [Elem ''span'' []
                  [Text ''Internal description''],
                 Elem ''textarea'' [AttrN ''rows'' 2, Attr ''placeholder'' (''Internal context, runbook links, migration notes'' @ u_ellipsis), Attr ''value'' (cx_descInt st), OnVal ''onChange'' (\<lambda>v. (CRDescInt v))] []],
               Elem ''label'' [cls ''rr-field rr-field-wide'']
                [Elem ''span'' []
                  [Text ''Risks''],
                 Elem ''textarea'' [AttrN ''rows'' 2, Attr ''placeholder'' (if (lt_cascade ty) then ''What can go wrong during cascade?'' else (''Known risks'' @ u_ellipsis)), Attr ''value'' (cx_risks st), OnVal ''onChange'' (\<lambda>v. (CRRisks v))] []]],
             Elem ''div'' [cls ''rr-form-grid'']
              [Elem ''div'' [cls ''rr-field rr-field-wide'']
                [Elem ''span'' []
                  [Text ''Executed by (pair)''],
                 Elem ''div'' [cls ''rr-pair-pickers'']
                  (concat (map (\<lambda>a.
                      (let on = ((ac_id a) \<in> set (cx_pair st)) in
                      [Elem ''button'' [cls (''rr-pair-pick '' @ (if on then ''is-on'' else [])), On ''onClick'' (CRPair (ac_id a))]
                        (Avatar_ex (ac_id a) 20 False @
                         [Text (ac_name a)])]))
                    (filter (\<lambda>a. ((ac_role a) = ''admin'')) ACTORS_ex)))]]],
           Elem ''footer'' [cls ''rr-modal-foot'']
            [Elem ''span'' [cls ''rr-muted'']
              [Text ''An '',
               Elem ''code'' []
                [Text ''.ics''],
               Text ('' entry will be added to the team'' @ [CHR 0x27] @ ''s Cal-DAV feed.'')],
             Elem ''div'' [cls ''rr-modal-foot-actions'']
              [Elem ''button'' [cls ''rr-btn rr-btn-ghost'', On ''onClick'' CRClose]
                [Text ''Cancel''],
               Elem ''button'' [cls ''rr-btn rr-btn-primary'', On ''onClick'' CRClose]
                [Text ''Create rollout'']]]]]]))"

section \<open>Creating a lock\<close>

text \<open>The state and the actions are those of the current dialog.\<close>

definition CreateLockModal_ex :: "bool \<Rightarrow> lockmodal_state \<Rightarrow> lockmodal_action node list" where
  "CreateLockModal_ex isOpen st = guarded isOpen
    [Elem ''div'' [cls ''rr-modal-scrim'', On ''onClick'' CLClose]
      [Elem ''div'' [cls ''rr-modal rr-modal-sm'', Stop ''onClick'']
        [Elem ''header'' [cls ''rr-modal-head'']
          [Elem ''div'' []
            [Elem ''h2'' []
              [Text ''Create rollout lock (Sperre)''],
             Elem ''p'' [cls ''rr-modal-sub'']
              [Text (''Blocked time range '' @ u_mdash @ '' no rollouts can be scheduled or executed.'')]],
           Elem ''button'' [cls ''rr-icon-btn'', On ''onClick'' CLClose]
            [Icon_ex (ICONS_ex ''x'') 14]],
         Elem ''div'' [cls ''rr-modal-body'']
          [Elem ''div'' [cls ''rr-seg rr-seg-lg'']
            (map (\<lambda>k.
                Elem ''button'' [cls (''rr-seg-item '' @ (if ((cl_kind st) = (fst k)) then ''is-active'' else [])), On ''onClick'' (CLKind (fst k))]
                  [Text (snd k)])
              [(''manual'', ''Manual (master bug)''), (''holiday'', ''Holiday''), (''window'', ''Custom window'')]),
           Elem ''div'' [cls ''rr-form-grid'']
            [Elem ''label'' [cls ''rr-field'']
              [Elem ''span'' []
                [Text ''Start''],
               Elem ''input'' [Attr ''type'' ''datetime-local'', Attr ''defaultValue'' ''2026-05-27T17:00''] []],
             Elem ''label'' [cls ''rr-field'']
              [Elem ''span'' []
                [Text ''End''],
               Elem ''input'' [Attr ''type'' ''datetime-local'', Attr ''defaultValue'' ''2026-05-29T09:00''] []],
             Elem ''label'' [cls ''rr-field rr-field-wide'']
              [Elem ''span'' []
                [Text ''Title''],
               Elem ''input'' [Attr ''placeholder'' ''e.g. Master Branch Bug #4029''] []],
             Elem ''label'' [cls ''rr-field rr-field-wide'']
              [Elem ''span'' []
                [Text ''Description''],
               Elem ''textarea'' [AttrN ''rows'' 2, Attr ''placeholder'' (''Why is this a lock? What needs to clear before it'' @ [CHR 0x27] @ ''s lifted?'')] []],
             Elem ''label'' [cls ''rr-field'']
              [Elem ''span'' []
                [Text ''Customer / contact''],
               Elem ''input'' [Attr ''placeholder'' (''Luc B. '' @ u_mdash @ '' #tms-platform'')] []],
             Elem ''label'' [cls ''rr-field'']
              [Elem ''span'' []
                [Text ''Affected products''],
               Elem ''div'' [cls ''rr-prod-pickers'']
                ([Elem ''button'' [cls (''rr-prod-pick '' @ (if (''all'' \<in> set (cl_products st)) then ''is-on'' else [])), On ''onClick'' CLAll]
                  [Text ''all'']] @
                 concat (map (\<lambda>p.
                    (let on = ((prod_id p) \<in> set (cl_products st)) in
                    [Elem ''button'' [cls (''rr-prod-pick '' @ (if on then ''is-on'' else [])), On ''onClick'' (CLProduct (prod_id p))]
                      [Elem ''span'' [cls ''rr-prod-dot'', Sty ''background'' (productColor_ex (prod_id p))] [],
                       Text (prod_name p)]]))
                  PRODUCTS_ex))]]],
         Elem ''footer'' [cls ''rr-modal-foot'']
          [Elem ''span'' [cls ''rr-muted'']
            [Text ''Locks are visible in the timeline as red striped columns.''],
           Elem ''div'' [cls ''rr-modal-foot-actions'']
            [Elem ''button'' [cls ''rr-btn rr-btn-ghost'', On ''onClick'' CLClose]
              [Text ''Cancel''],
             Elem ''button'' [cls ''rr-btn rr-btn-danger'', On ''onClick'' CLClose]
              [Text ''Create lock'']]]]]]"

section \<open>The drawer\<close>

lemma new_set_step: "distinct s \<Longrightarrow> distinct (if x \<in> set s then s else s @ [x])"
  by simp

lemma new_set_foldl: "distinct s \<Longrightarrow>
    distinct (foldl (\<lambda>s x. if x \<in> set s then s else s @ [x]) s xs) \<and>
    set (foldl (\<lambda>s x. if x \<in> set s then s else s @ [x]) s xs) = set s \<union> set xs"
  by (induction xs arbitrary: s) auto

lemma distinct_new_set [simp]: "distinct (new_set xs)" and set_new_set [simp]: "set (new_set xs) = set xs"
  using new_set_foldl [of "[]" xs] by (simp_all add: new_set_def)

lemma set_toggle_ex: "set (toggle_ex i xs) = (if i \<in> set xs then set xs - {i} else insert i (set xs))"
  by (auto simp: toggle_ex_def)

lemma distinct_toggle_ex [simp]: "distinct xs \<Longrightarrow> distinct (toggle_ex i xs)"
  by (simp add: toggle_ex_def)

lemma blockingLocks_same: "blockingLocks_ex = blockingLocks"
  by (simp add: fun_eq_iff blockingLocks_ex_def blockingLocks_def dates_same)

lemma offered_exec_static_ex [simp]:
  "offered (exec_head_ex r ty p) = {XClose}" "offered_list (exec_lock_banner_ex ls) = {}" "offered (exec_pair_card_ex a) = {}"
  "offered (exec_pair_ex r cards) = offered_list cards" "offered (exec_rules_ex ty) = {}" "offered (exec_brokers_ex p) = {}"
  "offered exec_announcements_ex = {}" "offered (exec_tasks_ex ty st rows) = offered_list rows"
  by (simp_all add: exec_head_ex_def exec_lock_banner_ex_def exec_pair_card_ex_def exec_pair_ex_def exec_rules_ex_def
      exec_brokers_ex_def exec_announcements_ex_def exec_tasks_ex_def atoms_same split: prod.splits)

lemma offered_exec_descriptions_ex: "offered (exec_descriptions_ex st) = range XDescExt \<union> range XDescInt \<union> range XRisks"
  by (simp add: exec_descriptions_ex_def) blast

lemma offered_exec_stage_card_ex: "exec_stage_card_ex h r i s = Some ns \<Longrightarrow> offered_list ns = {}"
proof -
  assume a: "exec_stage_card_ex h r i s = Some ns"
  then obtain m where "map_of STAGE_ex (sr_env s) = Some m" by (auto simp: exec_stage_card_ex_def split: option.splits)
  with a show ?thesis by (simp add: exec_stage_card_ex_def Let_def atoms_same) (clarify, simp)
qed

lemma offered_exec_task_row_ex: "exec_task_row_ex r st i t = Some n \<Longrightarrow> offered n = {XToggle i}"
  by (auto simp: exec_task_row_ex_def Let_def atoms_same split: if_splits option.splits)

lemma getType_ex_ready: "getType_ex i = Some ty \<Longrightarrow> getType i = Some (modern_type ty)"
  by (simp add: getType_modern)

lemma exec_ready_ex: "exec_ready r ty' \<Longrightarrow> \<exists>ty. getType_ex (ro_typeId r) = Some ty \<and> ty' = modern_type ty"
  by (auto simp: exec_ready_def getType_modern)

lemma task_log_same: "task_log_ex r i = exec_task_log r i"
proof (cases "taskLog_ex i")
  case None
  then have "taskLog i = None" by (simp add: taskLog_ex_def taskLog_def)
  with None show ?thesis
    by (simp add: task_log_ex_def exec_task_log_def task_actor_def lookups_same Let_def option.map_comp comp_def)
next
  case (Some p)
  then have "taskLog i = Some p" by (simp add: taskLog_ex_def taskLog_def)
  with Some show ?thesis by (cases p) (simp add: task_log_ex_def exec_task_log_def lookups_same)
qed

lemma ExecutePanel_ex_renders:
  assumes "exec_ready r ty'"
  shows "ExecutePanel_ex h ls r st \<noteq> None"
proof -
  obtain ty where ty: "getType_ex (ro_typeId r) = Some ty" using exec_ready_ex [OF assms] by blast
  have "\<forall>x \<in> set (enumerate 0 (lt_tasks ty)). (case x of (i, t) \<Rightarrow> exec_task_row_ex r st i t) \<noteq> None"
    using exec_task_log_ready [OF assms] by (auto simp: exec_task_row_ex_def Let_def task_log_same)
  then obtain rows where rows: "those (map (\<lambda>(i, t). exec_task_row_ex r st i t) (enumerate 0 (lt_tasks ty))) = Some rows"
    using those_render by blast
  have "exec_stage_card_ex h r i s \<noteq> None" if "s \<in> set (ro_stages r)" for i s
    using assms that by (auto simp: exec_stage_card_ex_def exec_ready_def resolves_def stage_legacy Let_def)
  then have "\<forall>x \<in> set (enumerate 0 (ro_stages r)). (case x of (i, s) \<Rightarrow> exec_stage_card_ex h r i s) \<noteq> None"
    by (auto simp: case_prod_beta in_set_enumerate_eq)
  then obtain cards where cards: "those (map (\<lambda>(i, s). exec_stage_card_ex h r i s) (enumerate 0 (ro_stages r))) = Some cards"
    using those_render by blast
  obtain p where p: "getProduct (ro_product r) = Some p" using assms by (auto simp: exec_ready_def resolves_def)
  obtain as where as: "those (map getActor (ro_pair r)) = Some as"
    using assms those_render [of "ro_pair r" getActor] by (auto simp: exec_ready_def resolves_def)
  show ?thesis unfolding ExecutePanel_ex_def lookups_same cards p as ty by (simp add: rows)
qed

lemma ExecutePanel_ex_offers:
  assumes "ExecutePanel_ex h ls r st = Some n"
  shows "\<exists>ty. getType_ex (ro_typeId r) = Some ty \<and>
    offered n = {XClose} \<union> XToggle ` {..<length (lt_tasks ty)} \<union> range XDescExt \<union> range XDescInt \<union> range XRisks"
proof -
  obtain ty p cards actors rows where e: "getType_ex (ro_typeId r) = Some ty" "getProduct_ex (ro_product r) = Some p"
    "those (map (\<lambda>(i, s). exec_stage_card_ex h r i s) (enumerate 0 (ro_stages r))) = Some cards"
    "those (map getActor_ex (ro_pair r)) = Some actors"
    "those (map (\<lambda>(i, t). exec_task_row_ex r st i t) (enumerate 0 (lt_tasks ty))) = Some rows"
    using assms unfolding ExecutePanel_ex_def by (auto split: option.splits)
  have cards: "offered_list (concat cards) = {}"
  proof -
    have "offered_list ns = {}" if "ns \<in> set cards" for ns
      using those_in [OF e(3) that] offered_exec_stage_card_ex by auto
    then show ?thesis by (auto simp: offered_list_def)
  qed
  have row: "offered_opt (case x of (i, t) \<Rightarrow> exec_task_row_ex r st i t) = {XToggle (fst x)}"
    if "x \<in> set (enumerate 0 (lt_tasks ty))" for x
  proof -
    have "\<forall>x \<in> set (enumerate 0 (lt_tasks ty)). (case x of (i, t) \<Rightarrow> exec_task_row_ex r st i t) \<noteq> None"
      using e(5) those_Some_iff [of "\<lambda>(i, t). exec_task_row_ex r st i t"] by fast
    with that obtain m where m: "(case x of (i, t) \<Rightarrow> exec_task_row_ex r st i t) = Some m" by blast
    obtain i t where x: "x = (i, t)" by (cases x)
    have "exec_task_row_ex r st i t = Some m" using m by (simp add: x)
    then show ?thesis using offered_exec_task_row_ex [of r st i t m] by (simp add: x)
  qed
  have "offered_list rows = (\<Union>x \<in> set (enumerate 0 (lt_tasks ty)). {XToggle (fst x)})"
    unfolding offered_list_those [OF e(5)] by (rule SUP_cong) (simp_all only: row)
  also have "\<dots> = XToggle ` set (map fst (enumerate 0 (lt_tasks ty)))"
    by (simp only: set_map image_image UNION_singleton_eq_range)
  also have "\<dots> = XToggle ` {..<length (lt_tasks ty)}" by (simp add: atLeast0LessThan)
  finally have rows: "offered_list rows = XToggle ` {..<length (lt_tasks ty)}" .
  have "offered n = offered_opt (ExecutePanel_ex h ls r st)" using assms by simp
  also have "\<dots> = {XClose} \<union> XToggle ` {..<length (lt_tasks ty)} \<union> range XDescExt \<union> range XDescInt \<union> range XRisks"
    unfolding ExecutePanel_ex_def e prod.case option.case offered_opt_simps
    using cards rows by (simp add: offered_exec_descriptions_ex) blast
  finally show ?thesis using e(1) by blast
qed

section \<open>The dialogs\<close>

lemma pick_pair_same: "pick_pair_ex = pick_pair"
  by (simp add: fun_eq_iff pick_pair_ex_def pick_pair_def)

text \<open>The preview shows the stages of the plan that the type stands for.\<close>

lemma cascade_stages_modern: "lt_cascade ty \<Longrightarrow> cascade_stages_ex h start tim ty =
    map (\<lambda>p. (ps_stage p, map_option (\<lambda>t. t + ps_delayHours p * 3600000) (parse_local h (start @ ''T'' @ tim)))) (modern_plan ty)"
  by (simp add: cascade_stages_ex_def modern_plan_def legacy_delay_def guarded_def Let_def option.map_ident mult.commute)

lemma STAGE_ex_of [simp]:
  "map_of STAGE_ex ''non-prod'' = Some (snd (STAGE_ex ! 0))" "map_of STAGE_ex ''prod1'' = Some (snd (STAGE_ex ! 1))"
  "map_of STAGE_ex ''prod2'' = Some (snd (STAGE_ex ! 2))"
  by (simp_all add: STAGE_ex_def)

lemma CascadePreview_ex_renders [simp]: "\<exists>n. CascadePreview_ex h start tim ty = Some n"
  by (simp add: CascadePreview_ex_def cascade_stages_ex_def Let_def)

lemma CascadePreview_ex_offers: "CascadePreview_ex h start tim ty = Some n \<Longrightarrow> offered n = {}"
  by (auto simp: CascadePreview_ex_def cascade_stages_ex_def Let_def atoms_same)

definition create_inv_ex :: "create_ex \<Rightarrow> bool" where
  "create_inv_ex st \<longleftrightarrow> length (cx_pair st) \<le> 2 \<and> distinct (cx_pair st) \<and> set (cx_pair st) \<subseteq> admins \<and>
     getType_ex (cx_typeId st) \<noteq> None \<and> getProduct_ex (cx_productId st) \<noteq> None"

definition create_offers_ex :: "create_action set" where
  "create_offers_ex = {CRClose} \<union> CRProduct ` prod_id ` set PRODUCTS \<union> CRType ` lt_id ` set ROLLOUT_TYPES_ex \<union> range CRStart \<union>
     range CRTime \<union> range CRDescExt \<union> range CRDescInt \<union> range CRRisks \<union> CRPair ` admins"

lemma create_ex_renders: "getType_ex (cx_typeId st) \<noteq> None \<Longrightarrow> CreateRolloutModal_ex h isOpen st \<noteq> None"
  by (auto simp: CreateRolloutModal_ex_def split: option.splits) (metis CascadePreview_ex_renders option.distinct(1))

lemma create_ex_offers:
  assumes "CreateRolloutModal_ex h True st = Some ns"
  shows "offered_list ns \<subseteq> create_offers_ex"
proof -
  obtain ty where ty: "getType_ex (cx_typeId st) = Some ty" using assms by (auto simp: CreateRolloutModal_ex_def split: option.splits)
  obtain pv :: "create_action node list" where pv: "(if lt_cascade ty then map_option (\<lambda>n. [n]) (CascadePreview_ex h (cx_start st) (cx_time st) ty) else Some []) = Some pv"
    using assms ty by (auto simp: CreateRolloutModal_ex_def split: option.splits)
  have o: "offered_list pv = {}" using pv by (auto dest: CascadePreview_ex_offers split: if_splits)
  have "offered_list (the (CreateRolloutModal_ex h True st)) \<subseteq> create_offers_ex"
    unfolding CreateRolloutModal_ex_def ty option.case pv admins_def create_offers_ex_def
    using o by (simp add: Let_def export_same) auto
  then show ?thesis by (simp add: assms)
qed

lemma create_inv_act_ex:
  assumes "create_inv_ex st" "a \<in> create_offers_ex"
  shows "create_inv_ex (create_act_ex a st)"
proof -
  have t: "getType_ex (lt_id t) \<noteq> None" if "t \<in> set ROLLOUT_TYPES_ex" for t
    using that by (auto simp: getType_ex_def find_None_mem)
  show ?thesis
    using assms pick_pair_ok [of "cx_pair st"] pick_pair_admins [of "cx_pair st" admins] t getProduct_mem
    unfolding create_inv_ex_def create_offers_ex_def lookups_same by (elim UnE) (auto simp: pick_pair_same)
qed

lemma create_inv_init_ex: "create_inv_ex create_init_ex"
proof -
  have "getType_ex ''operator-feature'' \<noteq> None" "getProduct_ex ''operator'' \<noteq> None" by code_simp+
  moreover have "{''luc'', ''hen''} \<subseteq> admins" by code_simp
  ultimately show ?thesis by (simp add: create_inv_ex_def create_init_ex_def)
qed

lemma lock_dialog_same: "CreateLockModal_ex = CreateLockModal"
  unfolding fun_eq_iff CreateLockModal_ex_def CreateLockModal_def export_same by simp

end
