(* ===== verification/RR_ExportApp.thy ===== *)
theory RR_ExportApp
  imports RR_ExportPanels RR_App
begin

text \<open>
  The exported copy of the prototype, last part: its root component, \<open>export/src/app.jsx\<close>, with all the
  components it mounts as one tree. The state holds what the root keeps and what its children keep: the
  offset of the timeline, the drawer while it is mounted, and the two dialogs, which stay mounted while they
  are closed. The drawer has no key, so React keeps its state when another rollout is opened while it is
  mounted. All pages of the navigation show the timeline.
\<close>

section \<open>State and view\<close>

record app_ex =
  ax_scope :: nat
  ax_nav :: string
  ax_openId :: "string option"
  ax_createOpen :: bool
  ax_lockOpen :: bool
  ax_offset :: int
  ax_exec :: "exec_ex option"
  ax_create :: create_ex
  ax_lock :: lockmodal_state

datatype app_ex_action =
    XShell shell_action | XHeader header_action | XTime timeline_action | XExec exec_ex_action
  | XCreate create_action | XLock lockmodal_action

definition find_rollout_ex :: "string option \<Rightarrow> rollout option" where
  "find_rollout_ex i = (case i of None \<Rightarrow> None | Some j \<Rightarrow> List.find (\<lambda>r. ro_id r = j) ROLLOUTS_ex)"

definition app_start_ex :: app_ex where
  "app_start_ex = \<lparr>ax_scope = 2, ax_nav = ''timeline'', ax_openId = Some ''r-101'', ax_createOpen = False, ax_lockOpen = False,
     ax_offset = - 3, ax_exec = map_option exec_init_ex (find_rollout_ex (Some ''r-101'')), ax_create = create_init_ex,
     ax_lock = lockmodal_init\<rparr>"

text \<open>\<open>[7, 14, 21, 28][scope]\<close>\<close>

definition daysForScope :: "nat \<Rightarrow> int option" where
  "daysForScope scope = (if scope < 4 then Some ([7, 14, 21, 28] ! scope) else None)"

definition drawer_ex :: "host \<Rightarrow> app_ex \<Rightarrow> exec_ex_action node list option" where
  "drawer_ex h st = (case (find_rollout_ex (ax_openId st), ax_exec st) of
     (Some r, Some e) \<Rightarrow> map_option (\<lambda>n. [n]) (ExecutePanel_ex h LOCKS_RAW_ex r e)
   | _ \<Rightarrow> Some [])"

definition App_ex :: "host \<Rightarrow> app_ex \<Rightarrow> app_ex_action node option" where
  "App_ex h st =
     (case (TimelineView_ex h ROLLOUTS_ex LOCKS_RAW_ex (ax_openId st) (daysForScope (ax_scope st)) (ax_offset st), drawer_ex h st,
            CreateRolloutModal_ex h (ax_createOpen st) (ax_create st)) of
        (Some timeline, Some drawer, Some create) \<Rightarrow> Some
          (Elem ''div'' [cls ''rr-shell'']
            ([lift_node XShell (Sidebar_ex (ax_nav st)),
              Elem ''main'' [cls ''rr-main'']
                [lift_node XHeader (Header_ex (ax_scope st)), lift_node XTime timeline]] @
             map (lift_node XExec) drawer @
             map (lift_node XCreate) create @
             map (lift_node XLock) (CreateLockModal_ex (ax_lockOpen st) (ax_lock st))))
      | _ \<Rightarrow> None)"

section \<open>Operations\<close>

text \<open>\<open>setOpenId\<close>: the drawer is mounted, kept or unmounted with the rollout that is found.\<close>

definition setOpenId :: "string option \<Rightarrow> app_ex \<Rightarrow> app_ex" where
  "setOpenId i st = st\<lparr>ax_openId := i, ax_exec := (case find_rollout_ex i of
     None \<Rightarrow> None
   | Some r \<Rightarrow> (case ax_exec st of None \<Rightarrow> Some (exec_init_ex r) | Some e \<Rightarrow> Some e))\<rparr>"

fun app_act_ex :: "app_ex_action \<Rightarrow> app_ex \<Rightarrow> app_ex" where
  "app_act_ex (XShell (Nav n)) st = st\<lparr>ax_nav := n\<rparr>"
| "app_act_ex (XShell CreateRollout) st = st\<lparr>ax_createOpen := True\<rparr>"
| "app_act_ex (XShell CreateLock) st = st\<lparr>ax_lockOpen := True\<rparr>"
| "app_act_ex (XHeader (Scope i)) st = st\<lparr>ax_scope := i\<rparr>"
| "app_act_ex (XTime (TOpen i)) st = setOpenId (Some i) st"
| "app_act_ex (XTime TCreateRollout) st = st\<lparr>ax_createOpen := True\<rparr>"
| "app_act_ex (XTime TCreateLock) st = st\<lparr>ax_lockOpen := True\<rparr>"
| "app_act_ex (XTime a) st = st\<lparr>ax_offset := timeline_act_ex a (ax_offset st)\<rparr>"
| "app_act_ex (XExec XClose) st = setOpenId None st"
| "app_act_ex (XExec a) st = st\<lparr>ax_exec := map_option (exec_act_ex a) (ax_exec st)\<rparr>"
| "app_act_ex (XCreate CRClose) st = st\<lparr>ax_createOpen := False\<rparr>"
| "app_act_ex (XCreate a) st = st\<lparr>ax_create := create_act_ex a (ax_create st)\<rparr>"
| "app_act_ex (XLock CLClose) st = st\<lparr>ax_lockOpen := False\<rparr>"
| "app_act_ex (XLock a) st = st\<lparr>ax_lock := lockmodal_act a (ax_lock st)\<rparr>"

section \<open>The invariant\<close>

lemma find_rollout_same: "find_rollout_ex = find_rollout"
  unfolding fun_eq_iff find_rollout_ex_def find_rollout_def tables_same by simp

lemma ROLLOUTS_ready: "r \<in> set ROLLOUTS \<Longrightarrow> \<exists>ty. exec_ready r ty"
proof -
  have "list_all (\<lambda>r. case getType (ro_typeId r) of None \<Rightarrow> False | Some ty \<Rightarrow> exec_ready r ty) ROLLOUTS" by code_simp
  then show "r \<in> set ROLLOUTS \<Longrightarrow> \<exists>ty. exec_ready r ty" by (auto simp: list_all_iff split: option.splits)
qed

definition max_tasks :: nat where
  "max_tasks = Max (set (map (\<lambda>t. length (lt_tasks t)) ROLLOUT_TYPES_ex))"

lemma max_tasks_ge: "getType_ex i = Some ty \<Longrightarrow> length (lt_tasks ty) \<le> max_tasks"
  unfolding max_tasks_def by (rule Max_ge) (auto simp: getType_ex_def find_Some_iff)

definition exec_inv_ex :: "exec_ex \<Rightarrow> bool" where
  "exec_inv_ex e \<longleftrightarrow> distinct (xe_checked e) \<and> (\<forall>i \<in> set (xe_checked e). i < max_tasks)"

lemma exec_inv_init_ex: "r \<in> set ROLLOUTS \<Longrightarrow> exec_inv_ex (exec_init_ex r)"
proof -
  assume "r \<in> set ROLLOUTS"
  then obtain ty' where r: "exec_ready r ty'" using ROLLOUTS_ready by blast
  then obtain ty where ty: "getType_ex (ro_typeId r) = Some ty" "ty' = modern_type ty" using exec_ready_ex by blast
  with r have "\<forall>i \<in> set (ro_checked r). i < length (lt_tasks ty)" by (simp add: exec_ready_def list_all_iff)
  with max_tasks_ge [OF ty(1)] show ?thesis by (auto simp: exec_inv_ex_def exec_init_ex_def)
qed

definition app_ok_ex :: "app_ex \<Rightarrow> bool" where
  "app_ok_ex st \<longleftrightarrow> ax_scope st < 4 \<and> ax_nav st \<in> nav_id ` set NAV_ex \<and> (ax_offset st + 3) mod 7 = 0 \<and>
     (ax_exec st = None \<longleftrightarrow> ax_openId st = None) \<and> (\<forall>i. ax_openId st = Some i \<longrightarrow> i \<in> ro_id ` set ROLLOUTS) \<and>
     (\<forall>e. ax_exec st = Some e \<longrightarrow> exec_inv_ex e) \<and>
     create_inv_ex (ax_create st) \<and> lockmodal_inv (ax_lock st)"

lemma app_ok_find: "app_ok_ex st \<Longrightarrow> find_rollout (ax_openId st) = None \<longleftrightarrow> ax_openId st = None"
  using find_rollout_id by (auto simp: app_ok_ex_def find_rollout_def split: option.splits)

lemma ROLLOUTS_resolve: "\<forall>r \<in> set ROLLOUTS. resolves r"
  using ROLLOUTS_ready by (auto simp: exec_ready_def)

lemma App_ex_renders: "app_ok_ex st \<Longrightarrow> App_ex h st \<noteq> None"
proof -
  assume ok: "app_ok_ex st"
  obtain t where t: "TimelineView_ex h ROLLOUTS LOCKS_RAW (ax_openId st) (daysForScope (ax_scope st)) (ax_offset st) = Some t"
    using TimelineView_ex_renders [OF ROLLOUTS_resolve] by blast
  have "drawer_ex h st \<noteq> None"
  proof (cases "find_rollout (ax_openId st)")
    case (Some r)
    then obtain ty where "exec_ready r ty" using find_rollout_Some ROLLOUTS_ready by blast
    from ExecutePanel_ex_renders [OF this] Some show ?thesis
      by (auto simp: drawer_ex_def find_rollout_same split: option.splits)
  qed (simp add: drawer_ex_def find_rollout_same)
  then obtain d where d: "drawer_ex h st = Some d" by blast
  obtain c where c: "CreateRolloutModal_ex h (ax_createOpen st) (ax_create st) = Some c"
    using create_ex_renders ok by (fastforce simp: app_ok_ex_def create_inv_ex_def)
  show ?thesis by (simp add: App_ex_def t d c tables_same)
qed

lemma offered_Sidebar_ex: "offered (Sidebar_ex a) = {CreateRollout, CreateLock} \<union> Nav ` nav_id ` set NAV_ex"
  by (auto simp: Sidebar_ex_def atoms_same split: option.splits prod.splits if_splits)

lemma offered_Header_ex: "offered (Header_ex s) = {Scope 0, Scope 1, Scope 2, Scope 3}"
  unfolding Header_ex_def atoms_same by (simp add: numeral_eq_Suc insert_commute)

lemma drawer_ex_offers: "drawer_ex h st = Some d \<Longrightarrow> offered_list d \<subseteq>
    {XClose} \<union> XToggle ` {..<max_tasks} \<union> range XDescExt \<union> range XDescInt \<union> range XRisks"
proof -
  assume d: "drawer_ex h st = Some d"
  show ?thesis
  proof (cases "d = []")
    case False
    with d obtain r e n where n: "ExecutePanel_ex h LOCKS_RAW_ex r e = Some n" "d = [n]"
      by (auto simp: drawer_ex_def split: option.splits)
    from ExecutePanel_ex_offers [OF n(1)] obtain ty where ty: "getType_ex (ro_typeId r) = Some ty"
      "offered n = {XClose} \<union> XToggle ` {..<length (lt_tasks ty)} \<union> range XDescExt \<union> range XDescInt \<union> range XRisks" by blast
    have "XToggle ` {..<length (lt_tasks ty)} \<subseteq> XToggle ` {..<max_tasks}" using max_tasks_ge [OF ty(1)] by auto
    then show ?thesis unfolding n(2) using ty(2) by auto
  qed simp
qed

lemma create_closed_ex: "CreateRolloutModal_ex h b st = Some ns \<Longrightarrow> offered_list ns \<subseteq> create_offers_ex"
  using create_ex_offers [of h st ns] by (cases b) (auto simp: CreateRolloutModal_ex_def)

lemma lock_closed: "offered_list (CreateLockModal b st) \<subseteq> {CLClose, CLAll} \<union> range CLKind \<union> CLProduct ` prod_id ` set PRODUCTS"
  using offered_CreateLockModal [of st] by (cases b) (auto simp: CreateLockModal_def)

text \<open>The parts of the page and what they offer.\<close>

lemma App_ex_parts:
  assumes "App_ex h st = Some n"
  obtains t d c where "TimelineView_ex h ROLLOUTS LOCKS_RAW (ax_openId st) (daysForScope (ax_scope st)) (ax_offset st) = Some t"
    and "drawer_ex h st = Some d" "CreateRolloutModal_ex h (ax_createOpen st) (ax_create st) = Some c"
    and "offered n = XShell ` offered (Sidebar_ex (ax_nav st)) \<union> XHeader ` offered (Header_ex (ax_scope st)) \<union>
      XTime ` offered t \<union> XExec ` offered_list d \<union> XCreate ` offered_list c \<union>
      XLock ` offered_list (CreateLockModal (ax_lockOpen st) (ax_lock st))"
proof -
  obtain t d c where p: "TimelineView_ex h ROLLOUTS LOCKS_RAW (ax_openId st) (daysForScope (ax_scope st)) (ax_offset st) = Some t"
    "drawer_ex h st = Some d" "CreateRolloutModal_ex h (ax_createOpen st) (ax_create st) = Some c"
    using assms by (auto simp: App_ex_def tables_same split: option.splits)
  have "offered_opt (App_ex h st) = XShell ` offered (Sidebar_ex (ax_nav st)) \<union> XHeader ` offered (Header_ex (ax_scope st)) \<union>
      XTime ` offered t \<union> XExec ` offered_list d \<union> XCreate ` offered_list c \<union>
      XLock ` offered_list (CreateLockModal (ax_lockOpen st) (ax_lock st))"
    by (simp add: App_ex_def tables_same p lock_dialog_same offered_list_lift Un_assoc del: offered_list_map)
  with that [OF p] assms show thesis by simp
qed

text \<open>Every offered action, by the component it comes from.\<close>

lemma App_ex_offers:
  assumes "a \<in> offered_opt (App_ex h st)"
  obtains "a \<in> XShell ` ({CreateRollout, CreateLock} \<union> Nav ` nav_id ` set NAV_ex)" | "a \<in> XHeader ` {Scope 0, Scope 1, Scope 2, Scope 3}"
    | "a \<in> XTime ` ({TShift (- 7), TShift 7, TReset, TCreateLock, TCreateRollout} \<union> range TOpenLock \<union> TOpen ` ro_id ` set ROLLOUTS)"
    | "a \<in> XExec ` ({XClose} \<union> XToggle ` {..<max_tasks} \<union> range XDescExt \<union> range XDescInt \<union> range XRisks)"
    | "a \<in> XCreate ` create_offers_ex"
    | "a \<in> XLock ` ({CLClose, CLAll} \<union> range CLKind \<union> CLProduct ` prod_id ` set PRODUCTS)"
proof -
  obtain n where n: "App_ex h st = Some n" "a \<in> offered n" using assms by (cases "App_ex h st") auto
  from n(1) obtain t d c where t: "TimelineView_ex h ROLLOUTS LOCKS_RAW (ax_openId st) (daysForScope (ax_scope st)) (ax_offset st) = Some t"
    and d: "drawer_ex h st = Some d" and c: "CreateRolloutModal_ex h (ax_createOpen st) (ax_create st) = Some c"
    and o: "offered n = XShell ` offered (Sidebar_ex (ax_nav st)) \<union> XHeader ` offered (Header_ex (ax_scope st)) \<union>
      XTime ` offered t \<union> XExec ` offered_list d \<union> XCreate ` offered_list c \<union>
      XLock ` offered_list (CreateLockModal (ax_lockOpen st) (ax_lock st))"
    by (rule App_ex_parts)
  from n(2) have "a \<in> XShell ` offered (Sidebar_ex (ax_nav st)) \<or> a \<in> XHeader ` offered (Header_ex (ax_scope st)) \<or>
      a \<in> XTime ` offered t \<or> a \<in> XExec ` offered_list d \<or> a \<in> XCreate ` offered_list c \<or>
      a \<in> XLock ` offered_list (CreateLockModal (ax_lockOpen st) (ax_lock st))" unfolding o by blast
  then show thesis
  proof (elim disjE)
    assume "a \<in> XShell ` offered (Sidebar_ex (ax_nav st))"
    then show thesis using that(1) by (simp only: offered_Sidebar_ex)
  next
    assume "a \<in> XHeader ` offered (Header_ex (ax_scope st))"
    then show thesis using that(2) by (simp only: offered_Header_ex)
  qed (rule that(3-6), erule subsetD [OF image_mono, rotated], rule TimelineView_ex_offers(1) [OF t] drawer_ex_offers [OF d]
      create_closed_ex [OF c] lock_closed)+
qed

lemma setOpenId_ok:
  assumes "app_ok_ex st" "case i of None \<Rightarrow> True | Some j \<Rightarrow> j \<in> ro_id ` set ROLLOUTS"
  shows "app_ok_ex (setOpenId i st)"
proof (cases i)
  case (Some j)
  with assms(2) obtain r where r: "r \<in> set ROLLOUTS" "j = ro_id r" by auto
  with Some assms(1) find_rollout_id [OF r(1)] exec_inv_init_ex [OF r(1)] show ?thesis
    by (auto simp: app_ok_ex_def setOpenId_def find_rollout_same split: option.splits)
qed (use assms(1) in \<open>auto simp: app_ok_ex_def setOpenId_def find_rollout_ex_def\<close>)

lemma lockmodal_inv_act:
  assumes "lockmodal_inv st" "a \<in> {CLClose, CLAll} \<union> range CLKind \<union> CLProduct ` prod_id ` set PRODUCTS"
  shows "lockmodal_inv (lockmodal_act a st)"
proof -
  from assms(2) consider "a = CLClose" | "a = CLAll" | k where "a = CLKind k" | p where "p \<in> set PRODUCTS" "a = CLProduct (prod_id p)"
    by auto
  then show ?thesis
  proof cases
    case (4 p)
    then show ?thesis using assms(1) products_not_all [of p]
      by (simp add: lockmodal_inv_def set_toggle distinct_toggle) blast
  qed (use assms(1) in \<open>simp_all add: lockmodal_inv_def\<close>)
qed

lemma exec_inv_act_ex:
  assumes "exec_inv_ex e" "a \<in> {XClose} \<union> XToggle ` {..<max_tasks} \<union> range XDescExt \<union> range XDescInt \<union> range XRisks"
  shows "exec_inv_ex (exec_act_ex a e)"
  using assms by (auto simp: exec_inv_ex_def set_toggle_ex split: if_splits)

lemma app_ok_update:
  assumes "app_ok_ex st"
  shows "app_ok_ex (st\<lparr>ax_createOpen := b\<rparr>)" "app_ok_ex (st\<lparr>ax_lockOpen := b\<rparr>)"
    and "i < 4 \<Longrightarrow> app_ok_ex (st\<lparr>ax_scope := i\<rparr>)" "n \<in> nav_id ` set NAV_ex \<Longrightarrow> app_ok_ex (st\<lparr>ax_nav := n\<rparr>)"
    and "(k + 3) mod 7 = 0 \<Longrightarrow> app_ok_ex (st\<lparr>ax_offset := k\<rparr>)"
  using assms by (simp_all add: app_ok_ex_def)

lemma app_ok_act_ex:
  assumes ok: "app_ok_ex st" and a: "a \<in> offered_opt (App_ex h st)"
  shows "app_ok_ex (app_act_ex a st)"
  using a
proof (cases rule: App_ex_offers)
  case 1
  then show ?thesis using app_ok_update [OF ok] by auto
next
  case 2
  then show ?thesis using app_ok_update [OF ok] by auto
next
  case 3
  have "(ax_offset st - 7 + 3) mod 7 = (ax_offset st + 3) mod 7" "(ax_offset st + 7 + 3) mod 7 = (ax_offset st + 3) mod 7"
    by presburger+
  with ok have off: "app_ok_ex (st\<lparr>ax_offset := ax_offset st - 7\<rparr>)" "app_ok_ex (st\<lparr>ax_offset := ax_offset st + 7\<rparr>)"
      "app_ok_ex (st\<lparr>ax_offset := - 3\<rparr>)" "app_ok_ex (st\<lparr>ax_offset := ax_offset st\<rparr>)"
    using app_ok_update(5) [OF ok] by (simp_all add: app_ok_ex_def)
  have "app_ok_ex (setOpenId (Some j) st)" if "j \<in> ro_id ` set ROLLOUTS" for j
    using setOpenId_ok [OF ok, of "Some j"] that by simp
  with 3 off app_ok_update(1,2) [OF ok] show ?thesis by (elim imageE UnE) auto
next
  case 4
  then obtain b where b: "a = XExec b" "b \<in> {XClose} \<union> XToggle ` {..<max_tasks} \<union> range XDescExt \<union> range XDescInt \<union> range XRisks"
    by blast
  show ?thesis
  proof (cases "b = XClose")
    case True
    then show ?thesis using setOpenId_ok [OF ok, of None] b(1) by simp
  next
    case False
    then have "app_act_ex a st = st\<lparr>ax_exec := map_option (exec_act_ex b) (ax_exec st)\<rparr>" using b(1) by (cases b) simp_all
    then show ?thesis using ok exec_inv_act_ex [OF _ b(2)] by (auto simp: app_ok_ex_def split: option.splits)
  qed
next
  case 5
  then obtain b where b: "a = XCreate b" "b \<in> create_offers_ex" by blast
  have "app_act_ex a st = (if b = CRClose then st\<lparr>ax_createOpen := False\<rparr> else st\<lparr>ax_create := create_act_ex b (ax_create st)\<rparr>)"
    using b(1) by (cases b) simp_all
  then show ?thesis using ok create_inv_act_ex [OF _ b(2)] by (simp add: app_ok_ex_def)
next
  case 6
  then obtain b where b: "a = XLock b" "b \<in> {CLClose, CLAll} \<union> range CLKind \<union> CLProduct ` prod_id ` set PRODUCTS" by blast
  have "app_act_ex a st = (if b = CLClose then st\<lparr>ax_lockOpen := False\<rparr> else st\<lparr>ax_lock := lockmodal_act b (ax_lock st)\<rparr>)"
    using b(1) by (cases b) simp_all
  then show ?thesis using ok lockmodal_inv_act [OF _ b(2)] by (simp add: app_ok_ex_def)
qed

lemma app_start_ok_ex: "app_ok_ex app_start_ex"
proof -
  have r: "hd ROLLOUTS \<in> set ROLLOUTS" "ro_id (hd ROLLOUTS) = ''r-101''" by (simp_all add: ROLLOUTS_def)
  have "find_rollout (Some ''r-101'') = Some (hd ROLLOUTS)" using find_rollout_id [OF r(1)] r(2) by simp
  moreover have "lockmodal_inv lockmodal_init" by (simp add: lockmodal_inv_def lockmodal_init_def)
  moreover have "''r-101'' \<in> ro_id ` set ROLLOUTS" using r by (metis imageI)
  ultimately show ?thesis using exec_inv_init_ex [OF r(1)] create_inv_init_ex
    by (simp add: app_ok_ex_def app_start_ex_def find_rollout_same NAV_ex_def)
qed

interpretation export: ui_component "App_ex h" "{}" app_act_ex app_start_ex app_ok_ex for h
  by unfold_locales (use app_start_ok_ex app_ok_act_ex in auto)

section \<open>Properties\<close>

text \<open>
  C36. The exported copy holds the data of the current prototype: products, actors, rollouts and locks are equal;
  a stage is the current one without its announcement fields; and the rollout types stand for the current
  ones, the flag and the two delays in days for the plan in hours. For every cascading type, of the table or
  not, and every start, the preview of the copy computes exactly the environments and instants of the plan.
\<close>

theorem export_tables_agree:
  "PRODUCTS_ex = PRODUCTS \<and> ACTORS_ex = ACTORS \<and> ROLLOUTS_ex = ROLLOUTS \<and> LOCKS_RAW_ex = LOCKS_RAW \<and>
   STAGE_ex = map (\<lambda>(k, s). (k, legacy_stage s)) STAGE \<and> ROLLOUT_TYPES = map modern_type ROLLOUT_TYPES_ex \<and>
   (lt_cascade ty \<longrightarrow> cascade_stages_ex h start tim ty =
      map (\<lambda>p. (ps_stage p, map_option (\<lambda>t. t + ps_delayHours p * 3600000) (parse_local h (start @ ''T'' @ tim))))
        (rt_cascadePlan (modern_type ty)))"
proof -
  note tables_same STAGE_ex_legacy types_modern
  moreover have "lt_cascade ty \<longrightarrow> cascade_stages_ex h start tim ty =
      map (\<lambda>p. (ps_stage p, map_option (\<lambda>t. t + ps_delayHours p * 3600000) (parse_local h (start @ ''T'' @ tim))))
        (rt_cascadePlan (modern_type ty))" using cascade_stages_modern by simp
  ultimately show ?thesis by (intro conjI)
qed

theorem export_tables_agree_witness:
  "lt_cascade (ROLLOUT_TYPES_ex ! 4) \<and>
   map fst (cascade_stages_ex utc_host ''2026-06-03'' ''10:00'' (ROLLOUT_TYPES_ex ! 4)) = map ps_stage (rt_cascadePlan (ROLLOUT_TYPES ! 4))"
proof -
  have t: "ROLLOUT_TYPES = map modern_type ROLLOUT_TYPES_ex" using export_tables_agree by blast
  have "4 < length ROLLOUT_TYPES_ex" by (simp add: ROLLOUT_TYPES_ex_def)
  then have "ROLLOUT_TYPES ! 4 = modern_type (ROLLOUT_TYPES_ex ! 4)" by (simp add: t)
  moreover have "lt_cascade (ROLLOUT_TYPES_ex ! 4)" by (simp add: ROLLOUT_TYPES_ex_def)
  ultimately show ?thesis
    using export_tables_agree [of "ROLLOUT_TYPES_ex ! 4" utc_host "''2026-06-03''" "''10:00''"] by (simp add: comp_def)
qed

text \<open>
  The timeline of the copy draws what the current one draws: the label and the track of every rollout, the
  strip of days, the layer of locks and the card of locks are the same trees on every host, for every first
  day and every number of days.
\<close>

theorem export_rows_agree:
  "RolloutRowLabel_ex r focus = RolloutRowLabel r focus \<and> RolloutTrack_ex h r start focus = RolloutTrack h r start focus \<and>
   DaysHeader_ex h start days = (DaysHeader h start days :: timeline_action node) \<and>
   LockOverlay_ex h ls start days height = LockOverlay h ls start days height \<and>
   ActiveLocksCard_ex h ls = (ActiveLocksCard h ls :: timeline_action node)"
  by (simp add: timeline_same)

text \<open>
  C35. The exported application never throws: in every state that the user can reach, the whole page renders; the
  scope is one of the four of the header and the timeline shows 7, 14, 21 or 28 days, starting a whole
  number of weeks from its first position; a drawer is mounted exactly when a rollout of the table is open,
  and its checked tasks are distinct; the pair of the new rollout has at most two different administrators,
  and a lock for all products names no other.
\<close>

theorem export_reachable:
  assumes "ui_reach (App_ex h) {} app_act_ex app_start_ex st"
  shows "App_ex h st \<noteq> None \<and> ax_scope st < 4 \<and> daysForScope (ax_scope st) \<in> Some ` {7, 14, 21, 28} \<and> 7 dvd ax_offset st + 3 \<and>
    (case ax_openId st of
       None \<Rightarrow> ax_exec st = None
     | Some i \<Rightarrow> (\<exists>r \<in> set ROLLOUTS_ex. ro_id r = i) \<and> (\<exists>e. ax_exec st = Some e \<and> distinct (xe_checked e))) \<and>
    length (cx_pair (ax_create st)) \<le> 2 \<and> distinct (cx_pair (ax_create st)) \<and> set (cx_pair (ax_create st)) \<subseteq> admins \<and>
    (''all'' \<in> set (cl_products (ax_lock st)) \<longrightarrow> cl_products (ax_lock st) = [''all''])"
proof -
  have ok: "app_ok_ex st" by (rule export.inv_reach [OF assms])
  then have "ax_scope st \<in> {0, 1, 2, 3}" by (auto simp: app_ok_ex_def)
  then have "daysForScope (ax_scope st) \<in> Some ` {7, 14, 21, 28}" by (auto simp: daysForScope_def)
  with ok App_ex_renders [OF ok] show ?thesis
    by (cases "ax_openId st"; cases "ax_exec st")
      (auto simp: app_ok_ex_def exec_inv_ex_def create_inv_ex_def lockmodal_inv_def tables_same mod_eq_0_iff_dvd)
qed

theorem export_reachable_witness:
  "App_ex utc_host app_start_ex \<noteq> None \<and> daysForScope (ax_scope app_start_ex) \<in> Some ` {7, 14, 21, 28}"
  using export_reachable [OF ui_reach.init, of utc_host] by blast

lemma App_ex_offers_open:
  assumes "app_ok_ex st" "r \<in> set ROLLOUTS"
  shows "XTime (TOpen (ro_id r)) \<in> offered_opt (App_ex h st)"
proof -
  obtain n where n: "App_ex h st = Some n" using App_ex_renders [OF assms(1)] by blast
  then obtain t d c where t: "TimelineView_ex h ROLLOUTS LOCKS_RAW (ax_openId st) (daysForScope (ax_scope st)) (ax_offset st) = Some t"
    and o: "offered n = XShell ` offered (Sidebar_ex (ax_nav st)) \<union> XHeader ` offered (Header_ex (ax_scope st)) \<union>
      XTime ` offered t \<union> XExec ` offered_list d \<union> XCreate ` offered_list c \<union>
      XLock ` offered_list (CreateLockModal (ax_lockOpen st) (ax_lock st))"
    by (rule App_ex_parts)
  have sub: "XTime ` offered t \<subseteq> offered n" unfolding o by blast
  have "TOpen (ro_id r) \<in> offered t" using TimelineView_ex_offers(2) [OF t] assms(2) by blast
  with sub n show ?thesis by auto
qed

text \<open>
  The drawer of the copy keeps the checks of the rollout before: while it is open, the timeline behind it
  still offers every rollout, and opening another one shows that rollout with the tasks that were checked
  for the first, whatever its own checked tasks are. Only when the drawer is closed in between does it start
  from the tasks of the rollout that it shows.
\<close>

theorem export_drawer_keeps_checks:
  assumes "ui_reach (App_ex h) {} app_act_ex app_start_ex st" "ax_openId st \<noteq> None" "r \<in> set ROLLOUTS_ex"
  shows "XTime (TOpen (ro_id r)) \<in> offered_opt (App_ex h st) \<and>
    (let st' = app_act_ex (XTime (TOpen (ro_id r))) st in
      find_rollout_ex (ax_openId st') = Some r \<and> ax_exec st' = ax_exec st \<and> ax_exec st \<noteq> None) \<and>
    ax_exec (app_act_ex (XTime (TOpen (ro_id r))) (app_act_ex (XExec XClose) st)) = Some (exec_init_ex r)"
proof -
  have ok: "app_ok_ex st" by (rule export.inv_reach [OF assms(1)])
  have r: "r \<in> set ROLLOUTS" using assms(3) by (simp add: tables_same)
  have "ax_exec st \<noteq> None" using ok assms(2) by (simp add: app_ok_ex_def)
  then show ?thesis using App_ex_offers_open [OF ok r] find_rollout_id [OF r]
    by (auto simp: setOpenId_def find_rollout_same Let_def find_rollout_def)
qed

theorem export_drawer_keeps_checks_witness:
  "let r = ROLLOUTS_ex ! 4; st = app_act_ex (XTime (TOpen (ro_id r))) app_start_ex in
     ro_checked r = [] \<and> find_rollout_ex (ax_openId st) = Some r \<and>
     map_option (completion_ex (ROLLOUT_TYPES_ex ! 7)) (ax_exec st) = Some (Some 100)"
proof -
  let ?r = "ROLLOUTS_ex ! 4"
  have r: "?r \<in> set ROLLOUTS_ex" "ro_checked ?r = []" by (simp_all add: ROLLOUTS_ex_def)
  have "map_option (completion_ex (ROLLOUT_TYPES_ex ! 7)) (ax_exec app_start_ex) = Some (Some 100)" by code_simp
  moreover have "ax_openId app_start_ex \<noteq> None" by (simp add: app_start_ex_def)
  ultimately show ?thesis using export_drawer_keeps_checks [OF ui_reach.init _ r(1), of utc_host] r(2) by (simp add: Let_def)
qed

text \<open>The entries of the sidebar change the highlighted entry and nothing else: each of them shows the timeline.\<close>

lemma export_nav_highlights: "offered_opt (App_ex h (app_act_ex (XShell (Nav n)) st)) = offered_opt (App_ex h st)"
  by (simp add: App_ex_def drawer_ex_def offered_Sidebar_ex split: option.split)

end
