(* ===== verification/RR_Print.thy ===== *)
theory RR_Print
  imports RR_App
begin

text \<open>
  The print page of the prototype, \<open>src/design/project/print-app.jsx\<close>: the timeline, the panel of one rollout
  and the two dialogs, stacked on four pages. It mounts the current components of \<open>timeline.jsx\<close> and
  \<open>panels.jsx\<close> with callbacks that do nothing, so the drawer and the dialogs cannot be closed; the
  properties \<open>scope\<close> and \<open>days\<close> that it passes are read by no component. The day of the footer is that
  of the host's clock, the argument \<open>now\<close>.
\<close>

section \<open>A mounted component\<close>

text \<open>
  The contract between a parent and a component that it mounts once and never unmounts: the component's part
  of the parent's state starts as the component starts, the parent offers an action of the component only if
  the component does, runs it on the component's part, and leaves that part alone otherwise. Then whatever
  the user reaches in the parent, the component is in a state that a user of the component alone can reach.
\<close>

locale mounted =
  fixes pview :: "'s \<Rightarrow> 'a node option" and penv :: "'a set" and pact :: "'a \<Rightarrow> 's \<Rightarrow> 's" and pstart :: 's
    and view :: "'t \<Rightarrow> 'b node option" and env :: "'b set" and act :: "'b \<Rightarrow> 't \<Rightarrow> 't" and start :: 't
    and part :: "'s \<Rightarrow> 't" and up :: "'b \<Rightarrow> 'a"
  assumes part_start: "part pstart = start"
    and part_offers: "up b \<in> offered_opt (pview s) \<union> penv \<Longrightarrow> b \<in> offered_opt (view (part s)) \<union> env"
    and part_up: "part (pact (up b) s) = act b (part s)"
    and part_other: "a \<notin> range up \<Longrightarrow> part (pact a s) = part s"
begin

lemma reach_part: "ui_reach pview penv pact pstart s \<Longrightarrow> ui_reach view env act start (part s)"
proof (induction rule: ui_reach.induct)
  case init
  show ?case unfolding part_start by (rule ui_reach.init)
next
  case (act s a)
  show ?case
  proof (cases "a \<in> range up")
    case True
    then obtain b where b: "a = up b" by blast
    with act.hyps(2) have "b \<in> offered_opt (view (part s)) \<union> env" by (intro part_offers) simp
    with act.IH show ?thesis unfolding b part_up by (rule ui_reach.act)
  next
    case False
    then show ?thesis using act.IH by (simp add: part_other)
  qed
qed

end

section \<open>The page\<close>

record printpage =
  pr_timeline :: timeline_state
  pr_exec :: exec_state
  pr_create :: create_state
  pr_lock :: lockmodal_state

datatype print_action =
    PSide shell_action | PTime timeline_action | PExec exec_action | PCreate create_action | PLock lockmodal_action

definition print_rollout :: "rollout option" where
  "print_rollout = List.find (\<lambda>r. ro_id r = ''r-101'') ROLLOUTS"

definition PrintExecute :: "exec_action node list \<Rightarrow> print_action node" where
  "PrintExecute panel = Elem ''div'' [cls ''rr-print-inline-drawer''] (map (lift_node PExec) panel)"

definition PrintCreateRollout :: "create_action node list \<Rightarrow> print_action node" where
  "PrintCreateRollout create = Elem ''div'' [cls ''rr-print-inline-modal''] (map (lift_node PCreate) create)"

definition PrintCreateLock :: "lockmodal_action node list \<Rightarrow> print_action node" where
  "PrintCreateLock lockm = Elem ''div'' [cls ''rr-print-inline-modal''] (map (lift_node PLock) lockm)"

definition PrintApp :: "host \<Rightarrow> int \<Rightarrow> string \<Rightarrow> string \<Rightarrow> printpage \<Rightarrow> print_action node option" where
  "PrintApp h now origin pathname st =
     (case (TimelineView h ROLLOUTS LOCKS_RAW (Some ''r-101'') (pr_timeline st),
            (case print_rollout of None \<Rightarrow> Some []
             | Some r \<Rightarrow> map_option (\<lambda>n. [n]) (ExecutePanel h origin pathname False LOCKS_RAW r (pr_exec st))),
            CreateRolloutModal h True (pr_create st)) of
        (Some timeline, Some panel, Some create) \<Rightarrow> (let lockm = CreateLockModal True (pr_lock st) in Some
         (Elem ''div'' [cls ''rr-print'']
            [Elem ''section'' [cls ''rr-print-page'']
              [Elem ''div'' [cls ''rr-shell'']
                [lift_node PSide (Sidebar (Some ''timeline'')),
                 Elem ''main'' [cls ''rr-main'']
                  [Header,
                   lift_node PTime timeline]]],
             Elem ''section'' [cls ''rr-print-page rr-print-page-2'']
              [Elem ''div'' [cls ''rr-print-header'']
                [Elem ''div'' []
                  [Elem ''div'' [cls ''rr-print-eyebrow'']
                    [Text ''Detail view''],
                   Elem ''h1'' [cls ''rr-print-h1'']
                    [Text ''Execute Rollout'']],
                 Elem ''div'' [cls ''rr-print-foot-meta'']
                  [Text (''ReleaseRadar '' @ u_middot @ '' ''),
                   Text (locale_date h [(''day'', ''2-digit''), (''month'', ''short''), (''year'', ''numeric'')] now)]],
               PrintExecute panel],
             Elem ''section'' [cls ''rr-print-page rr-print-page-3'']
              [Elem ''div'' [cls ''rr-print-header'']
                [Elem ''div'' []
                  [Elem ''div'' [cls ''rr-print-eyebrow'']
                    [Text ''Form''],
                   Elem ''h1'' [cls ''rr-print-h1'']
                    [Text ''Create Rollout'']],
                 Elem ''div'' [cls ''rr-print-foot-meta'']
                  [Text ''Inherits from RolloutType'']],
               PrintCreateRollout create],
             Elem ''section'' [cls ''rr-print-page rr-print-page-4'']
              [Elem ''div'' [cls ''rr-print-header'']
                [Elem ''div'' []
                  [Elem ''div'' [cls ''rr-print-eyebrow'']
                    [Text ''Form''],
                   Elem ''h1'' [cls ''rr-print-h1'']
                    [Text ''Create Rollout-Sperre'']],
                 Elem ''div'' [cls ''rr-print-foot-meta'']
                  [Text ''Blocked time window'']],
               PrintCreateLock lockm]]))
      | _ \<Rightarrow> None)"

definition print_start :: printpage where
  "print_start = \<lparr>pr_timeline = timeline_init, pr_exec = exec_init (the print_rollout), pr_create = create_init, pr_lock = lockmodal_init\<rparr>"

text \<open>The callbacks of the parent are empty; what the components do with their own state they still do.\<close>

fun print_act :: "host \<Rightarrow> print_action \<Rightarrow> printpage \<Rightarrow> printpage" where
  "print_act h (PSide a) st = st"
| "print_act h (PTime a) st = st\<lparr>pr_timeline := timeline_act a (pr_timeline st)\<rparr>"
| "print_act h (PExec a) st = st\<lparr>pr_exec := exec_act h a (pr_exec st)\<rparr>"
| "print_act h (PCreate a) st = st\<lparr>pr_create := create_act a (pr_create st)\<rparr>"
| "print_act h (PLock a) st = st\<lparr>pr_lock := lockmodal_act a (pr_lock st)\<rparr>"

definition print_env :: "print_action set" where
  "print_env = PTime ` ({TCloseFilter} \<union> range TResize) \<union> {PExec ECopyTimeout}"

section \<open>Printing\<close>

text \<open>The script at the end: a failure of the fonts is ignored, then a pause, then the print dialog.\<close>

datatype print_step = FontsReady | FontsFailed | Pause int | Print

definition auto_print :: "bool \<Rightarrow> print_step list" where
  "auto_print fonts_ok = [if fonts_ok then FontsReady else FontsFailed, Pause 800, Print]"

section \<open>What the page offers\<close>

lemma print_rollout_hd: "print_rollout = Some (hd ROLLOUTS)"
  by (simp add: print_rollout_def ROLLOUTS_def)

lemma PrintApp_offers:
  "offered_opt (PrintApp h now org path st) \<subseteq> range PSide \<union>
     PTime ` offered_opt (TimelineView h ROLLOUTS LOCKS_RAW (Some ''r-101'') (pr_timeline st)) \<union>
     PExec ` offered_opt (ExecutePanel h org path False LOCKS_RAW (hd ROLLOUTS) (pr_exec st)) \<union>
     PCreate ` offered_opt (create_view h (pr_create st)) \<union>
     PLock ` offered_list (CreateLockModal True (pr_lock st))"
proof (cases "PrintApp h now org path st")
  case (Some n)
  then obtain t p c where t: "TimelineView h ROLLOUTS LOCKS_RAW (Some ''r-101'') (pr_timeline st) = Some t"
    and p: "ExecutePanel h org path False LOCKS_RAW (hd ROLLOUTS) (pr_exec st) = Some p"
    and c: "CreateRolloutModal h True (pr_create st) = Some c"
    by (auto simp: PrintApp_def print_rollout_hd split: option.splits)
  have "offered_opt (PrintApp h now org path st) = PSide ` offered (Sidebar (Some ''timeline'')) \<union> PTime ` offered t \<union> PExec ` offered p \<union>
      PCreate ` offered_list c \<union> PLock ` offered_list (CreateLockModal True (pr_lock st))"
    by (simp add: PrintApp_def print_rollout_hd t p c Let_def PrintExecute_def PrintCreateRollout_def PrintCreateLock_def
        offered_list_lift Un_assoc del: offered_list_map)
  then show ?thesis by (auto simp: t p create_view_def c)
qed simp

section \<open>The components on the page\<close>

interpretation print_timeline: mounted "PrintApp h now org path" print_env "print_act h" print_start
  "TimelineView h ROLLOUTS LOCKS_RAW (Some ''r-101'')" "{TCloseFilter} \<union> range TResize" timeline_act timeline_init pr_timeline PTime
  for h now org path
proof
  fix b s assume "PTime b \<in> offered_opt (PrintApp h now org path s) \<union> print_env"
  then show "b \<in> offered_opt (TimelineView h ROLLOUTS LOCKS_RAW (Some ''r-101'') (pr_timeline s)) \<union> ({TCloseFilter} \<union> range TResize)"
    using PrintApp_offers [of h now org path s] by (auto simp: print_env_def)
next
  fix a s show "a \<notin> range PTime \<Longrightarrow> pr_timeline (print_act h a s) = pr_timeline s" by (cases a) auto
qed (simp_all add: print_start_def)

interpretation print_exec: mounted "PrintApp h now org path" print_env "print_act h" print_start
  "ExecutePanel h org path False LOCKS_RAW (hd ROLLOUTS)" "{ECopyTimeout}" "exec_act h" "exec_init (hd ROLLOUTS)" pr_exec PExec
  for h now org path
proof
  fix b s assume "PExec b \<in> offered_opt (PrintApp h now org path s) \<union> print_env"
  then show "b \<in> offered_opt (ExecutePanel h org path False LOCKS_RAW (hd ROLLOUTS) (pr_exec s)) \<union> {ECopyTimeout}"
    using PrintApp_offers [of h now org path s] by (auto simp: print_env_def)
next
  fix a s show "a \<notin> range PExec \<Longrightarrow> pr_exec (print_act h a s) = pr_exec s" by (cases a) auto
qed (simp_all add: print_start_def print_rollout_hd)

interpretation print_create: mounted "PrintApp h now org path" print_env "print_act h" print_start
  "create_view h" "{}" create_act create_init pr_create PCreate
  for h now org path
proof
  fix b s assume "PCreate b \<in> offered_opt (PrintApp h now org path s) \<union> print_env"
  then show "b \<in> offered_opt (create_view h (pr_create s)) \<union> {}"
    using PrintApp_offers [of h now org path s] by (auto simp: print_env_def)
next
  fix a s show "a \<notin> range PCreate \<Longrightarrow> pr_create (print_act h a s) = pr_create s" by (cases a) auto
qed (simp_all add: print_start_def)

interpretation print_lock: mounted "PrintApp h now org path" print_env "print_act h" print_start
  "\<lambda>st. Some (Elem [] [] (CreateLockModal True st))" "{}" lockmodal_act lockmodal_init pr_lock PLock
  for h now org path
proof
  fix b s assume "PLock b \<in> offered_opt (PrintApp h now org path s) \<union> print_env"
  then show "b \<in> offered_opt (Some (Elem [] [] (CreateLockModal True (pr_lock s)))) \<union> {}"
    using PrintApp_offers [of h now org path s] by (auto simp: print_env_def)
next
  fix a s show "a \<notin> range PLock \<Longrightarrow> pr_lock (print_act h a s) = pr_lock s" by (cases a) auto
qed (simp_all add: print_start_def)

lemma TimelineView_renders: "\<forall>r \<in> set rs. resolves r \<Longrightarrow> TimelineView h rs ls f st \<noteq> None"
proof -
  assume "\<forall>r \<in> set rs. resolves r"
  then have "\<forall>r \<in> set (timeline_rollouts rs st). resolves r" by (simp add: timeline_rollouts_def)
  then obtain ls' ts where "row_labels (timeline_rollouts rs st) f = Some ls'"
    "row_tracks h (timeline_rollouts rs st) (addDays h (TODAY h) (tl_offset st)) f = Some ts"
    using row_labels_render row_tracks_render by blast
  then show ?thesis by (simp add: TimelineView_def Let_def)
qed

section \<open>Properties\<close>

text \<open>
  C34. The print page: in every state that the user can reach on it, all four pages render, and each mounted
  component is in a state that it can reach on its own, so what is proved of the reachable states of the
  timeline, the panel and the dialogs holds on the print page. Closing the drawer or a dialog changes
  nothing.
\<close>

theorem print_reachable:
  assumes "ui_reach (PrintApp h now org path) print_env (print_act h) print_start st"
  shows "PrintApp h now org path st \<noteq> None \<and>
    ui_reach (TimelineView h ROLLOUTS LOCKS_RAW (Some ''r-101'')) ({TCloseFilter} \<union> range TResize) timeline_act timeline_init (pr_timeline st) \<and>
    ui_reach (ExecutePanel h org path False LOCKS_RAW (hd ROLLOUTS)) {ECopyTimeout} (exec_act h) (exec_init (hd ROLLOUTS)) (pr_exec st) \<and>
    ui_reach (create_view h) {} create_act create_init (pr_create st) \<and>
    ui_reach (\<lambda>st. Some (Elem [] [] (CreateLockModal True st))) {} lockmodal_act lockmodal_init (pr_lock st) \<and>
    print_act h (PExec EClose) st = st \<and> print_act h (PExec EOpenFull) st = st \<and> print_act h (PCreate CRClose) st = st \<and>
    print_act h (PLock CLClose) st = st"
proof -
  note parts = print_timeline.reach_part [OF assms] print_exec.reach_part [OF assms] print_create.reach_part [OF assms]
    print_lock.reach_part [OF assms]
  have "list_all resolves ROLLOUTS" by (rule resolves_seed)
  then obtain t where t: "TimelineView h ROLLOUTS LOCKS_RAW (Some ''r-101'') (pr_timeline st) = Some t"
    using TimelineView_renders [of ROLLOUTS] by (fastforce simp: list_all_iff)
  obtain p where p: "ExecutePanel h org path False LOCKS_RAW (hd ROLLOUTS) (pr_exec st) = Some p"
    using ExecutePanel_renders [OF exec_ready_seed] by blast
  obtain c where c: "CreateRolloutModal h True (pr_create st) = Some c"
    using create.inv_reach [OF parts(3)] by (auto simp: create_inv_def CreateRolloutModal_def)
  have "PrintApp h now org path st \<noteq> None" by (simp add: PrintApp_def print_rollout_hd t p c Let_def)
  with parts show ?thesis by simp
qed

theorem print_reachable_witness:
  "PrintApp utc_host 0 ''https://radar'' ''/'' print_start \<noteq> None \<and> print_act utc_host (PCreate CRClose) print_start = print_start"
  using print_reachable [OF ui_reach.init, of utc_host 0 "''https://radar''" "''/''"] by blast

end
