(* ===== verification/RR_Views.thy ===== *)
theory RR_Views
  imports RR_Create RR_RolloutList RR_Frame
begin

text \<open>
  The templates written in the components of \<open>src/frontend/src/app\<close>, as trees of elements: icons and avatars (\<open>shared/ui\<close>), the
  two dialogs (\<open>features/create\<close>), the list of rollouts, the page of the locks, the contacts and the page on the API. A template is a
  function of the signals it reads; a handler carries the event it raises in \<open>create_event\<close>, \<open>lock_event\<close>, \<open>locks_event\<close> or
  \<open>list_event\<close>. \<open>@if\<close> is \<open>guarded\<close> or a case distinction, \<open>@for\<close> a map with its
  \<open>@empty\<close> branch, \<open>class\<close> is \<open>className\<close> and \<open>(click)\<close> is \<open>onClick\<close>; a binding of a class is a boolean attribute.
  White space is as the compiler leaves it: blank texts are dropped and runs become one blank. Names of elements, \<open>track\<close> and the focus are not
  part of the tree.

  The texts of dates and times are the host's: \<open>locale_date\<close>, and the parameters \<open>ltime\<close> (\<open>toLocaleTimeString\<close>) and \<open>ltext\<close>
  (\<open>toLocaleString\<close>), with the options the code passes. A template that throws while it is evaluated is \<open>None\<close>.
\<close>

section \<open>Icons and avatars\<close>

definition icon_view :: "string option \<Rightarrow> string option \<Rightarrow> rat \<Rightarrow> rat \<Rightarrow> 'a node" where
  "icon_view name d sz stroke =
     Elem ''svg'' [AttrN ''width'' sz, AttrN ''height'' sz, Attr ''viewBox'' ''0 0 24 24'', Attr ''fill'' ''none'',
         Attr ''stroke'' ''currentColor'', AttrN ''stroke-width'' stroke, Attr ''stroke-linecap'' ''round'',
         Attr ''stroke-linejoin'' ''round'']
       [Elem ''path'' [Attr ''d'' (icon_path name d)] []]"

definition avatar_view :: "actor option \<Rightarrow> rat \<Rightarrow> bool \<Rightarrow> 'a node list" where
  "avatar_view actor sz ring =
     (case actor of None \<Rightarrow> [] | Some a \<Rightarrow>
       [Elem ''div'' [cls ''rr-avatar'',
           Attr ''title'' ((ac_name a) @ (if ((ac_role a) = ''admin'') then '' (admin)'' else '' (readonly)'')),
           StyN ''width'' sz, StyN ''height'' sz, StyN ''fontSize'' (sz * (42 / 100)),
           Sty ''background'' ((((''linear-gradient(135deg, hsl('' @ (show_int (ac_hue a))) @ '' 60% 38%), hsl('') @ (show_int (ac_hue a))) @ '' 60% 24%))''),
           Sty ''boxShadow'' (if ring then ((''0 0 0 2px #0a0a0c, 0 0 0 3px hsl('' @ (show_int (ac_hue a))) @ '' 60% 45%)'') else ''inset 0 0 0 1px rgba(255,255,255,.08)'')]
         [Text ('' '' @ (ac_initials a) @ '' '')]])"

definition avatar_stack_view :: "actor list \<Rightarrow> int \<Rightarrow> 'a node" where
  "avatar_stack_view actors sz =
     Elem ''div'' [cls ''rr-avstack'', Attr ''style'' (''--sz: '' @ show_int sz @ ''px'')]
       (concat (map (\<lambda>a.
           (avatar_view (Some a) (of_int sz) False))
         actors))"

section \<open>The rollout dialog\<close>

definition fmtStage :: "host \<Rightarrow> ((string \<times> string) list \<Rightarrow> int \<Rightarrow> string) \<Rightarrow> string \<Rightarrow> string" where
  "fmtStage h ltime d_text = (case new_Date h d_text of
     Some d \<Rightarrow> locale_date h [(''weekday'', ''short''), (''day'', ''2-digit''), (''month'', ''short'')] d @ '' '' @ u_middot @ '' '' @
       ltime [(''hour'', ''2-digit''), (''minute'', ''2-digit'')] d
   | None \<Rightarrow> ''Invalid Date '' @ u_middot @ '' Invalid Date'')"

definition create_fields :: "rollout_form \<Rightarrow> create_event node" where
  "create_fields f =
     Elem ''div'' [cls ''rr-form-grid'']
       [Elem ''label'' [cls ''rr-field rr-field-wide'']
         [Elem ''span'' []
           [Text ''Title''],
          Elem ''input'' [Attr ''data-test'' ''rollout-title'',
             Attr ''placeholder'' (''e.g. operator 24.7 '' @ u_mdash @ '' broker auth refactor''),
             Attr ''value'' (cf_title f), OnVal ''input'' (\<lambda>v. RolloutEdit (EditTitle v))] []],
        Elem ''label'' [cls ''rr-field'']
         [Elem ''span'' []
           [Text ''Product''],
          Elem ''select'' [Attr ''data-test'' ''rollout-product'', Attr ''value'' (cf_productId f),
             OnVal ''change'' (\<lambda>v. RolloutEdit (EditProduct v))]
           (map (\<lambda>p.
               Elem ''option'' [Attr ''value'' (prod_id p)]
                 [Text (prod_name p)])
             (cf_products f))],
        Elem ''label'' [cls ''rr-field'']
         [Elem ''span'' []
           [Text ''Rollout type''],
          Elem ''select'' [Attr ''data-test'' ''rollout-type'', Attr ''value'' (cf_typeId f),
             OnVal ''change'' (\<lambda>v. RolloutEdit (EditType v))]
           (map (\<lambda>t.
               Elem ''option'' [Attr ''value'' (rt_id t)]
                 [Text (rt_name t)])
             (cf_types f))],
        Elem ''label'' [cls ''rr-field'']
         [Elem ''span'' []
           [Text ''Start (non-prod)''],
          Elem ''input'' [Attr ''type'' ''date'', Attr ''value'' (cf_startDate f),
             OnVal ''input'' (\<lambda>v. RolloutEdit (EditStartDate v))] []],
        Elem ''label'' [cls ''rr-field'']
         [Elem ''span'' []
           [Text ''Time''],
          Elem ''input'' [Attr ''type'' ''time'', Attr ''value'' (cf_startTime f),
             OnVal ''input'' (\<lambda>v. RolloutEdit (EditStartTime v))] []],
        Elem ''label'' [cls ''rr-field'']
         [Elem ''span'' []
           [Text ''Duration (hours)''],
          Elem ''input'' [Attr ''type'' ''number'', Attr ''min'' ''1'', Attr ''step'' ''1'',
             AttrN ''value'' (cf_durationHours f),
             OnNum ''input'' (\<lambda>n. RolloutEdit (EditDuration (of_int n)))] []]]"

definition create_advice :: "string list \<Rightarrow> create_event node list" where
  "create_advice adv =
     (guarded (adv \<noteq> [])
       [Elem ''div'' [cls ''rr-banner'',
           Attr ''style'' ''border-color: rgba(245,158,11,.4); background: rgba(245,158,11,.10);'',
           Attr ''data-test'' ''schedule-warning'']
         [icon_view None (map_of ICONS_ts ''warn'') 16 (16 / 10),
          Elem ''div'' []
           [Elem ''strong'' []
             [Text ''Scheduling-Regel beachten.''],
            Elem ''p'' []
             (map (\<lambda>a.
                 Elem ''span'' []
                   [Text a,
                    Elem ''br'' [] []])
               adv)]]])"

definition create_preview :: "host \<Rightarrow> ((string \<times> string) list \<Rightarrow> int \<Rightarrow> string) \<Rightarrow> rollout_type \<Rightarrow> planned_stage list \<Rightarrow> create_event node list" where
  "create_preview h ltime type pv =
     (concat (map (\<lambda>(i, s).
         ([Elem ''div'' [cls ''rr-cp-card'', Sty ''borderColor'' (st_border (getStage_ts (pl_env s))),
             Sty ''background'' (st_soft (getStage_ts (pl_env s)))]
           [Elem ''span'' [cls ''rr-cp-tag'', Sty ''background'' (st_color (getStage_ts (pl_env s))), Attr ''style'' ''color:#0a0a0c'']
             [Text (st_short (getStage_ts (pl_env s)))],
            Elem ''div'' []
             [Elem ''div'' [cls ''rr-cp-env'', Sty ''color'' (st_color (getStage_ts (pl_env s)))]
               [Text ('' '' @ (st_label (getStage_ts (pl_env s))) @ '' '')],
              Elem ''div'' [cls ''rr-cp-date'']
               [Text (fmtStage h ltime (pl_startAt s))]]]] @
          guarded (i < length pv - 1)
           [Elem ''div'' [cls ''rr-cp-arrow'']
             [Elem ''span'' []
               [Text (''+'' @ (stepDelay type i))],
              icon_view None (Some ''M5 12h14m0 0l-4-4m4 4l-4 4'') 14 (16 / 10)]]))
       (enumerate 0 pv)))"

definition create_type :: "host \<Rightarrow> ((string \<times> string) list \<Rightarrow> int \<Rightarrow> string) \<Rightarrow> rollout_form \<Rightarrow> planned_stage list \<Rightarrow> create_event node list" where
  "create_type h ltime f pv =
     (case selectedType f of None \<Rightarrow> [] | Some type \<Rightarrow>
       [Elem ''div'' [cls ''rr-hint'']
         [Elem ''div'' [cls ''rr-hint-icon'']
           [icon_view None (map_of ICONS_ts ''bolt'') 14 (16 / 10)],
          Elem ''div'' [cls ''rr-hint-body'']
           ([Elem ''div'' [cls ''rr-hint-title'']
             [Text (rt_name type)]] @
            guarded (rt_announce type \<noteq> [])
             [Elem ''div'' [cls ''rr-hint-sub'']
               [Text (rt_announce type)]] @
            guarded (length pv > 1)
             [Elem ''div'' [cls ''rr-cascade-preview'']
               [Elem ''div'' [cls ''rr-cp'']
                 (create_preview h ltime type pv)]] @
            guarded (rt_rules type \<noteq> [])
             [Elem ''ul'' [cls ''rr-hint-rules'']
               (map (\<lambda>r.
                   Elem ''li'' []
                     [icon_view None (map_of ICONS_ts ''check'') 11 (16 / 10),
                      Text ('' '' @ r)])
                 (rt_rules type))])],
        Elem ''div'' [cls ''rr-block-head'']
         [Elem ''h3'' []
           [Text ''Inherited tasks '',
            Elem ''span'' [cls ''rr-muted'']
             [Text (''('' @ (show_nat (length (rt_tasks type))) @ '')'')]]],
        Elem ''ul'' [cls ''rr-tasks-preview'']
         (if (rt_tasks type) = []
          then [Elem ''li'' [cls ''rr-muted'']
                 [Text ''This type has no inherited tasks.'']]
          else map (\<lambda>(i, t).
             Elem ''li'' []
               [Elem ''span'' [cls ''rr-mono rr-muted'']
                 [Text (pad (int i + 1))],
                Text ('' '' @ t @ '' '')])
           (enumerate 0 (rt_tasks type)))])"

definition create_texts :: "rollout_form \<Rightarrow> create_event node" where
  "create_texts f =
     Elem ''div'' [cls ''rr-form-grid'']
       [Elem ''label'' [cls ''rr-field rr-field-wide'']
         [Elem ''span'' []
           [Text ''External description '',
            Elem ''em'' []
             [Text ''(customer-visible)'']],
          Elem ''textarea'' [Attr ''rows'' ''2'', Attr ''data-test'' ''rollout-descext'',
             Attr ''placeholder'' (''Customer-visible summary'' @ u_ellipsis), Attr ''value'' (cf_descExt f),
             OnVal ''input'' (\<lambda>v. RolloutEdit (EditDescExt v))] []],
        Elem ''label'' [cls ''rr-field rr-field-wide'']
         [Elem ''span'' []
           [Text ''Internal description''],
          Elem ''textarea'' [Attr ''rows'' ''2'', Attr ''placeholder'' (''Runbook links, migration notes'' @ u_ellipsis),
             Attr ''value'' (cf_descInt f), OnVal ''input'' (\<lambda>v. RolloutEdit (EditDescInt v))] []],
        Elem ''label'' [cls ''rr-field rr-field-wide'']
         [Elem ''span'' []
           [Text ''Risks''],
          Elem ''textarea'' [Attr ''rows'' ''2'', Attr ''placeholder'' (''Known risks'' @ u_ellipsis), Attr ''value'' (cf_risks f),
             OnVal ''input'' (\<lambda>v. RolloutEdit (EditRisks v))] []],
        Elem ''label'' [cls ''rr-field rr-field-wide'']
         [Elem ''span'' []
           [Text ''Executed by (pair) '',
            Elem ''em'' []
             [Text (''(comma-separated '' @ u_mdash @ '' optional)'')]],
          Elem ''input'' [Attr ''placeholder'' ''e.g. luc, henning'', Attr ''value'' (cf_pairText f),
             OnVal ''input'' (\<lambda>v. RolloutEdit (EditPairText v))] []]]"

definition create_error :: "rollout_form \<Rightarrow> create_event node list" where
  "create_error f =
     (guarded (case cf_error f of Some e \<Rightarrow> e \<noteq> [] | None \<Rightarrow> False)
       [Elem ''div'' [cls ''rr-banner rr-banner-danger'', Attr ''data-test'' ''rollout-error'']
         [icon_view None (map_of ICONS_ts ''warn'') 16 (16 / 10),
          Elem ''div'' []
           [Elem ''strong'' []
             [Text ''Could not create rollout.''],
            Elem ''p'' []
             [Text (case cf_error f of Some e \<Rightarrow> e | None \<Rightarrow> [])]]]])"

definition create_foot :: "rollout_form \<Rightarrow> create_event node" where
  "create_foot f =
     Elem ''footer'' [cls ''rr-modal-foot'']
       [Elem ''span'' [cls ''rr-muted'']
         [Text ''An '',
          Elem ''code'' []
           [Text ''.ics''],
          Text ('' entry is added to the team'' @ [CHR 0x27] @ ''s Cal-DAV feed.'')],
        Elem ''div'' [cls ''rr-modal-foot-actions'']
         [Elem ''button'' [cls ''rr-btn rr-btn-ghost'', On ''onClick'' RolloutClose]
           [Text ''Cancel''],
          Elem ''button'' [cls ''rr-btn rr-btn-primary'', Attr ''data-test'' ''rollout-submit'',
             AttrB ''disabled'' (\<not> canSubmit f), On ''onClick'' RolloutSubmit]
           [Text ('' '' @ (if (cf_submitting f) then (''Creating'' @ u_ellipsis) else ''Create rollout'') @ '' '')]]]"

definition create_markup :: "host \<Rightarrow> ((string \<times> string) list \<Rightarrow> int \<Rightarrow> string) \<Rightarrow> rollout_form \<Rightarrow> rollout_form \<Rightarrow> string list \<Rightarrow> planned_stage list \<Rightarrow> create_event node" where
  "create_markup h ltime cur f adv pv =
     Elem ''div'' [cls ''rr-modal-scrim'', On ''onClick'' RolloutClose]
       [Elem ''div'' [cls ''rr-modal'', Attr ''rrFocusTrap'' [], Stop ''onClick'',
           Attr ''data-test'' ''create-rollout-modal'', Attr ''role'' ''dialog'', Attr ''aria-modal'' ''true'',
           Attr ''aria-labelledby'' ''rr-create-rollout-title'']
         [Elem ''header'' [cls ''rr-modal-head'']
           [Elem ''div'' []
             [Elem ''h2'' [Attr ''id'' ''rr-create-rollout-title'']
               [Text ''Create rollout''],
              Elem ''p'' [cls ''rr-modal-sub'']
               [Text '' Inherits tasks, announcement rules, and cascade delays from the chosen RolloutType. '']],
            Elem ''button'' [cls ''rr-icon-btn'', On ''onClick'' RolloutClose, Attr ''aria-label'' ''Close'']
             [icon_view None (map_of ICONS_ts ''x'') 14 (16 / 10)]],
          Elem ''div'' [cls ''rr-modal-body'']
           ([create_fields cur] @
            create_advice adv @
            create_type h ltime f pv @
            [create_texts f] @
            create_error f),
          create_foot f]]"

text \<open>
  The component with its host element, whose listener closes the dialog. An evaluation reads the advisories right after the
  fields, so when the stages cannot be computed it throws there: the fields show the form \<open>cur\<close>, and
  everything below keeps what the last complete evaluation showed, that of the form \<open>f\<close> at \<open>now\<close>.
\<close>

definition create_view :: "host \<Rightarrow> ((string \<times> string) list \<Rightarrow> int \<Rightarrow> string) \<Rightarrow> int \<Rightarrow> rollout_form \<Rightarrow> rollout_form \<Rightarrow> create_event node option" where
  "create_view h ltime now cur f = (case (scheduleAdvisories h now f, preview h f) of
     (Some adv, Some pv) \<Rightarrow>
       Some (Elem ''rr-create-rollout-modal'' [On ''document:keydown.escape'' RolloutClose] [create_markup h ltime cur f adv pv])
   | _ \<Rightarrow> None)"

text \<open>
  The dialog on the page: the form and the services, and the form and time of the last complete evaluation. The template is evaluated after every
  event while the dialog is mounted, the \<open>n\<close>-th time at \<open>clk n\<close>.
\<close>

record create_page =
  dp_modal :: "(rollout_form, rollout_body) modal"
  dp_shown :: "(rollout_form \<times> int) option"
  dp_evals :: nat

definition create_eval :: "host \<Rightarrow> (nat \<Rightarrow> int) \<Rightarrow> create_page \<Rightarrow> create_page" where
  "create_eval h clk s =
     (let f = mo_form (dp_modal s); now = clk (dp_evals s) in
      if \<not> mo_mounted (dp_modal s) then s
      else if scheduleAdvisories h now f = None then s\<lparr>dp_evals := dp_evals s + 1\<rparr>
      else s\<lparr>dp_shown := Some (f, now), dp_evals := dp_evals s + 1\<rparr>)"

definition create_dom :: "host \<Rightarrow> ((string \<times> string) list \<Rightarrow> int \<Rightarrow> string) \<Rightarrow> create_page \<Rightarrow> create_event node option" where
  "create_dom h ltime s =
     (if \<not> mo_mounted (dp_modal s) then None
      else case dp_shown s of None \<Rightarrow> None | Some (f, now) \<Rightarrow> create_view h ltime now (mo_form (dp_modal s)) f)"

definition create_act :: "host \<Rightarrow> (nat \<Rightarrow> int) \<Rightarrow> create_event \<Rightarrow> create_page \<Rightarrow> create_page" where
  "create_act h clk ev s = create_eval h clk (s\<lparr>dp_modal := create_step h ev (dp_modal s)\<rparr>)"

definition create_start :: "host \<Rightarrow> (nat \<Rightarrow> int) \<Rightarrow> int \<Rightarrow> services \<Rightarrow> create_page" where
  "create_start h clk now sv =
     create_eval h clk \<lparr>dp_modal = open_modal (new_rollout_form h now) sv, dp_shown = None, dp_evals = 0\<rparr>"

text \<open>What else happens to the dialog: the two lists arrive and requests are answered.\<close>

definition create_env :: "product list \<Rightarrow> rollout_type list \<Rightarrow> create_event set" where
  "create_env ps ts = {ProductsLoaded ps, TypesLoaded ts} \<union> range RolloutAnswer"

section \<open>The lock dialog\<close>

definition lock_kinds :: "(lock_kind \<times> string) list" where
  "lock_kinds = [(Manual, ''Manual (master bug)''), (Holiday, ''Holiday''), (Window, ''Custom window'')]"

definition lock_fields :: "product list \<Rightarrow> lock_form \<Rightarrow> lock_event node" where
  "lock_fields ps f =
     Elem ''div'' [cls ''rr-form-grid'']
       [Elem ''label'' [cls ''rr-field'']
         [Elem ''span'' []
           [Text ''Start''],
          Elem ''input'' [Attr ''type'' ''datetime-local'', Attr ''value'' (lf_start f),
             OnVal ''input'' (\<lambda>v. LockEdit (LockStart v))] []],
        Elem ''label'' [cls ''rr-field'']
         [Elem ''span'' []
           [Text ''End''],
          Elem ''input'' [Attr ''type'' ''datetime-local'', Attr ''value'' (lf_end f),
             OnVal ''input'' (\<lambda>v. LockEdit (LockEnd v))] []],
        Elem ''label'' [cls ''rr-field rr-field-wide'']
         [Elem ''span'' []
           [Text ''Title''],
          Elem ''input'' [Attr ''data-test'' ''lock-title'', Attr ''placeholder'' ''e.g. Master Branch Bug #4029'',
             Attr ''value'' (lf_title f), OnVal ''input'' (\<lambda>v. LockEdit (LockTitle v))] []],
        Elem ''label'' [cls ''rr-field rr-field-wide'']
         [Elem ''span'' []
           [Text ''Description''],
          Elem ''textarea'' [Attr ''rows'' ''2'',
             Attr ''placeholder'' (''Why is this a lock? What needs to clear before it'' @ [CHR 0x27] @ ''s lifted?''),
             Attr ''value'' (lf_description f), OnVal ''input'' (\<lambda>v. LockEdit (LockDescription v))] []],
        Elem ''label'' [cls ''rr-field rr-field-wide'']
         [Elem ''span'' []
           [Text ''Customer / contact''],
          Elem ''input'' [Attr ''placeholder'' (''Luc B. '' @ u_mdash @ '' #tms-platform''), Attr ''value'' (lf_contact f),
             OnVal ''input'' (\<lambda>v. LockEdit (LockContact v))] []],
        Elem ''div'' [cls ''rr-field rr-field-wide'']
         [Elem ''span'' []
           [Text ''Affected products''],
          Elem ''div'' [cls ''rr-prod-pickers'']
           ([Elem ''button'' [cls ''rr-prod-pick'', AttrB ''class.is-on'' (''all'' \<in> set (lf_products f)),
               On ''onClick'' (LockEdit LockAll)]
             [Text '' all '']] @
            map (\<lambda>p.
               Elem ''button'' [cls ''rr-prod-pick'', AttrB ''class.is-on'' (prod_id p \<in> set (lf_products f)),
                   On ''onClick'' (LockEdit (LockToggle (prod_id p)))]
                 [Elem ''span'' [cls ''rr-prod-dot'', Sty ''background'' (productColor_ts (prod_id p))] [],
                  Text ('' '' @ (prod_name p) @ '' '')])
             ps)]]"

definition lock_foot :: "lock_form \<Rightarrow> lock_event node" where
  "lock_foot f =
     Elem ''footer'' [cls ''rr-modal-foot'']
       [Elem ''span'' [cls ''rr-muted'']
         [Text ''Locks show in the timeline as red striped columns.''],
        Elem ''div'' [cls ''rr-modal-foot-actions'']
         [Elem ''button'' [cls ''rr-btn rr-btn-ghost'', On ''onClick'' LockClose]
           [Text ''Cancel''],
          Elem ''button'' [cls ''rr-btn rr-btn-danger'', Attr ''data-test'' ''lock-submit'',
             AttrB ''disabled'' (\<not> lock_canSubmit f), On ''onClick'' LockSubmit]
           [Text ('' '' @ (if (lf_submitting f) then (''Saving'' @ u_ellipsis) else (if (lf_editId f \<noteq> None \<and> lf_editId f \<noteq> Some []) then ''Save lock'' else ''Create lock'')) @ '' '')]]]"

definition lock_view :: "product list \<Rightarrow> lock_form \<Rightarrow> lock_event node" where
  "lock_view ps f =
     Elem ''rr-create-lock-modal'' [On ''document:keydown.escape'' LockClose]
      [Elem ''div'' [cls ''rr-modal-scrim'', On ''onClick'' LockClose]
         [Elem ''div'' [cls ''rr-modal rr-modal-sm'', Attr ''rrFocusTrap'' [], Stop ''onClick'',
             Attr ''data-test'' ''create-lock-modal'', Attr ''role'' ''dialog'', Attr ''aria-modal'' ''true'',
             Attr ''aria-labelledby'' ''rr-create-lock-title'']
           [Elem ''header'' [cls ''rr-modal-head'']
             [Elem ''div'' []
               [Elem ''h2'' [Attr ''id'' ''rr-create-lock-title'']
                 [Text ((if (lf_editId f \<noteq> None \<and> lf_editId f \<noteq> Some []) then ''Edit'' else ''Create'') @ '' rollout lock (Sperre)'')],
                Elem ''p'' [cls ''rr-modal-sub'']
                 [Text (''Blocked time range '' @ u_mdash @ '' no rollouts should be scheduled or executed.'')]],
              Elem ''button'' [cls ''rr-icon-btn'', On ''onClick'' LockClose, Attr ''aria-label'' ''Close'']
               [icon_view None (map_of ICONS_ts ''x'') 14 (16 / 10)]],
            Elem ''div'' [cls ''rr-modal-body'']
             ([Elem ''div'' [cls ''rr-seg rr-seg-lg'']
               (map (\<lambda>k.
                   Elem ''button'' [cls ''rr-seg-item'', AttrB ''class.is-active'' ((lf_kind f) = (fst k)),
                       AttrB ''aria-pressed'' ((lf_kind f) = (fst k)), On ''onClick'' (LockEdit (LockKind (fst k)))]
                     [Text ('' '' @ (snd k) @ '' '')])
                 lock_kinds),
              lock_fields ps f] @
              guarded (case lf_error f of Some e \<Rightarrow> e \<noteq> [] | None \<Rightarrow> False)
               [Elem ''div'' [cls ''rr-banner rr-banner-danger'', Attr ''data-test'' ''lock-error'']
                 [icon_view None (map_of ICONS_ts ''warn'') 16 (16 / 10),
                  Elem ''div'' []
                   [Elem ''strong'' []
                     [Text ''Could not create lock.''],
                    Elem ''p'' []
                     [Text (case lf_error f of Some e \<Rightarrow> e | None \<Rightarrow> [])]]]]),
            lock_foot f]]]"

section \<open>The list of rollouts\<close>

datatype list_event = SetWindow list_window | SetStatus string | SetProduct string | OpenRow string | NewRollout

fun list_step :: "list_event \<Rightarrow> list_page \<times> services \<Rightarrow> list_page \<times> services" where
  "list_step (SetWindow x) (s, sv) = (s\<lparr>lp_window := x\<rparr>, sv)"
| "list_step (SetStatus x) (s, sv) = (s\<lparr>lp_status := x\<rparr>, sv)"
| "list_step (SetProduct x) (s, sv) = (s\<lparr>lp_product := x\<rparr>, sv)"
| "list_step (OpenRow i) (s, sv) = (s, list_open i sv)"
| "list_step NewRollout (s, sv) = (s, list_newRollout sv)"

definition list_windows :: "(list_window \<times> string) list" where
  "list_windows = [(Upcoming, ''Upcoming''), (AllTimes, ''All''), (Past, ''Past'')]"

definition list_statuses :: "(string \<times> string) list" where
  "list_statuses = [(''all'', ''All''), (''scheduled'', ''Scheduled''), (''active'', ''In flight''), (''blocked'', ''Blocked''), (''done'', ''Done'')]"

definition fmtTime :: "host \<Rightarrow> ((string \<times> string) list \<Rightarrow> int \<Rightarrow> string) \<Rightarrow> string \<Rightarrow> string" where
  "fmtTime h ltime d_text = (case new_Date h d_text of
     Some d \<Rightarrow> ltime [(''hour'', ''2-digit''), (''minute'', ''2-digit'')] d
   | None \<Rightarrow> ''Invalid Date'')"

text \<open>\<open>split(' . ')[0]\<close>, the text before the first separator.\<close>

fun before_sep :: "string \<Rightarrow> string" where
  "before_sep [] = []"
| "before_sep (c # cs) = (if starts_with (c # cs) ('' '' @ u_middot @ '' '') then [] else c # before_sep cs)"

definition list_toolbar :: "bool \<Rightarrow> rl_row list \<Rightarrow> rl_row list \<Rightarrow> list_event node" where
  "list_toolbar can filtered rows =
     Elem ''div'' [cls ''rr-list-toolbar'']
       [Elem ''div'' [cls ''rr-list-toolbar-l'']
         [Elem ''div'' [cls ''rr-month-title'']
           [Elem ''span'' []
             [Text ''Rollouts''],
            Elem ''span'' [cls ''rr-month-range'']
             [Text ('' '' @ (show_nat (length filtered)) @ '' of '' @ (show_nat (length rows)) @ ('' stages '' @ u_middot @ '' sorted by date ''))]]],
        Elem ''div'' [cls ''rr-list-toolbar-r'']
         ([Elem ''a'' [cls ''rr-btn rr-btn-ghost rr-btn-sm'', Attr ''href'' ''/api/calendar.ics'']
           [icon_view None (map_of ICONS_ts ''download'') 13 (16 / 10),
            Text '' Export iCal '']] @
          guarded can
           [Elem ''button'' [cls ''rr-btn rr-btn-primary rr-btn-sm'', On ''onClick'' NewRollout]
             [icon_view None (map_of ICONS_ts ''plus'') 13 (16 / 10),
              Text '' New rollout '']])]"

definition list_filters :: "list_page \<Rightarrow> rl_row list \<Rightarrow> list_event node" where
  "list_filters s rows =
     Elem ''div'' [cls ''rr-list-filters'']
       [Elem ''div'' [cls ''rr-list-filter'']
         [Elem ''span'' [cls ''rr-list-filter-label'']
           [Text ''Window''],
          Elem ''div'' [cls ''rr-seg'']
           (map (\<lambda>k.
               Elem ''button'' [cls ''rr-seg-item'', AttrB ''class.is-active'' (lp_window s = fst k),
                   AttrB ''aria-pressed'' (lp_window s = fst k), On ''onClick'' (SetWindow (fst k))]
                 [Text ('' '' @ (snd k) @ '' '')])
             list_windows)],
        Elem ''div'' [cls ''rr-list-filter'']
         [Elem ''span'' [cls ''rr-list-filter-label'']
           [Text ''Status''],
          Elem ''div'' [cls ''rr-seg'']
           (map (\<lambda>k.
               Elem ''button'' [cls ''rr-seg-item'', AttrB ''class.is-active'' (lp_status s = fst k),
                   AttrB ''aria-pressed'' (lp_status s = fst k), On ''onClick'' (SetStatus (fst k))]
                 [Text ('' '' @ (snd k) @ '' ''),
                  Elem ''span'' [cls ''rr-list-pill'']
                   [Text (show_nat (rl_count rows (fst k)))]])
             list_statuses)],
        Elem ''div'' [cls ''rr-list-filter'']
         [Elem ''span'' [cls ''rr-list-filter-label'']
           [Text ''Product''],
          Elem ''select'' [cls ''rr-list-select'', Attr ''value'' (lp_product s), OnVal ''change'' (\<lambda>v. SetProduct v)]
           ([Elem ''option'' [Attr ''value'' ''all'']
             [Text ''All products'']] @
            map (\<lambda>p.
               Elem ''option'' [Attr ''value'' (prod_id p)]
                 [Text (prod_name p)])
             (lp_products s))]]"

definition list_date_row :: "host \<Rightarrow> int \<Rightarrow> row_group \<Rightarrow> list_event node" where
  "list_date_row h now g =
     Elem ''tr'' [cls ''rr-list-daterow'', AttrB ''class.is-today'' (isToday now (gr_date g)),
         AttrB ''class.is-past'' (isPast now (gr_date g))]
       [Elem ''td'' [Attr ''colspan'' ''6'']
         [Elem ''span'' [cls ''rr-list-dateday'']
           [Text ('' '' @ (locale_date h [(''weekday'', ''long''), (''day'', ''2-digit''), (''month'', ''long'')] (gr_date g)) @ '' '')],
          Elem ''span'' [cls ''rr-list-daterel'']
           [Text (relDay now (gr_date g))],
          Elem ''span'' [cls ''rr-list-datecount'']
           [Text ((show_nat (length (gr_rows g))) @ '' stage'' @ (if length (gr_rows g) > 1 then ''s'' else []))]]]"

definition list_row_view :: "host \<Rightarrow> ((string \<times> string) list \<Rightarrow> int \<Rightarrow> string) \<Rightarrow> rl_row \<Rightarrow> list_event node" where
  "list_row_view h ltime r =
     Elem ''tr'' [cls ''rr-list-row'', On ''onClick'' (OpenRow (rd_id (lr_rollout r))),
         Attr ''data-test'' (''list-row-'' @ (rd_id (lr_rollout r)))]
       [Elem ''td'' []
         [Elem ''div'' [cls ''rr-list-time'']
           [Text (fmtTime h ltime (pl_startAt (lr_stage r)))],
          Elem ''div'' [cls ''rr-list-date-sub'']
           [Text ('' '' @ (locale_date h [(''day'', ''2-digit''), (''month'', ''short'')] (lr_date r)) @ '' ''),
            Elem ''span'' [cls ''rr-list-window'']
             [Text (''+'' @ (show_int (list_hours (pl_durationNs (lr_stage r)))) @ ''h'')]]],
        Elem ''td'' []
         [Elem ''span'' [cls ''rr-list-stage'', Sty ''background'' (st_soft (getStage_ts (pl_env (lr_stage r)))),
             Sty ''color'' (st_color (getStage_ts (pl_env (lr_stage r)))),
             Sty ''borderColor'' (st_border (getStage_ts (pl_env (lr_stage r))))]
           [Elem ''span'' [cls ''rr-list-stage-tag'', Sty ''background'' (st_color (getStage_ts (pl_env (lr_stage r))))] [],
            Text ('' '' @ (before_sep (st_label (getStage_ts (pl_env (lr_stage r))))) @ '' '')]],
        Elem ''td'' []
         [Elem ''div'' [cls ''rr-list-title'']
           [Text (rd_title (lr_rollout r))],
          Elem ''div'' [cls ''rr-list-id rr-mono rr-muted'']
           [Text (rd_id (lr_rollout r))]],
        Elem ''td'' []
         [Elem ''div'' [cls ''rr-list-product'']
           [Elem ''span'' [cls ''rr-prod-dot'', Sty ''background'' (productColor_ts (rd_product (lr_rollout r)))] [],
            Elem ''span'' [cls ''rr-mono'']
             [Text (rd_product (lr_rollout r))]]],
        Elem ''td'' []
         [badge_view (statusTone (pl_status (lr_stage r))) True False
           [Text (pl_status (lr_stage r))]],
        Elem ''td'' []
         [Elem ''button'' [cls ''rr-icon-btn'', OnStop ''onClick'' (OpenRow (rd_id (lr_rollout r))),
             Attr ''aria-label'' (''Open '' @ (rd_title (lr_rollout r))), Attr ''title'' ''Open'']
           [icon_view None (map_of ICONS_ts ''chev'') 14 (16 / 10)]]]"

definition list_body :: "host \<Rightarrow> ((string \<times> string) list \<Rightarrow> int \<Rightarrow> string) \<Rightarrow> int \<Rightarrow> list_page \<Rightarrow> row_group list \<Rightarrow> list_event node list" where
  "list_body h ltime now s gs =
     (if gs = []
      then [Elem ''tr'' []
             [Elem ''td'' [Attr ''colspan'' ''6'', cls ''rr-list-empty'']
               [Text ('' '' @ (if (lp_loaded s) then ''No rollouts match the current filters.'' else (''Loading'' @ u_ellipsis)) @ '' '')]]]
      else concat (map (\<lambda>g.
         ([list_date_row h now g] @
          map (\<lambda>r.
             list_row_view h ltime r)
           (gr_rows g)))
       gs))"

definition list_view :: "host \<Rightarrow> ((string \<times> string) list \<Rightarrow> int \<Rightarrow> string) \<Rightarrow> int \<Rightarrow> bool \<Rightarrow> list_page \<Rightarrow> list_event node option" where
  "list_view h ltime now can s = (case rl_rows h s of
     None \<Rightarrow> None
   | Some rows \<Rightarrow>
       let filtered = filteredRows now s rows; gs = row_groups filtered in
       Some
         (Elem ''div'' [cls ''rr-list'']
            [list_toolbar can filtered rows,
             list_filters s rows,
             Elem ''div'' [cls ''rr-list-scroll'']
              [Elem ''table'' [cls ''rr-list-table'']
                [Elem ''thead'' []
                  [Elem ''tr'' []
                    [Elem ''th'' [Attr ''style'' ''width:130px'']
                      [Text (''Date '' @ u_middot @ '' Time'')],
                     Elem ''th'' [Attr ''style'' ''width:120px'']
                      [Text ''Stage''],
                     Elem ''th'' []
                      [Text ''Rollout''],
                     Elem ''th'' [Attr ''style'' ''width:130px'']
                      [Text ''Product''],
                     Elem ''th'' [Attr ''style'' ''width:120px'']
                      [Text ''Status''],
                     Elem ''th'' [Attr ''style'' ''width:50px'', Attr ''aria-label'' ''open''] []]],
                 Elem ''tbody'' []
                  (list_body h ltime now s gs)]]]))"

section \<open>The page of the locks\<close>

definition kind_text :: "lock_kind \<Rightarrow> string" where
  "kind_text k = (case k of Manual \<Rightarrow> ''manual'' | Holiday \<Rightarrow> ''holiday'' | Window \<Rightarrow> ''window'')"

definition locks_fmt :: "host \<Rightarrow> ((string \<times> string) list \<Rightarrow> int \<Rightarrow> string) \<Rightarrow> string \<Rightarrow> string" where
  "locks_fmt h ltext d_text = (case new_Date h d_text of
     Some d \<Rightarrow> ltext [(''day'', ''2-digit''), (''month'', ''short''), (''hour'', ''2-digit''), (''minute'', ''2-digit'')] d
   | None \<Rightarrow> ''Invalid Date'')"

definition lock_card :: "host \<Rightarrow> ((string \<times> string) list \<Rightarrow> int \<Rightarrow> string) \<Rightarrow> bool \<Rightarrow> locks_page \<Rightarrow> lock_doc \<Rightarrow> locks_event node" where
  "lock_card h ltext can s l =
     Elem ''div'' [cls ''rr-card'', Attr ''style'' ''margin-top: 12px; padding: 14px;'',
         Attr ''data-test'' (''lock-'' @ (ld_id l))]
       ([Elem ''div'' [Attr ''style'' ''display:flex;align-items:center;gap:10px;justify-content:space-between;'']
         [Elem ''strong'' []
           [Text (ld_title l)],
          Elem ''div'' [Attr ''style'' ''display:flex;align-items:center;gap:8px;'']
           ([badge_view (if ld_kind l = Holiday then ''info'' else ''danger'') False False
             [Text (kind_text (ld_kind l))]] @
            guarded can
             ([Elem ''button'' [cls ''rr-icon-btn'', Attr ''data-test'' (''lock-edit-'' @ (ld_id l)), On ''onClick'' (EditLock l),
                 Attr ''title'' ''Edit'']
               [icon_view None (map_of ICONS_ts ''code'') 13 (16 / 10)]] @
              (if (kp_confirmingId s = Some (ld_id l))
              then [Elem ''button'' [cls ''rr-btn rr-btn-danger rr-btn-sm'', Attr ''data-test'' (''lock-delete-confirm-'' @ (ld_id l)),
                       On ''onClick'' (ConfirmRemove l)]
                     [Text '' Confirm ''],
                    Elem ''button'' [cls ''rr-btn rr-btn-ghost rr-btn-sm'', On ''onClick'' KeepLock]
                     [Text '' Cancel '']]
              else [Elem ''button'' [cls ''rr-icon-btn rr-md-row-x'', Attr ''data-test'' (''lock-delete-'' @ (ld_id l)),
                       On ''onClick'' (AskRemove l), Attr ''title'' ''Delete'']
                     [icon_view None (map_of ICONS_ts ''x'') 13 (16 / 10)]])))],
        Elem ''p'' [cls ''rr-muted'', Attr ''style'' ''margin:6px 0;'']
         [Text (ld_description l)],
        Elem ''div'' [cls ''rr-mono rr-muted'', Attr ''style'' ''font-size:12px;'']
         [Text ('' '' @ (locks_fmt h ltext (ld_startAt l)) @ ('' '' @ u_arrow @ '' '') @ (locks_fmt h ltext (ld_endAt l)) @ '' '')],
        Elem ''div'' [Attr ''style'' ''display:flex;gap:6px;flex-wrap:wrap;margin-top:8px;'']
         (map (\<lambda>p.
             Elem ''span'' [cls ''rr-chip'']
               [Elem ''span'' [cls ''rr-chip-dot'', Sty ''background'' (productColor_ts p)] [],
                Text (p @ '' '')])
           (ld_products l))] @
        guarded (ld_contact l \<noteq> [])
         [Elem ''div'' [cls ''rr-muted'', Attr ''style'' ''font-size:12px;margin-top:6px;'']
           [Text (''contact: '' @ (ld_contact l))]])"

definition locks_view :: "host \<Rightarrow> ((string \<times> string) list \<Rightarrow> int \<Rightarrow> string) \<Rightarrow> bool \<Rightarrow> locks_page \<Rightarrow> locks_event node" where
  "locks_view h ltext can s =
     Elem ''div'' [Attr ''style'' ''padding: 16px 18px;'']
       ([Elem ''div'' [cls ''rr-list-toolbar'']
         ([Elem ''div'' [cls ''rr-month-title'']
           [Elem ''span'' []
             [Text ''Rollout Locks (Sperren)''],
            Elem ''span'' [cls ''rr-month-range'']
             [Text ((show_nat (length (kp_locks s))) @ '' defined'')]]] @
          guarded can
           [Elem ''button'' [cls ''rr-btn rr-btn-danger rr-btn-sm'', On ''onClick'' NewLock, Attr ''data-test'' ''new-lock'']
             [icon_view None (map_of ICONS_ts ''lock'') 13 (16 / 10),
              Text '' New lock '']])] @
        (if (kp_locks s) = []
        then [Elem ''div'' [cls ''rr-muted'', Attr ''style'' ''margin-top:12px;'']
               [Text ('' '' @ (if (kp_loaded s) then ''No locks defined.'' else (''Loading'' @ u_ellipsis)) @ '' '')]]
        else map (\<lambda>l.
           lock_card h ltext can s l)
         (kp_locks s)))"

section \<open>Contacts and the page on the API\<close>

definition contacts_view :: "product list \<Rightarrow> 'a node" where
  "contacts_view ps =
     Elem ''div'' [Attr ''style'' ''padding: 16px 18px;'', Attr ''data-test'' ''contacts-view'']
       [Elem ''div'' [cls ''rr-month-title'']
         [Elem ''span'' []
           [Text ''Release Contacts & Approvals''],
          Elem ''span'' [cls ''rr-month-range'']
           [Text ((show_nat (length ps)) @ '' products'')]],
        Elem ''p'' [cls ''rr-muted'', Attr ''style'' ''margin: 6px 0 14px;'']
         [Text ('' Wer f'' @ u_ue @ ''r welches Produkt / welche Broker kontaktiert werden muss (SNOW changes + Releases), um eine Release-Freigabe + Window zu erhalten. '')],
        Elem ''table'' [cls ''rr-list-table'']
         [Elem ''thead'' []
           [Elem ''tr'' []
             [Elem ''th'' [Attr ''style'' ''width:160px'']
               [Text ''Product''],
              Elem ''th'' [Attr ''style'' ''width:180px'']
               [Text ''Release approval''],
              Elem ''th'' []
               [Text ''Brokers''],
              Elem ''th'' [Attr ''style'' ''width:160px'']
               [Text ''SNOW change'']]],
          Elem ''tbody'' []
           (if ps = []
            then [Elem ''tr'' []
                   [Elem ''td'' [Attr ''colspan'' ''4'', cls ''rr-list-empty'']
                     [Text ''No products.'']]]
            else map (\<lambda>p.
               Elem ''tr'' [Attr ''data-test'' (''contact-'' @ (prod_id p))]
                 [Elem ''td'' []
                   [Elem ''div'' [cls ''rr-list-product'']
                     [Elem ''span'' [cls ''rr-prod-dot'', Sty ''background'' (productColor_ts (prod_id p))] [],
                      Elem ''span'' []
                       [Text (prod_name p)]]],
                  Elem ''td'' [Attr ''data-test'' ''contact-owner'']
                   [Text (if prod_owner p = [] then u_mdash else prod_owner p)],
                  Elem ''td'' []
                   [Elem ''div'' [Attr ''style'' ''display:flex;gap:6px;flex-wrap:wrap;'']
                     (if (prod_brokers p) = []
                      then [Elem ''span'' [cls ''rr-muted'']
                             [Text u_mdash]]
                      else map (\<lambda>b.
                         Elem ''span'' [cls ''rr-chip'']
                           [Elem ''code'' []
                             [Text b]])
                       (prod_brokers p))],
                  Elem ''td'' []
                   (if (snowRequired p)
                    then [badge_view ''warn'' True False
                           [Text ''SNOW change required'']]
                    else [badge_view ''ok'' True False
                           [Text ''no prod impact'']])])
             ps)]]"

definition docs_page_view :: "'a node" where
  "docs_page_view =
     Elem ''div'' [Attr ''style'' ''padding: 16px 18px;'']
       [Elem ''div'' [cls ''rr-month-title'']
         [Elem ''span'' []
           [Text ''API & iCal''],
          Elem ''span'' [cls ''rr-month-range'']
           [Text ''Public reference'']],
        Elem ''ul'' []
         [Elem ''li'' []
           [Elem ''code'' []
             [Text ''GET /api/me'']],
          Elem ''li'' []
           [Elem ''code'' []
             [Text ''GET /api/products''],
            Text ('' '' @ u_middot @ '' ''),
            Elem ''code'' []
             [Text ''POST /api/products''],
            Text '' (admin)''],
          Elem ''li'' []
           [Elem ''code'' []
             [Text ''GET /api/rollout-types''],
            Text ('' '' @ u_middot @ '' ''),
            Elem ''code'' []
             [Text ''POST /api/rollout-types''],
            Text '' (admin)''],
          Elem ''li'' []
           [Elem ''code'' []
             [Text ''GET /api/rollouts''],
            Text ('' '' @ u_middot @ '' ''),
            Elem ''code'' []
             [Text ''GET /api/rollouts/:id'']],
          Elem ''li'' []
           [Elem ''code'' []
             [Text ''POST /api/rollouts''],
            Text '' (admin)''],
          Elem ''li'' []
           [Elem ''code'' []
             [Text ''PATCH /api/rollouts/:id''],
            Text ('' '' @ u_middot @ '' ''),
            Elem ''code'' []
             [Text ''DELETE /api/rollouts/:id''],
            Text '' (admin)''],
          Elem ''li'' []
           [Elem ''code'' []
             [Text ''PATCH /api/rollouts/:id/tasks/:seq''],
            Text ('' (admin) '' @ u_mdash @ '' check off a task'')],
          Elem ''li'' []
           [Elem ''code'' []
             [Text ''GET /api/locks''],
            Text ('' '' @ u_middot @ '' ''),
            Elem ''code'' []
             [Text ''POST /api/locks''],
            Text '' (admin)''],
          Elem ''li'' []
           [Elem ''code'' []
             [Text ''PATCH /api/locks/:id''],
            Text ('' '' @ u_middot @ '' ''),
            Elem ''code'' []
             [Text ''DELETE /api/locks/:id''],
            Text '' (admin)''],
          Elem ''li'' []
           [Elem ''code'' []
             [Text ''GET /api/calendar.ics''],
            Text ('' '' @ u_mdash @ '' subscribe / import in Outlook (CalDAV)'')],
          Elem ''li'' []
           [Elem ''code'' []
             [Text ''GET /auth/login''],
            Text ('' '' @ u_mdash @ '' start Microsoft Entra SSO'')]]]"

section \<open>What the parts offer\<close>

lemma offered_icon_view [simp]: "offered (icon_view name d sz st) = {}"
  by (simp add: icon_view_def)

lemma offered_badge_view [simp]: "offered (badge_view tone dot monosp content) = offered_list content"
  by (simp add: badge_view_def)

lemma offered_avatar_view [simp]: "offered_list (avatar_view a sz ring) = {}" "offered (avatar_stack_view as n) = {}"
  by (simp_all add: avatar_view_def avatar_stack_view_def split: option.splits)

lemma offered_static_pages: "offered (contacts_view ps) = {}" "offered docs_page_view = {}"
  by (auto simp: contacts_view_def docs_page_view_def)

lemma offered_create_static [simp]:
  "offered_list (create_advice adv) = {}" "offered_list (create_preview h ltime ty pv) = {}"
  "offered_list (create_type h ltime f pv) = {}" "offered_list (create_error f) = {}"
proof -
  show p: "offered_list (create_preview h ltime ty pv) = {}" for ty by (auto simp: create_preview_def)
  show "offered_list (create_advice adv) = {}" by (auto simp: create_advice_def)
  show "offered_list (create_error f) = {}" by (simp add: create_error_def)
  show "offered_list (create_type h ltime f pv) = {}" by (auto simp: create_type_def p split: option.splits)
qed

definition field_edits :: "rollout_form \<Rightarrow> rollout_edit set" where
  "field_edits f = range EditTitle \<union> EditProduct ` prod_id ` set (cf_products f) \<union> EditType ` rt_id ` set (cf_types f) \<union>
     range EditStartDate \<union> range EditStartTime \<union> (\<lambda>n. EditDuration (of_int n)) ` UNIV"

definition text_edits :: "rollout_edit set" where
  "text_edits = range EditDescExt \<union> range EditDescInt \<union> range EditRisks \<union> range EditPairText"

lemma offered_create_fields: "offered (create_fields f) = RolloutEdit ` field_edits f"
  by (auto simp: create_fields_def field_edits_def image_iff)

lemma offered_create_texts: "offered (create_texts f) = RolloutEdit ` text_edits"
  by (auto simp: create_texts_def text_edits_def image_iff)

lemma offered_create_foot: "offered (create_foot f) = {RolloutClose} \<union> (if canSubmit f then {RolloutSubmit} else {})"
  by (simp add: create_foot_def)

lemma offered_create_view:
  "create_view h ltime now cur f = Some n \<Longrightarrow> offered n = {RolloutClose} \<union> (if canSubmit f then {RolloutSubmit} else {}) \<union>
     RolloutEdit ` (field_edits cur \<union> text_edits)"
  by (auto simp: create_view_def create_markup_def offered_create_fields offered_create_texts offered_create_foot split: option.splits)

lemma create_view_renders: "create_view h ltime now cur f = None \<longleftrightarrow> preview h f = None"
  by (auto simp: create_view_def scheduleAdvisories_def split: option.splits)

section \<open>The page of the locks\<close>

lemma offered_lock_card: "offered (lock_card h ltext can s l) = (if can then {EditLock l} \<union>
    (if kp_confirmingId s = Some (ld_id l) then {ConfirmRemove l, KeepLock} else {AskRemove l}) else {})"
  by (auto simp: lock_card_def)

lemma offered_locks_view: "offered (locks_view h ltext can s) =
    (if can then {NewLock} \<union> (\<Union>l \<in> set (kp_locks s). {EditLock l} \<union>
      (if kp_confirmingId s = Some (ld_id l) then {ConfirmRemove l, KeepLock} else {AskRemove l})) else {})"
  by (auto simp: locks_view_def offered_lock_card)

text \<open>The template of the locks page raises exactly the events that the model of the page offers.\<close>

theorem locks_page_offers:
  assumes "ev \<notin> range LocksLoaded \<union> range RemoveAnswer"
  shows "ev \<in> offered (locks_view h ltext can s) \<longleftrightarrow> locks_offers can ev s"
  using assms by (cases ev) (auto simp: offered_locks_view split: if_splits)

definition frozen_lock :: lock_doc where
  "frozen_lock = \<lparr>ld_id = ''l-1'', ld_title = ''Freeze'', ld_description = [], ld_contact = [], ld_startAt = ''2026-06-02T10:00:00Z'',
     ld_endAt = ''2026-06-03T10:00:00Z'', ld_products = [''operator''], ld_kind = Manual\<rparr>"

theorem locks_page_offers_witness: "EditLock frozen_lock \<notin> offered (locks_view utc_host (\<lambda>_ _. []) False ((new_locks_page example_services)\<lparr>kp_locks := [frozen_lock]\<rparr>))"
  using locks_page_offers [of "EditLock frozen_lock" utc_host "\<lambda>_ _. []" False "(new_locks_page example_services)\<lparr>kp_locks := [frozen_lock]\<rparr>"] by auto

section \<open>The list of rollouts\<close>

lemma offered_list_row [simp]: "offered (list_row_view h ltime r) = {OpenRow (rd_id (lr_rollout r))}"
  by (simp add: list_row_view_def)

lemma offered_list_date_row [simp]: "offered (list_date_row h now g) = {}"
  by (simp add: list_date_row_def)

lemma offered_list_body: "offered_list (list_body h ltime now s gs) = (\<Union>g \<in> set gs. \<Union>r \<in> set (gr_rows g). {OpenRow (rd_id (lr_rollout r))})"
  by (auto simp: list_body_def)

lemma offered_list_toolbar: "offered (list_toolbar can filtered rows) = (if can then {NewRollout} else {})"
  by (simp add: list_toolbar_def)

lemma offered_list_filters: "offered (list_filters s rows) = range SetWindow \<union> SetStatus ` fst ` set list_statuses \<union>
    SetProduct ` ({''all''} \<union> prod_id ` set (lp_products s))"
proof -
  have "(\<Union>k \<in> set list_windows. {SetWindow (fst k)}) = range SetWindow"
    by (auto simp: list_windows_def) (metis list_window.exhaust)
  then show ?thesis by (simp add: list_filters_def) auto
qed

lemma row_groups_rows: "(\<Union>g \<in> set (row_groups rows). set (gr_rows g)) = set rows"
proof -
  have "concat (map gr_rows (row_groups rows)) = rows" using row_groups_fold [of rows] by (simp add: groups_ok_def)
  then show ?thesis by (metis set_concat set_map image_image)
qed

text \<open>Clicks that run at most one handler, and elements without any.\<close>

definition one_click :: "'a node \<Rightarrow> bool" where
  "one_click n \<longleftrightarrow> (\<forall>c \<in> set (clicks n). length (snd c) \<le> 1)"

definition mute :: "'a node \<Rightarrow> bool" where
  "mute n \<longleftrightarrow> (\<forall>c \<in> set (clicks n). snd c = [])"

lemma one_click_Text [simp]: "one_click (Text s)" "mute (Text s)"
  by (simp_all add: one_click_def mute_def)

lemma bubble_plain: "click_actions as = [] \<Longrightarrow> snd (bubble as c) = snd c"
  by (simp add: bubble_def)

lemma one_click_plain: "click_actions as = [] \<Longrightarrow> one_click (Elem t as ks) \<longleftrightarrow> list_all one_click ks"
  by (auto simp: one_click_def list_all_iff bubble_plain)

lemma mute_plain: "click_actions as = [] \<Longrightarrow> mute (Elem t as ks) \<longleftrightarrow> list_all mute ks"
  by (auto simp: mute_def list_all_iff bubble_plain)

lemma one_click_leaf: "length (click_actions as) \<le> 1 \<Longrightarrow> list_all mute ks \<Longrightarrow> one_click (Elem t as ks)"
  by (fastforce simp: one_click_def mute_def list_all_iff bubble_def)

lemma mute_one_click: "mute n \<Longrightarrow> one_click n"
  by (auto simp: mute_def one_click_def)

lemma click_actions_plain:
  "click_actions [] = []" "click_actions (Attr n v # as) = click_actions as" "click_actions (Sty n v # as) = click_actions as"
  "click_actions (AttrN n q # as) = click_actions as" "click_actions (StyN n q # as) = click_actions as"
  "n \<noteq> ''disabled'' \<Longrightarrow> click_actions (AttrB n b # as) = click_actions as"
  "n \<noteq> ''onClick'' \<Longrightarrow> click_actions (OnVal n f # as) = click_actions as"
  by (simp_all add: click_actions_def disabled_def)

lemmas click_rules = one_click_plain mute_plain click_actions_plain

lemma mute_icon [simp]: "mute (icon_view name d sz st)"
  by (simp add: icon_view_def click_rules)

lemma mute_badge [simp]: "mute (badge_view tone dot monosp content) \<longleftrightarrow> list_all mute content"
  by (simp add: badge_view_def click_rules guarded_def)

lemma one_click_row: "one_click (list_row_view h ltime r)"
  by (simp add: one_click_def list_row_view_def icon_view_def badge_view_def bubble_def click_actions_def stops_def disabled_def)

lemma one_click_button: "list_all mute ks \<Longrightarrow> one_click (Elem ''button'' [cls c, On ''onClick'' a] ks)"
  "list_all mute ks \<Longrightarrow> one_click (Elem ''button'' [cls c, AttrB ''class.is-active'' b, AttrB ''aria-pressed'' b, On ''onClick'' a] ks)"
  by (rule one_click_leaf; simp add: click_actions_def disabled_def)+

lemma one_click_list_view: "list_view h ltime now can s = Some n \<Longrightarrow> one_click n"
proof -
  have "one_click (list_toolbar can filtered rows)" for filtered rows
    by (simp add: list_toolbar_def click_rules guarded_def one_click_button mute_one_click)
  moreover have "one_click (list_filters s rows)" for rows
    by (simp add: list_filters_def click_rules one_click_button list_all_iff)
  moreover have "list_all one_click (list_body h ltime now s gs)" for gs
    by (auto simp: list_body_def list_all_iff one_click_row list_date_row_def click_rules)
  ultimately show "list_view h ltime now can s = Some n \<Longrightarrow> one_click n"
    by (auto simp: list_view_def Let_def click_rules split: option.splits)
qed

text \<open>
  C19. The list offers to open exactly the rollouts that have a stage among the filtered rows, in whichever group it stands; a user who may edit and no
  other can create one; and a click runs one handler at most, so the button in a row does not open its rollout twice.
\<close>

theorem list_page_opens:
  assumes "list_view h ltime now can s = Some n"
  shows "\<exists>rows. rl_rows h s = Some rows \<and> {i. OpenRow i \<in> offered n} = (\<lambda>r. rd_id (lr_rollout r)) ` set (filteredRows now s rows) \<and>
    (NewRollout \<in> offered n \<longleftrightarrow> can) \<and> (\<forall>acts \<in> set (clicked n). length acts \<le> 1)"
proof -
  obtain rows where rows: "rl_rows h s = Some rows" using assms by (auto simp: list_view_def split: option.splits)
  let ?f = "filteredRows now s rows"
  have "offered n = offered (list_toolbar can ?f rows) \<union> offered (list_filters s rows) \<union> offered_list (list_body h ltime now s (row_groups ?f))"
    using assms rows by (auto simp: list_view_def Let_def)
  then have off: "offered n = (if can then {NewRollout} else {}) \<union> offered (list_filters s rows) \<union>
      (\<Union>r \<in> (\<Union>g \<in> set (row_groups ?f). set (gr_rows g)). {OpenRow (rd_id (lr_rollout r))})"
    by (simp add: offered_list_toolbar offered_list_body)
  have "{i. OpenRow i \<in> offered n} = (\<lambda>r. rd_id (lr_rollout r)) ` set ?f" "NewRollout \<in> offered n \<longleftrightarrow> can"
    unfolding off row_groups_rows by (auto simp: offered_list_filters)
  moreover have "\<forall>acts \<in> set (clicked n). length acts \<le> 1" using one_click_list_view [OF assms] by (simp add: one_click_def clicked_def)
  ultimately show ?thesis using rows by blast
qed

theorem list_page_opens_witness: "\<exists>n. list_view utc_host (\<lambda>_ _. []) 0 False example_list = Some n \<and> OpenRow ''r1'' \<in> offered n \<and> NewRollout \<notin> offered n"
proof -
  note rows = example_list_rows(1)
  obtain n where n: "list_view utc_host (\<lambda>_ _. []) 0 False example_list = Some n" using rows by (simp add: list_view_def Let_def)
  have "''r1'' \<in> (\<lambda>r. rd_id (lr_rollout r)) ` set (filteredRows 0 example_list example_rows)" by code_simp
  then show ?thesis using list_page_opens [OF n] n rows by auto
qed

end
