(* ===== verification/RR_DetailView.thy ===== *)
theory RR_DetailView
  imports RR_Detail RR_Views
begin

text \<open>
  The template of the page of a rollout, \<open>src/frontend/src/app/features/rollout-detail/rollout-detail.component.html\<close>, as a tree of elements whose
  handlers carry the events of \<open>RR_Detail\<close>. The conventions are those of \<open>RR_Views\<close>. \<open>can\<close> and \<open>admin\<close> are the two answers of the session.
  The main result is that the template raises exactly the events that the model of the page offers.
\<close>

section \<open>Values the template reads\<close>

definition truthy_text :: "string option \<Rightarrow> string option" where
  "truthy_text x = (if x = Some [] then None else x)"

definition open_draft :: "detail_state \<Rightarrow> rollout_doc option" where
  "open_draft s = (if dt_editing s then dt_draft s else None)"

definition stageGap_text :: "host \<Rightarrow> rollout_stage list \<Rightarrow> nat \<Rightarrow> string" where
  "stageGap_text h stages i = (case (new_Date h (pl_startAt (stages ! (i - 1))), new_Date h (pl_startAt (stages ! i))) of
     (Some before, Some start) \<Rightarrow> stageGap before start
   | _ \<Rightarrow> ''NaNd'')"

section \<open>The parts of the page\<close>

definition detail_error :: "detail_state \<Rightarrow> detail_event node list" where
  "detail_error s =
     (case truthy_text (dt_actionError s) of None \<Rightarrow> [] | Some err \<Rightarrow>
       [Elem ''div'' [cls ''rr-banner rr-banner-danger'', Attr ''role'' ''alert'', Attr ''data-test'' ''detail-error'']
         [icon_view None (map_of ICONS_ts ''warn'') 16 (16 / 10),
          Elem ''div'' []
           [Elem ''strong'' []
             [Text ''Action failed.''],
            Elem ''p'' []
             [Text err]]]])"

definition detail_head :: "bool \<Rightarrow> detail_state \<Rightarrow> rollout_doc \<Rightarrow> detail_event node" where
  "detail_head can s r =
     Elem ''header'' [cls ''rr-detail-head'']
       [Elem ''div'' [cls ''rr-drawer-head-l'']
         [Elem ''button'' [cls ''rr-detail-back'', On ''onClick'' Back]
           [icon_view None (map_of ICONS_ts ''chev'') 12 (16 / 10),
            Text '' Back to timeline ''],
          Elem ''div'' [cls ''rr-drawer-eyebrow'']
           ([Elem ''span'' [cls ''rr-prod-dot'', Sty ''background'' (productColor_ts (rd_product r))] [],
            Elem ''span'' []
             [Text (rd_product r)],
            Elem ''span'' [cls ''rr-sep'']
             [Text ''/'']] @
            (case detail_type s of None \<Rightarrow> [] | Some t \<Rightarrow>
             [badge_view (rt_tone t) False False
               [Text (rt_short t)]]) @
            [Elem ''span'' [cls ''rr-sep'']
             [Text ''/''],
            Elem ''span'' [cls ''rr-mono rr-muted'']
             [Text (rd_id r)]]),
          Elem ''h2'' [cls ''rr-drawer-title'']
           [Text (rd_title r)]],
        Elem ''div'' [cls ''rr-drawer-head-r'']
         ([Elem ''a'' [cls ''rr-btn rr-btn-ghost rr-btn-sm'', Attr ''href'' ''/api/calendar.ics'']
           [icon_view None (map_of ICONS_ts ''download'') 13 (16 / 10),
            Text '' .ics '']] @
          guarded can
           (if (\<not> (dt_editing s))
            then [Elem ''button'' [cls ''rr-btn rr-btn-ghost rr-btn-sm'', Attr ''data-test'' ''edit-rollout'', On ''onClick'' EnterEdit]
                   [icon_view None (map_of ICONS_ts ''code'') 13 (16 / 10),
                    Text '' Edit ''],
                  Elem ''button'' [cls ''rr-btn rr-btn-ghost rr-btn-sm rr-btn-danger-ghost'', Attr ''data-test'' ''delete-rollout'',
                     On ''onClick'' RequestDelete]
                   [icon_view None (map_of ICONS_ts ''x'') 13 (16 / 10),
                    Text '' Delete '']]
            else [Elem ''button'' [cls ''rr-btn rr-btn-ghost rr-btn-sm'', On ''onClick'' CancelEdit]
                   [Text ''Cancel''],
                  Elem ''button'' [cls ''rr-btn rr-btn-primary rr-btn-sm'', Attr ''data-test'' ''save-rollout'',
                     AttrB ''disabled'' (dt_busy s), On ''onClick'' Save]
                   [Text ('' '' @ (if (dt_busy s) then (''Saving'' @ u_ellipsis) else ''Save changes'') @ '' '')]]))]"

definition detail_locks :: "host \<Rightarrow> detail_state \<Rightarrow> detail_event node list" where
  "detail_locks h s =
     (guarded (detail_blockingLocks h s \<noteq> [])
       [Elem ''div'' [cls ''rr-banner rr-banner-danger'', Attr ''data-test'' ''lock-banner'']
         [icon_view None (map_of ICONS_ts ''warn'') 18 (16 / 10),
          Elem ''div'' []
           [Elem ''strong'' []
             [Text (''Lock Active '' @ u_mdash @ '' Do not deploy.'')],
            Elem ''p'' []
             [Text (lockTitles h s)]]]])"

definition detail_advice :: "host \<Rightarrow> detail_state \<Rightarrow> detail_event node list" where
  "detail_advice h s =
     (guarded (detail_advisories h s \<noteq> [])
       [Elem ''div'' [cls ''rr-banner'',
           Attr ''style'' ''border-color: rgba(245,158,11,.4); background: rgba(245,158,11,.10);'',
           Attr ''data-test'' ''schedule-warning'']
         [icon_view None (map_of ICONS_ts ''warn'') 16 (16 / 10),
          Elem ''div'' []
           [Elem ''strong'' []
             [Text ''Scheduling-Regel beachten.''],
            Elem ''p'' []
             (map (\<lambda>a.
                 Elem ''span'' []
                   [Text a,
                    Elem ''br'' [] []])
               (detail_advisories h s))]]])"

definition detail_stages :: "host \<Rightarrow> ((string \<times> string) list \<Rightarrow> int \<Rightarrow> string) \<Rightarrow> rollout_doc \<Rightarrow> detail_event node list" where
  "detail_stages h ltime r =
     (concat (map (\<lambda>(i, st).
         (guarded (i > 0)
           [Elem ''div'' [cls ''rr-stage-arrow'']
             [Elem ''span'' []
               [Text (''+'' @ (stageGap_text h (rd_stages r) i))],
              icon_view None (Some ''M5 12h14m0 0l-4-4m4 4l-4 4'') 14 (16 / 10)]] @
          [Elem ''div'' [cls ''rr-stage-card'', Sty ''borderColor'' (st_border (getStage_ts (pl_env st))),
             Sty ''background'' (st_soft (getStage_ts (pl_env st)))]
           [Elem ''div'' [cls ''rr-stage-card-top'']
             [Elem ''span'' [cls ''rr-stage-card-tag'', Sty ''background'' (st_color (getStage_ts (pl_env st))),
                 Attr ''style'' ''color:#0a0a0c'']
               [Text (st_short (getStage_ts (pl_env st)))],
              Elem ''span'' [Sty ''color'' (st_color (getStage_ts (pl_env st))), Attr ''style'' ''font-weight:600'']
               [Text ('' '' @ (st_label (getStage_ts (pl_env st))) @ '' '')]],
            Elem ''div'' [cls ''rr-stage-card-date'']
             [Text ('' '' @ (fmtDate h (pl_startAt st))),
              Elem ''span'' []
               [Text (('' '' @ u_middot @ '' '') @ (fmtTime h ltime (pl_startAt st)))]],
            Elem ''div'' [cls ''rr-stage-card-status'']
             [Elem ''span'' [cls ''rr-pill-dot'', Attr ''class'' (''is-'' @ (pl_status st))] [],
              Text ('' '' @ (pl_status st) @ ('' '' @ u_middot @ '' ~'') @ (show_int (detail_hours (pl_durationNs st))) @ ''h '')]]]))
       (enumerate 0 (rd_stages r))))"

definition detail_progress :: "detail_state \<Rightarrow> detail_event node" where
  "detail_progress s =
     Elem ''div'' [cls ''rr-progress-wrap'']
       ([Elem ''div'' [cls ''rr-progress'']
         ([Elem ''div'' [cls ''rr-progress-fill'', StyPct ''width'' (of_int (completion_ts s))] []] @
          guarded (failedCount_ts s > 0)
           [Elem ''div'' [cls ''rr-progress-fail'', StyPct ''width'' (failedPct s)] []]),
        Elem ''span'' [cls ''rr-mono'']
         [Text ((show_int (completion_ts s)) @ ''%'')]] @
        guarded (failedCount_ts s > 0)
         [Elem ''span'' [cls ''rr-mono rr-fail-count'']
           [Text ((u_middot @ '' '') @ (show_nat (failedCount_ts s)) @ '' failed'')]])"

definition draft_task :: "nat \<Rightarrow> rollout_task \<Rightarrow> detail_event node" where
  "draft_task i t =
     Elem ''li'' [cls ''rr-md-task'']
       [Elem ''span'' [cls ''rr-md-task-no rr-mono'']
         [Text (show_nat (i + 1))],
        Elem ''input'' [Attr ''value'' (tk_description t), OnVal ''input'' (\<lambda>v. EditDraftTask i v)] [],
        Elem ''div'' [cls ''rr-md-task-tools'']
         [Elem ''button'' [cls ''rr-icon-btn'', On ''onClick'' (MoveDraftTask i (-1)), Attr ''title'' ''Move up'']
           [icon_view None (map_of ICONS_ts ''chev'') 12 (16 / 10)],
          Elem ''button'' [cls ''rr-icon-btn'', On ''onClick'' (MoveDraftTask i 1), Attr ''title'' ''Move down'']
           [icon_view None (map_of ICONS_ts ''chev'') 12 (16 / 10)],
          Elem ''button'' [cls ''rr-icon-btn rr-md-row-x'', On ''onClick'' (RemoveDraftTask i), Attr ''title'' ''Remove'']
           [icon_view None (map_of ICONS_ts ''x'') 12 (16 / 10)]]]"

definition detail_task :: "bool \<Rightarrow> detail_state \<Rightarrow> rollout_task \<Rightarrow> detail_event node" where
  "detail_task can s t =
     Elem ''li'' [cls ''rr-task'', AttrB ''class.is-done'' (tk_status t = ''done''),
         AttrB ''class.is-failed'' (tk_status t = ''failed''),
         AttrB ''class.is-failing'' (dt_failingIndex s = Some (tk_index t)),
         Attr ''data-test'' (''task-'' @ show_int (tk_index t))]
       ([Elem ''div'' [cls ''rr-task-main'']
         ([Elem ''div'' [cls ''rr-task-checks'']
           [Elem ''button'' [cls ''rr-check rr-check-ok'', AttrB ''class.is-on'' (tk_status t = ''done''),
               AttrB ''disabled'' (\<not> can \<or> dt_busy s), On ''onClick'' (ToggleDone t),
               AttrB ''aria-pressed'' (tk_status t = ''done''), Attr ''title'' ''Mark done'',
               Attr ''data-test'' (''task-done-'' @ show_int (tk_index t))]
             (guarded (tk_status t = ''done'')
               [icon_view None (map_of ICONS_ts ''check'') 11 (16 / 10)]),
            Elem ''button'' [cls ''rr-check rr-check-fail'', AttrB ''class.is-on'' (tk_status t = ''failed''),
               AttrB ''disabled'' (\<not> can \<or> dt_busy s), On ''onClick'' (Fail t),
               AttrB ''aria-pressed'' (tk_status t = ''failed''), Attr ''title'' ''Mark failed'']
             (guarded (tk_status t = ''failed'')
               [icon_view None (map_of ICONS_ts ''x'') 11 (16 / 10)])],
          Elem ''span'' [cls ''rr-task-label'']
           [Text (tk_description t)]] @
          (if (tk_status t = ''done'' \<and> truthy_text (tk_by t) \<noteq> None)
          then [Elem ''span'' [cls ''rr-task-log'']
                 [Elem ''span'' []
                   [Text (''checked by '' @ (case tk_by t of Some b \<Rightarrow> b | None \<Rightarrow> []))]]]
          else (if (tk_status t = ''failed'' \<and> dt_failingIndex s \<noteq> Some (tk_index t))
          then [Elem ''span'' [cls ''rr-task-log'']
                 [Elem ''span'' []
                   [Text (''failed'' @ (case truthy_text (tk_by t) of Some b \<Rightarrow> '' '' @ u_middot @ '' '' @ b | None \<Rightarrow> []))]]]
          else (if (tk_status t = [])
          then [Elem ''span'' [cls ''rr-task-pending'']
                 [Text ''pending'']]
          else []))))] @
        guarded (tk_status t = ''failed'' \<and> dt_failingIndex s \<noteq> Some (tk_index t) \<and> truthy_text (tk_reason t) \<noteq> None)
         [Elem ''div'' [cls ''rr-task-reason'']
           ([icon_view None (map_of ICONS_ts ''warn'') 11 (16 / 10),
            Elem ''span'' [cls ''rr-task-reason-text'']
             [Text (case tk_reason t of Some q \<Rightarrow> q | None \<Rightarrow> [])]] @
            guarded can
             [Elem ''button'' [cls ''rr-task-reason-edit'', On ''onClick'' (EditReason t)]
               [Text ''edit'']])] @
        guarded (dt_failingIndex s = Some (tk_index t))
         [Elem ''div'' [cls ''rr-task-reason-form'']
           [Elem ''label'' [cls ''rr-field'']
             [Elem ''span'' []
               [Text ''Why did this step fail? '',
                Elem ''em'' []
                 [Text (''(required '' @ u_mdash @ '' logged on the rollout)'')]],
              Elem ''textarea'' [Attr ''rows'' ''2'', Attr ''data-test'' ''fail-reason'', Attr ''value'' (dt_reasonDraft s),
                 OnVal ''input'' (\<lambda>v. ReasonInput v)] []],
            Elem ''div'' [cls ''rr-task-reason-actions'']
             [Elem ''button'' [cls ''rr-btn rr-btn-ghost rr-btn-sm'', On ''onClick'' CancelFail]
               [Text ''Cancel''],
              Elem ''button'' [cls ''rr-btn rr-btn-danger rr-btn-sm'', Attr ''data-test'' ''fail-save'',
                 AttrB ''disabled'' (trim (dt_reasonDraft s) = [] \<or> dt_busy s), On ''onClick'' (SaveFailure t)]
               [Text '' Save failure '']]]])"

definition detail_task_list :: "bool \<Rightarrow> detail_state \<Rightarrow> rollout_doc \<Rightarrow> detail_event node list" where
  "detail_task_list can s r =
     (case open_draft s of Some d \<Rightarrow>
       [Elem ''ol'' [cls ''rr-md-tasks'', Attr ''data-test'' ''task-editor'']
             (map (\<lambda>(i, t).
                 draft_task i t)
               (enumerate 0 (rd_tasks d))),
            Elem ''div'' [cls ''rr-md-row-add'']
             [Elem ''input'' [Attr ''data-test'' ''new-task'', Attr ''placeholder'' (''Add a task'' @ u_ellipsis),
                 Attr ''value'' (dt_newTaskDraft s), OnVal ''input'' (\<lambda>v. NewTaskInput v),
                 On ''keydown.enter'' AddDraftTask] [],
              Elem ''button'' [cls ''rr-btn rr-btn-ghost rr-btn-sm'', Attr ''data-test'' ''add-task'', On ''onClick'' AddDraftTask]
               [icon_view None (map_of ICONS_ts ''plus'') 11 (16 / 10),
                Text '' Add task '']]]
      | None \<Rightarrow>
       [Elem ''ul'' [cls ''rr-tasks'']
             (if (rd_tasks r) = []
              then [Elem ''li'' [cls ''rr-muted'', Attr ''style'' ''padding:10px 4px'']
                     [Text ''No tasks on this rollout.'']]
              else map (\<lambda>t.
                 detail_task can s t)
               (rd_tasks r))])"

definition detail_descriptions :: "bool \<Rightarrow> detail_state \<Rightarrow> rollout_doc \<Rightarrow> detail_event node list" where
  "detail_descriptions admin s r =
     (case open_draft s of Some d \<Rightarrow>
       [Elem ''div'' [cls ''rr-fields'']
             [Elem ''label'' [cls ''rr-field'']
               [Elem ''span'' []
                 [Text ''Title''],
                Elem ''input'' [Attr ''data-test'' ''edit-title'', Attr ''value'' (rd_title d), OnVal ''input'' (\<lambda>v. DraftTitle v)] []],
              Elem ''label'' [cls ''rr-field'']
               [Elem ''span'' []
                 [Text ''External description '',
                  Elem ''em'' []
                   [Text ''(customer-visible)'']],
                Elem ''textarea'' [Attr ''rows'' ''2'', Attr ''data-test'' ''edit-descext'', Attr ''value'' (rd_descExt d),
                   OnVal ''input'' (\<lambda>v. DraftDescExt v)] []],
              Elem ''label'' [cls ''rr-field'']
               [Elem ''span'' []
                 [Text ''Internal description''],
                Elem ''textarea'' [Attr ''rows'' ''2'', Attr ''value'' (rd_descInt d), OnVal ''input'' (\<lambda>v. DraftDescInt v)] []],
              Elem ''label'' [cls ''rr-field'']
               [Elem ''span'' []
                 [Text ''Risks''],
                Elem ''textarea'' [Attr ''rows'' ''2'', Attr ''data-test'' ''edit-risks'', Attr ''value'' (rd_risks d),
                   OnVal ''input'' (\<lambda>v. DraftRisks v)] []]]]
      | None \<Rightarrow>
       [Elem ''div'' [cls ''rr-fields'']
             ([Elem ''div'' [cls ''rr-field'']
               [Elem ''span'' []
                 [Text ''External description '',
                  Elem ''em'' []
                   [Text ''(customer-visible)'']],
                Elem ''p'' [Attr ''data-test'' ''detail-descext'']
                 [Text (if rd_descExt r = [] then u_mdash else rd_descExt r)]]] @
              (if admin
              then [Elem ''div'' [cls ''rr-field'']
                     [Elem ''span'' []
                       [Text ''Internal description''],
                      Elem ''p'' [Attr ''data-test'' ''detail-descint'']
                       [Text (if rd_descInt r = [] then u_mdash else rd_descInt r)]],
                    Elem ''div'' [cls ''rr-field'']
                     [Elem ''span'' []
                       [Text ''Risks''],
                      Elem ''p'' []
                       [Text (if rd_risks r = [] then u_mdash else rd_risks r)]]]
              else [Elem ''div'' [cls ''rr-field rr-muted'']
                     [Text '' Internal description & risks are restricted to administrators. '']]))])"

definition detail_pair :: "detail_state \<Rightarrow> rollout_doc \<Rightarrow> detail_event node list" where
  "detail_pair s r =
     (if (editor_open s)
      then [Elem ''label'' [cls ''rr-field'']
             [Elem ''span'' []
               [Text ''Pair '',
                Elem ''em'' []
                 [Text ''(comma-separated)'']],
              Elem ''input'' [Attr ''data-test'' ''edit-pair'', Attr ''placeholder'' ''e.g. luc, henning'',
                 Attr ''value'' (detail_pairText s), OnVal ''input'' (\<lambda>v. SetPair v)] []]]
      else [Elem ''div'' [cls ''rr-pair'']
             (if (case rd_pair r of Some p \<Rightarrow> p | None \<Rightarrow> []) = []
              then [Elem ''div'' [cls ''rr-muted'']
                     [Text ''No pair assigned.'']]
              else map (\<lambda>i.
                 Elem ''div'' [cls ''rr-pair-card'']
                   [Elem ''div'' []
                     [Elem ''div'' [cls ''rr-pair-name'']
                       [Text i],
                      Elem ''div'' [cls ''rr-pair-role'']
                       [Elem ''span'' [cls ''rr-role-pill'']
                         [Text ''admin''],
                        Text ('' '' @ u_middot @ '' oAuth verified'')]]])
               (case rd_pair r of Some p \<Rightarrow> p | None \<Rightarrow> []))])"

definition detail_delete :: "detail_state \<Rightarrow> rollout_doc \<Rightarrow> detail_event node list" where
  "detail_delete s r =
     (guarded (dt_confirmingDelete s)
       [Elem ''div'' [cls ''rr-modal-scrim'', On ''onClick'' CancelDelete]
         [Elem ''div'' [cls ''rr-modal rr-modal-sm'', Attr ''rrFocusTrap'' [], Stop ''onClick'',
             Attr ''data-test'' ''delete-confirm'', Attr ''role'' ''dialog'', Attr ''aria-modal'' ''true'',
             Attr ''aria-labelledby'' ''rr-delete-confirm-title'']
           [Elem ''header'' [cls ''rr-modal-head'']
             [Elem ''div'' []
               [Elem ''h2'' [Attr ''id'' ''rr-delete-confirm-title'']
                 [Text ''Delete rollout''],
                Elem ''p'' [cls ''rr-modal-sub'']
                 [Text ''This permanently removes '',
                  Elem ''strong'' []
                   [Text (rd_title r)],
                  Text '' and its tasks.'']]],
            Elem ''footer'' [cls ''rr-modal-foot'']
             [Elem ''span'' [cls ''rr-muted'']
               [Text ''This cannot be undone.''],
              Elem ''div'' [cls ''rr-modal-foot-actions'']
               [Elem ''button'' [cls ''rr-btn rr-btn-ghost'', On ''onClick'' CancelDelete]
                 [Text ''Cancel''],
                Elem ''button'' [cls ''rr-btn rr-btn-danger'', Attr ''data-test'' ''confirm-delete'', AttrB ''disabled'' (dt_busy s),
                   On ''onClick'' ConfirmDelete]
                 [Text ('' '' @ (if (dt_busy s) then (''Deleting'' @ u_ellipsis) else ''Delete rollout'') @ '' '')]]]]]])"

section \<open>The page\<close>

definition detail_view :: "host \<Rightarrow> ((string \<times> string) list \<Rightarrow> int \<Rightarrow> string) \<Rightarrow> bool \<Rightarrow> bool \<Rightarrow> detail_state \<Rightarrow> detail_event node list" where
  "detail_view h ltime can admin s =
     (case dt_rollout s of Some r \<Rightarrow>
       [Elem ''div'' [cls ''rr-detail-page'', Attr ''data-test'' ''rollout-detail'']
             (detail_error s @
              [detail_head can s r] @
              detail_locks h s @
              detail_advice h s @
              [Elem ''div'' [cls ''rr-drawer-grid'']
               [Elem ''div'' [cls ''rr-drawer-col'']
                 [Elem ''section'' [cls ''rr-block'']
                   [Elem ''div'' [cls ''rr-block-head'']
                     [Elem ''h3'' []
                       [Text ''Cascade'']],
                    Elem ''div'' [cls ''rr-stage-cards'']
                     (detail_stages h ltime r)],
                  Elem ''section'' [cls ''rr-block'']
                   ([Elem ''div'' [cls ''rr-block-head'']
                     ([Elem ''h3'' []
                       ([Text '' Tasks ''] @
                        (case detail_type s of None \<Rightarrow> [] | Some t \<Rightarrow>
                         [Elem ''span'' [cls ''rr-muted'']
                           [Text (''(inherited from '' @ (rt_short t) @ '')'')]]))] @
                      guarded (\<not> (dt_editing s))
                       [detail_progress s])] @
                    detail_task_list can s r),
                  Elem ''section'' [cls ''rr-block'']
                   ([Elem ''div'' [cls ''rr-block-head'']
                     [Elem ''h3'' []
                       [Text ''Descriptions & Risks'']]] @
                    detail_descriptions admin s r)],
                Elem ''div'' [cls ''rr-drawer-col rr-drawer-col-right'']
                 ([Elem ''section'' [cls ''rr-block'']
                   ([Elem ''div'' [cls ''rr-block-head'']
                     [Elem ''h3'' []
                       [Text ''Executed by (pair)'']]] @
                    detail_pair s r)] @
                  (case detail_type s of None \<Rightarrow> [] | Some t \<Rightarrow>
                   (guarded (rt_rules t \<noteq> [])
                     [Elem ''section'' [cls ''rr-block'']
                       [Elem ''div'' [cls ''rr-block-head'']
                         [Elem ''h3'' []
                           [Text ''RolloutType rules'']],
                        Elem ''ul'' [cls ''rr-rules'']
                         (map (\<lambda>rule.
                             Elem ''li'' []
                               [icon_view None (map_of ICONS_ts ''check'') 12 (16 / 10),
                                Text ('' '' @ rule)])
                           (rt_rules t))]])))]] @
              detail_delete s r)]
      | None \<Rightarrow>
       (if (deleted s)
      then [Elem ''div'' [Attr ''style'' ''padding: 16px 18px;'', cls ''rr-muted'', Attr ''role'' ''alert'',
               Attr ''data-test'' ''rollout-detail-deleted'']
             ((if (dt_editing s)
              then [Elem ''p'' [Attr ''data-test'' ''deleted-while-editing'']
                     [Text ('' This rollout was deleted while you were editing '' @ u_mdash @ '' your unsaved changes were discarded. '')]]
              else [Elem ''p'' []
                     [Text ''This rollout was deleted.'']]) @
              [Elem ''button'' [cls ''rr-btn rr-btn-ghost rr-btn-sm'', On ''onClick'' Back]
               [icon_view None (map_of ICONS_ts ''chev'') 13 (16 / 10),
                Text '' Back to timeline '']])]
      else [Elem ''div'' [Attr ''style'' ''padding: 16px 18px;'', cls ''rr-muted'', Attr ''data-test'' ''rollout-detail-loading'']
             [Text ('' Loading rollout'' @ u_ellipsis @ '' '')]]))"

section \<open>What the parts offer\<close>

lemma open_draft_Some: "open_draft s = Some d \<longleftrightarrow> dt_editing s \<and> dt_draft s = Some d"
  by (simp add: open_draft_def)

lemma open_draft_None: "open_draft s = None \<longleftrightarrow> \<not> editor_open s"
  by (auto simp: open_draft_def editor_open_def)

lemma truthy_text_None: "truthy_text x = None \<longleftrightarrow> x = None \<or> x = Some []"
  by (simp add: truthy_text_def)

lemma offered_detail_static [simp]:
  "offered_list (detail_error s) = {}" "offered_list (detail_locks h s) = {}" "offered_list (detail_advice h s) = {}"
  "offered_list (detail_stages h ltime r) = {}" "offered (detail_progress s) = {}"
  by (auto simp: detail_error_def detail_locks_def detail_advice_def detail_stages_def detail_progress_def split: option.splits)

lemma offered_detail_head: "offered (detail_head can s r) = {Back} \<union> (if \<not> can then {} else if dt_editing s
    then {CancelEdit} \<union> (if dt_busy s then {} else {Save}) else {EnterEdit, RequestDelete})"
  by (auto simp: detail_head_def split: option.splits)

lemma offered_draft_task [simp]: "offered (draft_task i t) = range (EditDraftTask i) \<union> {MoveDraftTask i (-1), MoveDraftTask i 1, RemoveDraftTask i}"
  by (auto simp: draft_task_def)

definition task_events :: "bool \<Rightarrow> detail_state \<Rightarrow> rollout_task \<Rightarrow> detail_event set" where
  "task_events can s t =
     (if can \<and> \<not> dt_busy s then {ToggleDone t, Fail t} else {}) \<union>
     (if tk_status t = ''failed'' \<and> dt_failingIndex s \<noteq> Some (tk_index t) \<and> tk_reason t \<noteq> None \<and> tk_reason t \<noteq> Some [] \<and> can then {EditReason t} else {}) \<union>
     (if dt_failingIndex s = Some (tk_index t) then range ReasonInput \<union> {CancelFail} \<union>
       (if trim (dt_reasonDraft s) \<noteq> [] \<and> \<not> dt_busy s then {SaveFailure t} else {}) else {})"

lemma in_task_events: "ev \<in> task_events can s t \<longleftrightarrow> (case ev of
     ToggleDone u \<Rightarrow> u = t \<and> can \<and> \<not> dt_busy s
   | Fail u \<Rightarrow> u = t \<and> can \<and> \<not> dt_busy s
   | EditReason u \<Rightarrow> u = t \<and> tk_status t = ''failed'' \<and> dt_failingIndex s \<noteq> Some (tk_index t) \<and> tk_reason t \<noteq> None \<and> tk_reason t \<noteq> Some [] \<and> can
   | ReasonInput v \<Rightarrow> dt_failingIndex s = Some (tk_index t)
   | CancelFail \<Rightarrow> dt_failingIndex s = Some (tk_index t)
   | SaveFailure u \<Rightarrow> u = t \<and> dt_failingIndex s = Some (tk_index t) \<and> trim (dt_reasonDraft s) \<noteq> [] \<and> \<not> dt_busy s
   | _ \<Rightarrow> False)"
  by (cases ev) (auto simp: task_events_def)

lemma offered_detail_task: "offered (detail_task can s t) = task_events can s t"
  by (simp add: detail_task_def task_events_def truthy_text_None Un_assoc) auto

lemma offered_task_editor: "open_draft s = Some d \<Longrightarrow> offered_list (detail_task_list can s r) =
    (\<Union>i \<in> {..<length (rd_tasks d)}. range (EditDraftTask i) \<union> {MoveDraftTask i (-1), MoveDraftTask i 1, RemoveDraftTask i}) \<union> range NewTaskInput \<union> {AddDraftTask}"
proof -
  have "set (enumerate 0 (rd_tasks d)) = (\<lambda>i. (i, rd_tasks d ! i)) ` {..<length (rd_tasks d)}"
    by (auto simp: in_set_enumerate_eq image_iff)
  then show "open_draft s = Some d \<Longrightarrow> ?thesis" by (auto simp: detail_task_list_def)
qed

lemma offered_task_list: "open_draft s = None \<Longrightarrow> offered_list (detail_task_list can s r) = (\<Union>t \<in> set (rd_tasks r). task_events can s t)"
  by (simp add: detail_task_list_def offered_detail_task)

lemma offered_detail_descriptions: "offered_list (detail_descriptions admin s r) =
    (if editor_open s then range DraftTitle \<union> range DraftDescExt \<union> range DraftDescInt \<union> range DraftRisks else {})"
proof (cases "open_draft s")
  case None
  then show ?thesis using open_draft_None [of s] by (simp add: detail_descriptions_def)
next
  case (Some d)
  then have "editor_open s" using open_draft_None [of s] by simp
  then show ?thesis using Some by (simp add: detail_descriptions_def Un_assoc)
qed

lemma offered_detail_pair: "offered_list (detail_pair s r) = (if editor_open s then range SetPair else {})"
  by (auto simp: detail_pair_def)

lemma offered_detail_delete: "offered_list (detail_delete s r) =
    (if dt_confirmingDelete s then {CancelDelete} \<union> (if dt_busy s then {} else {ConfirmDelete}) else {})"
  by (auto simp: detail_delete_def)

lemma offered_detail_view: "dt_rollout s = Some r \<Longrightarrow> offered_list (detail_view h ltime can admin s) =
    offered (detail_head can s r) \<union> offered_list (detail_task_list can s r) \<union> offered_list (detail_descriptions admin s r) \<union>
    offered_list (detail_pair s r) \<union> offered_list (detail_delete s r)"
  by (simp add: detail_view_def Un_assoc split: option.split)

lemma offered_detail_gone: "dt_rollout s = None \<Longrightarrow> offered_list (detail_view h ltime can admin s) = (if deleted s then {Back} else {})"
  by (simp add: detail_view_def)

section \<open>Properties\<close>

definition page_event :: "detail_event \<Rightarrow> bool" where
  "page_event ev \<longleftrightarrow> (case ev of Navigate i \<Rightarrow> False | Tick \<Rightarrow> False | Fetched a \<Rightarrow> False | Answered ok \<Rightarrow> False | TypesFetched ts \<Rightarrow> False
     | LocksFetched ls \<Rightarrow> False | _ \<Rightarrow> True)"

text \<open>
  The conditions in \<open>detail_offers\<close> are those of the markup: the template raises exactly the events that the model of the page offers, for every user. So what is
  proved of the runs of \<open>detail_reach\<close> is a statement about the template.
\<close>

lemma detail_view_offers:
  assumes "page_event ev"
  shows "ev \<in> offered_list (detail_view h ltime can admin (dw_state w)) \<longleftrightarrow> detail_offers can ev w"
proof (cases "dt_rollout (dw_state w)")
  case None
  then show ?thesis using assms by (cases ev) (simp_all add: offered_detail_gone page_event_def)
next
  case (Some r)
  note parts = offered_detail_view [OF Some] offered_detail_head offered_detail_descriptions offered_detail_pair offered_detail_delete
  show ?thesis
  proof (cases "open_draft (dw_state w)")
    case None
    then have "\<not> editor_open (dw_state w)" by (simp add: open_draft_None)
    moreover from None have "dt_editing (dw_state w) \<Longrightarrow> dt_draft (dw_state w) = None" by (simp add: open_draft_def)
    ultimately show ?thesis using assms Some
      by (cases ev) (auto simp: parts offered_task_list [OF None] in_task_events page_event_def Let_def split: if_splits option.splits)
  next
    case (Some d)
    then have "editor_open (dw_state w)" "dt_editing (dw_state w)" "dt_draft (dw_state w) = Some d" by (simp_all add: open_draft_Some editor_open_def)
    then show ?thesis using assms \<open>dt_rollout (dw_state w) = Some r\<close>
      by (cases ev) (auto simp: parts offered_task_editor [OF Some] page_event_def Let_def split: if_splits)
  qed
qed

text \<open>What a user reads outside of the editor does not depend on the two internal texts.\<close>

lemma internal_frame:
  assumes "dt_rollout s = Some r" "s' = s\<lparr>dt_rollout := Some (r\<lparr>rd_descInt := x, rd_risks := y\<rparr>)\<rparr>" "\<not> dt_editing s"
  shows "detail_view h ltime False False s' = detail_view h ltime False False s"
proof -
  let ?r = "r\<lparr>rd_descInt := x, rd_risks := y\<rparr>"
  have r': "dt_rollout s' = Some ?r" using assms(2) by simp
  have shut: "open_draft s' = None" "open_draft s = None" "editor_open s' = False" "editor_open s = False"
    using assms(2,3) by (simp_all add: open_draft_def editor_open_def)
  have t: "detail_type s' = detail_type s" "detail_tasks s' = detail_tasks s"
    using assms(1) by (simp_all add: r' detail_type_def detail_tasks_def) (simp_all add: assms(2))
  have b: "detail_blockingLocks h s' = detail_blockingLocks h s" "detail_advisories h s' = detail_advisories h s"
    using assms(1) by (simp_all add: r' detail_blockingLocks_def detail_advisories_def) (simp add: assms(2))
  have "detail_error s' = detail_error s" "detail_head False s' ?r = detail_head False s r" "detail_locks h s' = detail_locks h s"
    "detail_advice h s' = detail_advice h s" "detail_stages h ltime ?r = detail_stages h ltime r" "detail_progress s' = detail_progress s"
    "detail_task_list False s' ?r = detail_task_list False s r" "detail_descriptions False s' ?r = detail_descriptions False s r"
    "detail_pair s' ?r = detail_pair s r" "detail_delete s' ?r = detail_delete s r"
    subgoal by (simp add: detail_error_def assms(2))
    subgoal by (simp add: detail_head_def t)
    subgoal by (simp add: detail_locks_def lockTitles_def b)
    subgoal by (simp add: detail_advice_def b)
    subgoal by (simp add: detail_stages_def)
    subgoal by (simp add: detail_progress_def completion_ts_def failedCount_ts_def failedPct_def t Let_def)
    subgoal by (simp add: detail_task_list_def shut detail_task_def) (simp add: assms(2))
    subgoal by (simp add: detail_descriptions_def shut)
    subgoal by (simp add: detail_pair_def shut)
    subgoal by (simp add: detail_delete_def) (simp add: assms(2))
    done
  moreover have "dt_editing s' = dt_editing s" by (simp add: assms(2))
  ultimately show ?thesis unfolding detail_view_def r' assms(1) by (simp add: t)
qed

text \<open>
  C9. The page shows the internal description and the risks to administrators only: for a user who is neither an administrator nor may edit, the whole
  page is the same whatever these two texts are, in every state the page can reach.
\<close>

theorem internal_texts_hidden:
  assumes "detail_reach False w" "dt_rollout (dw_state w) = Some r"
  shows "detail_view h ltime False False ((dw_state w)\<lparr>dt_rollout := Some (r\<lparr>rd_descInt := x, rd_risks := y\<rparr>)\<rparr>) =
    detail_view h ltime False False (dw_state w)"
proof (rule internal_frame [OF assms(2) refl])
  have "detail_inv False w" using assms(1) by (rule detail_reach_inv)
  then show "\<not> dt_editing (dw_state w)" by (auto simp: detail_inv_def Let_def)
qed

theorem internal_texts_hidden_witness: "\<exists>w. detail_reach False w \<and> dt_rollout (dw_state w) = Some (example_rollout ''r1'') \<and>
    detail_view utc_host (\<lambda>_ _. []) False False ((dw_state w)\<lparr>dt_rollout := Some ((example_rollout ''r1'')\<lparr>rd_descInt := ''secret'', rd_risks := ''none''\<rparr>)\<rparr>) =
    detail_view utc_host (\<lambda>_ _. []) False False (dw_state w)"
proof -
  let ?w1 = "detail_step False (Navigate (Some ''r1'')) (new_detail example_sv)"
  let ?w = "detail_step False (Fetched (Found (example_rollout ''r1''))) ?w1"
  have "detail_reach False ?w" by (intro detail_reach.intros; simp add: navigate_def restart_def example_rollout_def)
  moreover have "dt_rollout (dw_state ?w) = Some (example_rollout ''r1'')" by (simp add: navigate_def restart_def fetched_def)
  ultimately show ?thesis using internal_texts_hidden by metis
qed

end
