(* ===== verification/RR_DataView.thy ===== *)
theory RR_DataView
  imports RR_DataPage RR_Views
begin

text \<open>
  The template of the master data page, \<open>src/frontend/src/app/features/master-data/master-data-view/master-data-view.component.html\<close>, with the
  events of \<open>RR_DataPage\<close> and the conventions of \<open>RR_Views\<close>. \<open>can\<close> is false for a user with the role \<open>readonly\<close>. The template raises
  exactly the events that the model of the page offers.
\<close>

section \<open>The tab of the products\<close>

definition data_product_rows :: "data_page \<Rightarrow> data_event node list" where
  "data_product_rows s =
     (map (\<lambda>p.
         Elem ''li'' []
           [Elem ''button'' [cls ''rr-md-list-row'',
               AttrB ''class.is-active'' (map_option prod_id (dp_productDraft s) = Some (prod_id p)),
               On ''onClick'' (SelectProduct p)]
             [Elem ''span'' [cls ''rr-md-list-dot'', Sty ''background'' (productColor_ts (prod_id p))] [],
              Elem ''div'' [cls ''rr-md-list-body'']
               [Elem ''div'' [cls ''rr-md-list-name'']
                 [Text (prod_name p)],
                Elem ''div'' [cls ''rr-md-list-meta'']
                 [Elem ''span'' []
                   [Text (if prod_owner p = [] then u_mdash else prod_owner p)],
                  Elem ''span'' [cls ''rr-md-list-sep'']
                   [Text u_middot],
                  Elem ''span'' [cls ''rr-mono'']
                   [Text ((show_nat (length (prod_brokers p))) @ '' brokers'')]]]]])
       (dp_products s))"

definition product_detail :: "data_page \<Rightarrow> product \<Rightarrow> data_event node" where
  "product_detail s p =
     Elem ''div'' [cls ''rr-md-detail-inner'', Attr ''data-test'' ''md-product-detail'']
       [Elem ''header'' [cls ''rr-md-detail-head'']
         [Elem ''div'' [cls ''rr-md-detail-head-l'']
           [Elem ''div'' []
             [Elem ''div'' [cls ''rr-md-detail-eyebrow'']
               [Text ('' PRODUCT '' @ u_middot @ '' ''),
                Elem ''span'' [cls ''rr-mono'']
                 [Text (if prod_id p = [] then ''(new)'' else prod_id p)]],
              Elem ''h2'' []
               [Text (prod_name p)]]]],
        Elem ''div'' [cls ''rr-md-section'']
         [Elem ''div'' [cls ''rr-md-section-title'']
           [Text ''Identity''],
          Elem ''div'' [cls ''rr-form-grid'']
           [Elem ''label'' [cls ''rr-field'']
             [Elem ''span'' []
               [Text ''Name''],
              Elem ''input'' [Attr ''data-test'' ''md-product-name'', Attr ''value'' (prod_name p),
                 OnVal ''input'' (\<lambda>v. ProductName v)] []],
            Elem ''label'' [cls ''rr-field'']
             [Elem ''span'' []
               [Text ''Owner / Team''],
              Elem ''input'' [Attr ''value'' (prod_owner p), OnVal ''input'' (\<lambda>v. ProductOwner v)] []]]],
        Elem ''div'' [cls ''rr-md-section'']
         [Elem ''div'' [cls ''rr-md-section-title'']
           [Text '' Brokers '',
            Elem ''span'' [cls ''rr-muted'']
             [Text (''('' @ (show_nat (length (prod_brokers p))) @ '')'')]],
          Elem ''div'' [cls ''rr-md-broker-grid'']
           (map (\<lambda>b.
               Elem ''div'' [cls ''rr-md-broker'']
                 [Elem ''code'' []
                   [Text b],
                  Elem ''button'' [cls ''rr-md-broker-x'', On ''onClick'' (RemoveBroker b), Attr ''title'' ''Remove'']
                   [icon_view None (map_of ICONS_ts ''x'') 11 (16 / 10)]])
             (prod_brokers p) @
            [Elem ''div'' [cls ''rr-md-broker-add'']
             [Elem ''input'' [Attr ''placeholder'' ''e.g. frankfurt-03'', Attr ''value'' (dp_brokerDraft s),
                 OnVal ''input'' (\<lambda>v. BrokerInput v), On ''keydown.enter'' AddBroker] [],
              Elem ''button'' [cls ''rr-btn rr-btn-ghost rr-btn-sm'', On ''onClick'' AddBroker]
               [icon_view None (map_of ICONS_ts ''plus'') 11 (16 / 10),
                Text '' Add '']]])],
        Elem ''div'' [cls ''rr-md-detail-foot'', Attr ''style'' ''display:flex;justify-content:flex-end;gap:8px;padding-top:8px;'']
         [Elem ''button'' [cls ''rr-btn rr-btn-primary'', Attr ''data-test'' ''md-save-product'',
             AttrB ''disabled'' (dp_saving s \<or> trim (prod_name p) = []), On ''onClick'' SaveProduct]
           [Text ('' '' @ (if (dp_saving s) then (''Saving'' @ u_ellipsis) else ''Save product'') @ '' '')]]]"

definition data_products :: "data_page \<Rightarrow> data_event node list" where
  "data_products s =
     (guarded (dp_tab s = ProductsTab)
       [Elem ''div'' [cls ''rr-md-grid'']
         [Elem ''aside'' [cls ''rr-md-list'']
           [Elem ''div'' [cls ''rr-md-list-head'']
             [Elem ''span'' [cls ''rr-md-list-count'']
               [Text ((show_nat (length (dp_products s))) @ '' entries'')],
              Elem ''button'' [cls ''rr-btn rr-btn-primary rr-btn-sm'', On ''onClick'' NewProduct, Attr ''data-test'' ''md-new-product'']
               [icon_view None (map_of ICONS_ts ''plus'') 12 (16 / 10),
                Text '' New product '']],
            Elem ''ul'' [cls ''rr-md-list-items'']
             (data_product_rows s)],
          Elem ''section'' [cls ''rr-md-detail'']
           (case dp_productDraft s of Some p \<Rightarrow>
             [product_detail s p]
            | None \<Rightarrow>
             [Elem ''div'' [cls ''rr-md-empty'']
                   [Text ''Select a product or create a new one.'']])]])"

section \<open>The tab of the rollout types\<close>

definition data_type_rows :: "data_page \<Rightarrow> data_event node list" where
  "data_type_rows s =
     (map (\<lambda>t.
         Elem ''li'' []
           [Elem ''button'' [cls ''rr-md-list-row'', AttrB ''class.is-active'' (map_option rt_id (dp_typeDraft s) = Some (rt_id t)),
               On ''onClick'' (SelectType t)]
             [badge_view (rt_tone t) False False
               [Text (rt_short t)],
              Elem ''div'' [cls ''rr-md-list-body'']
               [Elem ''div'' [cls ''rr-md-list-name'']
                 [Text (rt_name t)],
                Elem ''div'' [cls ''rr-md-list-meta'']
                 [Elem ''span'' []
                   [Text (if length (rt_cascadePlan t) > 1 then ''cascade '' @ u_middot @ '' '' @ show_nat (length (rt_cascadePlan t)) @ '' stages'' else ''single-stage'')],
                  Elem ''span'' [cls ''rr-md-list-sep'']
                   [Text u_middot],
                  Elem ''span'' [cls ''rr-mono'']
                   [Text ((show_nat (length (rt_tasks t))) @ '' tasks'')]]]]])
       (dp_types s))"

definition type_identity :: "rollout_type \<Rightarrow> data_event node" where
  "type_identity t =
     Elem ''div'' [cls ''rr-md-section'']
       [Elem ''div'' [cls ''rr-md-section-title'']
         [Text ''Identity''],
        Elem ''div'' [cls ''rr-form-grid'']
         [Elem ''label'' [cls ''rr-field'']
           [Elem ''span'' []
             [Text ''Display name''],
            Elem ''input'' [Attr ''data-test'' ''md-type-name'', Attr ''value'' (rt_name t), OnVal ''input'' (\<lambda>v. TypeName v)] []],
          Elem ''label'' [cls ''rr-field'']
           [Elem ''span'' []
             [Text ''Short label''],
            Elem ''input'' [Attr ''value'' (rt_short t), OnVal ''input'' (\<lambda>v. TypeShort v)] []],
          Elem ''label'' [cls ''rr-field'']
           [Elem ''span'' []
             [Text ''Severity tone''],
            Elem ''select'' [Attr ''value'' (rt_tone t), OnVal ''change'' (\<lambda>v. TypeTone v)]
             [Elem ''option'' [Attr ''value'' ''neutral'']
               [Text ''Neutral''],
              Elem ''option'' [Attr ''value'' ''info'']
               [Text ''Info''],
              Elem ''option'' [Attr ''value'' ''warn'']
               [Text ''Warning''],
              Elem ''option'' [Attr ''value'' ''danger'']
               [Text ''Danger''],
              Elem ''option'' [Attr ''value'' ''ok'']
               [Text ''OK'']]]]]"

definition plan_row :: "nat \<Rightarrow> plan_step \<Rightarrow> data_event node" where
  "plan_row i p =
     Elem ''li'' [cls ''rr-cp-row'']
       [Elem ''div'' [cls ''rr-cp-row-stagechip'', Sty ''background'' (st_color (getStage_ts (ps_stage p))),
           Attr ''style'' ''color:#0a0a0c'']
         [Text ('' '' @ (st_short (getStage_ts (ps_stage p))) @ '' '')],
        Elem ''div'' [cls ''rr-cp-row-body'']
         [Elem ''div'' [cls ''rr-cp-row-stage'']
           [Elem ''select'' [Attr ''value'' (ps_stage p), OnVal ''change'' (\<lambda>v. StageKey i v)]
             (map (\<lambda>k.
                 Elem ''option'' [Attr ''value'' k]
                   [Text (st_label (getStage_ts k))])
               stageKeys),
            Elem ''span'' [cls ''rr-cp-row-meta'']
             [icon_view None (map_of ICONS_ts ''bolt'') 11 (16 / 10),
              Text '' announces on '',
              Elem ''strong'' []
               [Text (st_announceChannel (getStage_ts (ps_stage p)))]]],
          Elem ''label'' [cls ''rr-field'']
           [Elem ''span'' []
             [Text ''Delay from start (hours)''],
            Elem ''div'' [cls ''rr-cp-row-delay-input'']
             [Elem ''input'' [Attr ''type'' ''number'', Attr ''min'' ''0'', Attr ''step'' ''1'',
                 AttrN ''value'' (of_int (ps_delayHours p)), AttrB ''disabled'' (i = 0),
                 OnNum ''input'' (\<lambda>n. StageDelay i n)] [],
              Elem ''span'' [cls ''rr-cp-row-delay-suffix'']
               [Text (''= '' @ (formatDelay_ts (ps_delayHours p)))]]]],
        Elem ''div'' [cls ''rr-cp-row-tools'']
         [Elem ''button'' [cls ''rr-icon-btn rr-md-row-x'', On ''onClick'' (RemoveStage i), Attr ''title'' ''Remove'']
           [icon_view None (map_of ICONS_ts ''x'') 12 (16 / 10)]]]"

definition type_plan :: "data_page \<Rightarrow> rollout_type \<Rightarrow> data_event node" where
  "type_plan s t =
     Elem ''div'' [cls ''rr-md-section'']
       ([Elem ''div'' [cls ''rr-md-section-title'']
         [Text '' Cascade plan '',
          Elem ''span'' [cls ''rr-muted'']
           [Text (''('' @ (show_nat (length (rt_cascadePlan t))) @ '' stages)'')]],
        Elem ''ol'' [cls ''rr-cp-list'']
         (map (\<lambda>(i, p).
             plan_row i p)
           (enumerate 0 (rt_cascadePlan t)))] @
        guarded (unusedStageKeys s \<noteq> [])
         [Elem ''div'' [cls ''rr-cp-add'']
           ([Elem ''span'' [cls ''rr-cp-add-label'']
             [Text ''Add stage:'']] @
            map (\<lambda>k.
               Elem ''button'' [cls ''rr-cp-add-btn'', On ''onClick'' (AddStage k)]
                 [Elem ''span'' [cls ''rr-md-stage-chip'', Sty ''background'' (st_color (getStage_ts k)), Attr ''style'' ''color:#0a0a0c'']
                   [Text (st_short (getStage_ts k))],
                  Text ('' '' @ (st_label (getStage_ts k)) @ '' '')])
             (unusedStageKeys s))])"

definition type_rules :: "data_page \<Rightarrow> rollout_type \<Rightarrow> data_event node" where
  "type_rules s t =
     Elem ''div'' [cls ''rr-md-section'']
       [Elem ''div'' [cls ''rr-md-section-title'']
         [Text ''Rules '',
          Elem ''span'' [cls ''rr-muted'']
           [Text (''('' @ (show_nat (length (rt_rules t))) @ '')'')]],
        Elem ''ul'' [cls ''rr-md-rules'']
         (map (\<lambda>(i, r).
             Elem ''li'' []
               [icon_view None (map_of ICONS_ts ''check'') 12 (16 / 10),
                Elem ''span'' []
                 [Text r],
                Elem ''button'' [cls ''rr-md-row-x'', On ''onClick'' (RemoveRule i)]
                 [icon_view None (map_of ICONS_ts ''x'') 11 (16 / 10)]])
           (enumerate 0 (rt_rules t))),
        Elem ''div'' [cls ''rr-md-row-add'']
         [Elem ''input'' [Attr ''placeholder'' (''Add a rule'' @ u_ellipsis), Attr ''value'' (dp_ruleDraft s),
             OnVal ''input'' (\<lambda>v. RuleInput v), On ''keydown.enter'' AddRule] [],
          Elem ''button'' [cls ''rr-btn rr-btn-ghost rr-btn-sm'', On ''onClick'' AddRule]
           [icon_view None (map_of ICONS_ts ''plus'') 11 (16 / 10),
            Text '' Add rule '']]]"

definition type_task :: "nat \<Rightarrow> string \<Rightarrow> data_event node" where
  "type_task i task =
     Elem ''li'' [cls ''rr-md-task'']
       [Elem ''span'' [cls ''rr-md-task-no rr-mono'']
         [Text (pad (int i + 1))],
        Elem ''input'' [Attr ''value'' task, OnVal ''input'' (\<lambda>v. EditTask i v)] [],
        Elem ''div'' [cls ''rr-md-task-tools'']
         [Elem ''button'' [cls ''rr-icon-btn'', On ''onClick'' (MoveTask i (-1)), Attr ''title'' ''Move up'']
           [icon_view None (map_of ICONS_ts ''chev'') 12 (16 / 10)],
          Elem ''button'' [cls ''rr-icon-btn'', On ''onClick'' (MoveTask i 1), Attr ''title'' ''Move down'']
           [icon_view None (map_of ICONS_ts ''chev'') 12 (16 / 10)],
          Elem ''button'' [cls ''rr-icon-btn rr-md-row-x'', On ''onClick'' (RemoveTask i), Attr ''title'' ''Remove'']
           [icon_view None (map_of ICONS_ts ''x'') 12 (16 / 10)]]]"

definition type_tasks :: "data_page \<Rightarrow> rollout_type \<Rightarrow> data_event node" where
  "type_tasks s t =
     Elem ''div'' [cls ''rr-md-section'']
       [Elem ''div'' [cls ''rr-md-section-title'']
         [Text '' Inherited tasks '',
          Elem ''span'' [cls ''rr-muted'']
           [Text (''('' @ (show_nat (length (rt_tasks t))) @ '')'')]],
        Elem ''p'' [cls ''rr-md-section-hint'']
         [Text ''Copied into every new rollout of this type. Order matters.''],
        Elem ''ol'' [cls ''rr-md-tasks'']
         (map (\<lambda>(i, task).
             type_task i task)
           (enumerate 0 (rt_tasks t))),
        Elem ''div'' [cls ''rr-md-row-add'']
         [Elem ''input'' [Attr ''data-test'' ''md-task-draft'', Attr ''placeholder'' (''Add a task'' @ u_ellipsis),
             Attr ''value'' (dp_taskDraft s), OnVal ''input'' (\<lambda>v. TaskInput v),
             On ''keydown.enter'' AddTask] [],
          Elem ''button'' [cls ''rr-btn rr-btn-ghost rr-btn-sm'', Attr ''data-test'' ''md-add-task'', On ''onClick'' AddTask]
           [icon_view None (map_of ICONS_ts ''plus'') 11 (16 / 10),
            Text '' Add task '']]]"

definition type_detail :: "data_page \<Rightarrow> rollout_type \<Rightarrow> data_event node" where
  "type_detail s t =
     Elem ''div'' [cls ''rr-md-detail-inner'', Attr ''data-test'' ''md-type-detail'']
       [Elem ''header'' [cls ''rr-md-detail-head'']
         [Elem ''div'' [cls ''rr-md-detail-head-l'']
           [badge_view (rt_tone t) False False
             [Text (rt_short t)],
            Elem ''div'' []
             [Elem ''div'' [cls ''rr-md-detail-eyebrow'']
               [Text ('' ROLLOUT TYPE '' @ u_middot @ '' ''),
                Elem ''span'' [cls ''rr-mono'']
                 [Text (if rt_id t = [] then ''(new)'' else rt_id t)]],
              Elem ''h2'' []
               [Text (rt_name t)]]]],
        type_identity t,
        type_plan s t,
        type_rules s t,
        type_tasks s t,
        Elem ''div'' [cls ''rr-md-detail-foot'', Attr ''style'' ''display:flex;justify-content:flex-end;gap:8px;padding-top:8px;'']
         [Elem ''button'' [cls ''rr-btn rr-btn-primary'', Attr ''data-test'' ''md-save-type'',
             AttrB ''disabled'' (dp_saving s \<or> trim (rt_name t) = []), On ''onClick'' SaveType]
           [Text ('' '' @ (if (dp_saving s) then (''Saving'' @ u_ellipsis) else ''Save rollout type'') @ '' '')]]]"

definition data_types :: "data_page \<Rightarrow> data_event node list" where
  "data_types s =
     (guarded (dp_tab s = TypesTab)
       [Elem ''div'' [cls ''rr-md-grid'']
         [Elem ''aside'' [cls ''rr-md-list'']
           [Elem ''div'' [cls ''rr-md-list-head'']
             [Elem ''span'' [cls ''rr-md-list-count'']
               [Text ((show_nat (length (dp_types s))) @ '' entries'')],
              Elem ''button'' [cls ''rr-btn rr-btn-primary rr-btn-sm'', On ''onClick'' NewType, Attr ''data-test'' ''md-new-type'']
               [icon_view None (map_of ICONS_ts ''plus'') 12 (16 / 10),
                Text '' New rollout type '']],
            Elem ''ul'' [cls ''rr-md-list-items'']
             (data_type_rows s)],
          Elem ''section'' [cls ''rr-md-detail'']
           (case dp_typeDraft s of Some t \<Rightarrow>
             [type_detail s t]
            | None \<Rightarrow>
             [Elem ''div'' [cls ''rr-md-empty'']
                   [Text ''Select a rollout type or create a new one.'']])]])"

section \<open>The page\<close>

definition data_page_view :: "bool \<Rightarrow> data_page \<Rightarrow> data_event node list" where
  "data_page_view can s =
     (if (\<not> can)
      then [Elem ''div'' [Attr ''style'' ''padding: 16px 18px;'', cls ''rr-muted'']
             [Text ('' Master Data is restricted to administrators. You'' @ [CHR 0x27] @ ''re signed in as ''),
              Elem ''strong'' []
               [Text ''readonly''],
              Text ''. '']]
      else [Elem ''div'' [cls ''rr-md'']
             ([Elem ''div'' [cls ''rr-md-head'']
               [Elem ''div'' []
                 [Elem ''h1'' [cls ''rr-md-title'']
                   [Text ''Master Data''],
                  Elem ''p'' [cls ''rr-md-sub'']
                   [Text '' Configure products and rollout types that drive the timeline and the execute flow. '']]],
              Elem ''div'' [cls ''rr-md-tabs'']
               [Elem ''button'' [cls ''rr-md-tab'', AttrB ''class.is-active'' (dp_tab s = ProductsTab), On ''onClick'' (SetTab ProductsTab)]
                 [Text '' Products ''],
                Elem ''button'' [cls ''rr-md-tab'', AttrB ''class.is-active'' (dp_tab s = TypesTab), On ''onClick'' (SetTab TypesTab)]
                 [Text '' Rollout Types '']]] @
              guarded (case dp_error s of Some e \<Rightarrow> e \<noteq> [] | None \<Rightarrow> False)
               [Elem ''div'' [cls ''rr-banner rr-banner-danger'', Attr ''style'' ''margin: 10px 0;'', Attr ''data-test'' ''md-error'']
                 [icon_view None (map_of ICONS_ts ''warn'') 16 (16 / 10),
                  Elem ''div'' []
                   [Elem ''strong'' []
                     [Text ''Save failed.''],
                    Elem ''p'' []
                     [Text (case dp_error s of Some e \<Rightarrow> e | None \<Rightarrow> [])]]]] @
              [Elem ''div'' [cls ''rr-md-body'']
               (data_products s @
                data_types s)])])"

section \<open>What the parts offer\<close>

lemma enumerate_offers: "(\<Union>x \<in> set (enumerate 0 xs). f (fst x)) = (\<Union>i \<in> {..<length xs}. f i)"
proof -
  have "fst ` set (enumerate 0 xs) = {..<length xs}" by (simp flip: set_map add: atLeast0LessThan)
  then show ?thesis by (metis (no_types, lifting) SUP_cong image_image)
qed

lemma offered_product_rows: "offered_list (data_product_rows s) = SelectProduct ` set (dp_products s)"
  by (auto simp: data_product_rows_def)

lemma offered_product_detail: "offered (product_detail s p) = range ProductName \<union> range ProductOwner \<union> RemoveBroker ` set (prod_brokers p) \<union>
    range BrokerInput \<union> {AddBroker} \<union> (if dp_saving s \<or> trim (prod_name p) = [] then {} else {SaveProduct})"
  by (auto simp: product_detail_def)

lemma offered_data_products: "offered_list (data_products s) = (if dp_tab s \<noteq> ProductsTab then {} else {NewProduct} \<union> SelectProduct ` set (dp_products s) \<union>
    (case product_tab s of Some p \<Rightarrow> offered (product_detail s p) | None \<Rightarrow> {}))"
  by (auto simp: data_products_def offered_product_rows product_tab_def split: option.splits)

lemma offered_type_rows: "offered_list (data_type_rows s) = SelectType ` set (dp_types s)"
  by (auto simp: data_type_rows_def)

lemma offered_type_identity: "offered (type_identity t) = range TypeName \<union> range TypeShort \<union> TypeTone ` set tone_keys"
  by (auto simp: type_identity_def tone_keys_def)

definition plan_row_events :: "nat \<Rightarrow> data_event set" where
  "plan_row_events i = StageKey i ` set stageKeys \<union> (if i = 0 then {} else range (StageDelay i)) \<union> {RemoveStage i}"

definition task_row_events :: "nat \<Rightarrow> data_event set" where
  "task_row_events i = range (EditTask i) \<union> {MoveTask i (-1), MoveTask i 1, RemoveTask i}"

definition rule_row_events :: "nat \<Rightarrow> data_event set" where
  "rule_row_events i = {RemoveRule i}"

lemma offered_rows [simp]: "offered (plan_row i p) = plan_row_events i" "offered (type_task i x) = task_row_events i"
  by (auto simp: plan_row_def plan_row_events_def type_task_def task_row_events_def)

lemma offered_type_plan: "offered (type_plan s t) = (\<Union>i \<in> {..<length (rt_cascadePlan t)}. plan_row_events i) \<union> AddStage ` set (unusedStageKeys s)"
proof -
  have "offered (type_plan s t) = (\<Union>i \<in> {..<length (rt_cascadePlan t)}. plan_row_events i) \<union> (\<Union>k \<in> set (unusedStageKeys s). {AddStage k})"
    by (simp add: type_plan_def enumerate_offers)
  then show ?thesis by (simp only: UNION_singleton_eq_range)
qed

lemma offered_type_rules: "offered (type_rules s t) = (\<Union>i \<in> {..<length (rt_rules t)}. rule_row_events i) \<union> (range RuleInput \<union> {AddRule})"
  by (simp add: type_rules_def enumerate_offers flip: rule_row_events_def)

lemma offered_type_tasks: "offered (type_tasks s t) = (\<Union>i \<in> {..<length (rt_tasks t)}. task_row_events i) \<union> (range TaskInput \<union> {AddTask})"
  by (simp add: type_tasks_def enumerate_offers)

lemma in_row_events:
  "ev \<in> plan_row_events i \<longleftrightarrow> (case ev of StageKey j k \<Rightarrow> j = i \<and> k \<in> set stageKeys | StageDelay j n \<Rightarrow> j = i \<and> 0 < i | RemoveStage j \<Rightarrow> j = i | _ \<Rightarrow> False)"
  "ev \<in> task_row_events i \<longleftrightarrow> (case ev of EditTask j v \<Rightarrow> j = i | MoveTask j d \<Rightarrow> j = i \<and> (d = 1 \<or> d = -1) | RemoveTask j \<Rightarrow> j = i | _ \<Rightarrow> False)"
  "ev \<in> rule_row_events i \<longleftrightarrow> (case ev of RemoveRule j \<Rightarrow> j = i | _ \<Rightarrow> False)"
  by (cases ev; auto simp: plan_row_events_def task_row_events_def rule_row_events_def)+

lemma offered_type_detail: "offered (type_detail s t) = offered (type_identity t) \<union> offered (type_plan s t) \<union> offered (type_rules s t) \<union>
    offered (type_tasks s t) \<union> (if dp_saving s \<or> trim (rt_name t) = [] then {} else {SaveType})"
  by (simp add: type_detail_def Un_assoc)

lemma offered_data_types: "offered_list (data_types s) = (if dp_tab s \<noteq> TypesTab then {} else {NewType} \<union> SelectType ` set (dp_types s) \<union>
    (case type_tab s of Some t \<Rightarrow> offered (type_detail s t) | None \<Rightarrow> {}))"
  by (auto simp: data_types_def offered_type_rows type_tab_def split: option.splits)

lemma offered_data_page: "offered_list (data_page_view can s) =
    (if can then range SetTab \<union> offered_list (data_products s) \<union> offered_list (data_types s) else {})"
proof -
  have "range SetTab = {SetTab ProductsTab, SetTab TypesTab}" by (auto intro: data_tab.exhaust)
  then show ?thesis by (auto simp: data_page_view_def)
qed

section \<open>What the page offers\<close>

definition data_page_event :: "data_event \<Rightarrow> bool" where
  "data_page_event ev \<longleftrightarrow> (case ev of DataLoaded ps ts \<Rightarrow> False | DataAnswer a \<Rightarrow> False | _ \<Rightarrow> True)"

text \<open>
  The conditions in \<open>data_offers\<close> are those of the markup: the template raises exactly the events that the model of the page offers, for every user.
\<close>

lemma data_view_offers:
  assumes "data_page_event ev"
  shows "ev \<in> offered_list (data_page_view can (dv_page w)) \<longleftrightarrow> data_offers can ev w"
proof -
  note parts = offered_data_page offered_data_products offered_data_types offered_product_detail offered_type_detail offered_type_identity
    offered_type_plan offered_type_rules offered_type_tasks
  have tabs: "product_tab (dv_page w) \<noteq> None \<Longrightarrow> dp_tab (dv_page w) = ProductsTab" "type_tab (dv_page w) \<noteq> None \<Longrightarrow> dp_tab (dv_page w) = TypesTab"
    by (auto simp: product_tab_def type_tab_def split: if_splits)
  show ?thesis
  proof (cases "dp_tab (dv_page w)")
    case ProductsTab
    then have "type_tab (dv_page w) = None" by (simp add: type_tab_def)
    then show ?thesis using assms ProductsTab
      by (cases "product_tab (dv_page w)"; cases ev) (auto simp: parts in_row_events data_offers_def data_page_event_def Let_def)
  next
    case TypesTab
    then have "product_tab (dv_page w) = None" by (simp add: product_tab_def)
    then show ?thesis using assms TypesTab
      by (cases "type_tab (dv_page w)"; cases ev) (auto simp: parts in_row_events data_offers_def data_page_event_def Let_def)
  qed
qed

end
