(* ===== verification/RR_Dialogs.thy ===== *)
theory RR_Dialogs
  imports RR_Views
begin

text \<open>
  The two dialogs on the page: their forms (\<open>RR_Create\<close>) driven by the handlers of their templates (\<open>RR_Views\<close>). A run starts when the dialog
  is opened; the user raises events that the markup on the page offers, the lists of products and types arrive and requests are
  answered. Both dialogs are interpretations of \<open>ui_component\<close>, and the properties say what a dialog can send.
\<close>

section \<open>The rollout dialog: what it can send\<close>

text \<open>The choices of the form are entries of the lists that arrived.\<close>

definition form_ok :: "product list \<Rightarrow> rollout_type list \<Rightarrow> rollout_form \<Rightarrow> bool" where
  "form_ok ps ts f \<longleftrightarrow> set (cf_products f) \<subseteq> set ps \<and> set (cf_types f) \<subseteq> set ts \<and>
     (cf_productId f = [] \<or> cf_productId f \<in> prod_id ` set (cf_products f)) \<and> (cf_typeId f = [] \<or> cf_typeId f \<in> rt_id ` set (cf_types f))"

definition plan_stages :: "rollout_type \<Rightarrow> string list" where
  "plan_stages t = (if rt_cascadePlan t = [] then [''non-prod''] else map ps_stage (rt_cascadePlan t))"

definition body_ok :: "product list \<Rightarrow> rollout_type list \<Rightarrow> rollout_body \<Rightarrow> bool" where
  "body_ok ps ts b \<longleftrightarrow> rb_product b \<in> prod_id ` set ps \<and> rb_title b \<noteq> [] \<and> trim (rb_title b) = rb_title b \<and>
     (\<exists>t \<in> set ts. rt_id t = rb_typeId b \<and> map pl_env (rb_stages b) = plan_stages t)"

lemma cascade_envs: "cascadeStages h b plan d = Some ss \<Longrightarrow> map pl_env ss = (if plan = [] then [''non-prod''] else map ps_stage plan)"
proof -
  have envs: "those (map (\<lambda>p. map_option (\<lambda>t. \<lparr>pl_env = ps_stage p, pl_startAt = toISOString t, pl_durationNs = n, pl_status = s\<rparr>) (clip p)) xs) = Some ss
    \<Longrightarrow> map pl_env ss = map ps_stage xs" for n s clip xs ss
    by (induction xs arbitrary: ss) (auto split: option.splits)
  assume "cascadeStages h b plan d = Some ss"
  then show ?thesis by (auto simp: cascadeStages_def bind_eq_Some_conv dest!: envs)
qed

lemma default_ids_ok: "form_ok ps ts f \<Longrightarrow> form_ok ps ts (default_ids f)"
  by (auto simp: form_ok_def default_ids_def Let_def)

lemma edit_ok: "form_ok ps ts f \<Longrightarrow> e \<in> field_edits f \<union> text_edits \<Longrightarrow> form_ok ps ts (apply_rollout_edit e f)"
  by (auto simp: form_ok_def field_edits_def text_edits_def)

lemma loaded_ok: "form_ok ps ts f \<Longrightarrow> form_ok ps ts (f\<lparr>cf_products := ps\<rparr>)" "form_ok ps ts f \<Longrightarrow> form_ok ps ts (f\<lparr>cf_types := ts\<rparr>)"
  by (auto simp: form_ok_def)

lemma submit_keeps_ok: "form_ok ps ts f \<Longrightarrow> form_ok ps ts (fst (submit_rollout h f))"
  by (auto simp: form_ok_def submit_rollout_def Let_def split: option.splits)

lemma submit_body_ok:
  assumes "form_ok ps ts f" "snd (submit_rollout h f) = Sent r"
  shows "\<exists>b. rq_body r = Some b \<and> body_ok ps ts b"
proof -
  have can: "canSubmit f" using assms(2) by (auto simp: submit_rollout_def split: if_splits)
  obtain ss where ss: "preview h (f\<lparr>cf_submitting := True, cf_error := None\<rparr>) = Some ss" using assms(2) can
    by (auto simp: submit_rollout_def Let_def split: option.splits)
  obtain t where t: "selectedType f = Some t"
    using assms(1) can by (cases "selectedType f") (auto simp: form_ok_def canSubmit_def selectedType_def find_None_iff)
  then have ty: "t \<in> set ts" "rt_id t = cf_typeId f" using assms(1) by (auto simp: selectedType_def find_Some_iff form_ok_def subset_iff)
  have envs: "map pl_env ss = plan_stages t"
    unfolding plan_stages_def using ss t by (intro cascade_envs) (simp add: preview_def selectedType_def baseISO_def)
  let ?b = "\<lparr>rb_product = cf_productId f, rb_typeId = cf_typeId f, rb_title = trim (cf_title f), rb_descExt = cf_descExt f,
    rb_descInt = cf_descInt f, rb_risks = cf_risks f, rb_stages = ss, rb_pair = comma_list (cf_pairText f)\<rparr>"
  have "rq_body r = Some ?b" using assms(2) can ss by (auto simp: submit_rollout_def Let_def api_createRollout_def http_send_def)
  moreover have "cf_productId f \<in> prod_id ` set ps" using assms(1) can by (auto simp: form_ok_def canSubmit_def)
  then have "body_ok ps ts ?b" using can ty envs by (auto simp: body_ok_def canSubmit_def)
  ultimately show ?thesis by blast
qed

definition create_ok :: "product list \<Rightarrow> rollout_type list \<Rightarrow> create_page \<Rightarrow> bool" where
  "create_ok ps ts s \<longleftrightarrow> form_ok ps ts (mo_form (dp_modal s)) \<and> (\<forall>r \<in> set (mo_sent (dp_modal s)). \<exists>b. rq_body r = Some b \<and> body_ok ps ts b)"

lemma create_ok_modal: "create_ok ps ts (create_eval h clk s) = create_ok ps ts s"
  by (simp add: create_ok_def create_eval_def Let_def)

lemma create_ok_form: "create_ok ps ts s \<Longrightarrow> (\<And>f. form_ok ps ts f \<Longrightarrow> form_ok ps ts (g f)) \<Longrightarrow>
    create_ok ps ts (s\<lparr>dp_modal := on_form g (dp_modal s)\<rparr>)"
  by (simp add: create_ok_def on_form_def)

lemma create_ok_submit: "create_ok ps ts s \<Longrightarrow> create_ok ps ts (s\<lparr>dp_modal := on_submit (submit_rollout h) (dp_modal s)\<rparr>)"
proof -
  assume ok: "create_ok ps ts s"
  obtain f r where s: "submit_rollout h (mo_form (dp_modal s)) = (f, r)" by fastforce
  have "form_ok ps ts f" "\<And>q. r = Sent q \<Longrightarrow> \<exists>b. rq_body q = Some b \<and> body_ok ps ts b"
    using submit_keeps_ok [of ps ts "mo_form (dp_modal s)" h] submit_body_ok [of ps ts "mo_form (dp_modal s)" h] ok s by (auto simp: create_ok_def)
  then show ?thesis using ok s by (cases r) (auto simp: create_ok_def on_submit_def)
qed

lemma create_ok_answer: "create_ok ps ts s \<Longrightarrow> create_ok ps ts (s\<lparr>dp_modal := on_answer rollout_failed rollout_created a (dp_modal s)\<rparr>)"
  by (auto simp: create_ok_def on_answer_def rollout_failed_def form_ok_def split: list.splits sum.splits)

lemma create_ok_act:
  assumes "create_ok ps ts s" "ev \<in> offered_opt (create_dom h ltime s) \<union> create_env ps ts"
  shows "create_ok ps ts (create_act h clk ev s)"
proof -
  have "create_ok ps ts (s\<lparr>dp_modal := create_step h ev (dp_modal s)\<rparr>)"
  proof (cases "ev \<in> create_env ps ts")
    case True
    then show ?thesis using assms(1)
      by (auto simp: create_env_def create_step_funs intro!: create_ok_form create_ok_answer default_ids_ok loaded_ok)
  next
    case False
    then obtain f now n where n: "create_view h ltime now (mo_form (dp_modal s)) f = Some n" "ev \<in> offered n" and m: "mo_mounted (dp_modal s)"
      using assms(2) by (auto simp: create_dom_def offered_opt_def split: option.splits if_splits)
    from n(2) consider "ev = RolloutClose" | "ev = RolloutSubmit" | e where "ev = RolloutEdit e" "e \<in> field_edits (mo_form (dp_modal s)) \<union> text_edits"
      by (auto simp: offered_create_view [OF n(1)] split: if_splits)
    then show ?thesis
    proof cases
      case 1
      then show ?thesis using assms(1) by (simp add: create_ok_def on_close_def)
    next
      case 2
      then show ?thesis using create_ok_submit [OF assms(1)] by (simp add: create_step_funs)
    next
      case (3 e)
      then show ?thesis using assms(1) m by (auto simp: create_ok_def on_form_def intro!: default_ids_ok edit_ok)
    qed
  qed
  then show ?thesis by (simp add: create_act_def create_ok_modal)
qed

interpretation create_dialog: ui_component "create_dom h ltime" "create_env ps ts" "create_act h clk" "create_start h clk now sv" "create_ok ps ts"
  for h ltime ps ts clk now sv
proof
  show "create_ok ps ts (create_start h clk now sv)"
    by (simp add: create_start_def create_ok_modal) (simp add: create_ok_def form_ok_def open_modal_def new_rollout_form_def)
qed (rule create_ok_act)

lemma advisories_None: "scheduleAdvisories h now f = None \<longleftrightarrow> preview h f = None"
  by (simp add: scheduleAdvisories_def)

definition up_to_date :: "host \<Rightarrow> create_page \<Rightarrow> bool" where
  "up_to_date h s \<longleftrightarrow> (mo_mounted (dp_modal s) \<and> preview h (mo_form (dp_modal s)) \<noteq> None \<longrightarrow> (\<exists>t. dp_shown s = Some (mo_form (dp_modal s), t)))"

lemma up_to_date_eval: "up_to_date h (create_eval h clk s)"
  by (simp add: up_to_date_def create_eval_def advisories_None Let_def)

lemma up_to_date_reach: "ui_reach (create_dom h ltime) env (create_act h clk) (create_start h clk now sv) s \<Longrightarrow> up_to_date h s"
  by (erule ui_reach.cases) (simp_all add: create_start_def create_act_def up_to_date_eval)

lemma up_to_date_button:
  assumes "up_to_date h s" "mo_mounted (dp_modal s)" "preview h (mo_form (dp_modal s)) \<noteq> None"
  shows "RolloutSubmit \<in> offered_opt (create_dom h ltime s) \<longleftrightarrow> canSubmit (mo_form (dp_modal s))"
proof -
  obtain t where t: "dp_shown s = Some (mo_form (dp_modal s), t)" using assms by (auto simp: up_to_date_def)
  then obtain n where n: "create_view h ltime t (mo_form (dp_modal s)) (mo_form (dp_modal s)) = Some n"
    using assms(3) create_view_renders [of h ltime t "mo_form (dp_modal s)" "mo_form (dp_modal s)"] by auto
  show ?thesis using assms(2) t n by (auto simp: create_dom_def offered_create_view [OF n])
qed

text \<open>
  C7. In every run of the rollout dialog on the page, each request it sent names a product and a type of the lists that arrived, has the stages of that
  type's plan in their order and a title without blanks around it that is not empty; and while the stages can be computed, the button is enabled
  exactly when the form can be submitted.
\<close>

theorem create_sends_listed:
  assumes "ui_reach (create_dom h ltime) (create_env ps ts) (create_act h clk) (create_start h clk now sv) s"
  shows "(\<forall>r \<in> set (mo_sent (dp_modal s)). \<exists>b. rq_body r = Some b \<and> body_ok ps ts b) \<and>
    (mo_mounted (dp_modal s) \<and> preview h (mo_form (dp_modal s)) \<noteq> None \<longrightarrow>
      (RolloutSubmit \<in> offered_opt (create_dom h ltime s) \<longleftrightarrow> canSubmit (mo_form (dp_modal s))))"
  using create_dialog.inv_reach [OF assms] up_to_date_reach [OF assms] up_to_date_button by (simp add: create_ok_def)

text \<open>An example: both lists arrive, the title is typed and the button pressed.\<close>

lemma dp_modal_act [simp]: "dp_modal (create_eval h clk s) = dp_modal s" "dp_modal (create_act h clk ev s) = create_step h ev (dp_modal s)"
  by (simp_all add: create_act_def create_eval_def Let_def)

lemma shown_offers:
  assumes "up_to_date h s" "mo_mounted (dp_modal s)" "preview h (mo_form (dp_modal s)) \<noteq> None"
  shows "RolloutEdit ` (field_edits (mo_form (dp_modal s)) \<union> text_edits) \<subseteq> offered_opt (create_dom h ltime s)"
proof -
  obtain t where t: "dp_shown s = Some (mo_form (dp_modal s), t)" using assms by (auto simp: up_to_date_def)
  then obtain n where n: "create_view h ltime t (mo_form (dp_modal s)) (mo_form (dp_modal s)) = Some n"
    using assms(3) create_view_renders [of h ltime t "mo_form (dp_modal s)" "mo_form (dp_modal s)"] by auto
  then show ?thesis using assms(2) t by (auto simp: create_dom_def offered_create_view [OF n])
qed

definition example_product :: product where
  "example_product = \<lparr>prod_id = ''operator'', prod_name = ''operator'', prod_owner = [], prod_brokers = []\<rparr>"

definition dialog_now :: int where
  "dialog_now = 1780304400000"

lemma example_renders:
  assumes "cf_startDate f = ''2026-06-02''" "cf_startTime f = ''10:00''" "set (cf_types f) \<subseteq> {example_type}"
  shows "preview utc_host f \<noteq> None"
proof -
  have "baseISO f = baseISO example_form" using assms by (simp add: baseISO_def example_form_def)
  moreover have "new_Date utc_host (baseISO example_form) = Some 1780394400000" by code_simp
  moreover have "selectedType f = None \<or> selectedType f = Some example_type" using assms(3)
    by (cases "selectedType f") (auto simp: selectedType_def dest!: find_Some_iff_mem)
  ultimately show ?thesis by (auto simp: preview_def cascadeStages_def example_type_def time_clip_def)
qed

lemma example_dialog_sends: "\<exists>s. ui_reach (create_dom utc_host (\<lambda>_ _. [])) (create_env [example_product] [example_type])
    (create_act utc_host (\<lambda>_. 0)) (create_start utc_host (\<lambda>_. 0) dialog_now example_services) s \<and> length (mo_sent (dp_modal s)) = 1"
proof -
  let ?dom = "create_dom utc_host (\<lambda>_ _. [])" and ?env = "create_env [example_product] [example_type]" and ?act = "create_act utc_host (\<lambda>_. 0)"
    and ?start = "create_start utc_host (\<lambda>_. 0) dialog_now example_services"
  let ?R = "ui_reach ?dom ?env ?act ?start"
  define s1 where "s1 = ?act (ProductsLoaded [example_product]) ?start"
  define s2 where "s2 = ?act (TypesLoaded [example_type]) s1"
  define s3 where "s3 = ?act (RolloutEdit (EditTitle ''24.7'')) s2"
  define s4 where "s4 = ?act RolloutSubmit s3"
  have date: "defaultDate utc_host dialog_now = ''2026-06-02''" by code_simp
  note steps = create_start_def open_modal_def new_rollout_form_def on_form_def default_ids_def example_product_def example_type_def date
  have m2: "mo_mounted (dp_modal s2)" "mo_form (dp_modal s2) = (new_rollout_form utc_host dialog_now)
      \<lparr>cf_products := [example_product], cf_types := [example_type], cf_productId := ''operator'', cf_typeId := ''minor''\<rparr>" "mo_sent (dp_modal s2) = []"
    unfolding s2_def s1_def by (simp_all add: steps)
  then have m3: "mo_mounted (dp_modal s3)" "mo_form (dp_modal s3) = (mo_form (dp_modal s2))\<lparr>cf_title := ''24.7''\<rparr>" "mo_sent (dp_modal s3) = []"
    unfolding s3_def by (simp_all add: on_form_def default_ids_def Let_def)
  have p: "preview utc_host (mo_form (dp_modal s2)) \<noteq> None" "preview utc_host (mo_form (dp_modal s3)) \<noteq> None"
    by (intro example_renders; simp add: m2 m3 new_rollout_form_def date)+
  have "?R s1" "?R s2" unfolding s2_def s1_def by (intro ui_reach.intros; simp add: create_env_def)+
  moreover have u: "up_to_date utc_host s2" "up_to_date utc_host s3" unfolding s2_def s3_def create_act_def by (rule up_to_date_eval)+
  moreover have "RolloutEdit (EditTitle ''24.7'') \<in> offered_opt (?dom s2)"
    using shown_offers [OF u(1) m2(1) p(1), of "\<lambda>_ _. []"] by (auto simp: field_edits_def)
  ultimately have r3: "?R s3" unfolding s3_def by (auto intro: ui_reach.act)
  have c: "canSubmit (mo_form (dp_modal s3))" unfolding canSubmit_def m3 m2 by (simp add: new_rollout_form_def) code_simp
  then have "RolloutSubmit \<in> offered_opt (?dom s3)" using up_to_date_button [OF u(2) m3(1) p(2)] by blast
  then have "?R s4" unfolding s4_def using r3 by (auto intro: ui_reach.act)
  moreover have "length (mo_sent (dp_modal s4)) = 1"
  proof -
    obtain ss where "preview utc_host ((mo_form (dp_modal s3))\<lparr>cf_submitting := True, cf_error := None\<rparr>) = Some ss"
      using p(2) by (auto simp: preview_def selectedType_def baseISO_def)
    then show ?thesis unfolding s4_def using c m3 by (simp add: on_submit_def submit_rollout_def Let_def)
  qed
  ultimately show ?thesis by blast
qed

theorem create_sends_listed_witness: "\<exists>(r :: rollout_body http_request) b. rq_body r = Some b \<and> body_ok [example_product] [example_type] b"
proof -
  obtain s where s: "ui_reach (create_dom utc_host (\<lambda>_ _. [])) (create_env [example_product] [example_type])
      (create_act utc_host (\<lambda>_. 0)) (create_start utc_host (\<lambda>_. 0) dialog_now example_services) s" "length (mo_sent (dp_modal s)) = 1"
    using example_dialog_sends by blast
  then obtain r where "r \<in> set (mo_sent (dp_modal s))" by (cases "mo_sent (dp_modal s)") auto
  moreover have "\<forall>r \<in> set (mo_sent (dp_modal s)). \<exists>b. rq_body r = Some b \<and> body_ok [example_product] [example_type] b"
    using create_sends_listed [OF s(1)] by (rule conjunct1)
  ultimately show ?thesis by blast
qed

section \<open>The rollout dialog with an empty date\<close>

lemma fold_create_act: "dp_modal (fold (create_act h clk) es s) = fold (create_step h) es (dp_modal s)"
  by (induction es arbitrary: s) simp_all

lemma up_to_date_fold: "up_to_date h s \<Longrightarrow> up_to_date h (fold (create_act h clk) es s)"
  by (induction es arbitrary: s) (simp_all add: create_act_def up_to_date_eval)

text \<open>
  C39. With an empty start date a click on the button throws while the body is built, after the form was marked as submitting. No request is sent
  then or by any later event, and the form can no longer be submitted. The template throws too, so at first the button still looks enabled; as soon
  as a date is entered and the stages can be computed, it is disabled, until the dialog is opened again.
\<close>

theorem empty_date_blocks:
  fixes s :: create_page
  assumes "mo_mounted (dp_modal s)" "mo_waiting (dp_modal s) = []" "canSubmit (mo_form (dp_modal s))" "cf_startDate (mo_form (dp_modal s)) = []"
    and "s1 = create_act h clk RolloutSubmit s" "s2 = fold (create_act h clk) es s1"
  shows "mo_sent (dp_modal s2) = mo_sent (dp_modal s) \<and> \<not> canSubmit (mo_form (dp_modal s2)) \<and>
    (RolloutSubmit \<in> offered_opt (create_dom h ltime s) \<longrightarrow> RolloutSubmit \<in> offered_opt (create_dom h ltime s1)) \<and>
    (mo_mounted (dp_modal s2) \<and> preview h (mo_form (dp_modal s2)) \<noteq> None \<longrightarrow> RolloutSubmit \<notin> offered_opt (create_dom h ltime s2))"
proof (intro conjI impI)
  have m: "dp_modal s2 = fold (create_step h) es (create_step h RolloutSubmit (dp_modal s))" by (simp add: assms(5,6) fold_create_act)
  show sent: "mo_sent (dp_modal s2) = mo_sent (dp_modal s)" and shut: "\<not> canSubmit (mo_form (dp_modal s2))"
    using empty_date_stuck [OF assms(1-4), of h es] by (simp_all add: m)
  show "RolloutSubmit \<notin> offered_opt (create_dom h ltime s2)" if "mo_mounted (dp_modal s2) \<and> preview h (mo_form (dp_modal s2)) \<noteq> None"
    using that shut up_to_date_button [of h s2 ltime] up_to_date_fold [of h s1 clk es] by (simp add: assms(5,6) create_act_def up_to_date_eval)
  show "RolloutSubmit \<in> offered_opt (create_dom h ltime s1)" if offered: "RolloutSubmit \<in> offered_opt (create_dom h ltime s)"
  proof -
    let ?m = "create_step h RolloutSubmit (dp_modal s)"
    have form: "mo_mounted ?m" "cf_startDate (mo_form ?m) = []"
      using assms(1,3,4) by (simp_all add: on_submit_def submit_rollout_def Let_def split: option.split)
    then have "preview h (mo_form ?m) = None"
      using no_date_no_anchor [of "mo_form ?m" h] by (simp add: preview_def cascadeStages_def Let_def del: create_step.simps)
    then have "dp_shown s1 = dp_shown s" "dp_modal s1 = ?m"
      using form(1) by (simp_all add: assms(5) create_act_def create_eval_def advisories_None Let_def del: create_step.simps)
    then show ?thesis using offered form(1) assms(1)
      by (auto simp del: create_step.simps simp: create_dom_def offered_opt_def create_view_def create_markup_def offered_create_foot offered_create_fields offered_create_texts
          split: option.splits if_splits)
  qed
qed

theorem empty_date_blocks_witness:
  "\<not> canSubmit (mo_form (fold (create_step utc_host) [RolloutEdit (EditStartDate ''2026-06-02''), RolloutSubmit]
     (create_step utc_host RolloutSubmit (open_modal (example_form\<lparr>cf_startDate := []\<rparr>) example_services))))"
proof -
  let ?s = "\<lparr>dp_modal = open_modal (example_form\<lparr>cf_startDate := []\<rparr>) example_services, dp_shown = None, dp_evals = 0\<rparr>"
  have "canSubmit (example_form\<lparr>cf_startDate := []\<rparr>)" by code_simp
  then show ?thesis
    using empty_date_blocks [of ?s "create_act utc_host (\<lambda>_. 0) RolloutSubmit ?s" utc_host "\<lambda>_. 0" _ "[RolloutEdit (EditStartDate ''2026-06-02''), RolloutSubmit]", OF _ _ _ _ refl refl]
    by (simp add: open_modal_def fold_create_act)
qed

section \<open>The lock dialog: what it can send\<close>

text \<open>The dialog on the page: the products that arrived so far and the form. Nothing in its template throws.\<close>

record lock_page =
  kd_products :: "product list"
  kd_modal :: "(lock_form, lock_body) modal"

datatype lock_page_event = LockEvent lock_event | AllProducts "product list"

definition lock_dom :: "lock_page \<Rightarrow> lock_page_event node option" where
  "lock_dom s = (if mo_mounted (kd_modal s) then Some (lift_node LockEvent (lock_view (kd_products s) (mo_form (kd_modal s)))) else None)"

fun lock_act :: "host \<Rightarrow> lock_page_event \<Rightarrow> lock_page \<Rightarrow> lock_page" where
  "lock_act h (LockEvent ev) s = s\<lparr>kd_modal := lock_step h ev (kd_modal s)\<rparr>"
| "lock_act h (AllProducts ps) s = s\<lparr>kd_products := ps\<rparr>"

definition lock_start :: "host \<Rightarrow> int \<Rightarrow> lock_doc option \<Rightarrow> services \<Rightarrow> lock_page" where
  "lock_start h now existing sv = \<lparr>kd_products = [], kd_modal = open_modal (new_lock_form h now existing) sv\<rparr>"

definition lock_env :: "product list \<Rightarrow> lock_page_event set" where
  "lock_env ps = {AllProducts ps} \<union> LockEvent ` range LockAnswer"

text \<open>A choice of products: all of them, or some of the known ones.\<close>

definition choice_ok :: "string set \<Rightarrow> string list \<Rightarrow> bool" where
  "choice_ok known xs \<longleftrightarrow> xs = [''all''] \<or> (distinct xs \<and> ''all'' \<notin> set xs \<and> set xs \<subseteq> known)"

definition known_products :: "product list \<Rightarrow> lock_doc option \<Rightarrow> string set" where
  "known_products ps existing = prod_id ` set ps \<union> (case existing of Some l \<Rightarrow> set (ld_products l) - {''all''} | None \<Rightarrow> {})"

definition sane_lock :: "product list \<Rightarrow> lock_doc option \<Rightarrow> bool" where
  "sane_lock ps existing \<longleftrightarrow> ''all'' \<notin> prod_id ` set ps \<and> (\<forall>l. existing = Some l \<longrightarrow> ld_id l \<noteq> [] \<and> choice_ok (known_products ps existing) (ld_products l))"

definition lock_body_ok :: "product list \<Rightarrow> lock_doc option \<Rightarrow> lock_body \<Rightarrow> bool" where
  "lock_body_ok ps existing b \<longleftrightarrow> lb_title b \<noteq> [] \<and> trim (lb_title b) = lb_title b \<and> lb_products b \<noteq> [] \<and>
     choice_ok (known_products ps existing) (lb_products b)"

definition lock_request_ok :: "product list \<Rightarrow> lock_doc option \<Rightarrow> lock_body http_request \<Rightarrow> bool" where
  "lock_request_ok ps existing r \<longleftrightarrow> (\<exists>b. lock_body_ok ps existing b \<and>
     r = (case existing of Some l \<Rightarrow> api_updateLock (ld_id l) b | None \<Rightarrow> api_createLock b))"

definition lock_form_ok :: "product list \<Rightarrow> lock_doc option \<Rightarrow> lock_form \<Rightarrow> bool" where
  "lock_form_ok ps existing f \<longleftrightarrow> lf_editId f = map_option ld_id existing \<and> choice_ok (known_products ps existing) (lf_products f)"

definition lock_ok :: "product list \<Rightarrow> lock_doc option \<Rightarrow> lock_page \<Rightarrow> bool" where
  "lock_ok ps existing s \<longleftrightarrow> set (kd_products s) \<subseteq> set ps \<and> lock_form_ok ps existing (mo_form (kd_modal s)) \<and>
     (\<forall>r \<in> set (mo_sent (kd_modal s)). lock_request_ok ps existing r)"

definition lock_edits :: "product list \<Rightarrow> lock_edit set" where
  "lock_edits ps = range LockKind \<union> range LockStart \<union> range LockEnd \<union> range LockTitle \<union> range LockDescription \<union> range LockContact \<union>
     {LockAll} \<union> LockToggle ` prod_id ` set ps"

lemma offered_lock_view: "offered (lock_view ps f) = {LockClose} \<union> (if lock_canSubmit f then {LockSubmit} else {}) \<union> LockEdit ` lock_edits ps"
proof -
  have kinds: "(\<Union>k \<in> set lock_kinds. {LockEdit (LockKind (fst k))}) = LockEdit ` range LockKind"
    by (auto simp: lock_kinds_def) (metis lock_kind.exhaust rangeI image_eqI)
  have "offered (lock_fields ps f) = LockEdit ` (lock_edits ps - range LockKind)"
    by (auto simp: lock_fields_def lock_edits_def)
  moreover have "offered (lock_foot f) = {LockClose} \<union> (if lock_canSubmit f then {LockSubmit} else {})" by (simp add: lock_foot_def)
  ultimately have "offered (lock_view ps f) = {LockClose} \<union> (if lock_canSubmit f then {LockSubmit} else {}) \<union>
      (LockEdit ` range LockKind \<union> LockEdit ` (lock_edits ps - range LockKind))"
    by (auto simp: lock_view_def kinds)
  moreover have "range LockKind \<subseteq> lock_edits ps" by (auto simp: lock_edits_def)
  ultimately show ?thesis by (simp add: Un_absorb1 flip: image_Un)
qed

lemma toggle_choice: "choice_ok known (lf_products f) \<Longrightarrow> i \<in> known \<Longrightarrow> i \<noteq> ''all'' \<Longrightarrow> choice_ok known (lf_products (toggleProduct i f))"
  by (auto simp: choice_ok_def toggleProduct_def Let_def)

lemma lock_edit_ok:
  assumes "lock_form_ok ps existing f" "e \<in> lock_edits ps" "''all'' \<notin> prod_id ` set ps"
  shows "lock_form_ok ps existing (apply_lock_edit e f)"
proof (cases e)
  case (LockToggle i)
  then have "i \<in> prod_id ` set ps" using assms(2) by (auto simp: lock_edits_def)
  moreover from this have "i \<noteq> ''all''" using assms(3) by metis
  ultimately have "choice_ok (known_products ps existing) (lf_products (toggleProduct i f))"
    using assms(1) by (intro toggle_choice) (auto simp: lock_form_ok_def known_products_def)
  then show ?thesis using assms(1) LockToggle by (simp add: lock_form_ok_def toggleProduct_def Let_def)
qed (use assms in \<open>auto simp: lock_form_ok_def selectAll_def choice_ok_def\<close>)

lemma lock_submit_ok:
  assumes "lock_form_ok ps existing f" "sane_lock ps existing"
  shows "lock_form_ok ps existing (fst (submit_lock h f))" "snd (submit_lock h f) = Sent r \<Longrightarrow> lock_request_ok ps existing r"
proof -
  show "lock_form_ok ps existing (fst (submit_lock h f))" using assms(1) by (simp add: lock_form_ok_def submit_lock_def Let_def split: option.split)
  assume sent: "snd (submit_lock h f) = Sent r"
  then have can: "lock_canSubmit f" by (simp add: submit_lock_def split: if_splits)
  then obtain s e where se: "new_Date h (lf_start f) = Some s" "new_Date h (lf_end f) = Some e"
    using sent by (auto simp: submit_lock_def Let_def split: option.splits)
  let ?b = "\<lparr>lb_title = trim (lf_title f), lb_description = lf_description f, lb_contact = lf_contact f, lb_startAt = toISOString s,
    lb_endAt = toISOString e, lb_products = lf_products f, lb_kind = lf_kind f\<rparr>"
  have "r = (case existing of Some l \<Rightarrow> api_updateLock (ld_id l) ?b | None \<Rightarrow> api_createLock ?b)"
    using sent can se assms by (cases existing) (simp_all add: submit_lock_def lock_form_ok_def sane_lock_def)
  moreover have "lock_body_ok ps existing ?b" using can assms(1) by (simp add: lock_body_ok_def lock_canSubmit_def lock_form_ok_def)
  ultimately show "lock_request_ok ps existing r" unfolding lock_request_ok_def by blast
qed

lemma lock_ok_step:
  assumes ok: "lock_ok ps existing s" and sane: "sane_lock ps existing"
    and ev: "ev = LockClose \<or> ev = LockSubmit \<or> ev \<in> LockEdit ` lock_edits ps \<or> ev \<in> range LockAnswer"
  shows "lock_ok ps existing (s\<lparr>kd_modal := lock_step h ev (kd_modal s)\<rparr>)"
  using ev
proof (elim disjE imageE)
  assume ev: "ev = LockSubmit"
  obtain f r where fr: "submit_lock h (mo_form (kd_modal s)) = (f, r)" by fastforce
  have "lock_form_ok ps existing f" "\<And>q. r = Sent q \<Longrightarrow> lock_request_ok ps existing q"
    using lock_submit_ok [OF _ sane, of "mo_form (kd_modal s)" h] ok fr by (auto simp: lock_ok_def)
  then show ?thesis using ok fr ev by (cases r) (auto simp: lock_ok_def on_submit_def)
next
  fix e assume "ev = LockEdit e" "e \<in> lock_edits ps"
  then show ?thesis using ok sane by (simp add: lock_ok_def on_form_def lock_edit_ok sane_lock_def)
next
  fix a assume "ev = LockAnswer a"
  then show ?thesis using ok by (auto simp: lock_ok_def on_answer_def lock_failed_def lock_form_ok_def split: list.splits sum.splits)
qed (use ok in \<open>simp add: lock_ok_def on_close_def\<close>)

lemma lock_edits_mono: "set qs \<subseteq> set ps \<Longrightarrow> lock_edits qs \<subseteq> lock_edits ps"
  by (auto simp: lock_edits_def)

interpretation lock_page: ui_component lock_dom "lock_env ps" "lock_act h" "lock_start h now existing sv"
  "\<lambda>s. sane_lock ps existing \<longrightarrow> lock_ok ps existing s"
  for h ps now existing sv
proof
  show "sane_lock ps existing \<longrightarrow> lock_ok ps existing (lock_start h now existing sv)"
    by (auto simp: lock_start_def lock_ok_def open_modal_def new_lock_form_def lock_form_ok_def sane_lock_def choice_ok_def split: option.splits)
  fix s a assume inv: "sane_lock ps existing \<longrightarrow> lock_ok ps existing s" and a: "a \<in> offered_opt (lock_dom s) \<union> lock_env ps"
  show "sane_lock ps existing \<longrightarrow> lock_ok ps existing (lock_act h a s)"
  proof
    assume sane: "sane_lock ps existing"
    with inv have ok: "lock_ok ps existing s" by blast
    show "lock_ok ps existing (lock_act h a s)"
    proof (cases a)
      case (AllProducts qs)
      then have "qs = ps" using a by (auto simp: lock_env_def lock_dom_def split: if_splits)
      then show ?thesis using ok AllProducts by (simp add: lock_ok_def)
    next
      case (LockEvent ev)
      note step = lock_ok_step [OF ok sane, of ev h]
      have "ev = LockClose \<or> ev = LockSubmit \<or> ev \<in> LockEdit ` lock_edits (kd_products s) \<or> ev \<in> range LockAnswer"
        using a LockEvent by (auto simp: lock_env_def lock_dom_def offered_lock_view split: if_splits)
      moreover have "lock_edits (kd_products s) \<subseteq> lock_edits ps" using ok by (intro lock_edits_mono) (simp add: lock_ok_def)
      ultimately show ?thesis using step LockEvent by (simp add: image_subset_iff) blast
    qed
  qed
qed

text \<open>
  C28. When no product has the id \<open>all\<close>, and a lock that is opened has an id and a choice of products of the kind described here, every request of the lock dialog creates a lock, or updates the one it was opened for, with a title that is not blank and either all products or
  a choice, without repetitions, of products that are listed or that the lock had; never an empty choice and never \<open>all\<close> beside others.
\<close>

theorem lock_sends_valid:
  assumes "sane_lock ps existing" "ui_reach lock_dom (lock_env ps) (lock_act h) (lock_start h now existing sv) s"
  shows "(\<forall>r \<in> set (mo_sent (kd_modal s)). lock_request_ok ps existing r) \<and>
    (mo_mounted (kd_modal s) \<longrightarrow> (LockEvent LockSubmit \<in> offered_opt (lock_dom s) \<longleftrightarrow> lock_canSubmit (mo_form (kd_modal s))))"
  using lock_page.inv_reach [OF assms(2)] assms(1) by (auto simp: lock_ok_def lock_dom_def offered_lock_view)

lemma frozen_lock_sends: "\<exists>s. ui_reach lock_dom (lock_env [example_product]) (lock_act utc_host)
    (lock_start utc_host 0 (Some frozen_lock) example_services) s \<and> length (mo_sent (kd_modal s)) = 1"
proof -
  let ?start = "lock_start utc_host 0 (Some frozen_lock) example_services"
  let ?s1 = "lock_act utc_host (LockEvent LockSubmit) ?start"
  have f: "mo_form (kd_modal ?start) = new_lock_form utc_host 0 (Some frozen_lock)" "mo_mounted (kd_modal ?start)" "mo_sent (kd_modal ?start) = []"
    by (simp_all add: lock_start_def open_modal_def)
  have d: "new_Date utc_host (ld_startAt frozen_lock) = Some 1780394400000" "new_Date utc_host (ld_endAt frozen_lock) = Some 1780480800000"
    "wall_clock utc_host 1780394400000" "wall_clock utc_host 1780480800000" "trim (ld_title frozen_lock) \<noteq> []"
    by code_simp+
  have can: "lock_canSubmit (new_lock_form utc_host 0 (Some frozen_lock))"
    using d by (simp add: lock_canSubmit_def new_lock_form_def toLocalInput_def localInput_nonempty) (simp add: frozen_lock_def)
  then obtain g r where g: "submit_lock utc_host (new_lock_form utc_host 0 (Some frozen_lock)) = (g, Sent r)"
    using d by (simp add: submit_lock_def new_lock_form_def toLocalInput_def localInput_reads Let_def)
  have "LockEvent LockSubmit \<in> offered_opt (lock_dom ?start)" using f can by (simp add: lock_dom_def offered_lock_view)
  then have "ui_reach lock_dom (lock_env [example_product]) (lock_act utc_host) ?start ?s1" by (intro ui_reach.intros) simp_all
  moreover have "length (mo_sent (kd_modal ?s1)) = 1" using f g by (simp add: on_submit_def)
  ultimately show ?thesis by blast
qed

theorem lock_sends_valid_witness: "\<exists>r. lock_request_ok [example_product] (Some frozen_lock) r"
proof -
  obtain s where s: "ui_reach lock_dom (lock_env [example_product]) (lock_act utc_host)
      (lock_start utc_host 0 (Some frozen_lock) example_services) s" "length (mo_sent (kd_modal s)) = 1"
    using frozen_lock_sends by blast
  have "sane_lock [example_product] (Some frozen_lock)"
    by (simp add: sane_lock_def example_product_def frozen_lock_def known_products_def choice_ok_def)
  then have "\<forall>r \<in> set (mo_sent (kd_modal s)). lock_request_ok [example_product] (Some frozen_lock) r"
    using s(1) by (rule lock_sends_valid [THEN conjunct1])
  then show ?thesis using s(2) by (cases "mo_sent (kd_modal s)") auto
qed

end
