(* ===== verification/RR_ShellView.thy ===== *)
theory RR_ShellView
  imports RR_Dialogs RR_RolloutTimeline
begin

text \<open>
  The templates of the shell, \<open>src/frontend/src/app/shared/layout/shell/shell.component.html\<close>, and of the timeline,
  \<open>src/frontend/src/app/features/timeline/timeline-view/timeline-view.component.html\<close>, with the conventions of \<open>RR_Views\<close>. The dialogs that the
  shell mounts and the routed page are arguments: the markup of the child components. \<open>num\<close> is the text of a number that need not be whole.
\<close>

section \<open>The shell\<close>

datatype shell_event = ShellRollout | ShellLock | ShellChild create_event | ShellLockChild lock_event

definition role_text :: "role \<Rightarrow> string" where
  "role_text r = (case r of Admin \<Rightarrow> ''admin'' | Readonly \<Rightarrow> ''readonly'')"

definition status_text :: "live_status \<Rightarrow> string" where
  "status_text st = (case st of Live \<Rightarrow> ''live'' | Reconnecting \<Rightarrow> ''reconnecting'' | Connecting \<Rightarrow> ''connecting'' | Offline \<Rightarrow> ''offline'')"

text \<open>An optional number as a condition: \<open>undefined\<close> and zero are false.\<close>

definition truthy_int :: "int option \<Rightarrow> int option" where
  "truthy_int x = (if x = Some 0 then None else x)"

fun shell_step :: "session \<Rightarrow> shell_event \<Rightarrow> services \<Rightarrow> services" where
  "shell_step u ShellRollout sv = onCreateRollout u sv"
| "shell_step u ShellLock sv = onCreateLock u sv"
| "shell_step u _ sv = sv"

definition shell_buttons :: "session \<Rightarrow> shell_event node" where
  "shell_buttons u =
     Elem ''div'' [cls ''rr-cta-row'']
       [Elem ''button'' [cls ''rr-btn rr-btn-primary'', AttrB ''disabled'' (\<not> canEdit u),
           Attr ''title'' (if canEdit u then ''Create rollout'' else ''Read-only '' @ u_mdash @ '' contact an admin''),
           On ''onClick'' ShellRollout]
         [icon_view None (map_of ICONS_ts ''plus'') 14 (16 / 10),
          Text '' New rollout ''],
        Elem ''button'' [cls ''rr-btn rr-btn-ghost'', AttrB ''disabled'' (\<not> canEdit u), On ''onClick'' ShellLock,
           Attr ''title'' ''Create lock'']
         [icon_view None (map_of ICONS_ts ''lock'') 14 (16 / 10)]]"

definition shell_links :: "shell_event node" where
  "shell_links =
     Elem ''nav'' [cls ''rr-nav'']
       (map (\<lambda>n.
           Elem ''a'' [cls ''rr-nav-item'', Attr ''routerLinkActive'' ''is-active'', Attr ''routerLink'' (nl_link n)]
             ([icon_view None (Some (nl_icon n)) 15 (16 / 10),
              Elem ''span'' []
               [Text (nl_label n)]] @
              (case truthy_int (nl_badge n) of None \<Rightarrow> [] | Some b \<Rightarrow>
               [Elem ''span'' [cls ''rr-nav-badge'']
                 [Text (show_int b)]])))
         shell_nav)"

definition shell_legend :: "shell_event node" where
  "shell_legend =
     Elem ''div'' [cls ''rr-legend'']
       (map (\<lambda>k.
           Elem ''div'' [cls ''rr-legend-row'']
             [Elem ''span'' [cls ''rr-legend-sq'', Sty ''background'' (st_soft (snd k)), Sty ''borderColor'' (st_border (snd k)),
                 Sty ''color'' (st_color (snd k))]
               [Text (st_short (snd k))],
              Elem ''span'' []
               [Text (st_label (snd k))]])
         STAGE_ts @
        [Elem ''div'' [cls ''rr-legend-row'']
         [Elem ''span'' [cls ''rr-legend-lock''] [],
          Elem ''span'' []
           [Text ''Rollout-Sperre'']]])"

definition shell_header :: "session \<Rightarrow> live_status \<Rightarrow> shell_event node" where
  "shell_header u st =
     Elem ''header'' [cls ''rr-header'']
       [Elem ''div'' [cls ''rr-header-left'']
         [Elem ''div'' [cls ''rr-instance'']
           [Elem ''div'' [cls ''rr-instance-dot''] [],
            Elem ''div'' [cls ''rr-instance-meta'']
             [Elem ''div'' [cls ''rr-instance-name'']
               [Text ''tms-platform''],
              Elem ''div'' [cls ''rr-instance-env'']
               [Elem ''span'' [cls ''rr-mono'']
                 [Text ''prod''],
                Text ('' '' @ u_middot @ '' ReleaseRadar '')]]]],
        Elem ''div'' [cls ''rr-header-right'']
         ([Elem ''div'' [cls ''rr-live'', Attr ''role'' ''status'', Attr ''aria-live'' ''polite'',
             Attr ''aria-label'' (''Live channel: '' @ liveLabel st), Attr ''data-test'' ''live-status'',
             Attr ''data-status'' (status_text st), Attr ''title'' (''Live channel: '' @ liveLabel st)]
           [Elem ''span'' [cls ''rr-live-dot'', Attr ''aria-hidden'' ''true''] [],
            Elem ''span'' [cls ''rr-live-label'']
             [Text (liveLabel st)]],
          Elem ''div'' [cls ''rr-divider''] [],
          Elem ''a'' [cls ''rr-btn rr-btn-ghost rr-btn-sm'', Attr ''href'' ''/api/calendar.ics'']
           [icon_view None (map_of ICONS_ts ''download'') 13 (16 / 10),
            Text '' Export iCal ''],
          Elem ''div'' [cls ''rr-divider''] []] @
          (case user u of Some a \<Rightarrow>
           [Elem ''div'' [cls ''rr-user'']
                 (avatar_view (Some \<lparr>ac_id = su_email a, ac_name = su_name a, ac_initials = su_initials a, ac_hue = 210, ac_role = role_text (su_role a)\<rparr>) 28 True @
                  [Elem ''div'' [cls ''rr-user-meta'']
                   [Elem ''div'' [cls ''rr-user-name'']
                     [Text (su_name a)],
                    Elem ''div'' [cls ''rr-user-role'']
                     [Elem ''span'' [cls ''rr-role-pill'']
                       [Text (role_text (su_role a))],
                      Text ('' '' @ (su_email a) @ '' '')]]])]
          | None \<Rightarrow>
           [Elem ''a'' [cls ''rr-btn rr-btn-ghost rr-btn-sm'', Attr ''href'' ''/auth/login'']
                 [Text ''Sign in'']]))]"

definition shell_view :: "session \<Rightarrow> live_status \<Rightarrow> product list \<Rightarrow> 'l dialogs \<Rightarrow> create_event node list \<Rightarrow> lock_event node list \<Rightarrow> shell_event node list" where
  "shell_view u st ps d rollout_modal lock_modal =
     ([Elem ''div'' [cls ''rr-shell'']
       [Elem ''aside'' [cls ''rr-sidebar'']
         ([Elem ''div'' [cls ''rr-brand'']
           [Elem ''div'' [cls ''rr-brand-mark'']
             [Elem ''svg'' [Attr ''viewBox'' ''0 0 24 24'', Attr ''width'' ''20'', Attr ''height'' ''20'', Attr ''fill'' ''none'',
                 Attr ''stroke'' ''currentColor'', Attr ''stroke-width'' ''1.8'']
               [Elem ''circle'' [Attr ''cx'' ''12'', Attr ''cy'' ''12'', Attr ''r'' ''2''] [],
                Elem ''circle'' [Attr ''cx'' ''12'', Attr ''cy'' ''12'', Attr ''r'' ''6.5'', Attr ''opacity'' ''.55''] [],
                Elem ''circle'' [Attr ''cx'' ''12'', Attr ''cy'' ''12'', Attr ''r'' ''11'', Attr ''opacity'' ''.25''] [],
                Elem ''path'' [Attr ''d'' ''M12 1v3M12 20v3M1 12h3M20 12h3''] []]],
            Elem ''div'' []
             [Elem ''div'' [cls ''rr-brand-name'']
               [Text ''ReleaseRadar''],
              Elem ''div'' [cls ''rr-brand-sub'']
               [Text (''tms-platform '' @ u_middot @ '' prod'')]]],
          shell_buttons u,
          shell_links] @
          guarded (ps \<noteq> [])
           [Elem ''div'' [cls ''rr-side-section'']
             [Elem ''div'' [cls ''rr-side-section-title'']
               [Text ''Products''],
              Elem ''div'' [cls ''rr-chip-list'']
               (map (\<lambda>p.
                   Elem ''span'' [cls ''rr-chip'']
                     [Elem ''span'' [cls ''rr-chip-dot'', Sty ''background'' (productColor_ts (prod_id p))] [],
                      Text ('' '' @ (prod_name p) @ '' '')])
                 ps)]] @
          [Elem ''div'' [cls ''rr-side-section'']
           [Elem ''div'' [cls ''rr-side-section-title'']
             [Text ''Legend''],
            shell_legend],
          Elem ''div'' [cls ''rr-side-foot'']
           [Elem ''div'' [cls ''rr-foot-row'', Attr ''data-status'' (status_text st), Attr ''data-test'' ''footer-health'']
             [Elem ''span'' [cls ''rr-status-dot''] [],
              Text ('' '' @ (if st = Live then ''Live updates connected'' else liveLabel st) @ '' '')],
            Elem ''div'' [cls ''rr-foot-row rr-foot-muted'']
             [Text (''v0.1.0 '' @ u_middot @ '' dev'')]]]),
        Elem ''main'' [cls ''rr-main'']
         [shell_header u st,
          Elem ''router-outlet'' [] []]]] @
      guarded (dialog_open d = Some DRollout)
       (map (lift_node ShellChild) rollout_modal) @
      guarded (dialog_open d = Some DLock)
       (map (lift_node ShellLockChild) lock_modal))"

section \<open>The timeline\<close>

datatype timeline_event = TlStep int | TlReset | TlOpen string | TlData "rollout_doc list option" "lock_doc list option" "rollout_type list option" | TlFit int

fun timeline_step :: "timeline_event \<Rightarrow> timeline_page \<times> services \<Rightarrow> timeline_page \<times> services" where
  "timeline_step (TlStep d) (s, sv) = (stepWeek d s, sv)"
| "timeline_step TlReset (s, sv) = (resetToToday s, sv)"
| "timeline_step (TlOpen i) (s, sv) = (s, timeline_openRollout i sv)"
| "timeline_step (TlData rs ls ts) (s, sv) = (timeline_data rs ls ts s, sv)"
| "timeline_step (TlFit n) (s, sv) = (fit_days n s, sv)"

text \<open>A length in pixels; without a column it is computed from \<open>NaN\<close>.\<close>

definition px_text :: "int option \<Rightarrow> string" where
  "px_text x = (case x of Some n \<Rightarrow> show_int n @ ''px'' | None \<Rightarrow> ''NaNpx'')"

text \<open>\<open>cascadeStyle\<close> for columns that may be missing: the comparison of its width with zero is false then.\<close>

record connector =
  cn_left :: string
  cn_width :: string
  cn_top :: string
  cn_color :: string

definition connector_style :: "int option \<Rightarrow> int option \<Rightarrow> string \<Rightarrow> connector option" where
  "connector_style from till color = (case (from, till) of
     (Some a, Some b) \<Rightarrow> map_option (\<lambda>c. \<lparr>cn_left = px_text (Some (cs_left c)), cn_width = px_text (Some (cs_width c)),
       cn_top = px_text (Some (cs_top c)), cn_color = cs_color c\<rparr>) (cascadeStyle a b color)
   | _ \<Rightarrow> Some \<lparr>cn_left = px_text (map_option (\<lambda>a. a * DAY_W_ts + DAY_W_ts div 2 + 16) from), cn_width = px_text None,
       cn_top = px_text (Some (ROW_H_ts div 2 - 1)), cn_color = color\<rparr>)"

definition pill_css :: "stage_meta \<Rightarrow> string \<Rightarrow> string" where
  "pill_css meta k = (case map_of (pillStyle meta) k of Some v \<Rightarrow> v | None \<Rightarrow> [])"

definition stageTime :: "host \<Rightarrow> ((string \<times> string) list \<Rightarrow> int \<Rightarrow> string) \<Rightarrow> rollout_stage \<Rightarrow> string" where
  "stageTime h ltime st = (if pl_startAt st \<noteq> [] then fmtTime h ltime (pl_startAt st) else ''--:--'')"

definition timeline_toolbar :: "host \<Rightarrow> timeline_page \<Rightarrow> timeline_event node" where
  "timeline_toolbar h s =
     Elem ''div'' [cls ''rr-tl-toolbar'']
       [Elem ''div'' [cls ''rr-tl-toolbar-left'']
         [Elem ''div'' [cls ''rr-month-title'']
           [Elem ''span'' []
             [Text (formatMonthLabel h (timeline_start h s))],
            Elem ''span'' [cls ''rr-month-range'']
             [Text (formatRange h s)]],
          Elem ''div'' [cls ''rr-nav-arrows'']
           [Elem ''button'' [cls ''rr-icon-btn'', On ''onClick'' (TlStep (-7)), Attr ''title'' ''Previous week'']
             [icon_view None (map_of ICONS_ts ''chev'') 14 (16 / 10)],
            Elem ''button'' [cls ''rr-icon-btn'', On ''onClick'' TlReset, Attr ''title'' ''Reset to today'']
             [Text u_middot],
            Elem ''button'' [cls ''rr-icon-btn'', On ''onClick'' (TlStep 7), Attr ''title'' ''Next week'']
             [icon_view None (map_of ICONS_ts ''chev'') 14 (16 / 10)]]]]"

definition timeline_days :: "host \<Rightarrow> timeline_page \<Rightarrow> timeline_event node" where
  "timeline_days h s =
     Elem ''div'' [cls ''rr-days'']
       (map (\<lambda>c.
           Elem ''div'' [cls ''rr-day'', AttrB ''class.is-today'' (dc_isToday c), AttrB ''class.is-we'' (dc_isWeekend c),
               AttrB ''class.is-fri'' (dc_isFriday c), StyN ''width'' (of_int DAY_W_ts)]
             ([Elem ''div'' [cls ''rr-day-wd'']
               [Text (dc_weekday c)],
              Elem ''div'' [cls ''rr-day-num'']
               [Text (dc_day c)]] @
              (case dc_month c of None \<Rightarrow> [] | Some mon \<Rightarrow>
               [Elem ''div'' [cls ''rr-day-mon'']
                 [Text mon]]) @
              guarded (dc_isFriday c)
               [Elem ''div'' [cls ''rr-day-flag'']
                 [Text ''Fr-Lock'']] @
              guarded (dc_isToday c)
               [Elem ''div'' [cls ''rr-day-today'']
                 [Text ''Today'']]))
         (dayColumns h s))"

definition timeline_labels :: "timeline_page \<Rightarrow> timeline_event node list" where
  "timeline_labels s =
     (map (\<lambda>r.
         Elem ''div'' [cls ''rr-row-label-slot'', StyN ''height'' (of_int ROW_H_ts)]
           [Elem ''div'' [cls ''rr-row-label'']
             [Elem ''div'' [cls ''rr-row-label-top'']
               ([Elem ''span'' [cls ''rr-prod-dot'', Sty ''background'' (productColor_ts (rd_product r))] [],
                Elem ''span'' [cls ''rr-row-product'']
                 [Text (rd_product r)]] @
                (case typeMap s (rd_typeId r) of None \<Rightarrow> [] | Some t \<Rightarrow>
                 [badge_view (rt_tone t) False False
                   [Text (rt_short t)]])),
              Elem ''div'' [cls ''rr-row-title'', On ''onClick'' (TlOpen (rd_id r))]
               [Text ('' '' @ (rd_title r) @ '' '')],
              Elem ''div'' [cls ''rr-row-meta'']
               [Elem ''span'' [cls ''rr-row-actors-text'']
                 [Text ('' '' @ (join_with '' & '' (case rd_pair r of Some x \<Rightarrow> x | None \<Rightarrow> [])) @ '' '')]]]])
       (tp_rollouts s))"

definition timeline_locks :: "host \<Rightarrow> timeline_page \<Rightarrow> timeline_event node" where
  "timeline_locks h s =
     Elem ''div'' [cls ''rr-locks-layer'', StyN ''width'' (of_int (trackWidth s)), StyN ''height'' (of_int (totalHeight s))]
       (concat (map (\<lambda>c.
           (guarded (dc_isFriday c)
             [Elem ''div'' [cls ''rr-lock-col rr-lock-fri'', StyN ''left'' (of_int (dc_i c * DAY_W_ts)),
                 StyN ''width'' (of_int DAY_W_ts), StyN ''height'' (of_int (totalHeight s)),
                 Attr ''title'' (''Friday rule '' @ u_mdash @ '' no rollouts'')] []]))
         (dayColumns h s)) @
        map (\<lambda>l.
           Elem ''button'' [cls ''rr-lock-col'', AttrB ''class.rr-lock-manual'' (ld_kind l = Manual),
               AttrB ''class.rr-lock-holiday'' (ld_kind l = Holiday),
               Sty ''left'' (px_text (map_option ov_left (overlay_of h s l))),
               Sty ''width'' (px_text (map_option ov_width (overlay_of h s l))),
               StyN ''height'' (of_int (totalHeight s)), Attr ''title'' (ld_description l)]
             [Elem ''span'' [cls ''rr-lock-label'']
               [icon_view None (map_of ICONS_ts ''lock'') 11 (16 / 10),
                Text ('' '' @ (ld_title l) @ '' '')]])
         (tp_locks s))"

definition timeline_connector :: "rollout_doc \<times> placed_stage list \<Rightarrow> nat \<Rightarrow> placed_stage \<Rightarrow> timeline_event node list" where
  "timeline_connector row i p =
     (guarded (i > 0)
       (case connector_style (pg_idx (snd row ! (i - 1))) (pg_idx p) (st_color (pg_meta p)) of None \<Rightarrow> [] | Some cs \<Rightarrow>
         [Elem ''div'' [cls ''rr-cascade'', Sty ''left'' (cn_left cs), Sty ''width'' (cn_width cs), Sty ''top'' (cn_top cs)]
           [Elem ''span'' [cls ''rr-cascade-line'',
               Sty ''background'' ((((''linear-gradient(90deg, '' @ (cn_color cs)) @ '' 0%, '') @ (cn_color cs)) @ '' 100%)'')] [],
            Elem ''span'' [cls ''rr-cascade-arrow'', Sty ''borderLeftColor'' (cn_color cs)] []]]))"

definition timeline_pill :: "host \<Rightarrow> ((string \<times> string) list \<Rightarrow> int \<Rightarrow> string) \<Rightarrow> (rat \<Rightarrow> string) \<Rightarrow> rollout_doc \<times> placed_stage list \<Rightarrow> placed_stage \<Rightarrow> timeline_event node" where
  "timeline_pill h ltime num row p =
     Elem ''button'' [cls ''rr-pill'', AttrB ''class.is-blocked'' (pl_status (pg_stage p) = ''blocked''),
         Sty ''left'' (px_text (map_option pillLeft (pg_idx p))),
         StyN ''width'' (pillWidth (stageDurationHours (pg_stage p))), StyN ''top'' 10,
         StyN ''height'' (of_int (ROW_H_ts - 20)), Sty ''background'' (pill_css (pg_meta p) ''background''),
         Sty ''borderColor'' (pill_css (pg_meta p) ''borderColor''),
         Sty ''color'' (pill_css (pg_meta p) ''color''), On ''onClick'' (TlOpen (rd_id (fst row))),
         Attr ''title'' (st_label (pg_meta p) @ '' '' @ u_middot @ '' '' @ stageTime h ltime (pg_stage p))]
       [Elem ''span'' [cls ''rr-pill-tag'', Sty ''background'' (st_color (pg_meta p))]
         [Text (st_short (pg_meta p))],
        Elem ''span'' [cls ''rr-pill-body'']
         [Elem ''span'' [cls ''rr-pill-time'', Sty ''color'' (st_color (pg_meta p))]
           [Text (stageTime h ltime (pg_stage p))],
          Elem ''span'' [cls ''rr-pill-meta'']
           (if (pl_status (pg_stage p) = ''done'')
            then [Elem ''span'' [cls ''rr-pill-dot is-done''] [],
                  Text '' done '']
            else (if (pl_status (pg_stage p) = ''active'')
            then [Elem ''span'' [cls ''rr-pill-dot is-active''] [],
                  Text '' in flight '']
            else (if (pl_status (pg_stage p) = ''blocked'')
            then [Elem ''span'' [cls ''rr-pill-dot is-blocked''] [],
                  Text '' locked '']
            else [Text ('' +'' @ (num (stageDurationHours (pg_stage p))) @ ''h window '')])))]]"

definition timeline_rows :: "host \<Rightarrow> ((string \<times> string) list \<Rightarrow> int \<Rightarrow> string) \<Rightarrow> (rat \<Rightarrow> string) \<Rightarrow> timeline_page \<Rightarrow> timeline_event node list" where
  "timeline_rows h ltime num s =
     (map (\<lambda>(rowIdx, row).
         Elem ''div'' [cls ''rr-row'', StyN ''height'' (of_int ROW_H_ts), StyN ''top'' (of_int (int rowIdx * ROW_H_ts))]
           [Elem ''div'' [cls ''rr-row-track'']
             (concat (map (\<lambda>(i, p).
                 (timeline_connector row i p @
                  [timeline_pill h ltime num row p]))
               (enumerate 0 (snd row))))])
       (enumerate 0 (timelineRows h s)))"

definition timeline_page_view :: "host \<Rightarrow> ((string \<times> string) list \<Rightarrow> int \<Rightarrow> string) \<Rightarrow> (rat \<Rightarrow> string) \<Rightarrow> timeline_page \<Rightarrow> timeline_event node" where
  "timeline_page_view h ltime num s =
     Elem ''div'' [cls ''rr-timeline'']
       [timeline_toolbar h s,
        Elem ''div'' [cls ''rr-tl-scroll'']
         [Elem ''div'' [cls ''rr-tl-grid'', StyN ''width'' (of_int (LABEL_W_ts + trackWidth s))]
           [Elem ''div'' [cls ''rr-tl-corner'', StyN ''width'' (of_int LABEL_W_ts)]
             [Elem ''div'' [cls ''rr-tl-corner-title'']
               [Text ''Rollout''],
              Elem ''div'' [cls ''rr-tl-corner-sub'']
               [Text (''Product '' @ u_middot @ '' Type '' @ u_middot @ '' Pair'')]],
            timeline_days h s,
            Elem ''div'' [cls ''rr-tl-body'', StyN ''width'' (of_int (LABEL_W_ts + trackWidth s))]
             [Elem ''div'' [cls ''rr-tl-bodylabels'', StyN ''width'' (of_int LABEL_W_ts)]
               (timeline_labels s),
              Elem ''div'' [cls ''rr-tl-tracks'', StyN ''width'' (of_int (trackWidth s)), StyN ''height'' (of_int (totalHeight s))]
               ([Elem ''div'' [cls ''rr-tl-gridlines'', StyN ''width'' (of_int (trackWidth s)),
                   Sty ''backgroundImage'' (''repeating-linear-gradient(90deg, rgba(255,255,255,.04) 0, rgba(255,255,255,.04) 1px, transparent 1px, transparent '' @ show_int DAY_W_ts @ ''px)'')] [],
                timeline_locks h s] @
                guarded (0 \<le> todayIdx h s \<and> todayIdx h s < tp_days s)
                 [Elem ''div'' [cls ''rr-today-line'', StyN ''left'' (of_int (todayIdx h s * DAY_W_ts) + of_int DAY_W_ts / 2),
                     StyN ''height'' (of_int (totalHeight s))] []] @
                timeline_rows h ltime num s @
                guarded (tp_rollouts s = [])
                 [Elem ''div'' [Attr ''style'' ''padding: 24px; color: var(--muted);'']
                   [Text ('' No rollouts yet '' @ u_mdash @ '' admins can create one from the sidebar. '')]])]]]]"

section \<open>What the shell offers\<close>

lemma offered_shell_parts [simp]: "offered shell_links = {}" "offered shell_legend = {}" "offered (shell_header u st) = {}"
  by (auto simp: shell_links_def shell_legend_def shell_header_def split: option.splits)

lemma offered_shell_buttons: "offered (shell_buttons u) = (if canEdit u then {ShellRollout, ShellLock} else {})"
  by (auto simp: shell_buttons_def)

text \<open>
  The shell offers its two buttons to a user who may edit, and otherwise only what the open dialog offers: its handlers are never called
  for a reader, for whom they would do nothing either.
\<close>

lemma shell_view_offers: "offered_list (shell_view u st ps d rollout_modal lock_modal) =
    (if canEdit u then {ShellRollout, ShellLock} else {}) \<union>
    (if dialog_open d = Some DRollout then ShellChild ` offered_list rollout_modal else {}) \<union>
    (if dialog_open d = Some DLock then ShellLockChild ` offered_list lock_modal else {})"
proof -
  have lift: "g ` offered_list ns = (\<Union>n \<in> set ns. g ` offered n)" for g :: "'b \<Rightarrow> 'c" and ns :: "'b node list"
    by (auto simp: offered_list_def)
  show ?thesis by (simp add: shell_view_def offered_shell_buttons lift offered_lift Un_assoc Un_commute)
qed

section \<open>What the timeline offers\<close>

lemma offered_timeline_parts [simp]:
  "offered (timeline_days h s) = {}" "offered (timeline_locks h s) = {}" "offered_list (timeline_connector row i p) = {}"
  by (auto simp: timeline_days_def timeline_locks_def timeline_connector_def split: option.splits)

lemma offered_timeline_toolbar: "offered (timeline_toolbar h s) = {TlStep (-7), TlReset, TlStep 7}"
  by (auto simp: timeline_toolbar_def)

lemma offered_timeline_labels: "offered_list (timeline_labels s) = TlOpen ` rd_id ` set (tp_rollouts s)"
  by (auto simp: timeline_labels_def image_iff split: option.splits)

lemma offered_timeline_pill: "offered (timeline_pill h ltime num row p) = {TlOpen (rd_id (fst row))}"
  by (simp add: timeline_pill_def)

lemma offered_timeline_rows: "offered_list (timeline_rows h ltime num s) \<subseteq> TlOpen ` rd_id ` set (tp_rollouts s)"
proof -
  have "fst row \<in> set (tp_rollouts s)" if "(i, row) \<in> set (enumerate 0 (timelineRows h s))" for i row
    using that by (auto simp: in_set_enumerate_eq timelineRows_def)
  then show ?thesis by (fastforce simp: timeline_rows_def offered_timeline_pill)
qed

lemma offered_timeline_page: "offered (timeline_page_view h ltime num s) = {TlStep (-7), TlReset, TlStep 7} \<union> TlOpen ` rd_id ` set (tp_rollouts s)"
  using offered_timeline_rows [of h ltime num s]
  by (auto simp: timeline_page_view_def offered_timeline_toolbar offered_timeline_labels)

section \<open>The window\<close>

text \<open>The events that do not come from the page: the answers of the three reads, and the observer of its width.\<close>

definition timeline_env :: "timeline_event set" where
  "timeline_env = range (\<lambda>(rs, ls, ts). TlData rs ls ts) \<union> range TlFit"

definition window_ok :: "int \<Rightarrow> timeline_page \<times> services \<Rightarrow> bool" where
  "window_ok now p \<longleftrightarrow> (tp_offset (fst p) + 3) mod 7 = 0 \<and> 7 \<le> tp_days (fst p) \<and> tp_today (fst p) = now"

lemma window_ok_start: "window_ok now (new_timeline_page now, sv)"
  by (simp add: window_ok_def new_timeline_page_def)

lemma window_ok_step:
  assumes "window_ok now p" "ev \<in> {TlStep (-7), TlReset, TlStep 7} \<union> TlOpen ` ids \<union> timeline_env"
  shows "window_ok now (timeline_step ev p)"
proof -
  obtain s sv where p: "p = (s, sv)" by (cases p)
  have w: "(x + 3) mod 7 = 0 \<Longrightarrow> (x - 7 + 3) mod 7 = 0" "(x + 3) mod 7 = 0 \<Longrightarrow> (x + 7 + 3) mod 7 = 0" for x :: int by presburger+
  have d: "tp_offset (fit_days n s) = tp_offset s" "tp_today (fit_days n s) = tp_today s" for n by (simp_all add: fit_days_def Let_def)
  show ?thesis
  proof (cases ev)
    case (TlFit n)
    then show ?thesis using assms(1) fit_days_bounds [of n s] by (simp add: p window_ok_def d)
  qed (use assms w in \<open>auto simp: p window_ok_def stepWeek_def resetToToday_def timeline_data_def timeline_env_def\<close>)
qed

interpretation timeline: ui_component "\<lambda>p. Some (timeline_page_view h ltime num (fst p))" timeline_env timeline_step "(new_timeline_page now, sv)" "window_ok now"
  for h ltime num now sv
  by unfold_locales (simp_all add: window_ok_step offered_timeline_page window_ok_start)



lemma mute_timeline_parts: "mute (timeline_days h s)" "mute (timeline_locks h s)" "list_all mute (timeline_connector row i p)"
proof -
  show "mute (timeline_days h s)" by (auto simp: timeline_days_def click_rules list_all_iff guarded_def split: option.splits)
  show "mute (timeline_locks h s)" by (auto simp: timeline_locks_def click_rules list_all_iff guarded_def)
  show "list_all mute (timeline_connector row i p)" by (simp add: timeline_connector_def click_rules guarded_def split: option.split)
qed

lemma one_click_timeline_parts:
  "one_click (timeline_toolbar h s)" "list_all one_click (timeline_labels s)" "one_click (timeline_pill h ltime num row p)"
proof -
  show "one_click (timeline_toolbar h s)"
    by (auto simp: timeline_toolbar_def click_rules intro!: one_click_leaf simp: click_actions_def disabled_def)
  show "list_all one_click (timeline_labels s)"
    by (auto simp: timeline_labels_def list_all_iff click_rules mute_one_click intro!: one_click_leaf simp: click_actions_def disabled_def split: option.splits)
  show "one_click (timeline_pill h ltime num row p)"
    unfolding timeline_pill_def by (rule one_click_leaf) (simp_all add: click_actions_def disabled_def mute_plain)
qed

text \<open>
  The timeline offers to open exactly the rollouts it holds, and a click anywhere on the page runs one handler at most.
\<close>

theorem timeline_page_opens:
  "{i. TlOpen i \<in> offered (timeline_page_view h ltime num s)} = rd_id ` set (tp_rollouts s) \<and>
   (\<forall>acts \<in> set (clicked (timeline_page_view h ltime num s)). length acts \<le> 1)"
proof
  show "{i. TlOpen i \<in> offered (timeline_page_view h ltime num s)} = rd_id ` set (tp_rollouts s)" by (auto simp: offered_timeline_page)
  have "list_all one_click (timeline_connector row i p)" for row i p
    using mute_timeline_parts(3) by (auto simp: list_all_iff mute_one_click)
  then have "list_all one_click (timeline_rows h ltime num s)"
    using one_click_timeline_parts(3) by (auto simp: timeline_rows_def list_all_iff click_rules)
  then have "one_click (timeline_page_view h ltime num s)"
    using one_click_timeline_parts(1,2) mute_timeline_parts(1,2) by (simp add: timeline_page_view_def click_rules mute_one_click guarded_def)
  then show "\<forall>acts \<in> set (clicked (timeline_page_view h ltime num s)). length acts \<le> 1" by (simp add: one_click_def clicked_def)
qed

end
