(* ===== verification/RR_Frontend.thy ===== *)
theory RR_Frontend
  imports RR_DetailView RR_DataView RR_ShellView
begin

text \<open>
  The frontend as one state machine: the shell with its two dialogs (\<open>shared/layout/shell/shell.component.html\<close>), the routed page
  (\<open>app.routes.ts\<close>) and the services they share. An event is a click or an input that the markup on the screen offers, a link, a
  change of the address, the end of a navigation, a tick of the refresh bus, or something that arrives for a component; an answer also reaches a component that was
  removed while it waited. After every event the dialogs are mounted and removed as the dialog store says, and a page that reloads on a
  tick of the bus does so. The session may change between two events.
\<close>

section \<open>The routed page\<close>

datatype routed =
    PBlank | PTimeline timeline_page | PList list_page | PLocks locks_page | PData data_view | PContacts "product list" | PDocs | PDetail detail

datatype routed_event =
    AtTimeline timeline_event | AtList list_event | ListLoaded "rollout_doc list option" "product list option" | AtLocks locks_event
  | AtData data_event | ContactsLoaded "product list" | AtDetail detail_event

fun page_name :: "routed \<Rightarrow> string" where
  "page_name PBlank = []"
| "page_name (PTimeline s) = ''TimelineViewComponent''"
| "page_name (PList s) = ''ListViewComponent''"
| "page_name (PLocks s) = ''LocksViewComponent''"
| "page_name (PData w) = ''MasterDataViewComponent''"
| "page_name (PContacts ps) = ''ContactsViewComponent''"
| "page_name PDocs = ''DocsViewComponent''"
| "page_name (PDetail w) = ''RolloutDetailComponent''"

text \<open>The parameter of the route \<open>rollout/:id\<close>.\<close>

definition route_id :: "string list \<Rightarrow> string option" where
  "route_id ss = (case ss of [a, i] \<Rightarrow> Some i | _ \<Rightarrow> None)"

definition new_page :: "int \<Rightarrow> services \<Rightarrow> string \<Rightarrow> string option \<Rightarrow> routed" where
  "new_page now sv n i =
     (if n = ''TimelineViewComponent'' then PTimeline (new_timeline_page now)
      else if n = ''ListViewComponent'' then PList new_list_page
      else if n = ''LocksViewComponent'' then PLocks (new_locks_page sv)
      else if n = ''MasterDataViewComponent'' then PData (new_data_view sv)
      else if n = ''ContactsViewComponent'' then PContacts []
      else if n = ''DocsViewComponent'' then PDocs
      else if n = ''RolloutDetailComponent'' then PDetail (navigate i (new_detail sv))
      else PBlank)"

text \<open>
  The end of a navigation: an address without a route leaves everything as it is; a route with the component that is shown keeps it,
  and the page of a rollout then receives the new id unless it is the one it has.
\<close>

definition route_page :: "int \<Rightarrow> services \<Rightarrow> string list \<Rightarrow> routed \<Rightarrow> routed" where
  "route_page now sv ss p = (case route_component ss of
     None \<Rightarrow> p
   | Some n \<Rightarrow>
       if page_name p = n
       then (case p of PDetail w \<Rightarrow> if dw_route w = route_id ss then p else PDetail (navigate (route_id ss) w) | _ \<Rightarrow> p)
       else new_page now sv n (route_id ss))"

text \<open>A component acts on the services of the application: they are put into its record before an event and read from it afterwards.\<close>

fun routed_step :: "bool \<Rightarrow> routed_event \<Rightarrow> routed \<times> services \<Rightarrow> routed \<times> services" where
  "routed_step can (AtTimeline e) (PTimeline s, sv) = (let r = timeline_step e (s, sv) in (PTimeline (fst r), snd r))"
| "routed_step can (AtList e) (PList s, sv) = (let r = list_step e (s, sv) in (PList (fst r), snd r))"
| "routed_step can (ListLoaded rs ps) (PList s, sv) = (PList (list_data rs ps s), sv)"
| "routed_step can (AtLocks e) (PLocks s, sv) = (let s1 = locks_step e (s\<lparr>kp_services := sv\<rparr>) in (PLocks s1, kp_services s1))"
| "routed_step can (AtData e) (PData w, sv) = (let w1 = data_step e (w\<lparr>dv_services := sv\<rparr>) in (PData w1, dv_services w1))"
| "routed_step can (ContactsLoaded ps) (PContacts qs, sv) = (PContacts ps, sv)"
| "routed_step can (AtDetail e) (PDetail w, sv) = (let w1 = detail_step can e (w\<lparr>dw_services := sv\<rparr>) in (PDetail w1, dw_services w1))"
| "routed_step can e p = p"

text \<open>The other pages reload on a tick too; what they get then arrives as an event of their own.\<close>

fun page_tick :: "routed \<Rightarrow> routed" where
  "page_tick (PDetail w) = PDetail (restart w)"
| "page_tick p = p"

fun page_waits :: "routed \<Rightarrow> bool" where
  "page_waits (PLocks s) \<longleftrightarrow> kp_waiting s \<noteq> 0"
| "page_waits (PData w) \<longleftrightarrow> dv_waiting w \<noteq> []"
| "page_waits (PDetail w) \<longleftrightarrow> dw_waiting w \<noteq> []"
| "page_waits p \<longleftrightarrow> False"

section \<open>The dialogs\<close>

datatype mounted = NoModal | RolloutModal create_page | LockModal lock_page

definition with_services :: "services \<Rightarrow> ('f, 'b) modal \<Rightarrow> ('f, 'b) modal" where
  "with_services sv w = w\<lparr>mo_services := sv\<rparr>"

text \<open>The blocks of the shell that show the dialogs: a dialog stays while its kind is open, with the inputs it was created with.\<close>

definition mount_modal :: "host \<Rightarrow> int \<Rightarrow> services \<Rightarrow> mounted \<Rightarrow> mounted" where
  "mount_modal h now sv m = (case dialog_open (sv_dialog sv) of
     None \<Rightarrow> NoModal
   | Some DRollout \<Rightarrow> (case m of RolloutModal c \<Rightarrow> m | _ \<Rightarrow> RolloutModal (create_start h (\<lambda>_. now) now sv))
   | Some DLock \<Rightarrow> (case m of LockModal l \<Rightarrow> m | _ \<Rightarrow> LockModal (lock_start h now (lockEdit (sv_dialog sv)) sv)))"

section \<open>The application\<close>

text \<open>What was removed while a request was on the way, and still gets its answer.\<close>

datatype left = LeftPage routed | LeftRollout "(rollout_form, rollout_body) modal" | LeftLock "(lock_form, lock_body) modal"

datatype left_answer = PageAnswer routed_event | RolloutAnswered "api_error + string" | LockAnswered "api_error + unit"

fun left_step :: "left_answer \<Rightarrow> left \<times> services \<Rightarrow> left \<times> services" where
  "left_step (PageAnswer e) (LeftPage p, sv) = (let r = routed_step False e (p, sv) in (LeftPage (fst r), snd r))"
| "left_step (RolloutAnswered a) (LeftRollout w, sv) =
     (let w1 = on_answer rollout_failed rollout_created a (with_services sv w) in (LeftRollout w1, mo_services w1))"
| "left_step (LockAnswered a) (LeftLock w, sv) =
     (let w1 = on_answer lock_failed (\<lambda>_. lock_saved) a (with_services sv w) in (LeftLock w1, mo_services w1))"
| "left_step a x = x"

definition removed_page :: "routed \<Rightarrow> routed \<Rightarrow> left list" where
  "removed_page old new = (if page_name old \<noteq> page_name new \<and> page_waits old then [LeftPage old] else [])"

definition removed_modal :: "mounted \<Rightarrow> mounted \<Rightarrow> left list" where
  "removed_modal old new = (case (old, new) of
     (RolloutModal c, RolloutModal d) \<Rightarrow> []
   | (LockModal l, LockModal k) \<Rightarrow> []
   | (RolloutModal c, _) \<Rightarrow> if mo_waiting (dp_modal c) = [] then [] else [LeftRollout ((dp_modal c)\<lparr>mo_mounted := False\<rparr>)]
   | (LockModal l, _) \<Rightarrow> if mo_waiting (kd_modal l) = [] then [] else [LeftLock ((kd_modal l)\<lparr>mo_mounted := False\<rparr>)]
   | _ \<Rightarrow> [])"

record frontend =
  fe_services :: services
  fe_page :: routed
  fe_modal :: mounted
  fe_left :: "left list"

datatype fe_event =
    ShellEv shell_event | PageEv routed_event | RolloutEnv create_event | LockEnv lock_page_event
  | LinkEv string | UrlEv "string list" | Arrive | BusEv | LeftEv nat left_answer

definition fe_rollout :: "host \<Rightarrow> int \<Rightarrow> create_event \<Rightarrow> frontend \<Rightarrow> frontend" where
  "fe_rollout h now e s = (case fe_modal s of
     RolloutModal c \<Rightarrow>
       let c1 = create_act h (\<lambda>_. now) e (c\<lparr>dp_modal := with_services (fe_services s) (dp_modal c)\<rparr>)
       in s\<lparr>fe_modal := RolloutModal c1, fe_services := mo_services (dp_modal c1)\<rparr>
   | _ \<Rightarrow> s)"

definition fe_lock :: "host \<Rightarrow> lock_page_event \<Rightarrow> frontend \<Rightarrow> frontend" where
  "fe_lock h e s = (case fe_modal s of
     LockModal l \<Rightarrow>
       let l1 = lock_act h e (l\<lparr>kd_modal := with_services (fe_services s) (kd_modal l)\<rparr>)
       in s\<lparr>fe_modal := LockModal l1, fe_services := mo_services (kd_modal l1)\<rparr>
   | _ \<Rightarrow> s)"

definition fe_arrive :: "int \<Rightarrow> frontend \<Rightarrow> frontend" where
  "fe_arrive now s =
     (let p = route_page now (fe_services s) (url_segments (sv_route (fe_services s))) (fe_page s)
      in s\<lparr>fe_page := p, fe_left := fe_left s @ removed_page (fe_page s) p\<rparr>)"

fun fe_act :: "host \<Rightarrow> session \<Rightarrow> int \<Rightarrow> fe_event \<Rightarrow> frontend \<Rightarrow> frontend" where
  "fe_act h u now (ShellEv (ShellChild e)) s = fe_rollout h now e s"
| "fe_act h u now (ShellEv (ShellLockChild e)) s = fe_lock h (LockEvent e) s"
| "fe_act h u now (ShellEv e) s = s\<lparr>fe_services := shell_step u e (fe_services s)\<rparr>"
| "fe_act h u now (PageEv e) s =
     (let r = routed_step (canEdit u) e (fe_page s, fe_services s) in s\<lparr>fe_page := fst r, fe_services := snd r\<rparr>)"
| "fe_act h u now (RolloutEnv e) s = fe_rollout h now e s"
| "fe_act h u now (LockEnv e) s = fe_lock h e s"
| "fe_act h u now (LinkEv l) s = s\<lparr>fe_services := (fe_services s)\<lparr>sv_route := [l]\<rparr>\<rparr>"
| "fe_act h u now (UrlEv ss) s = s\<lparr>fe_services := (fe_services s)\<lparr>sv_route := ''/'' # ss\<rparr>\<rparr>"
| "fe_act h u now Arrive s = fe_arrive now s"
| "fe_act h u now BusEv s = s\<lparr>fe_services := (fe_services s)\<lparr>sv_bus := bump (sv_bus (fe_services s))\<rparr>\<rparr>"
| "fe_act h u now (LeftEv i a) s =
     (if i < length (fe_left s)
      then let r = left_step a (fe_left s ! i, fe_services s) in s\<lparr>fe_left := (fe_left s)[i := fst r], fe_services := snd r\<rparr>
      else s)"

text \<open>What follows an event: the page reloads after a tick, and the dialogs are mounted as the store says.\<close>

definition fe_settle :: "host \<Rightarrow> int \<Rightarrow> services \<Rightarrow> frontend \<Rightarrow> frontend" where
  "fe_settle h now before s =
     (let m = mount_modal h now (fe_services s) (fe_modal s) in
      s\<lparr>fe_page := (if bus_n (sv_bus (fe_services s)) \<noteq> bus_n (sv_bus before) then page_tick (fe_page s) else fe_page s),
        fe_modal := m, fe_left := fe_left s @ removed_modal (fe_modal s) m\<rparr>)"

definition fe_step :: "host \<Rightarrow> session \<Rightarrow> int \<Rightarrow> fe_event \<Rightarrow> frontend \<Rightarrow> frontend" where
  "fe_step h u now ev s = fe_settle h now (fe_services s) (fe_act h u now ev s)"

definition fe_start :: "string list \<Rightarrow> frontend" where
  "fe_start ss = \<lparr>fe_services = \<lparr>sv_bus = new_bus, sv_dialog = new_dialogs, sv_route = ''/'' # ss\<rparr>, fe_page = PBlank, fe_modal = NoModal, fe_left = []\<rparr>"

section \<open>What can happen\<close>

text \<open>
  \<open>ltime\<close> and \<open>num\<close> are the texts of local times and of numbers that need not be whole. When a template of the list throws, the markup shown is
  an earlier one; all that is used of it is that only a user who may edit has the button for a new rollout.
\<close>

fun page_offers :: "host \<Rightarrow> ((string \<times> string) list \<Rightarrow> int \<Rightarrow> string) \<Rightarrow> (rat \<Rightarrow> string) \<Rightarrow> int \<Rightarrow> bool \<Rightarrow> routed_event \<Rightarrow> routed \<Rightarrow> bool" where
  "page_offers h ltime num now can (AtTimeline e) (PTimeline s) \<longleftrightarrow> e \<in> offered (timeline_page_view h ltime num s) \<union> timeline_env"
| "page_offers h ltime num now can (AtList e) (PList s) \<longleftrightarrow> (case list_view h ltime now can s of Some n \<Rightarrow> e \<in> offered n | None \<Rightarrow> e = NewRollout \<longrightarrow> can)"
| "page_offers h ltime num now can (ListLoaded rs ps) (PList s) \<longleftrightarrow> True"
| "page_offers h ltime num now can (AtLocks e) (PLocks s) \<longleftrightarrow> e \<in> offered (locks_view h ltime can s) \<union> range LocksLoaded \<union> range RemoveAnswer"
| "page_offers h ltime num now can (AtData e) (PData w) \<longleftrightarrow>
     (if data_page_event e then e \<in> offered_list (data_page_view can (dv_page w)) else data_offers can e w)"
| "page_offers h ltime num now can (ContactsLoaded ps) (PContacts qs) \<longleftrightarrow> True"
| "page_offers h ltime num now can (AtDetail e) (PDetail w) \<longleftrightarrow>
     (if page_event e then e \<in> offered_list (detail_view h ltime can can (dw_state w)) else e \<notin> insert Tick (range Navigate) \<and> detail_offers can e w)"
| "page_offers h ltime num now can e p \<longleftrightarrow> False"

fun rollout_markup :: "host \<Rightarrow> ((string \<times> string) list \<Rightarrow> int \<Rightarrow> string) \<Rightarrow> mounted \<Rightarrow> create_event node list" where
  "rollout_markup h ltime (RolloutModal c) = (case create_dom h ltime c of Some n \<Rightarrow> [n] | None \<Rightarrow> [])"
| "rollout_markup h ltime m = []"

fun lock_markup :: "mounted \<Rightarrow> lock_event node list" where
  "lock_markup (LockModal l) = guarded (mo_mounted (kd_modal l)) [lock_view (kd_products l) (mo_form (kd_modal l))]"
| "lock_markup m = []"

definition fe_view :: "host \<Rightarrow> ((string \<times> string) list \<Rightarrow> int \<Rightarrow> string) \<Rightarrow> session \<Rightarrow> live_status \<Rightarrow> product list \<Rightarrow> frontend \<Rightarrow> shell_event node list" where
  "fe_view h ltime u st ps s = shell_view u st ps (sv_dialog (fe_services s)) (rollout_markup h ltime (fe_modal s)) (lock_markup (fe_modal s))"

definition answers :: "left_answer \<Rightarrow> bool" where
  "answers a \<longleftrightarrow> (case a of PageAnswer e \<Rightarrow> e \<in> AtLocks ` range RemoveAnswer \<union> AtData ` range DataAnswer \<union> AtDetail ` range Answered | _ \<Rightarrow> True)"

definition fe_offers :: "host \<Rightarrow> ((string \<times> string) list \<Rightarrow> int \<Rightarrow> string) \<Rightarrow> (rat \<Rightarrow> string) \<Rightarrow> session \<Rightarrow> live_status \<Rightarrow> product list \<Rightarrow> int \<Rightarrow> fe_event \<Rightarrow> frontend \<Rightarrow> bool" where
  "fe_offers h ltime num u st ps now ev s \<longleftrightarrow> (case ev of
     ShellEv e \<Rightarrow> e \<in> offered_list (fe_view h ltime u st ps s)
   | PageEv e \<Rightarrow> page_offers h ltime num now (canEdit u) e (fe_page s)
   | RolloutEnv e \<Rightarrow> e \<in> range ProductsLoaded \<union> range TypesLoaded \<union> range RolloutAnswer
   | LockEnv e \<Rightarrow> e \<in> range AllProducts \<union> LockEvent ` range LockAnswer
   | LinkEv l \<Rightarrow> l \<in> nl_link ` set shell_nav
   | LeftEv i a \<Rightarrow> answers a
   | _ \<Rightarrow> True)"

text \<open>\<open>ever\<close> says whether there may be moments at which the user may edit.\<close>

inductive fe_reach :: "host \<Rightarrow> ((string \<times> string) list \<Rightarrow> int \<Rightarrow> string) \<Rightarrow> (rat \<Rightarrow> string) \<Rightarrow> bool \<Rightarrow> frontend \<Rightarrow> bool"
  for h :: host and ltime :: "(string \<times> string) list \<Rightarrow> int \<Rightarrow> string" and num :: "rat \<Rightarrow> string" and ever :: bool where
  start: "fe_reach h ltime num ever (fe_start ss)"
| step: "fe_reach h ltime num ever s \<Longrightarrow> canEdit u \<longrightarrow> ever \<Longrightarrow> fe_offers h ltime num u st ps now ev s \<Longrightarrow> fe_reach h ltime num ever (fe_step h u now ev s)"

section \<open>Invariants\<close>

fun page_ok :: "bool \<Rightarrow> routed \<Rightarrow> bool" where
  "page_ok ever (PLocks s) \<longleftrightarrow> kp_waiting s \<le> length (kp_deleted s) \<and> (ever \<or> kp_deleted s = [])"
| "page_ok ever (PData w) \<longleftrightarrow> length (dv_waiting w) \<le> length (dv_sent w) \<and> data_inv ever w"
| "page_ok ever (PDetail w) \<longleftrightarrow> length (dw_waiting w) \<le> length (dw_sent w) \<and> detail_inv ever w"
| "page_ok ever p \<longleftrightarrow> True"

definition modal_fits :: "frontend \<Rightarrow> bool" where
  "modal_fits s \<longleftrightarrow> (case dialog_open (sv_dialog (fe_services s)) of
     None \<Rightarrow> fe_modal s = NoModal
   | Some DRollout \<Rightarrow> (\<exists>c. fe_modal s = RolloutModal c)
   | Some DLock \<Rightarrow> (\<exists>l. fe_modal s = LockModal l))"

lemma modal_fits_step: "modal_fits (fe_step h u now ev s)"
  by (auto simp: modal_fits_def fe_step_def fe_settle_def mount_modal_def Let_def split: option.split dialog_kind.split mounted.split)

lemma services_irrelevant [simp]:
  "detail_inv ever (w\<lparr>dw_services := sv\<rparr>) = detail_inv ever w" "data_inv ever (v\<lparr>dv_services := sv\<rparr>) = data_inv ever v"
  by (simp_all add: detail_inv_def data_inv_def Let_def)

lemma offers_services [simp]:
  "detail_offers can e (w\<lparr>dw_services := sv\<rparr>) = detail_offers can e w" "data_offers can d (v\<lparr>dv_services := sv\<rparr>) = data_offers can d v"
  by (cases e; simp split: fetch.split) (cases d; simp add: data_offers_def Let_def split: sum.split)

lemma page_offers_detail: "page_offers h ltime num now can (AtDetail e) (PDetail w) \<Longrightarrow> detail_offers can e w"
  by (auto simp: detail_view_offers split: if_splits)

lemma page_offers_data: "page_offers h ltime num now can (AtData e) (PData w) \<Longrightarrow> data_offers can e w"
  by (auto simp: data_view_offers split: if_splits)

lemma data_waits_sent: "length (dv_waiting w) \<le> length (dv_sent w) \<Longrightarrow> length (dv_waiting (data_step e w)) \<le> length (dv_sent (data_step e w))"
  by (cases e) (auto simp: data_step_def saveProduct_def saveType_def send_data_def data_answer_def Let_def split: option.split list.split sum.split)

lemma detail_waits_sent: "length (dw_waiting w) \<le> length (dw_sent w) \<Longrightarrow> length (dw_waiting (detail_step can e w)) \<le> length (dw_sent (detail_step can e w))"
proof (cases e)
  case (Answered ok)
  then show "length (dw_waiting w) \<le> length (dw_sent w) \<Longrightarrow> ?thesis"
    by (cases "dw_waiting w"; cases "hd (dw_waiting w)"; cases ok) (simp_all add: detail_answers)
qed (simp_all add: detail_ops Let_def split: option.split fetch.split)

lemma page_ok_routed:
  assumes "page_ok ever p" "can \<longrightarrow> ever" "page_offers h ltime num now can e p"
  shows "page_ok ever (fst (routed_step can e (p, sv)))"
proof (cases p)
  case (PLocks s)
  show ?thesis
  proof (cases e)
    case (AtLocks d)
    then show ?thesis using assms PLocks
      by (cases can) (auto simp: offered_locks_view locks_data_def remove_answer_def newLock_def editLock_def confirmRemove_def Let_def split: option.splits nat.splits if_splits)
  qed (use assms PLocks in simp_all)
next
  case (PData w)
  show ?thesis
  proof (cases e)
    case (AtData d)
    then show ?thesis using assms PData data_inv_step [of ever "w\<lparr>dv_services := sv\<rparr>" can d] data_waits_sent [of "w\<lparr>dv_services := sv\<rparr>" d] page_offers_data [of h ltime num now can d w] by (simp add: Let_def)
  qed (use assms PData in simp_all)
next
  case (PDetail w)
  show ?thesis
  proof (cases e)
    case (AtDetail d)
    then show ?thesis using assms PDetail detail_inv_step [of ever "w\<lparr>dw_services := sv\<rparr>" can d]
        detail_waits_sent [of "w\<lparr>dw_services := sv\<rparr>" can d] page_offers_detail [of h ltime num now can d w] by (simp add: Let_def)
  qed (use assms PDetail in simp_all)
qed (use assms in \<open>cases e; simp add: Let_def\<close>)+

text \<open>The dialog store under the events of a page: only a user who may edit opens a dialog.\<close>

lemma list_view_creates: "list_view h ltime now can s = Some n \<Longrightarrow> NewRollout \<in> offered n \<Longrightarrow> can"
  by (auto simp: list_view_def offered_list_toolbar offered_list_filters offered_list_body Let_def split: option.splits if_splits)

lemma detail_keeps_dialog [simp]: "sv_dialog (dw_services (detail_step can e w)) = sv_dialog (dw_services w)"
proof (cases e)
  case (Answered ok)
  then show ?thesis by (cases "dw_waiting w"; cases "hd (dw_waiting w)"; cases ok) (simp_all add: detail_answers)
qed (simp_all add: detail_ops Let_def split: option.split fetch.split)

lemma data_keeps_dialog [simp]: "sv_dialog (dv_services (data_step e w)) = sv_dialog (dv_services w)"
  by (cases e) (simp_all add: data_step_def saveProduct_def saveType_def send_data_def data_answer_def Let_def split: option.split list.split sum.split)

lemma page_keeps_dialog:
  assumes "\<not> can" "page_offers h ltime num now can e p"
  shows "sv_dialog (snd (routed_step can e (p, sv))) = sv_dialog sv"
proof (cases p)
  case (PTimeline s)
  show ?thesis
  proof (cases e)
    case (AtTimeline d)
    then show ?thesis using PTimeline by (cases d) (simp_all add: timeline_openRollout_def Let_def)
  qed (simp_all add: PTimeline)
next
  case (PList s)
  show ?thesis
  proof (cases e)
    case (AtList d)
    then have "d \<noteq> NewRollout" using assms PList list_view_creates [of h ltime now can s] by (auto split: option.splits)
    then show ?thesis using AtList PList by (cases d) (simp_all add: list_open_def Let_def)
  qed (simp_all add: PList)
next
  case (PLocks s)
  show ?thesis
  proof (cases e)
    case (AtLocks d)
    then show ?thesis using assms PLocks by (auto simp: offered_locks_view locks_data_def remove_answer_def Let_def split: nat.split)
  qed (simp_all add: PLocks)
qed (cases e; simp add: Let_def)+

lemma page_ok_tick: "page_ok ever p \<Longrightarrow> page_ok ever (page_tick p)"
  by (cases p) (auto simp: detail_inv_def restart_def Let_def split: option.split)

lemma page_ok_new: "page_ok ever (new_page now sv n i)"
  using detail_inv_start [of ever sv] by (auto simp: new_page_def new_data_view_def new_detail_def new_locks_page_def data_inv_start [unfolded new_data_view_def] detail_inv_def navigate_def restart_def Let_def split: option.split)

lemma page_ok_route: "page_ok ever p \<Longrightarrow> page_ok ever (route_page now sv ss p)"
  by (cases p) (auto simp: route_page_def page_ok_new detail_inv_def navigate_def restart_def Let_def split: option.split)

lemma quiet_page: "page_ok False p \<Longrightarrow> \<not> page_waits p"
  by (cases p) (auto simp: detail_inv_def data_inv_def Let_def)

definition fe_inv :: "bool \<Rightarrow> frontend \<Rightarrow> bool" where
  "fe_inv ever s \<longleftrightarrow> page_ok ever (fe_page s) \<and> (ever \<or> dialog_open (sv_dialog (fe_services s)) = None \<and> fe_modal s = NoModal \<and> fe_left s = [])"

lemma fe_inv_settle:
  assumes "page_ok ever (fe_page s)"
    and "ever \<or> dialog_open (sv_dialog (fe_services s)) = None \<and> fe_modal s = NoModal \<and> fe_left s = []"
  shows "fe_inv ever (fe_settle h now before s)"
  using assms page_ok_tick [OF assms(1)] by (auto simp: fe_inv_def fe_settle_def mount_modal_def removed_modal_def Let_def)

lemma reader_sees_no_button:
  assumes "fe_inv False s" "\<not> canEdit u"
  shows "offered_list (fe_view h ltime u st ps s) = {}"
  using assms by (simp add: fe_inv_def fe_view_def shell_view_offers)

lemma fe_act_page: "fe_page (fe_rollout h now e s) = fe_page s" "fe_page (fe_lock h d s) = fe_page s" "fe_left (fe_rollout h now e s) = fe_left s" "fe_left (fe_lock h d s) = fe_left s"
  by (simp_all add: fe_rollout_def fe_lock_def Let_def split: mounted.split)

lemma fe_no_modal: "fe_modal s = NoModal \<Longrightarrow> fe_rollout h now e s = s" "fe_modal s = NoModal \<Longrightarrow> fe_lock h d s = s"
  by (simp_all add: fe_rollout_def fe_lock_def)

lemma fe_inv_step:
  assumes inv: "fe_inv ever s" and can: "canEdit u \<longrightarrow> ever" and off: "fe_offers h ltime num u st ps now ev s"
  shows "fe_inv ever (fe_step h u now ev s)"
  unfolding fe_step_def
proof (rule fe_inv_settle)
  note quiet = inv [unfolded fe_inv_def]
  have routed: "page_ok ever (fst (routed_step (canEdit u) e (fe_page s, sv)))" if "ev = PageEv e" for e sv
    using page_ok_routed [of ever "fe_page s" "canEdit u"] quiet can off that by (auto simp: fe_offers_def)
  show "page_ok ever (fe_page (fe_act h u now ev s))"
  proof (cases ev)
    case (ShellEv e)
    then show ?thesis using quiet by (cases e) (simp_all add: fe_act_page)
  qed (use quiet routed in \<open>simp_all add: fe_act_page fe_arrive_def page_ok_route Let_def\<close>)
  show "ever \<or> dialog_open (sv_dialog (fe_services (fe_act h u now ev s))) = None \<and> fe_modal (fe_act h u now ev s) = NoModal \<and> fe_left (fe_act h u now ev s) = []"
  proof (cases ever)
    case False
    with quiet can have reader: "\<not> canEdit u" "page_ok False (fe_page s)"
      and none: "dialog_open (sv_dialog (fe_services s)) = None" "fe_modal s = NoModal" "fe_left s = []" by auto
    show ?thesis
    proof (cases ev)
      case (ShellEv e)
      then show ?thesis using reader_sees_no_button [of s u] inv False reader(1) off by (simp add: fe_offers_def)
    next
      case (PageEv e)
      then show ?thesis using page_keeps_dialog [of "canEdit u" h ltime num now e "fe_page s" "fe_services s"] reader(1) none off
        by (simp add: fe_offers_def Let_def)
    next
      case Arrive
      then show ?thesis using none quiet_page [OF reader(2)] by (simp add: fe_arrive_def removed_page_def Let_def)
    qed (use none in \<open>simp_all add: fe_no_modal\<close>)
  qed simp
qed

lemma fe_reach_inv: "fe_reach h ltime num ever s \<Longrightarrow> fe_inv ever s"
proof (induction rule: fe_reach.induct)
  case (start ss)
  show ?case by (simp add: fe_inv_def fe_start_def new_dialogs_def)
qed (rule fe_inv_step)

text \<open>How many changes a page has sent.\<close>

fun page_writes :: "routed \<Rightarrow> nat" where
  "page_writes (PLocks s) = length (kp_deleted s)"
| "page_writes (PData w) = length (dv_sent w)"
| "page_writes (PDetail w) = length (dw_sent w)"
| "page_writes p = 0"

lemma reader_page: "page_ok False p \<Longrightarrow> page_writes p = 0"
  by (cases p) (auto simp: detail_inv_def data_inv_def Let_def)

section \<open>From the dialog to the page\<close>

text \<open>An input or a click in the rollout dialog that leaves the services alone changes nothing but the dialog.\<close>

lemma fe_dialog_step:
  assumes "fe_modal s = RolloutModal c" "dialog_open (sv_dialog (fe_services s)) = Some DRollout"
    and "mo_services (create_step h e (with_services (fe_services s) (dp_modal c))) = fe_services s"
  shows "\<exists>c1. fe_step h u now (ShellEv (ShellChild e)) s = s\<lparr>fe_modal := RolloutModal c1\<rparr> \<and>
    dp_modal c1 = create_step h e (with_services (fe_services s) (dp_modal c))"
  using assms by (intro exI [of _ "create_act h (\<lambda>_. now) e (c\<lparr>dp_modal := with_services (fe_services s) (dp_modal c)\<rparr>)"]) (simp add: fe_step_def fe_settle_def fe_rollout_def mount_modal_def removed_modal_def Let_def)

lemma with_services_simps [simp]: "mo_form (with_services sv w) = mo_form w" "mo_mounted (with_services sv w) = mo_mounted w"
  "mo_waiting (with_services sv w) = mo_waiting w" "mo_sent (with_services sv w) = mo_sent w" "mo_services (with_services sv w) = sv"
  by (simp_all add: with_services_def)

lemma fe_submits:
  assumes "fe_modal s = RolloutModal c" "dialog_open (sv_dialog (fe_services s)) = Some DRollout"
    and "mo_mounted (dp_modal c)" "mo_waiting (dp_modal c) = []" "canSubmit (mo_form (dp_modal c))" "preview h (mo_form (dp_modal c)) = Some ss"
  shows "\<exists>c1 b. fe_step h u now (ShellEv (ShellChild RolloutSubmit)) s = s\<lparr>fe_modal := RolloutModal c1\<rparr> \<and>
    mo_mounted (dp_modal c1) \<and> mo_waiting (dp_modal c1) = [api_createRollout b] \<and> rb_stages b = ss"
proof -
  let ?f = "mo_form (dp_modal c)"
  have "preview h (?f\<lparr>cf_submitting := True, cf_error := None\<rparr>) = Some ss" using assms(6) by (simp add: preview_def selectedType_def baseISO_def)
  then obtain f1 b where "submit_rollout h ?f = (f1, Sent (api_createRollout b))" "rb_stages b = ss"
    using assms(5) by (simp add: submit_rollout_def Let_def)
  moreover from this obtain c1 where "fe_step h u now (ShellEv (ShellChild RolloutSubmit)) s = s\<lparr>fe_modal := RolloutModal c1\<rparr>"
    "mo_mounted (dp_modal c1)" "mo_waiting (dp_modal c1) = [api_createRollout b]"
    using fe_dialog_step [OF assms(1,2), of h RolloutSubmit u now] assms(3,4) by (auto simp: on_submit_def)
  ultimately show ?thesis by blast
qed

lemma fe_edits:
  assumes "fe_modal s = RolloutModal c" "dialog_open (sv_dialog (fe_services s)) = Some DRollout" "mo_mounted (dp_modal c)"
  shows "\<exists>d. fold (\<lambda>e. fe_step h u now (ShellEv (ShellChild (RolloutEdit e)))) es s = s\<lparr>fe_modal := RolloutModal d\<rparr> \<and>
    mo_mounted (dp_modal d) \<and> mo_waiting (dp_modal d) = mo_waiting (dp_modal c)"
  using assms
proof (induction es arbitrary: s c)
  case Nil
  have "s = s\<lparr>fe_modal := RolloutModal c\<rparr>" using Nil.prems(1) by simp
  then show ?case using Nil.prems(3) by auto
next
  case (Cons e es)
  then obtain c1 where c1: "fe_step h u now (ShellEv (ShellChild (RolloutEdit e))) s = s\<lparr>fe_modal := RolloutModal c1\<rparr>"
    "mo_mounted (dp_modal c1)" "mo_waiting (dp_modal c1) = mo_waiting (dp_modal c)"
    using fe_dialog_step [OF Cons.prems(1,2), of h "RolloutEdit e" u now] by (auto simp: on_form_def)
  then show ?case using Cons.IH [of "s\<lparr>fe_modal := RolloutModal c1\<rparr>" c1] Cons.prems(2) by simp
qed

lemma fe_created:
  assumes "fe_modal s = RolloutModal c" "mo_waiting (dp_modal c) \<noteq> []"
    and "s1 = fe_step h u now (RolloutEnv (RolloutAnswer (Inr i))) s"
  shows "fe_services s1 = rollout_created i (fe_services s) \<and> fe_modal s1 = NoModal \<and> fe_page s1 = page_tick (fe_page s)"
proof -
  have d: "dialog_open (sv_dialog (rollout_created i (fe_services s))) = None" "bus_n (sv_bus (rollout_created i (fe_services s))) \<noteq> bus_n (sv_bus (fe_services s))"
    by (simp_all add: rollout_created_def dialog_close_def bump_def)
  have "fe_services (fe_rollout h now (RolloutAnswer (Inr i)) s) = rollout_created i (fe_services s)"
    "fe_page (fe_rollout h now (RolloutAnswer (Inr i)) s) = fe_page s"
    using assms(1,2) by (cases "mo_waiting (dp_modal c)"; simp add: fe_rollout_def on_answer_def Let_def fe_act_page)+
  then show ?thesis using d unfolding assms(3) by (simp add: fe_step_def fe_settle_def mount_modal_def Let_def)
qed

lemma route_of_rollout: "route_component (url_segments [''/rollout'', i]) = Some ''RolloutDetailComponent''" "route_id (url_segments [''/rollout'', i]) = Some i"
  by (simp_all add: route_component_def child_routes_def route_id_def)

text \<open>After a tick, or on a page that is new, the request for the rollout of the route is on the way.\<close>

lemma route_page_rollout:
  assumes "i \<noteq> []"
  shows "\<exists>w. route_page now sv (url_segments [''/rollout'', i]) (page_tick p) = PDetail w \<and> dw_route w = Some i \<and> dw_loading w = Some i"
proof (cases p)
  case (PDetail w)
  then show ?thesis using assms by (auto simp del: rollout_segments simp: route_page_def route_of_rollout navigate_def restart_def split: option.split)
qed (use assms in \<open>simp_all del: rollout_segments add: route_page_def route_of_rollout new_page_def navigate_def restart_def\<close>)

lemma fe_arrives: "s1 = fe_step h u now Arrive s \<Longrightarrow>
    fe_page s1 = route_page now (fe_services s) (url_segments (sv_route (fe_services s))) (fe_page s) \<and> fe_services s1 = fe_services s"
  by (simp add: fe_step_def fe_settle_def fe_arrive_def Let_def)

lemma fe_loads:
  assumes "fe_page s = PDetail w" "dw_loading w = Some (rd_id r)" "s1 = fe_step h u now (PageEv (AtDetail (Fetched (Found r)))) s"
  shows "\<exists>w1. fe_page s1 = PDetail w1 \<and> dw_route w1 = dw_route w \<and> dt_rollout (dw_state w1) = Some r"
  using assms by (simp add: fe_step_def fe_settle_def fetched_def Let_def)

section \<open>Addresses\<close>

definition code_route :: "string list \<Rightarrow> bool" where
  "code_route r \<longleftrightarrow> (\<exists>i. r = [''/rollout'', i]) \<or> r = [''/timeline''] \<or> r \<in> (\<lambda>n. [nl_link n]) ` set shell_nav"

lemma code_route_exists: "code_route r \<Longrightarrow> \<exists>n. route_component (url_segments r) = Some n"
proof -
  have "\<forall>r \<in> insert [''/timeline''] ((\<lambda>n. [nl_link n]) ` set shell_nav). route_component (url_segments r) \<noteq> None"
    unfolding shell_nav_def by code_simp
  then show "code_route r \<Longrightarrow> ?thesis" using route_of_rollout(1) by (auto simp: code_route_def)
qed

lemma code_route_created [simp]: "code_route [''/rollout'', i]" "code_route [''/timeline'']"
  by (simp_all add: code_route_def)

lemma answer_route: "sv_route (mo_services (on_answer failed done_with a w)) = sv_route (mo_services w) \<or>
    (\<exists>b. sv_route (mo_services (on_answer failed done_with a w)) = sv_route (done_with b (mo_services w)))"
  by (auto simp: on_answer_def split: list.split sum.split)

lemma create_route: "sv_route (mo_services (create_step h e w)) = sv_route (mo_services w) \<or> code_route (sv_route (mo_services (create_step h e w)))"
proof (cases e)
  case (RolloutAnswer a)
  then show ?thesis using answer_route [of rollout_failed rollout_created a w] by (auto simp: rollout_created_def)
qed (auto simp: on_form_def on_submit_def on_close_def close_modal_def on_open_lock_def split: prod.split submitted.split)

lemma lock_route: "sv_route (mo_services (lock_step h e w)) = sv_route (mo_services w)"
proof (cases e)
  case (LockAnswer a)
  then show ?thesis using answer_route [of lock_failed "\<lambda>_. lock_saved" a w] by (auto simp: lock_saved_def)
qed (auto simp: on_form_def on_submit_def on_close_def close_modal_def on_open_lock_def split: prod.split submitted.split)

lemma detail_route: "sv_route (dw_services (detail_step can e w)) = sv_route (dw_services w) \<or> code_route (sv_route (dw_services (detail_step can e w)))"
proof (cases e)
  case (Answered ok)
  then show ?thesis by (cases "dw_waiting w"; cases "hd (dw_waiting w)"; cases ok) (simp_all add: detail_answers)
qed (simp_all add: detail_ops Let_def split: option.split fetch.split)

lemma data_route: "sv_route (dv_services (data_step e w)) = sv_route (dv_services w)"
  by (cases e) (simp_all add: data_step_def saveProduct_def saveType_def send_data_def data_answer_def Let_def split: option.split list.split sum.split)

lemma locks_route: "sv_route (kp_services (locks_step e s)) = sv_route (kp_services s)"
  by (cases e) (simp_all add: locks_data_def newLock_def editLock_def confirmRemove_def remove_answer_def split: nat.split)

lemma routed_route: "sv_route (snd (routed_step can e (p, sv))) = sv_route sv \<or> code_route (sv_route (snd (routed_step can e (p, sv))))"
proof (cases p)
  case (PTimeline s)
  show ?thesis
  proof (cases e)
    case (AtTimeline d)
    then show ?thesis using PTimeline by (cases d) (simp_all add: timeline_openRollout_def Let_def)
  qed (simp_all add: PTimeline)
next
  case (PList s)
  show ?thesis
  proof (cases e)
    case (AtList d)
    then show ?thesis using PList by (cases d) (simp_all add: list_open_def list_newRollout_def Let_def)
  qed (simp_all add: PList)
next
  case (PDetail w)
  then show ?thesis using detail_route [of can _ "w\<lparr>dw_services := sv\<rparr>"] by (cases e) (simp_all add: Let_def)
qed (cases e; simp add: data_route locks_route Let_def)+

lemma left_route: "sv_route (snd (left_step a (x, sv))) = sv_route sv \<or> code_route (sv_route (snd (left_step a (x, sv))))"
proof (cases a)
  case (PageAnswer e)
  then show ?thesis using routed_route [of False e] by (cases x) (simp_all add: Let_def)
next
  case (RolloutAnswered b)
  then show ?thesis using create_route [of undefined "RolloutAnswer b"] by (cases x) (simp_all add: Let_def, metis with_services_simps(5))
next
  case (LockAnswered b)
  then show ?thesis using lock_route [of undefined "LockAnswer b"] by (cases x) (simp_all add: Let_def)
qed

lemma fe_rollout_route: "sv_route (fe_services (fe_rollout h now e s)) = sv_route (fe_services s) \<or> code_route (sv_route (fe_services (fe_rollout h now e s)))"
  using create_route [of h e "with_services (fe_services s) _"] by (auto simp: fe_rollout_def Let_def split: mounted.split)

lemma fe_lock_route: "sv_route (fe_services (fe_lock h e s)) = sv_route (fe_services s)"
  by (cases e) (simp_all add: fe_lock_def lock_route Let_def split: mounted.split)

lemma fe_act_route:
  assumes "fe_offers h ltime num u st ps now ev s" "ev \<notin> range UrlEv"
  shows "sv_route (fe_services (fe_act h u now ev s)) = sv_route (fe_services s) \<or> code_route (sv_route (fe_services (fe_act h u now ev s)))"
proof (cases ev)
  case (ShellEv e)
  then show ?thesis by (cases e) (simp_all add: fe_rollout_route fe_lock_route onCreateRollout_def onCreateLock_def)
next
  case (PageEv e)
  then show ?thesis using routed_route by (simp add: Let_def)
next
  case (LeftEv i a)
  then show ?thesis using left_route by (simp add: Let_def)
next
  case (LinkEv l)
  then show ?thesis using assms(1) by (auto simp: fe_offers_def code_route_def)
qed (use assms(2) in \<open>simp_all add: fe_rollout_route fe_lock_route fe_arrive_def Let_def\<close>)

lemma fe_services_settle [simp]: "fe_services (fe_step h u now ev s) = fe_services (fe_act h u now ev s)"
  by (simp add: fe_step_def fe_settle_def Let_def)

lemma route_component_names: "route_component ss = Some n \<Longrightarrow> n \<in> set (map snd child_routes)"
  by (force simp: route_component_def Let_def dest!: find_Some_iff_mem)

lemma route_page_name:
  assumes "route_component ss = Some n"
  shows "page_name (route_page now sv ss p) = n \<and> route_page now sv ss p \<noteq> PBlank \<and> (\<forall>w. route_page now sv ss p = PDetail w \<longrightarrow> dw_route w = route_id ss)"
proof -
  have "n \<in> set (map snd child_routes)" by (rule route_component_names [OF assms])
  then show ?thesis using assms
    by (cases p) (auto simp: route_page_def new_page_def child_routes_def navigate_def restart_def split: option.split)
qed

section \<open>Properties\<close>

text \<open>
  C10. Reading is safe in the whole application: a user whose session at no moment gives the right to edit can follow every link, enter every address and
  use everything that is offered on every page, and whatever arrives meanwhile, no dialog is opened, no page sends a change and none is waiting for an
  answer; the shell offers no button then.
\<close>

theorem reader_changes_nothing:
  assumes "fe_reach h ltime num False s"
  shows "dialog_open (sv_dialog (fe_services s)) = None \<and> fe_modal s = NoModal \<and> page_writes (fe_page s) = 0 \<and> \<not> page_waits (fe_page s) \<and>
    fe_left s = [] \<and> (\<forall>u st ps. canEdit u \<or> offered_list (fe_view h ltime u st ps s) = {})"
  using fe_reach_inv [OF assms] reader_sees_no_button [of s] reader_page quiet_page by (auto simp: fe_inv_def)

definition anonymous :: session where
  "anonymous = \<lparr>user = None, loaded = True\<rparr>"

definition editor :: session where
  "editor = \<lparr>user = Some \<lparr>su_email = ''eve@example.org'', su_name = ''Eve'', su_initials = ''E'', su_role = Admin, su_groups = []\<rparr>, loaded = True\<rparr>"

theorem reader_changes_nothing_witness:
  "page_writes (fe_page (fe_step utc_host anonymous 0 (PageEv (AtDetail (Fetched (Found (example_rollout ''r1''))))) (fe_step utc_host anonymous 0 Arrive (fe_start [''rollout'', ''r1''])))) = 0"
proof -
  let ?h = utc_host and ?t = "\<lambda>_ _. []" and ?n = "\<lambda>_. []"
  let ?s = "fe_step ?h anonymous 0 Arrive (fe_start [''rollout'', ''r1''])"
  have u: "\<not> canEdit anonymous" by (simp add: anonymous_def canEdit_def isAdmin_def session_role_def)
  have page: "\<exists>w. fe_page ?s = PDetail w \<and> dw_loading w = Some ''r1''"
    by (simp add: fe_step_def fe_settle_def fe_arrive_def fe_start_def route_page_def route_component_def child_routes_def url_segments_def route_id_def
        new_page_def navigate_def restart_def Let_def)
  have "fe_reach ?h ?t ?n False ?s" by (rule fe_reach.step [OF fe_reach.start]) (simp_all add: u fe_offers_def)
  then have "fe_reach ?h ?t ?n False (fe_step ?h anonymous 0 (PageEv (AtDetail (Fetched (Found (example_rollout ''r1''))))) ?s)"
    by (rule fe_reach.step) (use u page in \<open>auto simp: fe_offers_def page_event_def example_rollout_def\<close>)
  from reader_changes_nothing [OF this] show ?thesis by simp
qed

text \<open>
  C33. There are no dead links: whenever something that the frontend offers, or an answer that arrives, changes the address, the new address has a
  route; and when the navigation ends, its component is on the screen, for an address of a rollout the page with the id of that address.
\<close>

theorem navigation_arrives:
  assumes "fe_offers h ltime num u st ps now ev s" "ev \<notin> range UrlEv" "s1 = fe_step h u now ev s"
    and "ss = url_segments (sv_route (fe_services s1))" "sv_route (fe_services s1) \<noteq> sv_route (fe_services s)" "s2 = fe_step h v later Arrive s1"
  shows "route_component ss = Some (page_name (fe_page s2)) \<and> fe_page s2 \<noteq> PBlank \<and>
    (\<forall>w. fe_page s2 = PDetail w \<longrightarrow> dw_route w = route_id ss)"
proof -
  have "sv_route (fe_services s1) = sv_route (fe_services s) \<or> code_route (sv_route (fe_services s1))"
    using fe_act_route [OF assms(1,2)] by (simp add: assms(3))
  then obtain n where "route_component ss = Some n" using assms(5) code_route_exists by (auto simp: assms(4))
  then show ?thesis using route_page_name fe_arrives [OF assms(6)] by (simp add: assms(4))
qed

theorem navigation_arrives_witness:
  "page_name (fe_page (fe_step utc_host anonymous 0 Arrive (fe_step utc_host anonymous 0 (LinkEv ''/locks'') (fe_start [])))) = ''LocksViewComponent''"
proof -
  let ?s = "fe_start []" and ?t = "\<lambda>_ _. []" and ?n = "\<lambda>_. []"
  let ?s1 = "fe_step utc_host anonymous 0 (LinkEv ''/locks'') ?s"
  have "fe_offers utc_host ?t ?n anonymous Offline [] 0 (LinkEv ''/locks'') ?s" by (simp add: fe_offers_def shell_nav_def)
  then have "route_component (url_segments (sv_route (fe_services ?s1))) = Some (page_name (fe_page (fe_step utc_host anonymous 0 Arrive ?s1)))"
    by (rule navigation_arrives [OF _ _ refl refl _ refl, THEN conjunct1]) (auto simp: fe_start_def)
  moreover have "route_component (url_segments [''/locks'']) = Some ''LocksViewComponent''" by code_simp
  ultimately show ?thesis by simp
qed

end
