(* ===== verification/Spec2Isabelle.thy ===== *)
theory Spec2Isabelle
  imports RR_ScheduleRules RR_Live RR_Session RR_ListView RR_Timeline RR_Panels RR_MasterData RR_App
    RR_Create RR_Detail RR_RolloutList RR_RolloutTimeline RR_DataPage RR_Frame RR_MockTeams RR_Docs
    RR_ExportApp RR_Print RR_Frontend
begin

text \<open>
  ReleaseRadar plans and tracks software rollouts. The repository holds an Angular frontend, a Go
  backend, and the React prototype of the user interface under \<open>src/design/project\<close>. This development
  models the services, the pages and the dialogs of the frontend with their templates, the whole current prototype, its exported
  copy and its print page, and the stand-in for Microsoft Teams that the end-to-end tests use.

  \<^bold>\<open>Parts, theories and sources.\<close>

  \<^item> \<open>RR_Prelude\<close>: strings, numbers and array idioms of the sources. A string is its UTF-8 bytes; case
    mapping and trimming are the ASCII cases. Whole numbers are \<open>int\<close>, quotients are \<open>rat\<close>.
  \<^item> \<open>RR_Date\<close>: the calendar and local time over a host (the offset of the time zone at every instant is a
    parameter; what a property needs of it is a hypothesis, and \<open>utc_host\<close> is its instance in the witnesses).
  \<^item> \<open>RR_ScheduleRules\<close> (\<open>frontend/src/app/core/schedule-rules.ts\<close>): Easter, the holidays of Bern and the
    warnings for a day. Easter agrees with the ecclesiastical rule stated independently, the holiday map
    refines a table of civil days, and the warnings are silent exactly on the days that need none.
  \<^item> \<open>RR_Live\<close> (\<open>core/live.service.ts\<close>, \<open>core/refresh.bus.ts\<close>): the live channel as an event machine with its timers
    and sockets; one socket, no leak after \<open>disconnect\<close>, one refetch for a burst, bounds of the backoff.
  \<^item> \<open>RR_Session\<close> (\<open>core/auth\<close>, \<open>app.config.ts\<close>, \<open>core/dialog.store.ts\<close>): the session, the interceptor that ends
    it, the start of the application, and the dialog store.
  \<^item> \<open>RR_Stage\<close> (\<open>core/stage.ts\<close>): reading and printing of points in time, and the plan of the stages of a rollout;
    a printed time reads back, the plan has one stage per entry at the base plus its delay, and hours survive the
    conversion to nanoseconds.
  \<^item> \<open>RR_Api\<close> (\<open>core/api/api.service.ts\<close>, \<open>core/models\<close>): the documents, the request of every call, the text of an
    error, and the record of the services that a component is given.
  \<^item> \<open>RR_Create\<close> (\<open>features/create\<close>): both dialogs as forms with their events. The locale \<open>submit_form\<close> is what a form
    promises (sending marks it, a marked form refuses), \<open>dialog_events\<close> extends it with the answers; the dialogs are
    its interpretations \<open>rollout_dialog\<close> and \<open>lock_dialog\<close>. What is sent is the plan of the chosen type, at most one
    request is under way, and a lock that is opened and saved unchanged keeps its times, but for the hour that is repeated in autumn.
  \<^item> \<open>RR_Detail\<close> (\<open>features/rollout-detail\<close>): the page of a rollout with its requests, as the states its user can
    reach, also while the right to edit comes and goes; at most one change is under way, failures carry a reason, the locks shown are those that
    overlap, and the progress stays within its bounds.
  \<^item> \<open>RR_RolloutList\<close> (\<open>features/list\<close>), \<open>RR_RolloutTimeline\<close> (\<open>features/timeline\<close>): rows, filters, groups and
    counts of the list; columns, pills, connectors and overlays of the timeline. Where something is drawn depends on whether the clock was changed
    since the first day of the window, which the theorems say.
  \<^item> \<open>RR_DataPage\<close> (\<open>features/master-data\<close>): the page of products and rollout types with its drafts and saves.
  \<^item> \<open>RR_Frame\<close> (\<open>shared\<close>, \<open>features/locks\<close>, \<open>features/contacts\<close>, \<open>app.routes.ts\<close>): the frame with its navigation,
    the routes, the focus trap, the icons and badges, and the page of the locks.
  \<^item> \<open>RR_Views\<close> (the templates of \<open>features/create\<close>, \<open>features/list\<close>, \<open>features/locks\<close>, \<open>features/contacts\<close>, \<open>features/docs\<close>
    and \<open>shared/ui\<close>), \<open>RR_DetailView\<close> (\<open>rollout-detail.component.html\<close>), \<open>RR_DataView\<close> (\<open>master-data-view.component.html\<close>),
    \<open>RR_ShellView\<close> (\<open>shell.component.html\<close>, \<open>timeline-view.component.html\<close>): the markup of the frontend as views of the state. The
    conditions under which the models of the pages offer an event are proved to be those of the templates, the internal texts
    of a rollout do not influence what others than administrators see, and a click runs one handler at most.
  \<^item> \<open>RR_Dialogs\<close>: both dialogs of the frontend with their templates, as interpretations \<open>create_dialog\<close> and \<open>lock_page\<close> of
    \<open>ui_component\<close>: whatever a user does with the offered fields and buttons, the requests that are sent are well formed.
  \<^item> \<open>RR_Frontend\<close> (\<open>app.routes.ts\<close>, \<open>shell.component.html\<close>): the frontend as one machine, composed of the pages, the dialogs and the shell, with links,
    addresses, navigations that end, ticks of the refresh bus and late answers. A user who may only read changes nothing, no address that the
    code sets is dead, and this theory shows the way from the dialog to the page of the rollout that it created.
  \<^item> \<open>RR_Vdom\<close>: the elements that the components of the prototype return, with their handlers; \<open>offered\<close> is the
    set of actions that a user can trigger on a rendered tree (a button or input that is not disabled, the
    values of a select), \<open>clicked\<close> adds bubbling. The locale \<open>ui_component\<close> is the contract of a component with
    state: an invariant that the start satisfies and every offered action keeps. \<open>ui_reach\<close> is what its user
    can reach.
  \<^item> \<open>RR_Data\<close> (\<open>data.js\<close>), \<open>RR_Shell\<close> (\<open>shell.jsx\<close>), \<open>RR_ListView\<close> (\<open>list-view.jsx\<close>), \<open>RR_Timeline\<close>
    (\<open>timeline.jsx\<close>), \<open>RR_Panels\<close> (\<open>panels.jsx\<close>): the tables, the shared elements, the list, the timeline, and the
    panel and dialogs of a rollout. Views that dereference a lookup are \<open>None\<close> where the code throws; the
    completeness theorems show that they render and offer exactly the right rollouts. The panel keeps its state when another rollout is shown,
    as the page does (\<open>exec_run\<close>).
  \<^item> \<open>RR_MasterDetail\<close>: what all editors of \<open>master-data.jsx\<close> share, and their contract as the locales
    \<open>master_detail\<close> (the list operations refine a map from ids), \<open>md_editor\<close> (a sublocale of \<open>ui_component\<close>)
    and \<open>entry_editor\<close> (editors that only change and remove). \<open>RR_Products\<close>, \<open>RR_RolloutTypes\<close>, \<open>RR_Editors\<close> (stages,
    filters, actors, locks) and \<open>RR_Channels\<close> interpret them. \<open>RR_Template\<close> has the preview of a message
    template with the proof that no template brings markup into the page. \<open>RR_Contacts\<close> is the contacts card
    of \<open>timeline.jsx\<close>.
  \<^item> \<open>RR_MasterData\<close>: the page with the tabs, composed of the editors: a reachable state of the page holds a
    reachable state of the editor of the open tab.
  \<^item> \<open>RR_App\<close> (\<open>app.jsx\<close>): navigation, drawer, full page and the route in the hash, as a step relation with
    the queue of \<open>hashchange\<close> events; this theory adds what spans the views, the panel and the root.
  \<^item> \<open>RR_Highlight\<close>, \<open>RR_DocsText\<close>, \<open>RR_Tokens\<close>, \<open>RR_Docs\<close> (\<open>docs.jsx\<close>): the code highlighter with its regular expressions as
    matchers, the content of the documentation, the list of API tokens and the dialog that creates one, and the
    page. Highlighting only adds markup, every entry of the contents leads to its section, revoking is exact, and the
    tab of the API keys cannot be opened.
  \<^item> \<open>RR_MockTeams\<close> (\<open>mock-teams/server.js\<close>): the handlers of the server with requests that wait for their body; a valid card is
    stored first among the messages, everything else is answered with an error and changes nothing.
  \<^item> \<open>RR_Export\<close>, \<open>RR_ExportTimeline\<close>, \<open>RR_ExportPanels\<close>, \<open>RR_ExportApp\<close> (\<open>design/project/export/src\<close>): the exported copy of the prototype,
    an older version with its own tables, timeline, drawer and dialogs; its data are those of the current prototype, and in every
    reachable state the whole page renders; \<open>modern_type\<close> says which current type an older one stands for and belongs to that comparison, not to the code. \<open>RR_Print\<close> (\<open>print-app.jsx\<close>): the print page with its mounted components.

  \<^bold>\<open>State and operations.\<close> Each \<open>useState\<close> is a field of a record, each handler an operation on the record,
  and the JSX of a component one definition with its attributes and handlers in the order of the source.
  Handlers that call the parent are actions of the parent. Timers, observers and events of the browser are
  actions of the surroundings. A component of the frontend is the record of its signals, with \<open>computed\<close> values as
  functions of it; a page that talks to the server also records the requests it sent and those without an
  answer, an answer is an event, and \<open>detail_offers\<close>, \<open>data_offers\<close> and \<open>locks_offers\<close> are the conditions and \<open>disabled\<close>
  attributes of the templates in the terms of the state. They are not further translations of the code: \<open>detail_view_offers\<close>, \<open>data_view_offers\<close> and
  \<open>locks_page_offers\<close> prove that the markup raises exactly these events, so the reachable states are those of the templates.

  \<^bold>\<open>Assumptions.\<close> The clock of an editor starts at 10 or 100 milliseconds after the epoch at the earliest and
  advances by one with every added entry, so that two ids are not taken in the same millisecond. Number
  inputs deliver whole numbers. What an object inherits from its prototype is the parameter \<open>proto\<close> of the
  template preview; the text of the current time is the parameter \<open>clock\<close>. No model uses fuel: every function
  terminates by structural recursion or a measure on the length of a text.

  A point in time is text in one of the forms that the program itself produces or reads (a local date and time
  to the minute, seconds and milliseconds with \<open>Z\<close>, years of four digits); other forms are outside the model.

  The documentation page takes the results of \<open>Math.random\<close> as the parameter \<open>rand\<close>, and the mock of Teams takes
  \<open>JSON.parse\<close> and \<open>JSON.stringify\<close> as \<open>parse\<close> and \<open>stringify\<close>; no property needs more of them.

  The texts of local times and dates and of numbers that need not be whole are parameters of the views (\<open>ltime\<close>, \<open>ltext\<close>, \<open>num\<close>).

  \<^bold>\<open>Not modelled.\<close> The backend, which is in Go, and its database; tests, build files and other infrastructure; style sheets, layout,
  focus (but for the focus trap) and the network below the requests. \<open>main.ts\<close> and the lines that mount the prototypes into their pages
  only call the libraries. The branches of the Angular timeline for documents of the prototype (offsets in days instead of
  times) are never reached by the documents of the API and have no counterpart.
\<close>

section \<open>Opening rollouts\<close>

lemma exec_ready_ROLLOUTS: "r \<in> set ROLLOUTS \<Longrightarrow> \<exists>ty. exec_ready r ty"
proof -
  have "list_all (\<lambda>r. case getType (ro_typeId r) of Some ty \<Rightarrow> exec_ready r ty | None \<Rightarrow> False) ROLLOUTS"
    unfolding exec_ready_def resolves_def by code_simp
  then show "r \<in> set ROLLOUTS \<Longrightarrow> \<exists>ty. exec_ready r ty" by (fastforce simp: list_all_iff split: option.splits)
qed

lemma panel_renders: "r \<in> set ROLLOUTS \<Longrightarrow> ExecutePanel h org path isPage ls r st \<noteq> None"
  using exec_ready_ROLLOUTS ExecutePanel_renders by blast

text \<open>
  C20. A copied link opens what it was copied from: for every rollout, starting the application at the link
  that the panel copies shows the page of that rollout, and the page renders.
\<close>

theorem share_link_opens:
  assumes "r \<in> set ROLLOUTS" "CHR ''#'' \<notin> set origin" "CHR ''#'' \<notin> set pathname"
  shows "app_page (app_start (url_fragment (shareLink origin pathname r))) = [ExecuteEl ''page'' r] \<and>
    ExecutePanel h origin pathname True LOCKS_RAW r (exec_init r) \<noteq> None"
  unfolding url_fragment_shareLink [OF assms(2,3)]
  using find_rollout_id [OF assms(1)] parseHash_rollout [of "ro_id r"] panel_renders [OF assms(1)]
  by (simp add: app_page_def detailRollout_def app_start_def)

theorem share_link_opens_witness:
  "app_page (app_start (url_fragment (shareLink ''https://radar.example'' ''/app/'' (ROLLOUTS ! 1)))) = [ExecuteEl ''page'' (ROLLOUTS ! 1)]"
proof -
  have "ROLLOUTS ! 1 \<in> set ROLLOUTS" by (simp add: ROLLOUTS_def)
  from share_link_opens [OF this, of "''https://radar.example''" "''/app/''"] show ?thesis by simp
qed

text \<open>
  The views and the drawer fit together: in a state where no page of a rollout is open, every rollout
  that the timeline or the list offers to open is one of the rollouts, opening it shows the drawer for
  it, and the panel renders.
\<close>

theorem offered_rollouts_open:
  assumes "detailRollout st = None"
    and "(\<exists>n. TimelineView h ROLLOUTS LOCKS_RAW (openId st) ts = Some n \<and> TOpen i \<in> offered n) \<or>
         (\<exists>n. ListView h ROLLOUTS (openId st) lst = Some n \<and> LOpen i \<in> offered n)"
  shows "\<exists>r \<in> set ROLLOUTS. i = ro_id r \<and> app_drawer (st\<lparr>openId := Some i\<rparr>) = [ExecuteEl ''drawer'' r] \<and>
    ExecutePanel h org path False LOCKS_RAW r (exec_init r) \<noteq> None"
proof -
  from assms(2) have "\<exists>r \<in> set ROLLOUTS. i = ro_id r"
  proof
    assume "\<exists>n. TimelineView h ROLLOUTS LOCKS_RAW (openId st) ts = Some n \<and> TOpen i \<in> offered n"
    then obtain n where n: "TimelineView h ROLLOUTS LOCKS_RAW (openId st) ts = Some n" "TOpen i \<in> offered n" by blast
    have "TOpen i \<noteq> pop_to_timeline p" for p by (cases p) simp_all
    then show ?thesis using subsetD [OF TimelineView_offers(1) [OF n(1)] n(2)] by (auto simp: timeline_rollouts_def)
  next
    assume "\<exists>n. ListView h ROLLOUTS (openId st) lst = Some n \<and> LOpen i \<in> offered n"
    then show ?thesis using ListView_offers_open list_rows_cell by blast
  qed
  then obtain r where r: "r \<in> set ROLLOUTS" "i = ro_id r" by blast
  have "app_drawer (st\<lparr>openId := Some i\<rparr>) = [ExecuteEl ''drawer'' r]"
    using assms(1) find_rollout_id [OF r(1)] by (simp add: r(2) app_drawer_def detailRollout_def openRolloutOf_def)
  then show ?thesis using r panel_renders by blast
qed

theorem offered_rollouts_open_witness:
  "app_drawer ((app_start [])\<lparr>openId := Some (ro_id (hd ROLLOUTS))\<rparr>) \<noteq> []"
proof -
  have d: "detailRollout (app_start []) = None"
    by (simp add: detailRollout_def app_start_def parseHash_def location_hash_def find_rollout_def)
  have rs: "\<forall>r \<in> set ROLLOUTS. resolves r" using resolves_seed by (simp add: list_all_iff)
  then obtain labels tracks where "row_labels (timeline_rollouts ROLLOUTS timeline_init) None = Some labels"
    "row_tracks utc_host (timeline_rollouts ROLLOUTS timeline_init) (addDays utc_host (TODAY utc_host) (tl_offset timeline_init)) None = Some tracks"
    using row_labels_render row_tracks_render by (metis (no_types, lifting) filter_is_subset subset_eq timeline_rollouts_def)
  then obtain n where n: "TimelineView utc_host ROLLOUTS LOCKS_RAW None timeline_init = Some n" by (simp add: TimelineView_def Let_def)
  have "hd ROLLOUTS \<in> set (timeline_rollouts ROLLOUTS timeline_init)"
    by (simp add: timeline_rollouts_def timeline_init_def emptyFilter_def filterMatch_def ROLLOUTS_def)
  then have "TOpen (ro_id (hd ROLLOUTS)) \<in> offered n" using TimelineView_offers(2) [OF n] by blast
  then show ?thesis
    using offered_rollouts_open [OF d, of utc_host timeline_init "ro_id (hd ROLLOUTS)"] n by (auto simp: app_start_def)
qed

section \<open>From the dialog to the page of the rollout\<close>

lemma page_repeats_dialog_warnings:
  assumes "preview h f = Some ss" "rd_stages r = ss" "dt_rollout s = Some r" "scheduleAdvisories h now f = Some advice"
  shows "set (detail_advisories h s) \<subseteq> set advice"
  using assms by (fastforce simp: scheduleAdvisories_def detail_advisories_def stage_advisories_def split: option.splits)

text \<open>
  C16. Creating a rollout leads to its page. When the button of the open dialog is pressed and the stages can be computed, the frontend sends one request
  with these stages, whatever is typed into the form meanwhile. When the server answers with an id, the dialog is gone, the views refresh, and when the
  navigation ends the page on the screen is the one of that id, waiting for that rollout, whichever page was there before; once it arrives with the stages that were sent, the
  page shows it, and every schedule warning on the page was shown in the dialog.
\<close>

theorem created_rollout_opens:
  assumes dialog: "fe_modal s = RolloutModal c" "dialog_open (sv_dialog (fe_services s)) = Some DRollout"
      "mo_mounted (dp_modal c)" "mo_waiting (dp_modal c) = []" "mo_form (dp_modal c) = f"
    and form: "canSubmit f" "preview h f = Some ss" "scheduleAdvisories h t f = Some advice"
    and answer: "i \<noteq> []" "rd_id r = i" "rd_stages r = ss"
    and run: "s1 = fe_step h u t1 (ShellEv (ShellChild RolloutSubmit)) s"
      "s2 = fold (\<lambda>e. fe_step h u t2 (ShellEv (ShellChild (RolloutEdit e)))) es s1"
      "s3 = fe_step h u t3 (RolloutEnv (RolloutAnswer (Inr i))) s2" "s4 = fe_step h u t4 Arrive s3"
      "s5 = fe_step h u t5 (PageEv (AtDetail (Fetched (Found r)))) s4"
  shows "(\<exists>d b. fe_modal s2 = RolloutModal d \<and> mo_waiting (dp_modal d) = [api_createRollout b] \<and> rb_stages b = ss) \<and>
    dialog_open (sv_dialog (fe_services s3)) = None \<and> fe_modal s3 = NoModal \<and>
    bus_n (sv_bus (fe_services s3)) = bus_n (sv_bus (fe_services s)) + 1 \<and>
    (\<exists>w. fe_page s4 = PDetail w \<and> dw_route w = Some i \<and> dw_loading w = Some i) \<and>
    (\<exists>w. fe_page s5 = PDetail w \<and> dw_route w = Some i \<and> dt_rollout (dw_state w) = Some r \<and> set (detail_advisories h (dw_state w)) \<subseteq> set advice)"
proof -
  obtain c1 b where s1: "s1 = s\<lparr>fe_modal := RolloutModal c1\<rparr>" "mo_mounted (dp_modal c1)" "mo_waiting (dp_modal c1) = [api_createRollout b]" "rb_stages b = ss"
    using fe_submits [OF dialog(1-4), of h ss u t1] dialog(5) form(1,2) run(1) by auto
  then have "fe_modal s1 = RolloutModal c1" "dialog_open (sv_dialog (fe_services s1)) = Some DRollout" using dialog(2) by simp_all
  from fe_edits [OF this s1(2), of h u t2 es]
  obtain d where s2: "s2 = s\<lparr>fe_modal := RolloutModal d\<rparr>" "mo_waiting (dp_modal d) = [api_createRollout b]" using s1 run(2) by auto
  then have s3: "fe_services s3 = rollout_created i (fe_services s)" "fe_modal s3 = NoModal" "fe_page s3 = page_tick (fe_page s)"
    using fe_created [of s2 d s3 h u t3 i] run(3) by simp_all
  then have route: "sv_route (fe_services s3) = [''/rollout'', i]" by (simp add: rollout_created_def)
  obtain w where w: "fe_page s4 = PDetail w" "dw_route w = Some i" "dw_loading w = Some i"
    using fe_arrives [OF run(4)] route_page_rollout [OF answer(1), of t4 "fe_services s3" "fe_page s"] by (auto simp del: rollout_segments simp: route s3(3))
  obtain v where v: "fe_page s5 = PDetail v" "dw_route v = Some i" "dt_rollout (dw_state v) = Some r"
    using fe_loads [OF w(1) _ run(5)] w answer(2) by auto
  have "set (detail_advisories h (dw_state v)) \<subseteq> set advice" using page_repeats_dialog_warnings [OF form(2) answer(3) v(3) form(3)] .
  moreover have "\<exists>d b. fe_modal s2 = RolloutModal d \<and> mo_waiting (dp_modal d) = [api_createRollout b] \<and> rb_stages b = ss" using s1(4) s2 by auto
  ultimately show ?thesis using s2(1) s3 w v by (simp add: rollout_created_def dialog_close_def bump_def)
qed

definition dialog_shown :: frontend where
  "dialog_shown = \<lparr>fe_services = example_services, fe_page = PDocs,
     fe_modal = RolloutModal \<lparr>dp_modal = open_modal example_form example_services, dp_shown = None, dp_evals = 0\<rparr>, fe_left = []\<rparr>"

theorem created_rollout_opens_witness:
  "\<exists>w. fe_page (fold (fe_step utc_host editor 0) [ShellEv (ShellChild RolloutSubmit), RolloutEnv (RolloutAnswer (Inr ''r1'')), Arrive] dialog_shown) = PDetail w \<and>
     dw_route w = Some ''r1'' \<and> dw_loading w = Some ''r1''"
proof -
  let ?c = "\<lparr>dp_modal = open_modal example_form example_services, dp_shown = None, dp_evals = 0\<rparr>"
  obtain ss where ss: "preview utc_host example_form = Some ss" using example_preview by blast
  then obtain advice where advice: "scheduleAdvisories utc_host 0 example_form = Some advice" by (simp add: scheduleAdvisories_def)
  have can: "canSubmit example_form" by code_simp
  have dialog: "fe_modal dialog_shown = RolloutModal ?c" "dialog_open (sv_dialog (fe_services dialog_shown)) = Some DRollout"
    "mo_mounted (dp_modal ?c)" "mo_waiting (dp_modal ?c) = []" "mo_form (dp_modal ?c) = example_form"
    by (simp_all add: dialog_shown_def example_services_def openRollout_def open_modal_def)
  have r: "''r1'' \<noteq> []" "rd_id ((example_rollout ''r1'')\<lparr>rd_stages := ss\<rparr>) = ''r1''" "rd_stages ((example_rollout ''r1'')\<lparr>rd_stages := ss\<rparr>) = ss"
    by (simp_all add: example_rollout_def)
  show ?thesis
    using created_rollout_opens [where u = editor and ?t1.0 = 0 and ?t2.0 = 0 and ?t3.0 = 0 and ?t4.0 = 0 and ?t5.0 = 0 and es = "[]", OF dialog can ss advice r refl refl refl refl refl] by simp
qed

end
